(* ===== verification/Prelude.thy ===== *)
theory Prelude
  imports Main "HOL-Library.Log_Nat"
begin

text \<open>
  What every component of the model shares: the exceptions of the Python code as a datatype,
  fallible computations as values of a sum type with their sequencing, the collections of
  simplification rules the component theories add to, and generic facts on lists.
\<close>

section \<open>Exceptions and fallible computations\<close>

text \<open>
  A Python function that may raise returns a value of \<open>exn + 'a\<close>. The constructors are the
  exception classes the modelled code raises or catches; those with a message the code reads
  again carry it. \<open>HTTPStatusError\<close> carries the status code and the \<open>detail\<close> of the response
  body, if the body has one. \<open>CancelledError\<close> is not an \<open>Exception\<close> in Python:
  \<open>is_exception\<close> tells what an \<open>except Exception\<close> clause catches.
\<close>

datatype exn =
    TypeError
  | ValueError string
  | KeyError
  | IndexError
  | AttributeError
  | ZeroDivisionError
  | OverflowError
  | InvalidOperation
  | StatisticsError
  | RuntimeError string
  | BybitPrivateError string
  | BybitMarketDataError string
  | Mt5BridgeError string
  | PreSubmissionBlocked string
  | ConnectError
  | TimeoutError
  | HTTPStatusError int "string option"
  | HTTPException int string
  | SQLAlchemyError
  | CancelledError

type_synonym 'a res = "exn + 'a"

fun is_exception :: "exn \<Rightarrow> bool" where
  "is_exception CancelledError = False"
| "is_exception _ = True"

definition bindE :: "'a res \<Rightarrow> ('a \<Rightarrow> 'b res) \<Rightarrow> 'b res" where
  "bindE r f = (case r of Inl e \<Rightarrow> Inl e | Inr x \<Rightarrow> f x)"

definition guardE :: "bool \<Rightarrow> exn \<Rightarrow> 'a res \<Rightarrow> 'a res" where
  \<comment> \<open>\<open>if b: raise e\<close> followed by the rest of the function\<close>
  "guardE b e r = (if b then Inl e else r)"

definition tryE :: "'a res \<Rightarrow> (exn \<Rightarrow> bool) \<Rightarrow> (exn \<Rightarrow> 'a res) \<Rightarrow> 'a res" where
  \<comment> \<open>\<open>try: r / except <classes of p>: h\<close>\<close>
  "tryE r p h = (case r of Inl e \<Rightarrow> if p e then h e else Inl e | Inr x \<Rightarrow> Inr x)"

fun mapE :: "('a \<Rightarrow> 'b res) \<Rightarrow> 'a list \<Rightarrow> 'b list res" where
  "mapE f [] = Inr []"
| "mapE f (x # xs) = bindE (f x) (\<lambda>y. bindE (mapE f xs) (\<lambda>ys. Inr (y # ys)))"

fun foldE :: "('s \<Rightarrow> 'a \<Rightarrow> 's res) \<Rightarrow> 's \<Rightarrow> 'a list \<Rightarrow> 's res" where
  "foldE f s [] = Inr s"
| "foldE f s (x # xs) = bindE (f s x) (\<lambda>s'. foldE f s' xs)"

fun filterE :: "('a \<Rightarrow> bool res) \<Rightarrow> 'a list \<Rightarrow> 'a list res" where
  \<comment> \<open>a list comprehension whose condition may raise\<close>
  "filterE p [] = Inr []"
| "filterE p (x # xs) = bindE (p x) (\<lambda>b. bindE (filterE p xs) (\<lambda>ys. Inr (if b then x # ys else ys)))"

fun anyE :: "('a \<Rightarrow> bool res) \<Rightarrow> 'a list \<Rightarrow> bool res" where
  \<comment> \<open>\<open>any(...)\<close> stops at the first true element, so a later element cannot raise\<close>
  "anyE p [] = Inr False"
| "anyE p (x # xs) = bindE (p x) (\<lambda>b. if b then Inr True else anyE p xs)"

named_theorems res_simps \<open>unfolding rules for fallible computations\<close>
named_theorems py_simps \<open>evaluation of Python values\<close>
named_theorems model_defs \<open>definitions of the model a proof may unfold\<close>

lemma bindE_simps [simp, res_simps]:
  "bindE (Inl e) f = Inl e"
  "bindE (Inr x) f = f x"
  by (simp_all add: bindE_def)

lemma guardE_simps [simp, res_simps]:
  "guardE True e r = Inl e"
  "guardE False e r = r"
  by (simp_all add: guardE_def)

lemma tryE_simps [simp, res_simps]:
  "tryE (Inr x) p h = Inr x"
  "tryE (Inl e) p h = (if p e then h e else Inl e)"
  by (simp_all add: tryE_def)

lemma bindE_Inr_iff: "bindE r f = Inr y \<longleftrightarrow> (\<exists>x. r = Inr x \<and> f x = Inr y)"
  by (cases r) auto

lemma bindE_InrE [elim!]:
  assumes "bindE r f = Inr y"
  obtains x where "r = Inr x" and "f x = Inr y"
  using assms by (auto simp: bindE_Inr_iff)

lemma guardE_Inr_iff: "guardE b e r = Inr y \<longleftrightarrow> \<not> b \<and> r = Inr y"
  by (simp add: guardE_def)

lemma guardE_InrE [elim!]:
  assumes "guardE b e r = Inr y"
  obtains "\<not> b" and "r = Inr y"
  using assms by (auto simp: guardE_Inr_iff)

lemma bindE_assoc: "bindE (bindE r f) g = bindE r (\<lambda>x. bindE (f x) g)"
  by (cases r) auto

lemma mapE_length: "mapE f xs = Inr ys \<Longrightarrow> length ys = length xs"
  by (induction xs arbitrary: ys) auto

lemma mapE_nth: "mapE f xs = Inr ys \<Longrightarrow> i < length xs \<Longrightarrow> f (xs ! i) = Inr (ys ! i)"
proof (induction xs arbitrary: ys i)
  case (Cons x xs)
  then show ?case by (cases i) auto
qed simp

lemma mapE_set: "mapE f xs = Inr ys \<Longrightarrow> y \<in> set ys \<Longrightarrow> \<exists>x \<in> set xs. f x = Inr y"
  by (induction xs arbitrary: ys) auto

lemma foldE_invariant:
  assumes "foldE f s xs = Inr t" and "I s"
    and "\<And>s x s'. x \<in> set xs \<Longrightarrow> I s \<Longrightarrow> f s x = Inr s' \<Longrightarrow> I s'"
  shows "I t"
  using assms by (induction xs arbitrary: s) auto

lemma filterE_set: "filterE p xs = Inr ys \<Longrightarrow> y \<in> set ys \<Longrightarrow> y \<in> set xs \<and> p y = Inr True"
  by (induction xs arbitrary: ys) (auto split: if_splits)

lemma anyE_False: "anyE p xs = Inr False \<Longrightarrow> x \<in> set xs \<Longrightarrow> p x = Inr False"
  by (induction xs) (auto split: if_splits)

lemma anyE_True: "anyE p xs = Inr True \<Longrightarrow> \<exists>x \<in> set xs. p x = Inr True"
  by (induction xs) (auto split: if_splits)

section \<open>Options\<close>

definition or_else :: "'a option \<Rightarrow> 'a \<Rightarrow> 'a" where
  \<comment> \<open>\<open>x if x is not None else d\<close>\<close>
  "or_else x d = (case x of None \<Rightarrow> d | Some y \<Rightarrow> y)"

lemma or_else_simps [simp]: "or_else None d = d" "or_else (Some y) d = y"
  by (simp_all add: or_else_def)

section \<open>Slices\<close>

definition last_n :: "nat \<Rightarrow> 'a list \<Rightarrow> 'a list" where
  \<comment> \<open>\<open>xs[-n:]\<close> for a positive \<open>n\<close>\<close>
  "last_n n xs = drop (length xs - n) xs"

lemma length_last_n [simp]: "length (last_n n xs) = min n (length xs)"
  by (simp add: last_n_def)

lemma set_last_n: "set (last_n n xs) \<subseteq> set xs"
  by (simp add: last_n_def set_drop_subset)

lemma last_n_suffix: "\<exists>ys. xs = ys @ last_n n xs"
  by (metis append_take_drop_id last_n_def)

lemma last_n_all: "length xs \<le> n \<Longrightarrow> last_n n xs = xs"
  by (simp add: last_n_def)

lemma last_last_n: "xs \<noteq> [] \<Longrightarrow> 0 < n \<Longrightarrow> last (last_n n xs) = last xs"
  by (simp add: last_n_def)

definition slice_neg :: "nat \<Rightarrow> nat \<Rightarrow> 'a list \<Rightarrow> 'a list" where
  \<comment> \<open>\<open>xs[-a:-b]\<close> for positive \<open>a\<close> and \<open>b\<close>\<close>
  "slice_neg a b xs = drop (length xs - a) (take (length xs - b) xs)"

lemma set_slice_neg: "set (slice_neg a b xs) \<subseteq> set xs"
  using set_drop_subset set_take_subset by (fastforce simp: slice_neg_def)

lemma length_slice_neg: "a \<le> length xs \<Longrightarrow> b \<le> a \<Longrightarrow> length (slice_neg a b xs) = a - b"
  by (simp add: slice_neg_def)

fun is_type_or_value :: "exn \<Rightarrow> bool" where
  \<comment> \<open>\<open>except (TypeError, ValueError)\<close>; a statistics error is a value error\<close>
  "is_type_or_value TypeError = True"
| "is_type_or_value (ValueError _) = True"
| "is_type_or_value StatisticsError = True"
| "is_type_or_value _ = False"

lemma set_tl_subset: "set (tl xs) \<subseteq> set xs"
  by (cases xs) auto

fun is_value_error :: "exn \<Rightarrow> bool" where
  \<comment> \<open>\<open>except ValueError\<close>\<close>
  "is_value_error (ValueError _) = True"
| "is_value_error StatisticsError = True"
| "is_value_error _ = False"

fun exn_name :: "exn \<Rightarrow> string" where
  \<comment> \<open>\<open>type(exc).__name__\<close>\<close>
  "exn_name TypeError = ''TypeError''"
| "exn_name (ValueError _) = ''ValueError''"
| "exn_name KeyError = ''KeyError''"
| "exn_name IndexError = ''IndexError''"
| "exn_name AttributeError = ''AttributeError''"
| "exn_name ZeroDivisionError = ''ZeroDivisionError''"
| "exn_name OverflowError = ''OverflowError''"
| "exn_name InvalidOperation = ''InvalidOperation''"
| "exn_name StatisticsError = ''StatisticsError''"
| "exn_name (RuntimeError _) = ''RuntimeError''"
| "exn_name (BybitPrivateError _) = ''BybitPrivateError''"
| "exn_name (BybitMarketDataError _) = ''BybitMarketDataError''"
| "exn_name (Mt5BridgeError _) = ''Mt5BridgeError''"
| "exn_name (PreSubmissionBlocked _) = ''PreSubmissionBlocked''"
| "exn_name ConnectError = ''ConnectError''"
| "exn_name TimeoutError = ''TimeoutError''"
| "exn_name (HTTPStatusError _ _) = ''HTTPStatusError''"
| "exn_name (HTTPException _ _) = ''HTTPException''"
| "exn_name SQLAlchemyError = ''SQLAlchemyError''"
| "exn_name CancelledError = ''CancelledError''"

end
