(* ===== verification/Py_Float.thy ===== *)
theory Py_Float
  imports Prelude Complex_Main
begin

text \<open>
  Python's \<open>float\<close>: IEEE 754 binary64 with round-to-nearest-even. A finite value is the rational
  number it denotes, the two infinities and NaN are separate constructors (the sign of zero is
  not kept: no modelled operation reads it). Every arithmetic operation computes the exact
  rational result and rounds it once.
\<close>

section \<open>Rounding a rational to an integer, half to even\<close>

definition rhe :: "rat \<Rightarrow> int" where
  "rhe x = (let f = \<lfloor>x\<rfloor>; d = x - of_int f
            in if d < 1 / 2 then f else if 1 / 2 < d then f + 1
               else if even f then f else f + 1)"

lemma rhe_of_int [simp]: "rhe (of_int n) = n"
  by (simp add: rhe_def)

lemma rhe_0 [simp]: "rhe 0 = 0"
  using rhe_of_int [of 0] by simp

lemma rhe_bounds: "\<lfloor>x\<rfloor> \<le> rhe x" "rhe x \<le> \<lfloor>x\<rfloor> + 1"
  by (auto simp: rhe_def Let_def)

lemma rhe_error: "\<bar>of_int (rhe x) - x\<bar> \<le> 1 / 2"
proof -
  have "of_int \<lfloor>x\<rfloor> \<le> x" and "x < of_int \<lfloor>x\<rfloor> + 1" by linarith+
  then show ?thesis by (auto simp: rhe_def Let_def abs_le_iff)
qed

lemma rhe_mono:
  assumes "x \<le> y" shows "rhe x \<le> rhe y"
proof (cases "\<lfloor>x\<rfloor> = \<lfloor>y\<rfloor>")
  case True
  with assms show ?thesis by (auto simp: rhe_def Let_def)
next
  case False
  from assms have "\<lfloor>x\<rfloor> \<le> \<lfloor>y\<rfloor>" by (rule floor_mono)
  with False have "\<lfloor>x\<rfloor> + 1 \<le> \<lfloor>y\<rfloor>" by simp
  with rhe_bounds(2) [of x] rhe_bounds(1) [of y] show ?thesis by linarith
qed

lemma rhe_minus: "rhe (- x) = - rhe x"
proof (cases "x = of_int \<lfloor>x\<rfloor>")
  case True
  then obtain n where n: "x = of_int n" by blast
  have "rhe (- x) = rhe (of_int (- n))" by (simp add: n)
  also have "\<dots> = - n" by (rule rhe_of_int)
  finally show ?thesis by (simp add: n)
next
  case False
  have lt: "of_int \<lfloor>x\<rfloor> \<le> x" "x < of_int \<lfloor>x\<rfloor> + 1" by linarith+
  have fl: "\<lfloor>- x\<rfloor> = - \<lfloor>x\<rfloor> - 1"
    using False lt by (intro floor_unique) (auto simp: less_le)
  have "even (- \<lfloor>x\<rfloor> - 1) \<longleftrightarrow> odd \<lfloor>x\<rfloor>" by simp
  with fl show ?thesis by (auto simp: rhe_def Let_def)
qed

lemma rhe_unique: "\<bar>of_int n - x\<bar> < 1 / 2 \<Longrightarrow> rhe x = n"
  using rhe_error [of x] by linarith

section \<open>The binary exponent of a positive rational\<close>

definition ilog2 :: "rat \<Rightarrow> int" where
  \<comment> \<open>\<open>2 powi ilog2 x \<le> x < 2 powi (ilog2 x + 1)\<close> for \<open>x > 0\<close>\<close>
  "ilog2 x = (let (p, q) = quotient_of x; e = bitlen p - bitlen q
              in if 2 powi e \<le> x then e else e - 1)"

lemma quotient_of_posD:
  assumes "quotient_of x = (p, q)" and "0 < x"
  shows "0 < p" and "0 < q" and "x = of_int p / of_int q"
proof -
  from assms(1) show q: "0 < q" by (rule quotient_of_denom_pos)
  from assms(1) show xd: "x = of_int p / of_int q" by (rule quotient_of_div)
  from assms(2) q show "0 < p" by (simp add: xd zero_less_divide_iff)
qed

lemma bitlen_sandwich:
  assumes "0 < n"
  shows "2 powi (bitlen n - 1) \<le> (of_int n :: rat)" and "(of_int n :: rat) < 2 powi bitlen n"
proof -
  have pos: "0 < bitlen n" using assms by (metis assms bitlen_eq_zero_iff bitlen_nonneg less_le not_less)
  from bitlen_bounds [OF assms]
  have "2 ^ nat (bitlen n - 1) \<le> n" and "n < 2 ^ nat (bitlen n)" by auto
  then have "of_int (2 ^ nat (bitlen n - 1)) \<le> (of_int n :: rat)"
    and "(of_int n :: rat) < of_int (2 ^ nat (bitlen n))"
    by (simp_all only: of_int_le_iff of_int_less_iff)
  with pos show "2 powi (bitlen n - 1) \<le> (of_int n :: rat)"
    and "(of_int n :: rat) < 2 powi bitlen n"
    by (simp_all add: power_int_def)
qed

lemma powi2_pos [simp]: "0 < (2 powi e :: rat)"
  by simp

lemma powi2_add: "(2 powi (a + b) :: rat) = 2 powi a * 2 powi b"
  by (simp add: power_int_add)

lemma powi2_diff: "(2 powi (a - b) :: rat) = 2 powi a / 2 powi b"
  by (simp add: power_int_diff)

lemma powi2_less: "a < b \<Longrightarrow> (2 powi a :: rat) < 2 powi b"
  by (rule power_int_strict_increasing) auto

lemma powi2_less_iff [simp]: "(2 powi a :: rat) < 2 powi b \<longleftrightarrow> a < b"
  by (metis powi2_less less_asym less_linear)

lemma powi2_le_iff [simp]: "(2 powi a :: rat) \<le> 2 powi b \<longleftrightarrow> a \<le> b"
  by (simp flip: not_less)

lemma ilog2_bounds:
  assumes "0 < x"
  shows "2 powi ilog2 x \<le> x" and "x < 2 powi (ilog2 x + 1)"
proof -
  obtain p q where pq: "quotient_of x = (p, q)" by fastforce
  note pos = quotient_of_posD [OF pq assms]
  note bp = bitlen_sandwich [OF pos(1)]
  note bq = bitlen_sandwich [OF pos(2)]
  let ?e = "bitlen p - bitlen q"
  have qpos: "0 < (of_int q :: rat)" using pos(2) by simp
  have up: "x < 2 powi (?e + 1)"
  proof -
    have "2 powi bitlen p = 2 powi (?e + 1) * (2 powi (bitlen q - 1) :: rat)"
      by (simp flip: powi2_add)
    also have "\<dots> \<le> 2 powi (?e + 1) * of_int q"
      by (rule mult_left_mono [OF bq(1)]) simp
    finally have "of_int p < 2 powi (?e + 1) * (of_int q :: rat)" using bp(2) by simp
    then show ?thesis using qpos by (simp add: pos(3) pos_divide_less_eq)
  qed
  have lo: "2 powi (?e - 1) \<le> x"
  proof -
    have "2 powi (?e - 1) * (of_int q :: rat) \<le> 2 powi (?e - 1) * 2 powi bitlen q"
      using bq(2) by (intro mult_left_mono) auto
    also have "\<dots> = 2 powi (bitlen p - 1)" by (simp flip: powi2_add)
    also have "\<dots> \<le> of_int p" by (rule bp(1))
    finally show ?thesis using qpos by (simp add: pos(3) pos_le_divide_eq)
  qed
  from lo up show "2 powi ilog2 x \<le> x" and "x < 2 powi (ilog2 x + 1)"
    by (auto simp: ilog2_def pq Let_def)
qed

lemma ilog2_unique:
  assumes "2 powi e \<le> x" and "x < 2 powi (e + 1)"
  shows "ilog2 x = e"
proof -
  have "0 < x" using assms(1) by (rule less_le_trans [OF powi2_pos])
  note b = ilog2_bounds [OF this]
  have "(2 powi ilog2 x :: rat) < 2 powi (e + 1)" using b(1) assms(2) by linarith
  moreover have "(2 powi e :: rat) < 2 powi (ilog2 x + 1)" using b(2) assms(1) by linarith
  ultimately show ?thesis by simp
qed

lemma ilog2_mono: "0 < x \<Longrightarrow> x \<le> y \<Longrightarrow> ilog2 x \<le> ilog2 y"
proof -
  assume "0 < x" "x \<le> y"
  then have "(2 powi ilog2 x :: rat) < 2 powi (ilog2 y + 1)"
    using ilog2_bounds [of x] ilog2_bounds [of y] by linarith
  then show ?thesis by simp
qed

section \<open>Rounding to binary64 with an unbounded exponent range above\<close>

definition emin :: int where
  "emin = - 1074"

definition rexp :: "rat \<Rightarrow> int" where
  \<comment> \<open>the exponent of the last place: 53 significant bits, no finer than \<open>2 powi -1074\<close>\<close>
  "rexp x = max (ilog2 \<bar>x\<bar> - 52) emin"

definition rnd :: "rat \<Rightarrow> rat" where
  "rnd x = (if x = 0 then 0 else of_int (rhe (x / 2 powi rexp x)) * 2 powi rexp x)"

definition representable :: "rat \<Rightarrow> bool" where
  \<comment> \<open>a binary64 value, with an unbounded exponent range above\<close>
  "representable x \<longleftrightarrow> (\<exists>m e. x = of_int m * 2 powi e \<and> \<bar>m\<bar> \<le> 2 ^ 53 \<and> emin \<le> e)"

lemma rnd_0 [simp]: "rnd 0 = 0"
  by (simp add: rnd_def)

lemma rexp_minus [simp]: "rexp (- x) = rexp x"
  by (simp add: rexp_def)

lemma rnd_minus [simp]: "rnd (- x) = - rnd x"
  by (simp add: rnd_def rhe_minus)

lemma scaled_bound:
  assumes "x \<noteq> 0" shows "\<bar>x / 2 powi rexp x\<bar> < 2 ^ 53"
proof -
  have "\<bar>x\<bar> < 2 powi (ilog2 \<bar>x\<bar> + 1)" using assms by (intro ilog2_bounds) simp
  also have "\<dots> \<le> 2 powi (rexp x + 53)" by (simp add: rexp_def)
  also have "\<dots> = 2 ^ 53 * 2 powi rexp x" by (simp add: powi2_add)
  finally show ?thesis by (simp add: abs_divide pos_divide_less_eq)
qed

lemma representable_rnd [simp]: "representable (rnd x)"
proof (cases "x = 0")
  case True
  then show ?thesis by (auto simp: representable_def intro!: exI [of _ 0] exI [of _ emin])
next
  case False
  let ?m = "rhe (x / 2 powi rexp x)"
  have "x / 2 powi rexp x \<le> of_int (2 ^ 53)" "of_int (- (2 ^ 53)) \<le> x / 2 powi rexp x"
    using scaled_bound [OF False, unfolded abs_less_iff] by auto
  then have "?m \<le> 2 ^ 53" "- (2 ^ 53) \<le> ?m"
    using rhe_mono rhe_of_int by metis+
  then have "\<bar>?m\<bar> \<le> 2 ^ 53" by simp
  moreover have "emin \<le> rexp x" by (simp add: rexp_def)
  ultimately show ?thesis using False unfolding representable_def rnd_def by auto
qed

text \<open>
  A representable value is a multiple of the last place of its own rounding, so rounding keeps it.
\<close>

lemma powi2_dvd:
  assumes "b \<le> a" shows "\<exists>k::int. (2 powi a :: rat) = of_int k * 2 powi b"
proof -
  have "(2 powi a :: rat) = 2 powi (a - b) * 2 powi b" by (simp flip: powi2_add)
  also have "2 powi (a - b) = (of_int (2 ^ nat (a - b)) :: rat)"
    using assms by (simp add: power_int_def)
  finally show ?thesis by blast
qed

lemma rnd_exact:
  assumes "representable x" shows "rnd x = x"
proof (cases "x = 0")
  case False
  from assms obtain m e where x: "x = of_int m * 2 powi e" and m: "\<bar>m\<bar> \<le> 2 ^ 53" and e: "emin \<le> e"
    by (auto simp: representable_def)
  have "\<exists>n. x = of_int n * 2 powi rexp x"
  proof (cases "rexp x \<le> e")
    case True
    then obtain k :: int where "(2 powi e :: rat) = of_int k * 2 powi rexp x"
      using powi2_dvd by blast
    then show ?thesis by (auto simp: x intro!: exI [of _ "m * k"])
  next
    case lt: False
    with e have re: "rexp x = ilog2 \<bar>x\<bar> - 52" by (auto simp: rexp_def)
    have "2 powi (rexp x + 52) \<le> \<bar>x\<bar>" using ilog2_bounds(1) [of "\<bar>x\<bar>"] False re by simp
    also have "\<bar>x\<bar> = of_int \<bar>m\<bar> * 2 powi e" by (simp add: x abs_mult)
    also have "\<dots> \<le> of_int (2 ^ 53) * 2 powi e"
      using m by (intro mult_right_mono) (simp_all only: of_int_le_iff, simp)
    also have "\<dots> = 2 powi (e + 53)" by (simp add: powi2_add)
    finally have "rexp x \<le> e + 1" by simp
    with lt have r: "rexp x = e + 1" by simp
    then have "of_int \<bar>m\<bar> * 2 powi e \<ge> (2 powi (e + 53) :: rat)"
      using \<open>2 powi (rexp x + 52) \<le> \<bar>x\<bar>\<close> \<open>\<bar>x\<bar> = of_int \<bar>m\<bar> * 2 powi e\<close>
      by (simp add: add.commute)
    then have "(of_int (2 ^ 53) :: rat) \<le> of_int \<bar>m\<bar>" by (simp add: powi2_add)
    with m have "\<bar>m\<bar> = 2 ^ 53" by (simp only: of_int_le_iff)
    then have "m = 2 ^ 52 * 2 \<or> m = - (2 ^ 52) * 2" by (simp add: abs_if split: if_splits)
    moreover have "(2 powi rexp x :: rat) = 2 * 2 powi e" by (simp add: r powi2_add)
    ultimately show ?thesis
      by (auto simp: x intro: exI [of _ "2 ^ 52"] exI [of _ "- (2 ^ 52)"])
  qed
  then obtain n where n: "x = of_int n * 2 powi rexp x" by blast
  then have "x / 2 powi rexp x = of_int n" by (simp add: nonzero_divide_eq_eq)
  then show ?thesis using False n by (simp add: rnd_def)
qed simp

lemma representable_iff: "representable x \<longleftrightarrow> rnd x = x"
  by (metis rnd_exact representable_rnd)

lemma rnd_idem [simp]: "rnd (rnd x) = rnd x"
  by (simp add: rnd_exact)

lemma representable_powi2: "emin \<le> e \<Longrightarrow> representable (2 powi e)"
  unfolding representable_def by (rule exI [of _ 1]) auto

lemma representable_of_int: "\<bar>n\<bar> \<le> 2 ^ 53 \<Longrightarrow> representable (of_int n)"
  unfolding representable_def by (rule exI [of _ n], rule exI [of _ 0]) (auto simp: emin_def)

lemma rnd_of_int: "\<bar>n\<bar> \<le> 2 ^ 53 \<Longrightarrow> rnd (of_int n) = of_int n"
  by (rule rnd_exact) (rule representable_of_int)

lemma rnd_1 [simp]: "rnd 1 = 1"
  using rnd_of_int [of 1] by simp

lemma rnd_numeral: "numeral n \<le> (2 ^ 53 :: int) \<Longrightarrow> rnd (numeral n) = numeral n"
  using rnd_of_int [of "numeral n"] by simp

text \<open>Rounding is monotone: the one fact most properties of the arithmetic rest on.\<close>

lemma rexp_mono: "0 < x \<Longrightarrow> x \<le> y \<Longrightarrow> rexp x \<le> rexp y"
  using ilog2_mono [of x y] by (simp add: rexp_def)

lemma rnd_pos_bounds:
  assumes "0 < x"
  shows "rexp x \<noteq> emin \<Longrightarrow> 2 powi (rexp x + 52) \<le> rnd x" and "rnd x \<le> 2 powi (rexp x + 53)" and "0 \<le> rnd x"
proof -
  let ?y = "x / 2 powi rexp x"
  have up: "rhe ?y \<le> 2 ^ 53"
    using scaled_bound [of x] assms rhe_mono [of ?y "of_int (2 ^ 53)"] rhe_of_int [of "2 ^ 53"] by auto
  have "0 \<le> rhe ?y" using rhe_mono [of 0 ?y] assms by simp
  then show "0 \<le> rnd x" using assms by (simp add: rnd_def)
  have "of_int (rhe ?y) * 2 powi rexp x \<le> (of_int (2 ^ 53) * 2 powi rexp x :: rat)"
    using up by (intro mult_right_mono) (simp_all only: of_int_le_iff, simp)
  then show "rnd x \<le> 2 powi (rexp x + 53)" using assms by (simp add: rnd_def powi2_add)
  show "2 powi (rexp x + 52) \<le> rnd x" if "rexp x \<noteq> emin"
  proof -
    from that have "rexp x = ilog2 x - 52" using assms by (auto simp: rexp_def)
    then have "2 powi (rexp x + 52) \<le> x" using ilog2_bounds(1) [OF assms] by simp
    then have "of_int (2 ^ 52) \<le> ?y" by (simp add: pos_le_divide_eq powi2_add)
    then have "2 ^ 52 \<le> rhe ?y" using rhe_mono rhe_of_int by metis
    then have "of_int (2 ^ 52) * 2 powi rexp x \<le> (of_int (rhe ?y) * 2 powi rexp x :: rat)"
      by (intro mult_right_mono) (simp_all only: of_int_le_iff, simp)
    then show ?thesis using assms by (simp add: rnd_def powi2_add)
  qed
qed

lemma rnd_mono_pos:
  assumes "0 < x" and "x \<le> y" shows "rnd x \<le> rnd y"
proof (cases "rexp x = rexp y")
  case True
  have "rhe (x / 2 powi rexp y) \<le> rhe (y / 2 powi rexp y)"
    by (rule rhe_mono) (simp add: assms divide_right_mono)
  with True show ?thesis using assms by (simp add: rnd_def)
next
  case False
  with rexp_mono [OF assms] have lt: "rexp x < rexp y" by simp
  then have ne: "rexp y \<noteq> emin" by (auto simp: rexp_def)
  have "0 < y" using assms by simp
  have "rnd x \<le> 2 powi (rexp x + 53)" by (rule rnd_pos_bounds(2) [OF assms(1)])
  also have "\<dots> \<le> 2 powi (rexp y + 52)" using lt by simp
  also have "\<dots> \<le> rnd y" by (rule rnd_pos_bounds(1) [OF \<open>0 < y\<close> ne])
  finally show ?thesis .
qed

lemma rnd_nonneg: "0 \<le> x \<Longrightarrow> 0 \<le> rnd x"
  by (cases "x = 0") (auto intro: rnd_pos_bounds(3))

lemma rnd_mono:
  assumes "x \<le> y" shows "rnd x \<le> rnd y"
proof -
  consider "0 < x" | "x \<le> 0" "0 \<le> y" | "y < 0" by linarith
  then show ?thesis
  proof cases
    case 1
    then show ?thesis using assms by (rule rnd_mono_pos)
  next
    case 2
    then show ?thesis using rnd_nonneg [of y] rnd_nonneg [of "- x"] by simp
  next
    case 3
    then show ?thesis using assms rnd_mono_pos [of "- y" "- x"] by simp
  qed
qed

lemma rnd_le_rep: "x \<le> b \<Longrightarrow> representable b \<Longrightarrow> rnd x \<le> b"
  using rnd_mono [of x b] by (simp add: rnd_exact)

lemma rnd_ge_rep: "b \<le> x \<Longrightarrow> representable b \<Longrightarrow> b \<le> rnd x"
  using rnd_mono [of b x] by (simp add: rnd_exact)

text \<open>The rounding error: half a unit in the last place, so relatively at most \<open>2 powi -53\<close>.\<close>

lemma rnd_error_ulp: "\<bar>rnd x - x\<bar> \<le> 2 powi rexp x / 2"
proof (cases "x = 0")
  case False
  let ?y = "x / 2 powi rexp x"
  have "rnd x - x = (of_int (rhe ?y) - ?y) * 2 powi rexp x"
    using False by (simp add: rnd_def left_diff_distrib)
  then have "\<bar>rnd x - x\<bar> = \<bar>of_int (rhe ?y) - ?y\<bar> * 2 powi rexp x" by (simp add: abs_mult)
  also have "\<dots> \<le> 1 / 2 * 2 powi rexp x" by (rule mult_right_mono [OF rhe_error]) simp
  finally show ?thesis by simp
qed simp

lemma rnd_error: "\<bar>rnd x - x\<bar> \<le> \<bar>x\<bar> / 2 ^ 53 + 2 powi emin / 2"
proof (cases "x = 0 \<or> rexp x = emin")
  case True
  have "\<bar>rnd x - x\<bar> \<le> 2 powi emin / 2" using True rnd_error_ulp [of x] by auto
  moreover have "0 \<le> \<bar>x\<bar> / (2 ^ 53 :: rat)" by simp
  ultimately show ?thesis by linarith
next
  case False
  then have "rexp x = ilog2 \<bar>x\<bar> - 52" by (auto simp: rexp_def max_def split: if_splits)
  then have "2 powi (rexp x + 52) \<le> \<bar>x\<bar>" using ilog2_bounds(1) [of "\<bar>x\<bar>"] False by simp
  then have "2 powi rexp x / 2 \<le> \<bar>x\<bar> / 2 ^ 53" by (simp add: powi2_add field_simps)
  moreover have "0 < (2 powi emin / 2 :: rat)" by simp
  ultimately show ?thesis using rnd_error_ulp [of x] by linarith
qed


section \<open>Values, conversion and arithmetic\<close>

datatype pyfloat = Fin rat | PosInf | NegInf | NaN

definition fbound :: rat where
  \<comment> \<open>the least magnitude that overflows\<close>
  "fbound = 2 powi 1024"

definition fin :: "rat \<Rightarrow> pyfloat" where
  \<comment> \<open>the float nearest to an exact result, infinite on overflow\<close>
  "fin x = (let r = rnd x in if fbound \<le> r then PosInf else if r \<le> - fbound then NegInf else Fin r)"

definition is_float :: "pyfloat \<Rightarrow> bool" where
  \<comment> \<open>the values of the binary64 format\<close>
  "is_float v = (case v of Fin x \<Rightarrow> rnd x = x \<and> \<bar>x\<bar> < fbound | _ \<Rightarrow> True)"

fun isfinite :: "pyfloat \<Rightarrow> bool" where
  "isfinite (Fin _) = True"
| "isfinite _ = False"

fun fval :: "pyfloat \<Rightarrow> rat" where
  \<comment> \<open>the number a finite float denotes\<close>
  "fval (Fin x) = x"
| "fval _ = 0"

fun fadd :: "pyfloat \<Rightarrow> pyfloat \<Rightarrow> pyfloat" where
  "fadd NaN _ = NaN"
| "fadd _ NaN = NaN"
| "fadd (Fin a) (Fin b) = fin (a + b)"
| "fadd PosInf NegInf = NaN"
| "fadd NegInf PosInf = NaN"
| "fadd PosInf _ = PosInf"
| "fadd NegInf _ = NegInf"
| "fadd (Fin _) y = y"

fun fneg :: "pyfloat \<Rightarrow> pyfloat" where
  "fneg (Fin a) = Fin (- a)"
| "fneg PosInf = NegInf"
| "fneg NegInf = PosInf"
| "fneg NaN = NaN"

fun fsgn :: "pyfloat \<Rightarrow> int" where
  "fsgn (Fin a) = (if 0 < a then 1 else if a < 0 then - 1 else 0)"
| "fsgn PosInf = 1"
| "fsgn NegInf = - 1"
| "fsgn NaN = 0"

definition finf :: "int \<Rightarrow> pyfloat" where
  "finf s = (if 0 < s then PosInf else if s < 0 then NegInf else NaN)"

fun fmul :: "pyfloat \<Rightarrow> pyfloat \<Rightarrow> pyfloat" where
  "fmul NaN _ = NaN"
| "fmul _ NaN = NaN"
| "fmul (Fin a) (Fin b) = fin (a * b)"
| "fmul x y = finf (fsgn x * fsgn y)"

fun fquot :: "pyfloat \<Rightarrow> pyfloat \<Rightarrow> pyfloat" where
  \<comment> \<open>the quotient for a divisor that is not zero\<close>
  "fquot NaN _ = NaN"
| "fquot _ NaN = NaN"
| "fquot (Fin a) (Fin b) = fin (a / b)"
| "fquot (Fin _) _ = Fin 0"
| "fquot x (Fin b) = finf (fsgn x * (if b < 0 then - 1 else 1))"
| "fquot _ _ = NaN"

definition fdiv :: "pyfloat \<Rightarrow> pyfloat \<Rightarrow> pyfloat res" where
  "fdiv x y = (if y = Fin 0 then Inl ZeroDivisionError else Inr (fquot x y))"

fun flt :: "pyfloat \<Rightarrow> pyfloat \<Rightarrow> bool" where
  "flt NaN _ = False"
| "flt _ NaN = False"
| "flt (Fin a) (Fin b) = (a < b)"
| "flt NegInf y = (y \<noteq> NegInf)"
| "flt x PosInf = (x \<noteq> PosInf)"
| "flt _ _ = False"

definition feq :: "pyfloat \<Rightarrow> pyfloat \<Rightarrow> bool" where
  "feq x y = (x \<noteq> NaN \<and> x = y)"

definition fle :: "pyfloat \<Rightarrow> pyfloat \<Rightarrow> bool" where
  "fle x y = (flt x y \<or> feq x y)"

fun fabs :: "pyfloat \<Rightarrow> pyfloat" where
  "fabs (Fin a) = Fin \<bar>a\<bar>"
| "fabs NaN = NaN"
| "fabs _ = PosInf"

instantiation pyfloat :: "{plus, minus, uminus, times, zero, one, ord}"
begin
definition plus_pyfloat :: "pyfloat \<Rightarrow> pyfloat \<Rightarrow> pyfloat" where "x + y = fadd x y"
definition uminus_pyfloat :: "pyfloat \<Rightarrow> pyfloat" where "- x = fneg x"
definition minus_pyfloat :: "pyfloat \<Rightarrow> pyfloat \<Rightarrow> pyfloat" where "x - y = fadd x (fneg y)"
definition times_pyfloat :: "pyfloat \<Rightarrow> pyfloat \<Rightarrow> pyfloat" where "x * y = fmul x y"
definition zero_pyfloat :: pyfloat where "0 = Fin 0"
definition one_pyfloat :: pyfloat where "1 = Fin 1"
definition less_pyfloat :: "pyfloat \<Rightarrow> pyfloat \<Rightarrow> bool" where "x < y = flt x y"
definition less_eq_pyfloat :: "pyfloat \<Rightarrow> pyfloat \<Rightarrow> bool" where "x \<le> y = fle x y"
instance ..
end

lemmas float_op_defs [model_defs] =
  plus_pyfloat_def uminus_pyfloat_def minus_pyfloat_def times_pyfloat_def zero_pyfloat_def
  one_pyfloat_def less_pyfloat_def less_eq_pyfloat_def

definition fl :: "rat \<Rightarrow> pyfloat" where
  \<comment> \<open>a literal: the float nearest to the decimal written in the source\<close>
  "fl x = fin x"

definition of_int_float :: "int \<Rightarrow> pyfloat res" where
  \<comment> \<open>\<open>float(i)\<close>\<close>
  "of_int_float i = (case fin (of_int i) of Fin x \<Rightarrow> Inr (Fin x) | _ \<Rightarrow> Inl OverflowError)"

text \<open>
  \<open>max(a, b)\<close> and \<open>min(a, b)\<close> keep the first argument unless the second compares strictly
  better, which matters when one is NaN.
\<close>

definition pymax :: "pyfloat \<Rightarrow> pyfloat \<Rightarrow> pyfloat" where
  "pymax a b = (if a < b then b else a)"

definition pymin :: "pyfloat \<Rightarrow> pyfloat \<Rightarrow> pyfloat" where
  "pymin a b = (if b < a then b else a)"

definition max_list :: "pyfloat list \<Rightarrow> pyfloat res" where
  "max_list xs = (case xs of [] \<Rightarrow> Inl (ValueError ''max() iterable argument is empty'')
                   | y # ys \<Rightarrow> Inr (foldl pymax y ys))"

definition min_list :: "pyfloat list \<Rightarrow> pyfloat res" where
  "min_list xs = (case xs of [] \<Rightarrow> Inl (ValueError ''min() iterable argument is empty'')
                   | y # ys \<Rightarrow> Inr (foldl pymin y ys))"

definition fround :: "nat \<Rightarrow> pyfloat \<Rightarrow> pyfloat" where
  \<comment> \<open>\<open>round(x, n)\<close>: the nearest decimal of \<open>n\<close> places, ties to even, as a float\<close>
  "fround n v = (case v of Fin x \<Rightarrow> fin (of_int (rhe (x * 10 ^ n)) / 10 ^ n) | _ \<Rightarrow> v)"

definition fround_int :: "pyfloat \<Rightarrow> int res" where
  \<comment> \<open>\<open>round(x)\<close>\<close>
  "fround_int v = (case v of Fin x \<Rightarrow> Inr (rhe x) | NaN \<Rightarrow> Inl (ValueError ''cannot convert float NaN to integer'')
                    | _ \<Rightarrow> Inl OverflowError)"

definition ffloor :: "pyfloat \<Rightarrow> int res" where
  \<comment> \<open>\<open>math.floor(x)\<close>\<close>
  "ffloor v = (case v of Fin x \<Rightarrow> Inr \<lfloor>x\<rfloor> | NaN \<Rightarrow> Inl (ValueError ''cannot convert float NaN to integer'')
                | _ \<Rightarrow> Inl OverflowError)"

definition ftrunc :: "pyfloat \<Rightarrow> int res" where
  \<comment> \<open>\<open>int(x)\<close>: towards zero\<close>
  "ftrunc v = (case v of Fin x \<Rightarrow> Inr (if 0 \<le> x then \<lfloor>x\<rfloor> else \<lceil>x\<rceil>)
                | NaN \<Rightarrow> Inl (ValueError ''cannot convert float NaN to integer'') | _ \<Rightarrow> Inl OverflowError)"

definition fisclose :: "pyfloat \<Rightarrow> pyfloat \<Rightarrow> pyfloat \<Rightarrow> pyfloat \<Rightarrow> bool" where
  \<comment> \<open>\<open>math.isclose(a, b, rel_tol=r, abs_tol=t)\<close>\<close>
  "fisclose a b r t =
     (if feq a b then True
      else if \<not> isfinite a \<or> \<not> isfinite b then False
      else (let d = fabs (b - a) in d \<le> fabs (r * b) \<or> d \<le> fabs (r * a) \<or> d \<le> t))"

section \<open>Aggregates of the standard library\<close>

text \<open>
  \<open>sum\<close> of floats in Python 3.12 (the version the image of the repository pins) keeps a running
  compensation: Neumaier's variant of Kahan summation.
\<close>

definition neumaier_step :: "pyfloat \<times> pyfloat \<Rightarrow> pyfloat \<Rightarrow> pyfloat \<times> pyfloat" where
  "neumaier_step sc x =
     (let (s, c) = sc; t = s + x
      in (t, if fabs x \<le> fabs s then c + ((s - t) + x) else c + ((x - t) + s)))"

definition pysum :: "pyfloat list \<Rightarrow> pyfloat" where
  \<comment> \<open>\<open>sum(xs)\<close>; the empty sum is the integer 0\<close>
  "pysum xs = (let (s, c) = foldl neumaier_step (0, 0) xs
               in if c \<noteq> 0 \<and> isfinite c then s + c else s)"

text \<open>
  \<open>statistics.mean\<close> and \<open>statistics.pstdev\<close> compute with exact fractions and round once. A list
  with an infinity or a NaN has the sum of those as its total, and \<open>pstdev\<close> of it fails on the
  missing \<open>numerator\<close> attribute.
\<close>

definition pymean :: "pyfloat list \<Rightarrow> pyfloat res" where
  "pymean xs =
     (if xs = [] then Inl StatisticsError
      else if list_all isfinite xs then Inr (fin (sum_list (map fval xs) / of_nat (length xs)))
      else Inr (foldl fadd 0 (filter (\<lambda>x. \<not> isfinite x) xs)))"

function isqrt :: "int \<Rightarrow> int" where
  \<comment> \<open>the integer square root, two bits at a time\<close>
  "isqrt n = (if n \<le> 0 then 0
              else let r = 2 * isqrt (n div 4) in if (r + 1) * (r + 1) \<le> n then r + 1 else r)"
  by pat_completeness auto
termination by (relation "measure nat") auto

declare isqrt.simps [simp del]

definition rnd_sqrt :: "rat \<Rightarrow> rat" where
  \<comment> \<open>the correctly rounded square root of a non-negative rational\<close>
  "rnd_sqrt x =
     (if x \<le> 0 then 0
      else let e = max (ilog2 x div 2 - 52) emin;
               y = x / 2 powi (2 * e);
               n = isqrt \<lfloor>y\<rfloor>;
               h = (of_int n + 1 / 2) * (of_int n + 1 / 2)
           in (if y < h then of_int n else if h < y then of_int (n + 1)
               else if even n then of_int n else of_int (n + 1)) * 2 powi e)"

definition pypstdev :: "pyfloat list \<Rightarrow> pyfloat res" where
  "pypstdev xs =
     (if xs = [] then Inl StatisticsError
      else if list_all isfinite xs
      then (let n = of_nat (length xs); vs = map fval xs; m = sum_list vs / n;
                var = sum_list (map (\<lambda>v. (v - m) * (v - m)) vs) / n
            in Inr (fin (rnd_sqrt var)))
      else Inl AttributeError)"


section \<open>Facts about the operations\<close>

lemma Fin_order [simp]:
  "Fin a < Fin b \<longleftrightarrow> a < b" "Fin a \<le> Fin b \<longleftrightarrow> a \<le> b"
  by (auto simp: less_pyfloat_def less_eq_pyfloat_def fle_def feq_def)

lemma NaN_order [simp]:
  "\<not> NaN < x" "\<not> x < NaN" "\<not> NaN \<le> x" "\<not> x \<le> NaN"
  by (cases x; simp add: less_pyfloat_def less_eq_pyfloat_def fle_def feq_def)+

lemma Inf_order [simp]:
  "x < PosInf \<longleftrightarrow> x \<noteq> PosInf \<and> x \<noteq> NaN" "\<not> PosInf < x" "x \<le> PosInf \<longleftrightarrow> x \<noteq> NaN"
  "NegInf < x \<longleftrightarrow> x \<noteq> NegInf \<and> x \<noteq> NaN" "\<not> x < NegInf" "NegInf \<le> x \<longleftrightarrow> x \<noteq> NaN"
  "PosInf \<le> x \<longleftrightarrow> x = PosInf" "x \<le> NegInf \<longleftrightarrow> x = NegInf"
  by (cases x; simp add: less_pyfloat_def less_eq_pyfloat_def fle_def feq_def)+

lemma zero_Fin: "0 = Fin 0" and one_Fin: "1 = Fin 1"
  by (simp_all add: zero_pyfloat_def one_pyfloat_def)

lemma Fin_zero_iff [simp]: "Fin a = 0 \<longleftrightarrow> a = 0" "0 = Fin a \<longleftrightarrow> a = 0"
  by (auto simp: zero_Fin)

lemma Inf_not_zero [simp]: "PosInf \<noteq> 0" "NegInf \<noteq> 0" "NaN \<noteq> 0" "0 \<noteq> PosInf" "0 \<noteq> NegInf" "0 \<noteq> NaN"
  by (simp_all add: zero_Fin)

lemma float_less_le: "(x::pyfloat) < y \<Longrightarrow> x \<le> y"
  by (simp add: less_pyfloat_def less_eq_pyfloat_def fle_def)

lemma float_le_trans: "(x::pyfloat) \<le> y \<Longrightarrow> y \<le> z \<Longrightarrow> x \<le> z"
  by (cases x; cases y; cases z; simp)

lemma float_less_le_trans: "(x::pyfloat) < y \<Longrightarrow> y \<le> z \<Longrightarrow> x < z"
  by (cases x; cases y; cases z; simp)

lemma float_le_less_trans: "(x::pyfloat) \<le> y \<Longrightarrow> y < z \<Longrightarrow> x < z"
  by (cases x; cases y; cases z; simp)

lemma float_not_less: "x \<noteq> NaN \<Longrightarrow> y \<noteq> NaN \<Longrightarrow> \<not> x < y \<longleftrightarrow> y \<le> (x::pyfloat)"
  by (cases x; cases y; auto)

lemma float_not_le: "x \<noteq> NaN \<Longrightarrow> y \<noteq> NaN \<Longrightarrow> \<not> x \<le> y \<longleftrightarrow> y < (x::pyfloat)"
  by (cases x; cases y; auto)

lemma float_le_refl: "x \<noteq> NaN \<Longrightarrow> x \<le> (x::pyfloat)"
  by (cases x) auto

lemma float_pos_not_zero: "(0::pyfloat) < x \<Longrightarrow> x \<noteq> 0"
  by (cases x) (auto simp: zero_Fin)

lemma isfinite_iff: "isfinite x \<longleftrightarrow> (\<exists>a. x = Fin a)"
  by (cases x) auto

lemma fbound_pos [simp]: "0 < fbound" "\<not> fbound \<le> 0"
  by (simp_all add: fbound_def not_le)

lemma is_float_special [simp]: "is_float PosInf" "is_float NegInf" "is_float NaN" "is_float (finf s)" "is_float (Fin 0)"
  by (simp_all add: is_float_def finf_def)

lemma fin_NaN [simp]: "fin x \<noteq> NaN" "NaN \<noteq> fin x"
  by (auto simp: fin_def Let_def)

lemma fin_0 [simp]: "fin 0 = Fin 0"
  by (simp add: fin_def)

lemma fin_mono:
  assumes "x \<le> y" shows "fin x \<le> fin y"
proof -
  have r: "rnd x \<le> rnd y" by (rule rnd_mono [OF assms])
  have "- fbound < fbound" by (rule less_trans [of _ 0]) simp_all
  with r show ?thesis by (auto simp: fin_def Let_def)
qed

lemma fin_Fin_iff: "fin x = Fin y \<longleftrightarrow> y = rnd x \<and> \<bar>rnd x\<bar> < fbound"
  by (auto simp: fin_def Let_def abs_less_iff)

lemma fin_exact: "rnd x = x \<Longrightarrow> \<bar>x\<bar> < fbound \<Longrightarrow> fin x = Fin x"
  by (simp add: fin_Fin_iff)

lemma is_float_fin [simp]: "is_float (fin x)"
  by (auto simp: is_float_def fin_def Let_def abs_less_iff)

lemma is_float_Fin: "is_float (Fin x) \<longleftrightarrow> rnd x = x \<and> \<bar>x\<bar> < fbound"
  by (simp add: is_float_def)

lemma fin_of_float: "is_float (Fin x) \<Longrightarrow> fin x = Fin x"
  by (simp add: is_float_Fin fin_exact)

lemma fin_nonneg: "0 \<le> x \<Longrightarrow> 0 \<le> fin x"
  using fin_mono [of 0 x] by (simp add: zero_Fin)

lemma fin_nonpos: "x \<le> 0 \<Longrightarrow> fin x \<le> 0"
  using fin_mono [of x 0] by (simp add: zero_Fin)

lemma fin_le_float: "x \<le> b \<Longrightarrow> is_float (Fin b) \<Longrightarrow> fin x \<le> Fin b"
  using fin_mono [of x b] by (simp add: fin_of_float)

lemma fin_ge_float: "b \<le> x \<Longrightarrow> is_float (Fin b) \<Longrightarrow> Fin b \<le> fin x"
  using fin_mono [of b x] by (simp add: fin_of_float)

lemma powi_53_fbound: "(2 ^ 53 :: rat) < fbound"
proof -
  have "(2 ^ 53 :: rat) = 2 powi 53" by simp
  also have "\<dots> < fbound" unfolding fbound_def by (rule powi2_less) simp
  finally show ?thesis .
qed

lemma is_float_of_int:
  assumes "\<bar>n\<bar> \<le> 2 ^ 53" shows "is_float (Fin (of_int n))"
proof -
  have "\<bar>of_int n :: rat\<bar> \<le> of_int (2 ^ 53)" using assms by (simp only: of_int_abs [symmetric] of_int_le_iff)
  with powi_53_fbound have "\<bar>of_int n :: rat\<bar> < fbound" by simp
  with assms show ?thesis by (simp add: is_float_Fin rnd_of_int)
qed

lemma fin_of_int: "\<bar>n\<bar> \<le> 2 ^ 53 \<Longrightarrow> fin (of_int n) = Fin (of_int n)"
  by (rule fin_of_float) (rule is_float_of_int)

lemma fin_numeral [simp, py_simps]:
  "numeral n \<le> (9007199254740992 :: int) \<Longrightarrow> fin (numeral n) = Fin (numeral n)"
  "numeral n \<le> (9007199254740992 :: int) \<Longrightarrow> fin (- numeral n) = Fin (- numeral n)"
  using fin_of_int [of "numeral n"] fin_of_int [of "- numeral n"] by simp_all

lemma fin_1 [simp, py_simps]: "fin 1 = Fin 1" "fin (- 1) = Fin (- 1)"
  using fin_of_int [of 1] fin_of_int [of "- 1"] by simp_all

lemma Fin_arith [simp]:
  "Fin a + Fin b = fin (a + b)" "Fin a - Fin b = fin (a - b)" "Fin a * Fin b = fin (a * b)"
  "- Fin a = Fin (- a)"
  by (simp_all add: float_op_defs)

lemma fdiv_Fin [simp]: "b \<noteq> 0 \<Longrightarrow> fdiv (Fin a) (Fin b) = Inr (fin (a / b))"
  by (simp add: fdiv_def)

lemma float_op_closed:
  "is_float x \<Longrightarrow> is_float y \<Longrightarrow> is_float (x + y)"
  "is_float x \<Longrightarrow> is_float (- x)"
  "is_float x \<Longrightarrow> is_float y \<Longrightarrow> is_float (x * y)"
  "is_float x \<Longrightarrow> is_float y \<Longrightarrow> is_float (fquot x y)"
proof -
  show neg: "is_float x \<Longrightarrow> is_float (- x)" for x
    by (cases x) (auto simp: float_op_defs is_float_def)
  show "is_float x \<Longrightarrow> is_float y \<Longrightarrow> is_float (x + y)"
    by (cases x; cases y) (simp_all add: plus_pyfloat_def)
  show "is_float x \<Longrightarrow> is_float y \<Longrightarrow> is_float (x * y)"
    by (cases x; cases y) (simp_all add: times_pyfloat_def)
  show "is_float x \<Longrightarrow> is_float y \<Longrightarrow> is_float (fquot x y)"
    by (cases x; cases y) simp_all
qed

lemma fadd_mono:
  assumes "x \<le> y" and "isfinite z" shows "x + z \<le> y + (z::pyfloat)"
  using assms by (cases x; cases y; cases z) (auto simp: float_op_defs(1) intro: fin_mono)

lemma fmul_mono:
  assumes "x \<le> y" and "0 \<le> z" and "isfinite z" and "z \<noteq> 0" shows "x * z \<le> y * (z::pyfloat)"
  using assms
  by (cases x; cases y; cases z)
    (auto simp: times_pyfloat_def zero_Fin finf_def intro!: fin_mono mult_right_mono)

lemma fadd_nonneg: "0 \<le> x \<Longrightarrow> 0 \<le> y \<Longrightarrow> 0 \<le> x + (y::pyfloat)"
  by (cases x; cases y) (auto simp: zero_Fin plus_pyfloat_def intro: fin_nonneg [unfolded zero_Fin])

lemma fmul_nonneg:
  assumes "0 \<le> x" "0 \<le> y" "isfinite x" "isfinite y" shows "0 \<le> x * (y::pyfloat)"
  using assms by (cases x; cases y) (auto simp: zero_Fin intro: fin_nonneg [unfolded zero_Fin])

lemma pymax_ge: "x \<noteq> NaN \<Longrightarrow> y \<noteq> NaN \<Longrightarrow> x \<le> pymax x y \<and> y \<le> pymax x y"
  by (cases x; cases y; auto simp: pymax_def)

lemma pymin_le: "x \<noteq> NaN \<Longrightarrow> y \<noteq> NaN \<Longrightarrow> pymin x y \<le> x \<and> pymin x y \<le> y"
  by (cases x; cases y; auto simp: pymin_def)

lemma pymax_zero_nonneg: "0 \<le> pymax 0 x"
  by (cases x) (auto simp: pymax_def zero_Fin)

lemma pymin_cases: "pymin x y = x \<or> pymin x y = y"
  by (simp add: pymin_def)

lemma pymax_cases: "pymax x y = x \<or> pymax x y = y"
  by (simp add: pymax_def)

lemma fin_error:
  assumes "fin x = Fin y" shows "\<bar>y - x\<bar> \<le> \<bar>x\<bar> / 2 ^ 53 + 2 powi emin / 2"
  using assms rnd_error [of x] by (simp add: fin_Fin_iff)

section \<open>Evaluation\<close>

text \<open>
  Code equations that let \<open>code_simp\<close> evaluate the arithmetic quickly: powers of two and ten by
  repeated squaring on integers, and no comparison with the overflow bound for ordinary magnitudes.
\<close>

function ipow :: "int \<Rightarrow> int \<Rightarrow> int" where
  "ipow b e = (if e \<le> 0 then 1 else if even e then (let r = ipow b (e div 2) in r * r)
               else b * ipow b (e - 1))"
  by pat_completeness auto
termination by (relation "measure (\<lambda>(b, e). nat e)") auto

declare ipow.simps [simp del]

lemma ipow_eq: "ipow b e = b ^ nat e"
proof (induction b e rule: ipow.induct)
  case (1 b e)
  show ?case
  proof (cases "e \<le> 0")
    case True
    then show ?thesis by (simp add: ipow.simps [of b e])
  next
    case pos: False
    show ?thesis
    proof (cases "even e")
      case True
      then have "nat e = nat (e div 2) + nat (e div 2)" using pos by auto
      then show ?thesis using 1(1) pos True by (simp add: ipow.simps [of b e] Let_def power_add)
    next
      case False
      then have "nat e = Suc (nat (e - 1))" using pos by auto
      then show ?thesis using 1(2) pos False by (simp add: ipow.simps [of b e])
    qed
  qed
qed

definition rpow :: "int \<Rightarrow> int \<Rightarrow> rat" where
  "rpow b e = of_int b powi e"

lemma rpow_code [code]: "rpow b e = (if 0 \<le> e then of_int (ipow b e) else 1 / of_int (ipow b (- e)))"
  by (simp add: rpow_def ipow_eq power_int_def inverse_eq_divide power_one_over)

definition scale2 :: "int \<Rightarrow> int \<Rightarrow> rat" where
  "scale2 m e = of_int m * 2 powi e"

lemma scale2_code [code]:
  "scale2 m e = (if 0 \<le> e then of_int (m * ipow 2 e) else of_int m / of_int (ipow 2 (- e)))"
proof (cases "0 \<le> e")
  case True
  then show ?thesis by (simp add: scale2_def ipow_eq power_int_def)
next
  case False
  then have "(2 powi e :: rat) = inverse (2 ^ nat (- e))" by (simp add: power_int_def power_one_over inverse_eq_divide)
  with False show ?thesis by (simp add: scale2_def ipow_eq divide_inverse)
qed

lemma rnd_code [code]:
  "rnd x = (if x = 0 then 0 else let e = rexp x in scale2 (rhe (x / rpow 2 e)) e)"
  by (simp add: rnd_def rpow_def scale2_def Let_def)

lemma ilog2_code [code]:
  "ilog2 x = (let (p, q) = quotient_of x; e = bitlen p - bitlen q in if rpow 2 e \<le> x then e else e - 1)"
  by (simp add: ilog2_def rpow_def)

lemma rnd_sqrt_code [code]:
  "rnd_sqrt x =
     (if x \<le> 0 then 0
      else let e = max (ilog2 x div 2 - 52) emin; y = x / rpow 2 (2 * e); n = isqrt \<lfloor>y\<rfloor>;
               h = (of_int n + 1 / 2) * (of_int n + 1 / 2)
           in (if y < h then of_int n else if h < y then of_int (n + 1)
               else if even n then of_int n else of_int (n + 1)) * rpow 2 e)"
  by (simp add: rnd_sqrt_def rpow_def)

lemma fin_code [code]:
  "fin x = (let r = rnd x in if \<bar>r\<bar> < 9007199254740992 then Fin r
            else if fbound \<le> r then PosInf else if r \<le> - fbound then NegInf else Fin r)"
  using powi_53_fbound by (auto simp: fin_def Let_def)

lemma fl_numeral [simp, py_simps]:
  "numeral n \<le> (9007199254740992 :: int) \<Longrightarrow> fl (numeral n) = Fin (numeral n)" "fl 1 = Fin 1" "fl 0 = Fin 0"
  by (simp_all add: fl_def)

lemma is_float_numeral [simp]:
  "numeral n \<le> (9007199254740992 :: int) \<Longrightarrow> is_float (Fin (numeral n))" "is_float (Fin 1)"
  by (metis fin_numeral(1) is_float_fin, metis fin_1 is_float_fin)

lemma fin_dyadic:
  assumes "\<bar>m\<bar> \<le> 2 ^ 53" and "k \<le> 1074"
  shows "fin (of_int m / 2 ^ k) = Fin (of_int m / 2 ^ k)"
proof (rule fin_exact)
  have e: "(of_int m / 2 ^ k :: rat) = of_int m * 2 powi (- int k)"
    by (simp add: power_int_minus divide_inverse)
  have "emin \<le> - int k" using assms(2) by (simp add: emin_def)
  with assms(1) show "rnd (of_int m / 2 ^ k) = of_int m / 2 ^ k"
    unfolding e by (intro rnd_exact) (auto simp: representable_def)
  have "\<bar>of_int m / 2 ^ k\<bar> \<le> \<bar>of_int m :: rat\<bar>"
    by (simp add: abs_divide divide_le_eq mult_le_cancel_left1)
  also have "\<dots> \<le> of_int (2 ^ 53)" using assms(1) by (simp only: of_int_abs [symmetric] of_int_le_iff)
  also have "\<dots> < fbound" using powi_53_fbound by simp
  finally show "\<bar>of_int m / 2 ^ k\<bar> < fbound" .
qed

lemma fround_mono:
  assumes "x \<le> y" shows "fround n x \<le> fround n y"
proof (cases x; cases y)
  fix a b assume "x = Fin a" "y = Fin b"
  with assms have "a * 10 ^ n \<le> b * 10 ^ n" by (simp add: mult_right_mono)
  then have "(of_int (rhe (a * 10 ^ n)) :: rat) \<le> of_int (rhe (b * 10 ^ n))" by (simp add: rhe_mono)
  then have "(of_int (rhe (a * 10 ^ n)) / 10 ^ n :: rat) \<le> of_int (rhe (b * 10 ^ n)) / 10 ^ n"
    by (simp add: divide_right_mono)
  then show ?thesis using \<open>x = Fin a\<close> \<open>y = Fin b\<close> by (simp add: fround_def fin_mono)
qed (use assms in \<open>auto simp: fround_def\<close>)

lemma fround_of_int: "\<bar>m\<bar> \<le> 2 ^ 53 \<Longrightarrow> fround n (Fin (of_int m)) = Fin (of_int m)"
proof -
  assume m: "\<bar>m\<bar> \<le> 2 ^ 53"
  have "of_int m * 10 ^ n = (of_int (m * 10 ^ n) :: rat)" by simp
  then have "rhe (of_int m * 10 ^ n) = m * 10 ^ n" by (metis rhe_of_int)
  then show ?thesis using fin_of_int [OF m] by (simp add: fround_def)
qed

lemma fround_numeral [simp]:
  "numeral k \<le> (9007199254740992 :: int) \<Longrightarrow> fround n (Fin (numeral k)) = Fin (numeral k)"
  using fround_of_int [of "numeral k" n] by simp

lemma fsub_mono:
  assumes "x \<le> y" and "isfinite z" shows "z - y \<le> z - (x::pyfloat)"
  using assms by (cases x; cases y; cases z) (auto simp: minus_pyfloat_def intro: fin_mono)

lemma fsub_nonneg: "x \<le> y \<Longrightarrow> isfinite y \<Longrightarrow> 0 \<le> y - (x::pyfloat)"
  by (cases x; cases y) (auto simp: zero_Fin minus_pyfloat_def intro: fin_nonneg [unfolded zero_Fin])

lemma fmul_pos_nonneg: "0 < x \<Longrightarrow> isfinite x \<Longrightarrow> 0 \<le> y \<Longrightarrow> 0 \<le> x * (y::pyfloat)"
  by (cases x; cases y) (auto simp: zero_Fin times_pyfloat_def finf_def intro: fin_nonneg [unfolded zero_Fin])

lemma fmul_mono_left:
  assumes "Fin a \<le> Fin b" and "0 < a" and "0 \<le> y" shows "Fin a * y \<le> Fin b * (y::pyfloat)"
  using assms by (cases y) (auto simp: zero_Fin times_pyfloat_def finf_def intro!: fin_mono mult_right_mono)

lemma fl_halves: "fl (3 / 2) = Fin (3 / 2)" "fl (5 / 2) = Fin (5 / 2)" "fl (5 / 4) = Fin (5 / 4)" "fl (1 / 2) = Fin (1 / 2)"
  using fin_dyadic [of 3 1] fin_dyadic [of 5 1] fin_dyadic [of 5 2] fin_dyadic [of 1 1] by (simp_all add: fl_def)

lemma fadd_commute: "x + y = y + (x::pyfloat)"
  by (cases x; cases y) (simp_all add: plus_pyfloat_def add.commute)

end
