(* ===== verification/Py_Value.thy ===== *)
theory Py_Value
  imports Py_Float
begin

text \<open>
  Python's dynamically typed values, as far as the code meets them: what a JSON document decodes
  to (broker responses, request payloads, audit documents), with the built-in operations the
  modelled functions apply to them: truth, \<open>dict.get\<close>, \<open>str\<close>, \<open>float\<close>, \<open>int\<close>, and the string
  methods \<open>upper\<close>, \<open>lower\<close>, \<open>strip\<close>, \<open>replace\<close>, \<open>startswith\<close>, \<open>endswith\<close>. Strings are lists of
  ASCII characters. A dictionary is an association list in insertion order.
\<close>

section \<open>Strings\<close>

definition ord_of :: "char \<Rightarrow> nat" where
  "ord_of c = of_char c"

definition upper_char :: "char \<Rightarrow> char" where
  "upper_char c = (if 97 \<le> ord_of c \<and> ord_of c \<le> 122 then char_of (ord_of c - 32) else c)"

definition lower_char :: "char \<Rightarrow> char" where
  "lower_char c = (if 65 \<le> ord_of c \<and> ord_of c \<le> 90 then char_of (ord_of c + 32) else c)"

definition str_upper :: "string \<Rightarrow> string" where "str_upper s = map upper_char s"
definition str_lower :: "string \<Rightarrow> string" where "str_lower s = map lower_char s"

definition is_space :: "char \<Rightarrow> bool" where
  \<comment> \<open>the ASCII characters \<open>str.isspace\<close> accepts\<close>
  "is_space c = (let n = ord_of c in n = 32 \<or> (9 \<le> n \<and> n \<le> 13) \<or> (28 \<le> n \<and> n \<le> 31))"

definition str_strip :: "string \<Rightarrow> string" where
  "str_strip s = rev (dropWhile is_space (rev (dropWhile is_space s)))"

definition remove_char :: "char \<Rightarrow> string \<Rightarrow> string" where
  \<comment> \<open>\<open>s.replace(c, '')\<close> for a single character\<close>
  "remove_char c s = filter (\<lambda>x. x \<noteq> c) s"

definition starts_with :: "string \<Rightarrow> string \<Rightarrow> bool" where
  "starts_with p s = (take (length p) s = p)"

definition ends_with :: "string \<Rightarrow> string \<Rightarrow> bool" where
  "ends_with p s = (length p \<le> length s \<and> drop (length s - length p) s = p)"

definition is_digit :: "char \<Rightarrow> bool" where
  "is_digit c = (48 \<le> ord_of c \<and> ord_of c \<le> 57)"

definition digit_val :: "char \<Rightarrow> nat" where
  "digit_val c = ord_of c - 48"

definition digit_char :: "nat \<Rightarrow> char" where
  "digit_char n = char_of (48 + n)"

function show_digits :: "int \<Rightarrow> string" where
  \<comment> \<open>the decimal digits of a non-negative integer\<close>
  "show_digits n = (if n < 10 then [digit_char (nat n)]
                    else show_digits (n div 10) @ [digit_char (nat (n mod 10))])"
  by pat_completeness auto
termination by (relation "measure nat") auto

declare show_digits.simps [simp del]

definition show_int :: "int \<Rightarrow> string" where
  "show_int i = (if i < 0 then CHR ''-'' # show_digits (- i) else show_digits i)"

definition nat_of_digits :: "string \<Rightarrow> nat" where
  "nat_of_digits s = foldl (\<lambda>n c. 10 * n + digit_val c) 0 s"

section \<open>Parsing numbers\<close>

text \<open>
  The grammar of \<open>float(str)\<close>: optional sign; digits with single underscores between them, an
  optional fraction and an optional exponent; or an infinity or NaN by name. Surrounding white
  space is stripped first.
\<close>

fun span_digits :: "string \<Rightarrow> string \<times> string" where
  "span_digits [] = ([], [])"
| "span_digits (c # cs) = (if is_digit c then (let (ds, r) = span_digits cs in (c # ds, r)) else ([], c # cs))"

fun drop_underscores :: "bool \<Rightarrow> string \<Rightarrow> string option" where
  \<comment> \<open>an underscore is legal only between two digits; the flag says the last character was a digit\<close>
  "drop_underscores p [] = Some []"
| "drop_underscores p (c # cs) =
     (if c = CHR ''_''
      then (case cs of [] \<Rightarrow> None
            | d # ds \<Rightarrow> if p \<and> is_digit d then drop_underscores False cs else None)
      else map_option (Cons c) (drop_underscores (is_digit c) cs))"

definition take_sign :: "string \<Rightarrow> rat \<times> string" where
  "take_sign s = (case s of [] \<Rightarrow> (1, [])
     | c # cs \<Rightarrow> if c = CHR ''-'' then (- 1, cs) else if c = CHR ''+'' then (1, cs) else (1, s))"

definition parse_exponent :: "string \<Rightarrow> int option" where
  \<comment> \<open>what follows the mantissa: nothing, or e, a sign and digits\<close>
  "parse_exponent s = (case s of [] \<Rightarrow> Some 0
     | c # cs \<Rightarrow> if c = CHR ''e'' \<or> c = CHR ''E''
               then (let (sg, r) = take_sign cs; (ds, rest) = span_digits r
                     in if ds = [] \<or> rest \<noteq> [] then None else Some (\<lfloor>sg\<rfloor> * int (nat_of_digits ds)))
               else None)"

definition parse_decimal :: "string \<Rightarrow> rat option" where
  \<comment> \<open>an unsigned decimal numeral\<close>
  "parse_decimal s =
     (let (ip, r) = span_digits s;
          (fp, r') = (case r of c # cs \<Rightarrow> if c = CHR ''.'' then span_digits cs else ([], r) | [] \<Rightarrow> ([], []))
      in if ip = [] \<and> fp = [] then None
         else map_option (\<lambda>e. of_nat (nat_of_digits (ip @ fp)) * 10 powi (e - int (length fp)))
                (parse_exponent r'))"

definition parse_float :: "string \<Rightarrow> pyfloat option" where
  "parse_float s =
     (let (sg, r) = take_sign (str_strip s); name = str_lower r
      in if name = ''inf'' \<or> name = ''infinity'' then Some (if sg < 0 then NegInf else PosInf)
         else if name = ''nan'' then Some NaN
         else case drop_underscores False r of None \<Rightarrow> None
              | Some t \<Rightarrow> map_option (\<lambda>x. fin (sg * x)) (parse_decimal t))"

definition parse_int :: "string \<Rightarrow> int option" where
  \<comment> \<open>\<open>int(str)\<close> in base ten\<close>
  "parse_int s =
     (let (sg, r) = take_sign (str_strip s)
      in case drop_underscores False r of None \<Rightarrow> None
         | Some t \<Rightarrow> if t \<noteq> [] \<and> list_all is_digit t then Some (\<lfloor>sg\<rfloor> * int (nat_of_digits t)) else None)"

section \<open>The shortest decimal of a float\<close>

text \<open>
  \<open>repr\<close> of a float prints the shortest decimal that rounds to it, the nearest one if there are
  several; \<open>Decimal(str(x))\<close> is that decimal. Seventeen significant digits always suffice for
  binary64, so the last branch, the exact value, is not reached on a float.
\<close>

function ndigits :: "int \<Rightarrow> int" where
  "ndigits n = (if n < 10 then 1 else 1 + ndigits (n div 10))"
  by pat_completeness auto
termination by (relation "measure nat") auto

declare ndigits.simps [simp del]

definition ilog10 :: "rat \<Rightarrow> int" where
  \<comment> \<open>the decimal exponent of the first significant digit of a positive rational\<close>
  "ilog10 x = (let (p, q) = quotient_of x; e = ndigits p - ndigits q
               in if 10 powi e \<le> x then e else e - 1)"

definition round_trip :: "rat \<Rightarrow> nat \<Rightarrow> rat option" where
  \<comment> \<open>the nearest decimal of \<open>n\<close> significant digits that rounds to \<open>x\<close>, if any\<close>
  "round_trip x n =
     (let s = 10 powi (ilog10 \<bar>x\<bar> - int n + 1); lo = of_int \<lfloor>x / s\<rfloor> * s; hi = of_int \<lceil>x / s\<rceil> * s;
          near = of_int (rhe (x / s)) * s
      in if rnd near = x then Some near else if rnd lo = x then Some lo
         else if rnd hi = x then Some hi else None)"

fun shortest_from :: "nat \<Rightarrow> nat \<Rightarrow> rat \<Rightarrow> rat" where
  "shortest_from 0 n x = x"
| "shortest_from (Suc k) n x = (case round_trip x n of Some c \<Rightarrow> c | None \<Rightarrow> shortest_from k (Suc n) x)"

definition repr_rat :: "rat \<Rightarrow> rat" where
  \<comment> \<open>the number \<open>repr(x)\<close> denotes\<close>
  "repr_rat x = (if x = 0 then 0 else shortest_from 17 1 x)"

lemma round_trip_rnd: "round_trip x n = Some c \<Longrightarrow> rnd c = x"
  by (auto simp: round_trip_def Let_def split: if_splits)

lemma shortest_from_rnd: "rnd x = x \<Longrightarrow> rnd (shortest_from k n x) = x"
  by (induction k arbitrary: n) (auto split: option.splits dest: round_trip_rnd)

lemma repr_rat_round_trip: "rnd x = x \<Longrightarrow> rnd (repr_rat x) = x"
  by (simp add: repr_rat_def shortest_from_rnd)

definition float_digits :: "rat \<Rightarrow> string \<times> int" where
  \<comment> \<open>the significant digits of a positive decimal without trailing zeros, and its exponent\<close>
  "float_digits r =
     (let k = ilog10 r;
          n = (case find (\<lambda>n. r * 10 powi (int n - 1 - k) = of_int \<lfloor>r * 10 powi (int n - 1 - k)\<rfloor>) [1..<18]
               of Some n \<Rightarrow> n | None \<Rightarrow> 17)
      in (show_digits \<lfloor>r * 10 powi (int n - 1 - k)\<rfloor>, k))"

definition float_str :: "pyfloat \<Rightarrow> string" where
  \<comment> \<open>\<open>repr\<close> of a float: positional for exponents from -4 to 15, else scientific\<close>
  "float_str v = (case v of NaN \<Rightarrow> ''nan'' | PosInf \<Rightarrow> ''inf'' | NegInf \<Rightarrow> ''-inf''
     | Fin x \<Rightarrow>
       if x = 0 then ''0.0''
       else (let (ds, k) = float_digits \<bar>repr_rat x\<bar>; n = int (length ds); sg = (if x < 0 then ''-'' else [])
             in sg @ (if - 4 \<le> k \<and> k < 16
                then (if k < 0 then ''0.'' @ replicate (nat (- k - 1)) (CHR ''0'') @ ds
                      else if n \<le> k + 1 then ds @ replicate (nat (k + 1 - n)) (CHR ''0'') @ ''.0''
                      else take (nat (k + 1)) ds @ ''.'' @ drop (nat (k + 1)) ds)
                else take 1 ds @ (if n = 1 then [] else CHR ''.'' # drop 1 ds) @ ''e''
                     @ (if k < 0 then ''-'' else ''+'')
                     @ (if \<bar>k\<bar> < 10 then ''0'' else []) @ show_digits \<bar>k\<bar>)))"

section \<open>Dynamically typed values\<close>

datatype pyval =
    PNone
  | PBool bool
  | PInt int
  | PFloat pyfloat
  | PStr string
  | PList "pyval list"
  | PDict "(string \<times> pyval) list"

type_synonym pydict = "(string \<times> pyval) list"

fun truth :: "pyval \<Rightarrow> bool" where
  "truth PNone = False"
| "truth (PBool b) = b"
| "truth (PInt i) = (i \<noteq> 0)"
| "truth (PFloat f) = (f \<noteq> 0)"
| "truth (PStr s) = (s \<noteq> [])"
| "truth (PList xs) = (xs \<noteq> [])"
| "truth (PDict d) = (d \<noteq> [])"

definition py_or :: "pyval \<Rightarrow> pyval \<Rightarrow> pyval" where
  \<comment> \<open>\<open>a or b\<close>\<close>
  "py_or a b = (if truth a then a else b)"

definition dget :: "pydict \<Rightarrow> string \<Rightarrow> pyval" where
  \<comment> \<open>\<open>d.get(k)\<close> on a dictionary\<close>
  "dget d k = (case map_of d k of None \<Rightarrow> PNone | Some v \<Rightarrow> v)"

definition dget_or :: "pydict \<Rightarrow> string \<Rightarrow> pyval \<Rightarrow> pyval" where
  \<comment> \<open>\<open>d.get(k, v)\<close>\<close>
  "dget_or d k v = (case map_of d k of None \<Rightarrow> v | Some w \<Rightarrow> w)"

definition dsub :: "pydict \<Rightarrow> string \<Rightarrow> pyval res" where
  \<comment> \<open>\<open>d[k]\<close>\<close>
  "dsub d k = (case map_of d k of None \<Rightarrow> Inl KeyError | Some v \<Rightarrow> Inr v)"

fun dset :: "string \<Rightarrow> pyval \<Rightarrow> pydict \<Rightarrow> pydict" where
  \<comment> \<open>\<open>d[k] = v\<close>, keeping the place of a key that is already there\<close>
  "dset k v [] = [(k, v)]"
| "dset k v ((k', w) # d) = (if k' = k then (k, v) # d else (k', w) # dset k v d)"

definition dmerge :: "pydict \<Rightarrow> pydict \<Rightarrow> pydict" where
  \<comment> \<open>\<open>{**d, **e}\<close>\<close>
  "dmerge d e = foldl (\<lambda>d (k, v). dset k v d) d e"

definition has_key :: "string \<Rightarrow> pydict \<Rightarrow> bool" where
  "has_key k d = (map_of d k \<noteq> None)"

fun as_dict :: "pyval \<Rightarrow> pydict res" where
  \<comment> \<open>the receiver of \<open>.get\<close>: anything but a dictionary has no such attribute\<close>
  "as_dict (PDict d) = Inr d"
| "as_dict _ = Inl AttributeError"

definition vget :: "pyval \<Rightarrow> string \<Rightarrow> pyval res" where
  \<comment> \<open>\<open>v.get(k)\<close>\<close>
  "vget v k = bindE (as_dict v) (\<lambda>d. Inr (dget d k))"

fun vsub :: "pyval \<Rightarrow> string \<Rightarrow> pyval res" where
  \<comment> \<open>\<open>v[k]\<close> for a string key\<close>
  "vsub (PDict d) k = dsub d k"
| "vsub _ k = Inl TypeError"

fun as_list :: "pyval \<Rightarrow> pyval list res" where
  \<comment> \<open>what a \<open>for\<close> loop runs over: a list, or the keys of a dictionary, or the characters of a string\<close>
  "as_list (PList xs) = Inr xs"
| "as_list (PDict d) = Inr (map (\<lambda>(k, v). PStr k) d)"
| "as_list (PStr s) = Inr (map (\<lambda>c. PStr [c]) s)"
| "as_list _ = Inl TypeError"

fun py_float :: "pyval \<Rightarrow> pyfloat res" where
  \<comment> \<open>\<open>float(v)\<close>\<close>
  "py_float (PBool b) = Inr (if b then Fin 1 else Fin 0)"
| "py_float (PInt i) = of_int_float i"
| "py_float (PFloat f) = Inr f"
| "py_float (PStr s) = (case parse_float s of Some f \<Rightarrow> Inr f | None \<Rightarrow> Inl (ValueError ''could not convert string to float''))"
| "py_float _ = Inl TypeError"

fun py_int :: "pyval \<Rightarrow> int res" where
  \<comment> \<open>\<open>int(v)\<close>\<close>
  "py_int (PBool b) = Inr (if b then 1 else 0)"
| "py_int (PInt i) = Inr i"
| "py_int (PFloat f) = ftrunc f"
| "py_int (PStr s) = (case parse_int s of Some i \<Rightarrow> Inr i | None \<Rightarrow> Inl (ValueError ''invalid literal for int()''))"
| "py_int _ = Inl TypeError"

definition float_or0 :: "pyval \<Rightarrow> pyfloat res" where
  \<comment> \<open>\<open>float(v or 0)\<close>\<close>
  "float_or0 v = (if truth v then py_float v else Inr 0)"

definition repr_char :: "char \<Rightarrow> string" where
  "repr_char c = (let n = ord_of c; hex = (\<lambda>k. if k < 10 then digit_char k else char_of (87 + k)) in
     if c = CHR 0x5C then [CHR 0x5C, CHR 0x5C]
     else if n = 10 then [CHR 0x5C, CHR ''n''] else if n = 13 then [CHR 0x5C, CHR ''r'']
     else if n = 9 then [CHR 0x5C, CHR ''t'']
     else if n < 32 \<or> 127 \<le> n then [CHR 0x5C, CHR ''x'', hex (n div 16), hex (n mod 16)] else [c])"

definition str_repr :: "string \<Rightarrow> string" where
  \<comment> \<open>\<open>repr\<close> of a string: single quotes unless it has a single and no double quote\<close>
  "str_repr s =
     (if CHR 0x27 \<in> set s \<and> CHR 0x22 \<notin> set s
      then [CHR 0x22] @ concat (map repr_char s) @ [CHR 0x22]
      else [CHR 0x27] @ concat (map (\<lambda>c. if c = CHR 0x27 then [CHR 0x5C, c] else repr_char c) s) @ [CHR 0x27])"

definition join :: "string \<Rightarrow> string list \<Rightarrow> string" where
  \<comment> \<open>\<open>sep.join(xs)\<close>\<close>
  "join sep xs = (case xs of [] \<Rightarrow> [] | y # ys \<Rightarrow> foldl (\<lambda>a z. a @ sep @ z) y ys)"

fun py_repr :: "pyval \<Rightarrow> string" where
  "py_repr PNone = ''None''"
| "py_repr (PBool b) = (if b then ''True'' else ''False'')"
| "py_repr (PInt i) = show_int i"
| "py_repr (PFloat f) = float_str f"
| "py_repr (PStr s) = str_repr s"
| "py_repr (PList xs) = ''['' @ join '', '' (map py_repr xs) @ '']''"
| "py_repr (PDict d) = ''{'' @ join '', '' (map (\<lambda>(k, v). str_repr k @ '': '' @ py_repr v) d) @ ''}''"

definition py_str :: "pyval \<Rightarrow> string" where
  "py_str v = (case v of PStr s \<Rightarrow> s | _ \<Rightarrow> py_repr v)"

definition str_or_empty :: "pyval \<Rightarrow> string" where
  \<comment> \<open>\<open>str(v or '')\<close>\<close>
  "str_or_empty v = (if truth v then py_str v else [])"

definition upper_or_empty :: "pyval \<Rightarrow> string" where
  \<comment> \<open>\<open>str(v or '').upper()\<close>\<close>
  "upper_or_empty v = str_upper (str_or_empty v)"

fun num_val :: "pyval \<Rightarrow> pyfloat option" where
  \<comment> \<open>a number as an exact value, for comparisons across \<open>bool\<close>, \<open>int\<close> and \<open>float\<close>\<close>
  "num_val (PBool b) = Some (if b then Fin 1 else Fin 0)"
| "num_val (PInt i) = Some (Fin (of_int i))"
| "num_val (PFloat f) = Some f"
| "num_val _ = None"

definition py_eq :: "pyval \<Rightarrow> pyval \<Rightarrow> bool" where
  \<comment> \<open>\<open>a == b\<close>; numbers compare by value across their types, the elements of containers structurally\<close>
  "py_eq a b = (case num_val a of
       Some x \<Rightarrow> (case num_val b of Some y \<Rightarrow> feq x y | None \<Rightarrow> False)
     | None \<Rightarrow> num_val b = None \<and> a = b)"

definition is_number :: "pyval \<Rightarrow> bool" where
  \<comment> \<open>\<open>isinstance(v, (int, float))\<close>\<close>
  "is_number v = (num_val v \<noteq> None)"

fun opt_val :: "('a \<Rightarrow> pyval) \<Rightarrow> 'a option \<Rightarrow> pyval" where
  \<comment> \<open>an optional value put into a document\<close>
  "opt_val f None = PNone"
| "opt_val f (Some x) = f x"

section \<open>Decimals\<close>

text \<open>
  \<open>decimal.Decimal\<close> with the default context: values are exact, arithmetic rounds to 28
  significant digits (half even), and \<open>quantize\<close> fails when the result needs more.
\<close>

datatype decimal = Dec rat | DInf bool | DNaN

definition parse_dec :: "string \<Rightarrow> decimal option" where
  "parse_dec s =
     (let (sg, r) = take_sign (str_strip s); name = str_lower r; t = remove_char (CHR ''_'') r
      in if name = ''inf'' \<or> name = ''infinity'' then Some (DInf (sg < 0))
         else if starts_with ''nan'' name \<and> list_all is_digit (drop 3 name) then Some DNaN
         else if starts_with ''snan'' name \<and> list_all is_digit (drop 4 name) then Some DNaN
         else map_option (\<lambda>x. Dec (sg * x)) (parse_decimal t))"

definition dec_of_float :: "pyfloat \<Rightarrow> decimal" where
  \<comment> \<open>\<open>Decimal(str(f))\<close>\<close>
  "dec_of_float f = (case f of Fin x \<Rightarrow> Dec (repr_rat x) | PosInf \<Rightarrow> DInf False | NegInf \<Rightarrow> DInf True | NaN \<Rightarrow> DNaN)"

definition py_decimal :: "pyval \<Rightarrow> decimal res" where
  \<comment> \<open>\<open>Decimal(str(v))\<close>\<close>
  "py_decimal v = (case v of PFloat f \<Rightarrow> Inr (dec_of_float f) | PInt i \<Rightarrow> Inr (Dec (of_int i))
     | _ \<Rightarrow> (case parse_dec (py_str v) of Some d \<Rightarrow> Inr d | None \<Rightarrow> Inl InvalidOperation))"

definition dec_round :: "rat \<Rightarrow> rat" where
  \<comment> \<open>the context's rounding to 28 significant digits\<close>
  "dec_round x = (if x = 0 then 0 else let s = 10 powi (ilog10 \<bar>x\<bar> - 27) in of_int (rhe (x / s)) * s)"

definition trunc_rat :: "rat \<Rightarrow> int" where
  \<comment> \<open>\<open>ROUND_DOWN\<close>: towards zero\<close>
  "trunc_rat x = (if 0 \<le> x then \<lfloor>x\<rfloor> else \<lceil>x\<rceil>)"

definition quantize_down :: "rat \<Rightarrow> nat \<Rightarrow> rat res" where
  \<comment> \<open>\<open>d.quantize(Decimal(10) ** -n, rounding=ROUND_DOWN)\<close>\<close>
  "quantize_down x n = (let c = trunc_rat (x * 10 ^ n)
     in if 10 ^ 28 \<le> \<bar>c\<bar> then Inl InvalidOperation else Inr (of_int c / 10 ^ n))"

definition float_of_dec :: "decimal \<Rightarrow> pyfloat" where
  \<comment> \<open>\<open>float(d)\<close>\<close>
  "float_of_dec d = (case d of Dec x \<Rightarrow> fin x | DInf b \<Rightarrow> (if b then NegInf else PosInf) | DNaN \<Rightarrow> NaN)"

section \<open>Facts\<close>

lemma dget_dset [simp]: "dget (dset k v d) k' = (if k' = k then v else dget d k')"
  by (induction k v d rule: dset.induct) (auto simp: dget_def)

lemma map_of_dset: "map_of (dset k v d) = (map_of d)(k \<mapsto> v)"
  by (induction k v d rule: dset.induct) auto

lemma py_eq_PStr: "py_eq v (PStr s) \<longleftrightarrow> v = PStr s"
  by (cases v) (auto simp: py_eq_def)

lemma dget_Nil [simp]: "dget [] k = PNone"
  by (simp add: dget_def)

lemma dget_Cons [simp]: "dget ((k, v) # d) k' = (if k' = k then v else dget d k')"
  by (simp add: dget_def)

lemma dmerge_Nil [simp]: "dmerge d [] = d"
  by (simp add: dmerge_def)

lemma dmerge_Cons [simp]: "dmerge d ((k, v) # e) = dmerge (dset k v d) e"
  by (simp add: dmerge_def)

lemma dget_dmerge: "dget (dmerge d e) k = (case map_of (rev e) k of Some v \<Rightarrow> v | None \<Rightarrow> dget d k)"
proof (induction e arbitrary: d)
  case (Cons kv e)
  obtain a v where kv: "kv = (a, v)" by (cases kv)
  show ?case by (simp add: kv Cons.IH map_add_def split: option.splits)
qed simp

lemma vget_PDict [simp]: "vget (PDict d) k = Inr (dget d k)"
  by (simp add: vget_def)

lemma trunc_rat_le: "0 \<le> x \<Longrightarrow> of_int (trunc_rat x) \<le> x"
  by (simp add: trunc_rat_def)

lemma trunc_rat_nonneg: "0 \<le> x \<Longrightarrow> 0 \<le> trunc_rat x"
  by (simp add: trunc_rat_def)

lemma quantize_down_le:
  assumes "quantize_down x n = Inr y" and "0 \<le> x"
  shows "0 \<le> y" and "y \<le> x" and "x < y + 1 / 10 ^ n"
proof -
  let ?c = "trunc_rat (x * 10 ^ n)"
  have y: "y = of_int ?c / 10 ^ n" using assms(1) by (auto simp: quantize_down_def Let_def split: if_splits)
  have x: "0 \<le> x * 10 ^ n" using assms(2) by simp
  have p: "0 < (10 ^ n :: rat)" by simp
  show "0 \<le> y" using trunc_rat_nonneg [OF x] by (simp add: y)
  show "y \<le> x" using trunc_rat_le [OF x] p by (simp add: y pos_divide_le_eq)
  have "x * 10 ^ n < of_int ?c + 1" using x unfolding trunc_rat_def by simp linarith
  then have "x < (of_int ?c + 1) / 10 ^ n" using p by (simp add: pos_less_divide_eq)
  then show "x < y + 1 / 10 ^ n" by (simp add: y add_divide_distrib)
qed

section \<open>Evaluation\<close>

lemma ilog10_code [code]:
  "ilog10 x = (let (p, q) = quotient_of x; e = ndigits p - ndigits q in if rpow 10 e \<le> x then e else e - 1)"
  unfolding ilog10_def rpow_def of_int_numeral by (rule refl)

lemma round_trip_code [code]:
  "round_trip x n =
     (let s = rpow 10 (ilog10 \<bar>x\<bar> - int n + 1); lo = of_int \<lfloor>x / s\<rfloor> * s; hi = of_int \<lceil>x / s\<rceil> * s;
          near = of_int (rhe (x / s)) * s
      in if rnd near = x then Some near else if rnd lo = x then Some lo
         else if rnd hi = x then Some hi else None)"
  unfolding round_trip_def rpow_def of_int_numeral by (rule refl)

lemma dec_round_code [code]:
  "dec_round x = (if x = 0 then 0 else let s = rpow 10 (ilog10 \<bar>x\<bar> - 27) in of_int (rhe (x / s)) * s)"
  unfolding dec_round_def rpow_def of_int_numeral by (rule refl)

lemma parse_decimal_code [code]:
  "parse_decimal s =
     (let (ip, r) = span_digits s;
          (fp, r') = (case r of c # cs \<Rightarrow> if c = CHR ''.'' then span_digits cs else ([], r) | [] \<Rightarrow> ([], []))
      in if ip = [] \<and> fp = [] then None
         else map_option (\<lambda>e. of_nat (nat_of_digits (ip @ fp)) * rpow 10 (e - int (length fp)))
                (parse_exponent r'))"
  unfolding parse_decimal_def rpow_def of_int_numeral by (rule refl)

lemma float_digits_code [code]:
  "float_digits r =
     (let k = ilog10 r;
          n = (case find (\<lambda>n. r * rpow 10 (int n - 1 - k) = of_int \<lfloor>r * rpow 10 (int n - 1 - k)\<rfloor>) [1..<18]
               of Some n \<Rightarrow> n | None \<Rightarrow> 17)
      in (show_digits \<lfloor>r * rpow 10 (int n - 1 - k)\<rfloor>, k))"
  unfolding float_digits_def rpow_def of_int_numeral by (rule refl)

end
