(* ===== verification/Db_Models.thy ===== *)
theory Db_Models
  imports Py_Value
begin

text \<open>
  The tables of \<open>app/db/models\<close> the modelled services read and write, one record per table with its
  columns in the order of the class. Identifiers are natural numbers (the code's UUIDs), times are
  integers (microseconds of the epoch, UTC), encrypted columns are opaque strings, and a text column
  that holds JSON is a parsed document or a malformed text.
\<close>

section \<open>JSON columns\<close>

datatype jtext = Json pyval | Malformed

definition json_loads :: "jtext option \<Rightarrow> pyval res" where
  \<comment> \<open>\<open>json.loads(text or '{}')\<close>\<close>
  "json_loads t = (case t of None \<Rightarrow> Inr (PDict []) | Some (Json v) \<Rightarrow> Inr v
     | Some Malformed \<Rightarrow> Inl (ValueError ''JSONDecodeError''))"

section \<open>Tables\<close>

record user =
  us_id :: nat
  us_username :: string
  us_email :: "string option"
  us_password_hash :: string
  us_role :: string
  us_is_active :: bool

record broker_profile =
  bp_id :: nat
  bp_user_id :: nat
  bp_provider :: string
  bp_account_label :: string
  bp_environment :: string
  bp_external_account_ref :: "string option"
  bp_is_enabled :: bool
  bp_is_active :: bool
  bp_live_execution_enabled :: bool
  bp_live_execution_armed_at :: "int option"
  bp_live_execution_expires_at :: "int option"
  bp_live_execution_last_disarm_reason :: "string option"
  bp_execution_certified :: bool
  bp_execution_certified_at :: "int option"
  bp_execution_certification_buy_passed :: bool
  bp_execution_certification_sell_passed :: bool
  bp_last_connection_status :: string
  bp_last_connection_test_at :: "int option"
  bp_api_key_encrypted :: "string option"
  bp_api_secret_encrypted :: "string option"
  bp_credential_blob_encrypted :: "string option"
  bp_credentials_configured :: bool
  bp_last_sync_at :: "int option"
  bp_equity_usd :: "pyfloat option"
  bp_wallet_balance_usd :: "pyfloat option"
  bp_available_balance_usd :: "pyfloat option"
  bp_simulation_capital_override_usd :: "pyfloat option"
  bp_open_positions_count :: int
  bp_open_orders_count :: int

record symbol_strategy =
  ss_id :: nat
  ss_user_id :: nat
  ss_profile_id :: nat
  ss_market :: string
  ss_symbol :: string
  ss_mode :: string
  ss_enabled :: bool
  ss_timeframe :: "string option"
  ss_minimum_signal_strength :: "pyfloat option"
  ss_risk_per_trade_pct :: "pyfloat option"
  ss_stop_atr_multiplier :: "pyfloat option"
  ss_take_profit_rr :: "pyfloat option"
  ss_max_position_notional_pct :: "pyfloat option"

record automation_state =
  au_id :: nat
  au_name :: string
  au_enabled :: bool
  au_killed :: bool
  au_auto_execute_paper :: bool
  au_interval_seconds :: int
  au_symbols_csv :: string
  au_last_scan_at :: "int option"
  au_next_scan_at :: "int option"

record automation_scan =
  sn_id :: nat
  sn_status :: string
  sn_symbols_count :: int
  sn_accounts_count :: int
  sn_signals_count :: int
  sn_approved_count :: int
  sn_executed_count :: int
  sn_error_message :: "string option"
  sn_started_at :: int
  sn_finished_at :: "int option"

record automation_action =
  ac_id :: nat
  ac_scan_id :: nat
  ac_user_id :: nat
  ac_broker_profile_id :: "nat option"
  ac_provider :: string
  ac_environment :: "string option"
  ac_market :: string
  ac_symbol :: string
  ac_side :: "string option"
  ac_status :: string
  ac_reason :: "string option"
  ac_quantity :: "pyfloat option"
  ac_sizing_policy :: "string option"
  ac_broker_order_id :: "string option"
  ac_broker_position_id :: "string option"
  ac_raw_json :: "jtext option"
  ac_created_at :: int

record managed_inventory_row =
  iv_id :: nat
  iv_user_id :: nat
  iv_broker_profile_id :: nat
  iv_symbol :: string
  iv_managed_quantity :: pyfloat
  iv_average_entry_price :: "pyfloat option"
  iv_cumulative_bought :: pyfloat
  iv_cumulative_sold :: pyfloat

record risk_profile =
  rp_id :: nat
  rp_name :: string
  rp_minimum_signal_score :: "pyfloat option"
  rp_risk_per_trade_pct :: "pyfloat option"
  rp_max_daily_loss_pct :: "pyfloat option"
  rp_max_open_positions :: "int option"
    \<comment> \<open>the columns are not nullable; a row object that was never flushed has no defaults yet\<close>

record strategy_profile =
  sp_id :: nat
  sp_name :: string
  sp_timeframe :: "string option"
  sp_minimum_signal_strength :: "pyfloat option"
  sp_stop_atr_multiplier :: "pyfloat option"
  sp_take_profit_rr :: "pyfloat option"
  sp_max_position_notional_pct :: "pyfloat option"

record db =
  db_users :: "user list"
  db_profiles :: "broker_profile list"
  db_strategies :: "symbol_strategy list"
  db_states :: "automation_state list"
  db_scans :: "automation_scan list"
  db_actions :: "automation_action list"
  db_inventories :: "managed_inventory_row list"
  db_risks :: "risk_profile list"
  db_strategy_profiles :: "strategy_profile list"
  db_next_id :: nat \<comment> \<open>the next fresh identifier\<close>

definition epoch_ms :: "int \<Rightarrow> int res" where
  \<comment> \<open>\<open>int(t.timestamp() * 1000)\<close>: the seconds are a float\<close>
  "epoch_ms us = ftrunc (fin (of_int us / 10 ^ 6) * fl 1000)"

section \<open>Rows by key\<close>

definition by_key :: "('r \<Rightarrow> nat) \<Rightarrow> nat \<Rightarrow> 'r list \<Rightarrow> 'r option" where
  \<comment> \<open>\<open>db.get(Model, id)\<close> on a table\<close>
  "by_key key i rows = find (\<lambda>r. key r = i) rows"

definition update_key :: "('r \<Rightarrow> nat) \<Rightarrow> nat \<Rightarrow> ('r \<Rightarrow> 'r) \<Rightarrow> 'r list \<Rightarrow> 'r list" where
  \<comment> \<open>\<open>UPDATE ... WHERE id = i\<close>\<close>
  "update_key key i f rows = map (\<lambda>r. if key r = i then f r else r) rows"

locale keyed_table =
  \<comment> \<open>what the services rely on: a keyed table under lookup and update\<close>
  fixes get :: "nat \<Rightarrow> 'r list \<Rightarrow> 'r option"
    and upd :: "nat \<Rightarrow> ('r \<Rightarrow> 'r) \<Rightarrow> 'r list \<Rightarrow> 'r list"
    and key :: "'r \<Rightarrow> nat"
  assumes get_key: "get i rows = Some r \<Longrightarrow> key r = i \<and> r \<in> set rows"
    and get_upd: "(\<And>r. key (f r) = key r) \<Longrightarrow> get i (upd j f rows) = (if i = j then map_option f (get i rows) else get i rows)"
    and upd_keys: "(\<And>r. key (f r) = key r) \<Longrightarrow> map key (upd j f rows) = map key rows"
    and upd_mem: "r \<in> set (upd j f rows) \<Longrightarrow> r \<in> set rows \<or> (\<exists>s \<in> set rows. key s = j \<and> r = f s)"
begin

lemma get_upd_same: "(\<And>r. key (f r) = key r) \<Longrightarrow> get i rows = Some r \<Longrightarrow> get i (upd i f rows) = Some (f r)"
  using get_upd [of f i i rows] by simp

lemma get_upd_other: "(\<And>r. key (f r) = key r) \<Longrightarrow> i \<noteq> j \<Longrightarrow> get i (upd j f rows) = get i rows"
  using get_upd [of f i j rows] by simp

lemma upd_distinct: "(\<And>r. key (f r) = key r) \<Longrightarrow> distinct (map key rows) \<Longrightarrow> distinct (map key (upd j f rows))"
  using upd_keys by metis

lemma upd_invariant:
  assumes "\<forall>r \<in> set rows. I r" and "\<And>r. r \<in> set rows \<Longrightarrow> key r = j \<Longrightarrow> I r \<Longrightarrow> I (f r)"
  shows "\<forall>r \<in> set (upd j f rows). I r"
  using assms upd_mem by blast

end

lemma by_key_SomeD: "by_key key i rows = Some r \<Longrightarrow> key r = i \<and> r \<in> set rows"
  unfolding by_key_def by (induction rows) (auto split: if_splits)

lemma find_update_key:
  "(\<And>r. key (f r) = key r) \<Longrightarrow> by_key key i (update_key key j f rows)
     = (if i = j then map_option f (by_key key i rows) else by_key key i rows)"
proof -
  assume k: "\<And>r. key (f r) = key r"
  show ?thesis
  proof (induction rows)
    case (Cons r rows)
    then show ?case by (cases "key r = i"; cases "key r = j") (simp_all add: by_key_def update_key_def k)
  qed (simp add: by_key_def update_key_def)
qed

lemma keyed_table_rows: "keyed_table (by_key key :: nat \<Rightarrow> 'r list \<Rightarrow> 'r option) (update_key key) key"
proof
  fix i j :: nat and f :: "'r \<Rightarrow> 'r" and rows :: "'r list" and r
  show "by_key key i rows = Some r \<Longrightarrow> key r = i \<and> r \<in> set rows" by (rule by_key_SomeD)
  show "(\<And>r. key (f r) = key r) \<Longrightarrow> by_key key i (update_key key j f rows)
     = (if i = j then map_option f (by_key key i rows) else by_key key i rows)" by (rule find_update_key)
  show "(\<And>r. key (f r) = key r) \<Longrightarrow> map key (update_key key j f rows) = map key rows"
    by (simp add: update_key_def)
  show "r \<in> set (update_key key j f rows) \<Longrightarrow> r \<in> set rows \<or> (\<exists>s \<in> set rows. key s = j \<and> r = f s)"
    by (auto simp: update_key_def)
qed

interpretation profile_table: keyed_table "by_key bp_id" "update_key bp_id" bp_id
  by (rule keyed_table_rows)

interpretation strategy_table: keyed_table "by_key ss_id" "update_key ss_id" ss_id
  by (rule keyed_table_rows)

interpretation action_table: keyed_table "by_key ac_id" "update_key ac_id" ac_id
  by (rule keyed_table_rows)

interpretation inventory_table: keyed_table "by_key iv_id" "update_key iv_id" iv_id
  by (rule keyed_table_rows)

end
