(* ===== verification/Trading_Candles.thy ===== *)
theory Trading_Candles
  imports Py_Value
begin

text \<open>
  \<open>app/services/trading_candles.py\<close> and \<open>app/services/ibkr_paper_data.py\<close>: completed, timestamped
  candles at the decision boundary, the freshness gates on candles and quotes that guard an entry,
  and the delayed reference price of Paper accounts. \<open>time.time()\<close> is the argument \<open>now_ms\<close>.
\<close>

definition INTERVAL_MS :: "(string \<times> int) list" where
  "INTERVAL_MS =
     [(''1m'', 60000), (''3m'', 180000), (''5m'', 300000), (''15m'', 900000), (''30m'', 1800000),
      (''1h'', 3600000), (''2h'', 7200000), (''4h'', 14400000), (''6h'', 21600000),
      (''12h'', 43200000), (''1d'', 86400000)]"

section \<open>Completed candles\<close>

definition candle_end :: "pydict \<Rightarrow> int \<Rightarrow> int \<Rightarrow> pyval" where
  \<comment> \<open>\<open>row.get('bar_end_ms', stamp + duration)\<close>\<close>
  "candle_end row stamp duration = dget_or row ''bar_end_ms'' (PInt (stamp + duration))"

definition ohlc :: "pydict \<Rightarrow> (pyfloat \<times> pyfloat \<times> pyfloat \<times> pyfloat) res" where
  "ohlc row =
     bindE (bindE (dsub row ''open'') py_float) (\<lambda>o'.
     bindE (bindE (dsub row ''high'') py_float) (\<lambda>h.
     bindE (bindE (dsub row ''low'') py_float) (\<lambda>l.
     bindE (bindE (dsub row ''close'') py_float) (\<lambda>c. Inr (o', h, l, c)))))"

definition ohlc_valid :: "pyfloat \<times> pyfloat \<times> pyfloat \<times> pyfloat \<Rightarrow> bool" where
  \<comment> \<open>all four finite and positive, the low below and the high above the body\<close>
  "ohlc_valid v = (let (o', h, l, c) = v
     in list_all (\<lambda>x. isfinite x \<and> 0 < x) [o', h, l, c] \<and> \<not> pymin o' c < l \<and> \<not> h < pymax o' c)"

definition check_candle :: "string \<Rightarrow> int \<Rightarrow> int option \<Rightarrow> pydict \<Rightarrow> (int \<times> int) res" where
  \<comment> \<open>one pass of the loop body: the stamp and the end of a valid row\<close>
  "check_candle timeframe duration previous row =
     (case dget row ''timestamp_ms'' of
        PInt stamp \<Rightarrow>
          guardE (stamp \<le> 0) (ValueError ''TRADING_CANDLE_TIMESTAMP_REQUIRED'')
         (guardE (case previous of None \<Rightarrow> False | Some p \<Rightarrow> stamp \<le> p) (ValueError ''TRADING_CANDLE_ORDER_INVALID'')
         (guardE (\<not> py_eq (dget_or row ''interval'' (PStr timeframe)) (PStr timeframe))
            (ValueError ''TRADING_CANDLE_INTERVAL_MISMATCH'')
         (case candle_end row stamp duration of
            PInt e \<Rightarrow>
              guardE (e \<le> stamp) (ValueError ''TRADING_CANDLE_END_INVALID'')
             (guardE ((timeframe \<noteq> ''1d'' \<and> e \<noteq> stamp + duration)
                      \<or> (timeframe = ''1d'' \<and> \<not> (23 * 3600000 \<le> e - stamp \<and> e - stamp \<le> 25 * 3600000)))
                (ValueError ''TRADING_CANDLE_END_INVALID'')
             (bindE (ohlc row) (\<lambda>v.
                guardE (\<not> ohlc_valid v) (ValueError ''TRADING_CANDLE_OHLC_INVALID'') (Inr (stamp, e)))))
          | _ \<Rightarrow> Inl (ValueError ''TRADING_CANDLE_END_INVALID''))))
      | _ \<Rightarrow> Inl (ValueError ''TRADING_CANDLE_TIMESTAMP_REQUIRED''))"

fun scan_candles :: "string \<Rightarrow> int \<Rightarrow> int \<Rightarrow> int option \<Rightarrow> pydict list \<Rightarrow> pydict list res" where
  "scan_candles timeframe duration now_ms previous [] = Inr []"
| "scan_candles timeframe duration now_ms previous (row # rows) =
     bindE (check_candle timeframe duration previous row) (\<lambda>(stamp, e).
     bindE (scan_candles timeframe duration now_ms (Some stamp) rows) (\<lambda>completed.
       Inr (if e \<le> now_ms then row # completed else completed)))"

definition completed_trading_candles :: "pydict list \<Rightarrow> string \<Rightarrow> int \<Rightarrow> nat \<Rightarrow> pydict list res" where
  "completed_trading_candles rows timeframe now_ms limit =
     (case map_of INTERVAL_MS timeframe of
        None \<Rightarrow> Inl (ValueError ''TRADING_CANDLE_INTERVAL_UNSUPPORTED'')
      | Some duration \<Rightarrow>
          bindE (scan_candles timeframe duration now_ms None rows) (\<lambda>completed.
            guardE (length completed < 30) (ValueError ''TRADING_COMPLETED_CANDLES_INSUFFICIENT'')
              (Inr (last_n limit completed))))"

definition completed_ibkr_candles :: "pydict \<Rightarrow> string \<Rightarrow> int \<Rightarrow> pydict list res" where
  "completed_ibkr_candles payload timeframe now_ms =
     guardE (\<not> py_eq (dget payload ''actual_timeframe'') (PStr timeframe)) (ValueError ''IBKR_CANDLE_TIMEFRAME_UNVERIFIED'')
       (bindE (bindE (as_list (dget_or payload ''list'' (PList []))) (mapE as_dict)) (\<lambda>rows.
          completed_trading_candles rows timeframe now_ms 200))"

section \<open>Entry gates on candles and quotes\<close>

record candle_quality =
  cq_count :: nat
  cq_required :: nat
  cq_timeframe :: string
  cq_last_end :: "int option"
  cq_age :: "int option"
  cq_max_age :: int
  cq_policy :: string
  cq_reason :: "string option"

definition row_end :: "pydict \<Rightarrow> int \<Rightarrow> int res" where
  \<comment> \<open>\<open>row.get('bar_end_ms', row['timestamp_ms'] + duration)\<close> on a row of completed candles\<close>
  "row_end row duration =
     bindE (dsub row ''timestamp_ms'') (\<lambda>s. case s of
         PInt stamp \<Rightarrow> (case candle_end row stamp duration of PInt e \<Rightarrow> Inr e | _ \<Rightarrow> Inl TypeError)
       | _ \<Rightarrow> Inl TypeError)"

definition entry_candle_quality :: "pydict list \<Rightarrow> string \<Rightarrow> int \<Rightarrow> bool \<Rightarrow> candle_quality res" where
  "entry_candle_quality rows timeframe now_ms paper_delayed =
     (case map_of INTERVAL_MS timeframe of
        None \<Rightarrow> Inl KeyError
      | Some duration \<Rightarrow>
          bindE (if rows = [] then Inr None else bindE (row_end (last rows) duration) (\<lambda>e. Inr (Some e))) (\<lambda>end'.
            let age = map_option (\<lambda>e. now_ms - e) end';
                maximum_age = duration + 90000 + (if paper_delayed then 1200000 else 0);
                reason = (if length rows < 200 then Some ''ENTRY_CANDLE_HISTORY_INSUFFICIENT''
                          else (case age of None \<Rightarrow> Some ''ENTRY_CANDLES_STALE''
                                | Some a \<Rightarrow> if 0 \<le> a \<and> a \<le> maximum_age then None else Some ''ENTRY_CANDLES_STALE''))
            in Inr \<lparr>cq_count = length rows, cq_required = 200, cq_timeframe = timeframe, cq_last_end = end',
                    cq_age = age, cq_max_age = maximum_age,
                    cq_policy = (if paper_delayed then ''IBKR_PAPER_DELAYED_DATA'' else ''REALTIME_ENTRY''),
                    cq_reason = reason\<rparr>))"

record quote_quality =
  qq_source :: pyval
  qq_data_type :: pyval
  qq_data_status :: string
  qq_field :: "string option"
  qq_age :: "int option"
  qq_trade_age :: "int option"
  qq_max_age :: int
  qq_timestamped :: bool
  qq_reason :: "string option"

definition usable_price :: "pyval \<Rightarrow> bool" where
  \<comment> \<open>\<open>isinstance(v, (int, float)) and math.isfinite(v) and v > 0\<close>\<close>
  "usable_price v = (case num_val v of Some x \<Rightarrow> isfinite x \<and> 0 < x | None \<Rightarrow> False)"

definition data_status_of :: "pyval \<Rightarrow> string" where
  "data_status_of v = (if py_eq v (PInt 1) then ''LIVE'' else if py_eq v (PInt 2) then ''FROZEN''
     else if py_eq v (PInt 3) then ''DELAYED'' else if py_eq v (PInt 4) then ''DELAYED_FROZEN'' else ''UNKNOWN'')"

definition stamp_of :: "pyval \<Rightarrow> int option" where
  \<comment> \<open>\<open>v if type(v) is int else None\<close>\<close>
  "stamp_of v = (case v of PInt i \<Rightarrow> Some i | _ \<Rightarrow> None)"

definition ibkr_entry_quote_quality :: "pydict \<Rightarrow> string \<Rightarrow> int \<Rightarrow> quote_quality" where
  "ibkr_entry_quote_quality quote side now_ms =
     (let fields = (if side = ''BUY'' then [''ask'', ''last'', ''bid''] else [''bid'', ''last'', ''ask'']);
          field = find (\<lambda>k. usable_price (dget quote k)) fields;
          received = stamp_of (dget quote ((case field of Some k \<Rightarrow> k | None \<Rightarrow> ''None'') @ ''_received_at_ms''));
          age = map_option (\<lambda>r. now_ms - r) received;
          trade = dget quote ''last_trade_at_ms'';
          trade_age = map_option (\<lambda>t. now_ms - t) (stamp_of trade);
          reason =
            (if \<not> py_eq (dget quote ''source'') (PStr ''SNAPSHOT'') \<or> \<not> py_eq (dget quote ''market_data_type'') (PInt 1)
                \<or> truth (dget quote ''delayed_ticks'')
             then Some ''IBKR_ENTRY_REALTIME_QUOTE_REQUIRED''
             else if field = None then Some ''IBKR_ENTRY_QUOTE_PRICE_INVALID''
             else if (case age of None \<Rightarrow> True | Some a \<Rightarrow> \<not> (0 \<le> a \<and> a \<le> 30000)) then Some ''IBKR_ENTRY_QUOTE_STALE''
             else if field = Some ''last'' \<and> trade = PNone then Some ''IBKR_ENTRY_LAST_TRADE_TIME_REQUIRED''
             else if field = Some ''last'' \<and> (case trade_age of None \<Rightarrow> True | Some a \<Rightarrow> \<not> (- 2000 \<le> a \<and> a \<le> 30000))
             then Some ''IBKR_ENTRY_LAST_TRADE_STALE''
             else None)
      in \<lparr>qq_source = dget quote ''source'', qq_data_type = dget quote ''market_data_type'',
          qq_data_status = data_status_of (dget quote ''market_data_type''), qq_field = field, qq_age = age,
          qq_trade_age = trade_age, qq_max_age = 30000, qq_timestamped = (trade \<noteq> PNone), qq_reason = reason\<rparr>)"

section \<open>Delayed Paper data\<close>

record app_settings =
  ibkr_paper_delayed_data_enabled :: bool
  allow_live_trading :: bool
  ibkr_paper_atr_sizing_enabled :: bool
  ibkr_fractional_api_enabled :: bool
  ibkr_native_protection_enabled :: bool
  ibkr_execution_timezone :: string
  ibkr_position_monitor_interval_seconds :: int

definition delayed_paper_mode :: "app_settings \<Rightarrow> string \<Rightarrow> pydict res \<Rightarrow> bool res" where
  \<comment> \<open>the broker's health, given or read, is only consulted when the mode is switched on\<close>
  "delayed_paper_mode settings environment health =
     (if \<not> ibkr_paper_delayed_data_enabled settings \<or> str_upper environment \<noteq> ''PAPER'' \<or> allow_live_trading settings
      then Inr False
      else bindE health (\<lambda>h.
        guardE (dget h ''connected'' \<noteq> PBool True \<or> dget h ''simulation'' \<noteq> PBool True)
          (ValueError ''IBKR_PAPER_BRIDGE_REQUIRED'') (Inr True)))"

record delayed_quote =
  dq_last :: pyfloat
  dq_end :: "int option"
  dq_age :: "int option"
  dq_max_age :: int

definition delayed_reference :: "pydict list \<Rightarrow> string \<Rightarrow> int \<Rightarrow> delayed_quote res" where
  \<comment> \<open>the quote built from the last candle; the evidence adds constants and a null reason\<close>
  "delayed_reference candles timeframe now_ms =
     bindE (entry_candle_quality candles timeframe now_ms True) (\<lambda>quality.
       case cq_reason quality of
         Some r \<Rightarrow> Inl (ValueError r)
       | None \<Rightarrow>
           bindE (if candles = [] then Inl IndexError else bindE (dsub (last candles) ''close'') py_float) (\<lambda>value.
             guardE (\<not> isfinite value \<or> value \<le> 0) (ValueError ''IBKR_ENTRY_QUOTE_PRICE_INVALID'')
               (Inr \<lparr>dq_last = value, dq_end = cq_last_end quality, dq_age = cq_age quality,
                     dq_max_age = cq_max_age quality\<rparr>)))"

section \<open>What a list of completed candles is\<close>

definition candle_wf :: "string \<Rightarrow> int \<Rightarrow> int \<Rightarrow> pydict \<Rightarrow> bool" where
  \<comment> \<open>a row the gate lets through: an integer stamp, its interval complete by \<open>now_ms\<close>, a sound body\<close>
  "candle_wf timeframe duration now_ms row =
     (\<exists>stamp e o' h l c. dget row ''timestamp_ms'' = PInt stamp \<and> 0 < stamp
        \<and> candle_end row stamp duration = PInt e \<and> stamp < e \<and> e \<le> now_ms
        \<and> (timeframe \<noteq> ''1d'' \<longrightarrow> e = stamp + duration)
        \<and> (timeframe = ''1d'' \<longrightarrow> 23 * 3600000 \<le> e - stamp \<and> e - stamp \<le> 25 * 3600000)
        \<and> ohlc row = Inr (o', h, l, c) \<and> ohlc_valid (o', h, l, c))"

definition candle_stamp :: "pydict \<Rightarrow> int" where
  "candle_stamp row = (case dget row ''timestamp_ms'' of PInt s \<Rightarrow> s | _ \<Rightarrow> 0)"

lemma check_candle_ok:
  assumes "check_candle timeframe duration previous row = Inr (s, e)"
  shows "candle_stamp row = s" and "\<And>p. previous = Some p \<Longrightarrow> p < s" and "e \<le> now_ms \<Longrightarrow> candle_wf timeframe duration now_ms row"
  using assms
  by (auto simp: check_candle_def candle_stamp_def candle_wf_def guardE_Inr_iff bindE_Inr_iff split: pyval.splits)

lemma scan_candles_wf:
  assumes "scan_candles timeframe duration now_ms previous rows = Inr completed"
  shows "\<forall>row \<in> set completed. candle_wf timeframe duration now_ms row"
    and "sorted_wrt (<) (map candle_stamp completed)"
    and "\<forall>row \<in> set completed. \<forall>p. previous = Some p \<longrightarrow> p < candle_stamp row"
  using assms
proof (induction rows arbitrary: previous completed)
  case (Cons row rows)
  {
    case 1
    then show ?case using Cons.IH(1) check_candle_ok(3) by (fastforce split: if_splits)
  next
    case 2
    then show ?case using Cons.IH(2,3) check_candle_ok(1) by (fastforce split: if_splits)
  next
    case 3
    then show ?case using Cons.IH(3) check_candle_ok(1,2) by (fastforce split: if_splits)
  }
qed simp_all

lemma scan_candles_subseq:
  "scan_candles timeframe duration now_ms previous rows = Inr completed \<Longrightarrow> set completed \<subseteq> set rows"
  by (induction rows arbitrary: previous completed) (fastforce split: if_splits)+

lemma scan_candles_snoc_incomplete:
  assumes "scan_candles timeframe duration now_ms previous rows = Inr completed"
    and "check_candle timeframe duration (if rows = [] then previous else Some (candle_stamp (last rows))) row = Inr (s, e)"
    and "now_ms < e"
  shows "scan_candles timeframe duration now_ms previous (rows @ [row]) = Inr completed"
  using assms
proof (induction rows arbitrary: previous completed)
  case Nil
  then show ?case by (auto split: prod.splits)
next
  case (Cons r rows)
  from Cons.prems(1) obtain s' e' rest where r: "check_candle timeframe duration previous r = Inr (s', e')"
    and rest: "scan_candles timeframe duration now_ms (Some s') rows = Inr rest"
    and out: "completed = (if e' \<le> now_ms then r # rest else rest)"
    by auto
  have "candle_stamp r = s'" using r by (rule check_candle_ok(1))
  then have "scan_candles timeframe duration now_ms (Some s') (rows @ [row]) = Inr rest"
    using Cons.IH [OF rest] Cons.prems(2,3) by (cases rows) auto
  then show ?case by (simp add: r out)
qed

text \<open>
  What the decision boundary lets through: when \<open>completed_trading_candles\<close> returns, every
  returned candle is a row of the input with a positive integer stamp, an interval of the right
  length that had ended by \<open>now_ms\<close> (no look-ahead) and a positive, finite, consistent body; the
  stamps increase strictly; there are at least \<open>min 30 limit\<close> and at most \<open>limit\<close> candles.
\<close>

theorem completed_trading_candles_sound:
  assumes "completed_trading_candles rows timeframe now_ms limit = Inr cs"
  shows "\<exists>duration. map_of INTERVAL_MS timeframe = Some duration
           \<and> (\<forall>row \<in> set cs. row \<in> set rows \<and> candle_wf timeframe duration now_ms row)
           \<and> sorted_wrt (<) (map candle_stamp cs) \<and> min 30 limit \<le> length cs \<and> length cs \<le> limit"
proof -
  from assms obtain duration completed where d: "map_of INTERVAL_MS timeframe = Some duration"
    and scan: "scan_candles timeframe duration now_ms None rows = Inr completed"
    and len: "30 \<le> length completed" and cs: "cs = last_n limit completed"
    by (auto simp: completed_trading_candles_def split: option.splits)
  obtain ys where "completed = ys @ cs" using last_n_suffix cs by blast
  then have "sorted_wrt (<) (map candle_stamp cs)"
    using scan_candles_wf(2) [OF scan] by (simp add: sorted_wrt_append)
  moreover have "set cs \<subseteq> set completed" by (simp add: cs set_last_n)
  ultimately show ?thesis
    using d len scan_candles_wf(1) [OF scan] scan_candles_subseq [OF scan] by (fastforce simp: cs)
qed

definition example_candle :: "int \<Rightarrow> pydict" where
  \<comment> \<open>a five-minute bar for the witnesses\<close>
  "example_candle i = [(''timestamp_ms'', PInt (300000 * i)), (''open'', PFloat (Fin 100)),
     (''high'', PFloat (Fin 102)), (''low'', PFloat (Fin 99)), (''close'', PFloat (Fin 101))]"

lemma example_scan:
  "scan_candles ''5m'' 300000 (300000 * 31) None (map example_candle [1..30]) = Inr (map example_candle [1..30])"
  by code_simp

lemma example_completed:
  "completed_trading_candles (map example_candle [1..30]) ''5m'' (300000 * 31) 200 = Inr (map example_candle [1..30])"
proof -
  have "length (map example_candle [1..30]) = 30" by code_simp
  then show ?thesis using example_scan by (simp add: completed_trading_candles_def INTERVAL_MS_def last_n_all)
qed

theorem completed_trading_candles_sound_witness:
  "\<exists>duration. map_of INTERVAL_MS ''5m'' = Some duration
     \<and> list_all (candle_wf ''5m'' duration (300000 * 31)) (map example_candle [1..30])
     \<and> sorted_wrt (<) (map candle_stamp (map example_candle [1..30]))"
proof -
  obtain duration where d: "map_of INTERVAL_MS ''5m'' = Some duration"
      "\<forall>row \<in> set (map example_candle [1..30]). candle_wf ''5m'' duration (300000 * 31) row"
      "sorted_wrt (<) (map candle_stamp (map example_candle [1..30]))"
    using completed_trading_candles_sound [OF example_completed] by (elim exE conjE) (rule that, assumption, blast, assumption)
  then show ?thesis by (intro exI [of _ duration]) (simp only: list_all_iff conj_assoc simp_thms)
qed

text \<open>
  A bar that is still open does not change a decision: appending a valid row whose end lies
  after \<open>now_ms\<close> leaves the returned candles as they were.
\<close>

theorem completed_trading_candles_open_bar:
  assumes "completed_trading_candles rows timeframe now_ms limit = Inr cs"
    and "map_of INTERVAL_MS timeframe = Some duration"
    and "check_candle timeframe duration (if rows = [] then None else Some (candle_stamp (last rows))) row = Inr (s, e)"
    and "now_ms < e"
  shows "completed_trading_candles (rows @ [row]) timeframe now_ms limit = Inr cs"
  using assms scan_candles_snoc_incomplete [of timeframe duration now_ms None rows _ row s e]
  by (auto simp: completed_trading_candles_def guardE_Inr_iff)

theorem completed_trading_candles_open_bar_witness:
  "completed_trading_candles (map example_candle [1..30] @ [example_candle 31]) ''5m'' (300000 * 31) 200
     = Inr (map example_candle [1..30])"
proof (rule completed_trading_candles_open_bar [where duration = 300000 and s = "300000 * 31" and e = "300000 * 32"])
  show "completed_trading_candles (map example_candle [1..30]) ''5m'' (300000 * 31) 200
               = Inr (map example_candle [1..30])" by (rule example_completed)
  show "map_of INTERVAL_MS ''5m'' = Some 300000" by code_simp
  show "check_candle ''5m'' 300000
      (if map example_candle [1..30] = [] then None else Some (candle_stamp (last (map example_candle [1..30]))))
      (example_candle 31) = Inr (300000 * 31, 300000 * 32)" by code_simp
qed simp

text \<open>
  A quote clears the entry gate exactly when it is a real-time snapshot, one of the preferred
  price fields carries a usable price received in the last 30 seconds, and, if that field is the
  last trade, the trade itself has a stamp at most 30 seconds old and 2 seconds ahead.
\<close>

theorem quote_quality_clear_iff:
  "qq_reason (ibkr_entry_quote_quality quote side now_ms) = None \<longleftrightarrow>
     py_eq (dget quote ''source'') (PStr ''SNAPSHOT'') \<and> py_eq (dget quote ''market_data_type'') (PInt 1)
   \<and> \<not> truth (dget quote ''delayed_ticks'')
   \<and> (\<exists>k r. find (\<lambda>k. usable_price (dget quote k))
               (if side = ''BUY'' then [''ask'', ''last'', ''bid''] else [''bid'', ''last'', ''ask'']) = Some k
        \<and> dget quote (k @ ''_received_at_ms'') = PInt r \<and> 0 \<le> now_ms - r \<and> now_ms - r \<le> 30000
        \<and> (if k = ''last'' then \<exists>t. dget quote ''last_trade_at_ms'' = PInt t
                                 \<and> - 2000 \<le> now_ms - t \<and> now_ms - t \<le> 30000 else True))"
  (is "_ \<longleftrightarrow> ?clear")
proof -
  let ?f = "find (\<lambda>k. usable_price (dget quote k))
               (if side = ''BUY'' then [''ask'', ''last'', ''bid''] else [''bid'', ''last'', ''ask''])"
  show ?thesis
  proof (cases ?f)
    case None
    then show ?thesis by (simp add: ibkr_entry_quote_quality_def Let_def)
  next
    case (Some k)
    then show ?thesis
      by (cases "dget quote (k @ ''_received_at_ms'')"; cases "dget quote ''last_trade_at_ms''")
        (auto simp: ibkr_entry_quote_quality_def Let_def stamp_of_def)
  qed
qed

text \<open>
  The delayed reference price is a Paper-only facility: the mode is never on outside the PAPER
  environment, with live trading allowed, or on a bridge that is not a connected simulation.
\<close>

theorem delayed_paper_mode_simulation_only:
  assumes "delayed_paper_mode settings environment health = Inr True"
  shows "ibkr_paper_delayed_data_enabled settings \<and> str_upper environment = ''PAPER''
         \<and> \<not> allow_live_trading settings
         \<and> (\<exists>h. health = Inr h \<and> dget h ''connected'' = PBool True \<and> dget h ''simulation'' = PBool True)"
  using assms by (auto simp: delayed_paper_mode_def guardE_Inr_iff split: if_splits)

theorem delayed_paper_mode_simulation_only_witness:
  "\<exists>h. (Inr [(''connected'', PBool True), (''simulation'', PBool True)] :: pydict res) = Inr h
     \<and> dget h ''connected'' = PBool True \<and> dget h ''simulation'' = PBool True"
  using delayed_paper_mode_simulation_only
    [of "\<lparr>ibkr_paper_delayed_data_enabled = True, allow_live_trading = False,
         ibkr_paper_atr_sizing_enabled = False, ibkr_fractional_api_enabled = False,
         ibkr_native_protection_enabled = True, ibkr_execution_timezone = ''Etc/UTC'',
         ibkr_position_monitor_interval_seconds = 30\<rparr>" "''paper''"
        "Inr [(''connected'', PBool True), (''simulation'', PBool True)]"]
  by (simp add: delayed_paper_mode_def str_upper_def upper_char_def ord_of_def)

end
