(* ===== verification/Execution_Guard.thy ===== *)
theory Execution_Guard
  imports Py_Value
begin

text \<open>
  \<open>app/services/execution_guard.py\<close>: the canonical symbol, the symbols with exposure or a pending
  order in a broker response, and the process-local reservation of one profile and symbol. The
  reservation is a state machine over the tasks of the process.
\<close>

section \<open>Symbols\<close>

definition canonical_symbol :: "pyval \<Rightarrow> string" where
  \<comment> \<open>the same function is written out in several modules of the code\<close>
  "canonical_symbol v =
     remove_char (CHR '' '') (remove_char (CHR ''/'') (str_upper (str_strip (str_or_empty v))))"

fun exposure_symbols :: "pydict list \<Rightarrow> string option \<Rightarrow> string list res" where
  \<comment> \<open>the set as a list; with a quantity key, rows with a zero quantity are skipped\<close>
  "exposure_symbols [] k = Inr []"
| "exposure_symbols (row # rows) k =
     bindE (case k of None \<Rightarrow> Inr False | Some key \<Rightarrow> bindE (float_or0 (dget row key)) (\<lambda>q. Inr (feq q 0))) (\<lambda>skip.
       if skip then exposure_symbols rows k
       else (let s = canonical_symbol (dget row ''symbol'')
             in bindE (exposure_symbols rows k) (\<lambda>out. Inr (if s \<noteq> [] then s # out else out))))"

definition TERMINAL_STATUSES :: "string list" where
  "TERMINAL_STATUSES = [''FILLED'', ''CANCELLED'', ''CANCELED'', ''REJECTED'', ''EXPIRED'', ''INACTIVE'', ''DONE'', ''DEACTIVATED'']"

definition order_state :: "pydict \<Rightarrow> string" where
  "order_state row =
     str_upper (str_strip (str_or_empty (py_or (dget row ''status'') (py_or (dget row ''order_status'') (dget row ''orderStatus'')))))"

definition nothing_remains :: "pydict \<Rightarrow> bool res" where
  \<comment> \<open>the order reports a remaining quantity that is zero or less; an unreadable one does not count\<close>
  "nothing_remains row =
     (if dget row ''remaining'' = PNone then Inr False
      else tryE (bindE (py_float (dget row ''remaining'')) (\<lambda>r. Inr (r \<le> 0))) is_type_or_value (\<lambda>_. Inr False))"

fun pending_order_symbols :: "pydict list \<Rightarrow> string list res" where
  "pending_order_symbols [] = Inr []"
| "pending_order_symbols (row # rows) =
     (if order_state row \<in> set TERMINAL_STATUSES then pending_order_symbols rows
      else bindE (nothing_remains row) (\<lambda>b.
        if b then pending_order_symbols rows
        else (let s = canonical_symbol (dget row ''symbol'')
              in bindE (pending_order_symbols rows) (\<lambda>out. Inr (if s \<noteq> [] then s # out else out)))))"

lemma exposure_symbols_iff:
  "exposure_symbols rows k = Inr out \<Longrightarrow>
     s \<in> set out \<longleftrightarrow> s \<noteq> [] \<and> (\<exists>row \<in> set rows. canonical_symbol (dget row ''symbol'') = s
       \<and> (\<forall>key. k = Some key \<longrightarrow> (\<exists>q. float_or0 (dget row key) = Inr q \<and> \<not> feq q 0)))"
proof (induction rows arbitrary: out)
  case (Cons row rows)
  then show ?case by (cases k) (auto simp: Let_def bindE_Inr_iff split: if_splits)
qed simp

lemma pending_order_symbols_iff:
  "pending_order_symbols rows = Inr out \<Longrightarrow>
     s \<in> set out \<longleftrightarrow> s \<noteq> [] \<and> (\<exists>row \<in> set rows. canonical_symbol (dget row ''symbol'') = s
       \<and> order_state row \<notin> set TERMINAL_STATUSES \<and> nothing_remains row = Inr False)"
  by (induction rows arbitrary: out) (auto simp: Let_def bindE_Inr_iff split: if_splits)

lemma upper_char_idem: "upper_char (upper_char c) = upper_char c"
proof -
  have "ord_of (char_of (ord_of c - 32)) = ord_of c - 32" if "ord_of c \<le> 122" using that
    by (simp add: ord_of_def)
  then show ?thesis by (auto simp: upper_char_def)
qed

lemma remove_char_not_in: "c \<notin> set s \<Longrightarrow> remove_char c s = s"
  unfolding remove_char_def by (induction s) auto

lemma remove_char_notin [simp]: "c \<notin> set (remove_char c s)"
  by (simp add: remove_char_def)

lemma canonical_no_slash: "CHR ''/'' \<notin> set (canonical_symbol v) \<and> CHR '' '' \<notin> set (canonical_symbol v)"
  by (auto simp: canonical_symbol_def remove_char_def)

section \<open>The reservation\<close>

text \<open>
  A reservation key is the profile and the canonical symbol. A task that finds the lock taken gets
  \<open>None\<close> and does not wait; otherwise it holds the lock until its block ends, normally or by an
  exception. The state maps a key to the task that holds it.
\<close>

definition reservation_key :: "string \<Rightarrow> pyval \<Rightarrow> string" where
  "reservation_key profile_id symbol = profile_id @ '':'' @ canonical_symbol symbol"

type_synonym locks = "string \<Rightarrow> nat option"

datatype guard_event = Reserved nat string | Refused nat string | Released nat string

inductive guard_step :: "locks \<Rightarrow> guard_event \<Rightarrow> locks \<Rightarrow> bool" where
  reserve: "l k = None \<Longrightarrow> guard_step l (Reserved t k) (l(k \<mapsto> t))"
| refuse: "l k = Some u \<Longrightarrow> guard_step l (Refused t k) l"
| release: "l k = Some t \<Longrightarrow> guard_step l (Released t k) (l(k := None))"

inductive_cases guard_stepE [elim!]: "guard_step l ev l'"

inductive_simps guard_step_simps: "guard_step l (Reserved t k) l'" "guard_step l (Refused t k) l'" "guard_step l (Released t k) l'"

inductive guard_run :: "locks \<Rightarrow> guard_event list \<Rightarrow> locks \<Rightarrow> bool" where
  start: "guard_run l [] l"
| more: "guard_run l evs l' \<Longrightarrow> guard_step l' ev l'' \<Longrightarrow> guard_run l (evs @ [ev]) l''"

fun holder :: "string \<Rightarrow> guard_event list \<Rightarrow> nat option" where
  \<comment> \<open>who holds the key after the events, read backwards\<close>
  "holder k [] = None"
| "holder k (ev # evs) =
     (case ev of Reserved t k' \<Rightarrow> if k' = k then Some t else holder k evs
      | Released t k' \<Rightarrow> if k' = k then None else holder k evs | Refused _ _ \<Rightarrow> holder k evs)"

lemma guard_run_holder: "guard_run l evs l' \<Longrightarrow> l = Map.empty \<Longrightarrow> l' k = holder k (rev evs)"
  by (induction rule: guard_run.induct) auto

inductive_cases guard_run_NilE: "guard_run l [] l'"
inductive_cases guard_run_snocE: "guard_run l (evs @ [ev]) l'"

lemma guard_run_append:
  "guard_run l (xs @ ys) l'' \<Longrightarrow> \<exists>l'. guard_run l xs l' \<and> guard_run l' ys l''"
proof (induction ys arbitrary: l'' rule: rev_induct)
  case Nil
  then show ?case by (auto intro: guard_run.start)
next
  case (snoc y ys)
  from snoc.prems obtain l1 where l1: "guard_run l (xs @ ys) l1" "guard_step l1 y l''"
    by (metis append_assoc guard_run_snocE)
  from snoc.IH [OF l1(1)] obtain l' where "guard_run l xs l'" "guard_run l' ys l1" by blast
  with guard_run.more [OF this(2) l1(2)] show ?case by blast
qed

lemma guard_run_keeps:
  "guard_run l evs l' \<Longrightarrow> l k = Some t \<Longrightarrow> Released t k \<notin> set evs \<Longrightarrow> l' k = Some t"
  by (induction rule: guard_run.induct) (auto split: if_splits)

lemma guard_run_single: "guard_run l [ev] l' \<Longrightarrow> guard_step l ev l'"
  by (metis append_Nil guard_run_NilE guard_run_snocE)



end
