(* ===== verification/World.thy ===== *)
theory World
  imports Db_Models Trading_Candles Execution_Guard
begin

text \<open>
  The world an asynchronous service runs in, and the programs that run in it. A program threads the
  state of one database session: the database as the session sees it, the identity map of the rows it
  has loaded (the session factory sets \<open>expire_on_commit=False\<close>, so a loaded row keeps its attribute
  values until it is refreshed), the number of suspensions so far, and a log of what it did.

  Everything outside is the environment: what other tasks commit while the program is suspended,
  what a broker answers to a request, whether a commit succeeds, the clock, the secrets. Every
  HTTP request and every sleep is a suspension; between two suspensions the program runs alone (one
  event loop, as \<open>app/services/execution_guard.py\<close> assumes).
\<close>

section \<open>Requests and the log\<close>

datatype request = Get string pydict | Post string pydict

datatype event =
    Sent string request db            \<comment> \<open>a request to a base URL, with the database at that moment\<close>
  | Committed db                      \<comment> \<open>a commit that succeeded\<close>
  | Checked "string option" nat nat db  \<comment> \<open>entry controls read for a profile and a strategy: the blocker, if any\<close>

record world =
  w_db :: db
  w_profiles :: "broker_profile list"
  w_strategies :: "symbol_strategy list"
  w_states :: "automation_state list"
  w_tick :: nat
  w_log :: "event list"
  w_saved :: db \<comment> \<open>the database without the changes this session has not committed\<close>

record env =
  en_step :: "nat \<Rightarrow> db \<Rightarrow> db"
  en_http :: "nat \<Rightarrow> string \<Rightarrow> request \<Rightarrow> pyval res"
  en_commit :: "nat \<Rightarrow> bool"
  en_locked :: "nat \<Rightarrow> string \<Rightarrow> bool"  \<comment> \<open>reservations other tasks hold\<close>
  en_now :: "nat \<Rightarrow> int"                \<comment> \<open>milliseconds\<close>
  en_token :: "nat \<Rightarrow> string"           \<comment> \<open>\<open>uuid.uuid4().hex\<close>\<close>
  en_secret :: "string \<Rightarrow> pyval res"     \<comment> \<open>\<open>json.loads(decrypt_secret(blob))\<close>\<close>
  en_decrypt :: "string \<Rightarrow> string res"
  en_account_retries :: nat             \<comment> \<open>account reads that fit into the client's timeout\<close>
  en_exn_text :: "exn \<Rightarrow> string"         \<comment> \<open>\<open>str(exc)\<close> of a library's exception\<close>
  en_bybit_testnet :: string            \<comment> \<open>the configured base URLs of the Bybit hosts\<close>
  en_bybit_demo :: string
  en_bybit_public :: string
  en_parse_time :: "string \<Rightarrow> pyval \<Rightarrow> pyval \<Rightarrow> int option" \<comment> \<open>\<open>datetime\<close> and \<open>zoneinfo\<close> on a written date\<close>
  en_uuid5 :: "nat \<Rightarrow> nat"              \<comment> \<open>\<open>uuid.uuid5(id, 'IBKR_NATIVE_PROTECTIVE_EXIT')\<close>\<close>
  en_settings :: app_settings

section \<open>Programs\<close>

text \<open>The combinators do not depend on the state; the programs of the services run in a world.\<close>

type_synonym ('s, 'a) sprog = "'s \<Rightarrow> 'a res \<times> 's"
type_synonym 'a prog = "(world, 'a) sprog"

definition retP :: "'a \<Rightarrow> ('s, 'a) sprog" where "retP x = (\<lambda>w. (Inr x, w))"
definition liftP :: "'a res \<Rightarrow> ('s, 'a) sprog" where "liftP r = (\<lambda>w. (r, w))"

definition bindP :: "('s, 'a) sprog \<Rightarrow> ('a \<Rightarrow> ('s, 'b) sprog) \<Rightarrow> ('s, 'b) sprog" where
  "bindP m f = (\<lambda>w. case m w of (Inl e, w') \<Rightarrow> (Inl e, w') | (Inr x, w') \<Rightarrow> f x w')"

definition tryP :: "('s, 'a) sprog \<Rightarrow> (exn \<Rightarrow> bool) \<Rightarrow> (exn \<Rightarrow> ('s, 'a) sprog) \<Rightarrow> ('s, 'a) sprog" where
  \<comment> \<open>\<open>try: m / except <classes of p>: h\<close>; the effects of \<open>m\<close> stay\<close>
  "tryP m p h = (\<lambda>w. case m w of (Inl e, w') \<Rightarrow> if p e then h e w' else (Inl e, w') | (Inr x, w') \<Rightarrow> (Inr x, w'))"

definition seqP :: "('s, unit) sprog \<Rightarrow> ('s, 'b) sprog \<Rightarrow> ('s, 'b) sprog" where
  "seqP m k = bindP m (\<lambda>_. k)"

definition getP :: "('s \<Rightarrow> 'a) \<Rightarrow> ('s, 'a) sprog" where "getP g = (\<lambda>w. (Inr (g w), w))"
definition modP :: "('s \<Rightarrow> 's) \<Rightarrow> ('s, unit) sprog" where "modP g = (\<lambda>w. (Inr (), g w))"

fun foldP :: "('b \<Rightarrow> 'a \<Rightarrow> ('s, 'b) sprog) \<Rightarrow> 'b \<Rightarrow> 'a list \<Rightarrow> ('s, 'b) sprog" where
  "foldP f s [] = retP s"
| "foldP f s (x # xs) = bindP (f s x) (\<lambda>s'. foldP f s' xs)"

lemma bindP_apply: "bindP m f w = (case m w of (Inl e, w') \<Rightarrow> (Inl e, w') | (Inr x, w') \<Rightarrow> f x w')"
  by (simp add: bindP_def)

lemma bindP_assoc: "bindP (bindP m f) g = bindP m (\<lambda>x. bindP (f x) g)"
  by (auto simp: bindP_def fun_eq_iff split: prod.split sum.split)

lemma bindP_retP: "bindP (retP x) f = f x"
  by (simp add: bindP_def retP_def fun_eq_iff)

lemma seqP_bindP: "bindP (seqP m k) f = seqP m (bindP k f)"
  by (simp add: seqP_def bindP_assoc)

lemma prog_simps [simp]:
  "retP x w = (Inr x, w)" "liftP r w = (r, w)" "getP g w = (Inr (g w), w)" "modP h w = (Inr (), h w)"
  by (simp_all add: retP_def liftP_def getP_def modP_def)

section \<open>Suspensions, requests, commits\<close>

definition suspend :: "env \<Rightarrow> unit prog" where
  \<comment> \<open>\<open>await asyncio.sleep(...)\<close>: the other tasks run\<close>
  "suspend E = modP (\<lambda>w. w\<lparr>w_db := en_step E (w_tick w) (w_db w), w_saved := en_step E (w_tick w) (w_saved w),
     w_tick := w_tick w + 1\<rparr>)"

definition http :: "env \<Rightarrow> string \<Rightarrow> request \<Rightarrow> pyval prog" where
  "http E base req = (\<lambda>w.
     (en_http E (w_tick w) base req,
      w\<lparr>w_db := en_step E (w_tick w) (w_db w), w_saved := en_step E (w_tick w) (w_saved w), w_tick := w_tick w + 1,
        w_log := w_log w @ [Sent base req (w_db w)]\<rparr>))"

definition commit :: "env \<Rightarrow> unit prog" where
  "commit E = (\<lambda>w. if en_commit E (w_tick w) then (Inr (), w\<lparr>w_log := w_log w @ [Committed (w_db w)], w_saved := w_db w\<rparr>)
                   else (Inl SQLAlchemyError, w))"

definition rollback :: "unit prog" where
  \<comment> \<open>\<open>db.rollback()\<close>: the uncommitted changes are lost and every loaded object is expired\<close>
  "rollback = modP (\<lambda>w. w\<lparr>w_db := w_saved w, w_profiles := [], w_strategies := [], w_states := []\<rparr>)"

definition modify_db :: "(db \<Rightarrow> db) \<Rightarrow> unit prog" where
  \<comment> \<open>a flushed insert or update\<close>
  "modify_db f = modP (\<lambda>w. w\<lparr>w_db := f (w_db w)\<rparr>)"

section \<open>The session's identity map\<close>

definition cached :: "('r \<Rightarrow> nat) \<Rightarrow> 'r list \<Rightarrow> 'r \<Rightarrow> 'r" where
  \<comment> \<open>a row a query returned is the object loaded before, if there is one, with its old values\<close>
  "cached key cache row = (case by_key key (key row) cache of Some old \<Rightarrow> old | None \<Rightarrow> row)"

definition load_profile :: "broker_profile \<Rightarrow> broker_profile prog" where
  "load_profile row = (\<lambda>w. (Inr (cached bp_id (w_profiles w) row),
     if by_key bp_id (bp_id row) (w_profiles w) = None then w\<lparr>w_profiles := row # w_profiles w\<rparr> else w))"

definition load_strategy :: "symbol_strategy \<Rightarrow> symbol_strategy prog" where
  "load_strategy row = (\<lambda>w. (Inr (cached ss_id (w_strategies w) row),
     if by_key ss_id (ss_id row) (w_strategies w) = None then w\<lparr>w_strategies := row # w_strategies w\<rparr> else w))"

definition load_state :: "automation_state \<Rightarrow> automation_state prog" where
  "load_state row = (\<lambda>w. (Inr (cached au_id (w_states w) row),
     if by_key au_id (au_id row) (w_states w) = None then w\<lparr>w_states := row # w_states w\<rparr> else w))"

definition get_profile :: "nat \<Rightarrow> broker_profile option prog" where
  \<comment> \<open>\<open>db.get(BrokerProfile, id)\<close>: the loaded object, else a query\<close>
  "get_profile i = (\<lambda>w. case by_key bp_id i (w_profiles w) of
       Some p \<Rightarrow> (Inr (Some p), w)
     | None \<Rightarrow> (case by_key bp_id i (db_profiles (w_db w)) of
           None \<Rightarrow> (Inr None, w)
         | Some p \<Rightarrow> (Inr (Some p), w\<lparr>w_profiles := p # w_profiles w\<rparr>)))"

definition replace_row :: "('r \<Rightarrow> nat) \<Rightarrow> 'r \<Rightarrow> 'r list \<Rightarrow> 'r list" where
  "replace_row key row cache = row # filter (\<lambda>r. key r \<noteq> key row) cache"

definition refresh_profile :: "nat \<Rightarrow> broker_profile prog" where
  \<comment> \<open>\<open>db.refresh(profile)\<close>, with a row lock or without; a deleted row cannot be refreshed\<close>
  "refresh_profile i = (\<lambda>w. case by_key bp_id i (db_profiles (w_db w)) of
       None \<Rightarrow> (Inl SQLAlchemyError, w)
     | Some p \<Rightarrow> (Inr p, w\<lparr>w_profiles := replace_row bp_id p (w_profiles w)\<rparr>))"

definition refresh_strategy :: "nat \<Rightarrow> symbol_strategy prog" where
  "refresh_strategy i = (\<lambda>w. case by_key ss_id i (db_strategies (w_db w)) of
       None \<Rightarrow> (Inl SQLAlchemyError, w)
     | Some s \<Rightarrow> (Inr s, w\<lparr>w_strategies := replace_row ss_id s (w_strategies w)\<rparr>))"

definition refresh_state :: "nat \<Rightarrow> automation_state prog" where
  "refresh_state i = (\<lambda>w. case by_key au_id i (db_states (w_db w)) of
       None \<Rightarrow> (Inl SQLAlchemyError, w)
     | Some s \<Rightarrow> (Inr s, w\<lparr>w_states := replace_row au_id s (w_states w)\<rparr>))"

definition find_strategy :: "(symbol_strategy \<Rightarrow> bool) \<Rightarrow> symbol_strategy option prog" where
  \<comment> \<open>\<open>db.scalar(select(SymbolStrategy).where(...))\<close>: the filter runs in the database\<close>
  "find_strategy p = bindP (getP (\<lambda>w. find p (db_strategies (w_db w)))) (\<lambda>r.
     case r of None \<Rightarrow> retP None | Some row \<Rightarrow> bindP (load_strategy row) (\<lambda>s. retP (Some s)))"

section \<open>What a program logs\<close>

definition emits :: "(event list \<Rightarrow> bool) \<Rightarrow> 'a prog \<Rightarrow> bool" where
  \<comment> \<open>the program only extends the log, by events that satisfy the property\<close>
  "emits Q m \<longleftrightarrow> (\<forall>w. \<exists>es. w_log (snd (m w)) = w_log w @ es \<and> Q es)"

locale trace_property =
  \<comment> \<open>a property of event sequences that composes along a program\<close>
  fixes Q :: "event list \<Rightarrow> bool"
  assumes Q_Nil: "Q []" and Q_append: "Q xs \<Longrightarrow> Q ys \<Longrightarrow> Q (xs @ ys)"
begin

lemma emits_retP [intro!]: "emits Q (retP x)"
  by (simp add: emits_def Q_Nil)

lemma emits_liftP [intro!]: "emits Q (liftP r)"
  by (simp add: emits_def Q_Nil)

lemma emits_getP [intro!]: "emits Q (getP g)"
  by (simp add: emits_def Q_Nil)

lemma emits_Pair [intro!]: "emits Q (Pair r)"
  by (simp add: emits_def Q_Nil)

lemma emits_keep: "(\<And>w. w_log (snd (m w)) = w_log w) \<Longrightarrow> emits Q m"
  using Q_Nil by (auto simp: emits_def)

lemma emits_bindP [intro!]:
  assumes "emits Q m" and "\<And>x. emits Q (f x)" shows "emits Q (bindP m f)"
  unfolding emits_def
proof
  fix w
  obtain r w1 where m: "m w = (r, w1)" by (cases "m w")
  with assms(1) obtain es where es: "w_log w1 = w_log w @ es" "Q es" unfolding emits_def by (metis snd_conv)
  show "\<exists>es. w_log (snd (bindP m f w)) = w_log w @ es \<and> Q es"
  proof (cases r)
    case (Inl e)
    with m es show ?thesis by (auto simp: bindP_def)
  next
    case (Inr x)
    from assms(2) obtain es' where "w_log (snd (f x w1)) = w_log w1 @ es'" "Q es'" unfolding emits_def by metis
    with m es Inr Q_append show ?thesis by (fastforce simp: bindP_def)
  qed
qed

lemma emits_tryP [intro!]:
  assumes "emits Q m" and "\<And>e. emits Q (h e)" shows "emits Q (tryP m p h)"
  unfolding emits_def
proof
  fix w
  obtain r w1 where m: "m w = (r, w1)" by (cases "m w")
  with assms(1) obtain es where es: "w_log w1 = w_log w @ es" "Q es" unfolding emits_def by (metis snd_conv)
  show "\<exists>es. w_log (snd (tryP m p h w)) = w_log w @ es \<and> Q es"
  proof (cases r)
    case (Inl e)
    from assms(2) obtain es' where "w_log (snd (h e w1)) = w_log w1 @ es'" "Q es'" unfolding emits_def by metis
    with m es Inl Q_append show ?thesis by (fastforce simp: tryP_def)
  next
    case (Inr x)
    with m es show ?thesis by (auto simp: tryP_def)
  qed
qed

lemma emits_foldP [intro!]: "(\<And>s x. emits Q (f s x)) \<Longrightarrow> emits Q (foldP f s xs)"
  by (induction xs arbitrary: s) (auto intro: emits_retP emits_bindP)

lemma emits_seqP [intro!]: "emits Q m \<Longrightarrow> emits Q k \<Longrightarrow> emits Q (seqP m k)"
  unfolding seqP_def by (rule emits_bindP)

lemma emits_session [intro!]:
  "emits Q (load_profile p)" "emits Q (load_strategy s)" "emits Q (load_state a)" "emits Q (get_profile i)"
  "emits Q (refresh_profile i)" "emits Q (refresh_strategy i)" "emits Q (refresh_state i)" "emits Q (modify_db g)"
  "emits Q (suspend E)" "emits Q rollback"
  by (rule emits_keep;
      simp add: load_profile_def load_strategy_def load_state_def get_profile_def refresh_profile_def
        refresh_strategy_def refresh_state_def modify_db_def suspend_def rollback_def split: option.split)+

lemma emits_find_strategy [intro!]: "emits Q (find_strategy p)"
  unfolding find_strategy_def by (auto split: option.split)

lemma emits_http: "(\<And>d. Q [Sent base req d]) \<Longrightarrow> emits Q (http E base req)"
  by (auto simp: emits_def http_def)

lemma emits_commit: "(\<And>d. Q [Committed d]) \<Longrightarrow> emits Q (commit E)"
  using Q_Nil by (auto simp: emits_def commit_def)

lemma emits_if [intro!]: "emits Q m \<Longrightarrow> emits Q k \<Longrightarrow> emits Q (if b then m else k)"
  by simp

lemma emits_option [intro!]:
  "emits Q n \<Longrightarrow> (\<And>x. emits Q (s x)) \<Longrightarrow> emits Q (case v of None \<Rightarrow> n | Some x \<Rightarrow> s x)"
  by (cases v) auto

lemma emits_sum [intro!]:
  "(\<And>x. emits Q (l x)) \<Longrightarrow> (\<And>x. emits Q (r x)) \<Longrightarrow> emits Q (case v of Inl x \<Rightarrow> l x | Inr x \<Rightarrow> r x)"
  by (cases v) auto

lemma emits_prod [intro!]: "(\<And>x y. emits Q (f x y)) \<Longrightarrow> emits Q (case v of (x, y) \<Rightarrow> f x y)"
  by (cases v) auto

end

text \<open>
  The order requests are those that can open, change or close a position at a broker. A program that
  sends none is quiet.
\<close>

definition order_paths :: "string list" where
  "order_paths = [''/orders'', ''/order'', ''/v5/order/create'', ''/protection'']"

definition order_path :: "string \<Rightarrow> bool" where
  \<comment> \<open>the MT5 bridge closes a position at \<open>/positions/N/close\<close>\<close>
  "order_path path \<longleftrightarrow> path \<in> set order_paths \<or> (starts_with ''/positions/'' path \<and> ends_with ''/close'' path)"

lemma order_path_simps [simp]:
  "order_path ''/orders''" "order_path ''/order''" "order_path ''/v5/order/create''" "order_path ''/protection''"
  "\<not> order_path ''/order-check''" "\<not> order_path ''/order/check''"
  by (simp_all add: order_path_def order_paths_def starts_with_def ends_with_def)

fun is_order :: "event \<Rightarrow> bool" where
  "is_order (Sent _ (Post path _) _) = order_path path"
| "is_order _ = False"

definition no_orders :: "event list \<Rightarrow> bool" where
  "no_orders es = list_all (\<lambda>e. \<not> is_order e) es"

interpretation quiet: trace_property no_orders
  by unfold_locales (simp_all add: no_orders_def)

lemma no_orders_get: "no_orders [Sent base (Get path params) d]"
  by (simp add: no_orders_def)

lemma quiet_get [intro!]: "emits no_orders (http E base (Get path params))"
  by (rule quiet.emits_http) (simp add: no_orders_def)

lemma quiet_commit [intro!]: "emits no_orders (commit E)"
  by (rule quiet.emits_commit) (simp add: no_orders_def)

lemma quiet_post: "\<not> order_path path \<Longrightarrow> emits no_orders (http E base (Post path params))"
  by (rule quiet.emits_http) (simp add: no_orders_def)

lemma emitsD: "emits Q m \<Longrightarrow> m w = (r, w') \<Longrightarrow> \<exists>es. w_log w' = w_log w @ es \<and> Q es"
  unfolding emits_def by (metis snd_conv)

section \<open>Programs that send at most one guarded order\<close>

locale guarded_order =
  \<comment> \<open>a property of logs that holds of quiet ones and is kept by quiet work before and after\<close>
  fixes G :: "event list \<Rightarrow> bool"
  assumes G_quiet: "no_orders es \<Longrightarrow> G es"
    and G_prefix: "no_orders xs \<Longrightarrow> G ys \<Longrightarrow> G (xs @ ys)"
    and G_suffix: "G xs \<Longrightarrow> no_orders ys \<Longrightarrow> G (xs @ ys)"
begin

lemma of_quiet: "emits no_orders m \<Longrightarrow> emits G m"
  unfolding emits_def using G_quiet by blast

lemma after_quiet:
  assumes "emits no_orders m" and "\<And>x. emits G (f x)" shows "emits G (bindP m f)"
  unfolding emits_def
proof
  fix w
  obtain r w1 where m: "m w = (r, w1)" by (cases "m w")
  from emitsD [OF assms(1) m] obtain es where es: "w_log w1 = w_log w @ es" "no_orders es" by blast
  show "\<exists>es. w_log (snd (bindP m f w)) = w_log w @ es \<and> G es"
  proof (cases r)
    case (Inl e)
    with m es G_quiet show ?thesis by (auto simp: bindP_def)
  next
    case (Inr x)
    obtain r2 w2 where f: "f x w1 = (r2, w2)" by (cases "f x w1")
    from emitsD [OF assms(2) f] obtain es' where "w_log w2 = w_log w1 @ es'" "G es'" by blast
    with m es Inr f G_prefix show ?thesis by (fastforce simp: bindP_def)
  qed
qed

lemma before_quiet:
  assumes "emits G m" and "\<And>x. emits no_orders (f x)" shows "emits G (bindP m f)"
  unfolding emits_def
proof
  fix w
  obtain r w1 where m: "m w = (r, w1)" by (cases "m w")
  from emitsD [OF assms(1) m] obtain es where es: "w_log w1 = w_log w @ es" "G es" by blast
  show "\<exists>es. w_log (snd (bindP m f w)) = w_log w @ es \<and> G es"
  proof (cases r)
    case (Inl e)
    with m es show ?thesis by (auto simp: bindP_def)
  next
    case (Inr x)
    obtain r2 w2 where f: "f x w1 = (r2, w2)" by (cases "f x w1")
    from emitsD [OF assms(2) f] obtain es' where "w_log w2 = w_log w1 @ es'" "no_orders es'" by blast
    with m es Inr f G_suffix show ?thesis by (fastforce simp: bindP_def)
  qed
qed

lemma handled_quietly:
  assumes "emits G m" and "\<And>e. emits no_orders (h e)" shows "emits G (tryP m p h)"
  unfolding emits_def
proof
  fix w
  obtain r w1 where m: "m w = (r, w1)" by (cases "m w")
  from emitsD [OF assms(1) m] obtain es where es: "w_log w1 = w_log w @ es" "G es" by blast
  show "\<exists>es. w_log (snd (tryP m p h w)) = w_log w @ es \<and> G es"
  proof (cases r)
    case (Inr x)
    with m es show ?thesis by (auto simp: tryP_def)
  next
    case (Inl e)
    obtain r2 w2 where f: "h e w1 = (r2, w2)" by (cases "h e w1")
    from emitsD [OF assms(2) f] obtain es' where "w_log w2 = w_log w1 @ es'" "no_orders es'" by blast
    with m es Inl f G_suffix show ?thesis by (cases "p e") (fastforce simp: tryP_def)+
  qed
qed

lemma guarded_if: "emits G m \<Longrightarrow> emits G k \<Longrightarrow> emits G (if b then m else k)"
  by simp

lemma guarded_option:
  "emits G n \<Longrightarrow> (\<And>x. emits G (s x)) \<Longrightarrow> emits G (case v of None \<Rightarrow> n | Some x \<Rightarrow> s x)"
  by (cases v) auto

lemma guarded_sum:
  "(\<And>x. emits G (l x)) \<Longrightarrow> (\<And>x. emits G (r x)) \<Longrightarrow> emits G (case v of Inl x \<Rightarrow> l x | Inr x \<Rightarrow> r x)"
  by (cases v) auto

lemma guarded_prod: "(\<And>x y. emits G (f x y)) \<Longrightarrow> emits G (case v of (x, y) \<Rightarrow> f x y)"
  by (cases v) auto

lemma quiet_then: "emits no_orders m \<Longrightarrow> emits G k \<Longrightarrow> emits G (seqP m k)"
  unfolding seqP_def by (rule after_quiet)

lemma then_quiet: "emits G m \<Longrightarrow> (\<And>x. emits no_orders (f x)) \<Longrightarrow> emits G (bindP m f)"
  by (rule before_quiet)

lemma guarded_liftP: "emits G (liftP r)" and guarded_retP: "emits G (retP x)"
  by (rule of_quiet, blast)+

lemmas rules = guarded_liftP guarded_retP after_quiet guarded_if guarded_option guarded_sum guarded_prod

end

definition one_order :: "(event list \<Rightarrow> event \<Rightarrow> bool) \<Rightarrow> event list \<Rightarrow> bool" where
  \<comment> \<open>no order, or exactly one, whose relation to what was logged before it is given\<close>
  "one_order R es \<longleftrightarrow> no_orders es
     \<or> (\<exists>pre ev suf. es = pre @ ev # suf \<and> is_order ev \<and> no_orders pre \<and> no_orders suf \<and> R pre ev)"

lemma guarded_one_order:
  assumes "\<And>xs ys ev. no_orders xs \<Longrightarrow> R ys ev \<Longrightarrow> R (xs @ ys) ev"
  shows "guarded_order (one_order R)"
proof
  fix xs ys :: "event list"
  show "no_orders xs \<Longrightarrow> one_order R xs" by (simp add: one_order_def)
  assume nx: "no_orders xs" and "one_order R ys"
  then consider "no_orders ys" | pre ev suf where "ys = pre @ ev # suf" "is_order ev" "no_orders pre" "no_orders suf" "R pre ev"
    by (auto simp: one_order_def)
  then show "one_order R (xs @ ys)"
  proof cases
    case 1
    with nx show ?thesis by (simp add: one_order_def no_orders_def)
  next
    case 2
    then have "xs @ ys = (xs @ pre) @ ev # suf \<and> no_orders (xs @ pre) \<and> R (xs @ pre) ev"
      using nx assms by (simp add: no_orders_def)
    with 2 show ?thesis unfolding one_order_def by blast
  qed
next
  fix xs ys :: "event list"
  assume "one_order R xs" and ny: "no_orders ys"
  then consider "no_orders xs" | pre ev suf where "xs = pre @ ev # suf" "is_order ev" "no_orders pre" "no_orders suf" "R pre ev"
    by (auto simp: one_order_def)
  then show "one_order R (xs @ ys)"
  proof cases
    case 1
    with ny show ?thesis by (simp add: one_order_def no_orders_def)
  next
    case 2
    then have "xs @ ys = pre @ ev # (suf @ ys) \<and> no_orders (suf @ ys)" using ny by (simp add: no_orders_def)
    with 2 show ?thesis unfolding one_order_def by blast
  qed
qed

section \<open>What a program returns\<close>

definition returns :: "('a \<Rightarrow> bool) \<Rightarrow> 'a prog \<Rightarrow> bool" where
  \<comment> \<open>every value the program returns without an exception satisfies the property\<close>
  "returns P m \<longleftrightarrow> (\<forall>w x w'. m w = (Inr x, w') \<longrightarrow> P x)"

lemma returnsI: "(\<And>w x w'. m w = (Inr x, w') \<Longrightarrow> P x) \<Longrightarrow> returns P m"
  by (simp add: returns_def)

lemma returnsD: "returns P m \<Longrightarrow> m w = (Inr x, w') \<Longrightarrow> P x"
  unfolding returns_def by blast

lemma returns_retP: "P x \<Longrightarrow> returns P (retP x)"
  by (simp add: returns_def)

lemma returns_liftP: "(\<And>x. r = Inr x \<Longrightarrow> P x) \<Longrightarrow> returns P (liftP r)"
  by (simp add: returns_def)

lemma returns_bindP_of: "returns Q m \<Longrightarrow> (\<And>x. Q x \<Longrightarrow> returns P (f x)) \<Longrightarrow> returns P (bindP m f)"
  unfolding returns_def by (fastforce simp: bindP_def split: prod.splits sum.splits)

lemma returns_bindP: "(\<And>x. returns P (f x)) \<Longrightarrow> returns P (bindP m f)"
  by (rule returns_bindP_of [of "\<lambda>_. True"]) (simp_all add: returns_def)

lemma returns_seqP: "returns P k \<Longrightarrow> returns P (seqP m k)"
  unfolding seqP_def by (rule returns_bindP)

lemma returns_tryP: "returns P m \<Longrightarrow> (\<And>e. returns P (h e)) \<Longrightarrow> returns P (tryP m p h)"
  unfolding returns_def by (auto simp: tryP_def split: prod.splits sum.splits if_splits)

lemma returns_if: "(b \<Longrightarrow> returns P m) \<Longrightarrow> (\<not> b \<Longrightarrow> returns P k) \<Longrightarrow> returns P (if b then m else k)"
  by simp

lemma returns_option:
  "(v = None \<Longrightarrow> returns P n) \<Longrightarrow> (\<And>x. v = Some x \<Longrightarrow> returns P (s x)) \<Longrightarrow> returns P (case v of None \<Rightarrow> n | Some x \<Rightarrow> s x)"
  by (cases v) auto

lemma returns_sum:
  "(\<And>x. v = Inl x \<Longrightarrow> returns P (l x)) \<Longrightarrow> (\<And>x. v = Inr x \<Longrightarrow> returns P (r x)) \<Longrightarrow> returns P (case v of Inl x \<Rightarrow> l x | Inr x \<Rightarrow> r x)"
  by (cases v) auto

lemma returns_prod: "(\<And>x y. v = (x, y) \<Longrightarrow> returns P (f x y)) \<Longrightarrow> returns P (case v of (x, y) \<Rightarrow> f x y)"
  by (cases v) auto

lemmas returns_rules = returns_retP returns_bindP returns_seqP returns_if returns_option returns_sum returns_prod

section \<open>Local variables that outlive an exception\<close>

text \<open>
  A handler sees what the \<open>try\<close> block did to the variables of the function before it failed. An action
  threads such variables: its value or exception comes with their final values.
\<close>

type_synonym ('l, 'a) act = "'l \<Rightarrow> ('a res \<times> 'l) prog"

definition liftL :: "'a res \<Rightarrow> ('l, 'a) act" where "liftL r = (\<lambda>l. retP (r, l))"
definition getL :: "('l \<Rightarrow> 'a) \<Rightarrow> ('l, 'a) act" where "getL g = (\<lambda>l. retP (Inr (g l), l))"
definition modL :: "('l \<Rightarrow> 'l) \<Rightarrow> ('l, unit) act" where "modL g = (\<lambda>l. retP (Inr (), g l))"

abbreviation retL :: "'a \<Rightarrow> ('l, 'a) act" where "retL x \<equiv> liftL (Inr x)"

definition doL :: "'a prog \<Rightarrow> ('l, 'a) act" where
  "doL m = (\<lambda>l w. case m w of (r, w') \<Rightarrow> (Inr (r, l), w'))"

definition bindL :: "('l, 'a) act \<Rightarrow> ('a \<Rightarrow> ('l, 'b) act) \<Rightarrow> ('l, 'b) act" where
  "bindL m f = (\<lambda>l. bindP (m l) (\<lambda>(r, l'). case r of Inl e \<Rightarrow> retP (Inl e, l') | Inr x \<Rightarrow> f x l'))"

definition seqL :: "('l, unit) act \<Rightarrow> ('l, 'b) act \<Rightarrow> ('l, 'b) act" where
  "seqL m k = bindL m (\<lambda>_. k)"

definition tryL :: "('l, 'a) act \<Rightarrow> (exn \<Rightarrow> bool) \<Rightarrow> (exn \<Rightarrow> ('l, 'a) act) \<Rightarrow> ('l, 'a) act" where
  "tryL m p h = (\<lambda>l. bindP (m l) (\<lambda>(r, l'). case r of Inl e \<Rightarrow> if p e then h e l' else retP (Inl e, l') | Inr x \<Rightarrow> retP (Inr x, l')))"

fun eachL :: "('a \<Rightarrow> ('l, unit) act) \<Rightarrow> 'a list \<Rightarrow> ('l, unit) act" where
  \<comment> \<open>a \<open>for\<close> loop over the list\<close>
  "eachL f [] = retL ()"
| "eachL f (x # xs) = seqL (f x) (eachL f xs)"

context trace_property
begin

lemma emits_liftL [intro!]: "emits Q (liftL r l)" "emits Q (getL g l)" "emits Q (modL h l)"
  unfolding liftL_def getL_def modL_def by (rule emits_retP)+

lemma emits_doL [intro!]: "emits Q m \<Longrightarrow> emits Q (doL m l)"
  unfolding emits_def doL_def by (simp add: split_beta)

lemma emits_bindL [intro!]:
  assumes "\<And>l. emits Q (m l)" and "\<And>x l. emits Q (f x l)" shows "emits Q (bindL m f l)"
  unfolding bindL_def by (intro emits_bindP assms emits_prod emits_sum emits_retP)

lemma emits_seqL [intro!]: "(\<And>l. emits Q (m l)) \<Longrightarrow> (\<And>l. emits Q (k l)) \<Longrightarrow> emits Q (seqL m k l)"
  unfolding seqL_def by (rule emits_bindL)

lemma emits_tryL [intro!]:
  assumes "\<And>l. emits Q (m l)" and "\<And>e l. emits Q (h e l)" shows "emits Q (tryL m p h l)"
  unfolding tryL_def by (intro emits_bindP assms emits_prod emits_sum emits_if emits_retP)

lemma emits_eachL [intro!]: "(\<And>x l. emits Q (f x l)) \<Longrightarrow> emits Q (eachL f xs l)"
  by (induction xs arbitrary: l) auto

lemma emits_ifL [intro!]: "emits Q (m l) \<Longrightarrow> emits Q (k l) \<Longrightarrow> emits Q ((if b then m else k) l)"
  by simp

lemma emits_optionL [intro!]:
  "emits Q (n l) \<Longrightarrow> (\<And>x. emits Q (s x l)) \<Longrightarrow> emits Q ((case v of None \<Rightarrow> n | Some x \<Rightarrow> s x) l)"
  by (cases v) auto

lemma emits_prodL [intro!]: "(\<And>x y. emits Q (f x y l)) \<Longrightarrow> emits Q ((case v of (x, y) \<Rightarrow> f x y) l)"
  by (cases v) auto

lemma emits_sumL [intro!]:
  "(\<And>x. emits Q (a x l)) \<Longrightarrow> (\<And>x. emits Q (b x l)) \<Longrightarrow> emits Q ((case v of Inl x \<Rightarrow> a x | Inr x \<Rightarrow> b x) l)"
  by (cases v) auto

end

section \<open>What an action does to the local variables\<close>

definition holdsL :: "('l \<Rightarrow> bool) \<Rightarrow> ('l, 'a) act \<Rightarrow> ('a res \<Rightarrow> 'l \<Rightarrow> bool) \<Rightarrow> bool" where
  \<comment> \<open>from locals with \<open>P\<close> the action ends, with a value or an exception, in a result and locals with \<open>Q\<close>\<close>
  "holdsL P m Q \<longleftrightarrow> (\<forall>l w r l' w'. P l \<longrightarrow> m l w = (Inr (r, l'), w') \<longrightarrow> Q r l')"

definition keepsL :: "('l \<Rightarrow> bool) \<Rightarrow> ('l, 'a) act \<Rightarrow> ('a \<Rightarrow> bool) \<Rightarrow> bool" where
  \<comment> \<open>the action keeps \<open>P\<close> on every path, and its value has the property\<close>
  "keepsL P m A \<longleftrightarrow> holdsL P m (\<lambda>r l. P l \<and> (case r of Inl _ \<Rightarrow> True | Inr x \<Rightarrow> A x))"

lemma holdsD: "holdsL P m Q \<Longrightarrow> P l \<Longrightarrow> m l w = (Inr (r, l'), w') \<Longrightarrow> Q r l'"
  unfolding holdsL_def by blast

lemma holds_post: "holdsL P m R \<Longrightarrow> (\<And>r l. R r l \<Longrightarrow> Q r l) \<Longrightarrow> holdsL P m Q"
  unfolding holdsL_def by blast

lemma holds_pre: "holdsL R m Q \<Longrightarrow> (\<And>l. P l \<Longrightarrow> R l) \<Longrightarrow> holdsL P m Q"
  unfolding holdsL_def by blast

lemma holds_liftL: "(\<And>l. P l \<Longrightarrow> Q r l) \<Longrightarrow> holdsL P (liftL r) Q"
  by (simp add: holdsL_def liftL_def)

lemma holds_getL: "(\<And>l. P l \<Longrightarrow> Q (Inr (g l)) l) \<Longrightarrow> holdsL P (getL g) Q"
  by (simp add: holdsL_def getL_def)

lemma holds_modL: "(\<And>l. P l \<Longrightarrow> Q (Inr ()) (g l)) \<Longrightarrow> holdsL P (modL g) Q"
  by (simp add: holdsL_def modL_def)

lemma holds_bindL:
  assumes "holdsL P m R" and "\<And>x. holdsL (R (Inr x)) (f x) Q" and "\<And>e l. R (Inl e) l \<Longrightarrow> Q (Inl e) l"
  shows "holdsL P (bindL m f) Q"
  unfolding holdsL_def
proof (intro allI impI)
  fix l w r l' w' assume P: "P l" and run: "bindL m f l w = (Inr (r, l'), w')"
  obtain o1 w1 where m: "m l w = (o1, w1)" by (cases "m l w")
  with run obtain r1 l1 where o1: "o1 = Inr (r1, l1)" by (cases o1) (auto simp: bindL_def bindP_def)
  from holdsD [OF assms(1) P m [unfolded o1]] have R: "R r1 l1" .
  show "Q r l'"
  proof (cases r1)
    case (Inl e)
    with run m o1 R assms(3) show ?thesis by (auto simp: bindL_def bindP_def)
  next
    case (Inr x)
    with run m o1 have "f x l1 w1 = (Inr (r, l'), w')" by (simp add: bindL_def bindP_def)
    with holdsD [OF assms(2)] R Inr show ?thesis by blast
  qed
qed

lemma holds_seqL:
  "holdsL P m R \<Longrightarrow> holdsL (R (Inr ())) k Q \<Longrightarrow> (\<And>e l. R (Inl e) l \<Longrightarrow> Q (Inl e) l) \<Longrightarrow> holdsL P (seqL m k) Q"
  unfolding seqL_def by (rule holds_bindL [of P m R]) simp_all

lemma holds_if: "(b \<Longrightarrow> holdsL P m Q) \<Longrightarrow> (\<not> b \<Longrightarrow> holdsL P k Q) \<Longrightarrow> holdsL P (if b then m else k) Q"
  by simp

lemma holds_prod: "(\<And>x y. v = (x, y) \<Longrightarrow> holdsL P (f x y) Q) \<Longrightarrow> holdsL P (case v of (x, y) \<Rightarrow> f x y) Q"
  by (cases v) auto

lemma keeps_liftL: "(\<And>x. r = Inr x \<Longrightarrow> A x) \<Longrightarrow> keepsL P (liftL r) A"
  unfolding keepsL_def by (rule holds_liftL) (auto split: sum.split)

lemma keeps_getL: "(\<And>l. P l \<Longrightarrow> A (g l)) \<Longrightarrow> keepsL P (getL g) A"
  unfolding keepsL_def by (rule holds_getL) simp

lemma keeps_modL: "(\<And>l. P l \<Longrightarrow> P (g l)) \<Longrightarrow> A () \<Longrightarrow> keepsL P (modL g) A"
  unfolding keepsL_def by (rule holds_modL) simp

lemma keeps_doL: "returns A m \<Longrightarrow> keepsL P (doL m) A"
  unfolding keepsL_def holdsL_def doL_def returns_def by (auto split: prod.splits sum.split)

lemma keeps_doL_any: "keepsL P (doL m) (\<lambda>_. True)"
  by (rule keeps_doL) (simp add: returns_def)

lemma keeps_bindL_of:
  assumes "keepsL P m B" and "\<And>x. B x \<Longrightarrow> keepsL P (f x) A" shows "keepsL P (bindL m f) A"
  unfolding keepsL_def
proof (rule holds_bindL [OF assms(1) [unfolded keepsL_def]])
  fix x
  show "holdsL (\<lambda>l. P l \<and> (case Inr x of Inl _ \<Rightarrow> True | Inr x \<Rightarrow> B x)) (f x) (\<lambda>r l. P l \<and> (case r of Inl _ \<Rightarrow> True | Inr x \<Rightarrow> A x))"
  proof (cases "B x")
    case True
    from assms(2) [OF True, unfolded keepsL_def] show ?thesis by (rule holds_pre) simp
  next
    case False
    then show ?thesis by (simp add: holdsL_def)
  qed
qed simp

lemma keeps_bindL: "keepsL P m (\<lambda>_. True) \<Longrightarrow> (\<And>x. keepsL P (f x) A) \<Longrightarrow> keepsL P (bindL m f) A"
  by (rule keeps_bindL_of)

lemma keeps_seqL: "keepsL P m (\<lambda>_. True) \<Longrightarrow> keepsL P k A \<Longrightarrow> keepsL P (seqL m k) A"
  unfolding seqL_def by (rule keeps_bindL)

lemma keeps_if: "(b \<Longrightarrow> keepsL P m A) \<Longrightarrow> (\<not> b \<Longrightarrow> keepsL P k A) \<Longrightarrow> keepsL P (if b then m else k) A"
  by simp

lemma keeps_option:
  "(v = None \<Longrightarrow> keepsL P n A) \<Longrightarrow> (\<And>x. v = Some x \<Longrightarrow> keepsL P (s x) A) \<Longrightarrow> keepsL P (case v of None \<Rightarrow> n | Some x \<Rightarrow> s x) A"
  by (cases v) auto

lemma keeps_prod: "(\<And>x y. v = (x, y) \<Longrightarrow> keepsL P (f x y) A) \<Longrightarrow> keepsL P (case v of (x, y) \<Rightarrow> f x y) A"
  by (cases v) auto

lemma keeps_weaken: "keepsL P m A \<Longrightarrow> (\<And>x. A x \<Longrightarrow> B x) \<Longrightarrow> keepsL P m B"
  unfolding keepsL_def by (erule holds_post) (auto split: sum.splits)

lemma keeps_holds: "keepsL P m A \<Longrightarrow> holdsL P m (\<lambda>r l. P l \<and> (case r of Inl _ \<Rightarrow> True | Inr x \<Rightarrow> A x))"
  by (simp add: keepsL_def)

section \<open>What a program raises\<close>

definition raises :: "(exn \<Rightarrow> bool) \<Rightarrow> 'a prog \<Rightarrow> bool" where
  \<comment> \<open>every exception that leaves the program satisfies the property\<close>
  "raises P m \<longleftrightarrow> (\<forall>w e w'. m w = (Inl e, w') \<longrightarrow> P e)"

lemma raises_retP: "raises P (retP x)" and raises_getP: "raises P (getP g)" and raises_modP: "raises P (modP h)"
  by (simp_all add: raises_def)

lemma raises_liftP: "(\<And>e. r = Inl e \<Longrightarrow> P e) \<Longrightarrow> raises P (liftP r)"
  by (simp add: raises_def)

lemma raises_bindP: "raises P m \<Longrightarrow> (\<And>x. raises P (f x)) \<Longrightarrow> raises P (bindP m f)"
  unfolding raises_def by (fastforce simp: bindP_def split: prod.splits sum.splits)

lemma raises_seqP: "raises P m \<Longrightarrow> raises P k \<Longrightarrow> raises P (seqP m k)"
  unfolding seqP_def by (rule raises_bindP)

lemma raises_tryP: "(\<And>e. \<not> p e \<Longrightarrow> P e) \<Longrightarrow> (\<And>e. raises P (h e)) \<Longrightarrow> raises P (tryP m p h)"
  unfolding raises_def by (auto simp: tryP_def split: prod.splits sum.splits if_splits)

lemma raises_if: "(b \<Longrightarrow> raises P m) \<Longrightarrow> (\<not> b \<Longrightarrow> raises P k) \<Longrightarrow> raises P (if b then m else k)"
  by simp

lemma raises_option:
  "(v = None \<Longrightarrow> raises P n) \<Longrightarrow> (\<And>x. v = Some x \<Longrightarrow> raises P (s x)) \<Longrightarrow> raises P (case v of None \<Rightarrow> n | Some x \<Rightarrow> s x)"
  by (cases v) auto

lemma raises_sum:
  "(\<And>x. v = Inl x \<Longrightarrow> raises P (l x)) \<Longrightarrow> (\<And>x. v = Inr x \<Longrightarrow> raises P (r x)) \<Longrightarrow> raises P (case v of Inl x \<Rightarrow> l x | Inr x \<Rightarrow> r x)"
  by (cases v) auto

lemma raises_prod: "(\<And>x y. v = (x, y) \<Longrightarrow> raises P (f x y)) \<Longrightarrow> raises P (case v of (x, y) \<Rightarrow> f x y)"
  by (cases v) auto

lemma raises_foldP: "(\<And>s x. raises P (f s x)) \<Longrightarrow> raises P (foldP f s xs)"
  by (induction xs arbitrary: s) (auto intro: raises_retP raises_bindP)

lemma raises_session:
  "raises P (load_profile p)" "raises P (load_strategy s)" "raises P (load_state a)" "raises P (get_profile i)" "raises P (modify_db g)"
  by (auto simp: raises_def load_profile_def load_strategy_def load_state_def get_profile_def modify_db_def split: option.splits)

lemma raises_bindL: "(\<And>l. raises P (m l)) \<Longrightarrow> (\<And>x l. raises P (f x l)) \<Longrightarrow> raises P (bindL m f l)"
  unfolding bindL_def by (intro raises_bindP raises_prod raises_sum raises_retP)

lemma raises_seqL: "(\<And>l. raises P (m l)) \<Longrightarrow> (\<And>l. raises P (k l)) \<Longrightarrow> raises P (seqL m k l)"
  unfolding seqL_def by (rule raises_bindL)

lemma raises_localL: "raises P (liftL r l)" "raises P (getL g l)" "raises P (modL h l)" "raises P (doL m l)"
  by (auto simp: raises_def liftL_def getL_def modL_def doL_def split: prod.splits)

lemma raises_ifL: "raises P (m l) \<Longrightarrow> raises P (k l) \<Longrightarrow> raises P ((if b then m else k) l)"
  by simp

lemma raises_optionL:
  "raises P (n l) \<Longrightarrow> (\<And>x. raises P (s x l)) \<Longrightarrow> raises P ((case v of None \<Rightarrow> n | Some x \<Rightarrow> s x) l)"
  by (cases v) auto

lemma raises_prodL: "(\<And>x y. raises P (f x y l)) \<Longrightarrow> raises P ((case v of (x, y) \<Rightarrow> f x y) l)"
  by (cases v) auto

lemmas raises_rules = raises_retP raises_getP raises_modP raises_bindP raises_seqP raises_if raises_option raises_sum raises_prod
  raises_session raises_bindL raises_seqL raises_localL raises_ifL raises_optionL raises_prodL raises_foldP

lemma returns_foldP_length:
  assumes "\<And>s x. returns (\<lambda>s'. g s' = Suc (g s)) (f s x)" shows "returns (\<lambda>s'. g s' = g s + length xs) (foldP f s xs)"
proof (induction xs arbitrary: s)
  case (Cons x xs)
  have "returns (\<lambda>s''. g s'' = g s + length (x # xs)) (foldP f s' xs)" if "g s' = Suc (g s)" for s'
    using Cons [of s'] that by simp
  with assms show ?case by (auto intro: returns_bindP_of)
qed (simp add: returns_def)

end
