(* ===== verification/Controls.thy ===== *)
theory Controls
  imports World
begin

text \<open>
  Who may trade what: \<open>app/services/account_access.py\<close> (owners and the assignment of accounts),
  \<open>get_or_create_state\<close> of \<open>app/services/automation.py\<close>, and the certification and authorization
  checks of \<open>app/services/safe_automation.py\<close> that an entry passes at the submission boundary.
\<close>

section \<open>Owners\<close>

definition active_owner :: "nat \<Rightarrow> bool prog" where
  \<comment> \<open>\<open>populate_existing\<close> reads the row again, so no cached user is used\<close>
  "active_owner owner_id = getP (\<lambda>w. case by_key us_id owner_id (db_users (w_db w)) of
     None \<Rightarrow> False | Some u \<Rightarrow> us_is_active u)"

definition admin_bridge_required :: "user \<Rightarrow> string \<Rightarrow> unit res" where
  "admin_bridge_required u provider =
     guardE (provider \<in> set [''IBKR'', ''MT5''] \<and> us_role u \<noteq> ''ADMIN'')
       (HTTPException 403 ''An administrator must provision this broker connection'') (Inr ())"

definition validated_owner :: "user \<Rightarrow> nat option \<Rightarrow> nat prog" where
  "validated_owner u requested =
     (let owner_id = or_else requested (us_id u)
      in if owner_id \<noteq> us_id u \<and> us_role u \<noteq> ''ADMIN''
         then liftP (Inl (HTTPException 403 ''admin role required to assign another owner''))
         else bindP (active_owner owner_id) (\<lambda>ok.
           if \<not> ok then liftP (Inl (HTTPException 409 ''Account owner must be an active user'')) else retP owner_id))"

definition entry_owner_blocker :: "nat \<Rightarrow> nat \<Rightarrow> string option prog" where
  \<comment> \<open>for a profile's owner and the profile's identifier; the profile is read again\<close>
  "entry_owner_blocker owner_id profile_id =
     bindP (active_owner owner_id) (\<lambda>ok.
       if \<not> ok then retP (Some ''ACCOUNT_OWNER_DISABLED'')
       else bindP (getP (\<lambda>w. by_key bp_id profile_id (db_profiles (w_db w)))) (\<lambda>current.
         case current of
           None \<Rightarrow> retP (Some ''ROUTE_NOT_READY'')
         | Some p \<Rightarrow> bindP (modP (\<lambda>w. w\<lparr>w_profiles := replace_row bp_id p (w_profiles w)\<rparr>)) (\<lambda>_.
             retP (if bp_is_enabled p \<and> bp_is_active p then None else Some ''ROUTE_NOT_READY''))))"

fun assigned_key :: "env \<Rightarrow> nat option \<Rightarrow> string \<Rightarrow> broker_profile list \<Rightarrow> unit res" where
  "assigned_key E exclude key [] = Inr ()"
| "assigned_key E exclude key (row # rows) =
     (if Some (bp_id row) = exclude then assigned_key E exclude key rows
      else case bp_api_key_encrypted row of
        None \<Rightarrow> assigned_key E exclude key rows
      | Some blob \<Rightarrow>
          if blob = [] then assigned_key E exclude key rows
          else bindE (en_decrypt E blob) (\<lambda>saved.
            guardE (str_strip saved = str_strip key)
              (HTTPException 409 ''API key is already assigned; manage its existing profile'')
              (assigned_key E exclude key rows)))"

definition bybit_rows :: "string \<Rightarrow> db \<Rightarrow> broker_profile list" where
  "bybit_rows environment d = filter (\<lambda>p. bp_provider p = ''BYBIT'' \<and> bp_environment p = environment) (db_profiles d)"

definition assert_bybit_key_assignment :: "env \<Rightarrow> string \<Rightarrow> string \<Rightarrow> nat option \<Rightarrow> unit prog" where
  "assert_bybit_key_assignment E environment key exclude =
     bindP (getP (\<lambda>w. assigned_key E exclude key (bybit_rows environment (w_db w)))) liftP"

fun assigned_uid :: "env \<Rightarrow> nat option \<Rightarrow> string \<Rightarrow> broker_profile list \<Rightarrow> unit res" where
  "assigned_uid E exclude uid [] = Inr ()"
| "assigned_uid E exclude uid (row # rows) =
     (if Some (bp_id row) = exclude then assigned_uid E exclude uid rows
      else bindE (case bp_credential_blob_encrypted row of None \<Rightarrow> Inr (PDict [])
                  | Some blob \<Rightarrow> if blob = [] then Inr (PDict []) else en_secret E blob) (\<lambda>verified.
           bindE (vget verified ''bybit_verified_uid'') (\<lambda>v.
             guardE (v = PStr uid) (HTTPException 409 ''Bybit account is already assigned; manage its existing profile'')
               (assigned_uid E exclude uid rows))))"

definition assert_bybit_uid :: "env \<Rightarrow> string \<Rightarrow> string \<Rightarrow> nat option \<Rightarrow> unit prog" where
  "assert_bybit_uid E uid environment exclude =
     bindP (getP (\<lambda>w. assigned_uid E exclude uid (bybit_rows environment (w_db w)))) liftP"

section \<open>The engine's controls\<close>

definition default_state :: "nat \<Rightarrow> automation_state" where
  "default_state i = \<lparr>au_id = i, au_name = ''default'', au_enabled = True, au_killed = False, au_auto_execute_paper = True,
     au_interval_seconds = 300, au_symbols_csv = ''BTCUSDT,ETHUSDT,SOLUSDT,XRPUSDT,BNBUSDT'',
     au_last_scan_at = None, au_next_scan_at = None\<rparr>"

definition get_or_create_state :: "env \<Rightarrow> automation_state prog" where
  "get_or_create_state E =
     bindP (getP (\<lambda>w. find (\<lambda>s. au_name s = ''default'') (db_states (w_db w)))) (\<lambda>r. case r of
       Some row \<Rightarrow> load_state row
     | None \<Rightarrow>
         bindP (getP (\<lambda>w. db_next_id (w_db w))) (\<lambda>i.
         seqP (modify_db (\<lambda>d. d\<lparr>db_states := db_states d @ [default_state i], db_next_id := i + 1\<rparr>))
        (seqP (commit E) (refresh_state i))))"

definition CERTIFIED_AUTOMATION_ROUTES :: "(string \<times> string) list" where
  "CERTIFIED_AUTOMATION_ROUTES =
     [(''MT5'', ''DEMO''), (''IBKR'', ''PAPER''), (''BYBIT'', ''TESTNET''), (''BYBIT'', ''DEMO'')]"

definition automation_certification_blocker :: "string \<Rightarrow> string \<Rightarrow> string option" where
  \<comment> \<open>a missing provider or environment is the empty string\<close>
  "automation_certification_blocker provider environment =
     (let p = str_upper provider; e = str_upper environment
      in if (p, e) \<in> set CERTIFIED_AUTOMATION_ROUTES then None
         else if p = ''BYBIT'' then Some ''BYBIT_TESTNET_OR_DEMO_REQUIRED''
         else if p = ''IBKR'' then Some ''IBKR_PAPER_ONLY_CERTIFIED''
         else Some ''AUTOMATION_ROUTE_NOT_CERTIFIED'')"

definition route_ready :: "broker_profile \<Rightarrow> bool" where
  "route_ready p = (bp_is_enabled p \<and> bp_is_active p \<and> bp_credentials_configured p \<and> bp_last_connection_status p = ''CONNECTED'')"

definition controls_blocker :: "bool \<Rightarrow> automation_state \<Rightarrow> broker_profile \<Rightarrow> symbol_strategy \<Rightarrow> string option" where
  \<comment> \<open>the decision on the rows read again, in the order of the checks\<close>
  "controls_blocker owner_active state profile cfg =
     (if \<not> owner_active then Some ''ACCOUNT_OWNER_DISABLED''
      else if bp_provider profile \<noteq> ''IBKR'' then Some ''IBKR_PROFILE_REQUIRED''
      else if au_killed state then Some ''KILL_SWITCH''
      else if \<not> au_enabled state then Some ''ENGINE_DISABLED''
      else if \<not> au_auto_execute_paper state then Some ''SIMULATION_EXECUTION_DISABLED''
      else if \<not> ss_enabled cfg \<or> ss_mode cfg \<noteq> ''AUTO_TRADE'' \<or> ss_profile_id cfg \<noteq> bp_id profile
      then Some ''AUTO_TRADE_NOT_ENABLED''
      else if bp_user_id profile \<noteq> ss_user_id cfg then Some ''PROFILE_OWNERSHIP_MISMATCH''
      else if \<not> route_ready profile then Some ''ROUTE_NOT_READY''
      else automation_certification_blocker (bp_provider profile) (bp_environment profile))"

definition entry_authorization_blocker :: "env \<Rightarrow> nat \<Rightarrow> nat \<Rightarrow> string option prog" where
  \<comment> \<open>\<open>_entry_authorization_blocker(db, profile, cfg)\<close> by the identifiers of the two rows\<close>
  "entry_authorization_blocker E profile_id cfg_id =
     bindP (get_or_create_state E) (\<lambda>s.
     bindP (refresh_state (au_id s)) (\<lambda>state.
     bindP (refresh_profile profile_id) (\<lambda>profile.
     bindP (refresh_strategy cfg_id) (\<lambda>cfg.
     bindP (active_owner (bp_user_id profile)) (\<lambda>ok.
       let b = controls_blocker ok state profile cfg
       in bindP (modP (\<lambda>w. w\<lparr>w_log := w_log w @ [Checked b profile_id cfg_id (w_db w)]\<rparr>)) (\<lambda>_. retP b))))))"

section \<open>What the checks decide\<close>

definition entry_allowed :: "db \<Rightarrow> nat \<Rightarrow> nat \<Rightarrow> bool" where
  \<comment> \<open>the specification: in this database the entry of the strategy on the profile is authorized\<close>
  "entry_allowed d profile_id cfg_id =
     (\<exists>p c s. by_key bp_id profile_id (db_profiles d) = Some p \<and> by_key ss_id cfg_id (db_strategies d) = Some c
        \<and> s \<in> set (db_states d) \<and> au_enabled s \<and> \<not> au_killed s \<and> au_auto_execute_paper s
        \<and> (\<exists>u \<in> set (db_users d). us_id u = bp_user_id p \<and> us_is_active u)
        \<and> bp_provider p = ''IBKR'' \<and> str_upper (bp_environment p) = ''PAPER'' \<and> route_ready p
        \<and> ss_enabled c \<and> ss_mode c = ''AUTO_TRADE'' \<and> ss_profile_id c = profile_id \<and> ss_user_id c = bp_user_id p)"

lemma certification_ibkr:
  "automation_certification_blocker ''IBKR'' environment = None \<longleftrightarrow> str_upper environment = ''PAPER''"
proof -
  have "str_upper ''IBKR'' = ''IBKR''" by code_simp
  then show ?thesis by (auto simp: automation_certification_blocker_def CERTIFIED_AUTOMATION_ROUTES_def Let_def)
qed

lemma certification_sound:
  "automation_certification_blocker provider environment = None \<longleftrightarrow>
     (str_upper provider, str_upper environment) \<in> set CERTIFIED_AUTOMATION_ROUTES"
  by (simp add: automation_certification_blocker_def Let_def)

lemma bindP_InrE:
  assumes "bindP m f w = (Inr y, w')"
  obtains x w1 where "m w = (Inr x, w1)" and "f x w1 = (Inr y, w')"
  using assms by (auto simp: bindP_def split: prod.splits sum.splits)

lemma seqP_InrE:
  assumes "seqP m k w = (Inr y, w')"
  obtains w1 where "m w = (Inr (), w1)" and "k w1 = (Inr y, w')"
  using assms unfolding seqP_def by (auto elim: bindP_InrE)

lemma refresh_stateD: "refresh_state i w = (Inr s, w') \<Longrightarrow> by_key au_id i (db_states (w_db w)) = Some s \<and> w_db w' = w_db w \<and> w_log w' = w_log w"
  by (auto simp: refresh_state_def split: option.splits)

lemma refresh_profileD: "refresh_profile i w = (Inr p, w') \<Longrightarrow> by_key bp_id i (db_profiles (w_db w)) = Some p \<and> w_db w' = w_db w \<and> w_log w' = w_log w"
  by (auto simp: refresh_profile_def split: option.splits)

lemma refresh_strategyD: "refresh_strategy i w = (Inr c, w') \<Longrightarrow> by_key ss_id i (db_strategies (w_db w)) = Some c \<and> w_db w' = w_db w \<and> w_log w' = w_log w"
  by (auto simp: refresh_strategy_def split: option.splits)

lemma controls_blocker_allows:
  assumes "controls_blocker ok s p c = None"
  shows "ok \<and> bp_provider p = ''IBKR'' \<and> \<not> au_killed s \<and> au_enabled s \<and> au_auto_execute_paper s
    \<and> ss_enabled c \<and> ss_mode c = ''AUTO_TRADE'' \<and> ss_profile_id c = bp_id p \<and> bp_user_id p = ss_user_id c
    \<and> route_ready p \<and> str_upper (bp_environment p) = ''PAPER''"
  using assms certification_ibkr by (auto simp: controls_blocker_def split: if_splits)

lemma entry_authorization_sound:
  assumes "entry_authorization_blocker E profile_id cfg_id w = (Inr b, w')"
  shows "\<exists>pre. w_log w' = pre @ [Checked b profile_id cfg_id (w_db w')] \<and> (b = None \<longrightarrow> entry_allowed (w_db w') profile_id cfg_id)"
proof -
  from assms obtain s w1 s' w2 p w3 c w4 ok w5 where
      1: "get_or_create_state E w = (Inr s, w1)" and 2: "refresh_state (au_id s) w1 = (Inr s', w2)"
    and 3: "refresh_profile profile_id w2 = (Inr p, w3)" and 4: "refresh_strategy cfg_id w3 = (Inr c, w4)"
    and 5: "active_owner (bp_user_id p) w4 = (Inr ok, w5)" and b: "b = controls_blocker ok s' p c"
    and w': "w' = w5\<lparr>w_log := w_log w5 @ [Checked b profile_id cfg_id (w_db w5)]\<rparr>"
    unfolding entry_authorization_blocker_def by (auto elim!: bindP_InrE simp: Let_def)
  note d = refresh_stateD [OF 2] refresh_profileD [OF 3] refresh_strategyD [OF 4]
  have w5: "w5 = w4" and ok: "ok = (case by_key us_id (bp_user_id p) (db_users (w_db w4)) of None \<Rightarrow> False | Some u \<Rightarrow> us_is_active u)"
    using 5 by (auto simp: active_owner_def)
  have "entry_allowed (w_db w') profile_id cfg_id" if "b = None"
  proof -
    from controls_blocker_allows that b have ca: "ok \<and> bp_provider p = ''IBKR'' \<and> \<not> au_killed s' \<and> au_enabled s'
      \<and> au_auto_execute_paper s' \<and> ss_enabled c \<and> ss_mode c = ''AUTO_TRADE'' \<and> ss_profile_id c = bp_id p
      \<and> bp_user_id p = ss_user_id c \<and> route_ready p \<and> str_upper (bp_environment p) = ''PAPER''" by metis
    from ca ok obtain u where "by_key us_id (bp_user_id p) (db_users (w_db w4)) = Some u" "us_is_active u"
      by (auto split: option.splits)
    then have u: "\<exists>u \<in> set (db_users (w_db w4)). us_id u = bp_user_id p \<and> us_is_active u" using by_key_SomeD by metis
    have "bp_id p = profile_id" "s' \<in> set (db_states (w_db w1))" using d by_key_SomeD by metis+
    with d ca u show ?thesis unfolding entry_allowed_def w' w5 by auto
  qed
  with w' w5 show ?thesis by auto
qed

text \<open>
  C25. The authorization at the submission boundary decides on the database of that moment, never on
  rows loaded earlier in the scan: when it finds no blocker, the engine is enabled, not killed and
  executing, the owner is active, the profile is a ready IBKR PAPER route, and the strategy is an
  enabled AUTO_TRADE strategy of the same profile and owner, whatever the session's identity map holds.
\<close>

theorem entry_authorization_reads_current_controls:
  assumes "entry_authorization_blocker E profile_id cfg_id w = (Inr None, w')"
  shows "entry_allowed (w_db w') profile_id cfg_id"
  using entry_authorization_sound [OF assms] by blast

lemma quiet_active_owner [intro!]: "emits no_orders (active_owner i)"
  unfolding active_owner_def by (rule quiet.emits_getP)

lemma quiet_get_or_create_state [intro!]: "emits no_orders (get_or_create_state E)"
  unfolding get_or_create_state_def by (auto split: option.split)

lemma quiet_authorization [intro!]: "emits no_orders (entry_authorization_blocker E profile_id cfg_id)"
  unfolding entry_authorization_blocker_def Let_def
  by (intro quiet.emits_bindP quiet_get_or_create_state quiet.emits_session quiet_active_owner quiet.emits_retP)
     (auto simp: emits_def no_orders_def)

lemma quiet_owner_blocker [intro!]: "emits no_orders (entry_owner_blocker i j)"
proof -
  have "emits no_orders (modP (\<lambda>w. w\<lparr>w_profiles := replace_row bp_id p (w_profiles w)\<rparr>))" for p
    by (rule quiet.emits_keep) simp
  then show ?thesis unfolding entry_owner_blocker_def by (auto split: option.split)
qed

lemma assigned_key_unique:
  "assigned_key E exclude key rows = Inr () \<Longrightarrow> row \<in> set rows \<Longrightarrow> Some (bp_id row) \<noteq> exclude
     \<Longrightarrow> bp_api_key_encrypted row = Some blob \<Longrightarrow> blob \<noteq> []
     \<Longrightarrow> \<exists>saved. en_decrypt E blob = Inr saved \<and> str_strip saved \<noteq> str_strip key"
  by (induction rows) (auto split: if_splits option.splits)

text \<open>
  Keys of Bybit accounts stay unique: when the assignment check accepts a key, no other profile
  of the environment with a stored key decrypts to the same key.
\<close>

theorem bybit_key_assignment_unique:
  assumes "assert_bybit_key_assignment E environment key exclude w = (Inr (), w')"
    and "row \<in> set (db_profiles (w_db w))" and "bp_provider row = ''BYBIT''" and "bp_environment row = environment"
    and "Some (bp_id row) \<noteq> exclude" and "bp_api_key_encrypted row = Some blob" and "blob \<noteq> []"
  shows "\<exists>saved. en_decrypt E blob = Inr saved \<and> str_strip saved \<noteq> str_strip key"
proof (rule assigned_key_unique)
  show "assigned_key E exclude key (bybit_rows environment (w_db w)) = Inr ()"
    using assms(1) by (auto simp: assert_bybit_key_assignment_def bindP_def)
  show "row \<in> set (bybit_rows environment (w_db w))" using assms(2-4) by (simp add: bybit_rows_def)
qed (use assms in auto)

lemma authorization_extends:
  assumes "entry_authorization_blocker E profile_id cfg_id w = (Inr b, w')"
  shows "\<exists>es. w_log w' = w_log w @ es @ [Checked b profile_id cfg_id (w_db w')]"
proof -
  from assms obtain s w1 s' w2 p w3 c w4 ok w5 where
      1: "get_or_create_state E w = (Inr s, w1)" and 2: "refresh_state (au_id s) w1 = (Inr s', w2)"
    and 3: "refresh_profile profile_id w2 = (Inr p, w3)" and 4: "refresh_strategy cfg_id w3 = (Inr c, w4)"
    and 5: "active_owner (bp_user_id p) w4 = (Inr ok, w5)" and b: "b = controls_blocker ok s' p c"
    and w': "w' = w5\<lparr>w_log := w_log w5 @ [Checked b profile_id cfg_id (w_db w5)]\<rparr>"
    unfolding entry_authorization_blocker_def by (auto elim!: bindP_InrE simp: Let_def)
  from emitsD [OF quiet_get_or_create_state 1] obtain es where "w_log w1 = w_log w @ es" by blast
  moreover have "w_log w5 = w_log w1"
    using refresh_stateD [OF 2] refresh_profileD [OF 3] refresh_strategyD [OF 4] 5 by (auto simp: active_owner_def)
  ultimately show ?thesis using w' by auto
qed

section \<open>An example deployment\<close>

text \<open>
  The rows and the environment of the witnesses: an active user with one IBKR PAPER profile and one
  AUTO_TRADE strategy, brokers that answer nothing, and no other task.
\<close>

definition example_user :: user where
  "example_user = \<lparr>us_id = 1, us_username = ''u'', us_email = None, us_password_hash = ''h'', us_role = ''USER'', us_is_active = True\<rparr>"

definition example_profile :: broker_profile where
  "example_profile = \<lparr>bp_id = 2, bp_user_id = 1, bp_provider = ''IBKR'', bp_account_label = ''paper'', bp_environment = ''PAPER'',
     bp_external_account_ref = None, bp_is_enabled = True, bp_is_active = True, bp_live_execution_enabled = False,
     bp_live_execution_armed_at = None, bp_live_execution_expires_at = None, bp_live_execution_last_disarm_reason = None,
     bp_execution_certified = False, bp_execution_certified_at = None, bp_execution_certification_buy_passed = False,
     bp_execution_certification_sell_passed = False, bp_last_connection_status = ''CONNECTED'', bp_last_connection_test_at = None,
     bp_api_key_encrypted = None, bp_api_secret_encrypted = None, bp_credential_blob_encrypted = Some ''blob'',
     bp_credentials_configured = True, bp_last_sync_at = None, bp_equity_usd = None, bp_wallet_balance_usd = None,
     bp_available_balance_usd = None, bp_simulation_capital_override_usd = None, bp_open_positions_count = 0,
     bp_open_orders_count = 0\<rparr>"

definition example_strategy :: symbol_strategy where
  "example_strategy = \<lparr>ss_id = 3, ss_user_id = 1, ss_profile_id = 2, ss_market = ''STOCK'', ss_symbol = ''AAPL'',
     ss_mode = ''AUTO_TRADE'', ss_enabled = True, ss_timeframe = Some ''5m'', ss_minimum_signal_strength = None,
     ss_risk_per_trade_pct = None, ss_stop_atr_multiplier = None, ss_take_profit_rr = None,
     ss_max_position_notional_pct = None\<rparr>"

definition example_db :: db where
  "example_db = \<lparr>db_users = [example_user], db_profiles = [example_profile], db_strategies = [example_strategy],
     db_states = [default_state 4], db_scans = [], db_actions = [], db_inventories = [],
     db_risks = [], db_strategy_profiles = [], db_next_id = 10\<rparr>"

definition example_world :: world where
  "example_world = \<lparr>w_db = example_db, w_profiles = [], w_strategies = [], w_states = [], w_tick = 0, w_log = [],
     w_saved = example_db\<rparr>"

definition example_env :: env where
  "example_env = \<lparr>en_step = (\<lambda>_ d. d), en_http = (\<lambda>_ _ _. Inl ConnectError), en_commit = (\<lambda>_. True),
     en_locked = (\<lambda>_ _. False), en_now = (\<lambda>_. 0), en_token = (\<lambda>_. ''t''),
     en_secret = (\<lambda>_. Inr (PDict [(''account_id'', PStr ''DU1'')])), en_decrypt = (\<lambda>s. Inr s), en_account_retries = 3,
     en_exn_text = (\<lambda>_. ''error''), en_bybit_testnet = ''https://api-testnet.bybit.com'',
     en_bybit_demo = ''https://api-demo.bybit.com'', en_bybit_public = ''https://api.bybit.com'',
     en_parse_time = (\<lambda>_ _ _. None), en_uuid5 = (\<lambda>i. i + 1000), en_settings = \<lparr>ibkr_paper_delayed_data_enabled = False, allow_live_trading = False,
     ibkr_paper_atr_sizing_enabled = False, ibkr_fractional_api_enabled = False, ibkr_native_protection_enabled = False,
     ibkr_execution_timezone = ''Etc/UTC'', ibkr_position_monitor_interval_seconds = 30\<rparr>\<rparr>"

lemmas example_defs = example_user_def example_profile_def example_strategy_def example_db_def example_world_def
  example_env_def default_state_def

lemma example_authorized: "\<exists>w'. entry_authorization_blocker example_env 2 3 example_world = (Inr None, w')"
proof -
  have u: "str_upper ''PAPER'' = ''PAPER''" by code_simp
  show ?thesis
    by (simp add: entry_authorization_blocker_def get_or_create_state_def bindP_def load_state_def cached_def by_key_def
        refresh_state_def refresh_profile_def refresh_strategy_def active_owner_def controls_blocker_def route_ready_def
        example_defs certification_ibkr u Let_def)
qed

theorem entry_authorization_reads_current_controls_witness: "\<exists>w' :: world. entry_allowed (w_db w') 2 3"
  using example_authorized entry_authorization_reads_current_controls by blast

theorem bybit_key_assignment_unique_witness:
  "\<exists>saved. en_decrypt example_env ''k1'' = Inr saved \<and> str_strip saved \<noteq> str_strip ''k2''"
proof (rule bybit_key_assignment_unique)
  let ?p = "example_profile\<lparr>bp_provider := ''BYBIT'', bp_environment := ''DEMO'', bp_api_key_encrypted := Some ''k1''\<rparr>"
  let ?w = "example_world\<lparr>w_db := example_db\<lparr>db_profiles := [?p]\<rparr>\<rparr>"
  have "str_strip ''k1'' \<noteq> str_strip ''k2''" by code_simp
  then show "assert_bybit_key_assignment example_env ''DEMO'' ''k2'' None ?w = (Inr (), ?w)"
    by (simp add: assert_bybit_key_assignment_def bindP_def bybit_rows_def example_defs)
  show "?p \<in> set (db_profiles (w_db ?w))" by simp
qed (simp_all add: example_profile_def)

end
