(* ===== verification/Technical.thy ===== *)
theory Technical
  imports Py_Value
begin

text \<open>
  \<open>app/analysis/technical.py\<close>: moving averages, RSI, MACD, ATR, Bollinger bands, structure and
  levels, and the summary \<open>analyze_candles\<close>. A candle is the dictionary the data providers return.
\<close>

section \<open>Indicators\<close>

definition sma :: "pyfloat list \<Rightarrow> nat \<Rightarrow> pyfloat option res" where
  "sma values period =
     (if length values < period then Inr None else bindE (pymean (last_n period values)) (\<lambda>m. Inr (Some m)))"

fun ema_from :: "pyfloat \<Rightarrow> pyfloat \<Rightarrow> pyfloat list \<Rightarrow> pyfloat list" where
  "ema_from alpha prev [] = []"
| "ema_from alpha prev (value # values) =
     (let x = alpha * value + (1 - alpha) * prev in x # ema_from alpha x values)"

definition ema_series :: "pyfloat list \<Rightarrow> nat \<Rightarrow> pyfloat list" where
  "ema_series values period =
     (case values of [] \<Rightarrow> []
      | v # vs \<Rightarrow> v # ema_from (fl (2 / of_nat (period + 1))) v vs)"

definition ema :: "pyfloat list \<Rightarrow> nat \<Rightarrow> pyfloat option res" where
  "ema values period =
     (if length values < period then Inr None
      else case ema_series values period of [] \<Rightarrow> Inl IndexError | xs \<Rightarrow> Inr (Some (last xs)))"

definition changes :: "pyfloat list \<Rightarrow> nat \<Rightarrow> pyfloat list" where
  "changes values period = map (\<lambda>(a, b). b - a) (zip (slice_neg (period + 1) 1 values) (last_n period values))"

definition rsi_of :: "pyfloat \<Rightarrow> pyfloat \<Rightarrow> pyfloat res" where
  \<comment> \<open>the value for the average gain and the average loss\<close>
  "rsi_of gains losses =
     (if feq losses 0 then Inr (fl 100)
      else bindE (fdiv gains losses) (\<lambda>rs.
           bindE (fdiv (fl 100) (1 + rs)) (\<lambda>q. Inr (fl 100 - q))))"

definition rsi :: "pyfloat list \<Rightarrow> nat \<Rightarrow> pyfloat option res" where
  "rsi values period =
     (if length values \<le> period then Inr None
      else let cs = changes values period
           in bindE (fdiv (pysum (map (\<lambda>x. pymax x 0) cs)) (fl (of_nat period))) (\<lambda>gains.
              bindE (fdiv (pysum (map (\<lambda>x. pymax (- x) 0) cs)) (fl (of_nat period))) (\<lambda>losses.
              bindE (rsi_of gains losses) (\<lambda>v. Inr (Some v)))))"

record macd_values =
  macd_line :: "pyfloat option"
  macd_signal :: "pyfloat option"
  macd_histogram :: "pyfloat option"

definition macd :: "pyfloat list \<Rightarrow> macd_values" where
  "macd values =
     (if length values < 26 then \<lparr>macd_line = None, macd_signal = None, macd_histogram = None\<rparr>
      else let line = map2 (\<lambda>f s. f - s) (ema_series values 12) (ema_series values 26);
               signal_series = ema_series line 9
           in \<lparr>macd_line = Some (last line), macd_signal = Some (last signal_series),
               macd_histogram = Some (last line - last signal_series)\<rparr>)"

definition true_range :: "pyfloat \<Rightarrow> pyfloat \<Rightarrow> pyfloat \<Rightarrow> pyfloat" where
  \<comment> \<open>high, low and the close before\<close>
  "true_range h l pc = pymax (pymax (h - l) (fabs (h - pc))) (fabs (l - pc))"

fun true_ranges :: "pyfloat list \<Rightarrow> pyfloat list \<Rightarrow> pyfloat list \<Rightarrow> pyfloat list" where
  \<comment> \<open>the loop of \<open>atr\<close>: highs and lows from the second bar, closes from the first\<close>
  "true_ranges (h # hs) (l # ls) (pc # c # cs) = true_range h l pc # true_ranges hs ls (c # cs)"
| "true_ranges _ _ _ = []"

definition atr :: "pyfloat list \<Rightarrow> pyfloat list \<Rightarrow> pyfloat list \<Rightarrow> nat \<Rightarrow> pyfloat option res" where
  "atr highs lows closes period =
     (if length closes \<le> period then Inr None
      else if length highs < length closes \<or> length lows < length closes then Inl IndexError
      else bindE (pymean (last_n period (true_ranges (tl highs) (tl lows) closes))) (\<lambda>m. Inr (Some m)))"

record bands =
  band_upper :: "pyfloat option"
  band_middle :: "pyfloat option"
  band_lower :: "pyfloat option"

definition bollinger :: "pyfloat list \<Rightarrow> nat \<Rightarrow> pyfloat \<Rightarrow> bands res" where
  "bollinger values period deviations =
     (if length values < period then Inr \<lparr>band_upper = None, band_middle = None, band_lower = None\<rparr>
      else let window = last_n period values
           in bindE (pymean window) (\<lambda>middle.
              bindE (pypstdev window) (\<lambda>sd.
                Inr \<lparr>band_upper = Some (middle + deviations * sd), band_middle = Some middle,
                     band_lower = Some (middle - deviations * sd)\<rparr>)))"

definition market_structure :: "pyfloat list \<Rightarrow> pyfloat list \<Rightarrow> string res" where
  "market_structure highs lows =
     (if length highs < 6 then Inr ''UNDEFINED''
      else bindE (max_list (last_n 3 highs)) (\<lambda>rh. bindE (max_list (slice_neg 6 3 highs)) (\<lambda>ph.
           bindE (min_list (last_n 3 lows)) (\<lambda>rl. bindE (min_list (slice_neg 6 3 lows)) (\<lambda>pl.
             Inr (if ph < rh \<and> pl < rl then ''BULLISH'' else if rh < ph \<and> rl < pl then ''BEARISH'' else ''RANGE''))))))"

definition support_resistance :: "pyfloat list \<Rightarrow> pyfloat list \<Rightarrow> nat \<Rightarrow> (pyfloat \<times> pyfloat) res" where
  "support_resistance highs lows window =
     bindE (min_list (last_n window lows)) (\<lambda>s. bindE (max_list (last_n window highs)) (\<lambda>r. Inr (s, r)))"

section \<open>The summary\<close>

record technical =
  ta_last_close :: pyfloat
  ta_ema20 :: "pyfloat option"
  ta_ema50 :: "pyfloat option"
  ta_sma20 :: "pyfloat option"
  ta_rsi14 :: "pyfloat option"
  ta_macd :: macd_values
  ta_atr14 :: "pyfloat option"
  ta_bands :: bands
  ta_structure :: string
  ta_support :: pyfloat
  ta_resistance :: pyfloat
  ta_trend :: string
  ta_volatility :: string
  ta_volatility_pct :: pyfloat
  ta_score :: int
  ta_bias :: string

definition column :: "string \<Rightarrow> pydict list \<Rightarrow> pyfloat list res" where
  \<comment> \<open>\<open>[float(c[key]) for c in candles]\<close>\<close>
  "column key candles = mapE (\<lambda>c. bindE (dsub c key) py_float) candles"

definition nonzero :: "pyfloat option \<Rightarrow> bool" where
  \<comment> \<open>the truth of an optional float\<close>
  "nonzero v = (case v of None \<Rightarrow> False | Some x \<Rightarrow> x \<noteq> 0)"

definition trend_of :: "pyfloat option \<Rightarrow> pyfloat option \<Rightarrow> string" where
  "trend_of e20 e50 =
     (if nonzero e20 \<and> nonzero e50 \<and> or_else e50 0 < or_else e20 0 then ''BULLISH''
      else if nonzero e20 \<and> nonzero e50 \<and> or_else e20 0 < or_else e50 0 then ''BEARISH'' else ''NEUTRAL'')"

definition score_of :: "string \<Rightarrow> string \<Rightarrow> pyfloat option \<Rightarrow> pyfloat option \<Rightarrow> int" where
  "score_of tr st r hist =
     (let s0 = 50 :: int;
          s1 = s0 + (if tr = ''BULLISH'' then 15 else if tr = ''BEARISH'' then - 15 else 0);
          s2 = s1 + (if st = ''BULLISH'' then 10 else if st = ''BEARISH'' then - 10 else 0);
          s3 = s2 + (case r of None \<Rightarrow> 0 | Some x \<Rightarrow> if fl 55 < x then 10 else if x < fl 45 then - 10 else 0);
          s4 = s3 + (case hist of None \<Rightarrow> 0 | Some x \<Rightarrow> if 0 < x then 10 else if x < 0 then - 10 else 0)
      in max 0 (min 100 s4))"

definition analyze_candles :: "pydict list \<Rightarrow> technical res" where
  "analyze_candles candles =
     bindE (column ''close'' candles) (\<lambda>closes.
     bindE (column ''high'' candles) (\<lambda>highs.
     bindE (column ''low'' candles) (\<lambda>lows.
     guardE (length closes < 30) (ValueError ''at least 30 candles are required'')
    (bindE (ema closes 20) (\<lambda>e20.
     bindE (ema closes 50) (\<lambda>e50.
     bindE (rsi closes 14) (\<lambda>current_rsi.
     let m = macd closes in
     bindE (atr highs lows closes 14) (\<lambda>current_atr.
     bindE (bollinger closes 20 (fl 2)) (\<lambda>bb.
     bindE (market_structure highs lows) (\<lambda>st.
     bindE (support_resistance highs lows 20) (\<lambda>levels.
     bindE (if nonzero current_atr then bindE (fdiv (or_else current_atr 0) (last closes)) (\<lambda>q. Inr (q * fl 100))
            else Inr 0) (\<lambda>vp.
     bindE (sma closes 20) (\<lambda>s20.
     let tr = trend_of e20 e50; sc = score_of tr st current_rsi (macd_histogram m)
     in Inr \<lparr>ta_last_close = last closes, ta_ema20 = e20, ta_ema50 = e50, ta_sma20 = s20, ta_rsi14 = current_rsi, ta_macd = m,
             ta_atr14 = current_atr, ta_bands = bb, ta_structure = st, ta_support = fst levels, ta_resistance = snd levels,
             ta_trend = tr, ta_volatility = (if fl 2 \<le> vp then ''HIGH'' else if vp \<le> fl (1 / 2) then ''LOW'' else ''NORMAL''),
             ta_volatility_pct = vp, ta_score = sc,
             ta_bias = (if 65 \<le> sc then ''LONG'' else if sc \<le> 35 then ''SHORT'' else ''NEUTRAL'')\<rparr>)))))))))))))"

section \<open>Facts\<close>

lemma length_ema_from [simp]: "length (ema_from a p vs) = length vs"
  by (induction vs arbitrary: p) (auto simp: Let_def)

lemma length_ema_series [simp]: "length (ema_series values period) = length values"
  by (cases "values") (simp_all add: ema_series_def)

lemma ema_from_append: "ema_from a p (xs @ ys) = ema_from a p xs @ ema_from a (last (p # ema_from a p xs)) ys"
  by (induction xs arbitrary: p) (auto simp: Let_def)

lemma length_true_ranges:
  "length hs = length ls \<Longrightarrow> length cs = Suc (length hs) \<Longrightarrow> length (true_ranges hs ls cs) = length hs"
  by (induction hs ls cs rule: true_ranges.induct) auto

lemma foldl_pymax_in: "foldl pymax y ys \<in> set (y # ys)"
proof (induction ys arbitrary: y)
  case (Cons z ys)
  have "foldl pymax (pymax y z) ys \<in> set (pymax y z # ys)" by (rule Cons.IH)
  then show ?case using pymax_cases [of y z] by auto
qed simp

lemma foldl_pymin_in: "foldl pymin y ys \<in> set (y # ys)"
proof (induction ys arbitrary: y)
  case (Cons z ys)
  have "foldl pymin (pymin y z) ys \<in> set (pymin y z # ys)" by (rule Cons.IH)
  then show ?case using pymin_cases [of y z] by auto
qed simp

lemma foldl_pymax_upper:
  assumes "NaN \<notin> set (y # ys)" shows "\<forall>x \<in> set (y # ys). x \<le> foldl pymax y ys"
  using assms
proof (induction ys arbitrary: y)
  case Nil
  then show ?case by (auto intro: float_le_refl)
next
  case (Cons z ys)
  then have nn: "pymax y z \<noteq> NaN" using pymax_cases [of y z] by auto
  with Cons have "\<forall>x \<in> set (pymax y z # ys). x \<le> foldl pymax (pymax y z) ys" by simp
  then show ?case using pymax_ge [of y z] Cons.prems by (auto intro: float_le_trans)
qed

lemma foldl_pymin_lower:
  assumes "NaN \<notin> set (y # ys)" shows "\<forall>x \<in> set (y # ys). foldl pymin y ys \<le> x"
  using assms
proof (induction ys arbitrary: y)
  case Nil
  then show ?case by (auto intro: float_le_refl)
next
  case (Cons z ys)
  then have nn: "pymin y z \<noteq> NaN" using pymin_cases [of y z] by auto
  with Cons have "\<forall>x \<in> set (pymin y z # ys). foldl pymin (pymin y z) ys \<le> x" by simp
  then show ?case using pymin_le [of y z] Cons.prems by (auto intro: float_le_trans)
qed

lemma max_list_spec:
  assumes "max_list xs = Inr m" and "NaN \<notin> set xs"
  shows "m \<in> set xs" and "\<And>x. x \<in> set xs \<Longrightarrow> x \<le> m"
  using assms foldl_pymax_in foldl_pymax_upper by (fastforce simp: max_list_def split: list.splits)+

lemma min_list_spec:
  assumes "min_list xs = Inr m" and "NaN \<notin> set xs"
  shows "m \<in> set xs" and "\<And>x. x \<in> set xs \<Longrightarrow> m \<le> x"
  using assms foldl_pymin_in foldl_pymin_lower by (fastforce simp: min_list_def split: list.splits)+

lemma pymean_bounds:
  assumes "pymean xs = Inr m" and "\<forall>x \<in> set xs. Fin a \<le> x \<and> x \<le> Fin b" and "is_float (Fin a)" "is_float (Fin b)"
  shows "Fin a \<le> m \<and> m \<le> Fin b"
proof -
  have fin: "\<forall>x \<in> set xs. isfinite x \<and> a \<le> fval x \<and> fval x \<le> b"
  proof
    fix x assume "x \<in> set xs"
    with assms(2) show "isfinite x \<and> a \<le> fval x \<and> fval x \<le> b" by (cases x) auto
  qed
  from assms(1) have ne: "xs \<noteq> []" by (auto simp: pymean_def)
  let ?n = "of_nat (length xs) :: rat"
  have pos: "0 < ?n" using ne by simp
  have m: "m = fin (sum_list (map fval xs) / ?n)"
    using assms(1) fin by (auto simp: pymean_def list_all_iff split: if_splits)
  have lo: "a * ?n \<le> sum_list (map fval xs)" using fin by (induction xs) (auto simp: algebra_simps)
  have hi: "sum_list (map fval xs) \<le> b * ?n" using fin by (induction xs) (auto simp: algebra_simps)
  from lo hi pos have "a \<le> sum_list (map fval xs) / ?n" "sum_list (map fval xs) / ?n \<le> b"
    by (simp_all add: pos_le_divide_eq pos_divide_le_eq)
  then show ?thesis using assms(3,4) by (simp add: m fin_le_float fin_ge_float)
qed

lemma isqrt_nonneg: "0 \<le> isqrt n"
proof (induction n rule: isqrt.induct)
  case (1 n)
  then show ?case by (subst isqrt.simps) (auto simp: Let_def)
qed

lemma rnd_sqrt_nonneg: "0 \<le> rnd_sqrt x"
proof -
  have "0 \<le> (of_int (isqrt n) :: rat)" for n using isqrt_nonneg by simp
  then show ?thesis by (simp add: rnd_sqrt_def Let_def zero_le_mult_iff add_nonneg_nonneg)
qed

lemma rnd_sqrt_1: "rnd_sqrt 1 = 1"
  by code_simp

lemma pypstdev_nonneg: "pypstdev xs = Inr sd \<Longrightarrow> 0 \<le> sd"
  by (auto simp: pypstdev_def Let_def rnd_sqrt_nonneg intro: fin_nonneg split: if_splits)

lemma fin_NegInf_iff: "0 \<le> x \<Longrightarrow> fin x \<noteq> NegInf"
  using fin_nonneg [of x] by (cases "fin x") (auto simp: zero_Fin)

lemma fadd_le_of_nonneg:
  assumes "is_float (Fin a)" and "0 \<le> y" shows "Fin a \<le> Fin a + y"
proof (cases y)
  case (Fin b)
  with assms(2) have "a \<le> a + b" by (simp add: zero_Fin)
  with assms(1) Fin show ?thesis using fin_mono [of a "a + b"] by (simp add: fin_of_float)
qed (use assms in \<open>auto simp: plus_pyfloat_def zero_Fin\<close>)

lemma fsub_le_of_nonneg:
  assumes "is_float (Fin a)" and "0 \<le> y" shows "Fin a - y \<le> Fin a"
proof (cases y)
  case (Fin b)
  with assms(2) have "a - b \<le> a" by (simp add: zero_Fin)
  with assms(1) Fin show ?thesis using fin_mono [of "a - b" a] by (simp add: fin_of_float)
qed (use assms in \<open>auto simp: minus_pyfloat_def zero_Fin\<close>)

lemma true_range_nonneg:
  assumes "isfinite h" "isfinite l" "isfinite pc" shows "0 \<le> true_range h l pc"
proof -
  obtain a b c where hlc: "h = Fin a" "l = Fin b" "pc = Fin c" using assms by (auto simp: isfinite_iff)
  have nn: "fabs (fin x) \<noteq> NaN" "0 \<le> fabs (fin x)" for x by (cases "fin x"; simp add: zero_Fin)+
  have nx: "pymax (fin (a - b)) (fabs (fin (a - c))) \<noteq> NaN" using nn(1) by (simp add: pymax_def)
  have "fabs (fin (b - c)) \<le> true_range h l pc"
    using pymax_ge [OF nx nn(1) [of "b - c"]] by (simp add: true_range_def hlc)
  with nn(2) show ?thesis by (rule float_le_trans)
qed

lemma true_ranges_nonneg:
  "\<forall>x \<in> set hs \<union> set ls \<union> set cs. isfinite x \<Longrightarrow> \<forall>t \<in> set (true_ranges hs ls cs). 0 \<le> t"
  by (induction hs ls cs rule: true_ranges.induct) (auto intro: true_range_nonneg)

lemma pymean_nonneg:
  assumes "pymean xs = Inr m" and "\<forall>x \<in> set xs. 0 \<le> x" shows "0 \<le> m"
proof (cases "list_all isfinite xs")
  case True
  have "0 \<le> sum_list (map fval xs)"
  proof (rule sum_list_nonneg)
    fix v assume "v \<in> set (map fval xs)"
    then obtain x where "x \<in> set xs" "v = fval x" by auto
    with assms(2) True show "0 \<le> v" by (cases x) (auto simp: zero_Fin list_all_iff)
  qed
  then have "0 \<le> sum_list (map fval xs) / of_nat (length xs)" by simp
  with True assms(1) show ?thesis by (auto simp: pymean_def intro: fin_nonneg split: if_splits)
next
  case False
  have "0 \<le> y \<Longrightarrow> \<forall>x \<in> set ys. 0 \<le> x \<Longrightarrow> 0 \<le> foldl fadd y ys" for y ys
    by (induction ys arbitrary: y) (auto intro: fadd_nonneg simp flip: plus_pyfloat_def)
  then have "0 \<le> foldl fadd 0 (filter (\<lambda>x. \<not> isfinite x) xs)"
    using assms(2) by (simp add: zero_Fin)
  with False assms(1) show ?thesis by (auto simp: pymean_def split: if_splits)
qed

text \<open>
  The average true range of finite bars is never negative, whatever the order of high, low
  and close in a bar (the stop distances of the position sizing are multiples of it).
\<close>

theorem atr_nonneg:
  assumes "atr highs lows closes period = Inr (Some v)"
    and "\<forall>x \<in> set highs \<union> set lows \<union> set closes. isfinite x"
  shows "0 \<le> v"
proof -
  have "\<forall>x \<in> set (tl highs) \<union> set (tl lows) \<union> set closes. isfinite x"
    using assms(2) set_tl_subset [of highs] set_tl_subset [of lows] by blast
  then have "\<forall>t \<in> set (true_ranges (tl highs) (tl lows) closes). 0 \<le> t"
    by (rule true_ranges_nonneg)
  then have "\<forall>t \<in> set (last_n period (true_ranges (tl highs) (tl lows) closes)). 0 \<le> t"
    using set_last_n [of period "true_ranges (tl highs) (tl lows) closes"] by auto
  moreover have "pymean (last_n period (true_ranges (tl highs) (tl lows) closes)) = Inr v"
    using assms(1) by (simp add: atr_def bindE_Inr_iff split: if_splits)
  ultimately show ?thesis by (rule pymean_nonneg [rotated])
qed

theorem atr_nonneg_witness:
  "0 \<le> Fin 3 \<and> atr [Fin 10, Fin 12] [Fin 8, Fin 9] [Fin 9, Fin 11] 1 = Inr (Some (Fin 3))"
proof -
  have "atr [Fin 10, Fin 12] [Fin 8, Fin 9] [Fin 9, Fin 11] 1 = Inr (Some (Fin 3))"
  proof -
    have t: "true_ranges [Fin 12] [Fin 9] [Fin 9, Fin 11] = [Fin 3]" by (simp add: true_range_def pymax_def)
    have m: "pymean (last_n 1 [Fin 3]) = Inr (Fin 3)" by (simp add: pymean_def last_n_def)
    from m show ?thesis by (simp add: atr_def t del: true_ranges.simps)
  qed
  with atr_nonneg [OF this] show ?thesis by simp
qed

text \<open>
  The Bollinger bands of a window bracket its mean: lower, middle and upper are ordered for
  every finite non-negative deviation factor.
\<close>

theorem bollinger_ordered:
  assumes "bollinger values period deviations = Inr b" and "band_middle b = Some (Fin m)"
    and "0 \<le> deviations" and "isfinite deviations" and "pypstdev (last_n period values) \<noteq> Inr PosInf"
  shows "\<exists>lo up. band_lower b = Some lo \<and> band_upper b = Some up \<and> lo \<le> Fin m \<and> Fin m \<le> up"
proof -
  from assms(1,2) obtain sd where mean: "pymean (last_n period values) = Inr (Fin m)"
    and sd: "pypstdev (last_n period values) = Inr sd"
    and b: "band_lower b = Some (Fin m - deviations * sd)" "band_upper b = Some (Fin m + deviations * sd)"
    by (auto simp: bollinger_def Let_def split: if_splits)
  have "0 \<le> sd" using pypstdev_nonneg [OF sd] .
  moreover have "isfinite sd" using \<open>0 \<le> sd\<close> assms(5) sd by (cases sd) auto
  ultimately have "0 \<le> deviations * sd" using assms(3,4) by (intro fmul_nonneg)
  moreover have "is_float (Fin m)"
  proof (cases "list_all isfinite (last_n period values)")
    case True
    with mean show ?thesis by (metis Inr_inject is_float_fin pymean_def sum.distinct(1))
  next
    case False
    have "\<not> isfinite y \<or> y = 0 \<Longrightarrow> \<forall>x \<in> set ys. \<not> isfinite x \<Longrightarrow> ys \<noteq> [] \<Longrightarrow> \<not> isfinite (foldl fadd y ys)" for y ys
    proof (induction ys arbitrary: y)
      case (Cons x ys)
      then have "\<not> isfinite (fadd y x)" by (cases x; cases y) (auto simp: zero_Fin)
      with Cons show ?case by (cases "ys = []") auto
    qed simp
    then have "\<not> isfinite (foldl fadd 0 (filter (\<lambda>x. \<not> isfinite x) (last_n period values)))"
      using False by (auto simp: list_all_iff filter_empty_conv)
    with mean False show ?thesis by (auto simp: pymean_def split: if_splits)
  qed
  ultimately show ?thesis using b fadd_le_of_nonneg fsub_le_of_nonneg by blast
qed

theorem bollinger_ordered_witness:
  "\<exists>lo up. Some (Fin 2) = Some lo \<and> Some (Fin 6) = Some up \<and> lo \<le> Fin 4 \<and> Fin 4 \<le> up"
proof -
  have b: "bollinger [Fin 3, Fin 5] 2 (Fin 2) = Inr \<lparr>band_upper = Some (Fin 6), band_middle = Some (Fin 4), band_lower = Some (Fin 2)\<rparr>"
    and s: "pypstdev (last_n 2 [Fin 3, Fin 5]) = Inr (Fin 1)"
    by (simp_all add: bollinger_def pymean_def pypstdev_def last_n_def rnd_sqrt_1)
  show ?thesis using bollinger_ordered [OF b] s by (simp add: zero_Fin)
qed

section \<open>Constant series\<close>

lemma column_const:
  "(\<And>i. bindE (dsub (f i) key) py_float = Inr v) \<Longrightarrow> column key (map f is) = Inr (replicate (length is) v)"
  unfolding column_def by (induction "is") auto

lemma true_ranges_const:
  "true_range h l c = t \<Longrightarrow> true_ranges (replicate n h) (replicate n l) (replicate (Suc n) c) = replicate n t"
  by (induction n) auto

lemma last_n_replicate [simp]: "last_n k (replicate n x) = replicate (min k n) x"
  by (simp add: last_n_def min_def)

lemma slice_neg_replicate [simp]: "slice_neg a b (replicate n x) = replicate (n - b - (n - a)) x"
  by (simp add: slice_neg_def min_def)

lemma max_list_replicate [simp]: "0 < n \<Longrightarrow> max_list (replicate n x) = Inr x"
proof -
  have "foldl pymax x (replicate k x) = x" for k by (induction k) (simp_all add: pymax_def)
  then show "0 < n \<Longrightarrow> ?thesis" by (cases n) (simp_all add: max_list_def)
qed

lemma min_list_replicate [simp]: "0 < n \<Longrightarrow> min_list (replicate n x) = Inr x"
proof -
  have "foldl pymin x (replicate k x) = x" for k by (induction k) (simp_all add: pymin_def)
  then show "0 < n \<Longrightarrow> ?thesis" by (cases n) (simp_all add: min_list_def)
qed

lemma fmul_zero [simp]: "isfinite x \<Longrightarrow> x * Fin 0 = Fin 0"
  by (cases x) simp_all

lemma isfinite_fl: "\<bar>x\<bar> \<le> 2 ^ 53 \<Longrightarrow> isfinite (fl x)"
proof -
  assume x: "\<bar>x\<bar> \<le> 2 ^ 53"
  have r: "representable (2 ^ 53)" using representable_of_int [of "2 ^ 53"] by simp
  have "rnd x \<le> 2 ^ 53" "rnd (- x) \<le> 2 ^ 53" by (rule rnd_le_rep [OF _ r]; use x in linarith)+
  then have "\<bar>rnd x\<bar> < fbound" using powi_53_fbound by simp
  then have "fin x = Fin (rnd x)" by (simp add: fin_Fin_iff)
  then show ?thesis by (simp add: fl_def)
qed

lemma ema_series_zero: "ema_series (replicate n (Fin 0)) period = replicate n (Fin 0)"
proof (cases n)
  case (Suc k)
  let ?a = "fl (2 / of_nat (period + 1))"
  have "(2 / of_nat (period + 1) :: rat) \<le> 2" by (simp add: divide_le_eq)
  then have a: "isfinite ?a" by (intro isfinite_fl) simp
  have "isfinite (1 - ?a)" if "0 \<le> x" "x \<le> 2" "?a = fin x" for x :: rat
  proof -
    have "fin x \<le> Fin 2" "Fin 0 \<le> fin x" using that fin_mono [of x 2] fin_mono [of 0 x] by simp_all
    then obtain y where y: "fin x = Fin y" "0 \<le> y" "y \<le> 2" by (cases "fin x") auto
    have "isfinite (fl (1 - y))" by (rule isfinite_fl) (use y in simp)
    then show ?thesis using y that(3) by (simp add: one_Fin fl_def)
  qed
  from this [of "2 / of_nat (period + 1)"] \<open>_ \<le> 2\<close> have b: "isfinite (1 - ?a)" by (simp add: fl_def)
  have "?a * Fin 0 + (1 - ?a) * Fin 0 = Fin 0" using a b by simp
  then have "ema_from ?a (Fin 0) (replicate k (Fin 0)) = replicate k (Fin 0)" by (induction k) (simp_all add: Let_def)
  then show ?thesis by (simp add: Suc ema_series_def)
qed (simp add: ema_series_def)

lemma pysum_zero: "pysum (replicate n (Fin 0)) = Fin 0"
proof -
  have "foldl neumaier_step (Fin 0, Fin 0) (replicate n (Fin 0)) = (Fin 0, Fin 0)"
    by (induction n) (simp_all add: neumaier_step_def Let_def)
  then show ?thesis by (simp add: pysum_def zero_Fin)
qed

lemma pymean_zero: "pymean (replicate (Suc n) (Fin 0)) = Inr (Fin 0)"
  by (simp add: pymean_def list_all_iff sum_list_replicate)

lemma pypstdev_zero: "pypstdev (replicate (Suc n) (Fin 0)) = Inr (Fin 0)"
  by (simp add: pypstdev_def list_all_iff sum_list_replicate rnd_sqrt_def Let_def)

end
