(* ===== verification/Quantities.thy ===== *)
theory Quantities
  imports Technical Trading_Candles
begin

text \<open>
  Order quantities: \<open>app/services/ibkr_fractional.py\<close>, \<open>capital_sizing.py\<close>,
  \<open>ibkr_atr_sizing.py\<close> and the lot rounding of \<open>app/brokers/bybit_private.py\<close>. The contract they
  share, rounding a requested quantity down to a step, is the locale \<open>rounding_down\<close>.
\<close>

section \<open>The rounding contract\<close>

locale rounding_down =
  fixes step :: rat and rd :: "rat \<Rightarrow> rat"
  assumes step_pos: "0 < step"
    and rd_grid: "0 \<le> x \<Longrightarrow> \<exists>k :: nat. rd x = of_nat k * step"
    and rd_le: "0 \<le> x \<Longrightarrow> rd x \<le> x"
    and rd_gap: "0 \<le> x \<Longrightarrow> x < rd x + step"
begin

lemma rd_nonneg: "0 \<le> x \<Longrightarrow> 0 \<le> rd x"
  using rd_grid [of x] step_pos by auto

lemma rd_unique:
  assumes "0 \<le> x" and "of_nat k * step \<le> x" and "x < of_nat (Suc k) * step"
  shows "rd x = of_nat k * step"
proof -
  obtain j :: nat where j: "rd x = of_nat j * step" using rd_grid [OF assms(1)] by blast
  have "of_nat j * step < of_nat (Suc k) * step" using rd_le [OF assms(1)] assms(3) j by simp
  then have "j < Suc k" using step_pos by (simp add: mult_less_cancel_right del: of_nat_Suc)
  moreover have "of_nat k * step < of_nat (Suc j) * step"
    using rd_gap [OF assms(1)] assms(2) j by (simp add: algebra_simps)
  then have "k < Suc j" using step_pos by (simp add: mult_less_cancel_right del: of_nat_Suc)
  ultimately show ?thesis using j by (metis less_Suc_eq_le le_antisym)
qed

lemma rd_grid_fixed: "rd (of_nat k * step) = of_nat k * step"
  using step_pos by (intro rd_unique) (auto simp: algebra_simps)

lemma rd_idem: "0 \<le> x \<Longrightarrow> rd (rd x) = rd x"
  using rd_grid [of x] rd_grid_fixed by metis

lemma rd_mono:
  assumes "0 \<le> x" and "x \<le> y" shows "rd x \<le> rd y"
proof -
  obtain j k :: nat where jk: "rd x = of_nat j * step" "rd y = of_nat k * step"
    using rd_grid [of x] rd_grid [of y] assms by (meson order_trans)
  have "of_nat j * step < of_nat (Suc k) * step"
    using rd_le [OF assms(1)] rd_gap [of y] assms jk by (simp add: algebra_simps)
  then have "j \<le> k" using step_pos by (simp add: mult_less_cancel_right del: of_nat_Suc)
  then show ?thesis using step_pos jk by (simp add: mult_right_mono)
qed

lemma rd_notional: "0 \<le> x \<Longrightarrow> 0 \<le> p \<Longrightarrow> x * p \<le> budget \<Longrightarrow> rd x * p \<le> budget"
  using rd_le [of x] by (meson mult_right_mono order_trans)

lemma rd_float_le:
  \<comment> \<open>rounding the decimal a float prints as, and converting back, never exceeds the float\<close>
  assumes "is_float (Fin x)" and "0 \<le> repr_rat x" shows "fin (rd (repr_rat x)) \<le> Fin x"
proof -
  have "rnd (repr_rat x) = x" "\<bar>x\<bar> < fbound" using assms(1) by (simp_all add: is_float_Fin repr_rat_round_trip)
  then have "fin (repr_rat x) = Fin x" by (simp add: fin_Fin_iff)
  then show ?thesis using fin_mono [OF rd_le [OF assms(2)]] by simp
qed

lemma rd_float_gap:
  assumes "is_float (Fin x)" and "0 \<le> repr_rat x" shows "Fin x \<le> fin (rd (repr_rat x) + step)"
proof -
  have "rnd (repr_rat x) = x" "\<bar>x\<bar> < fbound" using assms(1) by (simp_all add: is_float_Fin repr_rat_round_trip)
  then have "fin (repr_rat x) = Fin x" by (simp add: fin_Fin_iff)
  then show ?thesis using fin_mono [OF less_imp_le [OF rd_gap [OF assms(2)]]] by simp
qed

end

definition step_down :: "rat \<Rightarrow> rat \<Rightarrow> rat" where
  "step_down s x = of_int \<lfloor>x / s\<rfloor> * s"

lemma step_down_rounding: "0 < s \<Longrightarrow> rounding_down s (step_down s)"
proof
  assume s: "0 < s"
  fix x :: rat assume x: "0 \<le> x"
  have f: "of_int \<lfloor>x / s\<rfloor> \<le> x / s" "x / s < of_int \<lfloor>x / s\<rfloor> + 1" by linarith+
  have "0 \<le> \<lfloor>x / s\<rfloor>" using x s by simp
  then have "step_down s x = of_nat (nat \<lfloor>x / s\<rfloor>) * s" by (simp add: step_down_def)
  then show "\<exists>k :: nat. step_down s x = of_nat k * s" by blast
  show "step_down s x \<le> x" using mult_right_mono [OF f(1), of s] s by (simp add: step_down_def)
  show "x < step_down s x + s" using mult_strict_right_mono [OF f(2) s] s by (simp add: step_down_def algebra_simps)
qed

section \<open>IBKR share quantities\<close>

definition normalize_ibkr_shares :: "pyval \<Rightarrow> pyfloat res" where
  "normalize_ibkr_shares v =
     (case py_decimal v of
        Inl _ \<Rightarrow> Inr 0
      | Inr (Dec x) \<Rightarrow>
          if x \<le> 0 then Inr 0
          else bindE (quantize_down x 4) (\<lambda>n. Inr (if n < 1 / 10000 then 0 else fin n))
      | Inr _ \<Rightarrow> Inr 0)"

definition ibkr_quantity_tolerance :: pyfloat where
  "ibkr_quantity_tolerance = fl (1 / 10000000)"

definition quantities_match :: "pyfloat \<Rightarrow> pyfloat \<Rightarrow> bool" where
  "quantities_match a b = (isfinite a \<and> isfinite b \<and> fabs (a - b) \<le> ibkr_quantity_tolerance)"

definition ibkr_quantities_match :: "pyval \<Rightarrow> pyval \<Rightarrow> bool res" where
  "ibkr_quantities_match left right =
     tryE (bindE (py_float left) (\<lambda>a. bindE (py_float right) (\<lambda>b. Inr (quantities_match a b))))
       is_type_or_value (\<lambda>_. Inr False)"

definition ibkr_quantity_is_fractional :: "pyval \<Rightarrow> bool res" where
  "ibkr_quantity_is_fractional v =
     bindE (tryE (bindE (py_float v) (\<lambda>q. Inr (Some q))) is_type_or_value (\<lambda>_. Inr None)) (\<lambda>o'.
       case o' of None \<Rightarrow> Inr False
       | Some q \<Rightarrow>
           if isfinite q \<and> 0 < q
           then bindE (fround_int q) (\<lambda>n. bindE (of_int_float n) (\<lambda>r.
                  Inr (\<not> fisclose q r (fl (1 / 1000000000)) ibkr_quantity_tolerance)))
           else Inr False)"

fun first_fractional_error :: "pyval list \<Rightarrow> bool res" where
  \<comment> \<open>the loop over the broker's errors: whether one has the code 10243\<close>
  "first_fractional_error [] = Inr False"
| "first_fractional_error (e # es) =
     (case bindE (vget e ''code'') py_int of
        Inl err \<Rightarrow> if err = AttributeError \<or> is_type_or_value err then first_fractional_error es else Inl err
      | Inr code \<Rightarrow> if code = 10243 then Inr True else first_fractional_error es)"

definition ibkr_preflight_rejection_reason :: "pydict \<Rightarrow> string res" where
  "ibkr_preflight_rejection_reason result =
     bindE (as_list (py_or (dget result ''errors'') (PList []))) (\<lambda>errors.
     bindE (first_fractional_error errors) (\<lambda>b.
       Inr (if b then ''IBKR_FRACTIONAL_API_UNSUPPORTED'' else ''BROKER_PREFLIGHT_REJECTED'')))"

definition quantity_mode :: "bool \<Rightarrow> string" where
  "quantity_mode fractional_enabled = (if fractional_enabled then ''FRACTIONAL_SHARES'' else ''WHOLE_SHARES'')"

definition share_step :: "bool \<Rightarrow> pyfloat" where
  "share_step fractional_enabled = (if fractional_enabled then fl (1 / 10000) else 1)"

definition ibkr_fractional_policy_payload :: "bool \<Rightarrow> pydict" where
  "ibkr_fractional_policy_payload fractional_enabled =
     [(''quantity_mode'', PStr (quantity_mode fractional_enabled)),
      (''minimum_shares'', PFloat (share_step fractional_enabled)),
      (''share_step'', PFloat (share_step fractional_enabled)),
      (''rounding'', PStr ''DOWN_TO_PRESERVE_RISK_LIMIT''),
      (''capability_check'', PStr ''BROKER_NATIVE_WHAT_IF_EACH_ORDER''),
      (''runtime_flag'', PStr ''IBKR_FRACTIONAL_API_ENABLED'')]"

definition sized_shares :: "pyval \<Rightarrow> bool \<Rightarrow> pyfloat res" where
  \<comment> \<open>the quantity of \<open>size_ibkr_entry\<close>; \<open>to_integral_value\<close> has no precision limit\<close>
  "sized_shares v fractional_enabled =
     bindE (normalize_ibkr_shares v) (\<lambda>q.
       Inr (if fractional_enabled then q
            else case dec_of_float q of Dec x \<Rightarrow> fin (of_int (trunc_rat x)) | d \<Rightarrow> float_of_dec d))"

definition size_ibkr_entry :: "pyval \<Rightarrow> bool \<Rightarrow> pydict res" where
  "size_ibkr_entry v fractional_enabled =
     bindE (sized_shares v fractional_enabled) (\<lambda>q.
       Inr [(''shares'', PFloat q), (''quantity'', PFloat q),
            (''quantity_mode'', PStr (quantity_mode fractional_enabled)),
            (''share_step'', PFloat (share_step fractional_enabled)),
            (''sizing_policy'', PStr (''RISK_SIZED_'' @ quantity_mode fractional_enabled))])"

definition fill_amounts_complete :: "pyfloat \<Rightarrow> pyfloat \<Rightarrow> pyfloat \<Rightarrow> bool" where
  "fill_amounts_complete expected filled remaining =
     (isfinite expected \<and> 0 < expected \<and> isfinite filled \<and> 0 < filled \<and> isfinite remaining \<and> 0 \<le> remaining
      \<and> quantities_match filled expected \<and> quantities_match remaining 0)"

definition ibkr_fill_is_complete :: "pyval \<Rightarrow> pyval \<Rightarrow> bool res" where
  "ibkr_fill_is_complete status expected_quantity =
     tryE (bindE (py_float expected_quantity) (\<lambda>expected.
           bindE (bindE (vget status ''filled'') py_float) (\<lambda>filled.
           bindE (bindE (vget status ''remaining'') py_float) (\<lambda>remaining.
             Inr (fill_amounts_complete expected filled remaining)))))
       is_type_or_value (\<lambda>_. Inr False)"

section \<open>Capital and volatility basis of the sizing\<close>

definition SIMULATION_ENVIRONMENTS :: "string list" where
  "SIMULATION_ENVIRONMENTS = [''PAPER'', ''DEMO'', ''TESTNET'']"

definition capital_sizing_inputs :: "pyval \<Rightarrow> pyval \<Rightarrow> pyval \<Rightarrow> pyval \<Rightarrow> (pyfloat \<times> pyfloat \<times> string) res" where
  "capital_sizing_inputs broker_equity broker_available environment simulation_override =
     bindE (float_or0 broker_equity) (\<lambda>be. let equity = pymax 0 be in
     bindE (float_or0 broker_available) (\<lambda>ba. let available = pymax 0 (pymin ba equity) in
     bindE (float_or0 simulation_override) (\<lambda>override.
       if upper_or_empty environment \<in> set SIMULATION_ENVIRONMENTS \<and> 0 < override
       then (let equity' = pymin equity override
             in Inr (equity', pymin available equity', ''SIMULATION_OVERRIDE''))
       else Inr (equity, available, ''BROKER_EQUITY''))))"

definition fallback_basis :: pydict where
  "fallback_basis = [(''basis'', PStr ''PRICE_PERCENT_FALLBACK''), (''atr_period'', PNone), (''atr_value'', PNone),
     (''minimum_distance_pct'', PFloat (fl (1 / 2)))]"

definition sane_bar :: "pyfloat \<times> pyfloat \<times> pyfloat \<Rightarrow> bool" where
  \<comment> \<open>high, low, close\<close>
  "sane_bar b = (let (h, l, c) = b in \<not> h < l \<and> l \<le> c \<and> c \<le> h)"

definition window_atr :: "pydict list \<Rightarrow> pyfloat res" where
  \<comment> \<open>the body of the \<open>try\<close> on the last 15 bars\<close>
  "window_atr window =
     bindE (column ''high'' window) (\<lambda>highs. bindE (column ''low'' window) (\<lambda>lows.
     bindE (column ''close'' window) (\<lambda>closes.
       guardE (\<not> list_all (\<lambda>x. isfinite x \<and> 0 < x) (highs @ lows @ closes)) (ValueError [])
      (guardE (\<not> list_all sane_bar (zip highs (zip lows closes))) (ValueError [])
      (bindE (atr highs lows closes 14) (\<lambda>v. case v of
           None \<Rightarrow> Inl (ValueError [])
         | Some x \<Rightarrow> guardE (\<not> isfinite x \<or> x \<le> 0) (ValueError []) (Inr x)))))))"

definition sizing_atr :: "app_settings \<Rightarrow> string \<Rightarrow> pydict list \<Rightarrow> (pyfloat option \<times> pydict) res" where
  "sizing_atr settings environment candles =
     (if \<not> ibkr_paper_atr_sizing_enabled settings then Inr (None, fallback_basis)
      else guardE (environment \<noteq> ''PAPER'' \<or> allow_live_trading settings) (ValueError ''IBKR_ATR_SIZING_PAPER_ONLY'')
          (guardE (length candles < 15) (ValueError ''IBKR_SIZING_ATR_HISTORY_INSUFFICIENT'')
          (let window = last_n 15 candles
           in bindE (tryE (window_atr window) (\<lambda>e. e = KeyError \<or> is_type_or_value e)
                       (\<lambda>_. Inl (ValueError ''IBKR_SIZING_ATR_UNAVAILABLE''))) (\<lambda>v.
                Inr (Some v, [(''basis'', PStr ''COMPLETED_CANDLE_ATR''), (''atr_period'', PInt 14),
                     (''atr_method'', PStr ''SMA_TRUE_RANGE''), (''atr_value'', PFloat v),
                     (''reference_bar_end_ms'', dget (last window) ''bar_end_ms''),
                     (''minimum_distance_pct'', PFloat (fl (1 / 2)))])))))"

section \<open>Bybit lot rounding\<close>

fun dec_le0 :: "decimal \<Rightarrow> bool res" where
  \<comment> \<open>\<open>d <= 0\<close>; an ordering with a NaN signals\<close>
  "dec_le0 (Dec x) = Inr (x \<le> 0)"
| "dec_le0 (DInf neg) = Inr neg"
| "dec_le0 DNaN = Inl InvalidOperation"

definition parse_lot :: "pyval \<Rightarrow> decimal res" where
  \<comment> \<open>\<open>Decimal(str(v or '0'))\<close>\<close>
  "parse_lot v = py_decimal (if truth v then v else PStr ''0'')"

definition lot_quantity :: "rat \<Rightarrow> rat \<Rightarrow> rat" where
  \<comment> \<open>\<open>(requested / step).to_integral_value(ROUND_DOWN) * step\<close> on finite decimals, in the default context\<close>
  "lot_quantity requested step = dec_round (of_int (trunc_rat (dec_round (requested / step))) * step)"

definition below_minimum :: "rat \<Rightarrow> decimal \<Rightarrow> bool res" where
  "below_minimum q minimum =
     (if q \<le> 0 then Inr True
      else case minimum of Dec m \<Rightarrow> Inr (q < m) | DInf neg \<Rightarrow> Inr (\<not> neg) | DNaN \<Rightarrow> Inl InvalidOperation)"

definition infinite_lot :: "decimal \<Rightarrow> decimal res" where
  \<comment> \<open>an infinite request over a finite step is infinite, and so is its rounding; only NaN minima fail\<close>
  "infinite_lot minimum = (case minimum of DNaN \<Rightarrow> Inl InvalidOperation | _ \<Rightarrow> Inr (DInf False))"

definition normalize_spot_qty :: "pyval \<Rightarrow> pyval \<Rightarrow> pyval \<Rightarrow> decimal res" where
  \<comment> \<open>the result is the number the returned numeral denotes\<close>
  "normalize_spot_qty qty qty_step min_qty =
     bindE (tryE (bindE (py_decimal qty) (\<lambda>r. bindE (parse_lot qty_step) (\<lambda>s. bindE (parse_lot min_qty) (\<lambda>m. Inr (r, s, m)))))
              (\<lambda>e. e = InvalidOperation \<or> is_value_error e) (\<lambda>_. Inl (BybitPrivateError ''INVALID_SPOT_LOT_SIZE_METADATA'')))
       (\<lambda>(requested, step, minimum).
     bindE (dec_le0 requested) (\<lambda>b. guardE b (BybitPrivateError ''INVALID_SPOT_QUANTITY'')
    (bindE (dec_le0 step) (\<lambda>b'. guardE b' (BybitPrivateError ''INVALID_SPOT_QUANTITY'')
    (case (requested, step) of
       (Dec r, Dec s) \<Rightarrow>
         (let q = lot_quantity r s
          in bindE (below_minimum q minimum) (\<lambda>low.
               guardE low (BybitPrivateError ''SPOT_QUANTITY_BELOW_MINIMUM'') (Inr (Dec q))))
     | (DInf _, Dec s) \<Rightarrow> infinite_lot minimum
     | (Dec r, DInf _) \<Rightarrow> Inl InvalidOperation
     | _ \<Rightarrow> Inl InvalidOperation)))))"

section \<open>Facts\<close>

lemma rnd_pos_imp: "0 < rnd r \<Longrightarrow> 0 < r"
  using rnd_mono [of r 0] by (auto simp: not_less [symmetric])

lemma repr_rat_pos: "is_float (Fin x) \<Longrightarrow> 0 < x \<Longrightarrow> 0 < repr_rat x"
  using repr_rat_round_trip [of x] rnd_pos_imp by (simp add: is_float_Fin)

lemma repr_rat_nonneg: "is_float (Fin x) \<Longrightarrow> 0 \<le> x \<Longrightarrow> 0 \<le> repr_rat x"
  using repr_rat_pos [of x] by (cases "x = 0") (auto simp: repr_rat_def)

lemma quantize_down_step:
  assumes "quantize_down x n = Inr y" and "0 \<le> x" shows "y = step_down (1 / 10 ^ n) x"
  using assms by (auto simp: quantize_down_def step_down_def trunc_rat_def Let_def split: if_splits)

interpretation shares: rounding_down "1 / 10000" "step_down (1 / 10000)"
  by (rule step_down_rounding) simp

interpretation units: rounding_down 1 "step_down 1"
  by (rule step_down_rounding) simp

lemma normalize_ibkr_shares_Dec:
  assumes "py_decimal v = Inr (Dec x)" and "normalize_ibkr_shares v = Inr q"
  shows "q = (if x \<le> 0 then 0 else fin (step_down (1 / 10000) x))"
proof (cases "x \<le> 0")
  case True
  with assms show ?thesis by (simp add: normalize_ibkr_shares_def)
next
  case False
  with assms obtain n where n: "quantize_down x 4 = Inr n" and q: "q = (if n < 1 / 10000 then 0 else fin n)"
    by (auto simp: normalize_ibkr_shares_def bindE_Inr_iff)
  have ns: "n = step_down (1 / 10000) x" using quantize_down_step [OF n] False by simp
  obtain k :: nat where k: "step_down (1 / 10000) x = of_nat k * (1 / 10000)"
    using shares.rd_grid [of x] False by auto
  show ?thesis
  proof (cases "n < 1 / 10000")
    case True
    then have "(of_nat k :: rat) < 1" by (simp add: ns k)
    then have "k = 0" by (simp add: of_nat_less_1_iff)
    then show ?thesis using True False q k ns by (simp add: zero_Fin)
  qed (use False q ns in simp)
qed

lemma normalize_ibkr_shares_rounds_down_core:
  assumes "is_float (Fin x)" and "0 < x" and "normalize_ibkr_shares (PFloat (Fin x)) = Inr q"
  shows "\<exists>k :: nat. q = fin (of_nat k / 10000) \<and> q \<le> Fin x \<and> Fin x \<le> fin (of_nat (Suc k) / 10000)"
proof -
  have pos: "0 < repr_rat x" by (rule repr_rat_pos [OF assms(1,2)])
  then have q: "q = fin (step_down (1 / 10000) (repr_rat x))"
    using normalize_ibkr_shares_Dec [OF _ assms(3)] by (simp add: py_decimal_def dec_of_float_def)
  obtain k :: nat where k: "step_down (1 / 10000) (repr_rat x) = of_nat k * (1 / 10000)"
    using shares.rd_grid [of "repr_rat x"] pos by auto
  from shares.rd_float_le [OF assms(1)] shares.rd_float_gap [OF assms(1)] pos q k
  show ?thesis by (intro exI [of _ k]) (simp add: add_divide_distrib algebra_simps)
qed

text \<open>
  \<open>normalize_ibkr_shares\<close> never increases a risk-sized quantity and loses less than one step:
  for a positive float \<open>x\<close> the result is the float of a multiple \<open>k\<close> of 0.0001 shares, is at most
  \<open>x\<close>, and \<open>x\<close> is at most the float of the next multiple.
\<close>

theorem normalize_ibkr_shares_rounds_down:
  assumes "is_float (Fin x)" and "0 < x" and "normalize_ibkr_shares (PFloat (Fin x)) = Inr q"
  shows "\<exists>k :: nat. q = fin (of_nat k / 10000) \<and> q \<le> Fin x \<and> Fin x \<le> fin (of_nat (Suc k) / 10000)"
  using assms by (rule normalize_ibkr_shares_rounds_down_core)

lemma ilog10_example: "round_trip 7 1 = Some 7"
  by code_simp

lemma repr_rat_7: "repr_rat 7 = 7"
  using ilog10_example by (simp add: repr_rat_def eval_nat_numeral)

theorem normalize_ibkr_shares_rounds_down_witness:
  "\<exists>k :: nat. Fin 7 = fin (of_nat k / 10000) \<and> Fin 7 \<le> Fin 7 \<and> Fin 7 \<le> fin (of_nat (Suc k) / 10000)"
proof (rule normalize_ibkr_shares_rounds_down)
  have "quantize_down 7 4 = Inr 7" by code_simp
  then show "normalize_ibkr_shares (PFloat (Fin 7)) = Inr (Fin 7)"
    by (simp add: normalize_ibkr_shares_def py_decimal_def dec_of_float_def repr_rat_7)
qed simp_all

lemma normalize_nonneg: "normalize_ibkr_shares v = Inr q \<Longrightarrow> 0 \<le> q \<and> isfinite q"
proof -
  assume n: "normalize_ibkr_shares v = Inr q"
  show ?thesis
  proof (cases "\<exists>x. py_decimal v = Inr (Dec x) \<and> 0 < x")
    case False
    with n show ?thesis by (auto simp: normalize_ibkr_shares_def zero_Fin split: sum.splits decimal.splits if_splits)
  next
    case True
    then obtain x where x: "py_decimal v = Inr (Dec x)" "0 < x" by blast
    with n obtain y where y: "quantize_down x 4 = Inr y" "q = (if y < 1 / 10000 then 0 else fin y)"
      by (auto simp: normalize_ibkr_shares_def bindE_Inr_iff)
    have "0 \<le> y" using quantize_down_le(1) [OF y(1)] x by simp
    have "\<bar>trunc_rat (x * 10 ^ 4)\<bar> < 10 ^ 28" "y = of_int (trunc_rat (x * 10 ^ 4)) / 10 ^ 4"
      using y(1) by (auto simp: quantize_down_def Let_def split: if_splits)
    then have "y * 10 ^ 4 < of_int (10 ^ 28)" by (simp only: of_int_less_iff) simp
    then have "y \<le> 2 ^ 80" by simp
    then have yb: "y \<le> 2 powi 80" by simp
    have "rnd y \<le> 2 powi 80" by (rule rnd_le_rep [OF yb representable_powi2]) (simp add: emin_def)
    also have "\<dots> < fbound" unfolding fbound_def by (rule powi2_less) simp
    finally have "rnd y < fbound" .
    moreover have "0 \<le> rnd y" using \<open>0 \<le> y\<close> by (rule rnd_nonneg)
    moreover have "- fbound < 0" by simp
    ultimately have "fin y = Fin (rnd y)" by (simp add: fin_Fin_iff abs_of_nonneg)
    with y(2) \<open>0 \<le> rnd y\<close> show ?thesis by (simp add: zero_Fin)
  qed
qed

lemma normalize_le:
  assumes "is_float (Fin x)" "0 < x" "normalize_ibkr_shares (PFloat (Fin x)) = Inr q"
  shows "q \<le> Fin x" and "0 \<le> q" and "is_float q"
  using normalize_ibkr_shares_rounds_down_core [OF assms] normalize_nonneg [OF assms(3)] by auto

text \<open>
  The sized entry (\<open>size_ibkr_entry\<close>) of a positive float is non-negative and never above the
  risk-sized quantity, in fractional and in whole-share mode; in whole-share mode it is the float
  of an integer.
\<close>

theorem sized_shares_bounded:
  assumes "is_float (Fin x)" and "0 < x" and "sized_shares (PFloat (Fin x)) fractional_enabled = Inr q"
  shows "0 \<le> q \<and> q \<le> Fin x \<and> (\<not> fractional_enabled \<longrightarrow> (\<exists>k :: nat. q = fin (of_nat k)))"
proof -
  from assms(3) obtain n where n: "normalize_ibkr_shares (PFloat (Fin x)) = Inr n"
    and q: "q = (if fractional_enabled then n
                 else case dec_of_float n of Dec y \<Rightarrow> fin (of_int (trunc_rat y)) | d \<Rightarrow> float_of_dec d)"
    by (auto simp: sized_shares_def)
  note nb = normalize_le [OF assms(1,2) n]
  show ?thesis
  proof (cases fractional_enabled)
    case True
    with q nb show ?thesis by simp
  next
    case False
    from normalize_nonneg [OF n] obtain y where y: "n = Fin y" "0 \<le> y" by (auto simp: isfinite_iff zero_Fin)
    have fy: "is_float (Fin y)" using nb(3) y by simp
    have ry: "0 \<le> repr_rat y" by (rule repr_rat_nonneg [OF fy y(2)])
    then have "q = fin (step_down 1 (repr_rat y))"
      using False q y by (simp add: dec_of_float_def step_down_def trunc_rat_def)
    moreover obtain k :: nat where "step_down 1 (repr_rat y) = of_nat k" using units.rd_grid [OF ry] by auto
    ultimately have k: "q = fin (of_nat k)" and "q \<le> Fin y" using units.rd_float_le [OF fy ry] by auto
    moreover have "0 \<le> q" unfolding k by (rule fin_nonneg) simp
    ultimately show ?thesis using nb(1) y by (blast intro: float_le_trans)
  qed
qed

theorem sized_shares_bounded_witness:
  "sized_shares (PFloat (Fin 7)) False = Inr (Fin 7) \<and> (\<exists>k :: nat. Fin 7 = fin (of_nat k))"
proof -
  have "quantize_down 7 4 = Inr 7" "trunc_rat 7 = 7" by code_simp+
  then have s: "sized_shares (PFloat (Fin 7)) False = Inr (Fin 7)"
    by (simp add: sized_shares_def normalize_ibkr_shares_def py_decimal_def dec_of_float_def repr_rat_7)
  from sized_shares_bounded [OF _ _ s] s show ?thesis by simp
qed

lemma tolerance_bound: "\<exists>t. ibkr_quantity_tolerance = Fin t \<and> t < 2 powi - 23"
proof -
  have rep: "representable (27 * 2 powi - 28)"
    unfolding representable_def by (intro exI [of _ 27] exI [of _ "- 28"]) (simp add: emin_def)
  have le: "(1 / 10000000 :: rat) \<le> 27 * 2 powi - 28" by (simp add: power_int_minus)
  have "rnd (1 / 10000000) \<le> 27 * 2 powi - 28" by (rule rnd_le_rep [OF le rep])
  also have "\<dots> < 2 powi - 23" by (simp add: power_int_minus)
  finally have t: "rnd (1 / 10000000) < 2 powi - 23" .
  have "0 \<le> rnd (1 / 10000000)" by (rule rnd_nonneg) simp
  moreover have "(2 powi - 23 :: rat) < fbound" unfolding fbound_def by (rule powi2_less) simp
  ultimately have "fl (1 / 10000000) = Fin (rnd (1 / 10000000))" using t by (simp add: fl_def fin_Fin_iff)
  with t show ?thesis by (simp add: ibkr_quantity_tolerance_def)
qed

lemma quantities_match_close:
  assumes "quantities_match a b"
  shows "\<exists>x y. a = Fin x \<and> b = Fin y \<and> \<bar>x - y\<bar> < 2 powi - 23"
proof -
  obtain t where t: "ibkr_quantity_tolerance = Fin t" "t < 2 powi - 23" using tolerance_bound by blast
  from assms obtain x y where xy: "a = Fin x" "b = Fin y" and d: "fabs (fin (x - y)) \<le> Fin t"
    by (auto simp: quantities_match_def isfinite_iff t)
  have "\<bar>x - y\<bar> < 2 powi - 23"
  proof (rule ccontr)
    assume "\<not> ?thesis"
    then have ge: "2 powi - 23 \<le> \<bar>x - y\<bar>" by simp
    have rep: "representable (2 powi - 23)" by (rule representable_powi2) (simp add: emin_def)
    have "2 powi - 23 \<le> rnd \<bar>x - y\<bar>" by (rule rnd_ge_rep [OF ge rep])
    moreover have "rnd \<bar>x - y\<bar> = \<bar>rnd (x - y)\<bar>"
      using rnd_nonneg [of "x - y"] rnd_nonneg [of "- (x - y)"] rnd_minus [of "x - y"] by (cases "0 \<le> x - y") auto
    moreover have "fin (x - y) = Fin (rnd (x - y))" using d by (auto simp: fin_def Let_def split: if_splits)
    ultimately show False using d t(2) by simp
  qed
  with xy show ?thesis by blast
qed

text \<open>
  A fill counts as complete only on positive finite evidence: expected and filled shares agree
  to less than 2 to the power of -23 (about 1.2e-7) and less than that remains open.
\<close>

theorem fill_complete_sound:
  assumes "ibkr_fill_is_complete status expected = Inr True"
  shows "\<exists>e f r. py_float expected = Inr (Fin e) \<and> bindE (vget status ''filled'') py_float = Inr (Fin f)
           \<and> bindE (vget status ''remaining'') py_float = Inr (Fin r) \<and> 0 < e \<and> 0 < f \<and> 0 \<le> r
           \<and> \<bar>f - e\<bar> < 2 powi - 23 \<and> r < 2 powi - 23"
proof -
  from assms obtain a b c where abc: "py_float expected = Inr a" "bindE (vget status ''filled'') py_float = Inr b"
      "bindE (vget status ''remaining'') py_float = Inr c" and ok: "fill_amounts_complete a b c"
    by (auto simp: ibkr_fill_is_complete_def tryE_def split: sum.splits if_splits)
  from ok have m: "quantities_match b a" "quantities_match c 0" and p: "0 < a" "0 < b" "0 \<le> c"
    by (auto simp: fill_amounts_complete_def)
  from quantities_match_close [OF m(1)] quantities_match_close [OF m(2)] p abc show ?thesis
    by (auto simp: zero_Fin abs_if split: if_splits)
qed

theorem fill_complete_sound_witness:
  "\<exists>e f r. py_float (PFloat (Fin 7)) = Inr (Fin e)
     \<and> bindE (vget (PDict [(''filled'', PFloat (Fin 7)), (''remaining'', PFloat (Fin 0))]) ''filled'') py_float = Inr (Fin f)
     \<and> bindE (vget (PDict [(''filled'', PFloat (Fin 7)), (''remaining'', PFloat (Fin 0))]) ''remaining'') py_float = Inr (Fin r)
     \<and> 0 < e \<and> 0 < f \<and> 0 \<le> r \<and> \<bar>f - e\<bar> < 2 powi - 23 \<and> r < 2 powi - 23"
proof (rule fill_complete_sound)
  have "quantities_match (Fin 7) (Fin 7)" "quantities_match (Fin 0) 0"
    by (simp_all add: quantities_match_def ibkr_quantity_tolerance_def zero_Fin fl_def fin_ge_float)
  then show "ibkr_fill_is_complete (PDict [(''filled'', PFloat (Fin 7)), (''remaining'', PFloat (Fin 0))]) (PFloat (Fin 7)) = Inr True"
    by (simp add: ibkr_fill_is_complete_def fill_amounts_complete_def zero_Fin)
qed

lemma pymin_lower: "x \<noteq> NaN \<Longrightarrow> y \<noteq> NaN \<Longrightarrow> z \<le> x \<Longrightarrow> z \<le> y \<Longrightarrow> z \<le> pymin x y"
  using pymin_cases [of x y] by auto

text \<open>
  The capital basis of the sizing is bounded: \<open>0 \<le> available \<le> equity\<close>, and the equity is at
  most the broker's equity (0 when that is negative or NaN); an override lowers it in a simulation
  environment and is ignored outside one.
\<close>

theorem capital_sizing_bounds:
  assumes "capital_sizing_inputs broker_equity broker_available environment override = Inr (equity, available, basis)"
  shows "\<exists>be. float_or0 broker_equity = Inr be \<and> 0 \<le> available \<and> available \<le> equity \<and> equity \<le> pymax 0 be
    \<and> (basis = ''SIMULATION_OVERRIDE'' \<longrightarrow> (\<exists>ov. float_or0 override = Inr ov \<and> equity \<le> ov \<and> upper_or_empty environment \<in> set SIMULATION_ENVIRONMENTS))
    \<and> (upper_or_empty environment \<notin> set SIMULATION_ENVIRONMENTS \<longrightarrow> basis = ''BROKER_EQUITY'' \<and> equity = pymax 0 be)"
proof -
  from assms obtain be ba ov where r: "float_or0 broker_equity = Inr be" "float_or0 broker_available = Inr ba"
      "float_or0 override = Inr ov"
    and eq: "(equity, available, basis) =
       (if upper_or_empty environment \<in> set SIMULATION_ENVIRONMENTS \<and> 0 < ov
        then (let e = pymin (pymax 0 be) ov in (e, pymin (pymax 0 (pymin ba (pymax 0 be))) e, ''SIMULATION_OVERRIDE''))
        else (pymax 0 be, pymax 0 (pymin ba (pymax 0 be)), ''BROKER_EQUITY''))"
    by (auto simp: capital_sizing_inputs_def Let_def bindE_Inr_iff split: if_splits)
  let ?E = "pymax 0 be" and ?A = "pymax 0 (pymin ba (pymax 0 be))"
  have nn: "?E \<noteq> NaN" "?A \<noteq> NaN" "0 \<le> ?E" "0 \<le> ?A"
    using pymax_zero_nonneg [of be] pymax_zero_nonneg [of "pymin ba (pymax 0 be)"] by auto
  have AE: "?A \<le> ?E"
  proof (cases "0 < pymin ba ?E")
    case True
    then have "ba \<noteq> NaN" using nn(1) by (auto simp: pymin_def)
    then have "pymin ba ?E \<le> ?E" using nn(1) pymin_le by blast
    with True show ?thesis by (simp add: pymax_def)
  next
    case False
    then show ?thesis using nn(3) by (auto simp: pymax_def)
  qed
  show ?thesis
  proof (cases "upper_or_empty environment \<in> set SIMULATION_ENVIRONMENTS \<and> 0 < ov")
    case True
    then have ov: "ov \<noteq> NaN" "0 \<le> ov" by (auto dest: float_less_le)
    let ?e = "pymin ?E ov"
    have e: "?e \<le> ?E" "?e \<le> ov" "?e \<noteq> NaN" "0 \<le> ?e"
      using pymin_le [OF nn(1) ov(1)] pymin_cases [of ?E ov] nn ov by (auto intro: pymin_lower)
    moreover have "pymin ?A ?e \<le> ?e" "0 \<le> pymin ?A ?e"
      using pymin_le [OF nn(2) e(3)] pymin_lower [OF nn(2) e(3) nn(4) e(4)] by auto
    ultimately show ?thesis using eq True r by (auto simp: Let_def)
  next
    case False
    then show ?thesis using eq r nn AE by (auto intro: float_le_refl)
  qed
qed

theorem capital_sizing_bounds_witness:
  "\<exists>be. float_or0 (PInt 9000) = Inr be \<and> 0 \<le> Fin 4000 \<and> Fin 4000 \<le> Fin 5000 \<and> Fin 5000 \<le> pymax 0 be
    \<and> (\<exists>ov. float_or0 (PInt 5000) = Inr ov \<and> Fin 5000 \<le> ov \<and> upper_or_empty (PStr ''paper'') \<in> set SIMULATION_ENVIRONMENTS)"
proof -
  have "upper_or_empty (PStr ''paper'') = ''PAPER''" by code_simp
  then have c: "capital_sizing_inputs (PInt 9000) (PInt 4000) (PStr ''paper'') (PInt 5000)
               = Inr (Fin 5000, Fin 4000, ''SIMULATION_OVERRIDE'')"
    by (simp add: capital_sizing_inputs_def float_or0_def of_int_float_def SIMULATION_ENVIRONMENTS_def
          pymax_def pymin_def zero_Fin)
  from capital_sizing_bounds [OF c] show ?thesis by blast
qed

text \<open>
  With the ATR sizing switched on, a returned volatility is positive and finite, and it is
  only computed for the PAPER environment with live trading off and 15 bars of history; switched
  off, the fallback basis is returned and no bar is read.
\<close>

theorem sizing_atr_paper_only:
  assumes "sizing_atr settings environment candles = Inr (v, evidence)"
  shows "if ibkr_paper_atr_sizing_enabled settings
         then (\<exists>x. v = Some (Fin x) \<and> 0 < x) \<and> environment = ''PAPER'' \<and> \<not> allow_live_trading settings \<and> 15 \<le> length candles
         else v = None \<and> evidence = fallback_basis"
proof (cases "ibkr_paper_atr_sizing_enabled settings")
  case False
  with assms show ?thesis by (simp add: sizing_atr_def)
next
  case True
  let ?w = "window_atr (last_n 15 candles)"
  from assms True obtain x where g: "environment = ''PAPER''" "\<not> allow_live_trading settings" "15 \<le> length candles"
    and x: "tryE ?w (\<lambda>e. e = KeyError \<or> is_type_or_value e) (\<lambda>_. Inl (ValueError ''IBKR_SIZING_ATR_UNAVAILABLE'')) = Inr x"
    and v: "v = Some x"
    by (auto simp: sizing_atr_def guardE_Inr_iff Let_def bindE_Inr_iff)
  from x have "?w = Inr x" by (cases ?w) (simp_all split: if_splits)
  then have "isfinite x \<and> \<not> x \<le> 0"
    by (auto simp: window_atr_def guardE_Inr_iff bindE_Inr_iff simp del: Fin_order split: option.splits)
  then show ?thesis using True g v by (cases x) (auto simp: zero_Fin)
qed

definition example_settings :: app_settings where
  \<comment> \<open>the settings of the witnesses: a Paper deployment with native protection\<close>
  "example_settings = \<lparr>ibkr_paper_delayed_data_enabled = True, allow_live_trading = False,
     ibkr_paper_atr_sizing_enabled = True, ibkr_fractional_api_enabled = False, ibkr_native_protection_enabled = True,
     ibkr_execution_timezone = ''Etc/UTC'', ibkr_position_monitor_interval_seconds = 30\<rparr>"

lemma example_window_atr: "window_atr (map example_candle [1..15]) = Inr (Fin 3)"
proof -
  let ?w = "map example_candle [1..15]"
  have len: "length [1..15 :: int] = 15" by simp
  have cols: "column ''high'' ?w = Inr (replicate 15 (Fin 102))" "column ''low'' ?w = Inr (replicate 15 (Fin 99))"
      "column ''close'' ?w = Inr (replicate 15 (Fin 101))"
    using column_const [of example_candle _ _ "[1..15]"] by (auto simp: example_candle_def dsub_def len)
  have tr: "true_range (Fin 102) (Fin 99) (Fin 101) = Fin 3" by (simp add: true_range_def pymax_def)
  have "atr (replicate 15 (Fin 102)) (replicate 15 (Fin 99)) (replicate 15 (Fin 101)) 14 = Inr (Some (Fin 3))"
    using true_ranges_const [OF tr, of 14]
    by (simp add: atr_def last_n_all pymean_def sum_list_replicate list_all_iff)
  then show ?thesis
    by (simp add: window_atr_def cols list_all_iff sane_bar_def zip_replicate zero_Fin)
qed

theorem sizing_atr_paper_only_witness:
  "\<exists>evidence. (if ibkr_paper_atr_sizing_enabled example_settings
     then (\<exists>x. Some (Fin 3) = Some (Fin x) \<and> 0 < x) \<and> ''PAPER'' = ''PAPER'' \<and> \<not> allow_live_trading example_settings
          \<and> 15 \<le> length (map example_candle [1..15])
     else Some (Fin 3) = None \<and> evidence = fallback_basis)"
proof -
  have len: "length (map example_candle [1..15]) = 15" by code_simp
  have "\<exists>e. sizing_atr example_settings ''PAPER'' (map example_candle [1..15]) = Inr (Some (Fin 3), e)"
    using len example_window_atr by (simp add: sizing_atr_def example_settings_def last_n_all)
  then show ?thesis using sizing_atr_paper_only by blast
qed

section \<open>The lot rounding is exact\<close>

lemma ndigits_bounds:
  "0 < n \<Longrightarrow> 1 \<le> ndigits n \<and> 10 powi (ndigits n - 1) \<le> (of_int n :: rat) \<and> (of_int n :: rat) < 10 powi ndigits n"
proof (induction n rule: ndigits.induct)
  case (1 n)
  show ?case
  proof (cases "n < 10")
    case True
    with 1 show ?thesis by (simp add: ndigits.simps [of n])
  next
    case False
    let ?m = "n div 10"
    have IH: "1 \<le> ndigits ?m" "10 powi (ndigits ?m - 1) \<le> (of_int ?m :: rat)" "(of_int ?m :: rat) < 10 powi ndigits ?m"
      using 1(1) False by auto
    have p: "(10 powi ndigits ?m :: rat) = 10 * 10 powi (ndigits ?m - 1)" "(10 powi (1 + ndigits ?m) :: rat) = 10 * 10 powi ndigits ?m"
      by (simp_all add: power_int_diff power_int_add)
    obtain k where k: "10 powi ndigits ?m = (of_int k :: rat)"
      using IH(1) by (metis power_int_def of_int_numeral of_int_power order.trans zero_le_one)
    have "?m * 10 \<le> n" by presburger
    then have "of_int (?m * 10) \<le> (of_int n :: rat)" by (simp only: of_int_le_iff)
    then have nm: "of_int ?m * 10 \<le> (of_int n :: rat)" by simp
    have "(of_int ?m :: rat) < of_int k" using IH(3) k by simp
    then have mk: "?m + 1 \<le> k" by (simp only: of_int_less_iff)
    have "n < (?m + 1) * 10" by simp
    also have "\<dots> \<le> k * 10" using mk by simp
    finally have "(of_int n :: rat) < of_int (k * 10)" by (simp only: of_int_less_iff)
    with False IH nm p k show ?thesis by (simp add: ndigits.simps [of n])
  qed
qed

lemma ilog10_le:
  assumes "0 < x" shows "10 powi ilog10 x \<le> x"
proof -
  obtain p q where pq: "quotient_of x = (p, q)" by fastforce
  note pos = quotient_of_posD [OF pq assms]
  note bp = ndigits_bounds [OF pos(1)] and bq = ndigits_bounds [OF pos(2)]
  have qpos: "0 < (of_int q :: rat)" using pos(2) by simp
  let ?e = "ndigits p - ndigits q"
  have "10 powi (?e - 1) * (of_int q :: rat) \<le> 10 powi (?e - 1) * 10 powi ndigits q"
    using bq by (intro mult_left_mono) auto
  also have "\<dots> = 10 powi (ndigits p - 1)" by (simp flip: power_int_add)
  also have "\<dots> \<le> of_int p" using bp by simp
  finally have "10 powi (?e - 1) \<le> x" using qpos by (simp add: pos(3) pos_le_divide_eq)
  then show ?thesis by (auto simp: ilog10_def pq Let_def)
qed

lemma powi10_less_iff: "(10 powi a :: rat) < 10 powi b \<longleftrightarrow> a < b"
  by (metis less_asym less_linear numeral_One numeral_less_iff power_int_strict_increasing semiring_norm(76) verit_comp_simplify1(1))

lemma dec_round_exact:
  assumes "0 \<le> m" and "m < 10 ^ 27"
  shows "dec_round (of_int m / 10 ^ d) = of_int m / 10 ^ d"
proof (cases "m = 0")
  case False
  let ?v = "of_int m / 10 ^ d :: rat"
  have v: "0 < ?v" using assms(1) False by simp
  have "(of_int m :: rat) < of_int (10 ^ 27)" using assms(2) by (simp only: of_int_less_iff)
  then have "?v < 10 ^ 27 / 10 ^ d" by (simp add: divide_strict_right_mono)
  also have "\<dots> = 10 powi (27 - int d)" by (simp add: power_int_diff)
  finally have "(10 powi ilog10 ?v :: rat) < 10 powi (27 - int d)" using ilog10_le [OF v] by linarith
  then have le: "ilog10 ?v + int d < 27" by (simp add: powi10_less_iff)
  let ?e = "ilog10 ?v - 27" and ?k = "nat (27 - ilog10 ?v - int d)"
  have "(10 powi ?e :: rat) * 10 ^ ?k = 10 powi ?e * 10 powi int ?k" by (simp only: power_int_of_nat)
  also have "\<dots> = 10 powi (?e + int ?k)" by (rule power_int_add [symmetric]) simp
  also have "?e + int ?k = - int d" using le by simp
  finally have s: "(10 powi ?e :: rat) * 10 ^ ?k = 1 / 10 ^ d" by (simp add: power_int_minus divide_inverse)
  have "?v = of_int (m * 10 ^ ?k) * 10 powi ?e" using s by (simp add: algebra_simps)
  then have "?v / 10 powi ?e = of_int (m * 10 ^ ?k)" by (simp add: field_simps)
  then have "rhe (?v / 10 powi ?e) = m * 10 ^ ?k" by (simp only: rhe_of_int)
  moreover have "\<bar>?v\<bar> = ?v" using assms(1) by simp
  ultimately show ?thesis using v \<open>?v = of_int (m * 10 ^ ?k) * 10 powi ?e\<close> by (simp add: dec_round_def Let_def)
qed (simp add: dec_round_def)

lemma dec_round_error:
  assumes "0 < x" shows "\<bar>dec_round x - x\<bar> \<le> x / (2 * 10 ^ 27)"
proof -
  let ?s = "10 powi (ilog10 x - 27) :: rat"
  have s: "0 < ?s" by simp
  have "?s = 10 powi ilog10 x / 10 ^ 27" by (simp add: power_int_diff)
  then have sx: "?s \<le> x / 10 ^ 27" using ilog10_le [OF assms] by (simp add: divide_right_mono)
  have "dec_round x - x = (of_int (rhe (x / ?s)) - x / ?s) * ?s"
    using assms by (simp add: dec_round_def Let_def algebra_simps)
  then have "\<bar>dec_round x - x\<bar> = \<bar>of_int (rhe (x / ?s)) - x / ?s\<bar> * ?s" by (simp add: abs_mult)
  also have "\<dots> \<le> 1 / 2 * ?s" by (rule mult_right_mono [OF rhe_error]) simp
  finally show ?thesis using sx by simp
qed

lemma lot_quantity_exact:
  assumes "requested = of_int a / 10 ^ d" and "step = of_int b / 10 ^ d" and "0 < a" and "0 < b" and "a < 10 ^ 27"
  shows "lot_quantity requested step = step_down step requested"
proof -
  let ?q = "of_int a / of_int b :: rat" and ?n = "a div b"
  have q: "requested / step = ?q" by (simp add: assms)
  have bpos: "0 < (of_int b :: rat)" "0 < ?q" using assms by simp_all
  have fl: "\<lfloor>?q\<rfloor> = ?n" by (simp add: floor_divide_of_int_eq)
  have ab: "a = ?n * b + a mod b" "0 \<le> a mod b" "a mod b < b" "0 \<le> ?n"
    using assms(3,4) by (simp_all add: pos_imp_zdiv_nonneg_iff)
  have nb: "0 \<le> ?n * b" "?n * b \<le> a" using ab(2,4) assms(4) ab(1) by (simp, linarith)
  have tr: "trunc_rat (dec_round ?q) = ?n"
  proof (cases "a mod b = 0")
    case True
    then have "?q = of_int ?n" using ab(1) bpos by (metis add.right_neutral nonzero_mult_div_cancel_right of_int_mult less_irrefl)
    moreover have "?n \<le> ?n * b" using ab(4) assms(4) by (simp add: mult_le_cancel_left1)
    then have "?n < 10 ^ 27" using nb(2) assms(5) by linarith
    ultimately have "dec_round ?q = of_int ?n" using dec_round_exact [of ?n 0] ab(4) by simp
    then show ?thesis using ab(4) by (simp add: trunc_rat_def)
  next
    case False
    have err: "\<bar>dec_round ?q - ?q\<bar> \<le> ?q / (2 * 10 ^ 27)" by (rule dec_round_error [OF bpos(2)])
    have "(of_int a :: rat) < of_int (10 ^ 27)" using assms(5) by (simp only: of_int_less_iff)
    then have "?q < 10 ^ 27 / of_int b" using bpos(1) by (simp add: divide_strict_right_mono)
    then have "?q / (2 * 10 ^ 27) < 10 ^ 27 / of_int b / (2 * 10 ^ 27)" by (rule divide_strict_right_mono) simp
    also have "\<dots> < 1 / of_int b" using bpos(1) by (simp add: field_simps)
    finally have lt: "\<bar>dec_round ?q - ?q\<bar> < 1 / of_int b" using err by linarith
    have qr: "?q = of_int ?n + of_int (a mod b) / of_int b"
      using bpos(1) by (metis ab(1) add_divide_distrib nonzero_mult_div_cancel_right of_int_add of_int_mult less_irrefl)
    have m: "1 \<le> a mod b" "a mod b + 1 \<le> b" using False ab by auto
    have "(1 :: rat) \<le> of_int (a mod b)" "(of_int (a mod b) :: rat) + 1 \<le> of_int b"
      using m by (metis of_int_1 of_int_le_iff, metis m(2) of_int_1 of_int_add of_int_le_iff)
    then have "1 / of_int b \<le> (of_int (a mod b) / of_int b :: rat)" "(of_int (a mod b) / of_int b :: rat) + 1 / of_int b \<le> 1"
      using bpos(1) by (simp_all add: divide_right_mono flip: add_divide_distrib)
    with lt qr have "of_int ?n < dec_round ?q" "dec_round ?q < of_int ?n + 1" by linarith+
    then have "0 \<le> dec_round ?q" "\<lfloor>dec_round ?q\<rfloor> = ?n"
      using ab(4) of_int_nonneg [OF ab(4), where ?'a = rat] by (linarith, simp add: floor_eq_iff)
    then show ?thesis by (simp add: trunc_rat_def)
  qed
  have "of_int ?n * step = of_int (?n * b) / 10 ^ d" by (simp add: assms(2))
  moreover have "?n * b < 10 ^ 27" using nb assms(5) by linarith
  ultimately show ?thesis
    using dec_round_exact [OF nb(1)] by (simp add: lot_quantity_def q tr step_down_def fl)
qed

text \<open>
  A Bybit Spot quantity is rounded down to the lot step, exactly: for a positive decimal request
  and step on a common grid of \<open>10 ^ - d\<close> and a request below \<open>10 ^ 27\<close> grid units, the submitted
  quantity is the largest multiple of the step that does not exceed the request, it is positive and
  not below the minimum (the context's 28-digit rounding of the quotient never shows).
\<close>

theorem normalize_spot_qty_exact:
  assumes "normalize_spot_qty qty qty_step min_qty = Inr (Dec q)"
    and "py_decimal qty = Inr (Dec (of_int a / 10 ^ d))" and "parse_lot qty_step = Inr (Dec (of_int b / 10 ^ d))"
    and "a < 10 ^ 27"
  shows "q = step_down (of_int b / 10 ^ d) (of_int a / 10 ^ d) \<and> 0 < q \<and> q \<le> of_int a / 10 ^ d
         \<and> of_int a / 10 ^ d < q + of_int b / 10 ^ d
         \<and> (\<forall>m. parse_lot min_qty = Inr (Dec m) \<longrightarrow> m \<le> q)"
proof -
  let ?r = "of_int a / 10 ^ d :: rat" and ?s = "of_int b / 10 ^ d :: rat"
  from assms(1-3) obtain m where m: "parse_lot min_qty = Inr m"
    and pos: "\<not> ?r \<le> 0" "\<not> ?s \<le> 0" and q: "q = lot_quantity ?r ?s" and low: "below_minimum q m = Inr False"
    by (cases "parse_lot min_qty") (auto simp: normalize_spot_qty_def guardE_Inr_iff Let_def split: if_splits)
  have ab: "0 < a" "0 < b" using pos by (simp_all add: divide_le_0_iff not_le)
  have qs: "q = step_down ?s ?r" using q lot_quantity_exact [OF refl refl ab assms(4)] by simp
  have lows: "0 < q" "\<And>x. m = Dec x \<Longrightarrow> x \<le> q" using low by (auto simp: below_minimum_def split: if_splits)
  note rounding_down.rd_le [OF step_down_rounding, of ?s ?r] rounding_down.rd_gap [OF step_down_rounding, of ?s ?r]
  then have "q \<le> ?r" "?r < q + ?s" using pos qs by auto
  with qs lows m show ?thesis by auto
qed

theorem normalize_spot_qty_exact_witness:
  "3 = step_down (of_int 15 / 10 ^ 1) (of_int 37 / 10 ^ 1) \<and> (0 :: rat) < 3 \<and> 3 \<le> of_int 37 / (10 :: rat) ^ 1
   \<and> of_int 37 / (10 :: rat) ^ 1 < 3 + of_int 15 / 10 ^ 1"
proof -
  have n: "normalize_spot_qty (PStr ''3.7'') (PStr ''1.5'') (PStr ''1'') = Inr (Dec 3)" by code_simp
  have r: "py_decimal (PStr ''3.7'') = Inr (Dec (of_int 37 / 10 ^ 1))" by code_simp
  have s: "parse_lot (PStr ''1.5'') = Inr (Dec (of_int 15 / 10 ^ 1))" by code_simp
  from normalize_spot_qty_exact [OF n r s] show ?thesis by simp
qed

end
