(* ===== verification/Ibkr_Bridge.thy ===== *)
theory Ibkr_Bridge
  imports Controls Quantities
begin

text \<open>
  \<open>app/brokers/ibkr_bridge.py\<close> and \<open>app/brokers/mt5_bridge.py\<close>: the clients of the local broker
  bridges. The bridge itself, behind HTTP, is the environment; the identity checks, the reservation,
  the exposure checks and the order of the requests are the client's.
\<close>

section \<open>Requests of the IBKR client\<close>

record ibkr_client =
  ib_base :: string
  ib_expected :: pyval \<comment> \<open>\<open>expected_account_id\<close>, any JSON value of the stored credentials\<close>

definition account_mismatch :: exn where
  "account_mismatch = RuntimeError ''IBKR_ACCOUNT_IDENTITY_MISMATCH''"

definition own_rows :: "pyval \<Rightarrow> pyval \<Rightarrow> pyval res" where
  \<comment> \<open>\<open>{**data, 'list': [row for row in data.get('list', []) if row.get('account') == expected]}\<close>\<close>
  "own_rows expected data =
     bindE (as_dict data) (\<lambda>d.
     bindE (bindE (as_list (dget_or d ''list'' (PList []))) (mapE as_dict)) (\<lambda>rows.
       Inr (PDict (dset ''list'' (PList (map PDict (filter (\<lambda>r. py_eq (dget r ''account'') expected) rows))) d))))"

definition checked_data :: "ibkr_client \<Rightarrow> string \<Rightarrow> pyval \<Rightarrow> pyval res" where
  "checked_data c path data =
     (if \<not> truth (ib_expected c) then Inr data
      else if path = ''/account''
      then bindE (vget data ''account_id'') (\<lambda>a.
        guardE (\<not> py_eq (PStr (str_or_empty a)) (ib_expected c)) account_mismatch (Inr data))
      else if path \<in> set [''/positions'', ''/orders'', ''/executions''] then own_rows (ib_expected c) data
      else Inr data)"

definition ib_get :: "env \<Rightarrow> ibkr_client \<Rightarrow> string \<Rightarrow> pydict \<Rightarrow> pyval prog" where
  "ib_get E c path params = bindP (http E (ib_base c) (Get path params)) (\<lambda>data. liftP (checked_data c path data))"

fun busy_summary :: "exn \<Rightarrow> bool" where
  \<comment> \<open>the only retryable answer: status 503 with the detail of a competing summary\<close>
  "busy_summary (HTTPStatusError code detail) =
     (code = 503 \<and> detail = Some ''IBKR account summary already in progress; retry shortly'')"
| "busy_summary _ = False"

fun account_loop :: "env \<Rightarrow> ibkr_client \<Rightarrow> nat \<Rightarrow> pyval prog" where
  \<comment> \<open>the \<open>while True\<close> inside \<open>asyncio.timeout\<close>: the fuel is the number of reads that fit into the timeout\<close>
  "account_loop E c 0 = liftP (Inl (RuntimeError ''IBKR_ACCOUNT_READ_TIMEOUT''))"
| "account_loop E c (Suc n) =
     tryP (ib_get E c ''/account'' []) (\<lambda>e. busy_summary e \<or> e = TimeoutError) (\<lambda>e.
       if e = TimeoutError then liftP (Inl (RuntimeError ''IBKR_ACCOUNT_READ_TIMEOUT''))
       else seqP (suspend E) (account_loop E c n))"

definition ib_account :: "env \<Rightarrow> ibkr_client \<Rightarrow> pyval prog" where
  "ib_account E c = account_loop E c (en_account_retries E)"

definition ib_post :: "env \<Rightarrow> ibkr_client \<Rightarrow> string \<Rightarrow> pydict \<Rightarrow> pyval prog" where
  "ib_post E c path payload =
     (if truth (ib_expected c)
      then bindP (ib_account E c) (\<lambda>_.
        if truth (dget payload ''account_id'') \<and> \<not> py_eq (dget payload ''account_id'') (ib_expected c)
        then liftP (Inl account_mismatch) else http E (ib_base c) (Post path payload))
      else http E (ib_base c) (Post path payload))"

definition rows_of :: "pyval \<Rightarrow> pydict list res" where
  \<comment> \<open>\<open>data.get('list', [])\<close> as the rows a loop over \<open>rows or []\<close> sees\<close>
  "rows_of data =
     bindE (as_dict data) (\<lambda>d. let v = dget_or d ''list'' (PList [])
       in if truth v then bindE (as_list v) (mapE as_dict) else Inr [])"

definition contract_params :: "string \<Rightarrow> pydict" where
  "contract_params symbol = [(''symbol'', PStr symbol), (''sec_type'', PStr ''STK''), (''exchange'', PStr ''SMART''), (''currency'', PStr ''USD'')]"

definition ib_health where "ib_health E c = ib_get E c ''/health'' []"
definition ib_positions where "ib_positions E c = bindP (ib_get E c ''/positions'' []) (\<lambda>d. liftP (rows_of d))"
definition ib_orders where "ib_orders E c = bindP (ib_get E c ''/orders'' []) (\<lambda>d. liftP (rows_of d))"
definition ib_executions where "ib_executions E c days = bindP (ib_get E c ''/executions'' [(''days'', PInt days)]) (\<lambda>d. liftP (rows_of d))"
definition ib_quote where "ib_quote E c symbol = ib_get E c ''/quote'' (contract_params symbol)"

definition ib_candles :: "env \<Rightarrow> ibkr_client \<Rightarrow> string \<Rightarrow> string \<Rightarrow> int \<Rightarrow> pyval prog" where
  "ib_candles E c symbol timeframe limit =
     ib_get E c ''/candles'' ((''timeframe'', PStr timeframe) # (''limit'', PInt limit) # contract_params symbol)"

definition ib_order_status :: "env \<Rightarrow> ibkr_client \<Rightarrow> int \<Rightarrow> pyval prog" where
  "ib_order_status E c order_id = ib_get E c (''/orders/'' @ show_int order_id @ ''/status'') []"

definition ib_order_check :: "env \<Rightarrow> ibkr_client \<Rightarrow> pydict \<Rightarrow> pyval prog" where
  "ib_order_check E c payload = ib_post E c ''/order-check'' payload"

section \<open>Orders\<close>

definition reserved :: "env \<Rightarrow> string \<Rightarrow> 'a prog \<Rightarrow> 'a prog \<Rightarrow> 'a prog" where
  \<comment> \<open>\<open>async with reserve_execution(...)\<close>: one branch for a refused and one for a held reservation\<close>
  "reserved E key refused body = bindP (getP (\<lambda>w. en_locked E (w_tick w) key)) (\<lambda>b. if b then refused else body)"

definition fails :: "string \<Rightarrow> 'a prog" where
  "fails m = liftP (Inl (RuntimeError m))"

definition simulation_health :: "pyval \<Rightarrow> bool res" where
  "simulation_health h = bindE (vget h ''connected'') (\<lambda>a. bindE (vget h ''simulation'') (\<lambda>b. Inr (truth a \<and> truth b)))"

definition ib_place_order :: "env \<Rightarrow> ibkr_client \<Rightarrow> pydict \<Rightarrow> string option prog \<Rightarrow> pyval prog" where
  "ib_place_order E c payload before_submit =
     (if truth (ib_expected c) \<and> \<not> py_eq (PStr (str_or_empty (dget payload ''account_id''))) (ib_expected c)
      then liftP (Inl account_mismatch)
      else let symbol = canonical_symbol (dget payload ''symbol'');
               order = dset ''symbol'' (PStr symbol) payload;
               key = ''IBKR:'' @ py_str (py_or (dget order ''account_id'') (PStr (ib_base c)))
           in reserved E (reservation_key key (PStr symbol)) (fails ''EXECUTION_ALREADY_IN_PROGRESS'')
             (bindP (ib_health E c) (\<lambda>health.
              bindP (liftP (vget health ''connected'')) (\<lambda>connected. if \<not> truth connected then fails ''IBKR_BRIDGE_DISCONNECTED'' else
              bindP (liftP (vget health ''simulation'')) (\<lambda>simulation. if \<not> truth simulation then fails ''IBKR_PAPER_BRIDGE_REQUIRED'' else
              bindP (ib_positions E c) (\<lambda>positions.
              bindP (liftP (exposure_symbols positions (Some ''quantity''))) (\<lambda>held. if symbol \<in> set held then fails ''SYMBOL_ALREADY_HAS_POSITION'' else
              bindP (ib_orders E c) (\<lambda>orders.
              bindP (liftP (pending_order_symbols orders)) (\<lambda>pending. if symbol \<in> set pending then fails ''SYMBOL_ALREADY_HAS_OPEN_ORDER'' else
              bindP before_submit (\<lambda>blocker. case blocker of
                 Some b \<Rightarrow> liftP (Inl (PreSubmissionBlocked b))
               | None \<Rightarrow> ib_post E c ''/orders'' order))))))))))"

definition ib_ensure_protection :: "env \<Rightarrow> ibkr_client \<Rightarrow> pydict \<Rightarrow> pyval prog" where
  "ib_ensure_protection E c payload =
     bindP (liftP (dsub payload ''account_id'')) (\<lambda>account.
     bindP (liftP (dsub payload ''symbol'')) (\<lambda>symbol.
       reserved E (reservation_key (''IBKR:'' @ py_str account) symbol) (fails ''EXECUTION_ALREADY_IN_PROGRESS'')
         (bindP (ib_health E c) (\<lambda>health.
          bindP (liftP (simulation_health health)) (\<lambda>ok. if \<not> ok then fails ''IBKR_PAPER_BRIDGE_REQUIRED''
            else ib_post E c ''/protection'' payload)))))"

fun open_row :: "string \<Rightarrow> pydict list \<Rightarrow> pydict option res" where
  \<comment> \<open>the first position of the symbol with a quantity other than zero\<close>
  "open_row symbol [] = Inr None"
| "open_row symbol (row # rows) =
     (if canonical_symbol (dget row ''symbol'') = symbol
      then bindE (float_or0 (dget row ''quantity'')) (\<lambda>q. if feq q 0 then open_row symbol rows else Inr (Some row))
      else open_row symbol rows)"

definition ib_close_position :: "env \<Rightarrow> ibkr_client \<Rightarrow> string \<Rightarrow> pyval \<Rightarrow> string \<Rightarrow> pyval \<Rightarrow> pyval prog" where
  "ib_close_position E c symbol0 quantity0 side0 account_id =
     (let symbol = canonical_symbol (PStr symbol0); side = str_upper side0
      in bindP (liftP (normalize_ibkr_shares quantity0)) (\<lambda>quantity.
         if quantity \<le> 0 \<or> side \<notin> set [''LONG'', ''SHORT''] then fails ''INVALID_CLOSE_REQUEST'' else
         reserved E (reservation_key (''IBKR:'' @ py_str (py_or account_id (PStr (ib_base c)))) (PStr symbol))
          (fails ''EXECUTION_ALREADY_IN_PROGRESS'')
         (bindP (ib_health E c) (\<lambda>health.
          bindP (liftP (simulation_health health)) (\<lambda>ok. if \<not> ok then fails ''IBKR_PAPER_BRIDGE_REQUIRED'' else
          bindP (ib_positions E c) (\<lambda>positions.
          bindP (liftP (open_row symbol positions)) (\<lambda>current. case current of None \<Rightarrow> fails ''POSITION_NOT_FOUND'' | Some row \<Rightarrow>
          bindP (liftP (float_or0 (dget row ''quantity''))) (\<lambda>held.
            if (if 0 < held then ''LONG'' else ''SHORT'') \<noteq> side \<or> \<not> quantities_match (fabs held) quantity
            then fails ''POSITION_CHANGED'' else
          bindP (ib_orders E c) (\<lambda>orders.
          bindP (liftP (pending_order_symbols orders)) (\<lambda>pending. if symbol \<in> set pending then fails ''SYMBOL_ALREADY_HAS_OPEN_ORDER'' else
          let payload = [(''symbol'', PStr symbol), (''side'', PStr (if side = ''LONG'' then ''SELL'' else ''BUY'')),
                (''quantity'', PFloat quantity), (''order_type'', PStr ''MKT''), (''sec_type'', PStr ''STK''),
                (''exchange'', PStr ''SMART''), (''currency'', PStr ''USD''), (''account_id'', account_id)]
          in bindP (ib_order_check E c payload) (\<lambda>check.
             bindP (liftP (bindE (vget check ''ok'') (\<lambda>a. if \<not> truth a then Inr False else
                           bindE (vget check ''what_if'') (\<lambda>b. if \<not> truth b then Inr False else
                           bindE (vget check ''simulation'') (\<lambda>d. Inr (truth d)))))) (\<lambda>passed.
             if \<not> passed then fails ''BROKER_WHATIF_REJECTED'' else ib_post E c ''/orders'' payload))))))))))))"

section \<open>What the IBKR client sends\<close>

lemma quiet_ib_get [intro!]: "emits no_orders (ib_get E c path params)"
  unfolding ib_get_def by auto

lemma quiet_account_loop [intro!]: "emits no_orders (account_loop E c n)"
  by (induction n) auto

lemma quiet_ib_account [intro!]: "emits no_orders (ib_account E c)"
  unfolding ib_account_def by auto

lemma quiet_ib_post: "\<not> order_path path \<Longrightarrow> emits no_orders (ib_post E c path payload)"
  unfolding ib_post_def by (auto intro!: quiet_post)

lemma quiet_ib_reads [intro!]:
  "emits no_orders (ib_health E c)" "emits no_orders (ib_positions E c)" "emits no_orders (ib_orders E c)"
  "emits no_orders (ib_executions E c days)" "emits no_orders (ib_quote E c symbol)"
  "emits no_orders (ib_candles E c symbol timeframe limit)" "emits no_orders (ib_order_status E c oid)"
  "emits no_orders (ib_order_check E c payload)"
  unfolding ib_health_def ib_positions_def ib_orders_def ib_executions_def ib_quote_def ib_candles_def ib_order_status_def
    ib_order_check_def
  by (auto intro!: quiet_ib_post)

lemma quiet_fails [intro!]: "emits no_orders (fails m)"
  unfolding fails_def by auto

text \<open>
  What one run of \<open>place_order\<close> can log: nothing that moves a position, or one order request for the
  canonical symbol, after the check \<open>before_submit\<close> has found no blocker; in between only the account
  is read.
\<close>

definition account_reads :: "event list \<Rightarrow> bool" where
  "account_reads es = list_all (\<lambda>e. \<exists>b d. e = Sent b (Get ''/account'' []) d) es"

interpretation account_trace: trace_property account_reads
  by unfold_locales (simp_all add: account_reads_def)

lemma account_loop_reads [intro!]: "emits account_reads (account_loop E c n)"
proof (induction n)
  case (Suc n)
  have "emits account_reads (ib_get E c ''/account'' [])"
    unfolding ib_get_def by (intro account_trace.emits_bindP account_trace.emits_http account_trace.emits_liftP)
      (simp add: account_reads_def)
  with Suc show ?case by (auto)
qed auto

lemma account_reads_no_orders: "account_reads es \<Longrightarrow> no_orders es"
  by (auto simp: account_reads_def no_orders_def list_all_iff)

lemma ib_post_log:
  "\<exists>es. w_log (snd (ib_post E c path payload w)) = w_log w @ es
     \<and> (account_reads es \<or> (\<exists>acc d. account_reads acc \<and> es = acc @ [Sent (ib_base c) (Post path payload) d]))"
proof (cases "truth (ib_expected c)")
  case False
  then show ?thesis by (auto simp: ib_post_def http_def account_reads_def)
next
  case True
  obtain r w1 where a: "ib_account E c w = (r, w1)" by (cases "ib_account E c w")
  have "emits account_reads (ib_account E c)" unfolding ib_account_def by auto
  from emitsD [OF this a] obtain es where es: "w_log w1 = w_log w @ es" "account_reads es" by blast
  with True a show ?thesis by (cases r) (auto simp: ib_post_def bindP_def http_def)
qed

section \<open>The guard of an entry\<close>

definition entry_guard :: "string \<Rightarrow> pydict \<Rightarrow> nat \<Rightarrow> nat \<Rightarrow> event list \<Rightarrow> event \<Rightarrow> bool" where
  \<comment> \<open>the order goes to this bridge; before it the controls were read and allowed the entry, and since
     then only the account has been read\<close>
  "entry_guard base order profile_id cfg_id pre ev \<longleftrightarrow>
     (\<exists>before acc d0 d. pre = before @ Checked None profile_id cfg_id d0 # acc \<and> account_reads acc
        \<and> entry_allowed d0 profile_id cfg_id \<and> ev = Sent base (Post ''/orders'' order) d)"

interpretation entry: guarded_order "one_order (entry_guard base order profile_id cfg_id)"
  for base order profile_id cfg_id
proof (rule guarded_one_order)
  fix xs ys :: "event list" and ev
  assume "entry_guard base order profile_id cfg_id ys ev"
  then obtain before acc d0 d where "ys = before @ Checked None profile_id cfg_id d0 # acc" "account_reads acc"
      "entry_allowed d0 profile_id cfg_id" "ev = Sent base (Post ''/orders'' order) d"
    unfolding entry_guard_def by blast
  then show "entry_guard base order profile_id cfg_id (xs @ ys) ev"
    unfolding entry_guard_def by (intro exI [of _ "xs @ before"] exI [of _ acc]) auto
qed

lemma submission_guarded:
  "emits (one_order (entry_guard (ib_base c) order profile_id cfg_id))
     (bindP (entry_authorization_blocker E profile_id cfg_id) (\<lambda>blocker. case blocker of
        Some b \<Rightarrow> liftP (Inl (PreSubmissionBlocked b)) | None \<Rightarrow> ib_post E c ''/orders'' order))"
    (is "emits ?G ?m")
  unfolding emits_def
proof
  fix w
  obtain r w1 where a: "entry_authorization_blocker E profile_id cfg_id w = (r, w1)"
    by (cases "entry_authorization_blocker E profile_id cfg_id w")
  from emitsD [OF quiet_authorization a] obtain es where es: "w_log w1 = w_log w @ es" "no_orders es" by blast
  show "\<exists>es. w_log (snd (?m w)) = w_log w @ es \<and> ?G es"
  proof (cases "r = Inr None")
    case False
    then have "w_log (snd (?m w)) = w_log w1" using a by (cases r) (auto simp: bindP_def split: option.splits)
    with es entry.G_quiet show ?thesis by auto
  next
    case True
    from entry_authorization_sound a True obtain pre where
      pre: "w_log w1 = pre @ [Checked None profile_id cfg_id (w_db w1)]" and ok: "entry_allowed (w_db w1) profile_id cfg_id"
      by blast
    have m: "?m w = ib_post E c ''/orders'' order w1" using a True by (simp add: bindP_def)
    obtain es' where es': "w_log (snd (?m w)) = w_log w1 @ es'"
      and sh: "account_reads es' \<or> (\<exists>acc d. account_reads acc \<and> es' = acc @ [Sent (ib_base c) (Post ''/orders'' order) d])"
      using ib_post_log [of E c "''/orders''" order w1] unfolding m by blast
    have "es \<noteq> []"
    proof
      assume "es = []"
      with es have "w_log w1 = w_log w" by simp
      obtain pre' where "w_log w1 = w_log w @ pre' @ [Checked None profile_id cfg_id (w_db w1)]"
        using authorization_extends [OF a [unfolded True]] by blast
      with \<open>w_log w1 = w_log w\<close> show False by simp
    qed
    then obtain before where b: "es = before @ [Checked None profile_id cfg_id (w_db w1)]"
      using es(1) pre by (metis append_butlast_last_id last_appendR last_snoc)
    from sh show ?thesis
    proof
      assume "account_reads es'"
      then have "no_orders (es @ es')" using es(2) account_reads_no_orders by (auto simp: no_orders_def)
      with es es' entry.G_quiet show ?thesis by (metis append.assoc)
    next
      assume "\<exists>acc d. account_reads acc \<and> es' = acc @ [Sent (ib_base c) (Post ''/orders'' order) d]"
      then obtain acc d where acc: "account_reads acc" "es' = acc @ [Sent (ib_base c) (Post ''/orders'' order) d]" by blast
      let ?ev = "Sent (ib_base c) (Post ''/orders'' order) d"
      have "entry_guard (ib_base c) order profile_id cfg_id (es @ acc) ?ev"
        unfolding entry_guard_def b using acc(1) ok by auto
      moreover have "no_orders (es @ acc)" using es(2) account_reads_no_orders [OF acc(1)] by (simp add: no_orders_def)
      moreover have "is_order ?ev" by simp
      ultimately have "?G ((es @ acc) @ ?ev # [])"
        unfolding one_order_def by (intro disjI2 exI [of _ "es @ acc"] exI [of _ ?ev] exI [of _ "[]"]) (simp add: no_orders_def)
      with es es' acc(2) show ?thesis by (intro exI [of _ "es @ es'"]) simp
    qed
  qed
qed

lemma place_order_guarded:
  "emits (one_order (entry_guard (ib_base c) (dset ''symbol'' (PStr (canonical_symbol (dget payload ''symbol''))) payload) profile_id cfg_id))
     (ib_place_order E c payload (entry_authorization_blocker E profile_id cfg_id))"
  unfolding ib_place_order_def Let_def reserved_def
  by (intro entry.guarded_if entry.after_quiet submission_guarded quiet_ib_reads quiet.emits_liftP quiet.emits_getP)
     (auto intro!: entry.of_quiet)

end
