(* ===== verification/Brokers.thy ===== *)
theory Brokers
  imports Ibkr_Bridge
begin

text \<open>
  The other two broker clients: \<open>app/brokers/mt5_bridge.py\<close> and the Spot part of
  \<open>app/brokers/bybit_private.py\<close>. The signed transport of the Bybit client (clock synchronisation,
  signature and the one retry after a rejected timestamp) is one request of the environment; the
  reading of its answer and everything above it is modelled.
\<close>

section \<open>MT5\<close>

definition mt_fails :: "string \<Rightarrow> 'a prog" where
  "mt_fails m = liftP (Inl (Mt5BridgeError m))"

definition mt_request :: "env \<Rightarrow> string \<Rightarrow> request \<Rightarrow> pyval prog" where
  \<comment> \<open>every exception of the transport becomes an \<open>Mt5BridgeError\<close> with its text\<close>
  "mt_request E base req = tryP (http E base req) is_exception (\<lambda>e. mt_fails (en_exn_text E e))"

definition mt_health where "mt_health E base = mt_request E base (Get ''/health'' [])"
definition mt_positions where "mt_positions E base = bindP (mt_request E base (Get ''/positions'' [])) (\<lambda>d. liftP (rows_of d))"
definition mt_orders where "mt_orders E base = bindP (mt_request E base (Get ''/orders'' [])) (\<lambda>d. liftP (rows_of d))"

definition mt_account where "mt_account E base = mt_request E base (Get ''/account'' [])"

definition mt_symbol :: "env \<Rightarrow> string \<Rightarrow> string \<Rightarrow> pyval prog" where
  "mt_symbol E base symbol = mt_request E base (Get (''/symbol/'' @ canonical_symbol (PStr symbol)) [])"

definition mt_candles :: "env \<Rightarrow> string \<Rightarrow> string \<Rightarrow> string \<Rightarrow> int \<Rightarrow> pyval prog" where
  "mt_candles E base symbol timeframe limit =
     mt_request E base (Get (''/candles/'' @ canonical_symbol (PStr symbol) @ ''?timeframe='' @ timeframe @ ''&limit=''
       @ show_int (max 2 (min limit 500))) [])"

definition mt_history_deals :: "env \<Rightarrow> string \<Rightarrow> int \<Rightarrow> pyval prog" where
  "mt_history_deals E base days = mt_request E base (Get (''/history/deals?days='' @ show_int (max 1 (min days 366))) [])"

definition mt_close_demo_position :: "env \<Rightarrow> string \<Rightarrow> int \<Rightarrow> pyval prog" where
  "mt_close_demo_position E base ticket = mt_request E base (Post (''/positions/'' @ show_int ticket @ ''/close'') [])"

definition mt_order_check :: "env \<Rightarrow> string \<Rightarrow> pydict \<Rightarrow> pyval prog" where
  "mt_order_check E base payload =
     mt_request E base (Post ''/order/check'' (dset ''symbol'' (PStr (canonical_symbol (dget payload ''symbol''))) payload))"

definition mt_order :: "string \<Rightarrow> string \<Rightarrow> pyval \<Rightarrow> pyval \<Rightarrow> pyval \<Rightarrow> string \<Rightarrow> pydict" where
  "mt_order symbol side volume stop_loss take_profit comment =
     [(''symbol'', PStr symbol), (''side'', PStr side), (''volume'', volume), (''stop_loss'', stop_loss),
      (''take_profit'', take_profit), (''comment'', PStr comment)]"

definition mt_place_demo_order :: "env \<Rightarrow> string \<Rightarrow> string \<Rightarrow> string \<Rightarrow> pyval \<Rightarrow> pyval \<Rightarrow> pyval \<Rightarrow> string \<Rightarrow> pyval prog" where
  "mt_place_demo_order E base symbol0 side volume stop_loss take_profit comment =
     (let symbol = canonical_symbol (PStr symbol0)
      in reserved E (reservation_key (''MT5:'' @ base) (PStr symbol)) (mt_fails ''EXECUTION_ALREADY_IN_PROGRESS'')
        (bindP (mt_positions E base) (\<lambda>positions.
         bindP (liftP (exposure_symbols positions None)) (\<lambda>held. if symbol \<in> set held then mt_fails ''SYMBOL_ALREADY_HAS_POSITION'' else
         bindP (mt_orders E base) (\<lambda>orders.
         bindP (liftP (pending_order_symbols orders)) (\<lambda>pending. if symbol \<in> set pending then mt_fails ''SYMBOL_ALREADY_HAS_OPEN_ORDER''
           else mt_request E base (Post ''/order'' (mt_order symbol side volume stop_loss take_profit comment))))))))"

section \<open>Bybit\<close>

record bybit_client =
  by_api_key :: string
  by_base :: string

definition bybit_error :: "string \<Rightarrow> exn" where "bybit_error m = BybitPrivateError m"

definition bybit_result :: "pyval \<Rightarrow> pyval res" where
  \<comment> \<open>\<open>_result\<close> on a decoded answer\<close>
  "bybit_result payload =
     bindE (vget payload ''retCode'') (\<lambda>code.
       if \<not> py_eq code (PInt 0)
       then bindE (as_dict payload) (\<lambda>d.
         Inl (bybit_error (''Bybit '' @ py_str code @ '': '' @ py_str (dget_or d ''retMsg'' (PStr ''request failed'')))))
       else bindE (vget payload ''result'') (\<lambda>r. Inr (py_or r (PDict []))))"

definition by_get :: "env \<Rightarrow> bybit_client \<Rightarrow> string \<Rightarrow> pydict \<Rightarrow> pyval prog" where
  "by_get E c path params = bindP (http E (by_base c) (Get path params)) (\<lambda>p. liftP (bybit_result p))"

definition by_post :: "env \<Rightarrow> bybit_client \<Rightarrow> string \<Rightarrow> pydict \<Rightarrow> pyval prog" where
  "by_post E c path payload = bindP (http E (by_base c) (Post path payload)) (\<lambda>p. liftP (bybit_result p))"

definition by_wallet where "by_wallet E c = by_get E c ''/v5/account/wallet-balance'' [(''accountType'', PStr ''UNIFIED'')]"

definition by_spot_open_orders :: "env \<Rightarrow> bybit_client \<Rightarrow> pyval prog" where
  "by_spot_open_orders E c = by_get E c ''/v5/order/realtime'' [(''category'', PStr ''spot''), (''openOnly'', PInt 0)]"

definition by_spot_order_history :: "env \<Rightarrow> bybit_client \<Rightarrow> int \<Rightarrow> pyval prog" where
  "by_spot_order_history E c limit =
     by_get E c ''/v5/order/history'' [(''category'', PStr ''spot''), (''limit'', PInt (max 1 (min limit 100)))]"

definition first_dict :: "pyval \<Rightarrow> pyval res" where
  \<comment> \<open>\<open>rows[0]\<close> of a list that is not empty\<close>
  "first_dict rows = (case rows of PList (r # _) \<Rightarrow> Inr r | PStr (c # _) \<Rightarrow> Inr (PStr [c]) | PDict _ \<Rightarrow> Inl KeyError | _ \<Rightarrow> Inl TypeError)"

definition lot_size_of :: "string \<Rightarrow> pyval \<Rightarrow> (string \<times> string) res" where
  "lot_size_of symbol result =
     bindE (vget result ''list'') (\<lambda>l. let rows = py_or l (PList []) in
       if \<not> truth rows then Inl (bybit_error (''SPOT_INSTRUMENT_METADATA_MISSING:'' @ symbol))
       else bindE (bindE (first_dict rows) (\<lambda>r. vget r ''lotSizeFilter'')) (\<lambda>f. let lot = py_or f (PDict []) in
         bindE (vget lot ''qtyStep'') (\<lambda>s. bindE (vget lot ''basePrecision'') (\<lambda>b. bindE (vget lot ''minOrderQty'') (\<lambda>m.
           let qty_step = str_or_empty (py_or s b); min_qty = str_or_empty m
           in if qty_step = [] then Inl (bybit_error (''SPOT_QTY_STEP_MISSING:'' @ symbol)) else Inr (qty_step, min_qty))))))"

definition by_spot_lot_size :: "env \<Rightarrow> bybit_client \<Rightarrow> string \<Rightarrow> (string \<times> string) prog" where
  "by_spot_lot_size E c symbol =
     bindP (by_get E c ''/v5/market/instruments-info'' [(''category'', PStr ''spot''), (''symbol'', PStr symbol)])
       (\<lambda>r. liftP (lot_size_of symbol r))"

definition simulation_hosts :: "string list" where
  "simulation_hosts = [''https://api-testnet.bybit.com'', ''https://api-demo.bybit.com'']"

definition spot_order :: "string \<Rightarrow> string \<Rightarrow> pyval \<Rightarrow> string option \<Rightarrow> pydict" where
  "spot_order symbol side qty order_link_id =
     [(''category'', PStr ''spot''), (''symbol'', PStr symbol), (''side'', PStr side), (''orderType'', PStr ''Market''), (''qty'', qty)]
     @ (if side = ''Buy'' then [(''marketUnit'', PStr ''baseCoin'')] else [])
     @ (case order_link_id of Some l \<Rightarrow> if l = [] then [] else [(''orderLinkId'', PStr (take 36 l))] | None \<Rightarrow> [])"

definition fixed_text :: "decimal \<Rightarrow> string" where
  \<comment> \<open>\<open>format(d, 'f')\<close>: the digits of a finite decimal without an exponent; trailing zeros are not kept\<close>
  "fixed_text d = (case d of DInf neg \<Rightarrow> (if neg then ''-Infinity'' else ''Infinity'') | DNaN \<Rightarrow> ''NaN''
     | Dec x \<Rightarrow>
       (let y = \<bar>x\<bar>; ip = \<lfloor>y\<rfloor>; fp = y - of_int ip;
            n = (case find (\<lambda>k. fp * 10 ^ k = of_int \<lfloor>fp * 10 ^ k\<rfloor>) [0..<60] of Some k \<Rightarrow> k | None \<Rightarrow> 60);
            ds = show_digits \<lfloor>fp * 10 ^ n\<rfloor>
        in (if x < 0 then ''-'' else []) @ show_digits ip
           @ (if n = 0 then [] else CHR ''.'' # replicate (n - length ds) (CHR ''0'') @ ds)))"

definition by_place_test_spot_market_order ::
    "env \<Rightarrow> bybit_client \<Rightarrow> string \<Rightarrow> string \<Rightarrow> pyfloat \<Rightarrow> string option \<Rightarrow> string option prog \<Rightarrow> pyval prog" where
  "by_place_test_spot_market_order E c symbol0 side qty order_link_id before_submit =
     (if by_base c \<notin> set simulation_hosts
      then liftP (Inl (bybit_error ''ATLAS refuses Spot certification outside Bybit TESTNET/DEMO''))
      else let symbol = canonical_symbol (PStr symbol0)
      in if side \<notin> set [''Buy'', ''Sell''] then liftP (Inl (bybit_error ''INVALID_SPOT_SIDE''))
      else reserved E (reservation_key (''BYBIT-SPOT:'' @ by_api_key c) (PStr symbol))
          (liftP (Inl (bybit_error ''EXECUTION_ALREADY_IN_PROGRESS'')))
        (bindP (bindP (by_spot_open_orders E c) (\<lambda>d. liftP (rows_of d))) (\<lambda>orders.
         bindP (liftP (pending_order_symbols orders)) (\<lambda>pending.
           if symbol \<in> set pending then liftP (Inl (bybit_error ''SYMBOL_ALREADY_HAS_OPEN_SPOT_ORDER'')) else
         bindP (by_spot_lot_size E c symbol) (\<lambda>(qty_step, min_qty).
         bindP (liftP (normalize_spot_qty (PFloat qty) (PStr qty_step) (PStr min_qty))) (\<lambda>q.
         bindP before_submit (\<lambda>blocker. case blocker of
            Some b \<Rightarrow> liftP (Inl (bybit_error b))
          | None \<Rightarrow> by_post E c ''/v5/order/create'' (spot_order symbol side (PStr (fixed_text q)) order_link_id))))))))"

definition holding_row :: "pydict \<Rightarrow> pydict option res" where
  "holding_row coin =
     (let symbol = upper_or_empty (dget coin ''coin'')
      in if symbol = [] \<or> symbol \<in> set [''USDT'', ''USDC'', ''USD'', ''USDE'', ''DAI''] then Inr None
         else bindE (float_or0 (dget coin ''walletBalance'')) (\<lambda>qty. bindE (float_or0 (dget coin ''usdValue'')) (\<lambda>usd.
           Inr (if qty \<le> 0 \<or> usd \<le> 0 then None
                else Some [(''coin'', PStr symbol), (''quantity'', PFloat qty), (''usd_value'', PFloat usd),
                           (''available_to_withdraw'', dget coin ''availableToWithdraw'')]))))"

definition wallet_coins :: "pydict \<Rightarrow> pydict list res" where
  \<comment> \<open>\<open>rows = wallet.get('list') or []\<close>; \<open>(rows[0].get('coin') or []) if rows else []\<close>\<close>
  "wallet_coins wallet =
     (let rows = py_or (dget wallet ''list'') (PList [])
      in if \<not> truth rows then Inr []
         else bindE (bindE (first_dict rows) (\<lambda>r. vget r ''coin'')) (\<lambda>c.
           bindE (as_list (py_or c (PList []))) (mapE as_dict)))"

definition spot_holdings_from_wallet :: "pydict \<Rightarrow> pydict list res" where
  "spot_holdings_from_wallet wallet =
     bindE (wallet_coins wallet) (\<lambda>coins. bindE (mapE holding_row coins) (\<lambda>rows.
       Inr (map the (filter (\<lambda>r. r \<noteq> None) rows))))"

section \<open>What the clients send\<close>

lemma quiet_mt_fails [intro!]: "emits no_orders (mt_fails m)"
  unfolding mt_fails_def by auto

lemma quiet_mt_get [intro!]: "emits no_orders (mt_request E base (Get path params))"
  unfolding mt_request_def by auto

lemma quiet_mt_reads [intro!]:
  "emits no_orders (mt_health E base)" "emits no_orders (mt_positions E base)" "emits no_orders (mt_orders E base)"
  "emits no_orders (mt_account E base)" "emits no_orders (mt_symbol E base symbol)"
  "emits no_orders (mt_candles E base symbol timeframe limit)" "emits no_orders (mt_history_deals E base days)"
  unfolding mt_health_def mt_positions_def mt_orders_def mt_account_def mt_symbol_def mt_candles_def mt_history_deals_def by auto

lemma quiet_mt_check [intro!]: "emits no_orders (mt_order_check E base payload)"
  unfolding mt_order_check_def mt_request_def by (auto intro!: quiet_post)

lemma quiet_by_get [intro!]: "emits no_orders (by_get E c path params)"
  unfolding by_get_def by auto

lemma quiet_by_reads [intro!]:
  "emits no_orders (by_wallet E c)" "emits no_orders (by_spot_open_orders E c)" "emits no_orders (by_spot_order_history E c limit)"
  "emits no_orders (by_spot_lot_size E c symbol)"
  unfolding by_wallet_def by_spot_open_orders_def by_spot_order_history_def by_spot_lot_size_def by auto

definition spot_guard :: "string \<Rightarrow> string \<Rightarrow> string \<Rightarrow> event list \<Rightarrow> event \<Rightarrow> bool" where
  \<comment> \<open>one Spot order at a simulation host: its symbol is canonical, its side as requested\<close>
  "spot_guard base symbol side pre ev \<longleftrightarrow>
     (\<exists>q link d. ev = Sent base (Post ''/v5/order/create'' (spot_order symbol side (PStr q) link)) d \<and> base \<in> set simulation_hosts
        \<and> side \<in> {''Buy'', ''Sell''})"

interpretation spot: guarded_order "one_order (spot_guard base symbol side)" for base symbol side
  by (rule guarded_one_order) (simp add: spot_guard_def)

lemma http_one_order:
  assumes "\<And>d. R [] (Sent base (Post path payload) d)" and "order_path path"
  shows "emits (one_order R) (http E base (Post path payload))"
  unfolding emits_def
proof
  fix w :: world
  let ?ev = "Sent base (Post path payload) (w_db w)"
  have "one_order R [?ev]"
    unfolding one_order_def using assms
    by (intro disjI2 exI [of _ "[]"] exI [of _ ?ev]) (simp add: no_orders_def)
  then show "\<exists>es. w_log (snd (http E base (Post path payload) w)) = w_log w @ es \<and> one_order R es"
    by (auto simp: http_def)
qed

lemma by_place_guarded:
  assumes "emits no_orders before_submit"
  shows "emits (one_order (spot_guard (by_base c) (canonical_symbol (PStr symbol)) side))
     (by_place_test_spot_market_order E c symbol side qty link before_submit)"
proof (cases "by_base c \<in> set simulation_hosts \<and> side \<in> {''Buy'', ''Sell''}")
  case False
  have q: "emits no_orders (liftP (Inl e) :: pyval prog)" for e by auto
  show ?thesis using False spot.of_quiet [OF q]
    by (auto simp: by_place_test_spot_market_order_def Let_def)
next
  case True
  have post: "emits (one_order (spot_guard (by_base c) s side)) (by_post E c ''/v5/order/create'' (spot_order s side (PStr q) l))"
    for s q l
    unfolding by_post_def
    by (rule spot.before_quiet [OF http_one_order]) (use True in \<open>auto simp: spot_guard_def\<close>)
  show ?thesis
    unfolding by_place_test_spot_market_order_def Let_def reserved_def
    by (intro spot.rules post assms) auto
qed

end
