(* ===== verification/Bybit_Spot.thy ===== *)
theory Bybit_Spot
  imports Brokers
begin

text \<open>
  \<open>app/services/bybit_spot_execution.py\<close>: the Spot inventory ATLAS manages on a Bybit simulation
  account, its reconciliation with the broker, and the execution of one managed order.
\<close>

section \<open>The inventory\<close>

definition dust :: pyfloat where
  "dust = fl (1 / 10 ^ 12)"

definition apply_managed_fill ::
    "managed_inventory_row \<Rightarrow> string \<Rightarrow> pyfloat \<Rightarrow> pyfloat option \<Rightarrow> managed_inventory_row res" where
  "apply_managed_fill inventory side0 quantity price =
     (let side = str_upper side0; current = iv_managed_quantity inventory
      in guardE (side \<notin> set [''BUY'', ''SELL''] \<or> quantity \<le> 0) (ValueError ''INVALID_MANAGED_FILL'')
        (if side = ''BUY''
         then (let old_cost = current * or_else (iv_average_entry_price inventory) 0;
                   new_quantity = current + quantity; fill_price = or_else price 0;
                   inv = inventory\<lparr>iv_managed_quantity := new_quantity,
                           iv_cumulative_bought := iv_cumulative_bought inventory + quantity\<rparr>
               in if 0 < fill_price
                  then bindE (fdiv (old_cost + quantity * fill_price) new_quantity) (\<lambda>a. Inr (inv\<lparr>iv_average_entry_price := Some a\<rparr>))
                  else Inr inv)
         else guardE (current + dust < quantity) (ValueError ''SELL_EXCEEDS_ATLAS_MANAGED_INVENTORY'')
           (let left = pymax 0 (current - quantity);
                inv = inventory\<lparr>iv_managed_quantity := left, iv_cumulative_sold := iv_cumulative_sold inventory + quantity\<rparr>
            in Inr (if left \<le> dust then inv\<lparr>iv_managed_quantity := 0, iv_average_entry_price := None\<rparr> else inv))))"

record slots =
  sl_count :: nat
  sl_dust :: "string list"
  sl_unverified :: "string list"

definition no_slots :: slots where
  "no_slots = \<lparr>sl_count = 0, sl_dust = [], sl_unverified = []\<rparr>"

definition managed_buy_is_blocked :: "string \<Rightarrow> pyfloat \<Rightarrow> slots \<Rightarrow> bool" where
  "managed_buy_is_blocked symbol value s =
     (if \<not> isfinite value \<or> value < 0 then True
      else if value \<le> dust then False
      else (let name = canonical_symbol (PStr symbol) in name \<notin> set (sl_dust s) \<or> name \<in> set (sl_unverified s)))"

definition slot_check :: "managed_inventory_row \<Rightarrow> string \<times> string \<Rightarrow> unit res" where
  \<comment> \<open>the metadata and the quantity are sane, and the quantity reaches a lot\<close>
  "slot_check held lot =
     (let (step, minimum) = lot
      in bindE (py_float (PStr step)) (\<lambda>s. bindE (float_or0 (PStr minimum)) (\<lambda>m. let q = iv_managed_quantity held in
         guardE (\<not> list_all isfinite [s, m, q] \<or> s \<le> 0 \<or> m < 0 \<or> q \<le> 0) (ValueError ''INVALID_SLOT_METADATA'')
           (bindE (normalize_spot_qty (PFloat q) (PStr step) (PStr minimum)) (\<lambda>_. Inr ())))))"

definition slot_step :: "env \<Rightarrow> bybit_client \<Rightarrow> slots \<Rightarrow> managed_inventory_row \<Rightarrow> slots prog" where
  "slot_step E c s held =
     (let symbol = canonical_symbol (PStr (iv_symbol held));
          counted = s\<lparr>sl_count := sl_count s + 1\<rparr>
      in tryP (bindP (by_spot_lot_size E c symbol) (\<lambda>lot. bindP (liftP (slot_check held lot)) (\<lambda>_. retP counted)))
          is_exception
          (\<lambda>e. if e = bybit_error ''SPOT_QUANTITY_BELOW_MINIMUM'' then retP (s\<lparr>sl_dust := sl_dust s @ [symbol]\<rparr>)
                else retP (counted\<lparr>sl_unverified := sl_unverified s @ [symbol]\<rparr>)))"

definition managed_position_slots :: "env \<Rightarrow> bybit_client \<Rightarrow> managed_inventory_row list \<Rightarrow> slots prog" where
  "managed_position_slots E c inventories = foldP (slot_step E c) no_slots inventories"

definition bybit_client_of :: "env \<Rightarrow> broker_profile \<Rightarrow> bybit_client res" where
  "bybit_client_of E p =
     (let environment = str_upper (bp_environment p)
      in bindE (if environment = ''TESTNET'' then Inr (en_bybit_testnet E)
                else if environment = ''DEMO'' then Inr (en_bybit_demo E)
                else Inl (RuntimeError ''BYBIT_SIMULATION_ENVIRONMENT_REQUIRED'')) (\<lambda>base.
         case (bp_api_key_encrypted p, bp_api_secret_encrypted p) of
           (Some k, Some s) \<Rightarrow>
             if k = [] \<or> s = [] then Inl (RuntimeError ''BYBIT_CREDENTIALS_MISSING'')
             else bindE (en_decrypt E k) (\<lambda>key. bindE (en_decrypt E s) (\<lambda>_.
                    Inr \<lparr>by_api_key = key, by_base = rev (dropWhile (\<lambda>ch. ch = CHR ''/'') (rev base))\<rparr>))
         | _ \<Rightarrow> Inl (RuntimeError ''BYBIT_CREDENTIALS_MISSING'')))"

definition managed_inventory :: "nat \<Rightarrow> string \<Rightarrow> db \<Rightarrow> managed_inventory_row option" where
  "managed_inventory profile_id symbol d =
     find (\<lambda>i. iv_broker_profile_id i = profile_id \<and> iv_symbol i = canonical_symbol (PStr symbol)) (db_inventories d)"

section \<open>Order history\<close>

definition FILLED_STATUSES :: "string list" where
  "FILLED_STATUSES = [''FILLED'', ''PARTIALLYFILLED'']"

definition matching_history_row :: "pydict list \<Rightarrow> string \<Rightarrow> pydict option" where
  "matching_history_row history link =
     find (\<lambda>row. str_or_empty (dget row ''orderLinkId'') = link
                  \<and> upper_or_empty (dget row ''orderStatus'') \<in> set FILLED_STATUSES) history"

definition zero_quantity :: "pydict \<Rightarrow> bool" where
  \<comment> \<open>\<open>Decimal(str(row['cumExecQty']))\<close> is a finite zero\<close>
  "zero_quantity row = (case bindE (dsub row ''cumExecQty'') py_decimal of Inr (Dec x) \<Rightarrow> x = 0 | _ \<Rightarrow> False)"

definition zero_fill_cancellation :: "pydict \<Rightarrow> pyval \<Rightarrow> pyval \<Rightarrow> pyval \<Rightarrow> pyval \<Rightarrow> bool" where
  "zero_fill_cancellation row symbol side order_id order_link_id =
     (if \<not> truth order_id \<and> \<not> truth order_link_id then False
      else if truth order_id \<and> str_or_empty (dget row ''orderId'') \<noteq> py_str order_id then False
      else if truth order_link_id \<and> \<not> py_eq (dget row ''orderLinkId'') order_link_id then False
      else if canonical_symbol (dget row ''symbol'') \<noteq> canonical_symbol symbol then False
      else if upper_or_empty (dget row ''side'') \<noteq> upper_or_empty side then False
      else if upper_or_empty (dget row ''orderStatus'') \<noteq> ''CANCELLED'' then False
      else zero_quantity row)"

definition fill_quantity :: "pydict \<Rightarrow> pyfloat \<Rightarrow> pyfloat res" where
  "fill_quantity row fallback =
     (let value = (\<lambda>key. tryE (float_or0 (dget row key)) is_type_or_value (\<lambda>_. Inr 0))
      in bindE (value ''cumExecQty'') (\<lambda>a. if 0 < a then Inr a else
         bindE (value ''execQty'') (\<lambda>b. if 0 < b then Inr b else
         bindE (value ''qty'') (\<lambda>c. if 0 < c then Inr c else Inr fallback))))"

definition fill_price :: "pydict \<Rightarrow> pyfloat option res" where
  "fill_price row =
     (let value = (\<lambda>key. tryE (float_or0 (dget row key)) is_type_or_value (\<lambda>_. Inr 0))
      in bindE (value ''avgPrice'') (\<lambda>a. if 0 < a then Inr (Some a) else
         bindE (value ''price'') (\<lambda>b. if 0 < b then Inr (Some b) else Inr None)))"

definition base_coin :: "string \<Rightarrow> string res" where
  "base_coin symbol0 =
     (let symbol = canonical_symbol (PStr symbol0)
      in case find (\<lambda>q. ends_with q symbol \<and> length q < length symbol) [''USDT'', ''USDC'', ''USD''] of
           Some q \<Rightarrow> Inr (take (length symbol - length q) symbol)
         | None \<Rightarrow> Inl (ValueError (''UNSUPPORTED_SPOT_QUOTE:'' @ symbol)))"

definition wallet_coin_quantity :: "pydict \<Rightarrow> string \<Rightarrow> pyfloat res" where
  "wallet_coin_quantity wallet coin =
     bindE (wallet_coins wallet) (\<lambda>coins.
       case find (\<lambda>row. upper_or_empty (dget row ''coin'') = str_upper coin) coins of
         None \<Rightarrow> Inr 0
       | Some row \<Rightarrow> tryE (bindE (float_or0 (dget row ''walletBalance'')) (\<lambda>q. Inr (pymax 0 q))) is_type_or_value (\<lambda>_. Inr 0))"

fun verify_spot_fill :: "env \<Rightarrow> bybit_client \<Rightarrow> string \<Rightarrow> bool \<Rightarrow> nat \<Rightarrow> pydict option prog" where
  \<comment> \<open>at most the given number of reads; a sleep before every read but the first\<close>
  "verify_spot_fill E c link first 0 = retP None"
| "verify_spot_fill E c link first (Suc n) =
     seqP (if first then retP () else suspend E)
       (bindP (by_spot_order_history E c 100) (\<lambda>h.
        bindP (liftP (bindE (vget h ''list'') (\<lambda>l. bindE (as_list (py_or l (PList []))) (mapE as_dict)))) (\<lambda>history.
          case matching_history_row history link of
            Some row \<Rightarrow> retP (Some row)
          | None \<Rightarrow>
              (case find (\<lambda>r. zero_fill_cancellation r (dget r ''symbol'') (dget r ''side'') PNone (PStr link)) history of
                 Some row \<Rightarrow> retP (Some row)
               | None \<Rightarrow> verify_spot_fill E c link False n))))"

section \<open>Reconciliation of cancelled submissions\<close>

definition SIMULATION_ENVS :: "string list" where
  "SIMULATION_ENVS = [''TESTNET'', ''DEMO'']"

definition submitted_actions :: "nat \<Rightarrow> nat \<Rightarrow> string \<Rightarrow> string \<Rightarrow> db \<Rightarrow> automation_action list" where
  \<comment> \<open>the unresolved Bybit submissions of a user, profile, environment and symbol, oldest first\<close>
  "submitted_actions user_id profile_id environment symbol d =
     sort_key ac_created_at (filter (\<lambda>a. ac_user_id a = user_id \<and> ac_broker_profile_id a = Some profile_id
       \<and> ac_provider a = ''BYBIT'' \<and> ac_environment a = Some environment \<and> ac_symbol a = symbol
       \<and> ac_status a = ''SUBMITTED'') (db_actions d))"

definition audit_link :: "pydict \<Rightarrow> pyval" where
  "audit_link audit = (case py_or (dget audit ''result'') (PDict []) of PDict r \<Rightarrow> dget r ''order_link_id'' | _ \<Rightarrow> PNone)"

definition evidence_keys :: "string list" where
  "evidence_keys = [''orderId'', ''orderLinkId'', ''symbol'', ''side'', ''orderStatus'', ''cumExecQty'', ''cancelType'',
     ''rejectReason'', ''updatedTime'']"

definition set_audit :: "string \<Rightarrow> pyval \<Rightarrow> pyval \<Rightarrow> pyval res" where
  \<comment> \<open>\<open>audit[key] = v\<close>\<close>
  "set_audit k v audit = (case audit of PDict d \<Rightarrow> Inr (PDict (dset k v d)) | _ \<Rightarrow> Inl TypeError)"

definition cancel_action :: "nat \<Rightarrow> pydict \<Rightarrow> int \<Rightarrow> bool prog" where
  \<comment> \<open>refresh the action; only if it is still SUBMITTED record the proven cancellation\<close>
  "cancel_action action_id evidence now =
     bindP (getP (\<lambda>w. by_key ac_id action_id (db_actions (w_db w)))) (\<lambda>r. case r of
       None \<Rightarrow> liftP (Inl SQLAlchemyError)
     | Some a \<Rightarrow>
         if ac_status a \<noteq> ''SUBMITTED'' then retP False
         else bindP (liftP (bindE (json_loads (ac_raw_json a))
                (set_audit ''cancellation_reconciliation'' (PDict [(''broker_order'', PDict evidence), (''checked_at'', PInt now)])))) (\<lambda>audit.
           seqP (modify_db (\<lambda>d. d\<lparr>db_actions := update_key ac_id action_id
                   (\<lambda>a. a\<lparr>ac_status := ''CANCELLED'', ac_reason := Some ''BROKER_ZERO_FILL_CANCELLED'', ac_raw_json := Some (Json audit)\<rparr>)
                   (db_actions d)\<rparr>))
             (retP True)))"

definition reconcile_one :: "env \<Rightarrow> bybit_client \<Rightarrow> automation_action \<Rightarrow> bool prog" where
  \<comment> \<open>one pass of the loop: whether the action was cancelled; an error other than the database's is recorded, not raised\<close>
  "reconcile_one E c action =
     tryP (bindP (liftP (bindE (json_loads (ac_raw_json action)) (\<lambda>a. case a of PDict d \<Rightarrow> Inr d | _ \<Rightarrow> Inl (ValueError ''INVALID_ACTION_AUDIT'')))) (\<lambda>audit.
           case ac_broker_order_id action of
             None \<Rightarrow> retP False
           | Some order_id \<Rightarrow>
               if order_id = [] then retP False else
               bindP (liftP (epoch_ms (ac_created_at action - 86400000000))) (\<lambda>from_ms.
               bindP (liftP (epoch_ms (ac_created_at action + 86400000000))) (\<lambda>to_ms.
               bindP (by_get E c ''/v5/order/history'' [(''category'', PStr ''spot''), (''orderId'', PStr order_id), (''limit'', PInt 50),
                        (''startTime'', PInt from_ms), (''endTime'', PInt to_ms)]) (\<lambda>history.
               bindP (liftP (bindE (as_dict history) (\<lambda>h. bindE (as_list (dget_or h ''list'' (PList []))) (mapE as_dict)))) (\<lambda>rows.
                 case filter (\<lambda>row. zero_fill_cancellation row (PStr (ac_symbol action)) (opt_val PStr (ac_side action))
                                    (PStr order_id) (audit_link audit)) rows of
                   [m] \<Rightarrow> bindP (getP w_tick) (\<lambda>t. cancel_action (ac_id action) (map (\<lambda>k. (k, dget m k)) evidence_keys) (en_now E t))
                 | _ \<Rightarrow> retP False))))))
       (\<lambda>e. is_exception e \<and> e \<noteq> SQLAlchemyError) (\<lambda>e. retP False)"

definition reconcile_cancelled_submissions ::
    "env \<Rightarrow> broker_profile \<Rightarrow> nat \<Rightarrow> string \<Rightarrow> (nat \<times> bool) list prog" where
  \<comment> \<open>the identifiers of the checked actions and whether each was cancelled\<close>
  "reconcile_cancelled_submissions E p user_id symbol =
     (let environment = str_upper (bp_environment p)
      in if bp_provider p \<noteq> ''BYBIT'' \<or> environment \<notin> set SIMULATION_ENVS \<or> bp_user_id p \<noteq> user_id \<or> \<not> bp_credentials_configured p
         then retP []
         else bindP (getP (\<lambda>w. take 50 (submitted_actions user_id (bp_id p) environment (canonical_symbol (PStr symbol)) (w_db w)))) (\<lambda>actions.
           if actions = [] then retP []
           else bindP (liftP (bybit_client_of E p)) (\<lambda>c.
             foldP (\<lambda>out a. bindP (reconcile_one E c a) (\<lambda>b. retP (out @ [(ac_id a, b)]))) [] actions)))"

section \<open>Executing a managed order\<close>

definition spot_base :: "string \<Rightarrow> string \<Rightarrow> string \<Rightarrow> pyfloat \<Rightarrow> pydict" where
  "spot_base environment symbol side quantity =
     [(''provider'', PStr ''BYBIT''), (''environment'', PStr environment), (''product'', PStr ''SPOT''), (''symbol'', PStr symbol),
      (''side'', PStr side), (''quantity'', PFloat quantity), (''sizing_policy'', PStr ''ATLAS_MANAGED_SPOT_INVENTORY'')]"

definition outcome :: "string \<Rightarrow> string \<Rightarrow> pydict \<Rightarrow> pydict" where
  \<comment> \<open>\<open>{**base, 'status': s, 'reason': r}\<close>\<close>
  "outcome s r base = dset ''reason'' (PStr r) (dset ''status'' (PStr s) base)"

definition outcome_with :: "string \<Rightarrow> string \<Rightarrow> pydict \<Rightarrow> pydict \<Rightarrow> pydict" where
  \<comment> \<open>the same with further entries\<close>
  "outcome_with s r extra base = dmerge (outcome s r base) extra"

definition spot_route_blocker :: "broker_profile \<Rightarrow> string \<Rightarrow> string \<Rightarrow> pyfloat \<Rightarrow> string option" where
  "spot_route_blocker p environment side quantity =
     (if environment \<notin> set SIMULATION_ENVS then Some ''BYBIT_TESTNET_OR_DEMO_REQUIRED''
      else if \<not> bp_execution_certified p \<or> \<not> bp_execution_certification_buy_passed p \<or> \<not> bp_execution_certification_sell_passed p
      then Some ''BYBIT_SPOT_CERTIFICATION_REQUIRED''
      else if \<not> route_ready p then Some ''ROUTE_NOT_READY''
      else if side \<notin> set [''BUY'', ''SELL''] \<or> quantity \<le> 0 then Some ''INVALID_ORDER_PROPOSAL''
      else None)"

definition first_pending :: "nat \<Rightarrow> nat \<Rightarrow> string \<Rightarrow> string \<Rightarrow> automation_action option prog" where
  "first_pending user_id profile_id environment symbol =
     getP (\<lambda>w. case submitted_actions user_id profile_id environment symbol (w_db w) of [] \<Rightarrow> None | a # _ \<Rightarrow> Some a)"

definition pending_after_reconciliation :: "env \<Rightarrow> broker_profile \<Rightarrow> nat \<Rightarrow> string \<Rightarrow> string \<Rightarrow> automation_action option prog" where
  "pending_after_reconciliation E p user_id environment symbol =
     bindP (first_pending user_id (bp_id p) environment symbol) (\<lambda>pending. case pending of
       None \<Rightarrow> retP None
     | Some a \<Rightarrow>
         if truth (opt_val PStr (ac_broker_order_id a))
         then bindP (reconcile_cancelled_submissions E p user_id symbol) (\<lambda>_. first_pending user_id (bp_id p) environment symbol)
         else retP (Some a))"

definition buy_slots :: "env \<Rightarrow> broker_profile \<Rightarrow> string \<Rightarrow> managed_inventory_row option \<Rightarrow> slots prog" where
  \<comment> \<open>any failure of the dust check leaves the symbol unverified\<close>
  "buy_slots E p symbol inventory =
     tryP (bindP (liftP (bybit_client_of E p)) (\<lambda>c. case inventory of
             None \<Rightarrow> liftP (Inl AttributeError)
           | Some i \<Rightarrow> managed_position_slots E c [i]))
       is_exception (\<lambda>_. retP \<lparr>sl_count = 0, sl_dust = [], sl_unverified = [symbol]\<rparr>)"

definition write_inventory :: "managed_inventory_row \<Rightarrow> unit prog" where
  \<comment> \<open>the flush of a changed inventory object: its quantity columns by identifier\<close>
  "write_inventory i = bindP (getP (\<lambda>w. by_key iv_id (iv_id i) (db_inventories (w_db w)))) (\<lambda>r. case r of
       None \<Rightarrow> liftP (Inl SQLAlchemyError)
     | Some _ \<Rightarrow> modify_db (\<lambda>d. d\<lparr>db_inventories := update_key iv_id (iv_id i)
         (\<lambda>row. row\<lparr>iv_managed_quantity := iv_managed_quantity i, iv_average_entry_price := iv_average_entry_price i,
                 iv_cumulative_bought := iv_cumulative_bought i, iv_cumulative_sold := iv_cumulative_sold i\<rparr>)
         (db_inventories d)\<rparr>))"

definition new_inventory :: "nat \<Rightarrow> nat \<Rightarrow> string \<Rightarrow> managed_inventory_row prog" where
  \<comment> \<open>\<open>db.add\<close> of an empty inventory; its row appears with the next flush\<close>
  "new_inventory user_id profile_id symbol =
     bindP (getP (\<lambda>w. db_next_id (w_db w))) (\<lambda>i.
       let row = \<lparr>iv_id = i, iv_user_id = user_id, iv_broker_profile_id = profile_id, iv_symbol = symbol,
                  iv_managed_quantity = 0, iv_average_entry_price = None, iv_cumulative_bought = 0, iv_cumulative_sold = 0\<rparr>
       in seqP (modify_db (\<lambda>d. d\<lparr>db_inventories := db_inventories d @ [row], db_next_id := i + 1\<rparr>)) (retP row))"

datatype sell_gate =
    Sell_blocked pydict
  | Sell_ready "managed_inventory_row option" pyfloat pyfloat bool
      \<comment> \<open>the inventory, the managed quantity, the quantity to sell, whether the inventory was reconciled\<close>

definition sell_on :: "pydict \<Rightarrow> managed_inventory_row \<Rightarrow> pyfloat \<Rightarrow> pyfloat \<Rightarrow> pyfloat \<Rightarrow> sell_gate prog" where
  \<comment> \<open>the checks on the coin balance the broker reports\<close>
  "sell_on base i managed quantity broker =
     (if broker \<le> dust
      then seqP (write_inventory (i\<lparr>iv_managed_quantity := 0, iv_average_entry_price := None\<rparr>))
             (retP (Sell_blocked (outcome_with ''BLOCK'' ''BROKER_SPOT_BALANCE_EMPTY_RECONCILED''
                [(''managed_quantity_before'', PFloat managed), (''managed_quantity_after'', PFloat 0), (''broker_quantity'', PFloat broker)] base)))
      else let short = broker + dust < managed;
               i' = (if short then i\<lparr>iv_managed_quantity := broker\<rparr> else i);
               managed' = (if short then broker else managed);
               q = pymin (pymin quantity managed') broker
           in seqP (if short then write_inventory i' else retP ())
                (if q \<le> dust
                 then retP (Sell_blocked (outcome_with ''BLOCK'' ''NO_SELLABLE_ATLAS_MANAGED_INVENTORY''
                   [(''managed_quantity'', PFloat managed'), (''broker_quantity'', PFloat broker)] (dset ''quantity'' (PFloat q) base)))
                 else retP (Sell_ready (Some i') managed' q short)))"

definition sell_checks ::
    "env \<Rightarrow> bybit_client \<Rightarrow> pydict \<Rightarrow> string \<Rightarrow> managed_inventory_row \<Rightarrow> pyfloat \<Rightarrow> pyfloat \<Rightarrow> sell_gate prog" where
  \<comment> \<open>the broker's balance bounds what is sold, and lowers the inventory when it is smaller\<close>
  "sell_checks E c base symbol i managed quantity =
     bindP (by_wallet E c) (\<lambda>wallet.
     bindP (liftP (base_coin symbol)) (\<lambda>coin.
     bindP (liftP (bindE (as_dict wallet) (\<lambda>d. wallet_coin_quantity d coin))) (sell_on base i managed quantity)))"

definition spot_entry_gate ::
    "env \<Rightarrow> broker_profile \<Rightarrow> pydict \<Rightarrow> string \<Rightarrow> string \<Rightarrow> managed_inventory_row option \<Rightarrow> pyfloat \<Rightarrow> pyfloat
       \<Rightarrow> (pydict + (pydict \<times> bybit_client option)) prog" where
  \<comment> \<open>the inventory checks before a client is needed: a blocked result, or the base of the result and the client opened by the dust check\<close>
  "spot_entry_gate E p base symbol side inventory managed quantity =
     (if side = ''BUY'' \<and> managed_buy_is_blocked symbol managed no_slots
      then bindP (buy_slots E p symbol inventory) (\<lambda>s.
        if managed_buy_is_blocked symbol managed s
        then retP (Inl (outcome_with ''BLOCK'' ''ATLAS_MANAGED_POSITION_ALREADY_OPEN'' [(''managed_quantity'', PFloat managed)] base))
        else retP (Inr (dset ''residual_quantity_dust'' (PFloat managed) base, case bybit_client_of E p of Inr c \<Rightarrow> Some c | Inl _ \<Rightarrow> None)))
      else if side = ''SELL'' \<and> (inventory = None \<or> managed \<le> dust)
      then retP (Inl (outcome_with ''BLOCK'' ''NO_ATLAS_MANAGED_INVENTORY'' [(''managed_quantity'', PFloat managed)] base))
      else if side = ''SELL'' \<and> managed + dust < quantity
      then retP (Inl (outcome_with ''BLOCK'' ''SELL_EXCEEDS_ATLAS_MANAGED_INVENTORY'' [(''managed_quantity'', PFloat managed)] base))
      else retP (Inr (base, None)))"

definition settle_fill ::
    "env \<Rightarrow> broker_profile \<Rightarrow> nat \<Rightarrow> pydict \<Rightarrow> string \<Rightarrow> string \<Rightarrow> managed_inventory_row option \<Rightarrow> pyfloat \<Rightarrow> pyfloat
       \<Rightarrow> bool \<Rightarrow> string \<Rightarrow> pydict \<Rightarrow> pydict option \<Rightarrow> string option \<Rightarrow> pydict prog" where
  \<comment> \<open>what follows the accepted order: the outcome for the fill found, and the inventory's update\<close>
  "settle_fill E p user_id base symbol side inventory managed quantity reconciled link broker_result fill verification_error =
     (let order_id = dget broker_result ''orderId'';
          before = (''managed_quantity_before'', PFloat managed);
          linked = [(''order_link_id'', PStr link), (''broker_order_id'', order_id)]
      in case fill of
        None \<Rightarrow> retP (outcome_with ''SUBMITTED'' ''BROKER_FILL_NOT_CONFIRMED''
          (linked @ [(''broker_result'', PDict broker_result), before, (''verification_error'', opt_val PStr verification_error)]) base)
      | Some row \<Rightarrow>
          if upper_or_empty (dget row ''orderStatus'') = ''CANCELLED''
          then (let cancelled = zero_fill_cancellation row (PStr symbol) (PStr side) order_id (PStr link)
                in retP (outcome_with (if cancelled then ''CANCELLED'' else ''SUBMITTED'')
                     (if cancelled then ''BROKER_ZERO_FILL_CANCELLED'' else ''BROKER_FILL_NOT_CONFIRMED'')
                     (linked @ [(''broker_result'', PDict (dset ''terminal_order'' (PDict row) broker_result)), before]) base))
          else bindP (liftP (fill_quantity row quantity)) (\<lambda>filled.
               bindP (liftP (fill_price row)) (\<lambda>price.
                 if side = ''SELL'' \<and> managed + dust < filled
                 then retP (outcome_with ''BLOCK'' ''BROKER_FILL_EXCEEDS_ATLAS_MANAGED_INVENTORY''
                   [(''order_link_id'', PStr link), (''broker_result'', PDict broker_result)] base)
                 else bindP (case inventory of Some i \<Rightarrow> retP i | None \<Rightarrow> new_inventory user_id (bp_id p) symbol) (\<lambda>i.
                      bindP (liftP (apply_managed_fill i side filled price)) (\<lambda>i'.
                      seqP (write_inventory i')
                        (bindP (getP w_tick) (\<lambda>t.
                         retP (dmerge base
                          [(''status'', PStr ''EXECUTED''), (''order_link_id'', PStr link),
                           (''broker_order_id'', py_or (dget row ''orderId'') order_id), (''filled_quantity'', PFloat filled),
                           (''fill_price'', opt_val PFloat price), before,
                           (''managed_quantity_after'', PFloat (iv_managed_quantity i')),
                           (''reconciliation'', if reconciled then PStr ''ATLAS_MANAGED_INVENTORY_RECONCILED_TO_BROKER_BALANCE'' else PNone),
                           (''broker_result'', PDict (dset ''fill'' (PDict row) broker_result)),
                           (''executed_at'', PInt (en_now E t))]))))))))"

definition execute_managed_spot_order ::
    "env \<Rightarrow> broker_profile \<Rightarrow> nat \<Rightarrow> string \<Rightarrow> string \<Rightarrow> pyfloat \<Rightarrow> pydict prog" where
  "execute_managed_spot_order E p user_id symbol0 side0 quantity =
     (let symbol = canonical_symbol (PStr symbol0); side = str_upper side0; environment = str_upper (bp_environment p);
          base = spot_base environment symbol side quantity
      in case spot_route_blocker p environment side quantity of
        Some r \<Rightarrow> retP (outcome ''BLOCK'' r base)
      | None \<Rightarrow>
         bindP (pending_after_reconciliation E p user_id environment symbol) (\<lambda>pending. case pending of
           Some a \<Rightarrow> retP (outcome_with ''BLOCK'' ''BYBIT_SUBMISSION_RECONCILIATION_REQUIRED''
             [(''pending_action_id'', PStr (show_int (int (ac_id a)))), (''pending_broker_order_id'', opt_val PStr (ac_broker_order_id a))] base)
         | None \<Rightarrow>
           bindP (getP (\<lambda>w. managed_inventory (bp_id p) symbol (w_db w))) (\<lambda>inventory.
           let managed = (case inventory of Some i \<Rightarrow> iv_managed_quantity i | None \<Rightarrow> 0)
           in bindP (spot_entry_gate E p base symbol side inventory managed quantity) (\<lambda>gate. case gate of
                Inl blocked \<Rightarrow> retP blocked
              | Inr (base, opened) \<Rightarrow>
                bindP (case opened of Some c \<Rightarrow> retP c | None \<Rightarrow> liftP (bybit_client_of E p)) (\<lambda>c.
                bindP (case inventory of
                         Some i \<Rightarrow> if side = ''SELL'' then sell_checks E c base symbol i managed quantity
                                   else retP (Sell_ready inventory managed quantity False)
                       | None \<Rightarrow> retP (Sell_ready inventory managed quantity False)) (\<lambda>ready. case ready of
                  Sell_blocked blocked \<Rightarrow> retP blocked
                | Sell_ready inv' managed' q reconciled \<Rightarrow>
                  bindP (getP (\<lambda>w. ''atlas-auto-'' @ take 20 (en_token E (w_tick w)))) (\<lambda>link.
                  bindP (by_place_test_spot_market_order E c symbol (if side = ''BUY'' then ''Buy'' else ''Sell'') q (Some link)
                           (entry_owner_blocker (bp_user_id p) (bp_id p))) (\<lambda>result.
                  bindP (liftP (as_dict result)) (\<lambda>broker_result.
                  bindP (tryP (bindP (verify_spot_fill E c link True 6) (\<lambda>f. retP (f, None))) is_exception
                           (\<lambda>e. retP (None, Some (exn_name e)))) (\<lambda>(fill, verification_error).
                    settle_fill E p user_id (dset ''quantity'' (PFloat q) base) symbol side inv' managed' q reconciled link
                      broker_result fill verification_error))))))))))"

section \<open>The inventory under fills\<close>

definition inventory_ok :: "managed_inventory_row \<Rightarrow> bool" where
  \<comment> \<open>the managed quantity is a float that is not negative (and not NaN)\<close>
  "inventory_ok i \<longleftrightarrow> is_float (iv_managed_quantity i) \<and> 0 \<le> iv_managed_quantity i"

definition apply_fills :: "managed_inventory_row \<Rightarrow> (string \<times> pyfloat \<times> pyfloat option) list \<Rightarrow> managed_inventory_row res" where
  \<comment> \<open>the fills of successive orders\<close>
  "apply_fills i fills = foldE (\<lambda>i (side, q, price). apply_managed_fill i side q price) i fills"

lemma fill_bought:
  assumes "apply_managed_fill i side q price = Inr i'" and "str_upper side = ''BUY''"
  shows "iv_managed_quantity i' = iv_managed_quantity i + q \<and> iv_cumulative_bought i' = iv_cumulative_bought i + q
     \<and> iv_cumulative_sold i' = iv_cumulative_sold i \<and> \<not> q \<le> 0"
  using assms unfolding apply_managed_fill_def Let_def by (auto split: if_splits)

lemma fill_sold:
  assumes "apply_managed_fill i side q price = Inr i'" and "str_upper side = ''SELL''"
  shows "\<not> iv_managed_quantity i + dust < q \<and> \<not> q \<le> 0 \<and> iv_cumulative_sold i' = iv_cumulative_sold i + q
     \<and> (iv_managed_quantity i' = 0 \<and> iv_average_entry_price i' = None
         \<or> iv_managed_quantity i' = pymax 0 (iv_managed_quantity i - q))"
  using assms unfolding apply_managed_fill_def Let_def by (auto simp: guardE_Inr_iff split: if_splits)

lemma fill_side: "apply_managed_fill i side q price = Inr i' \<Longrightarrow> str_upper side = ''BUY'' \<or> str_upper side = ''SELL''"
  unfolding apply_managed_fill_def Let_def by (auto simp: guardE_Inr_iff)

lemma pymax_zero: "pymax 0 x = (if 0 < x then x else 0)"
  by (simp add: pymax_def)

lemma is_float_sub: "is_float x \<Longrightarrow> is_float y \<Longrightarrow> is_float (x - y)"
  using float_op_closed(1) [of x "- y"] float_op_closed(2) [of y] by (simp add: float_op_defs)

lemma fsub_below:
  assumes "is_float m" and "0 \<le> m" and "0 \<le> q"
  shows "pymax 0 (m - q) \<le> m"
proof (cases "0 < m - q")
  case False
  with assms(2) show ?thesis by (simp add: pymax_zero)
next
  case True
  show ?thesis
  proof (cases m)
    case (Fin a)
    with assms fsub_le_of_nonneg [of a q] True show ?thesis by (simp add: pymax_zero)
  next
    case PosInf
    have "m - q \<noteq> NaN" using True by (metis NaN_order(2))
    with True PosInf show ?thesis by (simp add: pymax_zero)
  qed (use assms in auto)
qed

lemma dust_nonneg: "0 \<le> dust" and dust_float: "is_float dust"
  by (simp_all add: dust_def fl_def fin_nonneg)

lemma fill_keeps:
  assumes "apply_managed_fill i side q price = Inr i'" and "inventory_ok i" and "is_float q" and "q \<noteq> NaN"
  shows "inventory_ok i' \<and> (str_upper side = ''SELL'' \<longrightarrow> iv_managed_quantity i' \<le> iv_managed_quantity i
       \<and> q \<le> iv_managed_quantity i + dust)"
  using fill_side [OF assms(1)]
proof
  assume b: "str_upper side = ''BUY''"
  have "0 \<le> q" using fill_bought [OF assms(1) b] assms(4) by (cases q) (auto simp: zero_Fin)
  with fill_bought [OF assms(1) b] assms b show ?thesis
    by (simp add: inventory_ok_def float_op_closed fadd_nonneg)
next
  assume s: "str_upper side = ''SELL''"
  let ?m = "iv_managed_quantity i"
  note f = fill_sold [OF assms(1) s]
  have q: "0 \<le> q" using f assms(4) by (cases q) (auto simp: zero_Fin)
  have le: "pymax 0 (?m - q) \<le> ?m" using q assms by (intro fsub_below) (auto simp: inventory_ok_def)
  have fl: "is_float (pymax 0 (?m - q))" using assms is_float_sub by (auto simp: pymax_def inventory_ok_def zero_Fin)
  have "0 \<le> ?m + dust" using assms(2) dust_nonneg by (simp add: inventory_ok_def fadd_nonneg)
  then have "?m + dust \<noteq> NaN" by auto
  then have "q \<le> ?m + dust" using f assms(4) by (simp add: float_not_less)
  moreover have "is_float 0" and "(0::pyfloat) \<le> 0" by (simp_all add: zero_Fin)
  ultimately show ?thesis using f le fl assms(2) pymax_zero_nonneg
    by (auto simp: inventory_ok_def)
qed


lemma dust_small: "dust < Fin 1" "\<not> Fin 1 \<le> dust" "\<not> Fin 2 \<le> dust"
proof -
  have "(1 / 10 ^ 12 :: rat) \<le> 1 / 2" by simp
  from fin_mono [OF this] have "dust \<le> Fin (1 / 2)" using fl_halves by (simp add: dust_def fl_def)
  moreover have "Fin (1 / 2) < Fin 1" by simp
  ultimately have l: "dust < Fin 1" by (rule float_le_less_trans)
  moreover have "Fin 1 < Fin 2" by simp
  ultimately have "dust < Fin 2" by (metis float_less_le float_less_le_trans)
  with l show "dust < Fin 1" "\<not> Fin 1 \<le> dust" "\<not> Fin 2 \<le> dust"
    by (metis NaN_order(1,2) float_not_le)+
qed


section \<open>What a managed order may sell, and what settles it\<close>

lemma bindP_ResE:
  assumes "bindP (liftP r) f w = (Inr y, w')"
  obtains x where "r = Inr x" and "f x w = (Inr y, w')"
  using assms by (cases r) (auto simp: bindP_def)

lemma write_inventory_result: "write_inventory i w = (Inr u, w') \<Longrightarrow> w_log w' = w_log w"
  by (auto simp: write_inventory_def bindP_def modify_db_def split: option.splits)

lemma wallet_coin_quantity_not_NaN:
  assumes "wallet_coin_quantity wallet coin = Inr balance" shows "balance \<noteq> NaN"
proof -
  have z: "pymax 0 x \<noteq> NaN" for x using pymax_zero_nonneg [of x] by auto
  have k: "b \<noteq> NaN" if "tryE (bindE r (\<lambda>q. Inr (pymax 0 q))) p (\<lambda>_. Inr 0) = Inr b" for r p b
    using that z by (cases r) (auto split: if_splits)
  then show ?thesis using assms unfolding wallet_coin_quantity_def by (auto split: option.splits dest: k)
qed

text \<open>
  What a managed SELL may send (\<open>execute_managed_spot_order\<close>, the wallet checks): the quantity that
  survives them is above dust and bounded by the requested quantity, by the managed inventory, and by
  the coin balance the broker has just reported; the inventory is lowered to that balance when it
  exceeds it by more than dust, and is otherwise left as it was.
\<close>

theorem sell_checks_bounded:
  assumes "sell_checks E c base symbol i managed quantity w = (Inr (Sell_ready kept managed' q reconciled), w')"
    and "managed \<noteq> NaN" and "quantity \<noteq> NaN"
  shows "\<exists>wallet w1 coin d balance. by_wallet E c w = (Inr wallet, w1) \<and> base_coin symbol = Inr coin
     \<and> as_dict wallet = Inr d \<and> wallet_coin_quantity d coin = Inr balance
     \<and> dust < q \<and> q \<le> quantity \<and> q \<le> managed' \<and> q \<le> balance
     \<and> managed' = (if balance + dust < managed then balance else managed)"
proof -
  from assms(1) obtain wallet w1 where wa: "by_wallet E c w = (Inr wallet, w1)"
    and 1: "bindP (liftP (base_coin symbol)) (\<lambda>coin.
       bindP (liftP (bindE (as_dict wallet) (\<lambda>d. wallet_coin_quantity d coin))) (sell_on base i managed quantity)) w1
         = (Inr (Sell_ready kept managed' q reconciled), w')"
    unfolding sell_checks_def by (rule bindP_InrE)
  from 1 obtain coin where co: "base_coin symbol = Inr coin"
    and 2: "bindP (liftP (bindE (as_dict wallet) (\<lambda>d. wallet_coin_quantity d coin))) (sell_on base i managed quantity) w1
         = (Inr (Sell_ready kept managed' q reconciled), w')"
    by (rule bindP_ResE)
  from 2 obtain balance where b: "bindE (as_dict wallet) (\<lambda>d. wallet_coin_quantity d coin) = Inr balance"
    and 3: "sell_on base i managed quantity balance w1 = (Inr (Sell_ready kept managed' q reconciled), w')"
    by (rule bindP_ResE)
  have ready: "\<not> q \<le> dust" "managed' = (if balance + dust < managed then balance else managed)"
      "q = pymin (pymin quantity managed') balance"
    using 3 unfolding sell_on_def Let_def by (auto elim!: seqP_InrE split: if_splits)
  from b obtain d where d: "as_dict wallet = Inr d" "wallet_coin_quantity d coin = Inr balance" by auto
  have n: "balance \<noteq> NaN" by (rule wallet_coin_quantity_not_NaN [OF d(2)])
  then have m: "managed' \<noteq> NaN" using assms(2) ready(2) by simp
  have qm: "pymin quantity managed' \<noteq> NaN" using m assms(3) pymin_cases by metis
  have qn: "q \<noteq> NaN" using qm n ready(3) pymin_cases by metis
  have "dust \<noteq> NaN" using dust_nonneg by auto
  with ready(1) qn have "dust < q" by (simp add: float_not_le)
  moreover have "q \<le> balance" "q \<le> pymin quantity managed'" using pymin_le [OF qm n] ready(3) by auto
  moreover have "pymin quantity managed' \<le> quantity" "pymin quantity managed' \<le> managed'"
    using pymin_le [OF assms(3) m] by auto
  ultimately show ?thesis using wa co d ready(2) float_le_trans by blast
qed
definition example_wallet :: pyval where
  "example_wallet = PDict [(''retCode'', PInt 0), (''result'', PDict [(''list'',
     PList [PDict [(''coin'', PList [PDict [(''coin'', PStr ''BTC''), (''walletBalance'', PFloat (Fin 2))]])]])])]"

definition example_spot_env :: env where
  \<comment> \<open>a Bybit account that holds two coins and has no order\<close>
  "example_spot_env = example_env\<lparr>en_http := (\<lambda>_ _ req. case req of
     Get path _ \<Rightarrow> if path = ''/v5/account/wallet-balance'' then Inr example_wallet else Inl ConnectError
   | Post _ _ \<Rightarrow> Inl ConnectError)\<rparr>"

theorem sell_checks_bounded_witness:
  "\<exists>wallet w1 coin d balance. by_wallet example_spot_env \<lparr>by_api_key = ''k'', by_base = ''b''\<rparr> example_world = (Inr wallet, w1)
     \<and> base_coin ''BTCUSDT'' = Inr coin \<and> as_dict wallet = Inr d \<and> wallet_coin_quantity d coin = Inr balance
     \<and> dust < Fin 1 \<and> Fin 1 \<le> Fin 1 \<and> Fin 1 \<le> Fin 2 \<and> Fin 1 \<le> balance
     \<and> Fin 2 = (if balance + dust < Fin 2 then balance else Fin 2)"
proof -
  let ?i = "\<lparr>iv_id = 5, iv_user_id = 6, iv_broker_profile_id = 2, iv_symbol = ''BTCUSDT'', iv_managed_quantity = Fin 2,
    iv_average_entry_price = None, iv_cumulative_bought = Fin 2, iv_cumulative_sold = 0\<rparr>"
  have w: "bindE (as_dict (PDict [(''list'', PList [PDict [(''coin'', PList [PDict [(''coin'', PStr ''BTC''), (''walletBalance'', PFloat (Fin 2))]])]])]))
     (\<lambda>d. wallet_coin_quantity d ''BTC'') = Inr (Fin 2)" by code_simp
  have c: "base_coin ''BTCUSDT'' = Inr ''BTC''" by code_simp
  have "Fin 2 \<le> Fin 2 + dust" using fadd_mono [OF dust_nonneg, of "Fin 2"] by (simp add: zero_Fin fadd_commute)
  then have s: "\<not> Fin 2 + dust < Fin 2" by (cases "Fin 2 + dust") auto
  let ?c = "\<lparr>by_api_key = ''k'', by_base = ''b''\<rparr>"
  have "bybit_result example_wallet = Inr (PDict [(''list'', PList [PDict [(''coin'', PList [PDict [(''coin'', PStr ''BTC''), (''walletBalance'', PFloat (Fin 2))]])]])])"
    by code_simp
  then obtain w1 where b: "by_wallet example_spot_env ?c example_world
     = (Inr (PDict [(''list'', PList [PDict [(''coin'', PList [PDict [(''coin'', PStr ''BTC''), (''walletBalance'', PFloat (Fin 2))]])]])]), w1)"
    by (simp add: by_wallet_def by_get_def http_def bindP_def example_spot_env_def)
  have o: "sell_on [] ?i (Fin 2) (Fin 1) (Fin 2) w = (Inr (Sell_ready (Some ?i) (Fin 2) (Fin 1) False), w)" for w
    using s dust_small by (simp add: sell_on_def seqP_def bindP_def pymin_def Let_def)
  have r: "sell_checks example_spot_env ?c [] ''BTCUSDT'' ?i (Fin 2) (Fin 1) example_world
    = (Inr (Sell_ready (Some ?i) (Fin 2) (Fin 1) False), w1)"
    unfolding sell_checks_def by (simp only: bindP_apply b prog_simps c w o prod.case sum.case)
  show ?thesis by (rule sell_checks_bounded [OF r]) simp_all
qed

section \<open>The evidence of a fill\<close>

definition fill_evidence :: "string \<Rightarrow> pydict \<Rightarrow> bool" where
  \<comment> \<open>a row of the order's own link: filled, or cancelled with nothing executed\<close>
  "fill_evidence link row \<longleftrightarrow> str_or_empty (dget row ''orderLinkId'') = link
     \<and> (upper_or_empty (dget row ''orderStatus'') \<in> set FILLED_STATUSES
        \<or> upper_or_empty (dget row ''orderStatus'') = ''CANCELLED'' \<and> zero_quantity row)"

lemma str_or_empty_PStr: "str_or_empty (PStr s) = s"
  by (cases s) (simp_all add: str_or_empty_def py_str_def)

lemma zero_fill_cancellation_link:
  assumes "zero_fill_cancellation row symbol side PNone (PStr link)"
  shows "fill_evidence link row"
proof -
  have t: "\<not> truth PNone" by simp
  from assms have l: "py_eq (dget row ''orderLinkId'') (PStr link)" and r: "upper_or_empty (dget row ''orderStatus'') = ''CANCELLED''"
    "zero_quantity row"
    unfolding zero_fill_cancellation_def by (auto simp: t split: if_splits)
  from l [unfolded py_eq_PStr] r show ?thesis by (simp add: fill_evidence_def str_or_empty_PStr)
qed

lemma matching_row_evidence: "matching_history_row history link = Some row \<Longrightarrow> fill_evidence link row"
  unfolding matching_history_row_def fill_evidence_def by (auto simp: find_Some_iff)

lemma order_history_log:
  "by_spot_order_history E c limit w = (r, w') \<Longrightarrow> \<exists>ev. w_log w' = w_log w @ [ev] \<and> \<not> is_order ev"
  unfolding by_spot_order_history_def by_get_def http_def by (auto simp: bindP_def split: prod.splits sum.splits)

definition bounded_reads :: "nat \<Rightarrow> world \<Rightarrow> world \<Rightarrow> bool" where
  "bounded_reads n w w' \<longleftrightarrow> (\<exists>es. w_log w' = w_log w @ es \<and> no_orders es \<and> length es \<le> n)"

lemma bounded_reads_refl: "w_log w' = w_log w \<Longrightarrow> bounded_reads n w w'"
  by (simp add: bounded_reads_def no_orders_def)

lemma bounded_reads_one: "w_log w' = w_log w @ [ev] \<Longrightarrow> \<not> is_order ev \<Longrightarrow> bounded_reads (Suc n) w w'"
  by (simp add: bounded_reads_def no_orders_def)

lemma bounded_reads_step:
  assumes "w_log w1 = w_log w @ [ev]" and "\<not> is_order ev" and "bounded_reads n w1 w'"
  shows "bounded_reads (Suc n) w w'"
proof -
  from assms(3) obtain es where "w_log w' = w_log w1 @ es" "no_orders es" "length es \<le> n"
    unfolding bounded_reads_def by blast
  with assms(1,2) show ?thesis unfolding bounded_reads_def by (intro exI [of _ "ev # es"]) (simp add: no_orders_def)
qed

lemma verify_spot_fill_core:
  "verify_spot_fill E c link first n w = (r, w') \<Longrightarrow>
     (\<forall>row. r = Inr (Some row) \<longrightarrow> fill_evidence link row) \<and> bounded_reads n w w'"
proof (induction n arbitrary: first w r w')
  case 0
  then show ?case by (auto intro: bounded_reads_refl)
next
  case (Suc n)
  obtain w0 where w0: "(if first then retP () else suspend E) w = (Inr (), w0)" "w_log w0 = w_log w"
    by (cases first) (simp_all add: suspend_def)
  obtain rh w1 where h: "by_spot_order_history E c 100 w0 = (rh, w1)" by (cases "by_spot_order_history E c 100 w0")
  obtain ev where ev: "w_log w1 = w_log w @ [ev]" "\<not> is_order ev"
    using order_history_log [OF h] w0(2) by auto
  let ?rows = "\<lambda>hist. bindE (vget hist ''list'') (\<lambda>l. bindE (as_list (py_or l (PList []))) (mapE as_dict))"
  show ?case
  proof (cases "bindE rh ?rows")
    case (Inl e)
    then have "(\<forall>row. r \<noteq> Inr (Some row)) \<and> w' = w1"
      using Suc.prems w0 h by (cases rh) (auto simp: seqP_def bindP_apply split: sum.splits prod.splits)
    then show ?thesis using bounded_reads_one [OF ev] by simp
  next
    case (Inr history)
    then obtain hist where rh: "rh = Inr hist" "?rows hist = Inr history" by (cases rh) simp_all
    let ?zero = "find (\<lambda>r. zero_fill_cancellation r (dget r ''symbol'') (dget r ''side'') PNone (PStr link)) history"
    have run: "(case matching_history_row history link of Some row \<Rightarrow> retP (Some row)
        | None \<Rightarrow> (case ?zero of Some row \<Rightarrow> retP (Some row) | None \<Rightarrow> verify_spot_fill E c link False n)) w1 = (r, w')"
      using Suc.prems w0 h rh by (simp add: seqP_def bindP_apply)
    show ?thesis
    proof (cases "matching_history_row history link")
      case (Some row)
      with run matching_row_evidence bounded_reads_one [OF ev] show ?thesis by auto
    next
      case m: None
      show ?thesis
      proof (cases ?zero)
        case (Some row)
        then have "fill_evidence link row" using zero_fill_cancellation_link by (auto simp: find_Some_iff)
        with run m Some bounded_reads_one [OF ev] show ?thesis by auto
      next
        case None
        with run m have "verify_spot_fill E c link False n w1 = (r, w')" by simp
        from Suc.IH [OF this] bounded_reads_step [OF ev] show ?thesis by blast
      qed
    qed
  qed
qed


section \<open>What an execution sends\<close>

lemma emits_mono: "emits P m \<Longrightarrow> (\<And>es. P es \<Longrightarrow> Q es) \<Longrightarrow> emits Q m"
  unfolding emits_def by blast

lemma one_order_mono: "one_order R es \<Longrightarrow> (\<And>pre ev. R pre ev \<Longrightarrow> S pre ev) \<Longrightarrow> one_order S es"
  unfolding one_order_def by blast

lemma quiet_verify_spot_fill [intro!]: "emits no_orders (verify_spot_fill E c link first n)"
proof (induction n arbitrary: first)
  case (Suc n)
  then show ?case by (auto split: option.split)
qed auto

lemma quiet_write_inventory [intro!]: "emits no_orders (write_inventory i)"
  unfolding write_inventory_def by (auto split: option.split)

lemma quiet_new_inventory [intro!]: "emits no_orders (new_inventory user_id profile_id symbol)"
  unfolding new_inventory_def Let_def by auto

lemma quiet_slot_step [intro!]: "emits no_orders (slot_step E c s held)"
  unfolding slot_step_def Let_def by auto

lemma quiet_slots [intro!]: "emits no_orders (managed_position_slots E c inventories)"
  unfolding managed_position_slots_def by (rule quiet.emits_foldP) auto

lemma quiet_cancel_action [intro!]: "emits no_orders (cancel_action i evidence now)"
  unfolding cancel_action_def by (auto split: option.split)

lemma quiet_reconcile_one [intro!]: "emits no_orders (reconcile_one E c action)"
  unfolding reconcile_one_def by (auto split: option.split list.split)

lemma quiet_reconcile [intro!]: "emits no_orders (reconcile_cancelled_submissions E p user_id symbol)"
  unfolding reconcile_cancelled_submissions_def Let_def by auto

lemma quiet_pending [intro!]: "emits no_orders (pending_after_reconciliation E p user_id environment symbol)"
  unfolding pending_after_reconciliation_def first_pending_def by (auto split: option.split)

lemma quiet_buy_slots [intro!]: "emits no_orders (buy_slots E p symbol inventory)"
  unfolding buy_slots_def by (auto split: option.split)

lemma quiet_entry_gate [intro!]: "emits no_orders (spot_entry_gate E p base symbol side inventory managed quantity)"
  unfolding spot_entry_gate_def by auto

lemma quiet_sell_checks [intro!]: "emits no_orders (sell_checks E c base symbol i managed quantity)"
  unfolding sell_checks_def sell_on_def Let_def by auto

lemma quiet_settle_fill [intro!]:
  "emits no_orders (settle_fill E p user_id base symbol side inventory managed quantity reconciled link result fill verr)"
  unfolding settle_fill_def Let_def by (auto split: option.split)

definition spot_submission :: "string \<Rightarrow> string \<Rightarrow> event list \<Rightarrow> event \<Rightarrow> bool" where
  \<comment> \<open>a Spot order of the symbol and the side at one of the two simulation hosts\<close>
  "spot_submission symbol side pre ev \<longleftrightarrow> (\<exists>base. spot_guard base symbol side pre ev)"

interpretation submission: guarded_order "one_order (spot_submission symbol side)" for symbol side
  by (rule guarded_one_order) (simp add: spot_submission_def spot_guard_def)

lemma spot_order_submitted:
  assumes "emits no_orders before_submit"
  shows "emits (one_order (spot_submission (canonical_symbol (PStr symbol)) side))
     (by_place_test_spot_market_order E c symbol side qty link before_submit)"
  by (rule emits_mono [OF by_place_guarded [OF assms]]) (erule one_order_mono, auto simp: spot_submission_def)

lemma execute_spot_guarded:
  "emits (one_order (spot_submission (canonical_symbol (PStr (canonical_symbol (PStr symbol))))
       (if str_upper side = ''BUY'' then ''Buy'' else ''Sell'')))
     (execute_managed_spot_order E p user_id symbol side quantity)"
proof -
  let ?Q = "one_order (spot_submission (canonical_symbol (PStr (canonical_symbol (PStr symbol))))
       (if str_upper side = ''BUY'' then ''Buy'' else ''Sell''))"
  have ready: "emits no_orders (case opened of Some c \<Rightarrow> retP c | None \<Rightarrow> liftP (bybit_client_of E p))"
    "emits no_orders (case inventory of
        Some i \<Rightarrow> if b then sell_checks E c base s i managed q else retP (Sell_ready inventory managed q False)
      | None \<Rightarrow> retP (Sell_ready inventory managed q False))" for opened inventory b c base s managed q
    by (auto split: option.split)
  have verify: "emits no_orders (tryP (bindP (verify_spot_fill E c link True 6) (\<lambda>f. retP (f, None))) is_exception
        (\<lambda>e. retP (None, Some (exn_name e))))" for c link
    by auto
  have gate: "emits ?Q (case g of Sell_blocked blocked \<Rightarrow> retP blocked | Sell_ready a b c d \<Rightarrow> k a b c d)"
    if "\<And>a b c d. emits ?Q (k a b c d)" for g k
    using that submission.guarded_retP by (cases g) auto
  show ?thesis
    unfolding execute_managed_spot_order_def Let_def
    by (intro submission.rules gate submission.before_quiet [OF spot_order_submitted] ready verify quiet_settle_fill
        quiet_pending quiet_entry_gate quiet_owner_blocker quiet.emits_getP quiet.emits_liftP quiet.emits_bindP quiet.emits_prod)
qed


text \<open>
  An unresolved submission blocks the next one: while an action of the same user, profile,
  environment and symbol is SUBMITTED and has no broker identifier to reconcile with, the execution
  returns BLOCK with the reason and the action's identifier, and touches neither broker nor database.
\<close>

theorem pending_submission_blocks:
  assumes "spot_route_blocker p (str_upper (bp_environment p)) (str_upper side) quantity = None"
    and "submitted_actions user_id (bp_id p) (str_upper (bp_environment p)) (canonical_symbol (PStr symbol)) (w_db w) = a # rest"
    and "ac_broker_order_id a = None"
  shows "\<exists>d. execute_managed_spot_order E p user_id symbol side quantity w = (Inr d, w)
     \<and> dget d ''status'' = PStr ''BLOCK'' \<and> dget d ''reason'' = PStr ''BYBIT_SUBMISSION_RECONCILIATION_REQUIRED''
     \<and> dget d ''pending_action_id'' = PStr (show_int (int (ac_id a)))"
proof -
  have "pending_after_reconciliation E p user_id (str_upper (bp_environment p)) (canonical_symbol (PStr symbol)) w = (Inr (Some a), w)"
    using assms(2,3) by (simp add: pending_after_reconciliation_def first_pending_def bindP_def)
  with assms(1) show ?thesis
    by (simp add: execute_managed_spot_order_def bindP_def Let_def outcome_with_def outcome_def dget_dmerge)
qed

definition example_spot_profile :: broker_profile where
  "example_spot_profile = example_profile\<lparr>bp_provider := ''BYBIT'', bp_environment := ''DEMO'', bp_execution_certified := True,
     bp_execution_certification_buy_passed := True, bp_execution_certification_sell_passed := True\<rparr>"

definition example_submission :: automation_action where
  "example_submission = \<lparr>ac_id = 7, ac_scan_id = 8, ac_user_id = 1, ac_broker_profile_id = Some 2, ac_provider = ''BYBIT'',
     ac_environment = Some ''DEMO'', ac_market = ''CRYPTO'', ac_symbol = ''BTCUSDT'', ac_side = Some ''BUY'', ac_status = ''SUBMITTED'',
     ac_reason = None, ac_quantity = None, ac_sizing_policy = None, ac_broker_order_id = None, ac_broker_position_id = None,
     ac_raw_json = None, ac_created_at = 0\<rparr>"

theorem pending_submission_blocks_witness:
  "\<exists>d w. execute_managed_spot_order example_env example_spot_profile 1 ''BTCUSDT'' ''BUY'' (Fin 1) w = (Inr d, w)
     \<and> dget d ''status'' = PStr ''BLOCK''"
proof -
  let ?w = "example_world\<lparr>w_db := example_db\<lparr>db_actions := [example_submission]\<rparr>\<rparr>"
  have u: "str_upper ''DEMO'' = ''DEMO''" "str_upper ''BUY'' = ''BUY''" "canonical_symbol (PStr ''BTCUSDT'') = ''BTCUSDT''"
    by code_simp+
  have e: "bp_environment example_spot_profile = ''DEMO''" by (simp add: example_spot_profile_def)
  have 1: "spot_route_blocker example_spot_profile (str_upper (bp_environment example_spot_profile)) (str_upper ''BUY'') (Fin 1) = None"
    by (simp add: e u spot_route_blocker_def SIMULATION_ENVS_def route_ready_def zero_Fin)
       (simp add: example_spot_profile_def example_profile_def)
  have 2: "submitted_actions 1 (bp_id example_spot_profile) (str_upper (bp_environment example_spot_profile))
      (canonical_symbol (PStr ''BTCUSDT'')) (w_db ?w) = example_submission # []"
    by (simp add: e u submitted_actions_def) (simp add: example_submission_def example_spot_profile_def example_profile_def)
  have 3: "ac_broker_order_id example_submission = None" by (simp add: example_submission_def)
  from pending_submission_blocks [OF 1 2 3] show ?thesis by blast
qed

end
