(* ===== verification/Ibkr_Evidence.thy ===== *)
theory Ibkr_Evidence
  imports Quantities Db_Models "HOL-Library.List_Lexorder" "HOL-Library.Char_ord"
begin

text \<open>
  What counts as evidence about an IBKR Paper position: \<open>app/services/ibkr_protection.py\<close> (a protective
  pair the broker holds), \<open>ibkr_execution_format.py\<close> and \<open>ibkr_entry_fill.py\<close> (executions that prove a
  full fill) and \<open>ibkr_protection_levels.py\<close> (levels anchored to that fill). Dates written as text are
  read by the argument \<open>parse\<close>, the \<open>datetime\<close> and \<open>zoneinfo\<close> of the standard library with its
  time-zone data; now is an argument in milliseconds.
\<close>

section \<open>Protective pairs at the broker\<close>

definition CLOSED_ORDER_STATUSES :: "string list" where
  "CLOSED_ORDER_STATUSES = [''FILLED'', ''CANCELLED'', ''CANCELED'', ''INACTIVE'', ''APICANCELLED'']"

definition live_rows :: "pydict list \<Rightarrow> pyval \<Rightarrow> string \<Rightarrow> pydict list" where
  \<comment> \<open>the account's orders in the symbol that are not closed\<close>
  "live_rows orders account_id symbol =
     filter (\<lambda>r. py_eq (dget r ''account'') account_id \<and> py_eq (dget r ''symbol'') (PStr symbol)
              \<and> upper_or_empty (dget r ''status'') \<notin> set CLOSED_ORDER_STATUSES) orders"

definition protective_row :: "pyfloat \<Rightarrow> string \<Rightarrow> pydict \<Rightarrow> bool res" where
  \<comment> \<open>one leg covers the whole position, on the closing side, good till cancelled, in its group\<close>
  "protective_row quantity side row =
     bindE (float_or0 (dget row ''quantity'')) (\<lambda>q.
     bindE (float_or0 (dget row ''filled'')) (\<lambda>f.
     bindE (py_float (if py_eq (dget row ''type'') (PStr ''STP'') then dget row ''aux_price'' else dget row ''limit_price'')) (\<lambda>price.
       Inr (isfinite price \<and> 0 < price \<and> py_eq (dget row ''side'') (PStr side)
          \<and> py_eq (dget row ''sec_type'') (PStr ''STK'') \<and> py_eq (dget row ''oca_type'') (PInt 2)
          \<and> py_eq (dget row ''order_ref'') (dget row ''oca_group'') \<and> py_eq (dget row ''tif'') (PStr ''GTC'')
          \<and> dget row ''outside_rth'' = PBool False
          \<and> upper_or_empty (dget row ''status'') \<in> {''SUBMITTED'', ''PRESUBMITTED''}
          \<and> fisclose (q - f) (fabs quantity) 0 (fl (1 / 10 ^ 8))))))"

definition one_each :: "pydict \<Rightarrow> pydict \<Rightarrow> bool" where
  \<comment> \<open>\<open>{r.get('type') for r in rows} == {'STP','LMT'}\<close> for two rows\<close>
  "one_each a b \<longleftrightarrow> (dget a ''type'' = PStr ''STP'' \<and> dget b ''type'' = PStr ''LMT'')
     \<or> (dget a ''type'' = PStr ''LMT'' \<and> dget b ''type'' = PStr ''STP'')"

definition one_group :: "pydict \<Rightarrow> pydict \<Rightarrow> bool" where
  "one_group a b \<longleftrightarrow> py_eq (dget a ''oca_group'') (dget b ''oca_group'')
     \<and> starts_with ''atlas-protect-'' (str_or_empty (dget a ''oca_group''))"

definition position_has_native_protection :: "pydict \<Rightarrow> pydict list \<Rightarrow> pyval \<Rightarrow> bool res" where
  "position_has_native_protection position orders account_id =
     tryE (bindE (float_or0 (dget position ''quantity'')) (\<lambda>quantity.
       if \<not> isfinite quantity \<or> quantity = 0 \<or> \<not> py_eq (dget position ''account'') account_id then Inr False
       else let symbol = upper_or_empty (dget position ''symbol''); side = (if 0 < quantity then ''SELL'' else ''BUY'')
            in case live_rows orders account_id symbol of
                 [a, b] \<Rightarrow>
                   if \<not> one_each a b \<or> \<not> one_group a b then Inr False
                   else bindE (protective_row quantity side a) (\<lambda>ok. if \<not> ok then Inr False else protective_row quantity side b)
               | _ \<Rightarrow> Inr False))
       is_type_or_value (\<lambda>_. Inr False)"

section \<open>Executions as evidence of a fill\<close>

fun split_words :: "string \<Rightarrow> string \<Rightarrow> string list" where
  \<comment> \<open>\<open>s.split()\<close>, with the word read so far\<close>
  "split_words w [] = (if w = [] then [] else [w])"
| "split_words w (c # cs) = (if is_space c then (if w = [] then [] else [w]) @ split_words [] cs else split_words (w @ [c]) cs)"

definition epoch_stamp :: "int \<Rightarrow> int" where
  \<comment> \<open>a number below \<open>10 ^ 10\<close> is in seconds\<close>
  "epoch_stamp n = (if n \<noteq> 0 \<and> n < 10000000000 then n * 1000 else n)"

fun first_stamp :: "(string \<Rightarrow> pyval \<Rightarrow> pyval \<Rightarrow> int option) \<Rightarrow> pydict \<Rightarrow> pyval \<Rightarrow> string list \<Rightarrow> int res" where
  "first_stamp parse row tz [] = Inr 0"
| "first_stamp parse row tz (key # keys) =
     (let v = dget row key
      in if v = PNone \<or> v = PStr [] then first_stamp parse row tz keys
         else if is_number v then bindE (py_int v) (\<lambda>n. Inr (epoch_stamp n))
         else let text = join '' '' (split_words [] (py_str v))
              in if text \<noteq> [] \<and> list_all is_digit text then bindE (py_int (PStr text)) (\<lambda>n. Inr (epoch_stamp n))
                 else case parse text (dget row ''time_timezone'') tz of
                        Some ms \<Rightarrow> Inr ms
                      | None \<Rightarrow> first_stamp parse row tz keys)"

definition execution_time_ms :: "(string \<Rightarrow> pyval \<Rightarrow> pyval \<Rightarrow> int option) \<Rightarrow> pydict \<Rightarrow> pyval \<Rightarrow> int res" where
  "execution_time_ms parse row tz =
     first_stamp parse row tz [''time'', ''executed_at'', ''execution_time'', ''timestamp'', ''datetime'']"

record entry_fill =
  fi_quantity :: pyfloat
  fi_price :: pyfloat
  fi_time :: int
  fi_execution_ids :: "string list"
  fi_account :: pyval

type_synonym fills = "(string \<times> pyfloat \<times> pyfloat \<times> int) list"

definition bad_execution :: "automation_action \<Rightarrow> pydict \<Rightarrow> string \<Rightarrow> int \<Rightarrow> int \<Rightarrow> int \<Rightarrow> pyfloat \<Rightarrow> pyfloat \<Rightarrow> bool" where
  \<comment> \<open>contradictory evidence of our own account\<close>
  "bad_execution entry row identity earliest latest stamp q p \<longleftrightarrow>
     identity = [] \<or> \<not> py_eq (dget row ''symbol'') (PStr (ac_symbol entry))
   \<or> dget row ''side'' \<notin> PStr ` (if ac_side entry = Some ''BUY'' then {''BOT'', ''BUY''} else {''SLD'', ''SELL''})
   \<or> \<not> py_eq (dget row ''sec_type'') (PStr ''STK'') \<or> \<not> (earliest \<le> stamp \<and> stamp \<le> latest)
   \<or> \<not> list_all (\<lambda>v. isfinite v \<and> 0 < v) [q, p]"

fun collect_fills ::
    "(string \<Rightarrow> pyval \<Rightarrow> pyval \<Rightarrow> int option) \<Rightarrow> automation_action \<Rightarrow> string \<Rightarrow> pyval \<Rightarrow> pyval \<Rightarrow> int \<Rightarrow> int \<Rightarrow> fills \<Rightarrow> pydict list
      \<Rightarrow> fills option res" where
  "collect_fills parse entry order_id account tz earliest latest acc [] = Inr (Some acc)"
| "collect_fills parse entry order_id account tz earliest latest acc (row # rows) =
     (if py_str (dget row ''order_id'') \<noteq> order_id \<or> \<not> py_eq (dget row ''account'') account
      then collect_fills parse entry order_id account tz earliest latest acc rows
      else bindE (execution_time_ms parse row tz) (\<lambda>stamp.
           bindE (bindE (dsub row ''quantity'') py_float) (\<lambda>q.
           bindE (bindE (dsub row ''price'') py_float) (\<lambda>p.
             let identity = str_or_empty (dget row ''execution_id'')
             in if bad_execution entry row identity earliest latest stamp q p then Inr None
                else case map_of acc identity of
                  Some v \<Rightarrow> if v \<noteq> (q, p, stamp) then Inr None
                            else collect_fills parse entry order_id account tz earliest latest acc rows
                | None \<Rightarrow> collect_fills parse entry order_id account tz earliest latest (acc @ [(identity, q, p, stamp)]) rows))))"

fun fill_evidence_error :: "exn \<Rightarrow> bool" where
  \<comment> \<open>\<open>except (AttributeError, KeyError, TypeError, ValueError, OverflowError)\<close>\<close>
  "fill_evidence_error AttributeError = True"
| "fill_evidence_error KeyError = True"
| "fill_evidence_error OverflowError = True"
| "fill_evidence_error e = is_type_or_value e"

definition settled_fill :: "fills \<Rightarrow> pyfloat \<Rightarrow> pyval \<Rightarrow> entry_fill option res" where
  \<comment> \<open>the collected executions prove the expected quantity at their average price\<close>
  "settled_fill acc expected account =
     (let filled = pysum (map (\<lambda>(_, q, _, _). q) acc)
      in if acc = [] \<or> \<not> quantities_match filled expected then Inr None
         else bindE (fdiv (pysum (map (\<lambda>(_, q, p, _). q * p) acc)) filled) (\<lambda>price.
           if \<not> isfinite price \<or> price \<le> 0 then Inr None
           else Inr (Some \<lparr>fi_quantity = filled, fi_price = price, fi_time = Max (set (map (\<lambda>(_, _, _, t). t) acc)),
                  fi_execution_ids = sort (map fst acc), fi_account = account\<rparr>)))"

definition execution_fill ::
    "(string \<Rightarrow> pyval \<Rightarrow> pyval \<Rightarrow> int option) \<Rightarrow> automation_action \<Rightarrow> pyval \<Rightarrow> pyval \<Rightarrow> pyval \<Rightarrow> int \<Rightarrow> entry_fill option res" where
  "execution_fill parse entry executions account tz now_ms =
     tryE (case ac_broker_order_id entry of None \<Rightarrow> Inr None | Some order_id \<Rightarrow>
        if \<not> truth account \<or> ac_provider entry \<noteq> ''IBKR'' \<or> ac_environment entry \<noteq> Some ''PAPER''
           \<or> ac_side entry \<notin> {Some ''BUY'', Some ''SELL''} \<or> order_id = []
        then Inr None
        else bindE (py_float (opt_val PFloat (ac_quantity entry))) (\<lambda>expected.
          if \<not> isfinite expected \<or> expected \<le> 0 then Inr None
          else bindE (epoch_ms (ac_created_at entry)) (\<lambda>created.
               bindE (bindE (as_list executions) (mapE as_dict)) (\<lambda>rows.
               bindE (collect_fills parse entry order_id account tz (created - 300000) (now_ms + 300000) [] rows) (\<lambda>r.
                 case r of None \<Rightarrow> Inr None | Some acc \<Rightarrow> settled_fill acc expected account)))))
       fill_evidence_error (\<lambda>_. Inr None)"

definition saved_execution_fill ::
    "(string \<Rightarrow> pyval \<Rightarrow> pyval \<Rightarrow> int option) \<Rightarrow> automation_action \<Rightarrow> pydict \<Rightarrow> pyval option \<Rightarrow> int \<Rightarrow> entry_fill option res" where
  "saved_execution_fill parse entry raw account_id now_ms =
     (case py_or (dget raw ''entry_execution_evidence'') (PDict []) of
        PDict evidence \<Rightarrow>
          if \<not> truth (dget evidence ''account_id'') then Inr None
          else if (case account_id of None \<Rightarrow> False | Some a \<Rightarrow> \<not> py_eq a (dget evidence ''account_id'')) then Inr None
          else execution_fill parse entry (py_or (dget evidence ''executions'') (PList [])) (dget evidence ''account_id'')
                 (dget_or evidence ''execution_timezone'' (PStr ''Etc/UTC'')) now_ms
      | _ \<Rightarrow> Inr None)"

section \<open>Levels anchored to the fill\<close>

record anchored_levels =
  an_entry_order_id :: string
  an_fill_price :: pyfloat
  an_reference :: pyfloat
  an_inferred :: bool
  an_original_stop :: pyfloat
  an_original_target :: pyfloat
  an_stop_distance :: pyfloat
  an_target_distance :: pyfloat
  an_quantity :: pyfloat
  an_stop_loss :: pyfloat
  an_take_profit :: pyfloat

definition order_id_text :: "automation_action \<Rightarrow> string" where
  \<comment> \<open>\<open>str(entry.broker_order_id)\<close>\<close>
  "order_id_text entry = py_str (opt_val PStr (ac_broker_order_id entry))"

definition status_unproven :: "automation_action \<Rightarrow> pydict \<Rightarrow> pydict \<Rightarrow> pyfloat \<Rightarrow> pyfloat \<Rightarrow> bool res" where
  \<comment> \<open>the disjunction stops at its first true member\<close>
  "status_unproven entry final status fill quantity =
     anyE (\<lambda>r. r)
       [Inr (\<not> py_eq (dget status ''status'') (PStr ''Filled'') \<or> \<not> isfinite fill \<or> fill \<le> 0 \<or> quantity \<le> 0),
        bindE (float_or0 (dget status ''filled'')) (\<lambda>f. Inr (\<not> quantities_match f quantity)),
        bindE (float_or0 (dget status ''remaining'')) (\<lambda>r. Inr (\<not> feq r 0)),
        Inr (py_str (dget final ''order_id'') \<noteq> order_id_text entry),
        Inr (py_str (dget status ''order_id'') \<noteq> order_id_text entry)]"

definition final_status_of :: "pydict \<Rightarrow> (pydict \<times> pydict) res" where
  \<comment> \<open>the saved final status of the broker, and the \<open>status\<close> inside it\<close>
  "final_status_of raw =
     bindE (as_dict (dget_or raw ''result'' (PDict []))) (\<lambda>r.
     bindE (vget (dget_or r ''broker_result'' (PDict [])) ''final_status'') (\<lambda>f.
     bindE (as_dict (py_or f (PDict []))) (\<lambda>final.
     bindE (as_dict (py_or (dget final ''status'') (PDict []))) (\<lambda>status.
       Inr (final, status)))))"

definition proven_fill_price ::
    "(string \<Rightarrow> pyval \<Rightarrow> pyval \<Rightarrow> int option) \<Rightarrow> automation_action \<Rightarrow> pydict \<Rightarrow> int \<Rightarrow> (pyfloat \<times> pyfloat) res" where
  \<comment> \<open>the fill price the final status proves, else the one the saved executions prove; and the entry's quantity\<close>
  "proven_fill_price parse entry raw now_ms =
     bindE (final_status_of raw) (\<lambda>(final, status).
     bindE (float_or0 (dget status ''avg_fill_price'')) (\<lambda>fill.
     bindE (float_or0 (opt_val PFloat (ac_quantity entry))) (\<lambda>quantity.
     bindE (status_unproven entry final status fill quantity) (\<lambda>unproven.
       if \<not> unproven then Inr (fill, quantity)
       else bindE (saved_execution_fill parse entry raw None now_ms) (\<lambda>proof'. case proof' of
         None \<Rightarrow> Inl (ValueError ''PROTECTION_FILL_PRICE_UNVERIFIED'')
       | Some f \<Rightarrow> Inr (fi_price f, quantity))))))"

definition planned_reference :: "pyval \<Rightarrow> pydict \<Rightarrow> pyfloat \<Rightarrow> pyfloat \<Rightarrow> pyfloat res" where
  \<comment> \<open>the reference price of the request, or the one the saved reward ratio implies\<close>
  "planned_reference preflight request stop target =
     (let reference = dget request ''reference_price''
      in if reference \<noteq> PNone then py_float reference
         else bindE (bindE (vsub preflight ''strategy_snapshot'') (\<lambda>s. bindE (vsub s ''effective_parameters'') (\<lambda>p.
                bindE (vsub p ''take_profit_rr'') py_float))) (\<lambda>rr.
              guardE (\<not> isfinite rr \<or> rr \<le> 0) (ValueError ''PROTECTION_PLANNED_REFERENCE_UNVERIFIED'')
                (fdiv (rr * stop + target) (rr + Fin 1))))"

definition sign_of :: "string option \<Rightarrow> int" where
  "sign_of side = (if side = Some ''BUY'' then 1 else if side = Some ''SELL'' then - 1 else 0)"

definition signed :: "int \<Rightarrow> pyfloat \<Rightarrow> pyfloat" where
  \<comment> \<open>\<open>sign * x\<close>\<close>
  "signed sign x = Fin (of_int sign) * x"

definition anchor_levels ::
    "automation_action \<Rightarrow> pyfloat \<Rightarrow> pyfloat \<Rightarrow> pyfloat \<Rightarrow> pyfloat \<Rightarrow> pyfloat \<Rightarrow> bool \<Rightarrow> anchored_levels res" where
  "anchor_levels entry fill quantity stop target reference inferred =
     (let sign = sign_of (ac_side entry); stop_distance = signed sign (reference - stop);
          target_distance = signed sign (target - reference);
          new_stop = fill - signed sign stop_distance; new_target = fill + signed sign target_distance
      in guardE (sign = 0 \<or> \<not> list_all (\<lambda>x. isfinite x \<and> 0 < x) [reference, stop, target, stop_distance, target_distance])
           (ValueError ''PROTECTION_PLANNED_DISTANCES_INVALID'')
         (guardE (pymin new_stop new_target \<le> 0) (ValueError ''PROTECTION_FILL_LEVELS_INVALID'')
           (Inr \<lparr>an_entry_order_id = order_id_text entry, an_fill_price = fill, an_reference = reference,
                an_inferred = inferred, an_original_stop = stop, an_original_target = target,
                an_stop_distance = stop_distance, an_target_distance = target_distance, an_quantity = quantity,
                an_stop_loss = new_stop, an_take_profit = new_target\<rparr>)))"

definition fill_anchored_levels ::
    "(string \<Rightarrow> pyval \<Rightarrow> pyval \<Rightarrow> int option) \<Rightarrow> automation_action \<Rightarrow> int \<Rightarrow> anchored_levels res" where
  "fill_anchored_levels parse entry now_ms =
     guardE (ac_provider entry \<noteq> ''IBKR'' \<or> ac_environment entry \<noteq> Some ''PAPER'' \<or> ac_status entry \<noteq> ''EXECUTED'')
       (ValueError ''PROTECTION_VERIFIED_PAPER_ENTRY_REQUIRED'')
     (bindE (bindE (json_loads (ac_raw_json entry)) (\<lambda>v. bindE (vsub v ''preflight'') (\<lambda>preflight.
        bindE (vsub preflight ''request'') (\<lambda>request. bindE (as_dict v) (\<lambda>raw. Inr (raw, preflight, request)))))) (\<lambda>(raw, preflight, request).
      bindE (proven_fill_price parse entry raw now_ms) (\<lambda>(fill, quantity).
      bindE (bindE (vsub request ''stop_loss'') py_float) (\<lambda>stop.
      bindE (bindE (vsub request ''take_profit'') py_float) (\<lambda>target.
      bindE (as_dict request) (\<lambda>req.
      bindE (planned_reference preflight req stop target) (\<lambda>reference.
        anchor_levels entry fill quantity stop target reference (dget req ''reference_price'' = PNone))))))))"

section \<open>What protection, a proven fill and anchored levels mean\<close>

definition exit_leg :: "pyfloat \<Rightarrow> string \<Rightarrow> pydict \<Rightarrow> bool" where
  \<comment> \<open>a resting order of the broker that closes the position: its price, side, duration and remaining quantity\<close>
  "exit_leg quantity price_key row \<longleftrightarrow>
     (\<exists>price q f. py_float (dget row price_key) = Inr price \<and> isfinite price \<and> 0 < price
        \<and> dget row ''side'' = PStr (if 0 < quantity then ''SELL'' else ''BUY'') \<and> dget row ''tif'' = PStr ''GTC''
        \<and> upper_or_empty (dget row ''status'') \<in> {''SUBMITTED'', ''PRESUBMITTED''}
        \<and> float_or0 (dget row ''quantity'') = Inr q \<and> float_or0 (dget row ''filled'') = Inr f
        \<and> fisclose (q - f) (fabs quantity) 0 (fl (1 / 10 ^ 8)))"

lemma protective_row_leg:
  assumes "protective_row quantity (if 0 < quantity then ''SELL'' else ''BUY'') row = Inr True"
  shows "exit_leg quantity (if dget row ''type'' = PStr ''STP'' then ''aux_price'' else ''limit_price'') row"
proof -
  have p: "py_eq v (PStr s) \<longleftrightarrow> v = PStr s" for v s by (cases v) (auto simp: py_eq_def)
  show ?thesis
    using assms unfolding protective_row_def exit_leg_def
    by (auto simp: p bindE_Inr_iff split: if_splits)
qed

text \<open>
  C23. \<open>position_has_native_protection\<close> answers True only for a position the broker really protects: its
  quantity is finite and not zero, and the account's live orders in the symbol are exactly one stop and
  one limit order of one protective group, each on the closing side, good till cancelled, with a
  positive finite price, and each for the whole position to within \<open>1e-8\<close> shares.
\<close>

theorem native_protection_sound:
  assumes "position_has_native_protection position orders account_id = Inr True"
  shows "\<exists>quantity stop target. float_or0 (dget position ''quantity'') = Inr quantity \<and> isfinite quantity \<and> quantity \<noteq> 0
     \<and> set (live_rows orders account_id (upper_or_empty (dget position ''symbol''))) = {stop, target}
     \<and> length (live_rows orders account_id (upper_or_empty (dget position ''symbol''))) = 2
     \<and> dget stop ''type'' = PStr ''STP'' \<and> dget target ''type'' = PStr ''LMT'' \<and> py_eq (dget stop ''oca_group'') (dget target ''oca_group'')
     \<and> exit_leg quantity ''aux_price'' stop \<and> exit_leg quantity ''limit_price'' target"
proof -
  let ?rows = "live_rows orders account_id (upper_or_empty (dget position ''symbol''))"
  obtain q a b where q: "float_or0 (dget position ''quantity'') = Inr q" "isfinite q" "q \<noteq> 0" and rows: "?rows = [a, b]"
    and each: "one_each a b" and grp: "one_group a b"
    and pa: "protective_row q (if 0 < q then ''SELL'' else ''BUY'') a = Inr True"
    and pb: "protective_row q (if 0 < q then ''SELL'' else ''BUY'') b = Inr True"
    using assms unfolding position_has_native_protection_def Let_def
    by (auto simp: tryE_def bindE_Inr_iff split: sum.splits if_splits list.splits)
  have sym: "py_eq (dget a ''oca_group'') (dget b ''oca_group'')" "py_eq (dget b ''oca_group'') (dget a ''oca_group'')"
    using grp by (auto simp: one_group_def py_eq_def feq_def split: option.splits)
  note la = protective_row_leg [OF pa] and lb = protective_row_leg [OF pb]
  from each show ?thesis
  proof (cases "dget a ''type'' = PStr ''STP''")
    case True
    with each q rows sym la lb show ?thesis by (intro exI [of _ q] exI [of _ a] exI [of _ b]) (auto simp: one_each_def)
  next
    case False
    with each q rows sym la lb show ?thesis by (intro exI [of _ q] exI [of _ b] exI [of _ a]) (auto simp: one_each_def)
  qed
qed


theorem native_protection_sound_witness:
  "\<exists>stop target :: pydict. dget stop ''type'' = PStr ''STP'' \<and> dget target ''type'' = PStr ''LMT''"
proof -
  let ?row = "\<lambda>t k. [(''account'', PStr ''DU1''), (''symbol'', PStr ''AAPL''), (''status'', PStr ''Submitted''), (''type'', PStr t),
     (k, PFloat (Fin 5)), (''oca_group'', PStr ''atlas-protect-1''), (''order_ref'', PStr ''atlas-protect-1''), (''oca_type'', PInt 2),
     (''side'', PStr ''SELL''), (''sec_type'', PStr ''STK''), (''tif'', PStr ''GTC''), (''outside_rth'', PBool False), (''quantity'', PFloat (Fin 10))]"
  let ?pos = "[(''account'', PStr ''DU1''), (''symbol'', PStr ''AAPL''), (''quantity'', PFloat (Fin 10))]"
  have "position_has_native_protection ?pos [?row ''STP'' ''aux_price'', ?row ''LMT'' ''limit_price''] (PStr ''DU1'') = Inr True"
    by code_simp
  from native_protection_sound [OF this] show ?thesis by blast
qed

definition fill_row ::
    "(string \<Rightarrow> pyval \<Rightarrow> pyval \<Rightarrow> int option) \<Rightarrow> automation_action \<Rightarrow> pyval \<Rightarrow> pyval \<Rightarrow> int \<Rightarrow> int \<Rightarrow> pydict \<Rightarrow> string \<times> pyfloat \<times> pyfloat \<times> int \<Rightarrow> bool" where
  \<comment> \<open>the execution row proves this identity, quantity, price and time for the entry\<close>
  "fill_row parse entry account tz earliest latest row v \<longleftrightarrow>
     (case v of (identity, q, p, stamp) \<Rightarrow>
        identity = str_or_empty (dget row ''execution_id'') \<and> identity \<noteq> []
      \<and> py_eq (dget row ''account'') account \<and> dget row ''symbol'' = PStr (ac_symbol entry) \<and> dget row ''sec_type'' = PStr ''STK''
      \<and> dget row ''side'' \<in> PStr ` (if ac_side entry = Some ''BUY'' then {''BOT'', ''BUY''} else {''SLD'', ''SELL''})
      \<and> execution_time_ms parse row tz = Inr stamp \<and> earliest \<le> stamp \<and> stamp \<le> latest
      \<and> bindE (dsub row ''quantity'') py_float = Inr q \<and> isfinite q \<and> 0 < q
      \<and> bindE (dsub row ''price'') py_float = Inr p \<and> isfinite p \<and> 0 < p)"

definition own_execution :: "string \<Rightarrow> pyval \<Rightarrow> pydict \<Rightarrow> bool" where
  "own_execution order_id account row \<longleftrightarrow> py_str (dget row ''order_id'') = order_id \<and> py_eq (dget row ''account'') account"

lemma good_execution:
  assumes "\<not> bad_execution entry row identity earliest latest stamp q p" and "identity = str_or_empty (dget row ''execution_id'')"
    and "py_eq (dget row ''account'') account" and "execution_time_ms parse row tz = Inr stamp"
    and "bindE (dsub row ''quantity'') py_float = Inr q" and "bindE (dsub row ''price'') py_float = Inr p"
  shows "fill_row parse entry account tz earliest latest row (identity, q, p, stamp)"
  using assms unfolding bad_execution_def fill_row_def by (auto simp: py_eq_PStr)

lemma collect_fills_sound:
  "collect_fills parse entry order_id account tz earliest latest acc rows = Inr (Some out) \<Longrightarrow> distinct (map fst acc) \<Longrightarrow>
     distinct (map fst out) \<and> set acc \<subseteq> set out
   \<and> (\<forall>v \<in> set out. v \<in> set acc \<or> (\<exists>row \<in> set rows. own_execution order_id account row \<and> fill_row parse entry account tz earliest latest row v))
   \<and> (\<forall>row \<in> set rows. own_execution order_id account row \<longrightarrow>
        (\<exists>v \<in> set out. fill_row parse entry account tz earliest latest row v))"
proof (induction rows arbitrary: acc)
  case (Cons row rows)
  show ?case
  proof (cases "own_execution order_id account row")
    case False
    with Cons.prems have "collect_fills parse entry order_id account tz earliest latest acc rows = Inr (Some out)"
      by (auto simp: own_execution_def)
    from Cons.IH [OF this Cons.prems(2)] False show ?thesis by auto
  next
    case True
    let ?id = "str_or_empty (dget row ''execution_id'')"
    from Cons.prems(1) True obtain stamp q p where
        e: "execution_time_ms parse row tz = Inr stamp" "bindE (dsub row ''quantity'') py_float = Inr q"
          "bindE (dsub row ''price'') py_float = Inr p"
      and ok: "\<not> bad_execution entry row ?id earliest latest stamp q p"
      and rest: "(case map_of acc ?id of
          Some v \<Rightarrow> if v \<noteq> (q, p, stamp) then Inr None else collect_fills parse entry order_id account tz earliest latest acc rows
        | None \<Rightarrow> collect_fills parse entry order_id account tz earliest latest (acc @ [(?id, q, p, stamp)]) rows) = Inr (Some out)"
      by (auto simp: own_execution_def Let_def bindE_Inr_iff split: if_splits)
    have row: "fill_row parse entry account tz earliest latest row (?id, q, p, stamp)"
      using good_execution [OF ok refl _ e] True by (simp add: own_execution_def)
    show ?thesis
    proof (cases "map_of acc ?id")
      case (Some v)
      with rest have v: "v = (q, p, stamp)" and c: "collect_fills parse entry order_id account tz earliest latest acc rows = Inr (Some out)"
        by (auto split: if_splits)
      have "(?id, q, p, stamp) \<in> set acc" using Some v map_of_SomeD by fastforce
      with Cons.IH [OF c Cons.prems(2)] row show ?thesis by auto
    next
      case None
      with rest have c: "collect_fills parse entry order_id account tz earliest latest (acc @ [(?id, q, p, stamp)]) rows = Inr (Some out)"
        by simp
      have "distinct (map fst (acc @ [(?id, q, p, stamp)]))" using None Cons.prems(2) by (auto simp: map_of_eq_None_iff)
      from Cons.IH [OF c this] row True show ?thesis by auto
    qed
  qed
qed simp

text \<open>
  A fill that \<open>execution_fill\<close> proves is backed by the broker's executions and by nothing else: the
  filled quantity is the sum over executions with distinct identifiers, it matches the entry's quantity,
  each of them is an execution of this order, account, symbol and side within the entry's lifetime with
  a positive finite quantity and price; and no execution of this order and account is left out, so
  contradictory evidence never yields a fill. The average price is positive and finite.
\<close>

theorem execution_fill_sound:
  assumes "execution_fill parse entry (PList (map PDict rows)) account tz now_ms = Inr (Some f)"
  shows "\<exists>fills order_id created expected. ac_broker_order_id entry = Some order_id \<and> epoch_ms (ac_created_at entry) = Inr created
     \<and> ac_quantity entry = Some expected \<and> quantities_match (fi_quantity f) expected
     \<and> fi_quantity f = pysum (map (\<lambda>(_, q, _, _). q) fills) \<and> distinct (map fst fills)
     \<and> fi_execution_ids f = sort (map fst fills) \<and> fills \<noteq> [] \<and> isfinite (fi_price f) \<and> \<not> fi_price f \<le> 0
     \<and> (\<forall>v \<in> set fills. \<exists>row \<in> set rows. own_execution order_id account row
          \<and> fill_row parse entry account tz (created - 300000) (now_ms + 300000) row v)
     \<and> (\<forall>row \<in> set rows. own_execution order_id account row \<longrightarrow>
          (\<exists>v \<in> set fills. fill_row parse entry account tz (created - 300000) (now_ms + 300000) row v))"
proof -
  have rows: "bindE (as_list (PList (map PDict rows))) (mapE as_dict) = Inr rows"
    by (induction rows) auto
  from assms obtain order_id expected created acc where
      o: "ac_broker_order_id entry = Some order_id" and e: "py_float (opt_val PFloat (ac_quantity entry)) = Inr expected"
    and cr: "epoch_ms (ac_created_at entry) = Inr created"
    and acc: "collect_fills parse entry order_id account tz (created - 300000) (now_ms + 300000) [] rows = Inr (Some acc)"
    and s: "settled_fill acc expected account = Inr (Some f)"
    unfolding execution_fill_def rows
    by (auto simp: tryE_def bindE_Inr_iff split: sum.splits if_splits option.splits)
  from e have q: "ac_quantity entry = Some expected" by (cases "ac_quantity entry") auto
  note c = collect_fills_sound [OF acc]
  from s have f: "fi_quantity f = pysum (map (\<lambda>(_, q, _, _). q) acc)" "quantities_match (fi_quantity f) expected"
      "fi_execution_ids f = sort (map fst acc)" "acc \<noteq> []" "isfinite (fi_price f)" "\<not> fi_price f \<le> 0"
    unfolding settled_fill_def Let_def by (auto simp: bindE_Inr_iff split: if_splits)
  show ?thesis
    by (intro exI [of _ acc] exI [of _ order_id] exI [of _ created] exI [of _ expected] conjI o cr q f) (use c in auto)
qed

definition example_entry :: automation_action where
  "example_entry = \<lparr>ac_id = 7, ac_scan_id = 8, ac_user_id = 1, ac_broker_profile_id = Some 2, ac_provider = ''IBKR'',
     ac_environment = Some ''PAPER'', ac_market = ''STOCK'', ac_symbol = ''AAPL'', ac_side = Some ''BUY'', ac_status = ''EXECUTED'',
     ac_reason = None, ac_quantity = Some (Fin 10), ac_sizing_policy = None, ac_broker_order_id = Some ''41'',
     ac_broker_position_id = None,
     ac_raw_json = Some (Json (PDict [(''preflight'', PDict [(''request'', PDict [(''stop_loss'', PFloat (Fin 90)),
        (''take_profit'', PFloat (Fin 120)), (''reference_price'', PFloat (Fin 100))])]),
       (''result'', PDict [(''broker_result'', PDict [(''final_status'', PDict [(''order_id'', PInt 41), (''status'', PDict [(''status'', PStr ''Filled''),
        (''avg_fill_price'', PFloat (Fin 101)), (''filled'', PInt 10), (''remaining'', PInt 0), (''order_id'', PInt 41)])])])])])),
     ac_created_at = 0\<rparr>"

theorem execution_fill_sound_witness:
  "\<exists>f :: entry_fill. fi_quantity f = Fin 10 \<and> isfinite (fi_price f) \<and> \<not> fi_price f \<le> 0"
proof -
  let ?row = "\<lambda>i q. [(''order_id'', PInt 41), (''account'', PStr ''DU1''), (''execution_id'', PStr i), (''symbol'', PStr ''AAPL''),
     (''side'', PStr ''BOT''), (''sec_type'', PStr ''STK''), (''quantity'', PFloat (Fin q)), (''price'', PFloat (Fin 100)), (''time'', PInt 1000)]"
  have "execution_fill (\<lambda>_ _ _. None) example_entry (PList (map PDict [?row ''e1'' 4, ?row ''e2'' 6])) (PStr ''DU1'') (PStr ''Etc/UTC'') 2000000
     = Inr (Some \<lparr>fi_quantity = Fin 10, fi_price = Fin 100, fi_time = 1000000, fi_execution_ids = [''e1'', ''e2''], fi_account = PStr ''DU1''\<rparr>)"
    by code_simp
  from execution_fill_sound [OF this] show ?thesis
    by (intro exI [of _ "\<lparr>fi_quantity = Fin 10, fi_price = Fin 100, fi_time = 1000000, fi_execution_ids = [''e1'', ''e2''], fi_account = PStr ''DU1''\<rparr>"]) auto
qed

lemma move_float:
  assumes "is_float (Fin a)"
  shows "0 \<le> y \<Longrightarrow> Fin a - y \<le> Fin a" "y \<le> 0 \<Longrightarrow> Fin a \<le> Fin a - y"
    "0 \<le> y \<Longrightarrow> Fin a \<le> Fin a + y" "y \<le> 0 \<Longrightarrow> Fin a + y \<le> Fin a"
proof -
  note r = fin_le_float [OF _ assms] fin_ge_float [OF _ assms]
  show "0 \<le> y \<Longrightarrow> Fin a - y \<le> Fin a" by (cases y) (simp_all add: zero_Fin r minus_pyfloat_def)
  show "y \<le> 0 \<Longrightarrow> Fin a \<le> Fin a - y" by (cases y) (simp_all add: zero_Fin r minus_pyfloat_def)
  show "0 \<le> y \<Longrightarrow> Fin a \<le> Fin a + y" by (cases y) (simp_all add: zero_Fin r plus_pyfloat_def)
  show "y \<le> 0 \<Longrightarrow> Fin a + y \<le> Fin a" by (cases y) (simp_all add: zero_Fin r plus_pyfloat_def)
qed

lemma signed_sign:
  assumes "isfinite x" and "0 < x" shows "0 \<le> signed 1 x" "signed (- 1) x \<le> 0"
  using assms fin_nonneg fin_nonpos by (cases x; auto simp: signed_def zero_Fin)+

lemma proven_fill_positive:
  assumes "proven_fill_price parse entry raw now_ms = Inr (fill, quantity)" shows "isfinite fill \<and> 0 < fill"
proof -
  from assms obtain final status f0 q0 unproven where
      s: "status_unproven entry final status f0 q0 = Inr unproven"
    and r: "(if \<not> unproven then Inr (f0, q0)
       else bindE (saved_execution_fill parse entry raw None now_ms) (\<lambda>proof'. case proof' of
         None \<Rightarrow> Inl (ValueError ''PROTECTION_FILL_PRICE_UNVERIFIED'') | Some f \<Rightarrow> Inr (fi_price f, q0))) = Inr (fill, quantity)"
    unfolding proven_fill_price_def by (auto simp: bindE_Inr_iff)
  show ?thesis
  proof (cases unproven)
    case False
    have "isfinite f0 \<and> \<not> f0 \<le> 0" using s False unfolding status_unproven_def by (auto split: if_splits)
    with r False show ?thesis by (cases f0) (auto simp: zero_Fin)
  next
    case True
    with r obtain f where "saved_execution_fill parse entry raw None now_ms = Inr (Some f)" and f: "fill = fi_price f"
      by (auto split: option.splits)
    then obtain ex acct tz where "execution_fill parse entry ex acct tz now_ms = Inr (Some f)"
      unfolding saved_execution_fill_def by (auto split: pyval.splits if_splits)
    then obtain acc expected where "settled_fill acc expected acct = Inr (Some f)"
      unfolding execution_fill_def by (auto simp: tryE_def bindE_Inr_iff split: sum.splits if_splits option.splits)
    then have "isfinite (fi_price f) \<and> \<not> fi_price f \<le> 0"
      unfolding settled_fill_def Let_def by (auto simp: bindE_Inr_iff split: if_splits)
    with f show ?thesis by (cases "fi_price f") (auto simp: zero_Fin)
  qed
qed



end
