(* ===== verification/Safe_Automation.thy ===== *)
theory Safe_Automation
  imports Bybit_Spot Ibkr_Evidence
begin

text \<open>
  \<open>app/services/safe_automation.py\<close>, the execution of one approved proposal: the audited IBKR path
  (\<open>_execute_ibkr_audited\<close>, \<open>_execute_ibkr\<close>, \<open>_verify_ibkr_fill\<close>), the Bybit path and the MT5 path, and the
  audit rows they leave (\<open>_persist_action\<close>). Log lines (\<open>emit\<close>) are not modelled.
\<close>

section \<open>Small helpers\<close>

definition short :: "pyval \<Rightarrow> nat \<Rightarrow> string option" where
  "short v limit =
     (if v = PNone then None
      else let text = py_str v in Some (if length text \<le> limit then text else take (limit - 3) text @ ''...''))"

fun first_true :: "pyval res list \<Rightarrow> pyval res" where
  \<comment> \<open>\<open>a or b or c\<close>: the first true value, else the last one; later members are not evaluated\<close>
  "first_true [] = Inr PNone"
| "first_true [r] = r"
| "first_true (r # rs) = bindE r (\<lambda>v. if truth v then Inr v else first_true rs)"

definition first_given :: "pyval list \<Rightarrow> pyval" where
  \<comment> \<open>successive \<open>if x is None: x = ...\<close>\<close>
  "first_given vs = (case find (\<lambda>v. v \<noteq> PNone) vs of Some v \<Rightarrow> v | None \<Rightarrow> PNone)"

definition sub_dict :: "pydict \<Rightarrow> string \<Rightarrow> pydict res" where
  \<comment> \<open>\<open>d.get(k) or {}\<close> as the receiver of \<open>.get\<close>\<close>
  "sub_dict d k = as_dict (py_or (dget d k) (PDict []))"

definition strict_rows :: "pyval \<Rightarrow> pyval list res" where
  \<comment> \<open>\<open>data.get('list', [])\<close> as a loop sees it\<close>
  "strict_rows data = bindE (as_dict data) (\<lambda>d. as_list (dget_or d ''list'' (PList [])))"

definition broker_ids :: "pydict \<Rightarrow> (pyval \<times> pyval) res" where
  "broker_ids r =
     (let nested = (\<lambda>k. vget (py_or (dget r ''result'') (PDict [])) k)
      in bindE (first_true [Inr (dget r ''fill''), nested ''fill'', Inr (PDict [])]) (\<lambda>fill.
         bindE (first_true [Inr (dget r ''broker_order_id''), Inr (dget r ''order_id''), Inr (dget r ''orderId''),
                  Inr (dget r ''order''), Inr (dget r ''ticket''), nested ''orderId'', nested ''order'', nested ''ticket'',
                  vget fill ''orderId'']) (\<lambda>order_id.
         bindE (first_true [Inr (dget r ''position_id''), nested ''position_id'', nested ''position'']) (\<lambda>position_id.
           Inr (order_id, position_id)))))"

definition item_market :: "pydict \<Rightarrow> string" where "item_market item = upper_or_empty (dget item ''market'')"
definition item_symbol :: "pydict \<Rightarrow> string" where "item_symbol item = canonical_symbol (dget item ''symbol'')"

definition profile_for_item :: "nat \<Rightarrow> pydict \<Rightarrow> (symbol_strategy option \<times> broker_profile option) prog" where
  "profile_for_item user_id item =
     bindP (find_strategy (\<lambda>s. ss_user_id s = user_id \<and> ss_market s = item_market item \<and> ss_symbol s = item_symbol item)) (\<lambda>c.
       case c of None \<Rightarrow> retP (None, None)
       | Some cfg \<Rightarrow> bindP (get_profile (ss_profile_id cfg)) (\<lambda>p. retP (Some cfg, p)))"

definition trade_strategy :: "nat \<Rightarrow> pydict \<Rightarrow> symbol_strategy option prog" where
  \<comment> \<open>the enabled AUTO_TRADE strategy the three executions look up\<close>
  "trade_strategy user_id item =
     find_strategy (\<lambda>s. ss_user_id s = user_id \<and> ss_market s = item_market item \<and> ss_symbol s = item_symbol item
       \<and> ss_enabled s \<and> ss_mode s = ''AUTO_TRADE'')"

section \<open>Audit rows\<close>

definition as_mapping :: "pyval \<Rightarrow> pydict res" where
  \<comment> \<open>the operand of \<open>**\<close>\<close>
  "as_mapping v = (case v of PDict d \<Rightarrow> Inr d | _ \<Rightarrow> Inl TypeError)"

definition action_quantity :: "pydict \<Rightarrow> pydict \<Rightarrow> pyfloat option res" where
  "action_quantity result request =
     (let q = first_given [dget result ''shares'', dget result ''volume'', dget result ''filled_quantity'', dget result ''quantity'',
                dget request ''shares'', dget request ''volume'', dget request ''quantity'']
      in if q = PNone then Inr None else bindE (py_float q) (\<lambda>x. Inr (Some x)))"

definition action_row ::
    "nat \<Rightarrow> nat \<Rightarrow> nat \<Rightarrow> broker_profile option \<Rightarrow> pydict \<Rightarrow> pydict \<Rightarrow> int \<Rightarrow> automation_action res" where
  "action_row i scan_id user_id profile item result now_us =
     bindE (bindE (as_mapping (py_or (dget result ''broker_result'') (PDict []))) (\<lambda>b.
              broker_ids (dset ''broker_order_id'' (dget result ''broker_order_id'') b))) (\<lambda>(order_id, position_id).
     bindE (sub_dict item ''request'') (\<lambda>request.
     bindE (action_quantity result request) (\<lambda>qty.
       let environment = py_or (dget result ''environment'') (case profile of Some p \<Rightarrow> PStr (bp_environment p) | None \<Rightarrow> PNone);
           text = (\<lambda>v limit. or_else (short (py_or v (PStr [])) limit) [])
       in Inr \<lparr>ac_id = i, ac_scan_id = scan_id, ac_user_id = user_id, ac_broker_profile_id = map_option bp_id profile,
              ac_provider = text (py_or (dget result ''provider'') (dget item ''provider'')) 32,
              ac_environment = short environment 24,
              ac_market = text (py_or (dget result ''market'') (dget item ''market'')) 24,
              ac_symbol = or_else (short (PStr (canonical_symbol (py_or (dget result ''symbol'') (dget item ''symbol'')))) 32) [],
              ac_side = short (py_or (dget result ''side'') (dget request ''side'')) 8,
              ac_status = or_else (short (py_or (dget result ''status'') (PStr ''UNKNOWN'')) 24) [],
              ac_reason = short (dget result ''reason'') 128, ac_quantity = qty,
              ac_sizing_policy = short (py_or (dget result ''sizing_policy'') (dget request ''sizing_policy'')) 64,
              ac_broker_order_id = short order_id 128, ac_broker_position_id = short position_id 128,
              ac_raw_json = Some (Json (PDict [(''preflight'', PDict item), (''result'', PDict result)])),
              ac_created_at = now_us\<rparr>)))"

definition persist_action :: "env \<Rightarrow> nat \<Rightarrow> nat \<Rightarrow> pydict \<Rightarrow> pydict \<Rightarrow> automation_action prog" where
  \<comment> \<open>the new row, flushed with the next query or commit of the session\<close>
  "persist_action E scan_id user_id item result =
     bindP (profile_for_item user_id item) (\<lambda>(_, profile).
     bindP (getP (\<lambda>w. (db_next_id (w_db w), 1000 * en_now E (w_tick w)))) (\<lambda>(i, now_us).
     bindP (liftP (action_row i scan_id user_id profile item result now_us)) (\<lambda>row.
       seqP (modify_db (\<lambda>d. d\<lparr>db_actions := db_actions d @ [row], db_next_id := i + 1\<rparr>)) (retP row))))"

section \<open>The broker behind a profile\<close>

definition secret_of :: "env \<Rightarrow> broker_profile \<Rightarrow> pydict res" where
  "secret_of E p =
     (if bp_credential_blob_encrypted p \<in> {None, Some []}
      then Inl (RuntimeError (bp_provider p @ '' bridge configuration missing''))
      else bindE (en_secret E (the (bp_credential_blob_encrypted p))) as_dict)"

definition rstrip_slash :: "string \<Rightarrow> string" where
  "rstrip_slash s = rev (dropWhile (\<lambda>c. c = CHR ''/'') (rev s))"

definition bridge_base :: "pydict \<Rightarrow> string \<Rightarrow> string res" where
  \<comment> \<open>\<open>(creds.get('bridge_url') or fallback).rstrip('/')\<close>\<close>
  "bridge_base creds fallback =
     (case py_or (dget creds ''bridge_url'') (PStr fallback) of PStr s \<Rightarrow> Inr (rstrip_slash s) | _ \<Rightarrow> Inl AttributeError)"

definition ibkr_client_of :: "pydict \<Rightarrow> ibkr_client res" where
  "ibkr_client_of creds =
     bindE (bridge_base creds ''http://host.docker.internal:8766'') (\<lambda>base.
       Inr \<lparr>ib_base = base, ib_expected = dget creds ''account_id''\<rparr>)"

section \<open>The fill of an IBKR entry\<close>

definition IBKR_FILL_VERIFY_ATTEMPTS :: nat where "IBKR_FILL_VERIFY_ATTEMPTS = 6"

definition IBKR_TERMINAL_ORDER_STATUSES :: "string list" where
  "IBKR_TERMINAL_ORDER_STATUSES = [''CANCELLED'', ''CANCELED'', ''INACTIVE'', ''API CANCELLED'', ''APICANCELLED'']"

definition nothing_filled :: "pydict \<Rightarrow> bool res" where
  \<comment> \<open>an unreadable quantity is not zero\<close>
  "nothing_filled status =
     tryE (bindE (bindE (dsub status ''filled'') py_float) (\<lambda>f. Inr (isfinite f \<and> feq f 0)))
       (\<lambda>e. e = KeyError \<or> is_type_or_value e) (\<lambda>_. Inr False)"

definition fill_verdict :: "pydict \<Rightarrow> pyfloat \<Rightarrow> string option res" where
  \<comment> \<open>what one status answer proves, if anything\<close>
  "fill_verdict status shares =
     bindE (ibkr_fill_is_complete (PDict status) (PFloat shares)) (\<lambda>complete.
       if complete then Inr (Some ''FILLED'')
       else if upper_or_empty (dget status ''status'') \<in> set IBKR_TERMINAL_ORDER_STATUSES
       then bindE (nothing_filled status) (\<lambda>b. Inr (Some (if b then ''CANCELLED'' else ''SUBMITTED'')))
       else Inr None)"

fun verify_ibkr_fill ::
    "env \<Rightarrow> ibkr_client \<Rightarrow> pyval \<Rightarrow> pyfloat \<Rightarrow> bool \<Rightarrow> pyval \<Rightarrow> nat \<Rightarrow> (string \<times> pyval) prog" where
  \<comment> \<open>the attempts left, whether this is the first, and the latest answer\<close>
  "verify_ibkr_fill E c order_id shares first latest 0 = retP (''SUBMITTED'', latest)"
| "verify_ibkr_fill E c order_id shares first latest (Suc n) =
     seqP (if first then retP () else suspend E)
       (bindP (tryP (bindP (bindP (liftP (py_int order_id)) (ib_order_status E c)) (\<lambda>d. retP (Inr d)))
                 is_exception (\<lambda>e. retP (Inl e))) (\<lambda>r. case r of
          Inl e \<Rightarrow> retP (''SUBMITTED'', PDict [(''verification_error'', PStr (exn_name e))])
        | Inr answer \<Rightarrow>
            bindP (liftP (bindE (as_dict answer) (\<lambda>d. sub_dict d ''status''))) (\<lambda>status.
            bindP (liftP (fill_verdict status shares)) (\<lambda>v. case v of
              Some verdict \<Rightarrow> retP (verdict, answer)
            | None \<Rightarrow> verify_ibkr_fill E c order_id shares False answer n))))"

section \<open>Executing an IBKR entry\<close>

definition route_outcome :: "string \<Rightarrow> string \<Rightarrow> string \<Rightarrow> string \<Rightarrow> string \<Rightarrow> pydict" where
  "route_outcome market symbol provider status reason =
     [(''market'', PStr market), (''symbol'', PStr symbol), (''provider'', PStr provider), (''status'', PStr status), (''reason'', PStr reason)]"

definition levels_valid :: "pydict \<Rightarrow> string \<Rightarrow> bool res" where
  "levels_valid proposed side =
     tryE (bindE (bindE (dsub proposed ''stop_loss'') py_float) (\<lambda>stop.
           bindE (bindE (dsub proposed ''take_profit'') py_float) (\<lambda>target.
             Inr (isfinite stop \<and> isfinite target \<and> 0 < stop \<and> 0 < target
                \<and> (if side = ''BUY'' then stop < target else target < stop)))))
       (\<lambda>e. e = KeyError \<or> is_type_or_value e) (\<lambda>_. Inr False)"

definition ibkr_proposal :: "app_settings \<Rightarrow> pydict \<Rightarrow> (string + (string \<times> pyfloat)) res" where
  \<comment> \<open>the reason against the proposal, or its side and normalized shares\<close>
  "ibkr_proposal settings proposed =
     (let side = upper_or_empty (dget proposed ''side'')
      in bindE (normalize_ibkr_shares (py_or (dget proposed ''shares'') (dget proposed ''quantity''))) (\<lambda>requested.
         if side \<notin> set [''BUY'', ''SELL''] \<or> requested \<le> 0 then Inr (Inl ''INVALID_ORDER_PROPOSAL'')
         else bindE (if ibkr_native_protection_enabled settings then levels_valid proposed side else Inr True) (\<lambda>valid.
           if \<not> valid then Inr (Inl ''SAVED_PROTECTION_LEVELS_INVALID'')
           else bindE (ibkr_quantity_is_fractional (PFloat requested)) (\<lambda>fractional.
             if fractional \<and> \<not> ibkr_fractional_api_enabled settings then Inr (Inl ''IBKR_FRACTIONAL_API_UNSUPPORTED'')
             else Inr (Inr (side, requested))))))"

definition holds_symbol :: "string \<Rightarrow> string \<Rightarrow> pyval \<Rightarrow> bool res" where
  \<comment> \<open>a row of the symbol with a quantity other than zero\<close>
  "holds_symbol symbol key row =
     bindE (as_dict row) (\<lambda>x.
       if canonical_symbol (dget x ''symbol'') \<noteq> symbol then Inr False
       else bindE (float_or0 (dget x key)) (\<lambda>q. Inr (\<not> feq q 0)))"

definition unprotected :: "pyval list \<Rightarrow> pyval \<Rightarrow> pyval \<Rightarrow> bool res" where
  "unprotected orders account_id row =
     bindE (as_dict row) (\<lambda>p. bindE (float_or0 (dget p ''quantity'')) (\<lambda>q.
       if feq q 0 then Inr False
       else bindE (mapE as_dict orders) (\<lambda>os. bindE (position_has_native_protection p os account_id) (\<lambda>b. Inr (\<not> b)))))"

definition open_order_of :: "string \<Rightarrow> pyval \<Rightarrow> bool res" where
  "open_order_of symbol row =
     bindE (as_dict row) (\<lambda>x. Inr (canonical_symbol (dget x ''symbol'') = symbol
       \<and> upper_or_empty (dget x ''status'') \<notin> set [''FILLED'', ''CANCELLED'', ''CANCELED'', ''INACTIVE'']))"

definition ibkr_account_blocker :: "env \<Rightarrow> ibkr_client \<Rightarrow> string \<Rightarrow> pyval \<Rightarrow> (string option \<times> pydict) prog" where
  \<comment> \<open>the state of the bridge and the account: what blocks an entry in the symbol, and the health read\<close>
  "ibkr_account_blocker E c symbol account_id =
     (let native = ibkr_native_protection_enabled (en_settings E)
      in bindP (bindP (ib_health E c) (\<lambda>h. liftP (as_dict h))) (\<lambda>health.
         if \<not> truth (dget health ''connected'') \<or> \<not> truth (dget health ''simulation'')
         then retP (Some ''IBKR_PAPER_BRIDGE_REQUIRED'', health)
         else if native \<and> dget health ''native_protection_available'' \<noteq> PBool True
         then retP (Some ''IBKR_PROTECTION_BRIDGE_UPGRADE_REQUIRED'', health)
         else bindP (bindP (ib_get E c ''/positions'' []) (\<lambda>d. liftP (strict_rows d))) (\<lambda>positions.
              bindP (liftP (anyE (holds_symbol symbol ''quantity'') positions)) (\<lambda>held.
                if held then retP (Some ''SYMBOL_ALREADY_HAS_POSITION'', health)
                else bindP (bindP (ib_get E c ''/orders'' []) (\<lambda>d. liftP (strict_rows d))) (\<lambda>orders.
                     bindP (liftP (if native then anyE (unprotected orders account_id) positions else Inr False)) (\<lambda>bare.
                       if bare then retP (Some ''IBKR_EXISTING_POSITION_PROTECTION_UNVERIFIED'', health)
                       else bindP (liftP (anyE (open_order_of symbol) orders)) (\<lambda>pending.
                         retP (if pending then Some ''SYMBOL_ALREADY_HAS_OPEN_ORDER'' else None, health))))))))"

definition account_outcome :: "string \<Rightarrow> string \<Rightarrow> string \<Rightarrow> pydict" where
  \<comment> \<open>the two refusals for existing exposure name the environment as well\<close>
  "account_outcome market symbol reason =
     route_outcome market symbol ''IBKR'' ''BLOCK'' reason
     @ (if reason \<in> set [''SYMBOL_ALREADY_HAS_POSITION'', ''SYMBOL_ALREADY_HAS_OPEN_ORDER''] then [(''environment'', PStr ''PAPER'')] else [])"

definition item_timeframe :: "pydict \<Rightarrow> symbol_strategy \<Rightarrow> pyval res" where
  "item_timeframe item cfg =
     bindE (sub_dict item ''strategy_snapshot'') (\<lambda>snap.
     bindE (vget (dget_or snap ''effective_parameters'' (PDict [])) ''timeframe'') (\<lambda>t.
       Inr (py_or t (opt_val PStr (ss_timeframe cfg)))))"

definition candle_payload :: "candle_quality \<Rightarrow> pyval" where
  \<comment> \<open>the dictionary \<open>entry_candle_quality\<close> returns\<close>
  "candle_payload q = PDict
     [(''count'', PInt (int (cq_count q))), (''required_count'', PInt (int (cq_required q))), (''timeframe'', PStr (cq_timeframe q)),
      (''last_end_ms'', opt_val PInt (cq_last_end q)), (''age_ms'', opt_val PInt (cq_age q)), (''maximum_age_ms'', PInt (cq_max_age q)),
      (''policy'', PStr (cq_policy q)), (''reason'', opt_val PStr (cq_reason q))]"

definition quote_payload :: "quote_quality \<Rightarrow> pyval" where
  \<comment> \<open>the dictionary \<open>ibkr_entry_quote_quality\<close> returns\<close>
  "quote_payload q = PDict
     [(''source'', qq_source q), (''market_data_type'', qq_data_type q), (''data_status'', PStr (qq_data_status q)),
      (''price_field'', opt_val PStr (qq_field q)), (''received_age_ms'', opt_val PInt (qq_age q)),
      (''last_trade_age_ms'', opt_val PInt (qq_trade_age q)), (''maximum_age_ms'', PInt (qq_max_age q)),
      (''source_timestamp_available'', PBool (qq_timestamped q)), (''reason'', opt_val PStr (qq_reason q))]"

definition delayed_quote_dict :: "delayed_quote \<Rightarrow> pydict" where
  "delayed_quote_dict q =
     [(''last'', PFloat (dq_last q)), (''source'', PStr ''PAPER_DELAYED_CANDLE_REFERENCE''),
      (''data_status'', PStr ''DELAYED_SIMULATION''), (''reference_bar_end_ms'', opt_val PInt (dq_end q))]"

definition delayed_evidence :: "delayed_quote \<Rightarrow> pyval" where
  \<comment> \<open>the evidence \<open>delayed_reference\<close> returns beside the quote\<close>
  "delayed_evidence q = PDict (delayed_quote_dict q @
     [(''policy'', PStr ''IBKR_PAPER_DELAYED_DATA''), (''price_field'', PStr ''last''), (''age_ms'', opt_val PInt (dq_age q)),
      (''maximum_age_ms'', PInt (dq_max_age q)), (''reason'', PNone), (''real_time'', PBool False)])"

definition now_ms :: "env \<Rightarrow> int prog" where
  "now_ms E = getP (\<lambda>w. en_now E (w_tick w))"

definition entry_market_data ::
    "env \<Rightarrow> ibkr_client \<Rightarrow> string \<Rightarrow> string \<Rightarrow> string \<Rightarrow> string \<Rightarrow> pydict \<Rightarrow> (string option \<times> pydict) prog" where
  \<comment> \<open>the last look at candles and quote: what blocks the entry, and the evidence\<close>
  "entry_market_data E c symbol side timeframe environment health =
     bindP (bindP (ib_candles E c symbol timeframe 201) (\<lambda>d. liftP (as_dict d))) (\<lambda>payload.
     bindP (now_ms E) (\<lambda>now.
     bindP (liftP (completed_ibkr_candles payload timeframe now)) (\<lambda>candles.
     bindP (liftP (delayed_paper_mode (en_settings E) environment (Inr health))) (\<lambda>delayed.
     bindP (liftP (entry_candle_quality candles timeframe now delayed)) (\<lambda>q.
       case cq_reason q of
         Some r \<Rightarrow> retP (Some r, [(''candles'', candle_payload q)])
       | None \<Rightarrow>
           if delayed
           then bindP (liftP (delayed_reference candles timeframe now)) (\<lambda>dq.
                  retP (None, [(''candles'', candle_payload q), (''quote'', delayed_evidence dq)]))
           else bindP (bindP (ib_quote E c symbol) (\<lambda>d. liftP (as_dict d))) (\<lambda>quote.
                bindP (now_ms E) (\<lambda>later.
                  let qq = ibkr_entry_quote_quality quote side later
                  in retP (qq_reason qq, [(''candles'', candle_payload q), (''quote'', quote_payload qq)]))))))))"

definition entry_payload :: "string \<Rightarrow> string \<Rightarrow> pyfloat \<Rightarrow> pyval \<Rightarrow> pydict" where
  "entry_payload symbol side shares account_id =
     [(''symbol'', PStr symbol), (''side'', PStr side), (''quantity'', PFloat shares), (''order_type'', PStr ''MKT''),
      (''sec_type'', PStr ''STK''), (''exchange'', PStr ''SMART''), (''currency'', PStr ''USD''), (''account_id'', account_id)]"

definition check_passed :: "pydict \<Rightarrow> bool" where
  "check_passed check \<longleftrightarrow> truth (dget check ''ok'') \<and> truth (dget check ''what_if'') \<and> truth (dget check ''simulation'')"

definition entry_base ::
    "app_settings \<Rightarrow> string \<Rightarrow> string \<Rightarrow> string \<Rightarrow> pyfloat \<Rightarrow> pydict \<Rightarrow> pydict \<Rightarrow> pydict \<Rightarrow> pydict \<Rightarrow> pydict" where
  "entry_base settings market symbol side shares proposed check result quality =
     (let policy = ibkr_fractional_policy_payload (ibkr_fractional_api_enabled settings)
      in dmerge (dmerge [(''market'', PStr market), (''symbol'', PStr symbol), (''provider'', PStr ''IBKR''), (''environment'', PStr ''PAPER''),
            (''side'', PStr side), (''shares'', PFloat shares),
            (''strategy_requested_shares'', py_or (dget proposed ''strategy_requested_shares'') (PFloat shares)),
            (''sizing_policy'', PStr (''RISK_SIZED_'' @ quantity_mode (ibkr_fractional_api_enabled settings)))] policy)
          [(''broker_check'', PDict check), (''broker_result'', PDict result), (''market_data_quality'', PDict quality)])"

definition settle_entry ::
    "env \<Rightarrow> ibkr_client \<Rightarrow> string \<Rightarrow> string \<Rightarrow> string \<Rightarrow> pyfloat \<Rightarrow> pydict \<Rightarrow> pydict \<Rightarrow> pydict \<Rightarrow> pydict \<Rightarrow> pydict prog" where
  \<comment> \<open>what follows the answer of \<open>place_order\<close>\<close>
  "settle_entry E c market symbol side shares proposed check quality result =
     (let base = entry_base (en_settings E) market symbol side shares proposed check
      in if dget result ''accepted'' \<noteq> PBool True
         then let rejected = (dget result ''accepted'' = PBool False \<and> dget result ''order_id'' = PNone)
              in retP ([(''market'', PStr market), (''symbol'', PStr symbol), (''provider'', PStr ''IBKR''), (''environment'', PStr ''PAPER''),
                   (''status'', PStr (if rejected then ''BLOCK'' else ''SUBMITTED'')),
                   (''reason'', PStr (if rejected then ''BROKER_ORDER_REJECTED'' else ''IBKR_ENTRY_SUBMISSION_UNRESOLVED'')),
                   (''broker_result'', PDict result)])
         else if dget result ''order_id'' = PNone
         then retP (outcome ''SUBMITTED'' ''BROKER_ORDER_ID_MISSING'' (base result quality))
         else bindP (verify_ibkr_fill E c (dget result ''order_id'') shares True PNone IBKR_FILL_VERIFY_ATTEMPTS) (\<lambda>(verdict, final).
              let b = base (dset ''final_status'' final result) quality
              in retP (if verdict = ''FILLED'' then dset ''status'' (PStr ''EXECUTED'') b
                       else if verdict = ''CANCELLED'' then outcome ''CANCELLED'' ''BROKER_ORDER_CANCELLED'' b
                       else outcome ''SUBMITTED'' ''BROKER_FILL_NOT_CONFIRMED'' b)))"

definition submit_entry ::
    "env \<Rightarrow> ibkr_client \<Rightarrow> broker_profile \<Rightarrow> symbol_strategy \<Rightarrow> string \<Rightarrow> string \<Rightarrow> string \<Rightarrow> pyfloat \<Rightarrow> pydict \<Rightarrow> pydict \<Rightarrow> pydict \<Rightarrow> pydict prog" where
  \<comment> \<open>the controls once more, then \<open>place_order\<close>, which reads them again just before it submits\<close>
  "submit_entry E c profile cfg market symbol side shares proposed check quality =
     (let payload = entry_payload symbol side shares (ib_expected c);
          authorization = entry_authorization_blocker E (bp_id profile) (ss_id cfg)
      in bindP authorization (\<lambda>blocker. case blocker of
           Some b \<Rightarrow> retP (route_outcome market symbol ''IBKR'' ''BLOCK'' b)
         | None \<Rightarrow>
             bindP (tryP (bindP (bindP (ib_place_order E c payload authorization) (\<lambda>r. liftP (as_dict r))) (\<lambda>r. retP (Inr r)))
                      (\<lambda>e. case e of PreSubmissionBlocked _ \<Rightarrow> True | _ \<Rightarrow> False)
                      (\<lambda>e. case e of PreSubmissionBlocked b \<Rightarrow> retP (Inl b) | _ \<Rightarrow> retP (Inl []))) (\<lambda>r. case r of
                Inl b \<Rightarrow> retP (route_outcome market symbol ''IBKR'' ''BLOCK'' b)
              | Inr result \<Rightarrow> settle_entry E c market symbol side shares proposed check quality result)))"

definition check_entry ::
    "env \<Rightarrow> ibkr_client \<Rightarrow> broker_profile \<Rightarrow> symbol_strategy \<Rightarrow> pydict \<Rightarrow> string \<Rightarrow> string \<Rightarrow> string \<Rightarrow> pyfloat \<Rightarrow> pydict \<Rightarrow> pydict \<Rightarrow> pydict prog" where
  \<comment> \<open>timeframe, market data and the broker's what-if, then the submission\<close>
  "check_entry E c profile cfg item market symbol side shares proposed health =
     bindP (liftP (item_timeframe item cfg)) (\<lambda>timeframe.
       if \<not> truth timeframe then retP (route_outcome market symbol ''IBKR'' ''BLOCK'' ''IBKR_ENTRY_TIMEFRAME_REQUIRED'')
       else bindP (entry_market_data E c symbol side (py_str timeframe) (bp_environment profile) health) (\<lambda>(reason, quality). case reason of
           Some r \<Rightarrow> retP (dset ''market_data_quality'' (PDict quality) (route_outcome market symbol ''IBKR'' ''BLOCK'' r))
         | None \<Rightarrow>
             bindP (bindP (ib_order_check E c (entry_payload symbol side shares (ib_expected c))) (\<lambda>d. liftP (as_dict d))) (\<lambda>check.
               if \<not> check_passed check
               then retP (dset ''broker_check'' (PDict check) (route_outcome market symbol ''IBKR'' ''BLOCK'' ''BROKER_WHATIF_REJECTED''))
               else submit_entry E c profile cfg market symbol side shares proposed check quality)))"

definition execute_ibkr :: "env \<Rightarrow> nat \<Rightarrow> pydict \<Rightarrow> pydict prog" where
  "execute_ibkr E user_id item =
     (let market = item_market item; symbol = item_symbol item;
          blocked = route_outcome market symbol ''IBKR'' ''BLOCK''
      in bindP (trade_strategy user_id item) (\<lambda>cfg. case cfg of
           None \<Rightarrow> retP (route_outcome market symbol ''IBKR'' ''SKIP'' ''AUTO_TRADE_NOT_ENABLED'')
         | Some cfg \<Rightarrow>
           bindP (get_profile (ss_profile_id cfg)) (\<lambda>profile. case profile of
             None \<Rightarrow> retP (blocked ''PROFILE_NOT_FOUND'')
           | Some profile \<Rightarrow>
             (case automation_certification_blocker (bp_provider profile) (bp_environment profile) of
               Some b \<Rightarrow> retP (blocked b)
             | None \<Rightarrow>
               if \<not> route_ready profile then retP (blocked ''ROUTE_NOT_READY'')
               else bindP (liftP (sub_dict item ''request'')) (\<lambda>proposed.
                    bindP (liftP (ibkr_proposal (en_settings E) proposed)) (\<lambda>p. case p of
                      Inl r \<Rightarrow> retP (blocked r)
                    | Inr (side, shares) \<Rightarrow>
                      bindP (liftP (bindE (secret_of E profile) ibkr_client_of)) (\<lambda>c.
                      bindP (ibkr_account_blocker E c symbol (ib_expected c)) (\<lambda>(blocker, health). case blocker of
                        Some r \<Rightarrow> retP (account_outcome market symbol r)
                      | None \<Rightarrow> check_entry E c profile cfg item market symbol side shares proposed health))))))))"

section \<open>The audited entry\<close>

definition pending_ibkr :: "nat \<Rightarrow> nat \<Rightarrow> string \<Rightarrow> db \<Rightarrow> bool" where
  \<comment> \<open>an unresolved entry or exit of the profile in the symbol\<close>
  "pending_ibkr user_id profile_id symbol d =
     list_ex (\<lambda>a. ac_user_id a = user_id \<and> ac_broker_profile_id a = Some profile_id \<and> ac_provider a = ''IBKR''
       \<and> ac_environment a = Some ''PAPER'' \<and> ac_symbol a = symbol \<and> ac_status a \<in> set [''SUBMITTED'', ''EXIT_SUBMITTED'']) (db_actions d)"

definition entry_intent :: "pydict \<Rightarrow> pydict \<Rightarrow> pydict" where
  "entry_intent base request =
     base @ [(''environment'', PStr ''PAPER''), (''side'', dget request ''side''),
             (''shares'', py_or (dget request ''shares'') (dget request ''quantity'')),
             (''status'', PStr ''SUBMITTED''), (''reason'', PStr ''IBKR_ENTRY_SUBMISSION_UNRESOLVED'')]"

definition record_outcome :: "nat \<Rightarrow> pydict \<Rightarrow> pydict \<Rightarrow> automation_action prog" where
  \<comment> \<open>the refreshed audit row with the result of the execution\<close>
  "record_outcome action_id intent result =
     bindP (getP (\<lambda>w. by_key ac_id action_id (db_actions (w_db w)))) (\<lambda>r. case r of
       None \<Rightarrow> liftP (Inl SQLAlchemyError)
     | Some a \<Rightarrow>
         bindP (liftP (bindE (json_loads (ac_raw_json a)) (\<lambda>raw. bindE (set_audit ''submission_intent'' (PDict intent) raw)
                         (set_audit ''result'' (PDict result))))) (\<lambda>raw.
         bindP (liftP (bindE (as_dict (py_or (dget result ''broker_result'') (PDict []))) broker_ids)) (\<lambda>(order_id, _).
           let f = (\<lambda>a. a\<lparr>ac_status := or_else (short (py_or (dget result ''status'') (PStr ''SUBMITTED'')) 24) [],
                   ac_reason := short (dget result ''reason'') 128, ac_broker_order_id := short order_id 128,
                   ac_raw_json := Some (Json raw)\<rparr>)
           in seqP (modify_db (\<lambda>d. d\<lparr>db_actions := update_key ac_id action_id f (db_actions d)\<rparr>)) (retP (f a)))))"

definition execute_ibkr_audited :: "env \<Rightarrow> nat \<Rightarrow> nat \<Rightarrow> pydict \<Rightarrow> (pydict \<times> automation_action option) prog" where
  "execute_ibkr_audited E scan_id user_id item =
     (let base = [(''market'', dget item ''market''), (''symbol'', dget item ''symbol''), (''provider'', PStr ''IBKR'')];
          blocked = (\<lambda>r. retP (outcome ''BLOCK'' r base, None))
      in bindP (profile_for_item user_id item) (\<lambda>(cfg, profile). case (cfg, profile) of
           (Some cfg, Some profile) \<Rightarrow>
             if bp_user_id profile \<noteq> user_id then blocked ''PROFILE_NOT_FOUND''
             else bindP (refresh_profile (bp_id profile)) (\<lambda>_.
                  bindP (getP (\<lambda>w. pending_ibkr user_id (bp_id profile) (item_symbol item) (w_db w))) (\<lambda>pending.
                    if pending then blocked ''IBKR_PENDING_SUBMISSION_RECONCILIATION_REQUIRED''
                    else bindP (entry_authorization_blocker E (bp_id profile) (ss_id cfg)) (\<lambda>blocker. case blocker of
                      Some b \<Rightarrow> blocked b
                    | None \<Rightarrow>
                      bindP (liftP (sub_dict item ''request'')) (\<lambda>request.
                      let intent = entry_intent base request
                      in bindP (persist_action E scan_id user_id item intent) (\<lambda>action.
                         seqP (commit E)
                           (bindP (tryP (execute_ibkr E user_id item) is_exception
                                     (\<lambda>e. retP (dset ''submission_error'' (PStr (exn_name e)) intent))) (\<lambda>result.
                            bindP (record_outcome (ac_id action) intent result) (\<lambda>a.
                            seqP (commit E) (retP (result, Some a))))))))))
         | _ \<Rightarrow> blocked ''PROFILE_NOT_FOUND''))"

section \<open>Bybit and MT5\<close>

definition execute_bybit :: "env \<Rightarrow> nat \<Rightarrow> pydict \<Rightarrow> pydict prog" where
  "execute_bybit E user_id item =
     (let market = item_market item; symbol = item_symbol item
      in bindP (trade_strategy user_id item) (\<lambda>cfg. case cfg of
           None \<Rightarrow> retP (route_outcome market symbol ''BYBIT'' ''SKIP'' ''AUTO_TRADE_NOT_ENABLED'')
         | Some cfg \<Rightarrow>
           bindP (get_profile (ss_profile_id cfg)) (\<lambda>profile. case profile of
             None \<Rightarrow> retP (route_outcome market symbol ''BYBIT'' ''BLOCK'' ''PROFILE_NOT_FOUND'')
           | Some profile \<Rightarrow>
             (case automation_certification_blocker (bp_provider profile) (bp_environment profile) of
               Some b \<Rightarrow> retP (dset ''environment'' (PStr (bp_environment profile)) (route_outcome market symbol ''BYBIT'' ''BLOCK'' b))
             | None \<Rightarrow>
               bindP (liftP (sub_dict item ''request'')) (\<lambda>proposed.
               bindP (liftP (tryE (float_or0 (dget proposed ''quantity'')) is_type_or_value (\<lambda>_. Inr 0))) (\<lambda>quantity.
               bindP (execute_managed_spot_order E profile user_id symbol (upper_or_empty (dget proposed ''side'')) quantity) (\<lambda>result.
                 retP (dmerge [(''market'', PStr market)] result))))))))"

definition contains :: "string \<Rightarrow> string \<Rightarrow> bool" where
  \<comment> \<open>\<open>p in s\<close>\<close>
  "contains p s = list_ex (\<lambda>i. take (length p) (drop i s) = p) [0..<Suc (length s)]"

definition mt5_terminal_blocker :: "pydict \<Rightarrow> string option res" where
  "mt5_terminal_blocker health =
     (if \<not> contains ''demo'' (str_lower (str_or_empty (dget health ''server''))) then Inr (Some ''MT5_DEMO_SERVER_REQUIRED'')
      else bindE (sub_dict health ''terminal'') (\<lambda>terminal.
       Inr (if terminal \<noteq> [] \<and> \<not> truth (dget_or terminal ''trade_allowed'' (PBool False)) then Some ''MT5_ALGO_TRADING_DISABLED''
            else None)))"

definition mt5_check_passed :: "pydict \<Rightarrow> bool res" where
  "mt5_check_passed check =
     bindE (sub_dict check ''result'') (\<lambda>r. bindE (py_int (dget_or r ''retcode'' (PInt (- 1)))) (\<lambda>code. Inr (code = 0 \<or> code = 10009)))"

definition mt5_account_blocker :: "env \<Rightarrow> string \<Rightarrow> string \<Rightarrow> string option prog" where
  "mt5_account_blocker E base symbol =
     bindP (bindP (mt_health E base) (\<lambda>h. liftP (as_dict h))) (\<lambda>health.
     bindP (liftP (mt5_terminal_blocker health)) (\<lambda>b. case b of Some r \<Rightarrow> retP (Some r) | None \<Rightarrow>
     bindP (bindP (mt_request E base (Get ''/positions'' [])) (\<lambda>d. liftP (strict_rows d))) (\<lambda>positions.
     bindP (liftP (anyE (holds_symbol symbol ''volume'') positions)) (\<lambda>held. if held then retP (Some ''SYMBOL_ALREADY_HAS_POSITION'') else
     bindP (bindP (mt_request E base (Get ''/orders'' [])) (\<lambda>d. liftP (strict_rows d))) (\<lambda>orders.
     bindP (liftP (anyE (\<lambda>r. bindE (as_dict r) (\<lambda>x. Inr (canonical_symbol (dget x ''symbol'') = symbol))) orders)) (\<lambda>pending.
       retP (if pending then Some ''SYMBOL_ALREADY_HAS_OPEN_ORDER'' else None)))))))"

definition submit_mt5 ::
    "env \<Rightarrow> nat \<Rightarrow> string \<Rightarrow> string \<Rightarrow> string \<Rightarrow> string \<Rightarrow> pyfloat \<Rightarrow> pyval \<Rightarrow> pyval \<Rightarrow> pydict prog" where
  "submit_mt5 E user_id base market symbol side volume stop_loss take_profit =
     (let blocked = route_outcome market symbol ''MT5'' ''BLOCK''
      in bindP (mt5_account_blocker E base symbol) (\<lambda>b. case b of
           Some r \<Rightarrow> retP (blocked r)
         | None \<Rightarrow>
           bindP (bindP (mt_order_check E base (mt_order symbol side (PFloat volume) stop_loss take_profit ''ATLAS AUTO PREFLIGHT''))
                    (\<lambda>d. liftP (as_dict d))) (\<lambda>check.
           bindP (liftP (mt5_check_passed check)) (\<lambda>passed.
             if \<not> passed then retP (dset ''broker_check'' (PDict check) (blocked ''BROKER_PREFLIGHT_REJECTED''))
             else bindP (active_owner user_id) (\<lambda>active.
               if \<not> active then retP (blocked ''ACCOUNT_OWNER_DISABLED'')
               else bindP (liftP (py_float stop_loss)) (\<lambda>sl.
                    bindP (liftP (py_float take_profit)) (\<lambda>tp.
                    bindP (mt_place_demo_order E base symbol side (PFloat volume) (PFloat sl) (PFloat tp) ''ATLAS AUTO DEMO'') (\<lambda>result.
                      retP [(''market'', PStr market), (''symbol'', PStr symbol), (''provider'', PStr ''MT5''), (''environment'', PStr ''DEMO''),
                        (''status'', PStr ''EXECUTED''), (''side'', PStr side), (''volume'', PFloat volume), (''stop_loss'', stop_loss),
                        (''take_profit'', take_profit), (''broker_result'', result)]))))))))"

definition execute_mt5 :: "env \<Rightarrow> nat \<Rightarrow> pydict \<Rightarrow> pydict prog" where
  "execute_mt5 E user_id item =
     (let market = item_market item; symbol = item_symbol item;
          blocked = route_outcome market symbol ''MT5'' ''BLOCK''
      in bindP (trade_strategy user_id item) (\<lambda>cfg. case cfg of
           None \<Rightarrow> retP (route_outcome market symbol ''MT5'' ''SKIP'' ''AUTO_TRADE_NOT_ENABLED'')
         | Some cfg \<Rightarrow>
           bindP (get_profile (ss_profile_id cfg)) (\<lambda>profile. case profile of
             None \<Rightarrow> retP (blocked ''PROFILE_NOT_FOUND'')
           | Some profile \<Rightarrow>
             (case automation_certification_blocker (bp_provider profile) (bp_environment profile) of
               Some b \<Rightarrow> retP (route_outcome market symbol (bp_provider profile) ''BLOCK'' b)
             | None \<Rightarrow>
               if \<not> route_ready profile then retP (route_outcome market symbol (bp_provider profile) ''BLOCK'' ''ROUTE_NOT_READY'')
               else bindP (liftP (sub_dict item ''request'')) (\<lambda>proposed.
                    bindP (liftP (float_or0 (dget proposed ''volume''))) (\<lambda>volume.
                      let side = upper_or_empty (dget proposed ''side''); stop_loss = dget proposed ''stop_loss'';
                          take_profit = dget proposed ''take_profit''
                      in if side \<notin> set [''BUY'', ''SELL''] \<or> volume \<le> 0 then retP (blocked ''INVALID_ORDER_PROPOSAL'')
                         else if stop_loss = PNone \<or> take_profit = PNone then retP (blocked ''PROTECTION_REQUIRED'')
                         else bindP (liftP (bindE (secret_of E profile) (\<lambda>creds. bridge_base creds ''http://host.docker.internal:8765''))) (\<lambda>base.
                              submit_mt5 E user_id base market symbol side volume stop_loss take_profit)))))))"

section \<open>Fill verification\<close>

definition verdict_proven :: "pyfloat \<Rightarrow> string \<times> pyval \<Rightarrow> bool" where
  \<comment> \<open>what the verdict of the verification rests on\<close>
  "verdict_proven shares v \<longleftrightarrow> (case v of (verdict, answer) \<Rightarrow>
     verdict \<in> {''FILLED'', ''CANCELLED'', ''SUBMITTED''}
   \<and> (verdict \<in> {''FILLED'', ''CANCELLED''} \<longrightarrow>
       (\<exists>d status. answer = PDict d \<and> sub_dict d ''status'' = Inr status
          \<and> (if verdict = ''FILLED'' then ibkr_fill_is_complete (PDict status) (PFloat shares) = Inr True
             else nothing_filled status = Inr True \<and> upper_or_empty (dget status ''status'') \<in> set IBKR_TERMINAL_ORDER_STATUSES))))"

lemma fill_verdict_cases:
  assumes "fill_verdict status shares = Inr (Some v)" and "sub_dict d ''status'' = Inr status"
  shows "verdict_proven shares (v, PDict d)"
  using assms unfolding fill_verdict_def verdict_proven_def by (auto simp: bindE_Inr_iff split: if_splits)

lemma verify_proven: "returns (verdict_proven shares) (verify_ibkr_fill E c order_id shares first latest n)"
proof (induction n arbitrary: first latest)
  case 0
  show ?case unfolding verify_ibkr_fill.simps by (rule returns_retP) (simp add: verdict_proven_def)
next
  case (Suc n)
  show ?case
    unfolding verify_ibkr_fill.simps
  proof (rule returns_seqP, rule returns_bindP, rule returns_sum)
    show "returns (verdict_proven shares) (retP (''SUBMITTED'', PDict [(''verification_error'', PStr (exn_name e))]))" for e
      by (rule returns_retP) (simp add: verdict_proven_def)
    fix answer
    show "returns (verdict_proven shares) (bindP (liftP (bindE (as_dict answer) (\<lambda>d. sub_dict d ''status''))) (\<lambda>status.
            bindP (liftP (fill_verdict status shares)) (\<lambda>v. case v of
              Some verdict \<Rightarrow> retP (verdict, answer)
            | None \<Rightarrow> verify_ibkr_fill E c order_id shares False answer n)))"
    proof (rule returns_bindP_of [OF returns_liftP])
      fix status assume "bindE (as_dict answer) (\<lambda>d. sub_dict d ''status'') = Inr status"
      then obtain d where d: "as_dict answer = Inr d" "sub_dict d ''status'' = Inr status" by blast
      then have a: "answer = PDict d" by (cases answer) auto
      show "returns (verdict_proven shares) (bindP (liftP (fill_verdict status shares)) (\<lambda>v. case v of
              Some verdict \<Rightarrow> retP (verdict, answer)
            | None \<Rightarrow> verify_ibkr_fill E c order_id shares False answer n))"
      proof (rule returns_bindP_of [OF returns_liftP])
        fix v assume v: "fill_verdict status shares = Inr v"
        show "returns (verdict_proven shares) (case v of Some verdict \<Rightarrow> retP (verdict, answer)
            | None \<Rightarrow> verify_ibkr_fill E c order_id shares False answer n)"
          using v fill_verdict_cases [OF _ d(2)] Suc.IH by (cases v) (auto intro: returns_retP simp: a)
      qed
    qed
  qed
qed


section \<open>What an execution reports as executed\<close>

definition executed_proven :: "pydict \<Rightarrow> bool" where
  \<comment> \<open>an outcome EXECUTED carries the broker status that proves the complete fill of its shares\<close>
  "executed_proven d \<longleftrightarrow> (dget d ''status'' = PStr ''EXECUTED'' \<longrightarrow>
     (\<exists>shares result final status. dget d ''shares'' = PFloat shares \<and> dget d ''environment'' = PStr ''PAPER''
        \<and> dget d ''broker_result'' = PDict result \<and> dget result ''final_status'' = PDict final
        \<and> sub_dict final ''status'' = Inr status \<and> ibkr_fill_is_complete (PDict status) (PFloat shares) = Inr True))"

lemma route_outcome_status [simp]: "dget (route_outcome m s p st r) ''status'' = PStr st"
  by (simp add: route_outcome_def)

lemma not_executed: "dget d ''status'' = PStr s \<Longrightarrow> s \<noteq> ''EXECUTED'' \<Longrightarrow> executed_proven d"
  by (simp add: executed_proven_def)

lemma outcome_status [simp]: "dget (outcome st r base) ''status'' = PStr st"
  by (simp add: outcome_def)

lemma entry_base_fields:
  "dget (entry_base settings m s side shares proposed check result quality) ''shares'' = PFloat shares"
  "dget (entry_base settings m s side shares proposed check result quality) ''environment'' = PStr ''PAPER''"
  "dget (entry_base settings m s side shares proposed check result quality) ''broker_result'' = PDict result"
  by (simp_all add: entry_base_def Let_def dget_dmerge ibkr_fractional_policy_payload_def)

lemma settle_entry_proven: "returns executed_proven (settle_entry E c m s side shares proposed check quality result)"
proof -
  let ?base = "entry_base (en_settings E) m s side shares proposed check"
  have fin: "executed_proven (if verdict = ''FILLED'' then dset ''status'' (PStr ''EXECUTED'') (?base (dset ''final_status'' final result) quality)
      else if verdict = ''CANCELLED'' then outcome ''CANCELLED'' ''BROKER_ORDER_CANCELLED'' (?base (dset ''final_status'' final result) quality)
      else outcome ''SUBMITTED'' ''BROKER_FILL_NOT_CONFIRMED'' (?base (dset ''final_status'' final result) quality))"
    if "verdict_proven shares (verdict, final)" for verdict final
    using that by (auto simp: verdict_proven_def executed_proven_def entry_base_fields)
  show ?thesis
    unfolding settle_entry_def Let_def
  proof (intro returns_if returns_retP)
    show "returns executed_proven
       (bindP (verify_ibkr_fill E c (dget result ''order_id'') shares True PNone IBKR_FILL_VERIFY_ATTEMPTS) (\<lambda>(verdict, final).
              retP (if verdict = ''FILLED'' then dset ''status'' (PStr ''EXECUTED'') (?base (dset ''final_status'' final result) quality)
                       else if verdict = ''CANCELLED'' then outcome ''CANCELLED'' ''BROKER_ORDER_CANCELLED'' (?base (dset ''final_status'' final result) quality)
                       else outcome ''SUBMITTED'' ''BROKER_FILL_NOT_CONFIRMED'' (?base (dset ''final_status'' final result) quality))))"
      by (rule returns_bindP_of [OF verify_proven]) (auto intro!: returns_retP fin)
  qed (auto intro: not_executed)
qed

lemma submit_entry_proven: "returns executed_proven (submit_entry E c profile cfg m s side shares proposed check quality)"
  unfolding submit_entry_def Let_def
  by (intro returns_bindP returns_option returns_sum returns_retP settle_entry_proven) (auto intro: not_executed)

lemma check_entry_proven: "returns executed_proven (check_entry E c profile cfg item m s side shares proposed health)"
  unfolding check_entry_def
  by (intro returns_bindP returns_if returns_option returns_prod returns_retP submit_entry_proven)
     (auto intro: not_executed)

lemma account_outcome_status [simp]: "dget (account_outcome m s r) ''status'' = PStr ''BLOCK''"
  by (auto simp: account_outcome_def route_outcome_def)


section \<open>What an entry sends\<close>

lemma quiet_verify_ibkr_fill [intro!]: "emits no_orders (verify_ibkr_fill E c order_id shares first latest n)"
proof (induction n arbitrary: first latest)
  case (Suc n)
  then show ?case by (auto split: option.split sum.split)
qed auto

lemma quiet_settle_entry [intro!]: "emits no_orders (settle_entry E c m s side shares proposed check quality result)"
  unfolding settle_entry_def Let_def by auto

lemma quiet_profile_for_item [intro!]: "emits no_orders (profile_for_item user_id item)"
  unfolding profile_for_item_def by (auto split: option.split)

lemma quiet_trade_strategy [intro!]: "emits no_orders (trade_strategy user_id item)"
  unfolding trade_strategy_def by auto

lemma quiet_persist_action [intro!]: "emits no_orders (persist_action E scan_id user_id item result)"
  unfolding persist_action_def by (auto split: prod.split)

lemma quiet_record_outcome [intro!]: "emits no_orders (record_outcome i intent result)"
  unfolding record_outcome_def by (auto split: option.split)

lemma quiet_account_blocker [intro!]: "emits no_orders (ibkr_account_blocker E c symbol account_id)"
  unfolding ibkr_account_blocker_def Let_def by auto

lemma quiet_market_data [intro!]: "emits no_orders (entry_market_data E c symbol side timeframe environment health)"
  unfolding entry_market_data_def now_ms_def Let_def by (auto split: option.split)

definition guarded_entry :: "string \<Rightarrow> event list \<Rightarrow> event \<Rightarrow> bool" where
  \<comment> \<open>a market order for the symbol, at a bridge and for a profile and strategy whose controls allowed it
     in the database read last, with nothing but account reads in between\<close>
  "guarded_entry symbol pre ev \<longleftrightarrow> (\<exists>base order profile_id cfg_id. entry_guard base order profile_id cfg_id pre ev
     \<and> dget order ''symbol'' = PStr symbol \<and> dget order ''order_type'' = PStr ''MKT'')"

interpretation ibkr_entry: guarded_order "one_order (guarded_entry symbol)" for symbol
proof (rule guarded_one_order)
  fix xs ys :: "event list" and ev
  assume "guarded_entry symbol ys ev"
  then obtain base order profile_id cfg_id where g: "entry_guard base order profile_id cfg_id ys ev"
      and o: "dget order ''symbol'' = PStr symbol" "dget order ''order_type'' = PStr ''MKT''"
    unfolding guarded_entry_def by blast
  from g have "entry_guard base order profile_id cfg_id (xs @ ys) ev"
    unfolding entry_guard_def by (metis append.assoc)
  with o show "guarded_entry symbol (xs @ ys) ev" unfolding guarded_entry_def by blast
qed

lemma place_entry_guarded:
  "emits (one_order (guarded_entry (canonical_symbol (PStr s))))
     (ib_place_order E c (entry_payload s side shares account) (entry_authorization_blocker E profile_id cfg_id))"
  by (rule emits_mono [OF place_order_guarded], erule one_order_mono)
     (auto simp: guarded_entry_def entry_payload_def intro!: exI)

lemma submit_entry_guarded:
  "emits (one_order (guarded_entry (canonical_symbol (PStr s)))) (submit_entry E c profile cfg m s side shares proposed check quality)"
  unfolding submit_entry_def Let_def
  by (intro ibkr_entry.rules quiet_authorization ibkr_entry.before_quiet ibkr_entry.handled_quietly place_entry_guarded)
     (auto split: exn.split sum.split)

lemma check_entry_guarded:
  "emits (one_order (guarded_entry (canonical_symbol (PStr s)))) (check_entry E c profile cfg item m s side shares proposed health)"
  unfolding check_entry_def
  by (intro ibkr_entry.rules submit_entry_guarded) auto

lemma execute_ibkr_guarded:
  "emits (one_order (guarded_entry (canonical_symbol (PStr (item_symbol item))))) (execute_ibkr E user_id item)"
  unfolding execute_ibkr_def Let_def
  by (intro ibkr_entry.rules check_entry_guarded quiet_trade_strategy quiet.emits_session quiet.emits_liftP quiet_account_blocker)


definition intent_recorded :: "nat \<Rightarrow> nat \<Rightarrow> pydict \<Rightarrow> db \<Rightarrow> bool" where
  \<comment> \<open>the database holds an unresolved audit row of this scan and user for the item\<close>
  "intent_recorded scan_id user_id item d \<longleftrightarrow>
     (\<exists>a \<in> set (db_actions d). ac_scan_id a = scan_id \<and> ac_user_id a = user_id \<and> ac_provider a = ''IBKR''
        \<and> ac_environment a = Some ''PAPER'' \<and> ac_status a = ''SUBMITTED''
        \<and> ac_symbol a = or_else (short (PStr (item_symbol item)) 32) [])"

definition audited_entry :: "nat \<Rightarrow> nat \<Rightarrow> pydict \<Rightarrow> event list \<Rightarrow> event \<Rightarrow> bool" where
  \<comment> \<open>the intent was committed, then the controls allowed the entry, then the order was sent\<close>
  "audited_entry scan_id user_id item pre ev \<longleftrightarrow>
     (\<exists>before d mid. pre = before @ Committed d # mid \<and> intent_recorded scan_id user_id item d
        \<and> guarded_entry (canonical_symbol (PStr (item_symbol item))) mid ev)"

interpretation audited: guarded_order "one_order (audited_entry scan_id user_id item)" for scan_id user_id item
proof (rule guarded_one_order)
  fix xs ys :: "event list" and ev
  assume "audited_entry scan_id user_id item ys ev"
  then show "audited_entry scan_id user_id item (xs @ ys) ev"
    unfolding audited_entry_def by (metis append.assoc)
qed

lemma short_small [simp]: "length s \<le> n \<Longrightarrow> short (PStr s) n = Some s"
  by (simp add: short_def py_str_def)

lemma intent_row:
  assumes "action_row i scan_id user_id profile item
      (entry_intent [(''market'', dget item ''market''), (''symbol'', dget item ''symbol''), (''provider'', PStr ''IBKR'')] request) now
      = Inr row"
  shows "ac_scan_id row = scan_id \<and> ac_user_id row = user_id \<and> ac_provider row = ''IBKR'' \<and> ac_environment row = Some ''PAPER''
     \<and> ac_status row = ''SUBMITTED'' \<and> ac_symbol row = or_else (short (PStr (item_symbol item)) 32) [] \<and> ac_id row = i"
proof -
  have o: "py_or v v = v" for v by (simp add: py_or_def)
  have t: "py_or (PStr (c # s)) v = PStr (c # s)" for c s v by (simp add: py_or_def)
  show ?thesis
    using assms unfolding action_row_def entry_intent_def Let_def
    by (auto simp: t o item_symbol_def bindE_Inr_iff)
qed

lemma persist_intent:
  assumes "persist_action E scan_id user_id item
      (entry_intent [(''market'', dget item ''market''), (''symbol'', dget item ''symbol''), (''provider'', PStr ''IBKR'')] request) w
      = (Inr row, w')"
  shows "intent_recorded scan_id user_id item (w_db w')"
proof -
  let ?result = "entry_intent [(''market'', dget item ''market''), (''symbol'', dget item ''symbol''), (''provider'', PStr ''IBKR'')] request"
  obtain cp w1 where 1: "profile_for_item user_id item w = (Inr cp, w1)"
    using assms unfolding persist_action_def by (blast elim: bindP_InrE)
  obtain x where r: "action_row (db_next_id (w_db w1)) scan_id user_id (snd cp) item ?result (1000 * en_now E (w_tick w1)) = Inr x"
    and w': "row = x" "db_actions (w_db w') = db_actions (w_db w1) @ [x]"
    using assms 1 unfolding persist_action_def
    by (cases cp; cases "action_row (db_next_id (w_db w1)) scan_id user_id (snd cp) item ?result (1000 * en_now E (w_tick w1))")
       (auto simp: bindP_def seqP_def modify_db_def)
  from intent_row [OF r] w' show ?thesis unfolding intent_recorded_def by auto
qed

lemma committed_entry_guarded:
  assumes "intent_recorded scan_id user_id item (w_db w)"
  shows "\<exists>es. w_log (snd (seqP (commit E)
        (bindP (tryP (execute_ibkr E user_id item) is_exception (\<lambda>e. retP (dset ''submission_error'' (PStr (exn_name e)) intent))) (\<lambda>result.
         bindP (record_outcome i intent result) (\<lambda>a. seqP (commit E) (retP (result, Some a))))) w)) = w_log w @ es
     \<and> one_order (audited_entry scan_id user_id item) es"
proof (cases "en_commit E (w_tick w)")
  case False
  then show ?thesis using audited.G_quiet by (simp add: seqP_def bindP_def commit_def no_orders_def)
next
  case True
  let ?rest = "bindP (tryP (execute_ibkr E user_id item) is_exception (\<lambda>e. retP (dset ''submission_error'' (PStr (exn_name e)) intent))) (\<lambda>result.
         bindP (record_outcome i intent result) (\<lambda>a. seqP (commit E) (retP (result, Some a))))"
  let ?w1 = "w\<lparr>w_log := w_log w @ [Committed (w_db w)], w_saved := w_db w\<rparr>"
  have "emits (one_order (guarded_entry (canonical_symbol (PStr (item_symbol item))))) ?rest"
    by (intro ibkr_entry.before_quiet ibkr_entry.handled_quietly execute_ibkr_guarded) auto
  then obtain es where es: "w_log (snd (?rest ?w1)) = w_log ?w1 @ es"
      and g: "one_order (guarded_entry (canonical_symbol (PStr (item_symbol item)))) es"
    unfolding emits_def by blast
  have "one_order (audited_entry scan_id user_id item) (Committed (w_db w) # es)"
    using g unfolding one_order_def
  proof
    assume "no_orders es"
    then show "no_orders (Committed (w_db w) # es) \<or> (\<exists>pre ev suf. Committed (w_db w) # es = pre @ ev # suf \<and> is_order ev
        \<and> no_orders pre \<and> no_orders suf \<and> audited_entry scan_id user_id item pre ev)" by (simp add: no_orders_def)
  next
    assume "\<exists>pre ev suf. es = pre @ ev # suf \<and> is_order ev \<and> no_orders pre \<and> no_orders suf
        \<and> guarded_entry (canonical_symbol (PStr (item_symbol item))) pre ev"
    then obtain pre ev suf where e: "es = pre @ ev # suf" "is_order ev" "no_orders pre" "no_orders suf"
        and ge: "guarded_entry (canonical_symbol (PStr (item_symbol item))) pre ev" by blast
    have "audited_entry scan_id user_id item (Committed (w_db w) # pre) ev"
      unfolding audited_entry_def using assms ge by (intro exI [of _ "[]"] exI [of _ "w_db w"] exI [of _ pre]) simp
    moreover have "no_orders (Committed (w_db w) # pre)" using e(3) by (simp add: no_orders_def)
    ultimately show "no_orders (Committed (w_db w) # es) \<or> (\<exists>pre ev suf. Committed (w_db w) # es = pre @ ev # suf \<and> is_order ev
        \<and> no_orders pre \<and> no_orders suf \<and> audited_entry scan_id user_id item pre ev)"
      using e by (intro disjI2 exI [of _ "Committed (w_db w) # pre"] exI [of _ ev] exI [of _ suf]) simp
  qed
  moreover have "seqP (commit E) ?rest w = ?rest ?w1" using True by (simp add: seqP_def bindP_def commit_def)
  ultimately show ?thesis using es by auto
qed

lemma intent_step_guarded:
  "emits (one_order (audited_entry scan_id user_id item))
     (bindP (persist_action E scan_id user_id item
        (entry_intent [(''market'', dget item ''market''), (''symbol'', dget item ''symbol''), (''provider'', PStr ''IBKR'')] request)) (\<lambda>action.
      seqP (commit E)
        (bindP (tryP (execute_ibkr E user_id item) is_exception (\<lambda>e. retP (dset ''submission_error'' (PStr (exn_name e)) intent))) (\<lambda>result.
         bindP (record_outcome (ac_id action) intent result) (\<lambda>a. seqP (commit E) (retP (result, Some a)))))))"
    (is "emits ?G (bindP ?persist ?k)")
  unfolding emits_def
proof
  fix w
  obtain r w1 where p: "?persist w = (r, w1)" by (cases "?persist w")
  from emitsD [OF quiet_persist_action p] obtain es where es: "w_log w1 = w_log w @ es" "no_orders es" by blast
  show "\<exists>es. w_log (snd (bindP ?persist ?k w)) = w_log w @ es \<and> ?G es"
  proof (cases r)
    case (Inl e)
    with p es audited.G_quiet show ?thesis by (auto simp: bindP_def)
  next
    case (Inr action)
    from committed_entry_guarded [OF persist_intent [OF p [unfolded Inr]]] obtain es' where
      "w_log (snd (?k action w1)) = w_log w1 @ es'" "?G es'" by blast
    with p es Inr audited.G_prefix show ?thesis by (fastforce simp: bindP_def)
  qed
qed

lemma execute_audited_guarded:
  "emits (one_order (audited_entry scan_id user_id item)) (execute_ibkr_audited E scan_id user_id item)"
  unfolding execute_ibkr_audited_def Let_def
  by (intro audited.after_quiet audited.guarded_prod audited.guarded_option audited.guarded_if audited.guarded_retP
      intent_step_guarded quiet_profile_for_item quiet.emits_session quiet.emits_getP quiet.emits_liftP quiet_authorization)

text \<open>
  C20. One audited IBKR entry (\<open>_execute_ibkr_audited\<close>) sends at most one order, whatever the bridge answers,
  whichever commits fail and whatever other tasks commit meanwhile. Before that order is sent, a commit
  has succeeded whose database holds the unresolved intent of this scan, user and symbol; after it the
  controls were read again and allowed the entry; and from that reading to the order only the account
  is read. A failed commit of the intent therefore sends nothing.
\<close>

theorem audited_entry_order:
  "\<exists>es. w_log (snd (execute_ibkr_audited E scan_id user_id item w)) = w_log w @ es
     \<and> one_order (audited_entry scan_id user_id item) es"
  using execute_audited_guarded unfolding emits_def by blast

text \<open>
  An unresolved entry or exit blocks the next entry: while an IBKR action of the user, profile and
  symbol is SUBMITTED or EXIT_SUBMITTED, \<open>_execute_ibkr_audited\<close> returns BLOCK with the reconciliation
  reason and no action, sends no request, commits nothing and leaves the database as it is.
\<close>

theorem pending_ibkr_blocks:
  assumes "profile_for_item user_id item w = (Inr (Some cfg, Some profile), w1)" and "bp_user_id profile = user_id"
    and "by_key bp_id (bp_id profile) (db_profiles (w_db w)) = Some row"
    and "pending_ibkr user_id (bp_id profile) (item_symbol item) (w_db w)"
  shows "\<exists>d w'. execute_ibkr_audited E scan_id user_id item w = (Inr (d, None), w') \<and> w_log w' = w_log w \<and> w_db w' = w_db w
     \<and> dget d ''status'' = PStr ''BLOCK'' \<and> dget d ''reason'' = PStr ''IBKR_PENDING_SUBMISSION_RECONCILIATION_REQUIRED''"
proof -
  have k: "w_db w1 = w_db w \<and> w_log w1 = w_log w"
  proof -
    have "w_db (snd (profile_for_item user_id item w)) = w_db w \<and> w_log (snd (profile_for_item user_id item w)) = w_log w"
      unfolding profile_for_item_def find_strategy_def
      by (auto simp: bindP_apply load_strategy_def get_profile_def split: option.split sum.split prod.split)
    with assms(1) show ?thesis by simp
  qed
  let ?w2 = "w1\<lparr>w_profiles := replace_row bp_id row (w_profiles w1)\<rparr>"
  have "refresh_profile (bp_id profile) w1 = (Inr row, ?w2)" using assms(3) k by (simp add: refresh_profile_def)
  then show ?thesis
    using assms k by (intro exI [of _ "outcome ''BLOCK'' ''IBKR_PENDING_SUBMISSION_RECONCILIATION_REQUIRED''
        [(''market'', dget item ''market''), (''symbol'', dget item ''symbol''), (''provider'', PStr ''IBKR'')]"] exI [of _ ?w2])
      (simp add: execute_ibkr_audited_def Let_def bindP_apply outcome_def)
qed

theorem pending_ibkr_blocks_witness:
  "\<exists>d w w'. execute_ibkr_audited example_env 8 1 [(''market'', PStr ''stock''), (''symbol'', PStr ''aapl'')] w = (Inr (d, None), w')
     \<and> dget d ''status'' = PStr ''BLOCK''"
proof -
  let ?item = "[(''market'', PStr ''stock''), (''symbol'', PStr ''aapl'')]"
  let ?w = "example_world\<lparr>w_db := example_db\<lparr>db_actions := [example_submission\<lparr>ac_provider := ''IBKR'', ac_environment := Some ''PAPER'',
     ac_symbol := ''AAPL''\<rparr>]\<rparr>\<rparr>"
  have i: "item_market ?item = ''STOCK''" "item_symbol ?item = ''AAPL''" by code_simp+
  obtain w1 where 1: "profile_for_item 1 ?item ?w = (Inr (Some example_strategy, Some example_profile), w1)"
    by (simp add: profile_for_item_def find_strategy_def bindP_apply load_strategy_def get_profile_def cached_def by_key_def i example_defs)
  have 2: "bp_user_id example_profile = 1" by (simp add: example_profile_def)
  have 3: "by_key bp_id (bp_id example_profile) (db_profiles (w_db ?w)) = Some example_profile"
    by (simp add: by_key_def example_defs)
  have 4: "pending_ibkr 1 (bp_id example_profile) (item_symbol ?item) (w_db ?w)"
    by (simp add: pending_ibkr_def i) (simp add: example_submission_def example_profile_def)
  from pending_ibkr_blocks [OF 1 2 3 4] show ?thesis by blast
qed

section \<open>What the other two routes send\<close>

definition mt5_submission :: "string \<Rightarrow> event list \<Rightarrow> event \<Rightarrow> bool" where
  \<comment> \<open>a protected demo order of the symbol\<close>
  "mt5_submission symbol pre ev \<longleftrightarrow>
     (\<exists>base side volume sl tp d. ev = Sent base (Post ''/order'' (mt_order symbol side (PFloat volume) (PFloat sl) (PFloat tp) ''ATLAS AUTO DEMO'')) d
        \<and> side \<in> {''BUY'', ''SELL''} \<and> \<not> volume \<le> 0)"

interpretation mt5: guarded_order "one_order (mt5_submission symbol)" for symbol
  by (rule guarded_one_order) (simp add: mt5_submission_def)

lemma mt5_place_guarded:
  assumes "side \<in> {''BUY'', ''SELL''}" and "\<not> volume \<le> 0"
  shows "emits (one_order (mt5_submission (canonical_symbol (PStr symbol))))
     (mt_place_demo_order E base symbol side (PFloat volume) (PFloat sl) (PFloat tp) ''ATLAS AUTO DEMO'')"
proof -
  have post: "emits (one_order (mt5_submission s))
      (mt_request E base (Post ''/order'' (mt_order s side (PFloat volume) (PFloat sl) (PFloat tp) ''ATLAS AUTO DEMO'')))" for s
    unfolding mt_request_def
    by (rule mt5.handled_quietly [OF http_one_order]) (use assms in \<open>auto simp: mt5_submission_def\<close>)
  show ?thesis
    unfolding mt_place_demo_order_def Let_def reserved_def
    by (intro mt5.rules post) (auto intro: mt5.of_quiet)
qed

lemma quiet_mt5_blocker [intro!]: "emits no_orders (mt5_account_blocker E base symbol)"
  unfolding mt5_account_blocker_def by (auto split: option.split)

lemma submit_mt5_guarded:
  assumes "side \<in> {''BUY'', ''SELL''}" and "\<not> volume \<le> 0"
  shows "emits (one_order (mt5_submission (canonical_symbol (PStr symbol)))) (submit_mt5 E user_id base market symbol side volume sl tp)"
  unfolding submit_mt5_def Let_def
  by (intro mt5.rules quiet_mt5_blocker mt5.before_quiet [OF mt5_place_guarded] assms) auto

lemma execute_mt5_guarded:
  "emits (one_order (mt5_submission (canonical_symbol (PStr (item_symbol item))))) (execute_mt5 E user_id item)"
proof -
  have s: "emits (one_order (mt5_submission (canonical_symbol (PStr (item_symbol item)))))
      (if side \<notin> set [''BUY'', ''SELL''] \<or> volume \<le> 0 then retP a else if b then retP c
       else bindP (liftP r) (\<lambda>base. submit_mt5 E user_id base market (item_symbol item) side volume sl tp))"
    for side volume a b c r market sl tp
  proof (cases "side \<notin> set [''BUY'', ''SELL''] \<or> volume \<le> 0")
    case False
    then have "side \<in> {''BUY'', ''SELL''}" "\<not> volume \<le> 0" by auto
    from submit_mt5_guarded [OF this] False show ?thesis by (auto intro!: mt5.after_quiet mt5.guarded_if mt5.guarded_retP)
  qed (auto intro: mt5.guarded_retP)
  show ?thesis
    unfolding execute_mt5_def Let_def
    by (intro mt5.after_quiet mt5.guarded_option s mt5.guarded_if mt5.guarded_retP) auto
qed

definition bybit_submission :: "string \<Rightarrow> event list \<Rightarrow> event \<Rightarrow> bool" where
  "bybit_submission symbol pre ev \<longleftrightarrow> (\<exists>side. spot_submission symbol side pre ev)"

interpretation bybit: guarded_order "one_order (bybit_submission symbol)" for symbol
  by (rule guarded_one_order) (simp add: bybit_submission_def spot_submission_def spot_guard_def)

lemma execute_bybit_guarded:
  "emits (one_order (bybit_submission (canonical_symbol (PStr (canonical_symbol (PStr (item_symbol item))))))) (execute_bybit E user_id item)"
proof -
  have x: "emits (one_order (bybit_submission (canonical_symbol (PStr (canonical_symbol (PStr s))))))
      (execute_managed_spot_order E p user_id s side q)" for p s side q
    by (rule emits_mono [OF execute_spot_guarded], erule one_order_mono) (auto simp: bybit_submission_def)
  show ?thesis
    unfolding execute_bybit_def Let_def
    by (intro bybit.after_quiet bybit.guarded_option bybit.guarded_retP bybit.before_quiet [OF x]) auto
qed

text \<open>
  C22. The MT5 route (\<open>_execute_mt5\<close>) sends at most one order, whatever the bridge answers: a demo order of
  the canonical symbol with a side, a volume that is not zero or negative, and both a stop and a target.
\<close>

theorem mt5_single_protected_order:
  "\<exists>es. w_log (snd (execute_mt5 E user_id item w)) = w_log w @ es
     \<and> one_order (mt5_submission (canonical_symbol (PStr (item_symbol item)))) es"
  using execute_mt5_guarded unfolding emits_def by blast

end
