(* ===== verification/Strategy.thy ===== *)
theory Strategy
  imports Technical Trading_Candles
begin

text \<open>
  \<open>app/analysis/strategy_intelligence.py\<close> (candle patterns, swing structure, breakouts and the
  trade scenario) and \<open>app/services/signal_risk.py\<close> (the signal and its risk gate).
\<close>

section \<open>Patterns\<close>

record candle_pattern =
  cp_name :: string
  cp_direction :: string
  cp_confidence :: pyfloat

definition floats_of :: "string list \<Rightarrow> pydict \<Rightarrow> pyfloat list res" where
  \<comment> \<open>\<open>map(float, (row[k] for k in keys))\<close>, the lookups before the conversions\<close>
  "floats_of keys row = bindE (mapE (dsub row) keys) (mapE py_float)"

definition tiny :: pyfloat where
  "tiny = fl (1 / 10 ^ 12)"

definition patterns_of :: "pyfloat \<Rightarrow> pyfloat \<Rightarrow> pyfloat \<Rightarrow> pyfloat \<Rightarrow> pyfloat \<Rightarrow> pyfloat \<Rightarrow> candle_pattern list res" where
  \<comment> \<open>the previous open and close, and open, high, low and close of the current bar\<close>
  "patterns_of po pc o' h l c =
     (let body = fabs (c - o'); rng = pymax (h - l) tiny;
          upper = h - pymax o' c; lower = pymin o' c - l
      in bindE (fdiv body rng) (\<lambda>ratio. Inr
           ((if ratio \<le> fl (12 / 100) then [\<lparr>cp_name = ''DOJI'', cp_direction = ''NEUTRAL'', cp_confidence = fl 55\<rparr>] else [])
          @ (if body * fl 2 \<le> lower \<and> upper \<le> body \<and> o' \<le> c
             then [\<lparr>cp_name = ''HAMMER'', cp_direction = ''BULLISH'', cp_confidence = fl 68\<rparr>] else [])
          @ (if body * fl 2 \<le> upper \<and> lower \<le> body \<and> c \<le> o'
             then [\<lparr>cp_name = ''SHOOTING_STAR'', cp_direction = ''BEARISH'', cp_confidence = fl 68\<rparr>] else [])
          @ (if pc < po \<and> o' < c \<and> o' \<le> pc \<and> po \<le> c
             then [\<lparr>cp_name = ''BULLISH_ENGULFING'', cp_direction = ''BULLISH'', cp_confidence = fl 74\<rparr>] else [])
          @ (if po < pc \<and> c < o' \<and> pc \<le> o' \<and> c \<le> po
             then [\<lparr>cp_name = ''BEARISH_ENGULFING'', cp_direction = ''BEARISH'', cp_confidence = fl 74\<rparr>] else []))))"

definition detect_candlestick_patterns :: "pydict list \<Rightarrow> candle_pattern list res" where
  "detect_candlestick_patterns candles =
     (if length candles < 3 then Inr []
      else let prev = candles ! (length candles - 2); cur = last candles
           in bindE (bindE (dsub prev ''open'') py_float) (\<lambda>po.
              bindE (bindE (dsub prev ''close'') py_float) (\<lambda>pc.
              bindE (floats_of [''open'', ''high'', ''low'', ''close''] cur) (\<lambda>v.
                patterns_of po pc (v ! 0) (v ! 1) (v ! 2) (v ! 3)))))"

record swing =
  sw_state :: string
  sw_higher_highs :: bool
  sw_higher_lows :: bool
  sw_lower_highs :: bool
  sw_lower_lows :: bool

definition swing_structure :: "pydict list \<Rightarrow> nat \<Rightarrow> swing res" where
  "swing_structure candles lookback =
     (if length candles < lookback
      then Inr \<lparr>sw_state = ''UNDEFINED'', sw_higher_highs = False, sw_higher_lows = False,
               sw_lower_highs = False, sw_lower_lows = False\<rparr>
      else let chunk = last_n lookback candles; half = lookback div 2
           in bindE (column ''high'' chunk) (\<lambda>highs. bindE (column ''low'' chunk) (\<lambda>lows.
              bindE (max_list (drop half highs)) (\<lambda>rh. bindE (max_list (take half highs)) (\<lambda>ph.
              bindE (min_list (drop half lows)) (\<lambda>rl. bindE (min_list (take half lows)) (\<lambda>pl.
                let hh = ph < rh; hl = pl < rl; lh = rh < ph; ll = rl < pl
                in Inr \<lparr>sw_state = (if hh \<and> hl then ''BULLISH'' else if lh \<and> ll then ''BEARISH'' else ''RANGE''),
                        sw_higher_highs = hh, sw_higher_lows = hl, sw_lower_highs = lh, sw_lower_lows = ll\<rparr>)))))))"

record breakout =
  bo_state :: string
  bo_level :: "pyfloat option"

definition detect_breakout :: "pydict list \<Rightarrow> nat \<Rightarrow> breakout res" where
  "detect_breakout candles window =
     (if length candles \<le> window then Inr \<lparr>bo_state = ''NONE'', bo_level = None\<rparr>
      else let prev = slice_neg (window + 1) 1 candles
           in bindE (bindE (column ''high'' prev) max_list) (\<lambda>resistance.
              bindE (bindE (column ''low'' prev) min_list) (\<lambda>support.
              bindE (bindE (dsub (last candles) ''close'') py_float) (\<lambda>close.
                Inr (if resistance < close then \<lparr>bo_state = ''BULLISH_BREAKOUT'', bo_level = Some resistance\<rparr>
                     else if close < support then \<lparr>bo_state = ''BEARISH_BREAKOUT'', bo_level = Some support\<rparr>
                     else \<lparr>bo_state = ''NONE'', bo_level = None\<rparr>)))))"

section \<open>The scenario\<close>

record scenario =
  sc_market :: string
  sc_timeframe :: string
  sc_last_price :: pyfloat
  sc_action :: string
  sc_confidence :: pyfloat
  sc_bullish_probability :: pyfloat
  sc_bearish_probability :: pyfloat
  sc_trend :: string
  sc_structure :: swing
  sc_breakout :: breakout
  sc_patterns :: "candle_pattern list"
  sc_support :: pyfloat
  sc_resistance :: pyfloat
  sc_atr :: pyfloat
  sc_entry_low :: pyfloat
  sc_entry_high :: pyfloat
  sc_stop_loss :: "pyfloat option" \<comment> \<open>the invalidation level is the same value\<close>
  sc_targets :: "pyfloat list"
  sc_reasons :: "string list"

type_synonym evidence = "pyfloat \<times> pyfloat \<times> string list" \<comment> \<open>bull, bear, reasons\<close>

fun add_bull :: "pyfloat \<Rightarrow> string list \<Rightarrow> evidence \<Rightarrow> evidence" where
  "add_bull w rs (bull, bear, reasons) = (bull + w, bear, reasons @ rs)"

fun add_bear :: "pyfloat \<Rightarrow> string list \<Rightarrow> evidence \<Rightarrow> evidence" where
  "add_bear w rs (bull, bear, reasons) = (bull, bear + w, reasons @ rs)"

definition add_pattern :: "evidence \<Rightarrow> candle_pattern \<Rightarrow> evidence" where
  "add_pattern ev p =
     (let w = (cp_confidence p - fl 50) * fl (45 / 100); r = [str_lower (cp_name p)]
      in if cp_direction p = ''BULLISH'' then add_bull w r ev
         else if cp_direction p = ''BEARISH'' then add_bear w r ev else (let (bull, bear, reasons) = ev in (bull, bear, reasons @ r)))"

definition add_rsi :: "pyfloat option \<Rightarrow> evidence \<Rightarrow> evidence" where
  "add_rsi r ev = (case r of None \<Rightarrow> ev | Some x \<Rightarrow>
     if fl 52 \<le> x \<and> x \<le> fl 68 then add_bull (fl 10) [''rsi_bullish_confirmation''] ev
     else if fl 32 \<le> x \<and> x \<le> fl 48 then add_bear (fl 10) [''rsi_bearish_confirmation''] ev
     else if fl 75 \<le> x then add_bear (fl 5) [''rsi_overbought_risk''] ev
     else if x \<le> fl 25 then add_bull (fl 5) [''rsi_oversold_reversal_risk''] ev else ev)"

definition add_histogram :: "pyfloat option \<Rightarrow> evidence \<Rightarrow> evidence" where
  "add_histogram hist ev = (case hist of None \<Rightarrow> ev | Some x \<Rightarrow>
     if 0 < x then add_bull (fl 8) [] ev else if x < 0 then add_bear (fl 8) [] ev else ev)"

definition scenario_evidence :: "technical \<Rightarrow> swing \<Rightarrow> breakout \<Rightarrow> candle_pattern list \<Rightarrow> evidence" where
  "scenario_evidence tech st bo patterns =
     (let e0 = (0, 0, []) :: evidence;
          e1 = (if ta_trend tech = ''BULLISH'' then add_bull (fl 22) [''ema_trend_bullish''] e0
                else if ta_trend tech = ''BEARISH'' then add_bear (fl 22) [''ema_trend_bearish''] e0 else e0);
          e2 = (if sw_state st = ''BULLISH'' then add_bull (fl 22) [''higher_highs_higher_lows''] e1
                else if sw_state st = ''BEARISH'' then add_bear (fl 22) [''lower_highs_lower_lows''] e1 else e1);
          e3 = (if bo_state bo = ''BULLISH_BREAKOUT'' then add_bull (fl 18) [''resistance_breakout''] e2
                else if bo_state bo = ''BEARISH_BREAKOUT'' then add_bear (fl 18) [''support_breakdown''] e2 else e2);
          e4 = foldl add_pattern e3 patterns
      in add_histogram (macd_histogram (ta_macd tech)) (add_rsi (ta_rsi14 tech) e4))"

definition bull_probability :: "pyfloat \<Rightarrow> pyfloat \<Rightarrow> pyfloat res" where
  "bull_probability bull bear =
     bindE (fdiv (bull - bear) (pymax (bull + bear) 1)) (\<lambda>q.
       Inr (pymax (fl 10) (pymin (fl 90) (fround 1 (fl 50 + q * fl 40)))))"

definition action_of :: "pyfloat \<Rightarrow> pyfloat \<Rightarrow> string" where
  "action_of bull_prob bear_prob =
     (if fl 62 \<le> bull_prob then ''BUY'' else if fl 62 \<le> bear_prob then ''SELL'' else ''WAIT'')"

record trade_levels =
  tl_entry_low :: pyfloat
  tl_entry_high :: pyfloat
  tl_stop :: "pyfloat option"
  tl_targets :: "pyfloat list"

definition levels_of :: "string \<Rightarrow> pyfloat \<Rightarrow> pyfloat \<Rightarrow> pyfloat \<Rightarrow> pyfloat \<Rightarrow> trade_levels" where
  \<comment> \<open>direction, last price, ATR, support and resistance\<close>
  "levels_of direction last' a support resistance =
     (if direction = ''BUY''
      then (let stop = pymin support (last' - fl (5 / 4) * a)
            in \<lparr>tl_entry_low = pymax support (last' - fl (35 / 100) * a), tl_entry_high = last' + fl (1 / 10) * a,
                tl_stop = Some stop,
                tl_targets = [last' + fl (3 / 2) * (last' - stop), last' + fl (5 / 2) * (last' - stop)]\<rparr>)
      else if direction = ''SELL''
      then (let stop = pymax resistance (last' + fl (5 / 4) * a)
            in \<lparr>tl_entry_low = last' - fl (1 / 10) * a, tl_entry_high = pymin resistance (last' + fl (35 / 100) * a),
                tl_stop = Some stop,
                tl_targets = [last' - fl (3 / 2) * (stop - last'), last' - fl (5 / 2) * (stop - last')]\<rparr>)
      else \<lparr>tl_entry_low = support, tl_entry_high = resistance, tl_stop = None, tl_targets = []\<rparr>)"

definition scenario_from_candles :: "pydict list \<Rightarrow> string \<Rightarrow> string \<Rightarrow> scenario res" where
  "scenario_from_candles candles timeframe market =
     bindE (analyze_candles candles) (\<lambda>tech.
     bindE (detect_candlestick_patterns candles) (\<lambda>patterns.
     bindE (swing_structure candles 12) (\<lambda>st.
     bindE (detect_breakout candles 20) (\<lambda>bo.
     bindE (bindE (dsub (last candles) ''close'') py_float) (\<lambda>last'.
     let a = (if nonzero (ta_atr14 tech) then or_else (ta_atr14 tech) 0
              else pymax (last' * fl (5 / 1000)) (fl (1 / 10 ^ 8)));
         (bull, bear, reasons) = scenario_evidence tech st bo patterns
     in bindE (bull_probability bull bear) (\<lambda>bull_prob.
          let bear_prob = fround 1 (fl 100 - bull_prob);
              direction = action_of bull_prob bear_prob;
              confidence = (if direction \<noteq> ''WAIT'' then pymax bull_prob bear_prob
                            else fround 1 (fl 100 - fabs (bull_prob - fl 50) * fl 2));
              lv = levels_of direction last' a (ta_support tech) (ta_resistance tech)
          in Inr \<lparr>sc_market = str_upper market, sc_timeframe = timeframe, sc_last_price = last', sc_action = direction,
                  sc_confidence = confidence, sc_bullish_probability = bull_prob, sc_bearish_probability = bear_prob,
                  sc_trend = ta_trend tech, sc_structure = st, sc_breakout = bo, sc_patterns = patterns,
                  sc_support = ta_support tech, sc_resistance = ta_resistance tech, sc_atr = a,
                  sc_entry_low = tl_entry_low lv, sc_entry_high = tl_entry_high lv, sc_stop_loss = tl_stop lv,
                  sc_targets = tl_targets lv, sc_reasons = reasons\<rparr>))))))"

section \<open>The signal and the risk gate\<close>

record generated_signal =
  gs_decision :: string
  gs_classification :: string
  gs_score :: pyfloat
  gs_strength :: pyfloat
  gs_reasons :: "string list"

definition signal_of_scenario :: "scenario \<Rightarrow> generated_signal" where
  "signal_of_scenario s =
     (let decision = (if sc_action s = ''BUY'' then ''BUY'' else if sc_action s = ''SELL'' then ''SELL'' else ''HOLD'');
          bull = sc_bullish_probability s; bear = sc_bearish_probability s;
          strength = (if decision = ''BUY'' then bull else if decision = ''SELL'' then bear else pymax bull bear);
          trend_reason = ''trend_'' @ str_lower (sc_trend s)
      in \<lparr>gs_decision = decision,
          gs_classification = (if decision = ''HOLD'' then ''NO_SIGNAL'' else if fl 80 \<le> strength then ''STRONG_SIGNAL''
                               else if fl 65 \<le> strength then ''SIGNAL'' else ''WATCH''),
          gs_score = bull, gs_strength = strength,
          gs_reasons = (if trend_reason \<in> set (sc_reasons s) then sc_reasons s else trend_reason # sc_reasons s)\<rparr>)"

definition generate_signal :: "pydict list \<Rightarrow> string \<Rightarrow> string \<Rightarrow> generated_signal res" where
  "generate_signal candles timeframe market =
     bindE (scenario_from_candles candles (if timeframe = [] then ''5m'' else timeframe)
              (str_upper (if market = [] then ''CRYPTO'' else market))) (\<lambda>s. Inr (signal_of_scenario s))"

definition evaluate_risk :: "generated_signal \<Rightarrow> pyfloat \<Rightarrow> bool \<Rightarrow> bool \<Rightarrow> string \<Rightarrow> bool \<times> string \<times> pydict" where
  "evaluate_risk signal minimum_signal_score account_enabled allow_live account_environment =
     (let environment = str_upper account_environment;
          scores = [(''score'', PFloat (gs_score signal)), (''strength'', PFloat (gs_strength signal)),
                    (''minimum_signal_score'', PFloat minimum_signal_score)]
      in if \<not> account_enabled then (False, ''ACCOUNT_DISABLED'', [(''account_enabled'', PBool False)])
         else if gs_decision signal = ''HOLD'' then (False, ''NO_DIRECTION'', [(''decision'', PStr (gs_decision signal))])
         else if gs_strength signal < minimum_signal_score then (False, ''SIGNAL_SCORE_BELOW_MINIMUM'', scores)
         else if environment = ''LIVE'' \<and> \<not> allow_live then (False, ''LIVE_TRADING_DISABLED'', [(''environment'', PStr environment)])
         else (True, ''APPROVED_FOR_SIMULATION'', scores @ [(''environment'', PStr environment)]))"

section \<open>Properties\<close>

lemma bull_probability_bounds:
  assumes "bull_probability bull bear = Inr p" shows "Fin 10 \<le> p \<and> p \<le> Fin 90"
proof -
  from assms obtain x where "p = pymax (fl 10) (pymin (fl 90) x)"
    by (auto simp: bull_probability_def bindE_Inr_iff)
  then show ?thesis by (cases x) (auto simp: pymax_def pymin_def)
qed

lemma bear_probability_bounds:
  assumes "Fin 10 \<le> p" and "p \<le> Fin 90"
  shows "Fin 10 \<le> fround 1 (fl 100 - p) \<and> fround 1 (fl 100 - p) \<le> Fin 90"
    and "Fin 62 \<le> p \<Longrightarrow> fround 1 (fl 100 - p) \<le> Fin 38"
proof -
  have sub: "Fin 100 - Fin 90 = Fin 10" "Fin 100 - Fin 10 = Fin 90" "Fin 100 - Fin 62 = Fin 38" by simp_all
  have "Fin 10 \<le> fl 100 - p" "fl 100 - p \<le> Fin 90"
    using fsub_mono [OF assms(2), of "Fin 100"] fsub_mono [OF assms(1), of "Fin 100"] by (simp_all add: sub)
  then show "Fin 10 \<le> fround 1 (fl 100 - p) \<and> fround 1 (fl 100 - p) \<le> Fin 90"
    using fround_mono [of "Fin 10" _ 1] fround_mono [of _ "Fin 90" 1] by simp
  assume "Fin 62 \<le> p"
  then have "fl 100 - p \<le> Fin 38" using fsub_mono [of "Fin 62" p "Fin 100"] by (simp add: sub)
  then show "fround 1 (fl 100 - p) \<le> Fin 38" using fround_mono [of _ "Fin 38" 1] by simp
qed

lemma scenario_fields:
  assumes "scenario_from_candles candles timeframe market = Inr s"
  obtains bull bear tech where "bull_probability bull bear = Inr (sc_bullish_probability s)"
    and "sc_bearish_probability s = fround 1 (fl 100 - sc_bullish_probability s)"
    and "sc_action s = action_of (sc_bullish_probability s) (sc_bearish_probability s)"
    and "sc_stop_loss s = tl_stop (levels_of (sc_action s) (sc_last_price s) (sc_atr s) (sc_support s) (sc_resistance s))"
    and "sc_targets s = tl_targets (levels_of (sc_action s) (sc_last_price s) (sc_atr s) (sc_support s) (sc_resistance s))"
  using assms
  by (auto simp: scenario_from_candles_def Let_def split: prod.splits)

lemma scenario_probabilities_core:
  assumes "scenario_from_candles candles timeframe market = Inr s"
  shows "Fin 10 \<le> sc_bullish_probability s \<and> sc_bullish_probability s \<le> Fin 90
    \<and> Fin 10 \<le> sc_bearish_probability s \<and> sc_bearish_probability s \<le> Fin 90
    \<and> (sc_action s = ''BUY'' \<longleftrightarrow> Fin 62 \<le> sc_bullish_probability s)
    \<and> (sc_action s = ''SELL'' \<longleftrightarrow> Fin 62 \<le> sc_bearish_probability s)
    \<and> sc_action s \<in> {''BUY'', ''SELL'', ''WAIT''}"
proof -
  from assms obtain bull bear where b: "bull_probability bull bear = Inr (sc_bullish_probability s)"
    and r: "sc_bearish_probability s = fround 1 (fl 100 - sc_bullish_probability s)"
    and a: "sc_action s = action_of (sc_bullish_probability s) (sc_bearish_probability s)"
    by (rule scenario_fields)
  note bb = bull_probability_bounds [OF b]
  note br = bear_probability_bounds [OF conjunct1 [OF bb] conjunct2 [OF bb]]
  have "\<not> (Fin 62 \<le> sc_bullish_probability s \<and> Fin 62 \<le> sc_bearish_probability s)"
    using br(2) r float_le_trans [of "Fin 62" "sc_bearish_probability s" "Fin 38"] by auto
  with bb br(1) r a show ?thesis by (auto simp: action_of_def)
qed

text \<open>
  Whatever the candles, a scenario's probabilities stay between 10 and 90 percent, and its
  action is decided by them: BUY exactly from 62 percent bullish, SELL only from 62 percent bearish,
  and never both sides at once.
\<close>

theorem scenario_probabilities:
  assumes "scenario_from_candles candles timeframe market = Inr s"
  shows "Fin 10 \<le> sc_bullish_probability s \<and> sc_bullish_probability s \<le> Fin 90
    \<and> Fin 10 \<le> sc_bearish_probability s \<and> sc_bearish_probability s \<le> Fin 90
    \<and> (sc_action s = ''BUY'' \<longleftrightarrow> Fin 62 \<le> sc_bullish_probability s)
    \<and> (sc_action s = ''SELL'' \<longleftrightarrow> Fin 62 \<le> sc_bearish_probability s)
    \<and> sc_action s \<in> {''BUY'', ''SELL'', ''WAIT''}"
  using assms by (rule scenario_probabilities_core)

lemma levels_buy_ordered:
  assumes "isfinite last'" "is_float last'" "isfinite a" "0 \<le> a" "support \<noteq> NaN"
    and lv: "levels_of ''BUY'' last' a support resistance = lv"
  shows "\<exists>stop t1 t2. tl_stop lv = Some stop \<and> tl_targets lv = [t1, t2] \<and> stop \<le> support \<and> stop \<le> last' \<and> last' \<le> t1 \<and> t1 \<le> t2"
proof -
  from assms(1) obtain x where x: "last' = Fin x" by (auto simp: isfinite_iff)
  have fx: "is_float (Fin x)" using assms(2) x by simp
  let ?y = "fl (5 / 4) * a" and ?st = "pymin support (Fin x - fl (5 / 4) * a)"
  have y: "0 \<le> ?y" unfolding fl_halves by (rule fmul_pos_nonneg) (use assms in \<open>simp_all add: zero_Fin\<close>)
  have le: "Fin x - ?y \<le> Fin x" by (rule fsub_le_of_nonneg [OF fx y])
  then have nn: "Fin x - ?y \<noteq> NaN" by auto
  have st: "?st \<le> support" "?st \<le> Fin x - ?y" using pymin_le [OF assms(5) nn] by auto
  then have sx: "?st \<le> Fin x" using le float_le_trans by blast
  let ?d = "Fin x - ?st"
  have d: "0 \<le> ?d" by (rule fsub_nonneg [OF sx]) simp
  have m1: "0 \<le> fl (3 / 2) * ?d" by (rule fmul_pos_nonneg) (use d in \<open>simp_all add: zero_Fin fl_halves\<close>)
  have m2: "fl (3 / 2) * ?d \<le> fl (5 / 2) * ?d" unfolding fl_halves by (rule fmul_mono_left) (use d in \<open>simp_all add: fl_halves\<close>)
  have t1: "Fin x \<le> Fin x + fl (3 / 2) * ?d" by (rule fadd_le_of_nonneg [OF fx m1])
  have t2: "Fin x + fl (3 / 2) * ?d \<le> Fin x + fl (5 / 2) * ?d"
    using fadd_mono [OF m2, of "Fin x"] by (simp add: fadd_commute)
  from st(1) sx t1 t2 lv x show ?thesis by (auto simp: levels_of_def Let_def)
qed

lemma levels_sell_ordered:
  assumes "isfinite last'" "is_float last'" "isfinite a" "0 \<le> a" "resistance \<noteq> NaN"
    and lv: "levels_of ''SELL'' last' a support resistance = lv"
  shows "\<exists>stop t1 t2. tl_stop lv = Some stop \<and> tl_targets lv = [t1, t2] \<and> resistance \<le> stop \<and> last' \<le> stop \<and> t1 \<le> last' \<and> t2 \<le> t1"
proof -
  from assms(1) obtain x where x: "last' = Fin x" by (auto simp: isfinite_iff)
  have fx: "is_float (Fin x)" using assms(2) x by simp
  let ?y = "fl (5 / 4) * a" and ?st = "pymax resistance (Fin x + fl (5 / 4) * a)"
  have y: "0 \<le> ?y" unfolding fl_halves by (rule fmul_pos_nonneg) (use assms in \<open>simp_all add: zero_Fin\<close>)
  have le: "Fin x \<le> Fin x + ?y" by (rule fadd_le_of_nonneg [OF fx y])
  then have nn: "Fin x + ?y \<noteq> NaN" by auto
  have st: "resistance \<le> ?st" "Fin x + ?y \<le> ?st" using pymax_ge [OF assms(5) nn] by auto
  then have sx: "Fin x \<le> ?st" using le float_le_trans by blast
  let ?d = "?st - Fin x"
  have d: "0 \<le> ?d" using sx by (cases ?st) (auto simp: zero_Fin minus_pyfloat_def intro: fin_nonneg [unfolded zero_Fin])
  have m1: "0 \<le> fl (3 / 2) * ?d" by (rule fmul_pos_nonneg) (use d in \<open>simp_all add: zero_Fin fl_halves\<close>)
  have m2: "fl (3 / 2) * ?d \<le> fl (5 / 2) * ?d" unfolding fl_halves by (rule fmul_mono_left) (use d in \<open>simp_all add: fl_halves\<close>)
  have t1: "Fin x - fl (3 / 2) * ?d \<le> Fin x" by (rule fsub_le_of_nonneg [OF fx m1])
  have t2: "Fin x - fl (5 / 2) * ?d \<le> Fin x - fl (3 / 2) * ?d" by (rule fsub_mono [OF m2]) simp
  from st(1) sx t1 t2 lv x show ?thesis by (auto simp: levels_of_def Let_def)
qed

text \<open>
  The levels of a directional scenario are on the right sides of the last price, in float
  arithmetic: for BUY the stop is at most support and price and the two targets rise from the price;
  for SELL the stop is at least resistance and price and the targets fall.
\<close>

theorem scenario_levels_ordered:
  assumes "scenario_from_candles candles timeframe market = Inr s"
    and "isfinite (sc_last_price s)" "is_float (sc_last_price s)" "isfinite (sc_atr s)" "0 \<le> sc_atr s"
    and "sc_support s \<noteq> NaN" "sc_resistance s \<noteq> NaN" "sc_action s \<noteq> ''WAIT''"
  shows "\<exists>stop t1 t2. sc_stop_loss s = Some stop \<and> sc_targets s = [t1, t2]
    \<and> (sc_action s = ''BUY'' \<longrightarrow> stop \<le> sc_support s \<and> stop \<le> sc_last_price s \<and> sc_last_price s \<le> t1 \<and> t1 \<le> t2)
    \<and> (sc_action s = ''SELL'' \<longrightarrow> sc_resistance s \<le> stop \<and> sc_last_price s \<le> stop \<and> t1 \<le> sc_last_price s \<and> t2 \<le> t1)"
proof -
  from assms(1) have st: "sc_stop_loss s = tl_stop (levels_of (sc_action s) (sc_last_price s) (sc_atr s) (sc_support s) (sc_resistance s))"
    and tg: "sc_targets s = tl_targets (levels_of (sc_action s) (sc_last_price s) (sc_atr s) (sc_support s) (sc_resistance s))"
    and a: "sc_action s = action_of (sc_bullish_probability s) (sc_bearish_probability s)"
    by (rule scenario_fields; simp)+
  from a assms(8) consider "sc_action s = ''BUY''" | "sc_action s = ''SELL''"
    by (auto simp: action_of_def split: if_splits)
  then show ?thesis
  proof cases
    case 1
    with levels_buy_ordered [OF assms(2-6) refl] st tg show ?thesis by auto
  next
    case 2
    with levels_sell_ordered [OF assms(2-5,7) refl] st tg show ?thesis by auto
  qed
qed

section \<open>A concrete scenario\<close>

definition flat_candle :: "int \<Rightarrow> pydict" where
  \<comment> \<open>a flat market at 0 whose last bar, the 30th, opens above\<close>
  "flat_candle i = [(''open'', PFloat (if i = 30 then Fin 1 else Fin 0)), (''high'', PFloat (Fin 0)),
     (''low'', PFloat (Fin 0)), (''close'', PFloat (Fin 0))]"

abbreviation flat_candles :: "pydict list" where
  "flat_candles \<equiv> map flat_candle [1..30]"

lemma flat_shape:
  "length flat_candles = 30" "last flat_candles = flat_candle 30" "flat_candles ! 28 = flat_candle 29"
  "last_n 12 flat_candles = map flat_candle [19..30]" "slice_neg 21 (Suc 0) flat_candles = map flat_candle [10..29]"
  by code_simp+

lemma flat_column:
  "column ''close'' (map flat_candle is) = Inr (replicate (length is) (Fin 0))"
  "column ''high'' (map flat_candle is) = Inr (replicate (length is) (Fin 0))"
  "column ''low'' (map flat_candle is) = Inr (replicate (length is) (Fin 0))"
  by (rule column_const; simp add: flat_candle_def dsub_def)+

lemma flat_rsi: "rsi (replicate 30 (Fin 0)) 14 = Inr (Some (Fin 100))"
  by (simp add: rsi_def changes_def pysum_zero zero_Fin pymax_def rsi_of_def feq_def Let_def)

lemma flat_macd: "macd (replicate 30 (Fin 0)) = \<lparr>macd_line = Some (Fin 0), macd_signal = Some (Fin 0), macd_histogram = Some (Fin 0)\<rparr>"
  by (simp add: macd_def ema_series_zero Let_def)

lemma flat_atr: "atr (replicate 30 (Fin 0)) (replicate 30 (Fin 0)) (replicate 30 (Fin 0)) 14 = Inr (Some (Fin 0))"
  using true_ranges_const [of "Fin 0" "Fin 0" "Fin 0" "Fin 0" 29] pymean_zero [of 13]
  by (simp add: atr_def true_range_def pymax_def)

lemma flat_bollinger: "\<exists>b. bollinger (replicate 30 (Fin 0)) 20 (Fin 2) = Inr b"
  using pymean_zero [of 19] pypstdev_zero [of 19] by (simp add: bollinger_def)

lemma flat_structure:
  "market_structure (replicate 30 (Fin 0)) (replicate 30 (Fin 0)) = Inr ''RANGE''"
  "support_resistance (replicate 30 (Fin 0)) (replicate 30 (Fin 0)) 20 = Inr (Fin 0, Fin 0)"
  by (simp_all add: market_structure_def support_resistance_def)

lemma case_list_last:
  "xs \<noteq> [] \<Longrightarrow> (case xs of [] \<Rightarrow> Inl e | y # ys \<Rightarrow> Inr (Some (last (y # ys)))) = Inr (Some (last xs))"
  by (cases xs) simp_all

lemma flat_analysis:
  "\<exists>tech. analyze_candles flat_candles = Inr tech \<and> ta_trend tech = ''NEUTRAL'' \<and> ta_rsi14 tech = Some (Fin 100)
     \<and> macd_histogram (ta_macd tech) = Some (Fin 0) \<and> ta_atr14 tech = Some (Fin 0)
     \<and> ta_support tech = Fin 0 \<and> ta_resistance tech = Fin 0"
proof -
  have len: "length [1..30 :: int] = 30" by simp
  obtain b where b: "bollinger (replicate 30 (Fin 0)) 20 (Fin 2) = Inr b" using flat_bollinger by blast
  have e: "ema (replicate 30 (Fin 0)) 20 = Inr (Some (Fin 0))" "ema (replicate 30 (Fin 0)) 50 = Inr None"
    using case_list_last [of "replicate 30 (Fin 0)" IndexError] by (simp_all add: ema_def ema_series_zero)
  have s: "sma (replicate 30 (Fin 0)) 20 = Inr (Some (Fin 0))"
    using pymean_zero [of 19] by (simp add: sma_def)
  show ?thesis
    using flat_column [of "[1..30]"]
    by (simp add: analyze_candles_def len e s flat_rsi flat_macd flat_atr b flat_structure nonzero_def trend_of_def Let_def)
qed

lemma tiny_pos: "\<exists>t. tiny = Fin t \<and> 0 < t \<and> t \<le> 1"
proof -
  have r: "representable (2 powi - 40)" by (rule representable_powi2) (simp add: emin_def)
  have le: "(2 powi - 40 :: rat) \<le> 1 / 10 ^ 12" by (simp add: power_int_minus)
  have "0 < rnd (1 / 10 ^ 12)" by (rule less_le_trans [OF powi2_pos rnd_ge_rep [OF le r]])
  moreover have "rnd (1 / 10 ^ 12) \<le> 1" using rnd_mono [of "1 / 10 ^ 12" 1] by simp
  moreover have "(1 :: rat) < fbound" using powi_53_fbound by simp
  ultimately show ?thesis by (auto simp: tiny_def fl_def fin_Fin_iff)
qed

lemma flat_patterns: "patterns_of (Fin 0) (Fin 0) (Fin 1) (Fin 0) (Fin 0) (Fin 0) = Inr []"
proof -
  obtain t where t: "tiny = Fin t" "0 < t" "t \<le> 1" using tiny_pos by blast
  have "fl (3 / 25) \<le> Fin (1 / 2)" using fin_mono [of "3 / 25" "1 / 2"] fl_halves(4) by (simp add: fl_def)
  moreover have "Fin 1 \<le> fin (1 / t)" using fin_mono [of 1 "1 / t"] t by simp
  ultimately have "\<not> fin (1 / t) \<le> fl (3 / 25)" using float_le_trans [of "Fin 1" _ "Fin (1 / 2)"] float_le_trans [of "Fin 1" "fin (1 / t)" "fl (3 / 25)"] by auto
  then show ?thesis using t(2) by (simp add: t(1) patterns_of_def pymax_def pymin_def Let_def)
qed

lemma flat_scenario:
  "\<exists>s. scenario_from_candles flat_candles ''5m'' market = Inr s \<and> sc_action s = ''SELL''
     \<and> sc_last_price s = Fin 0 \<and> isfinite (sc_atr s) \<and> 0 \<le> sc_atr s \<and> sc_support s = Fin 0 \<and> sc_resistance s = Fin 0"
proof -
  obtain tech where t: "analyze_candles flat_candles = Inr tech" and tt: "ta_trend tech = ''NEUTRAL''"
    and tr: "ta_rsi14 tech = Some (Fin 100)" and th: "macd_histogram (ta_macd tech) = Some (Fin 0)"
    and ta: "ta_atr14 tech = Some (Fin 0)" and tl: "ta_support tech = Fin 0" "ta_resistance tech = Fin 0"
    using flat_analysis by blast
  have p: "detect_candlestick_patterns flat_candles = Inr []"
    using flat_patterns flat_shape(1-3)
    by (simp add: detect_candlestick_patterns_def flat_candle_def dsub_def floats_of_def)
  have sw: "\<exists>st. swing_structure flat_candles 12 = Inr st \<and> sw_state st = ''RANGE''"
    using flat_column [of "[19..30]"] by (simp add: swing_structure_def flat_shape max_list_def min_list_def pymax_def pymin_def Let_def)
  then obtain st where st: "swing_structure flat_candles 12 = Inr st" "sw_state st = ''RANGE''" by blast
  have cl: "bindE (dsub (flat_candle 30) ''close'') py_float = Inr (Fin 0)" by (simp add: flat_candle_def dsub_def)
  have bo: "detect_breakout flat_candles 20 = Inr \<lparr>bo_state = ''NONE'', bo_level = None\<rparr>"
    using flat_column [of "[10..29]"] by (simp add: detect_breakout_def flat_shape cl max_list_def min_list_def pymax_def pymin_def)
  have ev: "scenario_evidence tech st \<lparr>bo_state = ''NONE'', bo_level = None\<rparr> [] = (Fin 0, Fin 5, [''rsi_overbought_risk''])"
    by (simp add: scenario_evidence_def tt tr th st add_rsi_def add_histogram_def zero_Fin Let_def)
  have bp: "bull_probability (Fin 0) (Fin 5) = Inr (Fin 10)"
    by (simp add: bull_probability_def pymax_def pymin_def one_Fin)
  let ?a = "pymax (Fin 0 * fl (5 / 1000)) (fl (1 / 10 ^ 8))"
  have a: "isfinite ?a" "0 \<le> ?a"
    using isfinite_fl [of "5 / 1000"] isfinite_fl [of "1 / 10 ^ 8"] fin_nonneg [of "1 / 10 ^ 8"]
    by (auto simp: pymax_def isfinite_iff zero_Fin fl_def)
  show ?thesis
    using a by (simp add: scenario_from_candles_def t p st bo flat_shape cl ev bp tl ta nonzero_def action_of_def Let_def)
qed

theorem scenario_probabilities_witness:
  "\<exists>s :: scenario. sc_action s = ''SELL'' \<and> Fin 10 \<le> sc_bullish_probability s \<and> sc_bullish_probability s \<le> Fin 90
    \<and> Fin 62 \<le> sc_bearish_probability s"
proof -
  obtain s where s: "scenario_from_candles flat_candles ''5m'' ''crypto'' = Inr s" "sc_action s = ''SELL''"
    using flat_scenario [of "''crypto''"] by blast
  from scenario_probabilities [OF s(1)] s(2) show ?thesis by auto
qed

theorem scenario_levels_ordered_witness:
  "\<exists>(s :: scenario) stop t1 t2. sc_action s = ''SELL'' \<and> sc_stop_loss s = Some stop \<and> sc_targets s = [t1, t2]
    \<and> sc_resistance s \<le> stop \<and> sc_last_price s \<le> stop \<and> t1 \<le> sc_last_price s \<and> t2 \<le> t1"
proof -
  obtain s where s: "scenario_from_candles flat_candles ''5m'' ''crypto'' = Inr s" "sc_action s = ''SELL''"
    "sc_last_price s = Fin 0" "isfinite (sc_atr s)" "0 \<le> sc_atr s" "sc_support s = Fin 0" "sc_resistance s = Fin 0"
    using flat_scenario [of "''crypto''"] by blast
  have "\<exists>stop t1 t2. sc_stop_loss s = Some stop \<and> sc_targets s = [t1, t2]
    \<and> (sc_action s = ''BUY'' \<longrightarrow> stop \<le> sc_support s \<and> stop \<le> sc_last_price s \<and> sc_last_price s \<le> t1 \<and> t1 \<le> t2)
    \<and> (sc_action s = ''SELL'' \<longrightarrow> sc_resistance s \<le> stop \<and> sc_last_price s \<le> stop \<and> t1 \<le> sc_last_price s \<and> t2 \<le> t1)"
    by (rule scenario_levels_ordered [OF s(1)]) (use s in simp_all)
  with s(2) show ?thesis by blast
qed

text \<open>
  The risk gate approves a generated signal exactly when the account is enabled, the signal is
  a BUY or a SELL whose strength is not below the minimum, and a LIVE account has live trading
  allowed; the strength is the probability of the signal's own side, at least 62.
\<close>

theorem evaluate_risk_approves_iff:
  assumes "generate_signal candles timeframe market = Inr g"
  shows "(fst (evaluate_risk g minimum enabled allow_live environment) \<longleftrightarrow>
           enabled \<and> gs_decision g \<in> {''BUY'', ''SELL''} \<and> \<not> gs_strength g < minimum
           \<and> (str_upper environment = ''LIVE'' \<longrightarrow> allow_live))
    \<and> (gs_decision g \<noteq> ''HOLD'' \<longrightarrow> Fin 62 \<le> gs_strength g \<and> gs_strength g \<le> Fin 90)"
proof -
  from assms obtain s where s: "scenario_from_candles candles (if timeframe = [] then ''5m'' else timeframe)
      (str_upper (if market = [] then ''CRYPTO'' else market)) = Inr s" and g: "g = signal_of_scenario s"
    by (auto simp: generate_signal_def)
  have "gs_decision g \<in> {''BUY'', ''SELL'', ''HOLD''}" by (simp add: g signal_of_scenario_def Let_def)
  then have "fst (evaluate_risk g minimum enabled allow_live environment) \<longleftrightarrow>
           enabled \<and> gs_decision g \<in> {''BUY'', ''SELL''} \<and> \<not> gs_strength g < minimum
           \<and> (str_upper environment = ''LIVE'' \<longrightarrow> allow_live)"
    by (auto simp: evaluate_risk_def Let_def)
  moreover have "gs_decision g \<noteq> ''HOLD'' \<longrightarrow> Fin 62 \<le> gs_strength g \<and> gs_strength g \<le> Fin 90"
    using scenario_probabilities_core [OF s] by (auto simp: g signal_of_scenario_def Let_def split: if_splits)
  ultimately show ?thesis by blast
qed

lemma str_upper_examples: "str_upper ''CRYPTO'' = ''CRYPTO''" "str_upper ''paper'' = ''PAPER''"
  by code_simp+

theorem evaluate_risk_approves_iff_witness:
  "\<exists>g :: generated_signal. gs_decision g = ''SELL'' \<and> Fin 62 \<le> gs_strength g \<and> fst (evaluate_risk g (Fin 60) True False ''paper'')"
proof -
  obtain s' where s': "scenario_from_candles flat_candles ''5m'' ''CRYPTO'' = Inr s'" "sc_action s' = ''SELL''"
    using flat_scenario [of "''CRYPTO''"] by blast
  have g: "generate_signal flat_candles ''5m'' ''CRYPTO'' = Inr (signal_of_scenario s')"
    using s'(1) by (simp add: generate_signal_def str_upper_examples)
  have d: "gs_decision (signal_of_scenario s') = ''SELL''" using s'(2) by (simp add: signal_of_scenario_def Let_def)
  have st: "Fin 62 \<le> gs_strength (signal_of_scenario s')"
    using evaluate_risk_approves_iff [OF g] d by simp
  then have "\<not> gs_strength (signal_of_scenario s') < Fin 60"
    by (cases "gs_strength (signal_of_scenario s')") auto
  then have "fst (evaluate_risk (signal_of_scenario s') (Fin 60) True False ''paper'')"
    using evaluate_risk_approves_iff [OF g] d by (simp add: str_upper_examples)
  with d st show ?thesis by blast
qed

end
