(* ===== verification/Router.thy ===== *)
theory Router
  imports Technical "HOL-Library.Multiset"
begin

text \<open>
  \<open>app/analysis/strategy_router.py\<close> (the Darvas box and the advisory route),
  \<open>app/analysis/adaptive_strategy.py\<close> (the ranking of strategy families) and
  \<open>app/analysis/asset_universe.py\<close>.
\<close>

section \<open>The Darvas box\<close>

record darvas =
  dv_valid :: bool
  dv_reason :: string
  dv_top :: "pyfloat option"
  dv_bottom :: "pyfloat option"
  dv_width_pct :: "pyfloat option"
  dv_breakout :: string
  dv_volume_ratio :: "pyfloat option"
  dv_volume_confirmed :: bool

definition volume_of :: "pydict \<Rightarrow> pyfloat res" where
  "volume_of row = float_or0 (dget row ''volume'')"

definition safe_quot :: "pyfloat \<Rightarrow> pyfloat \<Rightarrow> pyfloat res" where
  \<comment> \<open>\<open>x / y if y else 0.0\<close>\<close>
  "safe_quot x y = (if y \<noteq> 0 then fdiv x y else Inr 0)"

definition darvas_box :: "pydict list \<Rightarrow> nat \<Rightarrow> pyfloat \<Rightarrow> darvas res" where
  "darvas_box candles lookback breakout_buffer_pct =
     (if length candles < lookback + 1
      then Inr \<lparr>dv_valid = False, dv_reason = ''INSUFFICIENT_DATA'', dv_top = None, dv_bottom = None, dv_width_pct = None,
               dv_breakout = ''NONE'', dv_volume_ratio = None, dv_volume_confirmed = False\<rparr>
      else let box = slice_neg (lookback + 1) 1 candles; latest = last candles
           in bindE (bindE (column ''high'' box) max_list) (\<lambda>top.
              bindE (bindE (column ''low'' box) min_list) (\<lambda>bottom.
              bindE (fdiv (top + bottom) (fl 2)) (\<lambda>midpoint.
              bindE (if midpoint \<noteq> 0 then bindE (fdiv (top - bottom) midpoint) (\<lambda>q. Inr (q * fl 100)) else Inr 0) (\<lambda>width.
              bindE (bindE (dsub latest ''close'') py_float) (\<lambda>close.
              bindE (fdiv (pymax 0 breakout_buffer_pct) (fl 100)) (\<lambda>b.
              bindE (mapE volume_of box) (\<lambda>volumes.
              bindE (if volumes \<noteq> [] then pymean volumes else Inr 0) (\<lambda>average.
              bindE (volume_of latest) (\<lambda>v.
              bindE (safe_quot v average) (\<lambda>ratio.
                let upper = top * (1 + b); lower = bottom * (1 - b); ok = width \<le> fl 12 \<and> bottom < top
                in Inr \<lparr>dv_valid = ok, dv_reason = (if ok then ''BOX_DETECTED'' else ''BOX_TOO_WIDE''),
                        dv_top = Some (fround 8 top), dv_bottom = Some (fround 8 bottom),
                        dv_width_pct = Some (fround 4 width),
                        dv_breakout = (if upper < close then ''UP'' else if close < lower then ''DOWN'' else ''NONE''),
                        dv_volume_ratio = Some (fround 4 ratio),
                        dv_volume_confirmed = (fl (12 / 10) \<le> ratio)\<rparr>)))))))))))"

section \<open>The route\<close>

record strategy_route =
  sr_regime :: string
  sr_strategy :: string
  sr_confidence :: pyfloat
  sr_eligible :: "string list"
  sr_reasons :: "string list"
  sr_executable :: bool
  sr_mode :: string
  sr_trend_pct :: "pyfloat option"
  sr_volatility_pct :: "pyfloat option"
  sr_box :: darvas

fun pct_changes :: "pyfloat list \<Rightarrow> pyfloat list res" where
  \<comment> \<open>\<open>(b / a - 1.0) * 100.0\<close> for neighbours with a non-zero first\<close>
  "pct_changes (a # b # xs) =
     (if a \<noteq> 0
      then bindE (fdiv b a) (\<lambda>q. bindE (pct_changes (b # xs)) (\<lambda>r. Inr ((q - 1) * fl 100 # r)))
      else pct_changes (b # xs))"
| "pct_changes _ = Inr []"

type_synonym route_choice = "string \<times> string list \<times> string \<times> pyfloat \<times> string list"
  \<comment> \<open>regime, eligible families, strategy, confidence, reasons\<close>

definition choose_route :: "pyfloat \<Rightarrow> pyfloat \<Rightarrow> darvas \<Rightarrow> route_choice" where
  \<comment> \<open>the \<open>if\<close> chain on volatility, trend and box\<close>
  "choose_route volatility trend box =
     (if fl (18 / 10) \<le> volatility
      then (''HIGH_VOLATILITY'', [''news_breakout'', ''volatility''], ''NO_TRADE'', fl 48, [''high_volatility_requires_extra_confirmation''])
      else if pymax (fl (45 / 100)) (volatility * fl (9 / 10)) \<le> fabs trend
      then (if 0 < trend then ''TRENDING_UP'' else ''TRENDING_DOWN'', [''trend'', ''momentum'', ''pullback''], ''trend'',
            pymin (fl 90) (fl 62 + fabs trend * fl 6), [''moving_average_trend''])
      else if dv_valid box \<and> dv_breakout box \<in> set [''UP'', ''DOWN''] \<and> dv_volume_confirmed box
      then (''BOX_BREAKOUT'', [''darvas_box'', ''breakout''], ''darvas_box'',
            pymin (fl 92) (fl 66 + (or_else (dv_volume_ratio box) 0 - fl (12 / 10)) * fl 12),
            [''price_closed_outside_box'', ''breakout_volume_confirmed''])
      else if volatility \<le> fl (1 / 4)
      then (''LOW_VOLATILITY'', [''darvas_box''], ''NO_TRADE'', fl 45, [''box_not_broken''])
      else (''RANGING'', [''mean_reversion'', ''darvas_box''], ''mean_reversion'',
            pymin (fl 78) (fl 61 + pymax 0 (fl (8 / 10) - volatility) * fl 10), [''range_bound_price_action'']))"

definition apply_news :: "pyfloat option \<Rightarrow> route_choice \<Rightarrow> route_choice" where
  "apply_news news_score c =
     (let (regime, eligible, strategy, confidence, reasons) = c
      in case news_score of
           Some n \<Rightarrow> if fl (3 / 4) \<le> fabs n
                     then (regime, eligible, ''NO_TRADE'', pymin confidence (fl 40), reasons @ [''extreme_news_uncertainty'']) else c
         | None \<Rightarrow> c)"

definition apply_minimum :: "pyfloat \<Rightarrow> route_choice \<Rightarrow> route_choice" where
  "apply_minimum minimum_confidence c =
     (let (regime, eligible, strategy, confidence, reasons) = c
      in if confidence < minimum_confidence
         then (regime, eligible, ''NO_TRADE'', confidence, reasons @ [''router_confidence_below_threshold'']) else c)"

definition route_strategy :: "pydict list \<Rightarrow> pyfloat option \<Rightarrow> pyfloat \<Rightarrow> strategy_route res" where
  "route_strategy candles news_score minimum_confidence =
     (if length candles < 31
      then bindE (darvas_box candles 20 (fl (1 / 10))) (\<lambda>box. Inr
        \<lparr>sr_regime = ''INSUFFICIENT_DATA'', sr_strategy = ''NO_TRADE'', sr_confidence = 0, sr_eligible = [],
         sr_reasons = [''needs_31_candles''], sr_executable = False, sr_mode = ''SHADOW'',
         sr_trend_pct = None, sr_volatility_pct = None, sr_box = box\<rparr>)
      else bindE (column ''close'' (last_n 60 candles)) (\<lambda>closes.
           bindE (pct_changes closes) (\<lambda>returns.
           bindE (if 1 < length returns then pypstdev returns else Inr 0) (\<lambda>volatility.
           bindE (pymean (last_n 10 closes)) (\<lambda>fast.
           bindE (pymean (last_n 30 closes)) (\<lambda>slow.
           bindE (if slow \<noteq> 0 then bindE (fdiv fast slow) (\<lambda>q. Inr ((q - 1) * fl 100)) else Inr 0) (\<lambda>trend.
           bindE (darvas_box candles 20 (fl (1 / 10))) (\<lambda>box.
             let (regime, eligible, strategy, confidence, reasons) =
                   apply_minimum minimum_confidence (apply_news news_score (choose_route volatility trend box))
             in Inr \<lparr>sr_regime = regime, sr_strategy = strategy, sr_confidence = fround 2 confidence, sr_eligible = eligible,
                     sr_reasons = reasons, sr_executable = False, sr_mode = ''SHADOW'',
                     sr_trend_pct = Some (fround 4 trend), sr_volatility_pct = Some (fround 4 volatility),
                     sr_box = box\<rparr>))))))))"

section \<open>Ranking strategy families\<close>

record strategy_result =
  st_name :: string
  st_score :: pyfloat
  st_trades :: nat
  st_wins :: nat
  st_losses :: nat
  st_win_rate :: pyfloat
  st_avg_return_pct :: pyfloat
  st_max_drawdown_pct :: pyfloat

definition family_bias :: "string \<Rightarrow> pyfloat" where
  "family_bias name = or_else (map_of
     [(''trend'', fl 2), (''momentum'', fl (3 / 2)), (''breakout'', fl 1), (''mean_reversion'', fl (1 / 2)),
      (''session_momentum'', fl 1), (''volatility'', fl 1)] name) 0"

fun drawdown_from :: "pyfloat \<Rightarrow> pyfloat \<Rightarrow> pyfloat \<Rightarrow> pyfloat list \<Rightarrow> pyfloat res" where
  \<comment> \<open>equity, peak and the maximum drawdown so far\<close>
  "drawdown_from equity peak worst [] = Inr worst"
| "drawdown_from equity peak worst (r # rs) =
     bindE (fdiv r (fl 100)) (\<lambda>q.
       let e = equity * (1 + q); p = pymax peak e
       in bindE (if p \<noteq> 0 then bindE (fdiv (p - e) p) (\<lambda>d. Inr (pymax worst (d * fl 100))) else Inr worst)
            (\<lambda>w. drawdown_from e p w rs))"

definition raw_score :: "pyfloat \<Rightarrow> pyfloat \<Rightarrow> pyfloat \<Rightarrow> pyfloat \<Rightarrow> pyfloat \<Rightarrow> pyfloat" where
  "raw_score win_rate avg_return volatility bias max_drawdown =
     pymax 0 (pymin (fl 100)
       (win_rate * fl (55 / 100) + pymax avg_return 0 * fl 10 + pymin volatility (fl 5) * fl 3 + bias
        - max_drawdown * fl (4 / 10)))"

definition evaluate_strategy :: "string \<Rightarrow> pydict list \<Rightarrow> strategy_result res" where
  "evaluate_strategy name candles =
     bindE (column ''close'' candles) (\<lambda>closes.
     bindE (pct_changes closes) (\<lambda>returns.
     let trades = length returns; wins = length (filter (\<lambda>v. 0 < v) returns); losses = length (filter (\<lambda>v. v < 0) returns)
     in bindE (if trades \<noteq> 0 then bindE (fdiv (fl (of_nat wins)) (fl (of_nat trades))) (\<lambda>q. Inr (q * fl 100)) else Inr 0) (\<lambda>win_rate.
        bindE (if returns \<noteq> [] then pymean returns else Inr 0) (\<lambda>avg_return.
        bindE (drawdown_from 1 1 0 returns) (\<lambda>max_drawdown.
        bindE (if returns \<noteq> [] then pymean (map fabs returns) else Inr 0) (\<lambda>volatility.
          Inr \<lparr>st_name = name,
               st_score = fround 2 (raw_score win_rate avg_return volatility (family_bias name) max_drawdown),
               st_trades = trades, st_wins = wins, st_losses = losses, st_win_rate = fround 2 win_rate,
               st_avg_return_pct = fround 4 avg_return, st_max_drawdown_pct = fround 2 max_drawdown\<rparr>))))))"

fun insert_desc :: "strategy_result \<Rightarrow> strategy_result list \<Rightarrow> strategy_result list" where
  \<comment> \<open>stable: before the entries with an equal score\<close>
  "insert_desc r [] = [r]"
| "insert_desc r (x # xs) = (if st_score r < st_score x then x # insert_desc r xs else r # x # xs)"

definition rank_results :: "strategy_result list \<Rightarrow> strategy_result list" where
  \<comment> \<open>\<open>results.sort(key=score, reverse=True)\<close>, which keeps the order of ties\<close>
  "rank_results rs = foldr insert_desc rs []"

definition select_strategy :: "pydict list \<Rightarrow> string list \<Rightarrow> (strategy_result option \<times> strategy_result list) res" where
  "select_strategy candles families =
     bindE (mapE (\<lambda>name. evaluate_strategy name candles) families) (\<lambda>results.
       let ranked = rank_results results in Inr (case ranked of [] \<Rightarrow> None | r # _ \<Rightarrow> Some r, ranked))"

section \<open>The asset universe\<close>

record asset_profile =
  ap_symbol :: string
  ap_market :: string
  ap_asset_class :: string
  ap_families :: "string list"
  ap_timeframes :: "string list"

definition asset :: "string \<Rightarrow> string \<Rightarrow> string \<Rightarrow> string list \<Rightarrow> string list \<Rightarrow> asset_profile" where
  "asset s m c f t = \<lparr>ap_symbol = s, ap_market = m, ap_asset_class = c, ap_families = f, ap_timeframes = t\<rparr>"

definition ASSET_UNIVERSE :: "asset_profile list" where
  "ASSET_UNIVERSE =
     (let fx = [''trend'', ''breakout'', ''mean_reversion'', ''session_momentum''];
          std = [''trend'', ''momentum'', ''breakout'', ''mean_reversion''];
          oil = [''trend'', ''momentum'', ''breakout'', ''volatility''];
          tf = [''4h'', ''1h'', ''15m'', ''5m'']
      in map (\<lambda>s. asset s ''FX'' ''FOREX'' fx tf) [''EURUSD'', ''GBPUSD'', ''USDJPY'', ''USDCHF'', ''AUDUSD'', ''USDCAD'']
       @ [asset ''XAUUSD'' ''METALS'' ''GOLD'' std tf, asset ''XAGUSD'' ''METALS'' ''SILVER'' std tf]
       @ map (\<lambda>s. asset s ''COMMODITIES'' ''OIL'' oil tf) [''WTI'', ''BRENT'']
       @ map (\<lambda>s. asset s ''CRYPTO'' ''CRYPTO'' std tf) [''BTCUSDT'', ''ETHUSDT'', ''SOLUSDT'', ''XRPUSDT'', ''BNBUSDT'']
       @ map (\<lambda>s. asset s ''EQUITY'' ''ETF'' std (''1d'' # tf)) [''SPY'', ''QQQ''])"

definition EQUITY_SEED_SYMBOLS :: "string list" where
  "EQUITY_SEED_SYMBOLS =
     [''AAPL'', ''MSFT'', ''NVDA'', ''AMZN'', ''META'', ''GOOGL'', ''TSLA'', ''AMD'', ''AVGO'',
      ''JPM'', ''XOM'', ''CVX'', ''COP'', ''SLB'', ''NEM'', ''GOLD'']"

definition profile_for :: "string \<Rightarrow> asset_profile option" where
  "profile_for symbol = (let normalized = remove_char (CHR ''/'') (str_upper symbol)
     in find (\<lambda>p. ap_symbol p = normalized) ASSET_UNIVERSE)"

fun add_group :: "string \<Rightarrow> string \<Rightarrow> (string \<times> string list) list \<Rightarrow> (string \<times> string list) list" where
  \<comment> \<open>\<open>groups.setdefault(m, []).append(s)\<close>\<close>
  "add_group m s [] = [(m, [s])]"
| "add_group m s ((m', ss) # gs) = (if m' = m then (m, ss @ [s]) # gs else (m', ss) # add_group m s gs)"

definition universe_summary :: "(string \<times> string list) list" where
  "universe_summary =
     foldl (\<lambda>gs p. add_group (ap_market p) (ap_symbol p) gs) [] ASSET_UNIVERSE @ [(''EQUITY_SEED'', EQUITY_SEED_SYMBOLS)]"

section \<open>Properties\<close>

lemma choose_route_strategy:
  "choose_route v t box = (regime, eligible, strategy, confidence, reasons)
     \<Longrightarrow> strategy \<in> {''trend'', ''darvas_box'', ''mean_reversion'', ''NO_TRADE''}"
  by (simp add: choose_route_def split: if_splits)

lemma applied_route:
  assumes "apply_minimum minimum (apply_news news_score (choose_route v t box)) = (regime, eligible, strategy, confidence, reasons)"
    and "strategy \<noteq> ''NO_TRADE''"
  shows "strategy \<in> {''trend'', ''darvas_box'', ''mean_reversion''} \<and> \<not> confidence < minimum
    \<and> (\<forall>n. news_score = Some n \<longrightarrow> \<not> fl (3 / 4) \<le> fabs n)"
proof -
  obtain rg el st c rs where ch: "choose_route v t box = (rg, el, st, c, rs)" by (cases "choose_route v t box")
  from choose_route_strategy [OF ch] assms show ?thesis
    by (auto simp: ch apply_minimum_def apply_news_def split: option.splits if_splits)
qed

text \<open>
  Routing is advisory: a route is never executable and always in shadow mode, and it names a
  strategy other than NO_TRADE only for one of the three families, with enough confidence, at least
  31 candles and no extreme news.
\<close>

theorem route_strategy_advisory:
  assumes "route_strategy candles news_score minimum = Inr r"
  shows "\<not> sr_executable r \<and> sr_mode r = ''SHADOW''
    \<and> (sr_strategy r \<noteq> ''NO_TRADE'' \<longrightarrow>
         sr_strategy r \<in> {''trend'', ''darvas_box'', ''mean_reversion''} \<and> 31 \<le> length candles
         \<and> (\<exists>c. sr_confidence r = fround 2 c \<and> \<not> c < minimum)
         \<and> (\<forall>n. news_score = Some n \<longrightarrow> \<not> fl (3 / 4) \<le> fabs n))"
proof (cases "length candles < 31")
  case True
  with assms show ?thesis by (auto simp: route_strategy_def)
next
  case False
  with assms obtain v t box regime eligible c reasons where
      r: "apply_minimum minimum (apply_news news_score (choose_route v t box)) = (regime, eligible, sr_strategy r, c, reasons)"
    and c: "sr_confidence r = fround 2 c" and safe: "\<not> sr_executable r" "sr_mode r = ''SHADOW''"
    by (auto simp: route_strategy_def split: prod.splits)
  from applied_route [OF r] False c safe show ?thesis by auto
qed

theorem route_strategy_advisory_witness:
  "\<exists>r :: strategy_route. sr_regime r = ''INSUFFICIENT_DATA'' \<and> \<not> sr_executable r \<and> sr_mode r = ''SHADOW''"
proof -
  have d: "darvas_box [] 20 (fl (1 / 10)) = Inr \<lparr>dv_valid = False, dv_reason = ''INSUFFICIENT_DATA'', dv_top = None,
      dv_bottom = None, dv_width_pct = None, dv_breakout = ''NONE'', dv_volume_ratio = None, dv_volume_confirmed = False\<rparr>"
    by (simp add: darvas_box_def)
  then have "\<exists>r. route_strategy [] None (fl 60) = Inr r \<and> sr_regime r = ''INSUFFICIENT_DATA''"
    by (simp add: route_strategy_def)
  with route_strategy_advisory show ?thesis by blast
qed

definition clamp_score :: "pyfloat \<Rightarrow> pyfloat" where
  "clamp_score v = pymax 0 (pymin (fl 100) v)"

lemma clamp_score_bounds: "0 \<le> clamp_score v \<and> clamp_score v \<le> Fin 100 \<and> clamp_score v \<noteq> NaN"
  by (cases v) (auto simp: clamp_score_def pymax_def pymin_def zero_Fin)

lemma clamp_sub_mono: "y \<le> z \<Longrightarrow> clamp_score (y - d) \<le> clamp_score (z - d)"
proof (cases "y = NegInf \<or> z = PosInf \<or> \<not> isfinite d")
  case True
  assume "y \<le> z"
  with True show ?thesis
    using clamp_score_bounds [of "y - d"] clamp_score_bounds [of "z - d"]
    by (cases y; cases z; cases d) (auto simp: clamp_score_def pymax_def pymin_def minus_pyfloat_def zero_Fin)
next
  case False
  assume yz: "y \<le> z"
  with False obtain a b c where abc: "y = Fin a" "z = Fin b" "d = Fin c" by (cases y; cases z; cases d) auto
  with yz have "fin (a - c) \<le> fin (b - c)" by (intro fin_mono) simp
  with abc show ?thesis
    by (cases "fin (a - c)"; cases "fin (b - c)") (auto simp: clamp_score_def pymax_def pymin_def zero_Fin)
qed

lemma raw_score_clamp: "raw_score w a v b d = clamp_score (w * fl (55 / 100) + pymax a 0 * fl 10 + pymin v (fl 5) * fl 3 + b - d * fl (4 / 10))"
  by (simp add: raw_score_def clamp_score_def)

lemma raw_score_mono:
  assumes "b \<le> b'" "isfinite b" "isfinite b'" shows "raw_score w a v b d \<le> raw_score w a v b' d"
proof -
  let ?x = "w * fl (55 / 100) + pymax a 0 * fl 10 + pymin v (fl 5) * fl 3"
  show ?thesis
  proof (cases "isfinite ?x")
    case True
    from fadd_mono [OF assms(1) True] have "?x + b \<le> ?x + b'" by (simp add: fadd_commute)
    then show ?thesis unfolding raw_score_clamp by (rule clamp_sub_mono)
  next
    case False
    then have "?x + b = ?x + b'" using assms(2,3) by (cases ?x; cases b; cases b') (simp_all add: plus_pyfloat_def)
    then show ?thesis using clamp_score_bounds unfolding raw_score_clamp by (simp add: float_le_refl)
  qed
qed

lemma isfinite_family_bias: "isfinite (family_bias name)"
  using isfinite_fl [of "3 / 2"] isfinite_fl [of "1 / 2"] by (simp add: family_bias_def zero_Fin)

lemma evaluate_strategy_shape:
  assumes "evaluate_strategy a candles = Inr ra"
  shows "\<exists>wr av dd vol tr wi lo. \<forall>name r. evaluate_strategy name candles = Inr r \<longrightarrow>
      r = \<lparr>st_name = name, st_score = fround 2 (raw_score wr av vol (family_bias name) dd), st_trades = tr, st_wins = wi,
           st_losses = lo, st_win_rate = fround 2 wr, st_avg_return_pct = fround 4 av, st_max_drawdown_pct = fround 2 dd\<rparr>"
proof -
  from assms obtain closes returns where c: "column ''close'' candles = Inr closes" "pct_changes closes = Inr returns"
    by (auto simp: evaluate_strategy_def)
  let ?t = "length returns" and ?w = "length (filter (\<lambda>v. 0 < v) returns)"
  from assms c obtain wr av dd vol where
      e: "(if ?t \<noteq> 0 then bindE (fdiv (fl (of_nat ?w)) (fl (of_nat ?t))) (\<lambda>q. Inr (q * fl 100)) else Inr 0) = Inr wr"
         "(if returns \<noteq> [] then pymean returns else Inr 0) = Inr av" "drawdown_from 1 1 0 returns = Inr dd"
         "(if returns \<noteq> [] then pymean (map fabs returns) else Inr 0) = Inr vol"
    by (auto simp: evaluate_strategy_def Let_def simp del: if_split)
  show ?thesis
    by (intro exI allI impI) (use c e in \<open>simp add: evaluate_strategy_def Let_def del: if_split\<close>)
qed

lemma evaluate_strategy_fields:
  assumes "evaluate_strategy a candles = Inr ra" and "evaluate_strategy b candles = Inr rb"
  shows "st_name ra = a" and "st_trades ra = st_trades rb \<and> st_wins ra = st_wins rb \<and> st_losses ra = st_losses rb
      \<and> st_win_rate ra = st_win_rate rb \<and> st_avg_return_pct ra = st_avg_return_pct rb
      \<and> st_max_drawdown_pct ra = st_max_drawdown_pct rb"
    and "family_bias a \<le> family_bias b \<Longrightarrow> st_score ra \<le> st_score rb" and "st_score ra \<noteq> NaN"
proof -
  from evaluate_strategy_shape [OF assms(1)] obtain wr av dd vol tr wi lo where
    sh: "\<And>name r. evaluate_strategy name candles = Inr r \<Longrightarrow>
      r = \<lparr>st_name = name, st_score = fround 2 (raw_score wr av vol (family_bias name) dd), st_trades = tr, st_wins = wi,
           st_losses = lo, st_win_rate = fround 2 wr, st_avg_return_pct = fround 4 av, st_max_drawdown_pct = fround 2 dd\<rparr>"
    by blast
  note a = sh [OF assms(1)] and b = sh [OF assms(2)]
  show "st_name ra = a" by (simp add: a)
  show "st_trades ra = st_trades rb \<and> st_wins ra = st_wins rb \<and> st_losses ra = st_losses rb
      \<and> st_win_rate ra = st_win_rate rb \<and> st_avg_return_pct ra = st_avg_return_pct rb
      \<and> st_max_drawdown_pct ra = st_max_drawdown_pct rb" by (simp add: a b)
  show "st_score ra \<le> st_score rb" if "family_bias a \<le> family_bias b"
    unfolding a b by (simp add: fround_mono raw_score_mono [OF that isfinite_family_bias isfinite_family_bias])
  have "Fin 0 \<le> raw_score wr av vol (family_bias a) dd"
    using clamp_score_bounds unfolding raw_score_clamp by (simp add: zero_Fin)
  then have "fround 2 (Fin 0) \<le> st_score ra" unfolding a by (simp add: fround_mono)
  then show "st_score ra \<noteq> NaN" by auto
qed

lemma mset_insert_desc: "mset (insert_desc r xs) = add_mset r (mset xs)"
  by (induction xs) auto

lemma mset_rank_results: "mset (rank_results rs) = mset rs"
  unfolding rank_results_def by (induction rs) (simp_all add: mset_insert_desc)

lemma sorted_insert_desc:
  assumes "sorted_wrt (\<lambda>a b. st_score b \<le> st_score a) xs" and "\<forall>x \<in> set (r # xs). st_score x \<noteq> NaN"
  shows "sorted_wrt (\<lambda>a b. st_score b \<le> st_score a) (insert_desc r xs)"
  using assms
proof (induction xs)
  case (Cons x xs)
  have s: "set (insert_desc r ys) = insert r (set ys)" for ys
    using arg_cong [OF mset_insert_desc [of r ys], of set_mset] by simp
  show ?case
  proof (cases "st_score r < st_score x")
    case True
    with Cons s show ?thesis by (auto intro: float_less_le)
  next
    case False
    then have "st_score x \<le> st_score r" using Cons.prems(2) float_not_less by auto
    with Cons.prems False show ?thesis by (auto intro: float_le_trans)
  qed
qed simp

lemma sorted_rank_results:
  "\<forall>x \<in> set rs. st_score x \<noteq> NaN \<Longrightarrow> sorted_wrt (\<lambda>a b. st_score b \<le> st_score a) (rank_results rs)"
proof (induction rs)
  case (Cons r rs)
  have "set (rank_results rs) = set rs" by (metis mset_rank_results set_mset_mset)
  with Cons sorted_insert_desc [of "rank_results rs" r] show ?case by (simp add: rank_results_def)
qed (simp add: rank_results_def)

text \<open>
  The ranking of strategy families orders all of them by descending score, but it carries no
  history: the trades, wins, losses, returns and drawdown of every candidate are equal whatever its
  family, and a family with a larger fixed bias never scores below one with a smaller bias.
\<close>

theorem select_strategy_bias_order:
  assumes "select_strategy candles families = Inr (selected, ranked)"
  shows "mset (map st_name ranked) = mset families
    \<and> sorted_wrt (\<lambda>a b. st_score b \<le> st_score a) ranked
    \<and> selected = (case ranked of [] \<Rightarrow> None | r # _ \<Rightarrow> Some r)
    \<and> (\<forall>a \<in> set ranked. \<forall>b \<in> set ranked.
         st_trades a = st_trades b \<and> st_wins a = st_wins b \<and> st_losses a = st_losses b
         \<and> st_win_rate a = st_win_rate b \<and> st_avg_return_pct a = st_avg_return_pct b
         \<and> st_max_drawdown_pct a = st_max_drawdown_pct b
         \<and> (family_bias (st_name a) \<le> family_bias (st_name b) \<longrightarrow> st_score a \<le> st_score b))"
proof -
  from assms obtain results where r: "mapE (\<lambda>name. evaluate_strategy name candles) families = Inr results"
    and ranked: "ranked = rank_results results" and sel: "selected = (case ranked of [] \<Rightarrow> None | r # _ \<Rightarrow> Some r)"
    by (auto simp: select_strategy_def Let_def)
  have ev: "\<exists>n. evaluate_strategy n candles = Inr x \<and> st_name x = n" if "x \<in> set ranked" for x
  proof -
    have "x \<in> set results" using that ranked by (metis mset_rank_results set_mset_mset)
    with mapE_set [OF r] obtain n where n: "evaluate_strategy n candles = Inr x" by blast
    with evaluate_strategy_fields(1) [OF n n] show ?thesis by blast
  qed
  have names: "map st_name results = families"
  proof (rule nth_equalityI)
    show "length (map st_name results) = length families" using mapE_length [OF r] by simp
    fix i assume "i < length (map st_name results)"
    then have "evaluate_strategy (families ! i) candles = Inr (results ! i)"
      using mapE_nth [OF r] mapE_length [OF r] by simp
    with evaluate_strategy_fields(1) \<open>i < _\<close> show "map st_name results ! i = families ! i" by auto
  qed
  have "mset (map st_name ranked) = mset families" by (simp add: ranked mset_rank_results flip: names)
  moreover have "sorted_wrt (\<lambda>a b. st_score b \<le> st_score a) ranked"
    unfolding ranked
  proof (rule sorted_rank_results, rule ballI)
    fix x assume "x \<in> set results"
    with mapE_set [OF r] obtain n where n: "evaluate_strategy n candles = Inr x" by blast
    show "st_score x \<noteq> NaN" by (rule evaluate_strategy_fields(4) [OF n n])
  qed
  ultimately show ?thesis using sel ev evaluate_strategy_fields(2,3) by metis
qed

theorem select_strategy_bias_order_witness:
  "\<exists>selected ranked. mset (map st_name ranked) = mset [''mean_reversion'', ''trend'']
     \<and> select_strategy [[(''close'', PInt 1)]] [''mean_reversion'', ''trend''] = Inr (selected, ranked)"
proof -
  have "\<exists>s r. select_strategy [[(''close'', PInt 1)]] [''mean_reversion'', ''trend''] = Inr (s, r)"
    by (simp add: select_strategy_def evaluate_strategy_def column_def dsub_def of_int_float_def Let_def)
  with select_strategy_bias_order show ?thesis by blast
qed

text \<open>
  A symbol is looked up in the asset universe case-insensitively and without slashes, and each
  symbol has one profile: the symbols are distinct and every profile is found under its own name.
\<close>

theorem profile_for_unique:
  "distinct (map ap_symbol ASSET_UNIVERSE) \<and> list_all (\<lambda>p. profile_for (ap_symbol p) = Some p) ASSET_UNIVERSE
   \<and> profile_for ''btc/usdt'' = profile_for ''BTCUSDT''
   \<and> length ASSET_UNIVERSE + length EQUITY_SEED_SYMBOLS = length (concat (map snd universe_summary))"
  by code_simp

end
