(* ===== verification/Readiness_Rules.thy ===== *)
theory Readiness_Rules
  imports Safe_Automation Strategy Router
begin

text \<open>
  The pure rules of the readiness check: \<open>app/services/paper_execution.py\<close> (the sized plan, its profit and
  its exits) and the helper functions of \<open>app/services/autotrade_readiness.py\<close> (resolved parameters,
  broker connection, router filter, portfolio limits). Prices and amounts are exact binary64 values.
\<close>

section \<open>The execution plan\<close>

record execution_plan =
  pl_side :: string
  pl_quantity :: pyfloat
  pl_notional :: pyfloat
  pl_stop_loss :: pyfloat
  pl_take_profit :: pyfloat
  pl_risk_amount :: pyfloat

definition sizing_parameters_bad :: "pyfloat \<Rightarrow> pyfloat \<Rightarrow> pyfloat \<Rightarrow> bool" where
  "sizing_parameters_bad stop_multiplier rr max_pct \<longleftrightarrow>
     stop_multiplier \<le> 0 \<or> rr \<le> 0 \<or> \<not> (0 < max_pct \<and> max_pct \<le> fl 100)"

definition stop_distance_of :: "pyfloat \<Rightarrow> pyfloat option \<Rightarrow> pyfloat \<Rightarrow> pyfloat" where
  \<comment> \<open>\<open>max((atr or price * 0.01) * stop_atr_multiplier, price * 0.005)\<close>\<close>
  "stop_distance_of price measured multiplier =
     (let basis = (case measured of Some a \<Rightarrow> if a \<noteq> 0 then a else price * fl (1 / 100) | None \<Rightarrow> price * fl (1 / 100))
      in pymax (basis * multiplier) (price * fl (5 / 1000)))"

definition build_execution_plan ::
    "string \<Rightarrow> pyfloat \<Rightarrow> pyfloat \<Rightarrow> pyfloat \<Rightarrow> pyfloat \<Rightarrow> pyfloat option \<Rightarrow> pyfloat \<Rightarrow> pyfloat \<Rightarrow> pyfloat \<Rightarrow> execution_plan res" where
  "build_execution_plan decision price equity available_cash risk_pct measured stop_multiplier rr max_pct =
     guardE (decision \<notin> set [''BUY'', ''SELL'']) (ValueError ''only BUY or SELL signals can be executed'')
    (guardE (price \<le> 0 \<or> equity \<le> 0 \<or> available_cash \<le> 0) (ValueError ''price, equity and available cash must be positive'')
    (guardE (sizing_parameters_bad stop_multiplier rr max_pct) (ValueError ''invalid strategy sizing parameters'')
    (bindE (fdiv risk_pct (fl 100)) (\<lambda>share.
       let risk_amount = equity * share; stop_distance = stop_distance_of price measured stop_multiplier
       in bindE (fdiv risk_amount stop_distance) (\<lambda>by_risk.
          bindE (bindE (fdiv max_pct (fl 100)) (\<lambda>p. fdiv (available_cash * p) price)) (\<lambda>by_notional.
            let quantity = pymin by_risk by_notional
            in guardE (quantity \<le> 0) (ValueError ''calculated position size is zero'')
              (Inr \<lparr>pl_side = decision, pl_quantity = fround 8 quantity, pl_notional = fround 8 (quantity * price),
                   pl_stop_loss = fround 8 (if decision = ''BUY'' then price - stop_distance else price + stop_distance),
                   pl_take_profit = fround 8 (if decision = ''BUY'' then price + stop_distance * rr else price - stop_distance * rr),
                   pl_risk_amount = fround 8 risk_amount\<rparr>)))))))"

definition position_pnl :: "string \<Rightarrow> pyfloat \<Rightarrow> pyfloat \<Rightarrow> pyfloat \<Rightarrow> pyfloat" where
  "position_pnl side quantity entry_price mark_price =
     (mark_price - entry_price) * quantity * (if side = ''BUY'' then Fin 1 else Fin (- 1))"

definition exit_trigger :: "string \<Rightarrow> pyfloat \<Rightarrow> pyfloat option \<Rightarrow> pyfloat option \<Rightarrow> string option" where
  "exit_trigger side mark stop target =
     (let hit = (\<lambda>level p. case level of None \<Rightarrow> False | Some x \<Rightarrow> p x)
      in if side = ''BUY''
         then (if hit stop (\<lambda>s. mark \<le> s) then Some ''STOP_LOSS'' else if hit target (\<lambda>t. t \<le> mark) then Some ''TAKE_PROFIT'' else None)
         else (if hit stop (\<lambda>s. s \<le> mark) then Some ''STOP_LOSS'' else if hit target (\<lambda>t. mark \<le> t) then Some ''TAKE_PROFIT'' else None))"

section \<open>Resolved parameters\<close>

definition unflushed_risk :: risk_profile where
  \<comment> \<open>\<open>RiskProfile(name='Default')\<close>: the column defaults only apply when a row is inserted\<close>
  "unflushed_risk = \<lparr>rp_id = 0, rp_name = ''Default'', rp_minimum_signal_score = None, rp_risk_per_trade_pct = None,
     rp_max_daily_loss_pct = None, rp_max_open_positions = None\<rparr>"

definition unflushed_strategy :: strategy_profile where
  "unflushed_strategy = \<lparr>sp_id = 0, sp_name = ''Default'', sp_timeframe = None, sp_minimum_signal_strength = None,
     sp_stop_atr_multiplier = None, sp_take_profit_rr = None, sp_max_position_notional_pct = None\<rparr>"

definition default_risk :: "db \<Rightarrow> risk_profile" where
  "default_risk d = or_else (find (\<lambda>r. rp_name r = ''Default'') (db_risks d)) unflushed_risk"

definition default_strategy :: "db \<Rightarrow> strategy_profile" where
  "default_strategy d = or_else (find (\<lambda>r. sp_name r = ''Default'') (db_strategy_profiles d)) unflushed_strategy"

definition or_default :: "'a option \<Rightarrow> 'a option \<Rightarrow> 'a option" where
  "or_default own fallback = (case own of Some x \<Rightarrow> Some x | None \<Rightarrow> fallback)"

fun both :: "(pyfloat \<Rightarrow> pyfloat \<Rightarrow> pyfloat) \<Rightarrow> pyfloat option \<Rightarrow> pyfloat option \<Rightarrow> pyfloat res" where
  \<comment> \<open>\<open>max\<close> or \<open>min\<close> of two values; None does not compare\<close>
  "both f (Some a) (Some b) = Inr (f a b)"
| "both f _ _ = Inl TypeError"

record entry_params =
  pp_timeframe :: "string option"
  pp_minimum :: pyfloat
  pp_risk_pct :: pyfloat
  pp_stop :: "pyfloat option"
  pp_rr :: "pyfloat option"
  pp_max_pos :: "pyfloat option"

definition resolve_params :: "symbol_strategy \<Rightarrow> strategy_profile \<Rightarrow> risk_profile \<Rightarrow> entry_params res" where
  \<comment> \<open>\<open>_params\<close>\<close>
  "resolve_params cfg def risk =
     bindE (both pymax (rp_minimum_signal_score risk) (or_default (ss_minimum_signal_strength cfg) (sp_minimum_signal_strength def))) (\<lambda>minimum.
     bindE (both pymin (rp_risk_per_trade_pct risk) (or_default (ss_risk_per_trade_pct cfg) (rp_risk_per_trade_pct risk))) (\<lambda>risk_pct.
       Inr \<lparr>pp_timeframe = (case ss_timeframe cfg of Some t \<Rightarrow> if t = [] then sp_timeframe def else Some t | None \<Rightarrow> sp_timeframe def),
            pp_minimum = minimum, pp_risk_pct = risk_pct,
            pp_stop = or_default (ss_stop_atr_multiplier cfg) (sp_stop_atr_multiplier def),
            pp_rr = or_default (ss_take_profit_rr cfg) (sp_take_profit_rr def),
            pp_max_pos = or_default (ss_max_position_notional_pct cfg) (sp_max_position_notional_pct def)\<rparr>))"

definition id_text :: "nat \<Rightarrow> string" where "id_text i = show_int (int i)"

definition strategy_snapshot :: "symbol_strategy \<Rightarrow> entry_params \<Rightarrow> pydict" where
  "strategy_snapshot cfg p =
     [(''schema_version'', PInt 1), (''strategy_id'', PStr (id_text (ss_id cfg))), (''profile_id'', PStr (id_text (ss_profile_id cfg))),
      (''market'', PStr (ss_market cfg)), (''symbol'', PStr (ss_symbol cfg)), (''mode'', PStr (ss_mode cfg)),
      (''signal_engine'', PStr ''app.services.signal_risk.generate_signal''), (''router_role'', PStr ''ENTRY_FILTER''),
      (''effective_parameters'', PDict [(''timeframe'', opt_val PStr (pp_timeframe p)), (''minimum_signal_strength'', PFloat (pp_minimum p)),
         (''risk_per_trade_pct'', PFloat (pp_risk_pct p)), (''stop_atr_multiplier'', opt_val PFloat (pp_stop p)),
         (''take_profit_rr'', opt_val PFloat (pp_rr p)), (''max_position_notional_pct'', opt_val PFloat (pp_max_pos p))])]"

section \<open>Broker readings\<close>

definition round_volume :: "pyfloat \<Rightarrow> pydict \<Rightarrow> pyfloat res" where
  "round_volume raw info =
     bindE (py_float (py_or (dget info ''volume_min'') (PFloat (fl (1 / 100))))) (\<lambda>mn.
     bindE (py_float (py_or (dget info ''volume_max'') (PFloat raw))) (\<lambda>mx.
     bindE (py_float (py_or (dget info ''volume_step'') (PFloat mn))) (\<lambda>step.
     bindE (fdiv (pymax mn (pymin mx raw)) step) (\<lambda>q. bindE (ffloor q) (\<lambda>n. bindE (of_int_float n) (\<lambda>k.
       Inr (fround 8 (pymax mn (k * step)))))))))"

fun first_price :: "pydict \<Rightarrow> string list \<Rightarrow> pyfloat res" where
  "first_price quote [] = Inr 0"
| "first_price quote (k # ks) =
     (case float_or0 (dget quote k) of
        Inl e \<Rightarrow> if is_type_or_value e then first_price quote ks else Inl e
      | Inr price \<Rightarrow> if isfinite price \<and> 0 < price then Inr price else first_price quote ks)"

definition ibkr_quote_price :: "pydict \<Rightarrow> string \<Rightarrow> pyfloat res" where
  "ibkr_quote_price quote decision =
     first_price quote (if decision = ''BUY'' then [''ask'', ''last'', ''bid''] else [''bid'', ''last'', ''ask''])"

fun ibkr_provider_unavailable :: "exn \<Rightarrow> bool" where
  "ibkr_provider_unavailable ConnectError = True"
| "ibkr_provider_unavailable TimeoutError = True"
| "ibkr_provider_unavailable (HTTPStatusError code _) = (code \<in> {502, 503, 504})"
| "ibkr_provider_unavailable _ = False"

definition ibkr_connection_verdict :: "broker_profile \<Rightarrow> pydict \<Rightarrow> pydict \<Rightarrow> pydict \<Rightarrow> bool \<times> string" where
  "ibkr_connection_verdict profile credentials health account =
     (let actual = str_strip (str_or_empty (dget account ''account_id''));
          expected = str_strip (str_or_empty (py_or (dget credentials ''account_id'') (opt_val PStr (bp_external_account_ref profile))));
          simulation = truth (dget_or account ''simulation'' (dget health ''simulation''))
      in if \<not> truth (dget health ''connected'') \<or> dget health ''server_connected'' = PBool False
         then (False, ''IBKR_BRIDGE_DISCONNECTED'')
         else if py_eq (dget account ''data_status'') (PStr ''STALE'') then (False, ''IBKR_ACCOUNT_DATA_STALE'')
         else if actual = [] \<or> actual \<noteq> expected then (False, ''IBKR_ACCOUNT_MISMATCH'')
         else if str_upper (bp_environment profile) = ''PAPER'' \<and> \<not> simulation then (False, ''IBKR_PAPER_SESSION_REQUIRED'')
         else (True, ''CONNECTED''))"

definition provider_execution_blockers :: "broker_profile \<Rightarrow> string list" where
  "provider_execution_blockers p =
     (if str_upper (bp_provider p) \<noteq> ''BYBIT'' then []
      else if str_upper (bp_environment p) \<notin> set SIMULATION_ENVS then [''BYBIT_TESTNET_OR_DEMO_REQUIRED'']
      else if \<not> (bp_execution_certified p \<and> bp_execution_certification_buy_passed p \<and> bp_execution_certification_sell_passed p)
      then [''BYBIT_SPOT_CERTIFICATION_REQUIRED''] else [])"

definition router_blocker :: "strategy_route \<Rightarrow> string \<Rightarrow> string option" where
  \<comment> \<open>the route is the dictionary \<open>route_strategy\<close> returns, so its texts are never missing\<close>
  "router_blocker route decision0 =
     (let decision = str_upper decision0; strategy = str_upper (sr_strategy route); regime = str_upper (sr_regime route);
          breakout = str_upper (dv_breakout (sr_box route))
      in if strategy = ''NO_TRADE'' then Some ''STRATEGY_ROUTER_NO_TRADE''
         else if decision \<notin> set [''BUY'', ''SELL''] then Some ''STRATEGY_ROUTER_DIRECTION_REQUIRED''
         else if regime = ''TRENDING_UP'' \<and> decision \<noteq> ''BUY'' then Some ''STRATEGY_ROUTER_DIRECTION_CONFLICT''
         else if regime = ''TRENDING_DOWN'' \<and> decision \<noteq> ''SELL'' then Some ''STRATEGY_ROUTER_DIRECTION_CONFLICT''
         else if regime = ''BOX_BREAKOUT'' \<and> (breakout = ''UP'' \<and> decision \<noteq> ''BUY'' \<or> breakout = ''DOWN'' \<and> decision \<noteq> ''SELL'')
         then Some ''STRATEGY_ROUTER_DIRECTION_CONFLICT''
         else None)"

definition readable_or0 :: "pyval \<Rightarrow> pyfloat res" where
  \<comment> \<open>\<open>try: float(v or 0) / except (TypeError, ValueError): 0\<close>\<close>
  "readable_or0 v = tryE (float_or0 v) is_type_or_value (\<lambda>_. Inr 0)"

fun first_positive :: "(pyfloat \<Rightarrow> pyfloat) \<Rightarrow> pydict \<Rightarrow> string list \<Rightarrow> pyfloat option res" where
  \<comment> \<open>the first key whose reading is positive\<close>
  "first_positive f d [] = Inr None"
| "first_positive f d (k # ks) =
     bindE (readable_or0 (dget d k)) (\<lambda>v. if 0 < f v then Inr (Some (f v)) else first_positive f d ks)"

fun first_coin :: "string \<Rightarrow> pydict list \<Rightarrow> pyfloat res" where
  "first_coin coin [] = Inr 0"
| "first_coin coin (row # rows) =
     (if upper_or_empty (dget row ''coin'') \<noteq> str_upper coin then first_coin coin rows
      else bindE (first_positive (\<lambda>v. v) row [''availableToWithdraw'', ''walletBalance'', ''equity'']) (\<lambda>v. case v of
             Some x \<Rightarrow> Inr x | None \<Rightarrow> first_coin coin rows))"

definition bybit_spot_available :: "pydict \<Rightarrow> string \<Rightarrow> pyfloat res" where
  "bybit_spot_available wallet coin = bindE (wallet_coins wallet) (first_coin coin)"

definition position_notional :: "pydict \<Rightarrow> pyfloat res" where
  "position_notional position =
     bindE (first_positive fabs position [''market_value'', ''marketValue'', ''notional'', ''position_value'', ''positionValue'']) (\<lambda>v. case v of
       Some x \<Rightarrow> Inr x
     | None \<Rightarrow>
         bindE (float_or0 (py_or (dget position ''quantity'') (py_or (dget position ''volume'') (dget position ''size'')))) (\<lambda>q.
         bindE (first_positive fabs position [''market_price'', ''marketPrice'', ''price'', ''markPrice'', ''current_price'', ''currentPrice'']) (\<lambda>p.
           Inr (case p of Some price \<Rightarrow> fabs q * price | None \<Rightarrow> 0))))"

section \<open>Portfolio limits\<close>

definition MAX_GROSS_EXPOSURE_PCT :: pyfloat where "MAX_GROSS_EXPOSURE_PCT = fl 50"
definition MAX_NEW_POSITIONS_PER_ACCOUNT :: int where "MAX_NEW_POSITIONS_PER_ACCOUNT = 5"

definition portfolio_guard :: "pyfloat \<Rightarrow> int \<Rightarrow> pyfloat \<Rightarrow> pyfloat \<Rightarrow> int \<Rightarrow> pyfloat \<Rightarrow> string list" where
  "portfolio_guard equity existing_positions existing_gross reserved_notional reserved_positions proposed =
     (if equity \<le> 0 then [''PORTFOLIO_EQUITY_UNAVAILABLE'']
      else let max_gross = equity * fl (1 / 2); projected = pymax 0 existing_gross + pymax 0 reserved_notional + pymax 0 proposed
           in (if max_gross + fl (1 / 10 ^ 8) < projected then [''PORTFOLIO_GROSS_EXPOSURE_LIMIT''] else [])
            @ (if MAX_NEW_POSITIONS_PER_ACCOUNT < existing_positions + reserved_positions + 1 then [''PORTFOLIO_POSITION_LIMIT''] else []))"

end
