(* ===== verification/Market_Data.thy ===== *)
theory Market_Data
  imports Brokers
begin

text \<open>
  \<open>app/market_data/bybit.py\<close>: the public Bybit client, its candles and its tickers. The answers of the
  exchange are the environment; everything the client does with them is here.
\<close>

definition SUPPORTED_CATEGORIES :: "string list" where "SUPPORTED_CATEGORIES = [''linear'', ''spot'']"

definition INTERVAL_MAP :: "(string \<times> string) list" where
  "INTERVAL_MAP = [(''1m'', ''1''), (''3m'', ''3''), (''5m'', ''5''), (''15m'', ''15''), (''30m'', ''30''), (''1h'', ''60''),
     (''2h'', ''120''), (''4h'', ''240''), (''6h'', ''360''), (''12h'', ''720''), (''1d'', ''D''), (''1w'', ''W'')]"

definition opt_float :: "pyval \<Rightarrow> pyfloat option res" where
  \<comment> \<open>\<open>_float\<close>\<close>
  "opt_float v = (if v = PNone \<or> v = PStr [] then Inr None else bindE (py_float v) (\<lambda>x. Inr (Some x)))"

fun is_http_error :: "exn \<Rightarrow> bool" where
  \<comment> \<open>\<open>except httpx.HTTPError\<close>\<close>
  "is_http_error ConnectError = True"
| "is_http_error TimeoutError = True"
| "is_http_error (HTTPStatusError _ _) = True"
| "is_http_error _ = False"

definition public_get :: "env \<Rightarrow> string \<Rightarrow> pydict \<Rightarrow> pydict prog" where
  "public_get E path params =
     bindP (tryP (http E (rev (dropWhile (\<lambda>c. c = CHR ''/'') (rev (en_bybit_public E)))) (Get path params)) is_http_error
              (\<lambda>e. liftP (Inl (BybitMarketDataError (''Bybit request failed: '' @ exn_name e))))) (\<lambda>payload.
     bindP (liftP (as_dict payload)) (\<lambda>d.
       if \<not> py_eq (dget d ''retCode'') (PInt 0)
       then liftP (Inl (BybitMarketDataError (py_str (py_or (dget d ''retMsg'') (PStr ''Bybit returned an error'')))))
       else retP d))"

definition result_list :: "pydict \<Rightarrow> pyval list res" where
  \<comment> \<open>\<open>payload.get('result', {}).get('list', [])\<close> as the loop sees it\<close>
  "result_list payload =
     bindE (as_dict (dget_or payload ''result'' (PDict []))) (\<lambda>r. as_list (dget_or r ''list'' (PList [])))"

fun index_of :: "pyval \<Rightarrow> nat \<Rightarrow> pyval res" where
  \<comment> \<open>\<open>row[i]\<close>\<close>
  "index_of (PList xs) i = (if i < length xs then Inr (xs ! i) else Inl IndexError)"
| "index_of (PStr s) i = (if i < length s then Inr (PStr [s ! i]) else Inl IndexError)"
| "index_of (PDict _) _ = Inl KeyError"
| "index_of _ _ = Inl TypeError"

fun py_len :: "pyval \<Rightarrow> nat res" where
  "py_len (PList xs) = Inr (length xs)"
| "py_len (PStr s) = Inr (length s)"
| "py_len (PDict d) = Inr (length d)"
| "py_len _ = Inl TypeError"

definition candle_of_row :: "string \<Rightarrow> string \<Rightarrow> string \<Rightarrow> pyval \<Rightarrow> (int \<times> pydict) res" where
  \<comment> \<open>a \<open>MarketCandle\<close> as its dictionary, with its sort key\<close>
  "candle_of_row category symbol interval row =
     bindE (bindE (index_of row 0) py_int) (\<lambda>stamp.
     bindE (mapE (\<lambda>i. bindE (index_of row i) py_float) [1, 2, 3, 4, 5]) (\<lambda>vs.
     bindE (bindE (py_len row) (\<lambda>n. if 6 < n then bindE (index_of row 6) opt_float else Inr None)) (\<lambda>turnover.
       Inr (stamp, [(''provider'', PStr ''BYBIT''), (''category'', PStr category), (''symbol'', PStr symbol), (''interval'', PStr interval), (''timestamp_ms'', PInt stamp)]
              @ zip [''open'', ''high'', ''low'', ''close'', ''volume''] (map PFloat vs) @ [(''turnover'', opt_val PFloat turnover)]))))"

definition get_candles :: "env \<Rightarrow> string \<Rightarrow> string \<Rightarrow> string \<Rightarrow> int \<Rightarrow> pydict list prog" where
  "get_candles E symbol0 interval category limit =
     (case map_of INTERVAL_MAP interval of
        None \<Rightarrow> liftP (Inl (ValueError (if category \<in> set SUPPORTED_CATEGORIES then ''unsupported candle interval'' else ''unsupported market category'')))
      | Some code \<Rightarrow>
          if category \<notin> set SUPPORTED_CATEGORIES then liftP (Inl (ValueError ''unsupported market category''))
          else if \<not> (1 \<le> limit \<and> limit \<le> 500) then liftP (Inl (ValueError ''limit must be between 1 and 500''))
          else let symbol = str_upper symbol0
               in bindP (public_get E ''/v5/market/kline'' [(''category'', PStr category), (''symbol'', PStr symbol), (''interval'', PStr code),
                          (''limit'', PInt limit)]) (\<lambda>payload.
                  bindP (liftP (bindE (result_list payload) (mapE (candle_of_row category symbol interval)))) (\<lambda>candles.
                    retP (map snd (sort_key fst candles)))))"

record market_ticker =
  tk_symbol :: string
  tk_last_price :: pyfloat
  tk_bid_price :: "pyfloat option"
  tk_ask_price :: "pyfloat option"
  tk_change_24h_pct :: "pyfloat option"
  tk_high_24h :: "pyfloat option"
  tk_low_24h :: "pyfloat option"
  tk_volume_24h :: "pyfloat option"
  tk_turnover_24h :: "pyfloat option"

definition ticker_of_row :: "string \<Rightarrow> pydict \<Rightarrow> market_ticker res" where
  "ticker_of_row symbol row =
     bindE (bindE (dsub row ''lastPrice'') py_float) (\<lambda>last.
     bindE (opt_float (dget row ''bid1Price'')) (\<lambda>bid. bindE (opt_float (dget row ''ask1Price'')) (\<lambda>ask.
     bindE (bindE (opt_float (dget row ''price24hPcnt'')) (\<lambda>c. Inr (map_option (\<lambda>x. x * fl 100) c))) (\<lambda>change.
     bindE (opt_float (dget row ''highPrice24h'')) (\<lambda>high. bindE (opt_float (dget row ''lowPrice24h'')) (\<lambda>low.
     bindE (opt_float (dget row ''volume24h'')) (\<lambda>volume. bindE (opt_float (dget row ''turnover24h'')) (\<lambda>turnover.
       Inr \<lparr>tk_symbol = symbol, tk_last_price = last, tk_bid_price = bid, tk_ask_price = ask, tk_change_24h_pct = change,
            tk_high_24h = high, tk_low_24h = low, tk_volume_24h = volume, tk_turnover_24h = turnover\<rparr>))))))))"

fun tickers_of_rows :: "string list \<Rightarrow> pyval list \<Rightarrow> market_ticker list res" where
  "tickers_of_rows wanted [] = Inr []"
| "tickers_of_rows wanted (v # vs) =
     bindE (as_dict v) (\<lambda>row. let symbol = str_upper (py_str (dget_or row ''symbol'' (PStr []))) in
       if symbol \<notin> set wanted then tickers_of_rows wanted vs
       else bindE (ticker_of_row symbol row) (\<lambda>t. bindE (tickers_of_rows wanted vs) (\<lambda>ts. Inr (t # ts))))"

fun position_in :: "string \<Rightarrow> string list \<Rightarrow> nat" where
  \<comment> \<open>\<open>symbols.index(s) if s in symbols else len(symbols)\<close>\<close>
  "position_in s [] = 0"
| "position_in s (x # xs) = (if x = s then 0 else Suc (position_in s xs))"

definition get_tickers :: "env \<Rightarrow> string \<Rightarrow> string list \<Rightarrow> market_ticker list prog" where
  "get_tickers E category symbols =
     (if category \<notin> set SUPPORTED_CATEGORIES then liftP (Inl (ValueError ''unsupported market category''))
      else bindP (public_get E ''/v5/market/tickers'' [(''category'', PStr category)]) (\<lambda>payload.
           bindP (liftP (bindE (result_list payload) (tickers_of_rows (map str_upper symbols)))) (\<lambda>ts.
             retP (sort_key (\<lambda>t. position_in (tk_symbol t) symbols) ts))))"

section \<open>What the client returns\<close>

lemma quiet_public_get [intro!]: "emits no_orders (public_get E path params)"
  unfolding public_get_def by auto

lemma quiet_market_reads [intro!]:
  "emits no_orders (get_candles E symbol interval category limit)" "emits no_orders (get_tickers E category symbols)"
  unfolding get_candles_def get_tickers_def Let_def by (auto split: option.split)

end
