(* ===== verification/Readiness.thy ===== *)
theory Readiness
  imports Readiness_Rules Market_Data
begin

text \<open>
  \<open>app/services/autotrade_readiness.py\<close>: the readiness of every enabled strategy of a user, one row per
  strategy in the order of market and symbol. What the \<open>try\<close> block of a row has changed when it fails (the
  row so far, the slots it cached, what it reserved) stays, as in the code. The rows are dictionaries.
\<close>

section \<open>State of one evaluation\<close>

record ready_local =
  lo_base :: pydict                             \<comment> \<open>\<open>base\<close> of the current row\<close>
  lo_slots :: "(nat \<times> slots) list"              \<comment> \<open>\<open>managed_slot_cache\<close>\<close>
  lo_reserved :: "(nat \<times> pyfloat \<times> int) list"   \<comment> \<open>\<open>portfolio_reservations\<close>: notional and positions per profile\<close>

record market_view =
  \<comment> \<open>what the provider's branch reads for one symbol\<close>
  mv_candles :: "pydict list"
  mv_signal :: generated_signal
  mv_equity :: pyfloat
  mv_available :: pyfloat
  mv_price :: pyfloat
  mv_positions :: int
  mv_gross :: pyfloat
  mv_quantity :: pyfloat
  mv_slots :: slots
  mv_contract_size :: pyfloat
  mv_info :: pydict

definition set_base :: "string \<Rightarrow> pyval \<Rightarrow> (ready_local, unit) act" where
  "set_base k v = modL (\<lambda>l. l\<lparr>lo_base := dset k v (lo_base l)\<rparr>)"

definition exn_message :: "env \<Rightarrow> exn \<Rightarrow> string" where
  \<comment> \<open>\<open>str(exc)\<close>\<close>
  "exn_message E e = (case e of ValueError m \<Rightarrow> m | RuntimeError m \<Rightarrow> m | BybitPrivateError m \<Rightarrow> m | BybitMarketDataError m \<Rightarrow> m
     | Mt5BridgeError m \<Rightarrow> m | PreSubmissionBlocked m \<Rightarrow> m | _ \<Rightarrow> en_exn_text E e)"

definition error_text :: "env \<Rightarrow> exn \<Rightarrow> string" where
  \<comment> \<open>\<open>f"{type(exc).__name__}: {str(exc) or repr(exc)}"\<close>\<close>
  "error_text E e = exn_name e @ '': '' @ (if exn_message E e = [] then exn_name e @ ''()'' else exn_message E e)"

section \<open>Refreshing an IBKR connection\<close>

definition same_or :: "'a \<Rightarrow> 'a \<Rightarrow> 'a \<Rightarrow> 'a" where
  \<comment> \<open>a flush writes a column only when the attribute changed\<close>
  "same_or loaded new stored = (if new = loaded then stored else new)"

definition write_connection :: "broker_profile \<Rightarrow> broker_profile \<Rightarrow> unit prog" where
  \<comment> \<open>the loaded object becomes \<open>new\<close>; the flush writes its changed connection columns\<close>
  "write_connection old new =
     seqP (modP (\<lambda>w. w\<lparr>w_profiles := replace_row bp_id new (w_profiles w)\<rparr>))
       (modify_db (\<lambda>d. d\<lparr>db_profiles := update_key bp_id (bp_id new) (\<lambda>row. row\<lparr>
          bp_last_connection_status := same_or (bp_last_connection_status old) (bp_last_connection_status new) (bp_last_connection_status row),
          bp_last_connection_test_at := same_or (bp_last_connection_test_at old) (bp_last_connection_test_at new) (bp_last_connection_test_at row),
          bp_last_sync_at := same_or (bp_last_sync_at old) (bp_last_sync_at new) (bp_last_sync_at row),
          bp_equity_usd := same_or (bp_equity_usd old) (bp_equity_usd new) (bp_equity_usd row),
          bp_wallet_balance_usd := same_or (bp_wallet_balance_usd old) (bp_wallet_balance_usd new) (bp_wallet_balance_usd row),
          bp_available_balance_usd := same_or (bp_available_balance_usd old) (bp_available_balance_usd new) (bp_available_balance_usd row)\<rparr>)
          (db_profiles d)\<rparr>))"

definition read_connection :: "env \<Rightarrow> broker_profile \<Rightarrow> (pydict \<times> pydict \<times> pydict) prog" where
  \<comment> \<open>credentials, health and account\<close>
  "read_connection E p =
     bindP (liftP (secret_of E p)) (\<lambda>credentials.
     bindP (liftP (ibkr_client_of credentials)) (\<lambda>c.
     bindP (bindP (ib_health E c) (\<lambda>h. liftP (as_dict h))) (\<lambda>health.
     bindP (if truth (dget health ''connected'') then bindP (ib_account E c) (\<lambda>a. liftP (as_dict a)) else retP []) (\<lambda>account.
       retP (credentials, health, account)))))"

definition connection_update :: "int \<Rightarrow> bool \<Rightarrow> pydict \<Rightarrow> (broker_profile, unit) act" where
  \<comment> \<open>the attributes set in order; an unreadable balance leaves the earlier ones set\<close>
  "connection_update now linked account =
     seqL (modL (\<lambda>p. p\<lparr>bp_last_connection_status := (if linked then ''CONNECTED'' else ''FAILED''), bp_last_connection_test_at := Some now\<rparr>))
       (if \<not> linked then retL ()
        else seqL (modL (\<lambda>p. p\<lparr>bp_last_sync_at := Some now\<rparr>))
             (bindL (liftL (float_or0 (dget account ''equity''))) (\<lambda>equity. seqL (modL (\<lambda>p. p\<lparr>bp_equity_usd := Some equity\<rparr>))
             (bindL (liftL (float_or0 (dget account ''cash''))) (\<lambda>cash. seqL (modL (\<lambda>p. p\<lparr>bp_wallet_balance_usd := Some cash\<rparr>))
             (bindL (liftL (float_or0 (dget account ''available''))) (\<lambda>available. modL (\<lambda>p. p\<lparr>bp_available_balance_usd := Some available\<rparr>))))))))"

definition refresh_ibkr_connection :: "env \<Rightarrow> broker_profile \<Rightarrow> (bool \<times> string) prog" where
  "refresh_ibkr_connection E p =
     bindP (tryP (bindP (read_connection E p) (\<lambda>x. retP (Inr x))) is_exception (\<lambda>e. retP (Inl e))) (\<lambda>r.
     bindP (getP (\<lambda>w. 1000 * en_now E (w_tick w))) (\<lambda>now.
       let failed = (\<lambda>q e. seqP (write_connection p (q\<lparr>bp_last_connection_status := ''FAILED'', bp_last_connection_test_at := Some now\<rparr>))
                              (retP (False, exn_name e @ '': '' @ take 160 (exn_message E e))))
       in case r of
            Inl e \<Rightarrow> failed p e
          | Inr (credentials, health, account) \<Rightarrow>
              (let (linked, reason) = ibkr_connection_verdict p credentials health account
               in bindP (connection_update now linked account p) (\<lambda>(r, q). case r of
                    Inl e \<Rightarrow> failed q e
                  | Inr _ \<Rightarrow> seqP (write_connection p q) (retP (linked, reason))))))"

section \<open>What each provider is asked\<close>

definition view_of :: "pydict list \<Rightarrow> generated_signal \<Rightarrow> pyfloat \<Rightarrow> pyfloat \<Rightarrow> pyfloat \<Rightarrow> int \<Rightarrow> pyfloat \<Rightarrow> pyfloat \<Rightarrow> market_view" where
  "view_of candles signal equity available price positions gross quantity =
     \<lparr>mv_candles = candles, mv_signal = signal, mv_equity = equity, mv_available = available, mv_price = price,
      mv_positions = positions, mv_gross = gross, mv_quantity = quantity, mv_slots = no_slots, mv_contract_size = 0, mv_info = []\<rparr>"

definition spot_client :: "env \<Rightarrow> broker_profile \<Rightarrow> bybit_client res" where
  \<comment> \<open>the readiness check opens its own client, without a check that the keys are present\<close>
  "spot_client E p =
     (let environment = str_upper (bp_environment p)
      in bindE (if environment = ''DEMO'' then Inr (en_bybit_demo E) else if environment = ''TESTNET'' then Inr (en_bybit_testnet E)
                else Inl (RuntimeError ''BYBIT_TESTNET_OR_DEMO_REQUIRED'')) (\<lambda>base.
         case (bp_api_key_encrypted p, bp_api_secret_encrypted p) of
           (Some k, Some s) \<Rightarrow> bindE (en_decrypt E k) (\<lambda>key. bindE (en_decrypt E s) (\<lambda>_.
              Inr \<lparr>by_api_key = key, by_base = rstrip_slash base\<rparr>))
         | _ \<Rightarrow> Inl AttributeError))"

definition slots_payload :: "slots \<Rightarrow> pydict" where
  "slots_payload s = [(''count'', PInt (int (sl_count s))), (''quantity_dust_symbols'', PList (map PStr (sl_dust s))),
     (''unverified_symbols'', PList (map PStr (sl_unverified s)))]"

definition cached_slots :: "env \<Rightarrow> bybit_client \<Rightarrow> nat \<Rightarrow> (ready_local, slots) act" where
  "cached_slots E c profile_id =
     bindL (getL (\<lambda>l. map_of (lo_slots l) profile_id)) (\<lambda>known. case known of
       Some s \<Rightarrow> retL s
     | None \<Rightarrow>
         bindL (doL (getP (\<lambda>w. filter (\<lambda>i. iv_broker_profile_id i = profile_id \<and> dust < iv_managed_quantity i) (db_inventories (w_db w))))) (\<lambda>rows.
         bindL (doL (managed_position_slots E c rows)) (\<lambda>s.
           seqL (modL (\<lambda>l. l\<lparr>lo_slots := (profile_id, s) # lo_slots l\<rparr>)) (retL s))))"

definition first_account :: "pydict \<Rightarrow> pydict res" where
  \<comment> \<open>\<open>(wallet.get('list') or [{}])[0]\<close>\<close>
  "first_account wallet = bindE (index_of (py_or (dget wallet ''list'') (PList [PDict []])) 0) as_dict"

definition bybit_view :: "env \<Rightarrow> symbol_strategy \<Rightarrow> broker_profile \<Rightarrow> string \<Rightarrow> (ready_local, market_view) act" where
  "bybit_view E cfg p timeframe =
     bindL (doL (get_candles E (ss_symbol cfg) timeframe ''spot'' 201)) (\<lambda>raw.
     bindL (doL (now_ms E)) (\<lambda>now.
     bindL (liftL (completed_trading_candles raw timeframe now 200)) (\<lambda>candles.
     bindL (liftL (generate_signal candles timeframe (str_upper (if ss_market cfg = [] then ''CRYPTO'' else ss_market cfg)))) (\<lambda>signal.
     bindL (liftL (spot_client E p)) (\<lambda>c.
     bindL (doL (bindP (by_wallet E c) (\<lambda>x. liftP (as_dict x)))) (\<lambda>wallet.
     bindL (liftL (first_account wallet)) (\<lambda>account.
     bindL (liftL (float_or0 (py_or (dget account ''totalEquity'') (dget account ''totalWalletBalance'')))) (\<lambda>equity.
     bindL (liftL (bybit_spot_available wallet ''USDT'')) (\<lambda>available.
     bindL (liftL (spot_holdings_from_wallet wallet)) (\<lambda>holdings.
     bindL (liftL (mapE (\<lambda>h. float_or0 (dget h ''usd_value'')) holdings)) (\<lambda>values.
     bindL (cached_slots E c (bp_id p)) (\<lambda>s.
     seqL (set_base ''managed_position_slots'' (PDict (slots_payload s)))
    (bindL (doL (getP (\<lambda>w. find (\<lambda>i. iv_broker_profile_id i = bp_id p \<and> iv_symbol i = str_upper (ss_symbol cfg)) (db_inventories (w_db w))))) (\<lambda>managed.
     let quantity = (case managed of Some i \<Rightarrow> iv_managed_quantity i | None \<Rightarrow> 0)
     in bindL (doL (get_tickers E ''spot'' [ss_symbol cfg])) (\<lambda>tickers.
        seqL (set_base ''product'' (PStr ''SPOT''))
       (seqL (set_base ''managed_inventory'' (PFloat quantity))
         (retL ((view_of candles signal equity available (case tickers of t # _ \<Rightarrow> tk_last_price t | [] \<Rightarrow> 0) (int (sl_count s))
                  (pysum values) quantity)\<lparr>mv_slots := s\<rparr>))))))))))))))))))"

definition symbol_rows :: "string \<Rightarrow> pydict list \<Rightarrow> pydict list" where
  "symbol_rows symbol = filter (\<lambda>p. upper_or_empty (dget p ''symbol'') = str_upper symbol)"

definition subscriptable_rows :: "pyval list \<Rightarrow> pydict list res" where
  \<comment> \<open>rows read by subscripts\<close>
  "subscriptable_rows = mapE (\<lambda>v. case v of PDict d \<Rightarrow> Inr d | _ \<Rightarrow> Inl TypeError)"

definition mt5_view :: "env \<Rightarrow> symbol_strategy \<Rightarrow> broker_profile \<Rightarrow> string \<Rightarrow> (ready_local, market_view) act" where
  "mt5_view E cfg p timeframe =
     bindL (liftL (bindE (secret_of E p) (\<lambda>c. bridge_base c ''http://host.docker.internal:8765''))) (\<lambda>base.
     bindL (doL (bindP (mt_candles E base (ss_symbol cfg) timeframe 200) (\<lambda>d. liftP (bindE (strict_rows d) subscriptable_rows)))) (\<lambda>candles.
     bindL (liftL (generate_signal candles timeframe (str_upper (if ss_market cfg = [] then ''CRYPTO'' else ss_market cfg)))) (\<lambda>signal.
     bindL (doL (bindP (mt_account E base) (\<lambda>d. liftP (as_dict d)))) (\<lambda>acct.
     bindL (doL (bindP (mt_request E base (Get ''/positions'' [])) (\<lambda>d. liftP (bindE (strict_rows d) (mapE as_dict))))) (\<lambda>positions.
     bindL (liftL (float_or0 (dget acct ''equity''))) (\<lambda>equity.
     bindL (liftL (py_float (py_or (dget acct ''margin_free'') (PFloat equity)))) (\<lambda>available.
     bindL (liftL (mapE position_notional positions)) (\<lambda>notionals.
     bindL (liftL (mapE (\<lambda>x. float_or0 (py_or (dget x ''volume'') (dget x ''quantity''))) (symbol_rows (ss_symbol cfg) positions))) (\<lambda>quantities.
     bindL (doL (bindP (mt_symbol E base (ss_symbol cfg)) (\<lambda>d. liftP (as_dict d)))) (\<lambda>info.
     bindL (liftL (if gs_decision signal = ''BUY'' then py_float (dget info ''ask'') else float_or0 (dget info ''bid''))) (\<lambda>price.
     bindL (liftL (py_float (py_or (dget info ''trade_contract_size'') (PInt 100000)))) (\<lambda>contract.
       retL ((view_of candles signal equity available price (int (length positions)) (pysum notionals) (pysum quantities))
               \<lparr>mv_contract_size := contract, mv_info := info\<rparr>)))))))))))))"

definition paper_mode :: "env \<Rightarrow> ibkr_client \<Rightarrow> string \<Rightarrow> bool prog" where
  \<comment> \<open>\<open>delayed_paper_mode\<close> reads the health itself when it needs it\<close>
  "paper_mode E c environment =
     (let s = en_settings E
      in if \<not> ibkr_paper_delayed_data_enabled s \<or> str_upper environment \<noteq> ''PAPER'' \<or> allow_live_trading s then retP False
         else bindP (bindP (ib_health E c) (\<lambda>h. liftP (as_dict h))) (\<lambda>h. liftP (delayed_paper_mode s environment (Inr h))))"

definition held_rows :: "pyval \<Rightarrow> pydict list res" where
  \<comment> \<open>the positions with a quantity other than zero\<close>
  "held_rows d = bindE (bindE (strict_rows d) (mapE as_dict)) (filterE (\<lambda>p. bindE (float_or0 (dget p ''quantity'')) (\<lambda>q. Inr (\<not> feq q 0))))"

definition quality_base :: "pyval list \<Rightarrow> pyval" where
  "quality_base qs = PDict (zip [''candles'', ''quote''] qs)"

definition ibkr_view :: "env \<Rightarrow> symbol_strategy \<Rightarrow> broker_profile \<Rightarrow> string \<Rightarrow> (ready_local, market_view) act" where
  "ibkr_view E cfg p timeframe =
     bindL (liftL (bindE (secret_of E p) ibkr_client_of)) (\<lambda>c.
     bindL (doL (paper_mode E c (bp_environment p))) (\<lambda>delayed.
     bindL (doL (bindP (ib_candles E c (ss_symbol cfg) timeframe 201) (\<lambda>d. liftP (as_dict d)))) (\<lambda>payload.
     bindL (doL (now_ms E)) (\<lambda>now.
     bindL (liftL (completed_ibkr_candles payload timeframe now)) (\<lambda>candles.
     bindL (liftL (entry_candle_quality candles timeframe now delayed)) (\<lambda>q.
     seqL (set_base ''market_data_quality'' (quality_base [candle_payload q]))
    (bindL (liftL (case cq_reason q of Some r \<Rightarrow> Inl (ValueError r) | None \<Rightarrow> Inr ())) (\<lambda>_.
     bindL (liftL (generate_signal candles timeframe (str_upper (if ss_market cfg = [] then ''CRYPTO'' else ss_market cfg)))) (\<lambda>signal.
     bindL (doL (bindP (ib_account E c) (\<lambda>d. liftP (as_dict d)))) (\<lambda>acct.
     bindL (doL (bindP (ib_get E c ''/positions'' []) (\<lambda>d. liftP (held_rows d)))) (\<lambda>positions.
     bindL (liftL (float_or0 (dget acct ''equity''))) (\<lambda>equity.
     bindL (liftL (py_float (py_or (dget acct ''available'') (py_or (dget acct ''cash'') (PFloat equity))))) (\<lambda>available.
     bindL (liftL (mapE position_notional positions)) (\<lambda>notionals.
     bindL (liftL (mapE (\<lambda>x. float_or0 (dget x ''quantity'')) (symbol_rows (ss_symbol cfg) positions))) (\<lambda>quantities.
     bindL (if delayed
            then bindL (liftL (delayed_reference candles timeframe now)) (\<lambda>dq. retL (delayed_quote_dict dq, delayed_evidence dq, None))
            else bindL (doL (bindP (ib_quote E c (ss_symbol cfg)) (\<lambda>d. liftP (as_dict d)))) (\<lambda>quote.
                 bindL (doL (now_ms E)) (\<lambda>later. let qq = ibkr_entry_quote_quality quote (gs_decision signal) later
                   in retL (quote, quote_payload qq, qq_reason qq)))) (\<lambda>(quote, evidence, reason).
     seqL (set_base ''market_data_quality'' (quality_base [candle_payload q, evidence]))
    (bindL (liftL (case reason of Some r \<Rightarrow> Inl (ValueError r) | None \<Rightarrow> Inr ())) (\<lambda>_.
     bindL (liftL (ibkr_quote_price quote (gs_decision signal))) (\<lambda>price.
       retL (view_of candles signal equity available price (int (length positions)) (pysum notionals) (pysum quantities)))))))))))))))))))))"

section \<open>One row\<close>

definition outcome_row :: "pydict \<Rightarrow> string \<Rightarrow> string \<Rightarrow> pydict" where
  \<comment> \<open>\<open>{**base, "readiness": r, "reason": reason}\<close>\<close>
  "outcome_row base readiness reason = dset ''reason'' (PStr reason) (dset ''readiness'' (PStr readiness) base)"

definition box_payload :: "darvas \<Rightarrow> pydict" where
  "box_payload b = (if dv_reason b = ''INSUFFICIENT_DATA''
     then [(''valid'', PBool False), (''reason'', PStr (dv_reason b)), (''breakout'', PStr (dv_breakout b))]
     else [(''valid'', PBool (dv_valid b)), (''reason'', PStr (dv_reason b)), (''top'', opt_val PFloat (dv_top b)),
           (''bottom'', opt_val PFloat (dv_bottom b)), (''width_pct'', opt_val PFloat (dv_width_pct b)), (''breakout'', PStr (dv_breakout b)),
           (''volume_ratio'', opt_val PFloat (dv_volume_ratio b)), (''volume_confirmed'', PBool (dv_volume_confirmed b)), (''lookback'', PInt 20)])"

definition route_payload :: "strategy_route \<Rightarrow> pydict" where
  \<comment> \<open>the dictionary \<open>route_strategy\<close> returns\<close>
  "route_payload r =
     [(''regime'', PStr (sr_regime r)), (''strategy'', PStr (sr_strategy r)), (''confidence'', PFloat (sr_confidence r)),
      (''eligible'', PList (map PStr (sr_eligible r))), (''reasons'', PList (map PStr (sr_reasons r))),
      (''executable'', PBool (sr_executable r)), (''mode'', PStr (sr_mode r))]
     @ (case sr_trend_pct r of None \<Rightarrow> [(''box'', PDict (box_payload (sr_box r)))]
        | Some t \<Rightarrow> [(''metrics'', PDict [(''trend_pct'', PFloat t), (''volatility_pct'', opt_val PFloat (sr_volatility_pct r))]),
             (''box'', PDict (box_payload (sr_box r))), (''safety'', PStr ''Routing is advisory and cannot submit or authorize an order.'')])"

definition candle_integrity :: "pydict list \<Rightarrow> string \<Rightarrow> pyval res" where
  "candle_integrity candles timeframe =
     (if candles = [] then Inl IndexError
      else bindE (dsub (last candles) ''timestamp_ms'') (\<lambda>stamp.
        case map_of INTERVAL_MS timeframe of
          None \<Rightarrow> Inl KeyError
        | Some duration \<Rightarrow>
            (case stamp of
               PInt t \<Rightarrow> Inr (PDict [(''policy'', PStr ''COMPLETED_TIMESTAMPED_CANDLES''), (''timeframe'', PStr timeframe),
                 (''count'', PInt (int (length candles))), (''last_timestamp_ms'', stamp),
                 (''last_end_ms'', dget_or (last candles) ''bar_end_ms'' (PInt (t + duration)))])
             | _ \<Rightarrow> Inl TypeError)))"

definition positions_full :: "int \<Rightarrow> risk_profile \<Rightarrow> bool res" where
  "positions_full existing risk = (case rp_max_open_positions risk of None \<Rightarrow> Inl TypeError | Some m \<Rightarrow> Inr (m \<le> existing))"

definition exposure_blockers :: "string \<Rightarrow> symbol_strategy \<Rightarrow> risk_profile \<Rightarrow> market_view \<Rightarrow> string list res" where
  \<comment> \<open>existing exposure against the decision\<close>
  "exposure_blockers provider cfg risk v =
     (let decision = gs_decision (mv_signal v)
      in if provider = ''BYBIT''
         then (if decision = ''BUY''
               then bindE (positions_full (mv_positions v) risk) (\<lambda>full.
                 Inr ((if full then [''MAX_OPEN_POSITIONS_REACHED''] else [])
                    @ (if managed_buy_is_blocked (ss_symbol cfg) (mv_quantity v) (mv_slots v) then [''ATLAS_MANAGED_POSITION_ALREADY_OPEN''] else [])))
               else Inr (if decision = ''SELL'' \<and> mv_quantity v \<le> dust then [''NO_ATLAS_MANAGED_INVENTORY''] else []))
         else bindE (positions_full (mv_positions v) risk) (\<lambda>full.
                Inr ((if full then [''MAX_OPEN_POSITIONS_REACHED''] else [])
                   @ (if \<not> feq (mv_quantity v) 0 then [''SYMBOL_ALREADY_HAS_POSITION''] else []))))"

definition plan_of :: "market_view \<Rightarrow> entry_params \<Rightarrow> pyfloat \<Rightarrow> pyfloat \<Rightarrow> pyfloat option \<Rightarrow> execution_plan res" where
  \<comment> \<open>\<open>build_execution_plan\<close> on parameters of which some may be missing\<close>
  "plan_of v p equity available measured =
     (let decision = gs_decision (mv_signal v); price = mv_price v; bad = Inl (ValueError ''invalid strategy sizing parameters'')
      in if decision \<notin> set [''BUY'', ''SELL''] \<or> price \<le> 0 \<or> equity \<le> 0 \<or> available \<le> 0
         then build_execution_plan decision price equity available (pp_risk_pct p) measured 1 1 1
         else case pp_stop p of None \<Rightarrow> Inl TypeError | Some stop \<Rightarrow> if stop \<le> 0 then bad else
              (case pp_rr p of None \<Rightarrow> Inl TypeError | Some rr \<Rightarrow> if rr \<le> 0 then bad else
              (case pp_max_pos p of None \<Rightarrow> Inl TypeError
               | Some m \<Rightarrow> build_execution_plan decision price equity available (pp_risk_pct p) measured stop rr m)))"

definition reserved_of :: "nat \<Rightarrow> ready_local \<Rightarrow> pyfloat \<times> int" where
  \<comment> \<open>\<open>portfolio_reservations.setdefault(...)\<close>\<close>
  "reserved_of profile_id l = (case map_of (lo_reserved l) profile_id of Some r \<Rightarrow> r | None \<Rightarrow> (0, 0))"

definition reserve_capital :: "nat \<Rightarrow> pyfloat \<Rightarrow> ready_local \<Rightarrow> ready_local" where
  "reserve_capital profile_id notional l =
     (let (n, k) = reserved_of profile_id l in l\<lparr>lo_reserved := (profile_id, n + notional, k + 1) # lo_reserved l\<rparr>)"

definition guarded_reservation ::
    "nat \<Rightarrow> market_view \<Rightarrow> pyfloat \<Rightarrow> string list \<Rightarrow> (ready_local, string list) act" where
  \<comment> \<open>the balance and portfolio checks; an order without blockers reserves its notional and a position\<close>
  "guarded_reservation profile_id v notional blockers =
     bindL (getL (reserved_of profile_id)) (\<lambda>(n, k).
       let all = blockers @ (if mv_available v < notional then [''INSUFFICIENT_AVAILABLE_BALANCE''] else [])
                 @ portfolio_guard (mv_equity v) (mv_positions v) (mv_gross v) n k notional
       in seqL (if all = [] then modL (reserve_capital profile_id notional) else retL ()) (retL all))"

definition base_proposal :: "broker_profile \<Rightarrow> market_view \<Rightarrow> execution_plan \<Rightarrow> pyfloat \<Rightarrow> string \<Rightarrow> pydict" where
  "base_proposal p v plan equity basis =
     [(''side'', PStr (pl_side plan)), (''price'', PFloat (mv_price v)), (''notional'', PFloat (pl_notional plan)),
      (''quantity'', PFloat (pl_quantity plan)), (''stop_loss'', PFloat (pl_stop_loss plan)), (''take_profit'', PFloat (pl_take_profit plan)),
      (''sizing_capital_usd'', PFloat equity), (''capital_basis'', PStr basis),
      (''simulation_capital_override_usd'', opt_val PFloat (bp_simulation_capital_override_usd p)),
      (''max_risk_usd'', PFloat (pl_risk_amount plan))]"

definition propose_order ::
    "env \<Rightarrow> broker_profile \<Rightarrow> market_view \<Rightarrow> execution_plan \<Rightarrow> pydict \<Rightarrow> string list \<Rightarrow> (ready_local, pydict \<times> string list \<times> pyfloat) act" where
  \<comment> \<open>the provider's sizing: the proposal, the blockers and the effective notional\<close>
  "propose_order E p v plan proposed blockers =
     (let notional = pl_notional plan; price = mv_price v; profile_id = bp_id p
      in if bp_provider p = ''BYBIT''
         then (if gs_decision (mv_signal v) = ''SELL'' \<and> dust < mv_quantity v
               then let n = mv_quantity v * price
                    in retL (dmerge proposed [(''quantity'', PFloat (mv_quantity v)), (''notional'', PFloat n),
                               (''sizing_policy'', PStr ''CLOSE_ATLAS_MANAGED_SPOT_INVENTORY'')], blockers, n)
               else bindL (guarded_reservation profile_id v notional blockers) (\<lambda>bs.
                      retL (dset ''sizing_policy'' (PStr ''ATLAS_MANAGED_SPOT_INVENTORY'') proposed, bs, notional)))
         else if bp_provider p = ''MT5''
         then bindL (liftL (bindE (fdiv (pl_quantity plan) (mv_contract_size v)) (\<lambda>q. round_volume q (mv_info v)))) (\<lambda>volume.
              bindL (guarded_reservation profile_id v notional blockers) (\<lambda>bs.
                retL (dset ''volume'' (PFloat volume) proposed, bs, notional)))
         else let strategy_shares = pymax 0 (pl_quantity plan); fractional = ibkr_fractional_api_enabled (en_settings E)
              in bindL (liftL (size_ibkr_entry (PFloat strategy_shares) fractional)) (\<lambda>entry.
                 bindL (liftL (sized_shares (PFloat strategy_shares) fractional)) (\<lambda>shares.
                   let n = shares * price;
                       below = (if shares \<le> 0 then [if fractional then ''IBKR_QUANTITY_BELOW_MINIMUM_FRACTIONAL_SHARE'' else ''IBKR_QUANTITY_BELOW_ONE_SHARE''] else [])
                   in bindL (guarded_reservation profile_id v n (blockers @ below)) (\<lambda>bs.
                        retL (dmerge (dmerge (dset ''strategy_requested_shares'' (PFloat strategy_shares) proposed) entry) [(''notional'', PFloat n)], bs, n)))))"

definition size_order ::
    "env \<Rightarrow> broker_profile \<Rightarrow> entry_params \<Rightarrow> market_view \<Rightarrow> string list \<Rightarrow> (ready_local, pydict \<times> string list \<times> pyfloat) act" where
  \<comment> \<open>capital basis, plan and proposal of an approved signal with a price\<close>
  "size_order E p params v blockers =
     bindL (liftL (capital_sizing_inputs (PFloat (mv_equity v)) (PFloat (mv_available v)) (PStr (bp_environment p))
              (opt_val PFloat (bp_simulation_capital_override_usd p)))) (\<lambda>(equity, available, basis).
     bindL (if bp_provider p = ''IBKR''
            then bindL (liftL (sizing_atr (en_settings E) (bp_environment p) (mv_candles v))) (\<lambda>(measured, evidence).
                 bindL (getL (\<lambda>l. case dget (lo_base l) ''strategy_snapshot'' of PDict d \<Rightarrow> d | _ \<Rightarrow> [])) (\<lambda>snap.
                   seqL (set_base ''strategy_snapshot'' (PDict (dset ''protection_sizing'' (PDict evidence) snap))) (retL measured)))
            else retL None) (\<lambda>measured.
     bindL (liftL (plan_of v params equity available measured)) (\<lambda>plan.
       propose_order E p v plan (base_proposal p v plan equity basis) blockers)))"

definition row_portfolio :: "market_view \<Rightarrow> pyfloat \<Rightarrow> pyfloat \<Rightarrow> bool \<Rightarrow> pyfloat option \<Rightarrow> pydict" where
  "row_portfolio v before after clear notional =
     [(''existing_gross_notional'', PFloat (fround 8 (mv_gross v))), (''reserved_new_notional'', PFloat (fround 8 before)),
      (''gross_exposure_limit_pct'', PFloat MAX_GROSS_EXPOSURE_PCT), (''new_position_limit'', PInt MAX_NEW_POSITIONS_PER_ACCOUNT)]
     @ (case notional of None \<Rightarrow> []
        | Some n \<Rightarrow> [(''projected_gross_notional'', PFloat (fround 8 (mv_gross v + after + (if clear then 0 else n))))])"

definition finished_row ::
    "pydict \<Rightarrow> string \<Rightarrow> market_view \<Rightarrow> string \<Rightarrow> pydict \<Rightarrow> strategy_route \<Rightarrow> pydict \<Rightarrow> pydict option \<Rightarrow> bool \<Rightarrow> string list \<Rightarrow> pydict" where
  "finished_row base timeframe v reason details route portfolio proposed ready bs =
     dmerge base
       [(''timeframe'', PStr timeframe), (''decision'', PStr (gs_decision (mv_signal v))), (''classification'', PStr (gs_classification (mv_signal v))),
        (''strength'', PFloat (gs_strength (mv_signal v))), (''signal_reason'', PStr reason),
        (''risk_details'', PDict (dset ''strategy_route'' (PDict (route_payload route)) details)),
        (''strategy_route'', PDict (route_payload route)),
        (''account'', PDict [(''equity'', PFloat (mv_equity v)), (''available'', PFloat (mv_available v)), (''open_positions'', PInt (mv_positions v))]),
        (''portfolio'', PDict portfolio), (''existing_symbol_quantity'', PFloat (mv_quantity v)),
        (''proposed_order'', opt_val PDict proposed), (''signal_ready'', PBool ready), (''execution_ready'', PBool (bs = [])),
        (''readiness'', PStr (if bs = [] then ''PASS'' else ''BLOCK'')), (''blockers'', PList (map PStr bs))]"

definition evaluate_view ::
    "env \<Rightarrow> symbol_strategy \<Rightarrow> broker_profile \<Rightarrow> risk_profile \<Rightarrow> entry_params \<Rightarrow> string \<Rightarrow> market_view \<Rightarrow> (ready_local, pydict) act" where
  \<comment> \<open>signal, risk, router, exposure and portfolio: the finished row\<close>
  "evaluate_view E cfg p risk params timeframe v =
     seqL (if bp_provider p \<in> set [''BYBIT'', ''IBKR'']
           then bindL (liftL (candle_integrity (mv_candles v) timeframe)) (set_base ''candle_integrity'') else retL ())
    (let (approved, reason, details) = evaluate_risk (mv_signal v) (pp_minimum params) (bp_is_enabled p) False (bp_environment p);
         ready = (approved \<and> 0 < mv_price v)
     in bindL (liftL (route_strategy (mv_candles v) None (fl 60))) (\<lambda>route.
        bindL (liftL (exposure_blockers (bp_provider p) cfg risk v)) (\<lambda>exposure.
        bindL (getL (\<lambda>l. fst (reserved_of (bp_id p) l))) (\<lambda>before.
        let blockers = provider_execution_blockers p @ (case router_blocker route (gs_decision (mv_signal v)) of Some b \<Rightarrow> [b] | None \<Rightarrow> [])
                       @ (if approved then [] else [reason]) @ exposure
        in bindL (if ready then bindL (size_order E p params v blockers) (\<lambda>(d, bs, n). retL (Some d, bs, Some n)) else retL (None, blockers, None)) (\<lambda>(proposed, bs, notional).
           bindL (getL (\<lambda>l. (fst (reserved_of (bp_id p) l), lo_base l))) (\<lambda>(after, base).
             retL (finished_row base timeframe v reason details route (row_portfolio v before after (bs = []) notional) proposed ready bs)))))))"

definition ready_body ::
    "env \<Rightarrow> symbol_strategy \<Rightarrow> broker_profile \<Rightarrow> strategy_profile \<Rightarrow> risk_profile \<Rightarrow> (ready_local, pydict) act" where
  \<comment> \<open>the \<open>try\<close> block of a row\<close>
  "ready_body E cfg p def risk =
     bindL (liftL (resolve_params cfg def risk)) (\<lambda>params.
     let timeframe = or_else (pp_timeframe params) []
     in seqL (set_base ''strategy_snapshot'' (PDict (strategy_snapshot cfg params)))
       (if bp_provider p = ''BYBIT'' then bindL (bybit_view E cfg p timeframe) (evaluate_view E cfg p risk params timeframe)
        else if bp_provider p = ''MT5'' then bindL (mt5_view E cfg p timeframe) (evaluate_view E cfg p risk params timeframe)
        else if bp_provider p = ''IBKR'' then bindL (ibkr_view E cfg p timeframe) (evaluate_view E cfg p risk params timeframe)
        else bindL (getL lo_base) (\<lambda>base. retL (outcome_row base ''BLOCK'' ''UNSUPPORTED_PROVIDER''))))"

section \<open>All rows\<close>

definition load_strategies :: "(symbol_strategy \<Rightarrow> bool) \<Rightarrow> symbol_strategy list prog" where
  \<comment> \<open>\<open>db.scalars(select(SymbolStrategy).where(...)).all()\<close>\<close>
  "load_strategies q = bindP (getP (\<lambda>w. filter q (db_strategies (w_db w)))) (\<lambda>rows.
     foldP (\<lambda>out row. bindP (load_strategy row) (\<lambda>s. retP (out @ [s]))) [] rows)"

definition load_profiles :: "nat \<Rightarrow> broker_profile list prog" where
  \<comment> \<open>the profiles of a user, as session objects\<close>
  "load_profiles user_id = bindP (getP (\<lambda>w. filter (\<lambda>p. bp_user_id p = user_id) (db_profiles (w_db w)))) (\<lambda>rows.
     foldP (\<lambda>out row. bindP (load_profile row) (\<lambda>p. retP (out @ [p]))) [] rows)"

definition failed_row :: "env \<Rightarrow> broker_profile \<Rightarrow> pydict \<Rightarrow> exn \<Rightarrow> pydict" where
  "failed_row E p base e =
     (if bp_provider p = ''IBKR'' \<and> ibkr_provider_unavailable e
      then dset ''provider_status'' (PStr ''UNAVAILABLE'') (outcome_row base ''PROVIDER_UNAVAILABLE'' ''IBKR_PROVIDER_UNAVAILABLE'')
      else outcome_row base ''BLOCK'' (error_text E e))"

definition ready_row ::
    "env \<Rightarrow> nat list \<Rightarrow> strategy_profile \<Rightarrow> risk_profile \<Rightarrow> ready_local \<times> pydict list \<Rightarrow> symbol_strategy \<Rightarrow> (ready_local \<times> pydict list) prog" where
  "ready_row E owned def risk = (\<lambda>(l, rows) cfg.
     let base = [(''market'', PStr (ss_market cfg)), (''symbol'', PStr (ss_symbol cfg)), (''mode'', PStr (ss_mode cfg)), (''execution'', PStr ''DRY_RUN'')]
     in if ss_profile_id cfg \<notin> set owned then retP (l, rows @ [outcome_row base ''BLOCK'' ''PROFILE_MISSING''])
        else bindP (get_profile (ss_profile_id cfg)) (\<lambda>loaded. case loaded of
          None \<Rightarrow> liftP (Inl SQLAlchemyError)
        | Some p \<Rightarrow>
          let base = base @ [(''provider'', PStr (bp_provider p)), (''environment'', PStr (bp_environment p))]
          in bindP (if bp_provider p = ''IBKR'' then bindP (refresh_ibkr_connection E p) (\<lambda>_. retP ()) else retP ()) (\<lambda>_.
             bindP (get_profile (ss_profile_id cfg)) (\<lambda>current. case current of
               None \<Rightarrow> liftP (Inl SQLAlchemyError)
             | Some p \<Rightarrow>
               if \<not> route_ready p then retP (l, rows @ [outcome_row base ''BLOCK'' ''ROUTE_NOT_READY''])
               else bindP (ready_body E cfg p def risk (l\<lparr>lo_base := base\<rparr>)) (\<lambda>(r, l'). case r of
                      Inr row \<Rightarrow> retP (l', rows @ [row])
                    | Inl e \<Rightarrow> if \<not> is_exception e then liftP (Inl e) else retP (l', rows @ [failed_row E p (lo_base l') e]))))))"

definition readiness_rows :: "env \<Rightarrow> nat \<Rightarrow> (nat \<times> pydict list) prog" where
  \<comment> \<open>the number of configured strategies and their rows\<close>
  "readiness_rows E user_id =
     bindP (getP (\<lambda>w. (default_risk (w_db w), default_strategy (w_db w)))) (\<lambda>(risk, def).
     bindP (load_strategies (\<lambda>s. ss_user_id s = user_id \<and> ss_enabled s)) (\<lambda>configs.
     bindP (load_profiles user_id) (\<lambda>profiles.
     bindP (foldP (ready_row E (map bp_id profiles) def risk) (\<lparr>lo_base = [], lo_slots = [], lo_reserved = []\<rparr>, [])
              (sort_key ss_market (sort_key ss_symbol configs))) (\<lambda>(_, rows).
       retP (length configs, rows)))))"

definition count_rows :: "string \<Rightarrow> string \<Rightarrow> pydict list \<Rightarrow> int" where
  \<comment> \<open>\<open>sum(x.get(key) == value for x in rows)\<close>\<close>
  "count_rows key v rows = int (length (filter (\<lambda>r. py_eq (dget r key) (PStr v)) rows))"

definition capital_policy_payload :: "pyval \<Rightarrow> pydict" where
  "capital_policy_payload override =
     [(''sizing_model'', PStr ''BROKER_EQUITY_WITH_OPTIONAL_SIMULATION_OVERRIDE''), (''simulation_capital_override_usd'', override),
      (''live_uses_broker_equity'', PBool True), (''risk_controls'', PStr ''RISK_PROFILE_AND_SYMBOL_STRATEGY_PERCENTAGES''),
      (''live_money_enabled_by_policy'', PBool False)]"

definition autotrade_readiness :: "env \<Rightarrow> nat \<Rightarrow> pydict prog" where
  "autotrade_readiness E user_id =
     bindP (readiness_rows E user_id) (\<lambda>(n, rows).
       let fractional = ibkr_fractional_api_enabled (en_settings E)
       in retP [(''execution_enabled'', PBool False), (''purpose'', PStr ''AUTO_TRADE_READINESS_DRY_RUN''),
            (''capital_sizing_policy'', PDict (capital_policy_payload PNone)),
            (''portfolio_policy'', PDict [(''max_gross_exposure_pct'', PFloat MAX_GROSS_EXPOSURE_PCT),
               (''max_new_positions_per_account'', PInt MAX_NEW_POSITIONS_PER_ACCOUNT),
               (''ibkr_paper_quantity_mode'', PStr (if fractional then ''RISK_SIZED_FRACTIONAL_SHARES'' else ''RISK_SIZED_WHOLE_SHARES'')),
               (''ibkr_paper_share_step'', PFloat (share_step fractional)), (''bybit_product'', PStr ''SPOT''),
               (''bybit_environments'', PList (map PStr [''DEMO'', ''TESTNET''])), (''bybit_sell_policy'', PStr ''ATLAS_MANAGED_INVENTORY_ONLY'')]),
            (''configured_count'', PInt (int n)), (''pass_count'', PInt (count_rows ''readiness'' ''PASS'' rows)),
            (''block_count'', PInt (count_rows ''readiness'' ''BLOCK'' rows)),
            (''provider_unavailable_count'', PInt (count_rows ''readiness'' ''PROVIDER_UNAVAILABLE'' rows)),
            (''items'', PList (map PDict rows))])"

section \<open>Readiness sends no order\<close>

lemma quiet_act [intro!]: "emits no_orders (set_base k v l)"
  unfolding set_base_def by auto

lemma quiet_write_connection [intro!]: "emits no_orders (write_connection old new)"
  unfolding write_connection_def by (intro quiet.emits_seqP quiet.emits_session quiet.emits_keep) simp

lemma quiet_connection_update [intro!]: "emits no_orders (connection_update now linked account p)"
  unfolding connection_update_def by auto

lemma quiet_read_connection [intro!]: "emits no_orders (read_connection E p)"
  unfolding read_connection_def by auto

lemma quiet_refresh [intro!]: "emits no_orders (refresh_ibkr_connection E p)"
  unfolding refresh_ibkr_connection_def Let_def
  by (intro quiet.emits_bindP quiet.emits_tryP quiet_read_connection quiet.emits_retP quiet.emits_getP quiet.emits_sum
        quiet.emits_seqP quiet_write_connection quiet.emits_prod quiet_connection_update)

lemma quiet_cached_slots [intro!]: "emits no_orders (cached_slots E c i l)"
  unfolding cached_slots_def by auto

lemma quiet_now_ms [intro!]: "emits no_orders (now_ms E)"
  unfolding now_ms_def by auto

lemma quiet_bybit_view [intro!]: "emits no_orders (bybit_view E cfg p t l)"
  unfolding bybit_view_def Let_def by (intro quiet.emits_bindL quiet.emits_liftL quiet.emits_doL quiet.emits_seqL quiet_market_reads quiet_now_ms
     quiet.emits_bindP quiet_by_reads quiet.emits_liftP quiet_cached_slots quiet_act quiet.emits_getP)

lemma quiet_mt5_view [intro!]: "emits no_orders (mt5_view E cfg p t l)"
  unfolding mt5_view_def Let_def by (intro quiet.emits_bindL quiet.emits_liftL quiet.emits_doL quiet.emits_seqL quiet_mt_reads quiet_mt_get
     quiet.emits_bindP quiet.emits_liftP)

lemma quiet_paper_mode [intro!]: "emits no_orders (paper_mode E c environment)"
  unfolding paper_mode_def Let_def by auto

lemma quiet_ibkr_view [intro!]: "emits no_orders (ibkr_view E cfg p t l)"
  unfolding ibkr_view_def Let_def by (intro quiet.emits_bindL quiet.emits_liftL quiet.emits_doL quiet.emits_seqL quiet_ib_reads quiet_ib_account quiet_ib_get
     quiet_now_ms quiet_paper_mode quiet.emits_bindP quiet.emits_liftP quiet_act quiet.emits_ifL quiet.emits_prodL)

lemma quiet_guarded_reservation [intro!]: "emits no_orders (guarded_reservation i v n bs l)"
  unfolding guarded_reservation_def Let_def by auto

lemma quiet_propose [intro!]: "emits no_orders (propose_order E p v plan proposed bs l)"
  unfolding propose_order_def Let_def
  by (intro quiet.emits_ifL quiet.emits_bindL quiet.emits_liftL quiet_guarded_reservation)

lemma quiet_size_order [intro!]: "emits no_orders (size_order E p params v bs l)"
  unfolding size_order_def
  by (intro quiet.emits_prodL quiet.emits_ifL quiet.emits_bindL quiet.emits_seqL quiet.emits_liftL quiet_propose quiet_act)

lemma quiet_evaluate [intro!]: "emits no_orders (evaluate_view E cfg p risk params t v l)"
  unfolding evaluate_view_def Let_def split_beta
  by (intro quiet.emits_ifL quiet.emits_bindL quiet.emits_seqL quiet.emits_liftL quiet_size_order quiet_act)

lemma quiet_ready_body [intro!]: "emits no_orders (ready_body E cfg p def risk l)"
  unfolding ready_body_def Let_def
  by (intro quiet.emits_ifL quiet.emits_bindL quiet.emits_seqL quiet.emits_liftL quiet_evaluate quiet_act
        quiet_bybit_view quiet_mt5_view quiet_ibkr_view)

lemma quiet_ready_row [intro!]: "emits no_orders (ready_row E owned def risk st cfg)"
  unfolding ready_row_def Let_def
  by (intro quiet.emits_prodL quiet.emits_if quiet.emits_bindP quiet.emits_option quiet.emits_session quiet.emits_liftP quiet.emits_retP
        quiet.emits_prod quiet.emits_sum quiet_refresh quiet_ready_body)

lemma quiet_load_rows [intro!]: "emits no_orders (load_strategies q)" "emits no_orders (load_profiles user_id)"
  unfolding load_strategies_def load_profiles_def by auto

lemma quiet_readiness_rows [intro!]: "emits no_orders (readiness_rows E user_id)"
  unfolding readiness_rows_def
  by (intro quiet.emits_bindP quiet.emits_prod quiet.emits_getP quiet_load_rows quiet.emits_foldP quiet_ready_row quiet.emits_retP)

lemma quiet_readiness [intro!]: "emits no_orders (autotrade_readiness E user_id)"
  unfolding autotrade_readiness_def Let_def by auto

end
