(* ===== verification/Preflight.thy ===== *)
theory Preflight
  imports Readiness
begin

text \<open>
  \<open>app/services/autotrade_preflight.py\<close>: the broker's own check of every ready row, without an order. A row
  that is not ready is skipped with its reason, the others get the broker's answer.
\<close>

section \<open>Reasons and attribution\<close>

definition truth_values :: "pydict \<Rightarrow> pyval list" where
  \<comment> \<open>the keys with a true value\<close>
  "truth_values d = map (\<lambda>(k, _). PStr k) (filter (\<lambda>(_, v). truth v) d)"

definition readiness_reason :: "pydict \<Rightarrow> string res" where
  "readiness_reason row =
     bindE (case py_or (dget row ''blockers'') (PList []) of
              PStr s \<Rightarrow> Inr (if s = [] then [] else [PStr s])
            | PDict d \<Rightarrow> Inr (truth_values d)
            | v \<Rightarrow> as_list v) (\<lambda>blockers.
       let texts = map py_str (filter truth blockers)
       in Inr (if texts \<noteq> [] then join ''|'' texts
               else let reason = py_or (dget row ''reason'') (dget row ''signal_reason'')
                    in if truth reason then py_str reason else ''READINESS_BLOCKED''))"

definition mt5_check_ok :: "pydict \<Rightarrow> bool res" where
  "mt5_check_ok result =
     bindE (sub_dict result ''result'') (\<lambda>payload.
       tryE (bindE (py_int (dget payload ''retcode'')) (\<lambda>code. Inr (code = 0 \<or> code = 10009))) is_type_or_value (\<lambda>_. Inr False))"

definition preflight_client :: "env \<Rightarrow> broker_profile \<Rightarrow> bybit_client res" where
  "preflight_client E p =
     (let environment = str_upper (bp_environment p)
      in bindE (if environment = ''TESTNET'' then Inr (en_bybit_testnet E) else if environment = ''DEMO'' then Inr (en_bybit_demo E)
                else Inl (RuntimeError ''BYBIT_TESTNET_OR_DEMO_REQUIRED'')) (\<lambda>base.
         if bp_api_key_encrypted p \<in> {None, Some []} \<or> bp_api_secret_encrypted p \<in> {None, Some []}
         then Inl (RuntimeError ''BYBIT_CREDENTIALS_MISSING'')
         else bindE (en_decrypt E (the (bp_api_key_encrypted p))) (\<lambda>key. bindE (en_decrypt E (the (bp_api_secret_encrypted p))) (\<lambda>_.
                Inr \<lparr>by_api_key = key, by_base = rstrip_slash base\<rparr>))))"

definition attribution_keys :: "string list" where
  "attribution_keys = [''strategy_snapshot'', ''strategy_route'', ''timeframe'', ''decision'', ''classification'', ''strength'',
     ''signal_reason'', ''candle_integrity'', ''market_data_quality'']"

definition preflight_base :: "pydict \<Rightarrow> pydict" where
  "preflight_base row =
     map (\<lambda>k. (k, dget row k)) [''market'', ''symbol'', ''provider'', ''environment'', ''product'', ''readiness''] @ [(''execution'', PStr ''NONE'')]
     @ map (\<lambda>k. (k, dget row k)) (filter (\<lambda>k. has_key k row) attribution_keys)
     @ (if dget row ''managed_position_slots'' \<noteq> PNone then [(''managed_position_slots'', dget row ''managed_position_slots'')] else [])"

definition preflight_outcome :: "string \<Rightarrow> string \<Rightarrow> pydict \<Rightarrow> pydict" where
  "preflight_outcome verdict reason base = base @ [(''preflight'', PStr verdict), (''reason'', PStr reason)]"

section \<open>One row\<close>

datatype broker_check =
    Refused string pydict            \<comment> \<open>blocked before the broker is asked, with further entries\<close>
  | Answered bool pydict pyval       \<comment> \<open>the broker's verdict, its answer, and the certified shares\<close>

definition readable_quantity :: "pyval \<Rightarrow> pyfloat res" where
  \<comment> \<open>\<open>try: float(raw or 0) / except (TypeError, ValueError): 0.0\<close>\<close>
  "readable_quantity v = tryE (float_or0 v) is_type_or_value (\<lambda>_. Inr 0)"

definition dust_symbols :: "pydict \<Rightarrow> string list res" where
  "dust_symbols row =
     bindE (sub_dict row ''managed_position_slots'') (\<lambda>slots.
     bindE (as_list (dget_or slots ''quantity_dust_symbols'' (PList []))) (\<lambda>vs. Inr (map canonical_symbol vs)))"

definition check_bybit :: "env \<Rightarrow> broker_profile \<Rightarrow> pydict \<Rightarrow> pydict \<Rightarrow> broker_check prog" where
  "check_bybit E p row proposed =
     bindP (liftP (readable_quantity (dget proposed ''quantity''))) (\<lambda>quantity.
     let side = upper_or_empty (dget proposed ''side''); symbol = canonical_symbol (dget row ''symbol'')
     in if \<not> isfinite quantity \<or> quantity \<le> 0 then retP (Refused ''INVALID_BYBIT_SPOT_QUANTITY'' [])
        else if side \<notin> set [''BUY'', ''SELL''] then retP (Refused ''INVALID_BYBIT_SPOT_SIDE'' [])
        else bindP (liftP (dust_symbols row)) (\<lambda>dusty.
          if side = ''SELL'' \<and> symbol \<in> set dusty
          then retP (Refused ''BYBIT_MANAGED_QUANTITY_DUST'' [(''request'', PDict [(''side'', PStr side), (''quantity'', PFloat quantity)])])
          else bindP (liftP (preflight_client E p)) (\<lambda>c.
               bindP (bindP (by_spot_open_orders E c) (\<lambda>d. liftP (bindE (as_dict d) (\<lambda>m. bindE (as_list (py_or (dget m ''list'') (PList []))) (mapE as_dict))))) (\<lambda>orders.
               let pending = filter (\<lambda>o'. canonical_symbol (dget o' ''symbol'') = symbol) orders
               in retP (Answered (pending = [])
                    [(''provider'', PStr ''BYBIT''), (''environment'', PStr (bp_environment p)), (''product'', PStr ''SPOT''), (''simulation'', PBool True),
                     (''execution_certified'', PBool (bp_execution_certified p)), (''buy_certified'', PBool (bp_execution_certification_buy_passed p)),
                     (''sell_certified'', PBool (bp_execution_certification_sell_passed p)), (''open_symbol_orders'', PInt (int (length pending))),
                     (''managed_inventory'', dget_or row ''managed_inventory'' (dget_or row ''existing_symbol_quantity'' (PInt 0)))]
                    (dget proposed ''shares''))))))"

definition check_mt5 :: "env \<Rightarrow> broker_profile \<Rightarrow> pydict \<Rightarrow> pydict \<Rightarrow> broker_check prog" where
  "check_mt5 E p row proposed =
     bindP (liftP (float_or0 (dget proposed ''volume''))) (\<lambda>volume.
       if volume \<le> 0 then fails ''INVALID_MT5_VOLUME''
       else bindP (liftP (bindE (secret_of E p) (\<lambda>c. bridge_base c ''http://host.docker.internal:8765''))) (\<lambda>base.
            bindP (liftP (bindE (dsub row ''symbol'') (\<lambda>s. bindE (dsub proposed ''side'') (\<lambda>d. Inr (s, d))))) (\<lambda>(symbol, side).
            bindP (bindP (mt_order_check E base [(''symbol'', symbol), (''side'', side), (''volume'', PFloat volume),
                     (''stop_loss'', dget proposed ''stop_loss''), (''take_profit'', dget proposed ''take_profit''),
                     (''comment'', PStr ''ATLAS PREFLIGHT'')]) (\<lambda>d. liftP (as_dict d))) (\<lambda>result.
            bindP (liftP (mt5_check_ok result)) (\<lambda>ok. retP (Answered ok result (dget proposed ''shares'')))))))"

definition check_ibkr :: "env \<Rightarrow> broker_profile \<Rightarrow> pydict \<Rightarrow> pydict \<Rightarrow> broker_check prog" where
  "check_ibkr E p row proposed =
     bindP (liftP (readable_quantity (if dget proposed ''shares'' \<noteq> PNone then dget proposed ''shares'' else dget proposed ''quantity''))) (\<lambda>requested.
       if \<not> isfinite requested \<or> requested \<le> 0 then retP (Refused ''INVALID_IBKR_QUANTITY'' [])
       else bindP (liftP (normalize_ibkr_shares (PFloat requested))) (\<lambda>shares.
         if shares \<le> 0 then retP (Refused ''IBKR_QUANTITY_BELOW_MINIMUM_FRACTIONAL_SHARE'' [])
         else bindP (liftP (ibkr_quantity_is_fractional (PFloat shares))) (\<lambda>fractional.
           if fractional \<and> \<not> ibkr_fractional_api_enabled (en_settings E) then retP (Refused ''IBKR_FRACTIONAL_API_UNSUPPORTED'' [])
           else bindP (liftP (bindE (secret_of E p) ibkr_client_of)) (\<lambda>c.
                bindP (liftP (bindE (dsub row ''symbol'') (\<lambda>s. bindE (dsub proposed ''side'') (\<lambda>d. Inr (s, d))))) (\<lambda>(symbol, side).
                bindP (bindP (ib_order_check E c [(''symbol'', symbol), (''side'', side), (''quantity'', PFloat shares), (''order_type'', PStr ''MKT''),
                         (''sec_type'', PStr ''STK''), (''exchange'', PStr ''SMART''), (''currency'', PStr ''USD''), (''account_id'', ib_expected c)])
                         (\<lambda>d. liftP (as_dict d))) (\<lambda>result.
                  retP (Answered (check_passed result) result (PFloat shares))))))))"

definition preflight_request :: "pydict \<Rightarrow> pyval \<Rightarrow> pydict" where
  "preflight_request proposed shares =
     [(''reference_price'', dget proposed ''price''), (''side'', dget proposed ''side''), (''notional'', dget proposed ''notional''),
      (''quantity'', dget proposed ''quantity''), (''shares'', shares), (''strategy_requested_shares'', dget proposed ''strategy_requested_shares''),
      (''sizing_policy'', dget proposed ''sizing_policy''), (''volume'', dget proposed ''volume''), (''stop_loss'', dget proposed ''stop_loss''),
      (''take_profit'', dget proposed ''take_profit'')]"

definition rejection_of :: "string \<Rightarrow> pydict \<Rightarrow> string res" where
  "rejection_of provider result =
     (if provider = ''BYBIT'' then Inr ''SYMBOL_ALREADY_HAS_OPEN_SPOT_ORDER''
      else if provider = ''IBKR'' then ibkr_preflight_rejection_reason result else Inr ''BROKER_PREFLIGHT_REJECTED'')"

definition checked_item :: "env \<Rightarrow> broker_profile \<Rightarrow> pydict \<Rightarrow> pydict \<Rightarrow> pydict \<Rightarrow> pydict prog" where
  \<comment> \<open>the \<open>try\<close> block\<close>
  "checked_item E p row base proposed =
     bindP (if bp_provider p = ''BYBIT'' then check_bybit E p row proposed
            else if bp_provider p = ''MT5'' then check_mt5 E p row proposed
            else if bp_provider p = ''IBKR'' then check_ibkr E p row proposed
            else retP (Refused ''PROVIDER_PREFLIGHT_NOT_SUPPORTED'' [])) (\<lambda>c. case c of
       Refused reason extra \<Rightarrow> retP (preflight_outcome ''BLOCK'' reason base @ extra)
     | Answered ok result shares \<Rightarrow>
         bindP (liftP (if ok then Inr PNone else bindE (rejection_of (bp_provider p) result) (\<lambda>r. Inr (PStr r)))) (\<lambda>reason.
           retP (base @ [(''preflight'', PStr (if ok then ''PASS'' else ''BLOCK'')), (''reason'', reason),
                   (''request'', PDict (preflight_request proposed shares)), (''broker_check'', PDict result)])))"

definition preflight_item ::
    "env \<Rightarrow> symbol_strategy list \<Rightarrow> nat list \<Rightarrow> pydict \<Rightarrow> pydict prog" where
  \<comment> \<open>one row of the readiness report\<close>
  "preflight_item E configs owned row =
     (let base = preflight_base row
      in if \<not> py_eq (dget row ''readiness'') (PStr ''PASS'')
         then bindP (liftP (readiness_reason row)) (\<lambda>reason.
                retP (preflight_outcome ''SKIP'' reason base @ [(''readiness_blockers'', py_or (dget row ''blockers'') (PList [])),
                        (''readiness_reason'', dget row ''reason'')]))
         else case find (\<lambda>c. PStr (ss_market c) = dget row ''market'' \<and> PStr (ss_symbol c) = dget row ''symbol'') (rev configs) of
                None \<Rightarrow> retP (preflight_outcome ''BLOCK'' ''STRATEGY_NOT_FOUND'' base)
              | Some cfg \<Rightarrow>
                  if ss_profile_id cfg \<notin> set owned then retP (preflight_outcome ''BLOCK'' ''PROFILE_NOT_FOUND'' base)
                  else bindP (get_profile (ss_profile_id cfg)) (\<lambda>loaded. case loaded of
                         None \<Rightarrow> liftP (Inl SQLAlchemyError)
                       | Some p \<Rightarrow>
                           bindP (liftP (sub_dict row ''proposed_order'')) (\<lambda>proposed.
                             tryP (checked_item E p row base proposed) is_exception
                               (\<lambda>e. retP (preflight_outcome ''BLOCK'' (error_text E e) base)))))"

definition row_selected :: "string list \<Rightarrow> string list \<Rightarrow> pydict \<Rightarrow> bool" where
  \<comment> \<open>the filters; an empty one selects everything\<close>
  "row_selected providers markets row \<longleftrightarrow>
     (providers = [] \<or> upper_or_empty (dget row ''provider'') \<in> set providers)
   \<and> (markets = [] \<or> upper_or_empty (dget row ''market'') \<in> set markets)"

definition preflight_items :: "env \<Rightarrow> nat \<Rightarrow> string list \<Rightarrow> string list \<Rightarrow> pydict list prog" where
  "preflight_items E user_id providers markets =
     bindP (readiness_rows E user_id) (\<lambda>(_, rows).
     bindP (load_strategies (\<lambda>s. ss_user_id s = user_id)) (\<lambda>configs.
     bindP (load_profiles user_id) (\<lambda>profiles.
       foldP (\<lambda>items row. bindP (preflight_item E configs (map bp_id profiles) row) (\<lambda>item. retP (items @ [item])))
         [] (filter (row_selected (map str_upper providers) (map str_upper markets)) rows))))"

definition autotrade_preflight :: "env \<Rightarrow> nat \<Rightarrow> string list \<Rightarrow> string list \<Rightarrow> pydict prog" where
  "autotrade_preflight E user_id providers markets =
     bindP (preflight_items E user_id providers markets) (\<lambda>items. retP
       [(''execution_enabled'', PBool False), (''purpose'', PStr ''BROKER_PREFLIGHT_NO_EXECUTION''),
        (''scope'', PDict [(''providers'', PList (map PStr (sort (remdups (map str_upper providers))))),
                         (''markets'', PList (map PStr (sort (remdups (map str_upper markets)))))]),
        (''checked_count'', PInt (count_rows ''preflight'' ''PASS'' items + count_rows ''preflight'' ''BLOCK'' items)),
        (''pass_count'', PInt (count_rows ''preflight'' ''PASS'' items)), (''block_count'', PInt (count_rows ''preflight'' ''BLOCK'' items)),
        (''skip_count'', PInt (count_rows ''preflight'' ''SKIP'' items)), (''items'', PList (map PDict items))])"

section \<open>Preflight sends no order\<close>

lemma quiet_check_bybit [intro!]: "emits no_orders (check_bybit E p row proposed)"
  unfolding check_bybit_def Let_def by auto

lemma quiet_check_mt5 [intro!]: "emits no_orders (check_mt5 E p row proposed)"
  unfolding check_mt5_def Let_def by auto

lemma quiet_check_ibkr [intro!]: "emits no_orders (check_ibkr E p row proposed)"
  unfolding check_ibkr_def Let_def by auto

lemma quiet_checked_item [intro!]: "emits no_orders (checked_item E p row base proposed)"
proof -
  have "emits no_orders (case c of Refused reason extra \<Rightarrow> retP (x reason extra) | Answered ok result shares \<Rightarrow>
      bindP (liftP (y ok result)) (\<lambda>r. retP (z ok result shares r)))" for c and x :: "_ \<Rightarrow> _ \<Rightarrow> pydict" and y :: "_ \<Rightarrow> _ \<Rightarrow> pyval res" and z
    by (cases c) auto
  then show ?thesis unfolding checked_item_def by auto
qed

lemma quiet_preflight_item [intro!]: "emits no_orders (preflight_item E configs owned row)"
  unfolding preflight_item_def Let_def by auto

lemma quiet_preflight_items [intro!]: "emits no_orders (preflight_items E user_id providers markets)"
  unfolding preflight_items_def
  by (intro quiet.emits_bindP quiet_readiness_rows quiet.emits_prod quiet_load_rows quiet.emits_foldP quiet_preflight_item quiet.emits_retP)

text \<open>
  C18. Readiness and preflight never trade: whatever the brokers answer and whatever other tasks do,
  neither of them sends a request that can open, change or close a position; both say so in their reports.
\<close>

theorem preflight_sends_no_order:
  "emits no_orders (autotrade_preflight E user_id providers markets) \<and> emits no_orders (autotrade_readiness E user_id)
   \<and> returns (\<lambda>r. dget r ''execution_enabled'' = PBool False) (autotrade_preflight E user_id providers markets)
   \<and> returns (\<lambda>r. dget r ''execution_enabled'' = PBool False) (autotrade_readiness E user_id)"
proof (intro conjI)
  show "emits no_orders (autotrade_preflight E user_id providers markets)"
    unfolding autotrade_preflight_def by (intro quiet.emits_bindP quiet_preflight_items quiet.emits_retP)
  show "returns (\<lambda>r. dget r ''execution_enabled'' = PBool False) (autotrade_preflight E user_id providers markets)"
    unfolding autotrade_preflight_def by (intro returns_bindP returns_retP) simp
  show "returns (\<lambda>r. dget r ''execution_enabled'' = PBool False) (autotrade_readiness E user_id)"
    unfolding autotrade_readiness_def Let_def by (intro returns_bindP returns_prod returns_retP) simp
qed (rule quiet_readiness)

end
