(* ===== verification/Readiness_Report.thy ===== *)
theory Readiness_Report
  imports Readiness
begin

text \<open>
  What the rows of a readiness report guarantee: a row passes only for a directed signal that the risk
  rules and the strategy router accept, and at most five rows of a report that pass would open a
  position on the same broker profile, however many strategies it has.
\<close>


section \<open>Identifiers as text\<close>

lemma digit_val_char: "n < 10 \<Longrightarrow> digit_val (digit_char n) = n"
  by (simp add: digit_val_def digit_char_def ord_of_def)

lemma nat_of_show_digits: "0 \<le> n \<Longrightarrow> nat_of_digits (show_digits n) = nat n"
proof (induction n rule: show_digits.induct)
  case (1 n)
  show ?case
  proof (cases "n < 10")
    case True
    with 1(2) show ?thesis by (subst show_digits.simps) (simp add: nat_of_digits_def digit_val_char)
  next
    case False
    have "nat_of_digits (show_digits (n div 10)) = nat (n div 10)" using 1 False by simp
    moreover have "10 * nat (n div 10) + nat (n mod 10) = nat n" using 1(2)
      by (simp add: nat_add_distrib [symmetric] nat_mult_distrib [symmetric] flip: nat_numeral)
    moreover have "digit_val (digit_char (nat (n mod 10))) = nat (n mod 10)" by (rule digit_val_char) simp
    ultimately show ?thesis using False by (subst show_digits.simps) (simp add: nat_of_digits_def)
  qed
qed

lemma id_text_inject: "id_text i = id_text j \<longleftrightarrow> i = j"
proof
  assume "id_text i = id_text j"
  then have "nat_of_digits (show_digits (int i)) = nat_of_digits (show_digits (int j))" by (simp add: id_text_def show_int_def)
  then show "i = j" by (simp add: nat_of_show_digits)
qed simp

section \<open>What the providers' branches keep\<close>

definition row_frame :: "nat \<Rightarrow> pyfloat \<Rightarrow> pydict \<Rightarrow> bool" where
  \<comment> \<open>the row so far is a dry run with the snapshot of a strategy of the profile\<close>
  "row_frame i m b \<longleftrightarrow> dget b ''execution'' = PStr ''DRY_RUN''
     \<and> (\<exists>s e. dget b ''strategy_snapshot'' = PDict s \<and> dget s ''profile_id'' = PStr (id_text i)
          \<and> dget s ''effective_parameters'' = PDict e \<and> dget e ''minimum_signal_strength'' = PFloat m)"

definition framed :: "nat \<Rightarrow> pyfloat \<Rightarrow> (nat \<times> pyfloat \<times> int) list \<Rightarrow> ready_local \<Rightarrow> bool" where
  "framed i m R l \<longleftrightarrow> lo_reserved l = R \<and> row_frame i m (lo_base l)"

definition view_ok :: "market_view \<Rightarrow> bool" where
  "view_ok v \<longleftrightarrow> 0 \<le> mv_positions v \<and> gs_decision (mv_signal v) \<in> {''BUY'', ''SELL'', ''HOLD''}"

lemma keeps_set_base: "k \<notin> {''execution'', ''strategy_snapshot''} \<Longrightarrow> keepsL (framed i m R) (set_base k v) (\<lambda>_. True)"
  unfolding set_base_def by (rule keeps_modL) (auto simp: framed_def row_frame_def)

lemma keeps_cached_slots: "keepsL (framed i m R) (cached_slots E c j) (\<lambda>_. True)"
  unfolding cached_slots_def
  by (intro keeps_bindL keeps_getL keeps_option keeps_liftL keeps_doL_any keeps_seqL keeps_modL) (simp_all add: framed_def)

lemma signal_decision: "generate_signal candles timeframe market = Inr g \<Longrightarrow> gs_decision g \<in> {''BUY'', ''SELL'', ''HOLD''}"
  unfolding generate_signal_def signal_of_scenario_def Let_def by (elim bindE_InrE) (simp only: sum.inject, force)

lemma view_of_ok: "0 \<le> n \<Longrightarrow> gs_decision g \<in> {''BUY'', ''SELL'', ''HOLD''} \<Longrightarrow> view_ok (view_of cs g e a p n gr q)"
  by (simp add: view_ok_def view_of_def)

lemma keeps_signal: "keepsL P (liftL (generate_signal candles timeframe market)) (\<lambda>g. gs_decision g \<in> {''BUY'', ''SELL'', ''HOLD''})"
  by (rule keeps_liftL) (rule signal_decision)

lemma keeps_any: "keepsL P (liftL r) (\<lambda>_. True)"
  by (rule keeps_liftL) simp

lemma keeps_bybit_view: "keepsL (framed i m R) (bybit_view E cfg p timeframe) view_ok"
  unfolding bybit_view_def Let_def
  apply (rule keeps_bindL, rule keeps_doL_any)
  apply (rule keeps_bindL, rule keeps_doL_any)
  apply (rule keeps_bindL, rule keeps_any)
  apply (rule keeps_bindL_of, rule keeps_signal)
  apply ((rule keeps_bindL | rule keeps_seqL | rule keeps_doL_any | rule keeps_any | rule keeps_cached_slots | (rule keeps_set_base; simp))+)?
  by (auto intro!: keeps_liftL simp: view_ok_def view_of_def)

lemma keeps_mt5_view: "keepsL (framed i m R) (mt5_view E cfg p timeframe) view_ok"
  unfolding mt5_view_def
  apply (rule keeps_bindL, rule keeps_any)
  apply (rule keeps_bindL, rule keeps_doL_any)
  apply (rule keeps_bindL_of, rule keeps_signal)
  apply ((rule keeps_bindL | rule keeps_doL_any | rule keeps_any)+)?
  by (auto intro!: keeps_liftL simp: view_ok_def view_of_def)

lemma keeps_ibkr_view: "keepsL (framed i m R) (ibkr_view E cfg p timeframe) view_ok"
  unfolding ibkr_view_def Let_def
  apply (rule keeps_bindL, rule keeps_any)
  apply (rule keeps_bindL, rule keeps_doL_any)
  apply (rule keeps_bindL, rule keeps_doL_any)
  apply (rule keeps_bindL, rule keeps_doL_any)
  apply (rule keeps_bindL, rule keeps_any)
  apply (rule keeps_bindL, rule keeps_any)
  apply (rule keeps_seqL, (rule keeps_set_base; simp))
  apply (rule keeps_bindL, rule keeps_any)
  apply (rule keeps_bindL_of, rule keeps_signal)
  apply ((rule keeps_bindL | rule keeps_doL_any | rule keeps_any | rule keeps_if | rule keeps_prod | rule keeps_seqL | (rule keeps_set_base; simp))+)?
  by (auto intro!: keeps_liftL simp: view_ok_def view_of_def Let_def)

lemma keeps_ibkr_frame:
  "keepsL (framed i m R)
     (bindL (liftL (sizing_atr st environment candles)) (\<lambda>(measured, evidence).
        bindL (getL (\<lambda>l. case dget (lo_base l) ''strategy_snapshot'' of PDict d \<Rightarrow> d | _ \<Rightarrow> [])) (\<lambda>snap.
          seqL (set_base ''strategy_snapshot'' (PDict (dset ''protection_sizing'' (PDict evidence) snap))) (retL measured)))) (\<lambda>_. True)"
proof -
  have "holdsL (\<lambda>l. framed i m R l \<and> snap = (case dget (lo_base l) ''strategy_snapshot'' of PDict d \<Rightarrow> d | _ \<Rightarrow> []))
     (seqL (set_base ''strategy_snapshot'' (PDict (dset ''protection_sizing'' (PDict evidence) snap))) (retL measured))
     (\<lambda>r l. framed i m R l \<and> (case r of Inl _ \<Rightarrow> True | Inr x \<Rightarrow> True))" for snap evidence and measured :: "pyfloat option"
    unfolding set_base_def
    by (rule holds_seqL [where R = "\<lambda>_. framed i m R"]; (rule holds_modL | rule holds_liftL)?) (auto simp: framed_def row_frame_def split: sum.split)
  then have "keepsL (framed i m R) (bindL (getL (\<lambda>l. case dget (lo_base l) ''strategy_snapshot'' of PDict d \<Rightarrow> d | _ \<Rightarrow> [])) (\<lambda>snap.
          seqL (set_base ''strategy_snapshot'' (PDict (dset ''protection_sizing'' (PDict evidence) snap))) (retL measured))) (\<lambda>_. True)"
    for evidence and measured :: "pyfloat option"
    unfolding keepsL_def
    by (intro holds_bindL [where R = "\<lambda>r l. framed i m R l \<and> r = Inr (case dget (lo_base l) ''strategy_snapshot'' of PDict d \<Rightarrow> d | _ \<Rightarrow> [])"] holds_getL)
       auto
  then show ?thesis by (rule keeps_bindL [OF keeps_any keeps_prod])
qed

section \<open>Reservations\<close>

definition close_policy :: pyval where "close_policy = PStr ''CLOSE_ATLAS_MANAGED_SPOT_INVENTORY''"

definition opens :: "nat \<Rightarrow> pydict \<Rightarrow> bool" where
  \<comment> \<open>the row passed and would open a position on the profile\<close>
  "opens i row \<longleftrightarrow> dget row ''readiness'' = PStr ''PASS''
     \<and> (case dget row ''proposed_order'' of PDict d \<Rightarrow> dget d ''sizing_policy'' \<noteq> close_policy | _ \<Rightarrow> False)
     \<and> (case dget row ''strategy_snapshot'' of PDict s \<Rightarrow> dget s ''profile_id'' = PStr (id_text i) | _ \<Rightarrow> False)"

definition held :: "(nat \<times> pyfloat \<times> int) list \<Rightarrow> nat \<Rightarrow> pyfloat \<times> int" where
  "held R i = (case map_of R i of Some r \<Rightarrow> r | None \<Rightarrow> (0, 0))"

definition took :: "nat \<Rightarrow> pyfloat \<Rightarrow> market_view \<Rightarrow> (nat \<times> pyfloat \<times> int) list \<Rightarrow> ready_local \<Rightarrow> bool" where
  \<comment> \<open>one more position of the profile is reserved, within the limit\<close>
  "took i m v R l \<longleftrightarrow> (\<exists>n. framed i m ((i, n, snd (held R i) + 1) # R) l) \<and> mv_positions v + snd (held R i) + 1 \<le> MAX_NEW_POSITIONS_PER_ACCOUNT"

lemma portfolio_guard_clear: "portfolio_guard equity n gross r k proposed = [] \<Longrightarrow> n + k + 1 \<le> MAX_NEW_POSITIONS_PER_ACCOUNT"
  by (auto simp: portfolio_guard_def Let_def split: if_splits)

lemma holds_guarded_reservation:
  "holdsL (framed i m R) (guarded_reservation i v n bs)
     (\<lambda>r l. case r of Inl _ \<Rightarrow> framed i m R l | Inr all \<Rightarrow> (all = [] \<longrightarrow> bs = []) \<and> (framed i m R l \<and> all \<noteq> [] \<or> took i m v R l))"
  unfolding guarded_reservation_def
proof (rule holds_bindL [where R = "\<lambda>r l. framed i m R l \<and> r = Inr (held R i)"], rule holds_getL, goal_cases)
  case (2 x)
  obtain k0 k1 where x: "x = (k0, k1)" by (cases x)
  show ?case unfolding x prod.case Let_def
  proof (rule holds_seqL [where R = "\<lambda>r l. r = Inr () \<and> (if bs @ (if mv_available v < n then [''INSUFFICIENT_AVAILABLE_BALANCE''] else [])
        @ portfolio_guard (mv_equity v) (mv_positions v) (mv_gross v) k0 k1 n = [] then bs = [] \<and> took i m v R l else framed i m R l)"], goal_cases)
    case 1
    show ?case
      by (rule holds_if; rule holds_modL holds_liftL)
         (auto simp: framed_def reserve_capital_def reserved_of_def held_def took_def dest!: portfolio_guard_clear split: option.splits prod.splits)
  next
    case 2
    then show ?case by (rule holds_liftL) (auto split: if_splits)
  qed auto
qed (auto simp: framed_def reserved_of_def held_def split: option.split)

definition sized :: "nat \<Rightarrow> pyfloat \<Rightarrow> market_view \<Rightarrow> (nat \<times> pyfloat \<times> int) list \<Rightarrow> string list \<Rightarrow> (pydict \<times> string list \<times> 'a) res \<Rightarrow> ready_local \<Rightarrow> bool" where
  "sized i m v R bs r l = (case r of Inl _ \<Rightarrow> framed i m R l
     | Inr (d, bs', _) \<Rightarrow> (bs' = [] \<longrightarrow> bs = []) \<and> (framed i m R l \<and> (bs' = [] \<longrightarrow> dget d ''sizing_policy'' = close_policy) \<or> took i m v R l))"

lemma holds_reserved_proposal:
  "holdsL (framed i m R) (bindL (guarded_reservation i v n (bs @ extra)) (\<lambda>all. retL (d, all, x))) (sized i m v R bs)"
  by (rule holds_bindL [OF holds_guarded_reservation], rule holds_liftL) (auto simp: sized_def)

lemma holds_framed: "keepsL (framed i m R) k (\<lambda>_. True) \<Longrightarrow> (\<And>x. holdsL (framed i m R) (f x) (sized i m v R bs)) \<Longrightarrow> holdsL (framed i m R) (bindL k f) (sized i m v R bs)"
  unfolding keepsL_def by (rule holds_bindL) (auto simp: sized_def)

lemma holds_propose: "holdsL (framed (bp_id p) m R) (propose_order E p v plan proposed bs) (sized (bp_id p) m v R bs)"
  unfolding propose_order_def Let_def
  by ((rule holds_if | rule holds_reserved_proposal | rule holds_reserved_proposal [where extra = "[]", simplified]
        | (rule holds_framed, rule keeps_any) | (rule holds_liftL, simp add: sized_def close_policy_def))+)

lemma holds_size_order: "holdsL (framed (bp_id p) m R) (size_order E p params v bs) (sized (bp_id p) m v R bs)"
  unfolding size_order_def
  by (rule holds_framed [OF keeps_any], rule holds_prod, rule holds_prod, rule holds_framed, rule keeps_if [OF keeps_ibkr_frame keeps_any],
      rule holds_framed [OF keeps_any], rule holds_propose)

section \<open>An evaluated row\<close>

definition pass_row_sound :: "pydict \<Rightarrow> bool" where
  \<comment> \<open>a passing row has no blocker, a direction the router accepts, and the strength the snapshot asks for\<close>
  "pass_row_sound row \<longleftrightarrow> (dget row ''readiness'' = PStr ''PASS'' \<longrightarrow>
     dget row ''execution'' = PStr ''DRY_RUN'' \<and> dget row ''blockers'' = PList []
     \<and> (\<exists>d route. dget row ''decision'' = PStr d \<and> d \<in> {''BUY'', ''SELL''}
          \<and> dget row ''strategy_route'' = PDict (route_payload route) \<and> router_blocker route d = None)
     \<and> (\<exists>s e m strength. dget row ''strategy_snapshot'' = PDict s \<and> dget s ''effective_parameters'' = PDict e
          \<and> dget e ''minimum_signal_strength'' = PFloat m \<and> dget row ''strength'' = PFloat strength \<and> \<not> strength < m))"

definition evaluated :: "nat \<Rightarrow> (nat \<times> pyfloat \<times> int) list \<Rightarrow> pydict res \<Rightarrow> (nat \<times> pyfloat \<times> int) list \<Rightarrow> bool" where
  \<comment> \<open>the row is sound, and a position is reserved for it when it opens one\<close>
  "evaluated i R r R' \<longleftrightarrow> (case r of Inl _ \<Rightarrow> R' = R
     | Inr row \<Rightarrow> pass_row_sound row
         \<and> (R' = R \<and> (\<forall>j. \<not> opens j row)
            \<or> (\<exists>n. R' = (i, n, snd (held R i) + 1) # R) \<and> snd (held R i) + 1 \<le> MAX_NEW_POSITIONS_PER_ACCOUNT \<and> (\<forall>j. opens j row \<longrightarrow> j = i)))"

lemma finished_row_fields:
  "dget (finished_row base tf v reason details route portfolio proposed ready bs) k =
     (if k = ''readiness'' then PStr (if bs = [] then ''PASS'' else ''BLOCK'')
      else if k = ''blockers'' then PList (map PStr bs) else if k = ''decision'' then PStr (gs_decision (mv_signal v))
      else if k = ''strength'' then PFloat (gs_strength (mv_signal v)) else if k = ''strategy_route'' then PDict (route_payload route)
      else if k = ''proposed_order'' then opt_val PDict proposed
      else if k \<in> {''execution'', ''strategy_snapshot''} then dget base k
      else dget (finished_row base tf v reason details route portfolio proposed ready bs) k)"
  by (simp add: finished_row_def)

lemma not_opened:
  assumes "bs = [] \<longrightarrow> proposed = None \<or> (\<exists>d. proposed = Some d \<and> dget d ''sizing_policy'' = close_policy)"
  shows "\<not> opens j (finished_row base tf v reason details route portfolio proposed ready bs)"
  using assms by (auto simp: opens_def finished_row_def)

lemma opened_profile:
  assumes "row_frame i m base" and "opens j (finished_row base tf v reason details route portfolio proposed ready bs)"
  shows "j = i"
  using assms by (auto simp: opens_def finished_row_def row_frame_def id_text_inject)

lemma approved_strength:
  assumes "evaluate_risk g m enabled live environment = (True, reason, details)" and "gs_decision g \<in> {''BUY'', ''SELL'', ''HOLD''}"
  shows "gs_decision g \<in> {''BUY'', ''SELL''} \<and> \<not> gs_strength g < m"
  using assms by (auto simp: evaluate_risk_def Let_def split: if_splits)

lemma finished_row_sound:
  assumes "row_frame i m base" and "view_ok v" and "evaluate_risk (mv_signal v) m enabled live environment = (approved, reason, details)"
    and "bs = [] \<longrightarrow> approved \<and> router_blocker route (gs_decision (mv_signal v)) = None"
  shows "pass_row_sound (finished_row base tf v reason details' route portfolio proposed ready bs)"
proof (cases "bs = []")
  case False
  then show ?thesis by (simp add: pass_row_sound_def finished_row_def)
next
  case True
  with assms approved_strength [of "mv_signal v" m] have d: "gs_decision (mv_signal v) \<in> {''BUY'', ''SELL''}" "\<not> gs_strength (mv_signal v) < m"
    and r: "router_blocker route (gs_decision (mv_signal v)) = None" by (auto simp: view_ok_def)
  from assms(1) obtain s e where f: "dget base ''execution'' = PStr ''DRY_RUN''" "dget base ''strategy_snapshot'' = PDict s"
    "dget s ''effective_parameters'' = PDict e" "dget e ''minimum_signal_strength'' = PFloat m" by (auto simp: row_frame_def)
  show ?thesis unfolding pass_row_sound_def
  proof (intro impI conjI)
    show "\<exists>d route'. dget (finished_row base tf v reason details' route portfolio proposed ready bs) ''decision'' = PStr d \<and> d \<in> {''BUY'', ''SELL''}
      \<and> dget (finished_row base tf v reason details' route portfolio proposed ready bs) ''strategy_route'' = PDict (route_payload route') \<and> router_blocker route' d = None"
      using d r by (intro exI [of _ "gs_decision (mv_signal v)"] exI [of _ route]) (simp add: finished_row_def)
  qed (use f d True in \<open>simp_all add: finished_row_def\<close>)
qed

lemma framed_reserved: "framed i m R l \<Longrightarrow> lo_reserved l = R"
  by (simp add: framed_def)

definition priced :: "nat \<Rightarrow> pyfloat \<Rightarrow> market_view \<Rightarrow> (nat \<times> pyfloat \<times> int) list \<Rightarrow> string list \<Rightarrow> pydict option \<Rightarrow> string list \<Rightarrow> ready_local \<Rightarrow> bool" where
  "priced i m v R blockers proposed bs l \<longleftrightarrow> (bs = [] \<longrightarrow> blockers = [])
     \<and> (framed i m R l \<and> (bs = [] \<longrightarrow> proposed = None \<or> (\<exists>d. proposed = Some d \<and> dget d ''sizing_policy'' = close_policy)) \<or> took i m v R l)"

lemma holds_priced:
  "holdsL (framed (bp_id p) m R)
     (if ready then bindL (size_order E p params v blockers) (\<lambda>(d, bs, n). retL (Some d, bs, Some n)) else retL (None, blockers, None))
     (\<lambda>r l. case r of Inl _ \<Rightarrow> framed (bp_id p) m R l | Inr (proposed, bs, _) \<Rightarrow> priced (bp_id p) m v R blockers proposed bs l)"
proof (rule holds_if)
  show "holdsL (framed (bp_id p) m R) (bindL (size_order E p params v blockers) (\<lambda>(d, bs, n). retL (Some d, bs, Some n)))
     (\<lambda>r l. case r of Inl _ \<Rightarrow> framed (bp_id p) m R l | Inr (proposed, bs, _) \<Rightarrow> priced (bp_id p) m v R blockers proposed bs l)"
    by (rule holds_bindL [OF holds_size_order], (rule holds_prod)+, rule holds_liftL) (auto simp: sized_def priced_def)
  show "holdsL (framed (bp_id p) m R) (retL (None, blockers, None))
     (\<lambda>r l. case r of Inl _ \<Rightarrow> framed (bp_id p) m R l | Inr (proposed, bs, _) \<Rightarrow> priced (bp_id p) m v R blockers proposed bs l)"
    by (rule holds_liftL) (simp add: priced_def)
qed

lemma priced_evaluated:
  assumes "priced i m v R blockers proposed bs l" and "view_ok v"
    and "evaluate_risk (mv_signal v) m enabled live environment = (approved, reason, details)"
    and "blockers = [] \<longrightarrow> approved \<and> router_blocker route (gs_decision (mv_signal v)) = None"
  shows "evaluated i R (Inr (finished_row (lo_base l) tf v reason details' route portfolio proposed ready bs)) (lo_reserved l)"
proof -
  let ?row = "finished_row (lo_base l) tf v reason details' route portfolio proposed ready bs"
  have frame: "row_frame i m (lo_base l)" using assms(1) by (auto simp: priced_def took_def framed_def)
  from assms(1,4) have "bs = [] \<longrightarrow> approved \<and> router_blocker route (gs_decision (mv_signal v)) = None" by (auto simp: priced_def)
  with finished_row_sound [OF frame assms(2,3)] have sound: "pass_row_sound ?row" by blast
  from assms(1) consider "framed i m R l" "bs = [] \<longrightarrow> proposed = None \<or> (\<exists>d. proposed = Some d \<and> dget d ''sizing_policy'' = close_policy)"
    | "took i m v R l" by (auto simp: priced_def)
  then show ?thesis
  proof cases
    case 1
    with not_opened sound show ?thesis by (simp add: evaluated_def framed_def)
  next
    case 2
    with sound opened_profile [OF frame] assms(2) show ?thesis by (auto simp: evaluated_def took_def framed_def view_ok_def)
  qed
qed

lemma holds_evaluate:
  assumes "view_ok v"
  shows "holdsL (framed (bp_id p) (pp_minimum params) R) (evaluate_view E cfg p risk params tf v) (\<lambda>r l. evaluated (bp_id p) R r (lo_reserved l))"
proof -
  let ?F = "framed (bp_id p) (pp_minimum params) R" and ?Q = "\<lambda>r l. evaluated (bp_id p) R r (lo_reserved l)"
  have step: "keepsL ?F k (\<lambda>_. True) \<Longrightarrow> (\<And>x. holdsL ?F (f x) ?Q) \<Longrightarrow> holdsL ?F (bindL k f) ?Q" for k :: "(ready_local, 'x) act" and f
    unfolding keepsL_def by (erule holds_bindL) (auto simp: evaluated_def dest: framed_reserved)
  obtain approved reason details where risk: "evaluate_risk (mv_signal v) (pp_minimum params) (bp_is_enabled p) False (bp_environment p) = (approved, reason, details)"
    by (cases "evaluate_risk (mv_signal v) (pp_minimum params) (bp_is_enabled p) False (bp_environment p)")
  have tail: "holdsL (priced (bp_id p) (pp_minimum params) v R blockers proposed bs)
      (bindL (getL (\<lambda>l. (fst (reserved_of (bp_id p) l), lo_base l))) (\<lambda>(after, base).
         retL (finished_row base tf v reason details route (row_portfolio v before after (bs = []) n) proposed ready bs))) ?Q"
    if "blockers = [] \<longrightarrow> approved \<and> router_blocker route (gs_decision (mv_signal v)) = None" for blockers proposed bs route before n ready
  proof (rule holds_bindL [where R = "\<lambda>r l. (\<exists>k. r = Inr (k, lo_base l)) \<and> priced (bp_id p) (pp_minimum params) v R blockers proposed bs l"])
    show "holdsL (\<lambda>l. (\<exists>k. Inr x = Inr (k, lo_base l)) \<and> priced (bp_id p) (pp_minimum params) v R blockers proposed bs l)
        (case x of (after, base) \<Rightarrow> retL (finished_row base tf v reason details route (row_portfolio v before after (bs = []) n) proposed ready bs)) ?Q" for x
      by (rule holds_prod, rule holds_liftL) (use priced_evaluated [OF _ assms risk that] in auto)
  qed (auto intro: holds_getL)
  show ?thesis
    unfolding evaluate_view_def risk Let_def prod.case seqL_def
    apply (rule step)
     apply (rule keeps_if)
      apply (rule keeps_bindL [OF keeps_any keeps_set_base], simp)
     apply (rule keeps_any)
    apply (rule step [OF keeps_any])+
    apply (rule step [OF keeps_getL], simp)
    apply (rule holds_bindL [OF holds_priced])
     apply (rule holds_prod)+
     apply (simp only: sum.case prod.case)
     apply (rule tail, simp split: option.splits if_splits)
    apply (auto simp: evaluated_def dest: framed_reserved)
    done
qed

section \<open>All rows\<close>

lemma returns_foldP: "(\<And>s x. I s \<Longrightarrow> returns I (f s x)) \<Longrightarrow> I s \<Longrightarrow> returns I (foldP f s xs)"
  by (induction xs arbitrary: s) (auto intro: returns_retP returns_bindP_of)

lemma blocked_row: "readiness \<noteq> ''PASS'' \<Longrightarrow> pass_row_sound (outcome_row base readiness reason) \<and> \<not> opens j (outcome_row base readiness reason)"
  by (simp add: outcome_row_def pass_row_sound_def opens_def)

lemma failed_row_blocked: "pass_row_sound (failed_row E p base e) \<and> \<not> opens j (failed_row E p base e)"
  by (simp add: failed_row_def outcome_row_def pass_row_sound_def opens_def)

lemma holds_ready_body:
  assumes "bp_id p = ss_profile_id cfg"
  shows "holdsL (\<lambda>l. lo_reserved l = R \<and> dget (lo_base l) ''execution'' = PStr ''DRY_RUN'') (ready_body E cfg p def risk)
           (\<lambda>r l. evaluated (bp_id p) R r (lo_reserved l))"
proof -
  let ?Q = "\<lambda>r l. evaluated (bp_id p) R r (lo_reserved l)" and ?P = "\<lambda>l. lo_reserved l = R \<and> dget (lo_base l) ''execution'' = PStr ''DRY_RUN''"
  have snap: "holdsL ?P (set_base ''strategy_snapshot'' (PDict (strategy_snapshot cfg params))) (\<lambda>_. framed (bp_id p) (pp_minimum params) R)" for params
    unfolding set_base_def by (rule holds_modL) (simp add: framed_def row_frame_def strategy_snapshot_def assms)
  have view: "holdsL (framed (bp_id p) (pp_minimum params) R) (bindL k (evaluate_view E cfg p risk params tf)) ?Q"
    if "keepsL (framed (bp_id p) (pp_minimum params) R) k view_ok" for k params tf
  proof (rule holds_bindL [OF that [unfolded keepsL_def]])
    show "holdsL (\<lambda>l. framed (bp_id p) (pp_minimum params) R l \<and> (case Inr v of Inl _ \<Rightarrow> True | Inr x \<Rightarrow> view_ok x)) (evaluate_view E cfg p risk params tf v) ?Q" for v
    proof (cases "view_ok v")
      case True
      from holds_evaluate [OF this] show ?thesis by (rule holds_pre) simp
    next
      case False
      then show ?thesis by (simp add: holdsL_def)
    qed
  qed (auto simp: evaluated_def dest: framed_reserved)
  have unsupported: "holdsL P' (bindL (getL lo_base) (\<lambda>base. retL (outcome_row base ''BLOCK'' ''UNSUPPORTED_PROVIDER''))) ?Q"
    if "\<And>l. P' l \<Longrightarrow> lo_reserved l = R" for P'
    by (rule holds_bindL [where R = "\<lambda>r l. r \<in> range Inr \<and> lo_reserved l = R"], rule holds_getL)
       (auto intro!: holds_liftL simp: evaluated_def blocked_row that)
  show ?thesis unfolding ready_body_def Let_def
    by (rule holds_bindL [OF keeps_any [unfolded keepsL_def]], rule holds_pre, rule holds_seqL [OF snap];
        (rule holds_if | rule view keeps_bybit_view | rule view keeps_mt5_view | rule view keeps_ibkr_view | rule unsupported
          | simp add: evaluated_def | erule framed_reserved)+)
qed

definition report_ok :: "ready_local \<times> pydict list \<Rightarrow> bool" where
  "report_ok = (\<lambda>(l, rows). list_all pass_row_sound rows
     \<and> (\<forall>j. int (length (filter (opens j) rows)) \<le> snd (held (lo_reserved l) j) \<and> snd (held (lo_reserved l) j) \<le> MAX_NEW_POSITIONS_PER_ACCOUNT))"

lemma report_ok_row:
  assumes "report_ok (l, rows)" and "evaluated i (lo_reserved l) (Inr row) (lo_reserved l')" shows "report_ok (l', rows @ [row])"
proof -
  have h: "snd (held ((i, n, k) # R) j) = (if j = i then k else snd (held R j))" for n k R j by (simp add: held_def)
  from assms(1) have "int (length (filter (opens i) rows)) \<le> snd (held (lo_reserved l) i) + 1"
    by (simp add: report_ok_def) (meson add_increasing2 zero_le_one)
  then show ?thesis using assms by (auto simp: report_ok_def evaluated_def h)
qed

lemma report_ok_blocked: "report_ok (l, rows) \<Longrightarrow> lo_reserved l' = lo_reserved l \<Longrightarrow> pass_row_sound row \<Longrightarrow> (\<And>j. \<not> opens j row) \<Longrightarrow> report_ok (l', rows @ [row])"
  by (simp add: report_ok_def)

lemma report_ok_start: "report_ok (\<lparr>lo_base = [], lo_slots = [], lo_reserved = []\<rparr>, [])"
  by (simp add: report_ok_def held_def MAX_NEW_POSITIONS_PER_ACCOUNT_def)

lemma get_profile_id: "returns (\<lambda>r. case r of None \<Rightarrow> True | Some p \<Rightarrow> bp_id p = i) (get_profile i)"
  by (rule returnsI) (auto simp: get_profile_def dest: by_key_SomeD split: option.splits)

lemma report_ok_body:
  assumes "report_ok (l, rows)" and "bp_id p = ss_profile_id cfg" and "dget base ''execution'' = PStr ''DRY_RUN''"
  shows "returns report_ok (bindP (ready_body E cfg p def risk (l\<lparr>lo_base := base\<rparr>)) (\<lambda>(r, l'). case r of
           Inr row \<Rightarrow> retP (l', rows @ [row])
         | Inl e \<Rightarrow> if \<not> is_exception e then liftP (Inl e) else retP (l', rows @ [failed_row E p (lo_base l') e])))"
proof (rule returns_bindP_of)
  show "returns (\<lambda>(r, l'). evaluated (bp_id p) (lo_reserved l) r (lo_reserved l')) (ready_body E cfg p def risk (l\<lparr>lo_base := base\<rparr>))"
    by (rule returnsI) (use holdsD [OF holds_ready_body [OF assms(2), of "lo_reserved l" E def risk], of "l\<lparr>lo_base := base\<rparr>"] assms(3) in auto)
  fix x :: "pydict res \<times> ready_local" assume x: "case x of (r, l') \<Rightarrow> evaluated (bp_id p) (lo_reserved l) r (lo_reserved l')"
  show "returns report_ok (case x of (r, l') \<Rightarrow> (case r of Inr row \<Rightarrow> retP (l', rows @ [row])
         | Inl e \<Rightarrow> if \<not> is_exception e then liftP (Inl e) else retP (l', rows @ [failed_row E p (lo_base l') e])))"
    by (intro returns_prod returns_sum returns_if returns_liftP returns_retP)
       (use x report_ok_row [OF assms(1)] report_ok_blocked [OF assms(1)] failed_row_blocked in \<open>auto simp: evaluated_def\<close>)
qed

lemma report_ok_ready_row: "report_ok s \<Longrightarrow> returns report_ok (ready_row E owned def risk s cfg)"
proof -
  assume "report_ok s"
  moreover obtain l rows where s: "s = (l, rows)" by (cases s)
  ultimately have ok: "report_ok (l, rows)" by simp
  have b: "pass_row_sound (outcome_row base ''BLOCK'' reason)" "\<not> opens j (outcome_row base ''BLOCK'' reason)" for j base reason
    using blocked_row [of "''BLOCK''"] by simp_all
  show ?thesis unfolding s ready_row_def prod.case Let_def
    by (intro returns_if returns_retP returns_bindP_of [OF get_profile_id] returns_option returns_liftP returns_bindP report_ok_body ok)
       (auto intro!: report_ok_blocked [OF ok refl] simp: b)
qed

text \<open>
  C16. A readiness report passes only sound rows, and never more than five new positions for one broker
  profile: whatever the brokers answer, a row with readiness PASS is a dry run without blockers whose
  direction the strategy router accepts and whose strength reaches the resolved minimum, and among the
  rows that pass at most five propose an order that would open a position on the same profile.
\<close>

theorem readiness_report_limits:
  "returns (\<lambda>(n, rows). list_all pass_row_sound rows \<and> (\<forall>i. length (filter (opens i) rows) \<le> 5)) (readiness_rows E user_id)"
proof -
  have final: "list_all pass_row_sound rows \<and> (\<forall>i. length (filter (opens i) rows) \<le> 5)" if "report_ok (l, rows)" for l rows
  proof -
    from that have "int (length (filter (opens i) rows)) \<le> snd (held (lo_reserved l) i) \<and> snd (held (lo_reserved l) i) \<le> 5" for i
      by (simp add: report_ok_def MAX_NEW_POSITIONS_PER_ACCOUNT_def)
    then have "int (length (filter (opens i) rows)) \<le> 5" for i using order_trans by blast
    then have "length (filter (opens i) rows) \<le> 5" for i using of_nat_le_iff [of "length (filter (opens i) rows)" 5, where 'a = int] by simp
    then show ?thesis using that by (simp add: report_ok_def)
  qed
  show ?thesis unfolding readiness_rows_def
    by (rule returns_bindP, rule returns_prod, rule returns_bindP, rule returns_bindP,
        rule returns_bindP_of [OF returns_foldP [OF report_ok_ready_row report_ok_start]])
       (auto intro!: returns_retP final)
qed

section \<open>No instrument hides another\<close>

definition session_error :: "exn \<Rightarrow> bool" where
  \<comment> \<open>a database error, or a cancellation\<close>
  "session_error e \<longleftrightarrow> e = SQLAlchemyError \<or> \<not> is_exception e"

lemma raises_refresh: "raises session_error (refresh_ibkr_connection E p)"
  unfolding refresh_ibkr_connection_def Let_def write_connection_def connection_update_def
  by (intro raises_rules raises_tryP) (auto simp: session_error_def)

lemma raises_views: "raises P (set_base k v l)" "raises P (cached_slots E c i l)" "raises P (guarded_reservation i' v' n bs l)"
  unfolding set_base_def cached_slots_def guarded_reservation_def Let_def by (intro raises_rules)+

lemma raises_provider_views: "raises P (bybit_view E cfg p t l)" "raises P (mt5_view E cfg p t l)" "raises P (ibkr_view E cfg p t l)"
  unfolding bybit_view_def mt5_view_def ibkr_view_def Let_def by (intro raises_rules raises_views)+

lemma raises_evaluate: "raises P (evaluate_view E cfg p risk params t v l)"
  unfolding evaluate_view_def size_order_def propose_order_def Let_def split_beta
  by (intro raises_rules raises_views)

lemma raises_ready_body: "raises P (ready_body E cfg p def risk l)"
  unfolding ready_body_def Let_def by (intro raises_rules raises_views raises_provider_views raises_evaluate)

lemma raises_ready_row: "raises session_error (ready_row E owned def risk s cfg)"
  unfolding ready_row_def Let_def
  by (intro raises_prodL raises_rules raises_refresh raises_ready_body raises_liftP) (auto simp: session_error_def)

lemma one_row: "returns (\<lambda>s'. length (snd s') = Suc (length (snd s))) (ready_row E owned def risk s cfg)"
  unfolding ready_row_def Let_def split_beta
  by (intro returns_if returns_retP returns_bindP returns_option returns_liftP returns_prod returns_sum) auto


section \<open>Without a stored risk profile\<close>

lemma unflushed_unresolved: "resolve_params cfg def unflushed_risk = Inl TypeError"
  by (simp add: resolve_params_def unflushed_risk_def)

lemma unflushed_body: "ready_body E cfg p def unflushed_risk l = retP (Inl TypeError, l)"
  by (simp add: ready_body_def unflushed_unresolved bindL_def liftL_def bindP_def fun_eq_iff)

definition not_passed :: "pydict \<Rightarrow> bool" where
  "not_passed row \<longleftrightarrow> dget row ''readiness'' \<noteq> PStr ''PASS''"

lemma not_passed_row: "readiness \<noteq> ''PASS'' \<Longrightarrow> not_passed (outcome_row base readiness reason)" "not_passed (failed_row E p base e)"
  by (simp_all add: not_passed_def outcome_row_def failed_row_def)

lemma bindP_getP: "bindP (getP g) f w = f (g w) w"
  by (simp_all add: bindP_def fun_eq_iff)

lemma returns_bound: "returns P (f x) \<Longrightarrow> returns P (bindP (retP x) f)"
  by (simp add: bindP_retP)

lemma unflushed_row: "list_all not_passed (snd s) \<Longrightarrow> returns (\<lambda>s'. list_all not_passed (snd s')) (ready_row E owned def unflushed_risk s cfg)"
  unfolding ready_row_def Let_def split_beta unflushed_body
  by (rule returns_bound returns_if returns_bindP returns_option | (simp only: fst_conv snd_conv sum.case; rule returns_if) | (simp add: returns_def; fail) | (simp add: bindP_retP not_passed_row returns_retP; fail))+



end
