(* ===== verification/Ibkr_Positions.thy ===== *)
theory Ibkr_Positions
  imports Preflight
begin

text \<open>
  \<open>app/services/ibkr_position_manager.py\<close>, the rules of the IBKR Paper position lifecycle: which broker
  executions or positions prove a delayed entry, who owns a position, whether its entry is filled, and
  what an error of the protective order means.
\<close>


section \<open>Rules of the lifecycle\<close>

definition DEFAULT_MINIMUM :: pyfloat where "DEFAULT_MINIMUM = fl 65"

definition minimum_strength :: "symbol_strategy \<Rightarrow> strategy_profile \<Rightarrow> pyfloat" where
  \<comment> \<open>\<open>float((own or default) or 65.0)\<close>, zero counts as missing\<close>
  "minimum_strength cfg def =
     (case or_default (ss_minimum_signal_strength cfg) (sp_minimum_signal_strength def) of
        Some x \<Rightarrow> if x = 0 then DEFAULT_MINIMUM else x | None \<Rightarrow> DEFAULT_MINIMUM)"

definition strategy_timeframe :: "symbol_strategy \<Rightarrow> strategy_profile \<Rightarrow> string" where
  "strategy_timeframe cfg def =
     (let given = (\<lambda>t. case t of Some s \<Rightarrow> s | None \<Rightarrow> []);
          t = (if given (ss_timeframe cfg) \<noteq> [] then given (ss_timeframe cfg) else given (sp_timeframe def))
      in if t = [] then ''5m'' else t)"

definition opposite :: "string \<Rightarrow> string \<Rightarrow> bool" where
  "opposite position_side decision \<longleftrightarrow>
     (position_side = ''LONG'' \<and> decision = ''SELL'') \<or> (position_side = ''SHORT'' \<and> decision = ''BUY'')"

definition side_of :: "automation_action \<Rightarrow> string" where
  \<comment> \<open>\<open>str(action.side or '').upper()\<close>\<close>
  "side_of action = str_upper (or_else (ac_side action) [])"

definition quantity_of :: "automation_action \<Rightarrow> pyfloat" where
  \<comment> \<open>\<open>float(action.quantity or 0)\<close>\<close>
  "quantity_of action = or_else (ac_quantity action) 0"

section \<open>Delayed entries proven by executions\<close>

definition execution_matches_action :: "automation_action \<Rightarrow> pydict \<Rightarrow> pyval \<Rightarrow> bool res" where
  "execution_matches_action action execution account_id =
     bindE (tryE (bindE (py_int (dget execution ''order_id'')) (\<lambda>i. bindE (py_int (opt_val PStr (ac_broker_order_id action))) (\<lambda>j. Inr (i = j))))
              is_type_or_value (\<lambda>_. Inr False)) (\<lambda>same.
       Inr (same \<and> canonical_symbol (dget execution ''symbol'') = canonical_symbol (PStr (ac_symbol action))
          \<and> (case map_of [(''BUY'', ''BOT''), (''SELL'', ''SLD'')] (side_of action) of
               None \<Rightarrow> False | Some code \<Rightarrow> upper_or_empty (dget execution ''side'') = code)
          \<and> (truth account_id \<longrightarrow> str_or_empty (dget execution ''account'') = py_str account_id)))"

definition same_row :: "pydict \<Rightarrow> pydict \<Rightarrow> bool" where
  \<comment> \<open>\<open>==\<close> of two rows of plain values\<close>
  "same_row a b \<longleftrightarrow> (let covered = (\<lambda>a b. list_all (\<lambda>(k, _). has_key k b \<and> py_eq (dget a k) (dget b k)) a) in covered a b \<and> covered b a)"

fun unhashable :: "pyval \<Rightarrow> bool" where
  "unhashable (PList _) = True"
| "unhashable (PDict _) = True"
| "unhashable _ = False"

fun unique_executions :: "(pyval \<times> pydict) list \<Rightarrow> pydict list \<Rightarrow> (pyval \<times> pydict) list option res" where
  \<comment> \<open>the executions by identity; None for an unusable or contradictory one\<close>
  "unique_executions acc [] = Inr (Some acc)"
| "unique_executions acc (row # rows) =
     bindE (float_or0 (dget row ''quantity'')) (\<lambda>q.
       let identity = dget row ''execution_id''
       in if \<not> truth identity \<or> \<not> isfinite q \<or> q \<le> 0 then Inr None
          else if unhashable identity then Inl TypeError
          else case find (\<lambda>(i, _). py_eq i identity) acc of
                 None \<Rightarrow> unique_executions (acc @ [(identity, row)]) rows
               | Some (_, known) \<Rightarrow> if same_row known row then unique_executions acc rows else Inr None)"

definition reconciliation_evidence :: "automation_action \<Rightarrow> pydict list \<Rightarrow> pyval \<Rightarrow> pydict option res" where
  "reconciliation_evidence action executions account_id =
     bindE (filterE (\<lambda>x. execution_matches_action action x account_id) executions) (\<lambda>matches.
       tryE (bindE (unique_executions [] matches) (\<lambda>u. case u of
               None \<Rightarrow> Inr None
             | Some unique \<Rightarrow>
                 bindE (mapE (\<lambda>(_, x). bindE (dsub x ''quantity'') py_float) unique) (\<lambda>qs.
                   let expected = quantity_of action
                   in if expected \<le> 0 \<or> \<not> quantities_match (pysum qs) expected then Inr None
                      else Inr (Some [(''order_id'', PStr (order_id_text action)), (''symbol'', PStr (canonical_symbol (PStr (ac_symbol action)))),
                             (''side'', PStr (side_of action)), (''quantity'', PFloat expected),
                             (''execution_ids'', PList (map (\<lambda>(i, _). PStr (str_or_empty i)) unique))]))))
         is_type_or_value (\<lambda>_. Inr None))"

definition with_json :: "pyval \<Rightarrow> automation_action \<Rightarrow> automation_action" where
  "with_json raw a = a\<lparr>ac_raw_json := Some (Json raw)\<rparr>"

definition save_entry_execution_evidence ::
    "env \<Rightarrow> int \<Rightarrow> automation_action \<Rightarrow> pydict list \<Rightarrow> pyval \<Rightarrow> automation_action option res" where
  \<comment> \<open>the entry with the executions that prove it, or None when they do not\<close>
  "save_entry_execution_evidence E now entry executions account_id =
     (if executions = [] then Inr None
      else let zone = PStr (ibkr_execution_timezone (en_settings E))
      in bindE (execution_fill (en_parse_time E) entry (PList (map PDict executions)) account_id zone now) (\<lambda>proof'. case proof' of
           None \<Rightarrow> Inr None
         | Some _ \<Rightarrow>
             bindE (tryE (bindE (json_loads (ac_raw_json entry)) (\<lambda>v. Inr (Some v))) is_type_or_value (\<lambda>_. Inr None)) (\<lambda>raw. case raw of
               None \<Rightarrow> Inr None
             | Some v \<Rightarrow>
                 let rows = filter (\<lambda>r. py_eq (dget r ''account'') account_id \<and> py_str (dget r ''order_id'') = order_id_text entry) executions
                 in bindE (set_audit ''entry_execution_evidence''
                       (PDict [(''account_id'', account_id), (''execution_timezone'', zone), (''executions'', PList (map PDict rows)), (''verified_at'', PInt now)]) v)
                     (\<lambda>audit. Inr (Some (with_json audit entry))))))"

definition submitted_entry :: "broker_profile \<Rightarrow> automation_action \<Rightarrow> bool" where
  "submitted_entry p a \<longleftrightarrow> ac_user_id a = bp_user_id p \<and> ac_broker_profile_id a = Some (bp_id p) \<and> ac_provider a = ''IBKR''
     \<and> ac_environment a = Some ''PAPER'' \<and> ac_status a = ''SUBMITTED''
     \<and> ac_reason a \<in> {Some ''BROKER_FILL_NOT_CONFIRMED'', Some ''IBKR_ENTRY_SUBMISSION_UNRESOLVED''} \<and> ac_broker_order_id a \<noteq> None"

definition mark_reconciled :: "int \<Rightarrow> automation_action \<Rightarrow> string \<Rightarrow> pydict \<Rightarrow> automation_action res" where
  "mark_reconciled now action source evidence =
     bindE (tryE (json_loads (ac_raw_json action)) is_type_or_value (\<lambda>_. Inr (PDict []))) (\<lambda>raw.
     bindE (set_audit ''reconciliation'' (PDict (dmerge [(''source'', PStr source), (''verified_at'', PInt now)] evidence)) raw) (\<lambda>audit.
       Inr (action\<lparr>ac_status := ''EXECUTED'',
              ac_reason := Some (if source = ''IBKR_EXECUTIONS'' then ''BROKER_EXECUTION_RECONCILED'' else ''BROKER_POSITION_RECONCILED''),
              ac_raw_json := Some (Json audit)\<rparr>)))"

definition reconciled_by_executions :: "env \<Rightarrow> int \<Rightarrow> pydict list \<Rightarrow> pyval \<Rightarrow> automation_action \<Rightarrow> automation_action option res" where
  \<comment> \<open>one pass of \<open>_reconcile_submitted_entries\<close>: the promoted action, or None when it stays\<close>
  "reconciled_by_executions E now executions account_id action =
     bindE (reconciliation_evidence action executions account_id) (\<lambda>ev. case ev of None \<Rightarrow> Inr None | Some evidence \<Rightarrow>
     bindE (save_entry_execution_evidence E now action executions account_id) (\<lambda>saved. case saved of None \<Rightarrow> Inr None | Some a \<Rightarrow>
     bindE (mark_reconciled now a ''IBKR_EXECUTIONS'' evidence) (\<lambda>b. Inr (Some b))))"

section \<open>Delayed entries proven by the current position\<close>

definition position_fallback_evidence :: "automation_action \<Rightarrow> pydict \<Rightarrow> pyval \<Rightarrow> pydict option res" where
  "position_fallback_evidence action position account_id =
     (if truth account_id \<and> str_or_empty (dget position ''account'') \<noteq> py_str account_id then Inr None
      else if canonical_symbol (dget position ''symbol'') \<noteq> canonical_symbol (PStr (ac_symbol action)) then Inr None
      else bindE (float_or0 (dget position ''quantity'')) (\<lambda>live.
        let expected = quantity_of action; side = side_of action
        in if expected \<le> 0 \<or> (side = ''BUY'' \<and> live \<le> 0) \<or> (side = ''SELL'' \<and> 0 \<le> live) \<or> \<not> quantities_match (fabs live) expected then Inr None
           else Inr (Some [(''order_id'', PStr (order_id_text action)), (''account'', PStr (str_or_empty (py_or (dget position ''account'') account_id))),
                  (''symbol'', PStr (canonical_symbol (PStr (ac_symbol action)))), (''side'', PStr side), (''quantity'', PFloat expected),
                  (''live_position_quantity'', PFloat live), (''live_avg_cost'', dget position ''avg_cost'')])))"

definition first_keys :: "'k list \<Rightarrow> 'k list" where
  \<comment> \<open>the keys of a dictionary in the order of their insertion\<close>
  "first_keys xs = rev (remdups (rev xs))"

definition live_positions :: "pyval \<Rightarrow> pydict list \<Rightarrow> pydict list res" where
  \<comment> \<open>the account's positions with a quantity above \<open>1e-9\<close>\<close>
  "live_positions account_id =
     filterE (\<lambda>p. if truth account_id \<and> str_or_empty (dget p ''account'') \<noteq> py_str account_id then Inr False
                  else bindE (float_or0 (dget p ''quantity'')) (\<lambda>q. Inr (\<not> fabs q \<le> fl (1 / 10 ^ 9))))"

definition sole_pair :: "automation_action list \<Rightarrow> pydict list \<Rightarrow> string \<Rightarrow> (automation_action \<times> pydict) option" where
  \<comment> \<open>the entry and the position of a symbol that has exactly one of each\<close>
  "sole_pair rows positions symbol =
     (case (filter (\<lambda>a. canonical_symbol (PStr (ac_symbol a)) = symbol) rows, filter (\<lambda>p. canonical_symbol (dget p ''symbol'') = symbol) positions) of
        ([a], [p]) \<Rightarrow> Some (a, p) | _ \<Rightarrow> None)"

definition reconciled_by_position :: "int \<Rightarrow> pyval \<Rightarrow> automation_action \<times> pydict \<Rightarrow> automation_action option res" where
  "reconciled_by_position now account_id = (\<lambda>(action, position).
     bindE (position_fallback_evidence action position account_id) (\<lambda>ev. case ev of None \<Rightarrow> Inr None | Some evidence \<Rightarrow>
       bindE (mark_reconciled now action ''IBKR_CURRENT_POSITION_FALLBACK'' evidence) (\<lambda>a. Inr (Some a))))"

section \<open>Ownership of a position\<close>

definition latest_entry :: "nat \<Rightarrow> nat \<Rightarrow> string \<Rightarrow> db \<Rightarrow> automation_action option" where
  "latest_entry user_id profile_id symbol d =
     (case sort_key (\<lambda>a. - ac_created_at a)
             (filter (\<lambda>a. ac_user_id a = user_id \<and> ac_broker_profile_id a = Some profile_id \<and> ac_provider a = ''IBKR''
                \<and> ac_environment a = Some ''PAPER'' \<and> ac_symbol a = symbol \<and> ac_status a \<in> {''EXECUTED'', ''EXIT_EXECUTED''}) (db_actions d)) of
        [] \<Rightarrow> None
      | a # _ \<Rightarrow> if ac_status a \<noteq> ''EXECUTED'' \<or> ac_broker_order_id a \<in> {None, Some []} then None else Some a)"

definition entry_direction :: "automation_action \<Rightarrow> string option" where
  "entry_direction entry = (if ac_side entry = Some ''BUY'' then Some ''LONG'' else if ac_side entry = Some ''SELL'' then Some ''SHORT'' else None)"

definition entry_fill_verified :: "automation_action \<Rightarrow> pydict \<Rightarrow> string \<Rightarrow> pyfloat \<Rightarrow> bool \<times> string" where
  "entry_fill_verified entry broker_entry position_side quantity =
     (let state = upper_or_empty (dget broker_entry ''status'')
      in if state = ''FILLED'' then (True, ''BROKER_FILLED'')
         else if state \<noteq> [] then (False, ''BROKER_NOT_FILLED'')
         else if ac_status entry = ''EXECUTED'' \<and> entry_direction entry = Some position_side \<and> 0 < quantity_of entry
                 \<and> quantities_match (quantity_of entry) quantity
         then (True, ''PERSISTED_EXECUTED_LIVE_POSITION_MATCH'')
         else (False, ''ENTRY_FILL_NOT_VERIFIED''))"

definition has_pending_exit :: "broker_profile \<Rightarrow> string \<Rightarrow> db \<Rightarrow> bool" where
  "has_pending_exit p symbol d =
     list_ex (\<lambda>a. ac_user_id a = bp_user_id p \<and> ac_broker_profile_id a = Some (bp_id p) \<and> ac_provider a = ''IBKR''
       \<and> ac_environment a = Some ''PAPER'' \<and> ac_symbol a = symbol \<and> ac_status a = ''EXIT_SUBMITTED'') (db_actions d)"

definition known_protection_errors :: "string list" where
  "known_protection_errors = [''PROTECTION_LEVELS_DO_NOT_BRACKET_ENTRY'', ''PROTECTION_SUBMISSION_OUTCOME_UNRESOLVED'',
     ''PROTECTION_EXISTING_ORDERS_REQUIRE_RECONCILIATION'', ''PROTECTION_POSITION_CHANGED'', ''PROTECTION_WHATIF_REJECTED'']"

definition protection_error_reason :: "exn \<Rightarrow> string" where
  "protection_error_reason e =
     (case e of HTTPStatusError _ (Some detail) \<Rightarrow>
         if detail \<in> set known_protection_errors then detail else ''PROTECTION_CHECK_FAILED:'' @ exn_name e
      | _ \<Rightarrow> ''PROTECTION_CHECK_FAILED:'' @ exn_name e)"

end
