(* ===== verification/Scan_Lifecycle.thy ===== *)
theory Scan_Lifecycle
  imports Readiness
begin

text \<open>
  The row of a running scan and the ways it ends: \<open>app/services/scan_lifecycle.py\<close> and the common
  prologue and handlers of the three workers (\<open>run_safe_scan\<close>, \<open>run_ibkr_position_manager\<close>,
  \<open>run_mt5_position_manager\<close>). A worker has its own session: nothing is loaded when it starts, and what
  it has not committed when it ends is lost.
\<close>

section \<open>Sessions\<close>

definition with_session :: "'a prog \<Rightarrow> 'a prog" where
  \<comment> \<open>\<open>with SessionLocal() as db\<close>\<close>
  "with_session m = (\<lambda>w. case m (w\<lparr>w_db := w_saved w, w_profiles := [], w_strategies := [], w_states := []\<rparr>) of
     (r, w') \<Rightarrow> (r, w'\<lparr>w_db := w_saved w', w_profiles := [], w_strategies := [], w_states := []\<rparr>))"

definition write_action :: "automation_action \<Rightarrow> unit prog" where
  \<comment> \<open>the flush of the attributes the workers change on a loaded action\<close>
  "write_action a =
     bindP (getP (\<lambda>w. by_key ac_id (ac_id a) (db_actions (w_db w)))) (\<lambda>row. case row of
       None \<Rightarrow> liftP (Inl SQLAlchemyError)
     | Some _ \<Rightarrow> modify_db (\<lambda>d. d\<lparr>db_actions := update_key ac_id (ac_id a)
         (\<lambda>r. r\<lparr>ac_status := ac_status a, ac_reason := ac_reason a, ac_raw_json := ac_raw_json a\<rparr>) (db_actions d)\<rparr>))"

definition write_audit :: "automation_action \<Rightarrow> unit prog" where
  \<comment> \<open>the same when only the audit document changed\<close>
  "write_audit a =
     bindP (getP (\<lambda>w. by_key ac_id (ac_id a) (db_actions (w_db w)))) (\<lambda>row. case row of
       None \<Rightarrow> liftP (Inl SQLAlchemyError)
     | Some _ \<Rightarrow> modify_db (\<lambda>d. d\<lparr>db_actions := update_key ac_id (ac_id a) (\<lambda>r. r\<lparr>ac_raw_json := ac_raw_json a\<rparr>) (db_actions d)\<rparr>))"

definition refresh_action :: "nat \<Rightarrow> automation_action prog" where
  "refresh_action i = bindP (getP (\<lambda>w. by_key ac_id i (db_actions (w_db w)))) (\<lambda>row. case row of
     None \<Rightarrow> liftP (Inl SQLAlchemyError) | Some a \<Rightarrow> retP a)"

section \<open>The row of a scan\<close>

definition new_scan :: "nat \<Rightarrow> int \<Rightarrow> int \<Rightarrow> int \<Rightarrow> automation_scan" where
  "new_scan i symbols accounts now_us = \<lparr>sn_id = i, sn_status = ''RUNNING'', sn_symbols_count = symbols, sn_accounts_count = accounts,
     sn_signals_count = 0, sn_approved_count = 0, sn_executed_count = 0, sn_error_message = None, sn_started_at = now_us,
     sn_finished_at = None\<rparr>"

definition start_scan :: "env \<Rightarrow> int \<Rightarrow> int \<Rightarrow> nat prog" where
  \<comment> \<open>the committed row of a new scan\<close>
  "start_scan E symbols accounts =
     bindP (getP (\<lambda>w. (db_next_id (w_db w), 1000 * en_now E (w_tick w)))) (\<lambda>(i, now_us).
     seqP (modify_db (\<lambda>d. d\<lparr>db_scans := db_scans d @ [new_scan i symbols accounts now_us], db_next_id := i + 1\<rparr>))
    (seqP (commit E) (retP i)))"

definition update_scan :: "nat \<Rightarrow> (automation_scan \<Rightarrow> automation_scan) \<Rightarrow> unit prog" where
  "update_scan i f = modify_db (\<lambda>d. d\<lparr>db_scans := update_key sn_id i f (db_scans d)\<rparr>)"

definition scan_of :: "nat \<Rightarrow> automation_scan option prog" where
  "scan_of i = getP (\<lambda>w. by_key sn_id i (db_scans (w_db w)))"

definition scan_now :: "env \<Rightarrow> int prog" where
  \<comment> \<open>\<open>datetime.now(timezone.utc)\<close> in microseconds\<close>
  "scan_now E = getP (\<lambda>w. 1000 * en_now E (w_tick w))"

definition interrupt_scan :: "env \<Rightarrow> nat \<Rightarrow> unit prog" where
  "interrupt_scan E i =
     seqP rollback (bindP (scan_of i) (\<lambda>row. case row of None \<Rightarrow> retP () | Some s \<Rightarrow>
       if sn_status s \<noteq> ''RUNNING'' then retP ()
       else bindP (scan_now E) (\<lambda>now.
            seqP (update_scan i (\<lambda>s. s\<lparr>sn_status := ''INTERRUPTED'',
                    sn_error_message := Some ''WORKER_CANCELLED_BROKER_RECONCILIATION_REQUIRED'', sn_finished_at := Some now\<rparr>))
              (commit E))))"

definition fail_scan :: "env \<Rightarrow> nat \<Rightarrow> string \<Rightarrow> unit prog" where
  \<comment> \<open>the \<open>except Exception\<close> of a worker\<close>
  "fail_scan E i error =
     seqP rollback (bindP (scan_of i) (\<lambda>row. case row of None \<Rightarrow> retP () | Some _ \<Rightarrow>
       bindP (scan_now E) (\<lambda>now.
         seqP (update_scan i (\<lambda>s. s\<lparr>sn_status := ''FAILED'', sn_error_message := Some error, sn_finished_at := Some now\<rparr>))
           (commit E))))"

definition short_text :: "string \<Rightarrow> nat \<Rightarrow> string" where
  \<comment> \<open>\<open>_short\<close> of a text\<close>
  "short_text s limit = or_else (short (PStr s) limit) []"

definition guarded_worker :: "env \<Rightarrow> nat \<Rightarrow> (pydict list, unit) act \<Rightarrow> (pydict list \<Rightarrow> pydict prog) \<Rightarrow> pydict prog" where
  \<comment> \<open>the \<open>try\<close> of a worker: the results so far survive a failure, the scan's row says how it ended\<close>
  "guarded_worker E i body report =
     bindP (body []) (\<lambda>(r, results). case r of
       Inr _ \<Rightarrow> report results
     | Inl e \<Rightarrow>
         if \<not> is_exception e then seqP (interrupt_scan E i) (liftP (Inl e))
         else let error = short_text (exn_message E e) 500
              in seqP (fail_scan E i error)
                   (retP [(''status'', PStr ''FAILED''), (''error'', PStr error), (''results'', PList (map PDict results))]))"

definition skipped :: "string \<Rightarrow> pydict" where
  "skipped reason = [(''status'', PStr ''SKIPPED''), (''reason'', PStr reason)]"

definition engine_blocker :: "automation_state \<Rightarrow> string option" where
  \<comment> \<open>the first three checks of every worker\<close>
  "engine_blocker s = (if \<not> au_enabled s then Some ''ENGINE_DISABLED'' else if au_killed s then Some ''KILL_SWITCH''
     else if \<not> au_auto_execute_paper s then Some ''SIMULATION_EXECUTION_DISABLED'' else None)"

definition keep_result :: "pydict \<Rightarrow> pydict \<Rightarrow> (pydict list, unit) act" where
  \<comment> \<open>\<open>results.append({**item, **result})\<close>\<close>
  "keep_result item result = modL (\<lambda>rs. rs @ [dmerge item result])"

lemma quiet_scan_rows [intro!]:
  "emits no_orders (start_scan E symbols accounts)" "emits no_orders (update_scan i f)" "emits no_orders (scan_of i)"
  "emits no_orders (interrupt_scan E i)" "emits no_orders (fail_scan E i error)" "emits no_orders (write_action a)" "emits no_orders (write_audit a)"
  "emits no_orders (refresh_action i)" "emits no_orders (scan_now E)"
  unfolding start_scan_def update_scan_def scan_of_def interrupt_scan_def fail_scan_def write_action_def write_audit_def refresh_action_def scan_now_def
  by auto

end
