(* ===== verification/Position_Manager.thy ===== *)
theory Position_Manager
  imports Ibkr_Positions Scan_Lifecycle
begin

text \<open>
  \<open>app/services/ibkr_position_manager.py\<close>, the programs: the broker-held protective pair of a filled
  entry (\<open>_ensure_native_protection\<close>, \<open>protect_saved_entry\<close>), the exits the broker executed by itself, and
  one run of the position manager over all IBKR Paper profiles. The rows an action changes are written
  when the code flushes or commits them; a position or an item is a dictionary.
\<close>

section \<open>The protective pair of an entry\<close>

definition levels_payload :: "anchored_levels \<Rightarrow> pydict" where
  \<comment> \<open>the dictionary \<open>fill_anchored_levels\<close> returns\<close>
  "levels_payload l =
     [(''source'', PStr ''VERIFIED_FULL_FILL_PRESERVED_DISTANCES''), (''entry_order_id'', PStr (an_entry_order_id l)),
      (''fill_price'', PFloat (an_fill_price l)), (''planned_reference_price'', PFloat (an_reference l)),
      (''reference_inferred_from_saved_rr'', PBool (an_inferred l)), (''original_stop_loss'', PFloat (an_original_stop l)),
      (''original_take_profit'', PFloat (an_original_target l)), (''stop_distance'', PFloat (an_stop_distance l)),
      (''target_distance'', PFloat (an_target_distance l)), (''quantity'', PFloat (an_quantity l)),
      (''stop_loss'', PFloat (an_stop_loss l)), (''take_profit'', PFloat (an_take_profit l))]"

definition allow_submit :: "pyval \<Rightarrow> bool" where
  \<comment> \<open>a protective pair may be submitted only when none was attempted, or the attempt was refused before it was sent\<close>
  "allow_submit prior \<longleftrightarrow> prior = PNone
     \<or> (case prior of PDict d \<Rightarrow> py_eq (dget d ''status'') (PStr ''PRE_SUBMISSION_BLOCKED'') | _ \<Rightarrow> False)"

definition protection_group :: "automation_action \<Rightarrow> string" where
  "protection_group entry = ''atlas-protect-'' @ id_text (ac_id entry)"

definition finite_positive :: "pyfloat \<Rightarrow> bool" where "finite_positive v \<longleftrightarrow> isfinite v \<and> 0 < v"

definition protection_plan ::
    "env \<Rightarrow> int \<Rightarrow> automation_action \<Rightarrow> string \<Rightarrow> pyfloat \<Rightarrow> (pydict \<times> pyval \<times> pyfloat \<times> pyfloat) option res" where
  \<comment> \<open>the audit document, the earlier attempt and the levels; None when the position is not the entry's\<close>
  "protection_plan E now entry position_side quantity =
     bindE (json_loads (ac_raw_json entry)) (\<lambda>v.
     bindE (bindE (vsub v ''preflight'') (\<lambda>p. vsub p ''request'')) (\<lambda>request.
     bindE (as_dict v) (\<lambda>raw0.
     let prior = dget raw0 ''native_protection''; saved = dget raw0 ''native_protection_levels''
     in bindE (if saved = PNone \<and> prior = PNone
               then bindE (fill_anchored_levels (en_parse_time E) entry now) (\<lambda>l.
                      Inr (PDict (levels_payload l), dset ''native_protection_levels'' (PDict (levels_payload l)) raw0))
               else Inr (saved, raw0)) (\<lambda>(levels, raw).
        bindE (bindE (vsub (py_or levels request) ''stop_loss'') py_float) (\<lambda>stop.
        bindE (bindE (vsub (py_or levels request) ''take_profit'') py_float) (\<lambda>target.
          guardE (\<not> (finite_positive stop \<and> finite_positive target)) (ValueError ''INVALID_PROTECTION_LEVELS'')
            (let exact = quantities_match (quantity_of entry) quantity;
                 partial_verify = (prior \<noteq> PNone \<and> 0 < quantity \<and> quantity < quantity_of entry)
             in Inr (if entry_direction entry \<noteq> Some position_side \<or> \<not> (exact \<or> partial_verify) then None
                     else Some (raw, prior, stop, target)))))))))"

definition protection_request ::
    "automation_action \<Rightarrow> string \<Rightarrow> pyval \<Rightarrow> string \<Rightarrow> pyfloat \<Rightarrow> pyfloat \<Rightarrow> pyfloat \<Rightarrow> pyval \<Rightarrow> pydict" where
  "protection_request entry symbol account_id position_side quantity stop target prior =
     [(''symbol'', PStr symbol), (''account_id'', account_id), (''position_side'', PStr position_side), (''quantity'', PFloat quantity),
      (''stop_loss'', PFloat stop), (''take_profit'', PFloat target), (''entry_key'', PStr (id_text (ac_id entry))),
      (''allow_submit'', PBool (allow_submit prior)),
      (''existing_order_ids'', (case prior of PDict d \<Rightarrow> dget_or d ''order_ids'' (PList []) | _ \<Rightarrow> PList []))]"

definition RETRYABLE_DETAILS :: "string list" where
  "RETRYABLE_DETAILS = [''IBKR_MUTATION_ALREADY_IN_PROGRESS'', ''IBKR_READ_ALREADY_IN_PROGRESS'', ''IBKR_READ_RECOVERY_COOLDOWN'',
     ''IBKR_SERVER_UNAVAILABLE'', ''IBKR_SOCKET_DISCONNECTED'']"

definition retryable :: "bool \<Rightarrow> exn \<Rightarrow> bool" where
  \<comment> \<open>the bridge refused the request before it sent either order\<close>
  "retryable allow e = (case e of HTTPStatusError code (Some detail) \<Rightarrow> allow \<and> code = 503 \<and> detail \<in> set RETRYABLE_DETAILS | _ \<Rightarrow> False)"

definition blocked_protection :: "string \<Rightarrow> pydict" where
  "blocked_protection reason = [(''status'', PStr ''PROTECTION_BLOCKED''), (''reason'', PStr reason)]"

definition save_protection :: "env \<Rightarrow> automation_action \<Rightarrow> (pydict \<Rightarrow> pydict res) \<Rightarrow> unit prog" where
  \<comment> \<open>refresh the entry, change its audit document, commit\<close>
  "save_protection E entry f =
     bindP (refresh_action (ac_id entry)) (\<lambda>fresh.
     bindP (liftP (bindE (bindE (json_loads (ac_raw_json fresh)) as_dict) f)) (\<lambda>raw.
     seqP (write_audit (with_json (PDict raw) fresh)) (commit E)))"

definition release_intent :: "env \<Rightarrow> automation_action \<Rightarrow> string \<Rightarrow> pydict prog" where
  "release_intent E entry detail =
     seqP (save_protection E entry (\<lambda>raw. bindE (bindE (dsub raw ''native_protection'') as_mapping) (\<lambda>np.
             Inr (dset ''native_protection'' (PDict (dmerge np [(''status'', PStr ''PRE_SUBMISSION_BLOCKED''), (''reason'', PStr detail)])) raw))))
       (retP (blocked_protection detail))"

definition confirmed_result :: "automation_action \<Rightarrow> pydict \<Rightarrow> pydict" where
  \<comment> \<open>never a generic acceptance or another group's protection\<close>
  "confirmed_result entry answer =
     (if dget answer ''simulation'' \<noteq> PBool True \<or> \<not> py_eq (dget answer ''oca_group'') (PStr (protection_group entry))
      then [(''status'', PStr ''PROTECTION_PENDING''), (''reason'', PStr ''BROKER_PROTECTION_NOT_CONFIRMED''), (''oca_group'', PStr (protection_group entry))]
      else answer)"

definition checked_protection :: "int \<Rightarrow> pydict \<Rightarrow> pydict \<Rightarrow> pydict" where
  \<comment> \<open>the saved record with the broker's answer; a protected pair keeps its earlier reason under another name\<close>
  "checked_protection now result np0 =
     (let np = dset ''checked_at'' (PInt now) (dmerge np0 result);
          previous = dget np ''reason'';
          popped = filter (\<lambda>(k, _). k \<noteq> ''reason'') np
      in if py_eq (dget result ''status'') (PStr ''PROTECTED'') \<and> \<not> truth (dget result ''reason'')
         then (if truth previous then dset ''previous_reason'' previous popped else popped) else np)"

definition record_protection :: "env \<Rightarrow> automation_action \<Rightarrow> pydict \<Rightarrow> pydict prog" where
  "record_protection E entry answer =
     (let result = confirmed_result entry answer
      in bindP (now_ms E) (\<lambda>now.
         seqP (save_protection E entry (\<lambda>raw. bindE (as_mapping (dget_or raw ''native_protection'' (PDict []))) (\<lambda>np.
                 Inr (dset ''native_protection'' (PDict (checked_protection now result np)) raw))))
           (retP result)))"

definition invalid_levels_reason :: "exn \<Rightarrow> string" where
  "invalid_levels_reason e = (case e of ValueError m \<Rightarrow> if starts_with ''PROTECTION_'' m then m else ''SAVED_PROTECTION_LEVELS_INVALID''
     | _ \<Rightarrow> ''SAVED_PROTECTION_LEVELS_INVALID'')"

definition submitting :: "automation_action \<Rightarrow> int \<Rightarrow> pyval" where
  "submitting entry now = PDict [(''status'', PStr ''SUBMITTING''), (''oca_group'', PStr (protection_group entry)), (''attempted_at'', PInt now)]"

definition submit_pair :: "env \<Rightarrow> ibkr_client \<Rightarrow> automation_action \<Rightarrow> bool \<Rightarrow> pydict \<Rightarrow> pydict prog" where
  \<comment> \<open>the request itself: a refusal before the submission releases the intent, an answer is recorded\<close>
  "submit_pair E c entry allow request =
     bindP (tryP (bindP (ib_ensure_protection E c request) (\<lambda>r. retP (Inr r))) (retryable allow)
              (\<lambda>e. bindP (release_intent E entry (case e of HTTPStatusError _ (Some d) \<Rightarrow> d | _ \<Rightarrow> [])) (\<lambda>p. retP (Inl p)))) (\<lambda>r. case r of
       Inl p \<Rightarrow> retP p
     | Inr answer \<Rightarrow> bindP (liftP (as_dict answer)) (record_protection E entry))"

definition ensure_native_protection ::
    "env \<Rightarrow> ibkr_client \<Rightarrow> automation_action \<Rightarrow> string \<Rightarrow> string \<Rightarrow> pyfloat \<Rightarrow> pyval \<Rightarrow> pydict prog" where
  "ensure_native_protection E c entry symbol position_side quantity account_id =
     tryP
      (bindP (now_ms E) (\<lambda>now.
       bindP (liftP (protection_plan E now entry position_side quantity)) (\<lambda>plan. case plan of
         None \<Rightarrow> retP (blocked_protection ''PROTECTION_OWNERSHIP_QUANTITY_MISMATCH'')
       | Some (raw, prior, stop, target) \<Rightarrow>
           let request = protection_request entry symbol account_id position_side quantity stop target prior
           in seqP (if allow_submit prior
                    then seqP (write_audit (with_json (PDict (dset ''native_protection'' (submitting entry now) raw)) entry)) (commit E)
                    else retP ())
             (submit_pair E c entry (allow_submit prior) request))))
      (\<lambda>e. e = KeyError \<or> is_type_or_value e) (\<lambda>e. retP (blocked_protection (invalid_levels_reason e)))"

definition protection_profile_ready :: "automation_action \<Rightarrow> broker_profile \<Rightarrow> bool" where
  "protection_profile_ready entry p \<longleftrightarrow> bp_user_id p = ac_user_id entry \<and> bp_provider p = ''IBKR'' \<and> bp_environment p = ''PAPER''
     \<and> bp_is_enabled p \<and> bp_is_active p \<and> bp_credentials_configured p \<and> bp_last_connection_status p = ''CONNECTED''"

definition protect_saved_entry :: "env \<Rightarrow> automation_action option \<Rightarrow> pydict prog" where
  "protect_saved_entry E saved =
     (case saved of None \<Rightarrow> retP (blocked_protection ''PROTECTION_ENTRY_NOT_VERIFIED'')
      | Some entry \<Rightarrow>
          if ac_provider entry \<noteq> ''IBKR'' \<or> ac_environment entry \<noteq> Some ''PAPER'' \<or> ac_status entry \<noteq> ''EXECUTED''
          then retP (blocked_protection ''PROTECTION_ENTRY_NOT_VERIFIED'')
          else bindP (case ac_broker_profile_id entry of None \<Rightarrow> retP None | Some i \<Rightarrow> get_profile i) (\<lambda>profile. case profile of
            None \<Rightarrow> retP (blocked_protection ''PROTECTION_PROFILE_NOT_READY'')
          | Some p \<Rightarrow>
              if \<not> protection_profile_ready entry p then retP (blocked_protection ''PROTECTION_PROFILE_NOT_READY'')
              else bindP (getP (\<lambda>w. has_pending_exit p (ac_symbol entry) (w_db w))) (\<lambda>pending.
                if pending then retP (blocked_protection ''PENDING_EXIT_RECONCILIATION_REQUIRED'')
                else bindP (liftP (secret_of E p)) (\<lambda>creds.
                     bindP (liftP (ibkr_client_of creds)) (\<lambda>c.
                       tryP (ensure_native_protection E c entry (ac_symbol entry) (if ac_side entry = Some ''BUY'' then ''LONG'' else ''SHORT'')
                               (quantity_of entry) (dget creds ''account_id''))
                         is_exception (\<lambda>e. retP (blocked_protection (protection_error_reason e))))))))"

section \<open>The rows of the lifecycle\<close>

definition exit_row ::
    "nat \<Rightarrow> nat \<Rightarrow> nat \<Rightarrow> broker_profile \<Rightarrow> pydict \<Rightarrow> pydict \<Rightarrow> int \<Rightarrow> automation_action res" where
  "exit_row i scan_id user_id profile item result now_us =
     bindE (vget (py_or (dget result ''broker_result'') (PDict [])) ''order_id'') (\<lambda>order_id.
     bindE (float_or0 (dget item ''quantity'')) (\<lambda>qty.
       let text = (\<lambda>v limit. or_else (short v limit) [])
       in if dget item ''market'' = PNone then Inl SQLAlchemyError \<comment> \<open>the column is not nullable\<close>
          else Inr \<lparr>ac_id = i, ac_scan_id = scan_id, ac_user_id = user_id, ac_broker_profile_id = Some (bp_id profile),
              ac_provider = ''IBKR'', ac_environment = Some ''PAPER'', ac_market = text (dget item ''market'') 24,
              ac_symbol = text (dget item ''symbol'') 32, ac_side = short (dget result ''close_side'') 8,
              ac_status = text (py_or (dget result ''status'') (PStr ''UNKNOWN'')) 24, ac_reason = short (dget result ''reason'') 128,
              ac_quantity = Some qty, ac_sizing_policy = Some ''POSITION_LIFECYCLE_EXIT'', ac_broker_order_id = short order_id 128,
              ac_broker_position_id = None, ac_raw_json = Some (Json (PDict [(''position'', PDict item), (''result'', PDict result)])),
              ac_created_at = now_us\<rparr>))"

definition persist_exit :: "env \<Rightarrow> nat \<Rightarrow> broker_profile \<Rightarrow> pydict \<Rightarrow> pydict \<Rightarrow> nat option \<Rightarrow> unit prog" where
  \<comment> \<open>\<open>_persist\<close>, with the identifier the result prescribes, if any\<close>
  "persist_exit E scan_id profile item result own_id =
     bindP (getP (\<lambda>w. (db_next_id (w_db w), 1000 * en_now E (w_tick w)))) (\<lambda>(fresh, now_us).
     bindP (liftP (exit_row (or_else own_id fresh) scan_id (bp_user_id profile) profile item result now_us)) (\<lambda>row.
       modify_db (\<lambda>d. d\<lparr>db_actions := db_actions d @ [row], db_next_id := (if own_id = None then fresh + 1 else fresh)\<rparr>)))"

section \<open>Reconciliation\<close>

definition object_rows :: "pyval \<Rightarrow> pydict list res" where
  \<comment> \<open>\<open>data.get('list', [])\<close>, read as a list of objects\<close>
  "object_rows data = bindE (strict_rows data) (mapE as_dict)"

definition reconcile_submitted_entries :: "env \<Rightarrow> broker_profile \<Rightarrow> pydict list \<Rightarrow> pyval \<Rightarrow> unit prog" where
  "reconcile_submitted_entries E p executions account_id =
     bindP (getP (\<lambda>w. filter (submitted_entry p) (db_actions (w_db w)))) (\<lambda>actions.
       foldP (\<lambda>_ a. bindP (now_ms E) (\<lambda>now.
                bindP (liftP (reconciled_by_executions E now executions account_id a)) (\<lambda>r.
                  case r of None \<Rightarrow> retP () | Some b \<Rightarrow> write_action b))) () actions)"

definition reconcile_submitted_entries_from_positions :: "env \<Rightarrow> broker_profile \<Rightarrow> pydict list \<Rightarrow> pyval \<Rightarrow> unit prog" where
  "reconcile_submitted_entries_from_positions E p positions account_id =
     bindP (getP (\<lambda>w. filter (submitted_entry p) (db_actions (w_db w)))) (\<lambda>rows.
     bindP (liftP (live_positions account_id positions)) (\<lambda>live.
       foldP (\<lambda>_ symbol. case sole_pair rows live symbol of
            None \<Rightarrow> retP ()
          | Some pair \<Rightarrow> bindP (now_ms E) (\<lambda>now. bindP (liftP (reconciled_by_position now account_id pair)) (\<lambda>r.
               case r of None \<Rightarrow> retP () | Some b \<Rightarrow> write_action b)))
         () (first_keys (map (\<lambda>a. canonical_symbol (PStr (ac_symbol a))) rows))))"

section \<open>Exits the broker executed by itself\<close>

definition protective_ids :: "automation_action \<Rightarrow> (pyval \<times> string list) option res" where
  \<comment> \<open>the saved protection and its order identifiers; None when the document cannot be read\<close>
  "protective_ids entry =
     tryE (bindE (json_loads (ac_raw_json entry)) (\<lambda>v. bindE (vget v ''native_protection'') (\<lambda>np.
           let protection = py_or np (PDict [])
           in bindE (as_dict protection) (\<lambda>d.
              bindE (bindE (as_list (dget_or d ''orders'' (PList []))) (mapE (\<lambda>row. bindE (vsub row ''order_id'') (\<lambda>i. Inr (py_str i))))) (\<lambda>a.
              bindE (as_list (dget_or d ''order_ids'' (PList []))) (\<lambda>b.
                Inr (Some (protection, a @ map py_str b))))))))
       (\<lambda>e. e = KeyError \<or> is_type_or_value e) (\<lambda>_. Inr None)"

definition position_open :: "pyval \<Rightarrow> string \<Rightarrow> pydict \<Rightarrow> bool res" where
  "position_open account_id symbol p =
     (if \<not> py_eq (dget p ''account'') account_id \<or> canonical_symbol (dget p ''symbol'') \<noteq> symbol then Inr False
      else bindE (float_or0 (dget p ''quantity'')) (\<lambda>q. Inr (\<not> feq q 0)))"

fun by_execution :: "(pyval \<times> pydict) list \<Rightarrow> pydict list \<Rightarrow> (pyval \<times> pydict) list res" where
  \<comment> \<open>the dictionary comprehension: the last row of an identity, at the place of its first one\<close>
  "by_execution acc [] = Inr acc"
| "by_execution acc (row # rows) =
     (let i = dget row ''execution_id''
      in if \<not> truth i then by_execution acc rows
         else if unhashable i then Inl TypeError
         else by_execution (if list_ex (\<lambda>(j, _). py_eq j i) acc then map (\<lambda>(j, r). (j, if py_eq j i then row else r)) acc else acc @ [(i, row)]) rows)"

definition native_exit :: "automation_action \<Rightarrow> nat \<Rightarrow> pyval \<Rightarrow> string list \<Rightarrow> pydict list \<Rightarrow> pydict list \<Rightarrow> pyval \<Rightarrow> (pydict \<times> pydict) option res" where
  \<comment> \<open>the item and the result of a proven exit: the position is flat and the protective orders' executions close the entry\<close>
  "native_exit entry exit_id protection ids executions positions account_id =
     bindE (anyE (position_open account_id (ac_symbol entry)) positions) (\<lambda>still_open.
       if still_open then Inr None
       else let side = (if ac_side entry = Some ''BUY'' then ''SLD'' else ''BOT'');
                rows = filter (\<lambda>e. py_str (dget e ''order_id'') \<in> set ids \<and> py_eq (dget e ''account'') account_id
                         \<and> canonical_symbol (dget e ''symbol'') = ac_symbol entry \<and> dget e ''side'' = PStr side) executions
            in bindE (by_execution [] rows) (\<lambda>unique.
               bindE (mapE (\<lambda>(_, e). float_or0 (dget e ''quantity'')) unique) (\<lambda>qs.
                 if \<not> quantities_match (pysum qs) (quantity_of entry) \<or> unique = [] \<or> quantity_of entry \<le> 0 then Inr None
                 else bindE (dsub (snd (last unique)) ''order_id'') (\<lambda>order_id. Inr (Some
                   ([(''market'', PStr (ac_market entry)), (''symbol'', PStr (ac_symbol entry)), (''quantity'', opt_val PFloat (ac_quantity entry)),
                     (''entry_order_id'', opt_val PStr (ac_broker_order_id entry)), (''entry_action_id'', PStr (id_text (ac_id entry))),
                     (''protection'', protection), (''executions'', PList (map (PDict \<circ> snd) unique))],
                    [(''status'', PStr ''EXIT_EXECUTED''), (''reason'', PStr ''BROKER_NATIVE_PROTECTIVE_EXIT''),
                     (''audit_action_id'', PStr (id_text exit_id)),
                     (''close_side'', PStr (if ac_side entry = Some ''BUY'' then ''SELL'' else ''BUY'')),
                     (''broker_result'', PDict [(''order_id'', order_id), (''execution_ids'', PList (map fst unique))])]))))))"

definition reconcile_native_exit ::
    "env \<Rightarrow> nat \<Rightarrow> broker_profile \<Rightarrow> pydict list \<Rightarrow> pydict list \<Rightarrow> pyval \<Rightarrow> pydict list \<Rightarrow> automation_action \<Rightarrow> pydict list prog" where
  "reconcile_native_exit E scan_id p executions positions account_id results entry =
     bindP (liftP (protective_ids entry)) (\<lambda>read. case read of None \<Rightarrow> retP results | Some (protection, ids) \<Rightarrow>
       let exit_id = en_uuid5 E (ac_id entry)
       in bindP (getP (\<lambda>w. (latest_entry (bp_user_id p) (bp_id p) (ac_symbol entry) (w_db w), by_key ac_id exit_id (db_actions (w_db w))))) (\<lambda>(latest, known).
          if ids = [] \<or> map_option ac_id latest \<noteq> Some (ac_id entry) \<or> known \<noteq> None then retP results
          else bindP (liftP (native_exit entry exit_id protection ids executions positions account_id)) (\<lambda>r. case r of
                 None \<Rightarrow> retP results
               | Some (item, result) \<Rightarrow>
                   seqP (persist_exit E scan_id p item result (Some exit_id))
                  (seqP (update_scan scan_id (\<lambda>s. s\<lparr>sn_executed_count := sn_executed_count s + 1\<rparr>))
                     (retP (results @ [dmerge item result]))))))"

definition reconcile_native_exits :: "env \<Rightarrow> nat \<Rightarrow> broker_profile \<Rightarrow> pydict list \<Rightarrow> pydict list \<Rightarrow> pyval \<Rightarrow> pydict list prog" where
  "reconcile_native_exits E scan_id p executions positions account_id =
     bindP (getP (\<lambda>w. filter (\<lambda>a. ac_user_id a = bp_user_id p \<and> ac_broker_profile_id a = Some (bp_id p) \<and> ac_provider a = ''IBKR''
              \<and> ac_environment a = Some ''PAPER'' \<and> ac_status a = ''EXECUTED'') (db_actions (w_db w))))
       (foldP (reconcile_native_exit E scan_id p executions positions account_id) [])"

section \<open>One position\<close>

definition TERMINAL_CLOSE_STATUSES :: "string list" where
  "TERMINAL_CLOSE_STATUSES = [''CANCELLED'', ''CANCELED'', ''INACTIVE'', ''API CANCELLED'', ''APICANCELLED'']"

fun verify_close_fill :: "env \<Rightarrow> ibkr_client \<Rightarrow> pyval \<Rightarrow> pyfloat \<Rightarrow> bool \<Rightarrow> pyval \<Rightarrow> nat \<Rightarrow> (bool \<times> pyval) prog" where
  \<comment> \<open>\<open>_verify_fill\<close>: whether this is the first attempt, the latest answer and the attempts left\<close>
  "verify_close_fill E c order_id quantity first latest 0 = retP (False, latest)"
| "verify_close_fill E c order_id quantity first latest (Suc n) =
     seqP (if first then retP () else suspend E)
       (bindP (tryP (bindP (bindP (liftP (py_int order_id)) (ib_order_status E c)) (\<lambda>d. retP (Inr d)))
                 is_exception (\<lambda>e. retP (Inl e))) (\<lambda>r. case r of
          Inl e \<Rightarrow> retP (False, PDict [(''verification_error'', PStr (exn_name e))])
        | Inr answer \<Rightarrow>
            bindP (liftP (bindE (as_dict answer) (\<lambda>d. sub_dict d ''status''))) (\<lambda>status.
            bindP (liftP (ibkr_fill_is_complete (PDict status) (PFloat quantity))) (\<lambda>complete.
              if complete then retP (True, answer)
              else if upper_or_empty (dget status ''status'') \<in> set TERMINAL_CLOSE_STATUSES then retP (False, answer)
              else verify_close_fill E c order_id quantity False answer n))))"

record managed_account =
  ma_profile :: broker_profile
  ma_client :: ibkr_client
  ma_account :: pyval              \<comment> \<open>\<open>creds.get('account_id')\<close>\<close>
  ma_executions :: "pydict list"
  ma_default :: strategy_profile
  ma_scan :: nat

definition record_result :: "env \<Rightarrow> managed_account \<Rightarrow> pydict \<Rightarrow> pydict \<Rightarrow> (pydict list, unit) act" where
  \<comment> \<open>\<open>results.append(...); _persist(...)\<close>\<close>
  "record_result E a item result =
     seqL (keep_result item result) (doL (persist_exit E (ma_scan a) (ma_profile a) item result None))"

definition exit_blocked :: "string \<Rightarrow> pydict" where
  "exit_blocked reason = [(''status'', PStr ''EXIT_BLOCKED''), (''reason'', PStr reason)]"

definition ownership_blockers :: "automation_action option \<Rightarrow> string \<Rightarrow> symbol_strategy option \<Rightarrow> string list" where
  "ownership_blockers entry position_side cfg =
     (case entry of None \<Rightarrow> [''OWNERSHIP_NOT_VERIFIED'']
        | Some e \<Rightarrow> if (ac_side e = Some ''BUY'' \<and> position_side \<noteq> ''LONG'') \<or> (ac_side e = Some ''SELL'' \<and> position_side \<noteq> ''SHORT'')
                   then [''POSITION_DIRECTION_MISMATCH''] else [])
     @ (if cfg = None then [''AUTO_TRADE_NOT_ENABLED''] else [])"

definition position_item :: "broker_profile \<Rightarrow> string option \<Rightarrow> string \<Rightarrow> string \<Rightarrow> pyfloat \<Rightarrow> automation_action option \<Rightarrow> pydict" where
  "position_item p market symbol position_side quantity entry =
     [(''profile_id'', PStr (id_text (bp_id p))), (''market'', opt_val PStr market), (''symbol'', PStr symbol),
      (''position_side'', PStr position_side), (''quantity'', PFloat quantity),
      (''entry_order_id'', (case entry of None \<Rightarrow> PNone | Some e \<Rightarrow> opt_val PStr (ac_broker_order_id e)))]"

definition protect_position ::
    "env \<Rightarrow> managed_account \<Rightarrow> automation_action \<Rightarrow> string \<Rightarrow> string \<Rightarrow> pyfloat \<Rightarrow> pydict \<Rightarrow> (pydict list, unit) act" where
  \<comment> \<open>broker-held exits own the position: a pending exit is left alone, the protective pair is ensured\<close>
  "protect_position E a entry symbol position_side quantity item =
     bindL (doL (getP (\<lambda>w. has_pending_exit (ma_profile a) symbol (w_db w)))) (\<lambda>pending.
       if pending then seqL (record_result E a item (blocked_protection ''PENDING_EXIT_RECONCILIATION_REQUIRED'')) (doL (commit E))
       else bindL (doL (tryP (ensure_native_protection E (ma_client a) entry symbol position_side quantity (ma_account a))
                          is_exception (\<lambda>e. retP (blocked_protection (protection_error_reason e))))) (\<lambda>protection.
            seqL (record_result E a item (dset ''reason'' (py_or (dget protection ''reason'') (PStr ''BROKER_HELD_OCA_PROTECTION'')) protection))
                 (doL (commit E))))"

definition exit_signal ::
    "env \<Rightarrow> managed_account \<Rightarrow> symbol_strategy \<Rightarrow> string \<Rightarrow> string \<Rightarrow> string \<Rightarrow> (bool \<times> pydict) prog" where
  \<comment> \<open>whether a strong opposite signal asks for the exit, and what the item records of it\<close>
  "exit_signal E a cfg market symbol position_side =
     (let timeframe = strategy_timeframe cfg (ma_default a); minimum = minimum_strength cfg (ma_default a)
      in bindP (bindP (ib_candles E (ma_client a) symbol timeframe 201) (\<lambda>d. liftP (as_dict d))) (\<lambda>payload.
         bindP (now_ms E) (\<lambda>now.
         bindP (liftP (completed_ibkr_candles payload timeframe now)) (\<lambda>candles.
         bindP (liftP (generate_signal candles timeframe (if market = [] then ''STOCK'' else market))) (\<lambda>signal.
           retP (opposite position_side (str_upper (gs_decision signal)) \<and> minimum \<le> gs_strength signal,
                 [(''signal_decision'', PStr (gs_decision signal)), (''signal_strength'', PFloat (gs_strength signal)),
                  (''minimum_signal_strength'', PFloat minimum)]))))))"

definition close_and_verify :: "env \<Rightarrow> managed_account \<Rightarrow> string \<Rightarrow> string \<Rightarrow> pyfloat \<Rightarrow> (bool \<times> pydict) prog" where
  \<comment> \<open>the closing order, whether its fill is verified, and the result to record\<close>
  "close_and_verify E a symbol position_side quantity =
     bindP (bindP (ib_close_position E (ma_client a) symbol (PFloat quantity) position_side (ma_account a)) (\<lambda>r. liftP (as_dict r))) (\<lambda>answer.
       let result = (\<lambda>status broker. [(''status'', PStr status), (''reason'', PStr ''STRONG_OPPOSITE_SIGNAL''),
              (''close_side'', PStr (if position_side = ''LONG'' then ''SELL'' else ''BUY'')), (''broker_result'', PDict broker)])
       in if dget answer ''order_id'' = PNone then retP (False, result ''EXIT_SUBMITTED'' answer)
          else bindP (verify_close_fill E (ma_client a) (dget answer ''order_id'') quantity True PNone 6) (\<lambda>(filled, final).
               retP (filled, result (if filled then ''EXIT_EXECUTED'' else ''EXIT_SUBMITTED'') (dset ''final_status'' final answer))))"

definition exit_by_signal ::
    "env \<Rightarrow> managed_account \<Rightarrow> symbol_strategy \<Rightarrow> string \<Rightarrow> string \<Rightarrow> string \<Rightarrow> pyfloat \<Rightarrow> pydict \<Rightarrow> (pydict list, unit) act" where
  "exit_by_signal E a cfg market symbol position_side quantity item0 =
     bindL (doL (exit_signal E a cfg market symbol position_side)) (\<lambda>(should_exit, seen).
       let item = dmerge item0 seen
       in if \<not> should_exit then keep_result item [(''status'', PStr ''HOLD''), (''reason'', PStr ''NO_EXIT_SIGNAL'')]
          else seqL (doL (update_scan (ma_scan a) (\<lambda>s. s\<lparr>sn_signals_count := sn_signals_count s + 1, sn_approved_count := sn_approved_count s + 1\<rparr>)))
              (bindL (doL (close_and_verify E a symbol position_side quantity)) (\<lambda>(filled, result).
                 seqL (doL (if filled then update_scan (ma_scan a) (\<lambda>s. s\<lparr>sn_executed_count := sn_executed_count s + 1\<rparr>) else retP ()))
                (seqL (record_result E a item result) (doL (commit E))))))"

definition trading_config :: "broker_profile \<Rightarrow> string \<Rightarrow> symbol_strategy option prog" where
  "trading_config p symbol = find_strategy (\<lambda>s. ss_user_id s = bp_user_id p \<and> ss_profile_id s = bp_id p \<and> ss_symbol s = symbol
     \<and> ss_enabled s \<and> ss_mode s = ''AUTO_TRADE'')"

definition manage_open_position :: "env \<Rightarrow> managed_account \<Rightarrow> pydict \<Rightarrow> pyfloat \<Rightarrow> (pydict list, unit) act" where
  "manage_open_position E a pos qty =
     (let p = ma_profile a; symbol = canonical_symbol (dget pos ''symbol''); position_side = (if 0 < qty then ''LONG'' else ''SHORT'')
      in seqL (doL (update_scan (ma_scan a) (\<lambda>s. s\<lparr>sn_symbols_count := sn_symbols_count s + 1\<rparr>)))
        (bindL (doL (getP (\<lambda>w. latest_entry (bp_user_id p) (bp_id p) symbol (w_db w)))) (\<lambda>entry.
         bindL (doL (trading_config p symbol)) (\<lambda>cfg.
           let item = position_item p (map_option (\<lambda>s. str_upper (ss_market s)) cfg) symbol position_side (fabs qty) entry;
               blockers = ownership_blockers entry position_side cfg
           in case (entry, cfg) of
                (Some e, Some s) \<Rightarrow>
                  if blockers \<noteq> [] then record_result E a item (exit_blocked (join ''|'' blockers))
                  else bindL (doL (bindP (bindP (liftP (py_int (opt_val PStr (ac_broker_order_id e)))) (ib_order_status E (ma_client a)))
                                     (\<lambda>d. liftP (bindE (as_dict d) (\<lambda>d. sub_dict d ''status''))))) (\<lambda>broker_entry.
                       let (verified, source) = entry_fill_verified e broker_entry position_side (fabs qty);
                           item = dset ''entry_fill_source'' (PStr source) item
                       in if \<not> verified then record_result E a item (exit_blocked ''ENTRY_FILL_NOT_VERIFIED'')
                          else bindL (doL (bindP (now_ms E) (\<lambda>now. liftP (save_entry_execution_evidence E now e (ma_executions a) (ma_account a))))) (\<lambda>saved.
                               seqL (doL (case saved of None \<Rightarrow> retP () | Some e' \<Rightarrow> write_audit e'))
                                 (if ibkr_native_protection_enabled (en_settings E)
                                  then protect_position E a (or_else saved e) symbol position_side (fabs qty) item
                                  else exit_by_signal E a s (str_upper (ss_market s)) symbol position_side (fabs qty) item)))
              | _ \<Rightarrow> record_result E a item (exit_blocked (join ''|'' blockers))))))"

definition manage_position :: "env \<Rightarrow> managed_account \<Rightarrow> pydict \<Rightarrow> (pydict list, unit) act" where
  \<comment> \<open>only a position of the configured account with a quantity other than zero\<close>
  "manage_position E a pos =
     (if \<not> truth (ma_account a) \<or> \<not> py_eq (dget pos ''account'') (ma_account a) then retL ()
      else bindL (liftL (float_or0 (dget pos ''quantity''))) (\<lambda>qty. if feq qty 0 then retL () else manage_open_position E a pos qty))"

section \<open>One run of the manager\<close>

definition manage_profile :: "env \<Rightarrow> nat \<Rightarrow> strategy_profile \<Rightarrow> broker_profile \<Rightarrow> (pydict list, unit) act" where
  "manage_profile E scan_id def p =
     bindL (liftL (secret_of E p)) (\<lambda>creds.
     bindL (liftL (ibkr_client_of creds)) (\<lambda>c.
     bindL (doL (bindP (ib_health E c) (\<lambda>h. liftP (as_dict h)))) (\<lambda>health.
       if \<not> truth (dget health ''connected'') \<or> \<not> truth (dget health ''simulation'') then retL ()
       else let account_id = dget creds ''account_id''
            in bindL (doL (bindP (ib_get E c ''/executions'' [(''days'', PInt 30)]) (\<lambda>d. liftP (object_rows d)))) (\<lambda>executions.
               seqL (doL (reconcile_submitted_entries E p executions account_id))
              (bindL (doL (bindP (ib_get E c ''/positions'' []) (\<lambda>d. liftP (object_rows d)))) (\<lambda>positions.
               seqL (doL (reconcile_submitted_entries_from_positions E p positions account_id))
              (seqL (if ibkr_native_protection_enabled (en_settings E)
                     then bindL (doL (reconcile_native_exits E scan_id p executions positions account_id)) (\<lambda>exits. modL (\<lambda>rs. rs @ exits))
                     else retL ())
                 (eachL (manage_position E \<lparr>ma_profile = p, ma_client = c, ma_account = account_id, ma_executions = executions,
                            ma_default = def, ma_scan = scan_id\<rparr>) positions))))))))"

definition managed_profile :: "broker_profile \<Rightarrow> bool" where
  "managed_profile p \<longleftrightarrow> bp_provider p = ''IBKR'' \<and> bp_environment p = ''PAPER'' \<and> bp_is_enabled p \<and> bp_is_active p
     \<and> bp_last_connection_status p = ''CONNECTED''"

definition load_profiles_where :: "(broker_profile \<Rightarrow> bool) \<Rightarrow> broker_profile list prog" where
  "load_profiles_where sel =
     bindP (getP (\<lambda>w. filter sel (db_profiles (w_db w))))
       (foldP (\<lambda>ps row. bindP (load_profile row) (\<lambda>p. retP (ps @ [p]))) [])"

definition complete_scan :: "env \<Rightarrow> nat \<Rightarrow> automation_scan prog" where
  \<comment> \<open>the committed end of a scan\<close>
  "complete_scan E i =
     bindP (scan_now E) (\<lambda>now.
     seqP (update_scan i (\<lambda>s. s\<lparr>sn_status := ''COMPLETED'', sn_finished_at := Some now\<rparr>))
    (seqP (commit E) (bindP (scan_of i) (\<lambda>s. case s of None \<Rightarrow> liftP (Inl SQLAlchemyError) | Some row \<Rightarrow> retP row))))"

definition lifecycle_report :: "string \<Rightarrow> automation_scan \<Rightarrow> pydict list \<Rightarrow> pydict" where
  "lifecycle_report purpose s results =
     [(''status'', PStr ''COMPLETED''), (''purpose'', PStr purpose), (''execution_enabled'', PBool True),
      (''evaluated'', PInt (sn_symbols_count s)), (''exit_signals'', PInt (sn_signals_count s)),
      (''exit_executed'', PInt (sn_executed_count s)), (''results'', PList (map PDict results))]"

definition run_ibkr_position_manager :: "env \<Rightarrow> pydict prog" where
  "run_ibkr_position_manager E = with_session
     (bindP (get_or_create_state E) (\<lambda>state. case engine_blocker state of Some reason \<Rightarrow> retP (skipped reason) | None \<Rightarrow>
      bindP (load_profiles_where managed_profile) (\<lambda>profiles.
        if profiles = [] then retP (skipped ''NO_IBKR_PAPER_PROFILES'')
        else bindP (start_scan E 0 (int (length profiles))) (\<lambda>i.
             bindP (getP (\<lambda>w. default_strategy (w_db w))) (\<lambda>def.
               guarded_worker E i
                 (seqL (eachL (manage_profile E i def) profiles) (bindL (doL (complete_scan E i)) (\<lambda>_. retL ())))
                 (\<lambda>results. bindP (scan_of i) (\<lambda>s. case s of None \<Rightarrow> liftP (Inl SQLAlchemyError)
                    | Some row \<Rightarrow> retP (lifecycle_report ''IBKR_PAPER_POSITION_LIFECYCLE_EXECUTION'' row results))))))))"

section \<open>The loop's cadence\<close>

definition engine_on :: "automation_state \<Rightarrow> bool" where
  "engine_on s \<longleftrightarrow> au_enabled s \<and> \<not> au_killed s \<and> au_auto_execute_paper s"

definition manager_interval :: "automation_state \<Rightarrow> int" where
  \<comment> \<open>\<open>max(30, int(interval or 300))\<close>\<close>
  "manager_interval s = max 30 (if au_interval_seconds s = 0 then 300 else au_interval_seconds s)"

definition ibkr_manager_wait :: "app_settings \<Rightarrow> automation_state \<Rightarrow> int" where
  "ibkr_manager_wait settings s =
     (if engine_on s then ibkr_position_monitor_interval_seconds settings else manager_interval s)"

definition ibkr_manager_iteration :: "env \<Rightarrow> int prog" where
  \<comment> \<open>one iteration of the loop: the seconds it waits afterwards; an exception is retried after 30\<close>
  "ibkr_manager_iteration E =
     tryP (bindP (with_session (get_or_create_state E)) (\<lambda>s.
             seqP (if engine_on s then bindP (run_ibkr_position_manager E) (\<lambda>_. retP ()) else retP ())
               (retP (ibkr_manager_wait (en_settings E) s))))
       is_exception (\<lambda>_. retP 30)"

end
