(* ===== verification/Safe_Scan.thy ===== *)
theory Safe_Scan
  imports Position_Manager
begin

text \<open>
  \<open>run_safe_scan\<close> and one iteration of \<open>safe_automation_loop\<close> of \<open>app/services/safe_automation.py\<close>: the
  scan over all owners with trading strategies, from the preflight of each owner to the execution and
  the audit row of each item. Log lines (\<open>context\<close>, \<open>emit\<close>, \<open>traced\<close>) are not modelled. The owners are
  visited in the order of their identifiers, which stands for the order of their texts.
\<close>

section \<open>One item\<close>

definition scan_outcome :: "pydict \<Rightarrow> string \<Rightarrow> pyval \<Rightarrow> pydict" where
  \<comment> \<open>the blocked results the scan itself makes\<close>
  "scan_outcome item provider reason =
     [(''market'', dget item ''market''), (''symbol'', dget item ''symbol''), (''provider'', PStr provider),
      (''status'', PStr ''BLOCK''), (''reason'', reason)]"

definition execute_item :: "env \<Rightarrow> nat \<Rightarrow> nat \<Rightarrow> string \<Rightarrow> pydict \<Rightarrow> (pydict \<times> automation_action option) prog" where
  \<comment> \<open>the result of the route and, for IBKR, its audit row; an exception is a blocked result\<close>
  "execute_item E scan_id user_id provider item =
     tryP (if provider = ''BYBIT'' then bindP (execute_bybit E user_id item) (\<lambda>r. retP (r, None))
           else if provider = ''MT5'' then bindP (execute_mt5 E user_id item) (\<lambda>r. retP (r, None))
           else if provider = ''IBKR'' then execute_ibkr_audited E scan_id user_id item
           else retP (scan_outcome item provider (opt_val PStr (automation_certification_blocker provider [])), None))
       is_exception
       (\<lambda>e. retP (scan_outcome item provider (PStr (''EXECUTION_ERROR:'' @ short_text (exn_message E e) 100)), None))"

definition attach_protection :: "pydict \<Rightarrow> pydict list \<Rightarrow> pydict list" where
  \<comment> \<open>\<open>result['native_protection'] = protection\<close> on the result appended last\<close>
  "attach_protection protection results =
     (if results = [] then [] else butlast results @ [dset ''native_protection'' (PDict protection) (last results)])"

definition settle_item :: "env \<Rightarrow> nat \<Rightarrow> nat \<Rightarrow> string \<Rightarrow> pydict \<Rightarrow> pydict \<Rightarrow> automation_action option \<Rightarrow> (pydict list, unit) act" where
  \<comment> \<open>the audit row, the counter, the commit, and the protective pair of an executed IBKR entry\<close>
  "settle_item E scan_id user_id provider item result saved =
     (let executed = py_eq (dget result ''status'') (PStr ''EXECUTED'')
      in seqL (modL (\<lambda>rs. rs @ [result]))
        (bindL (doL (case saved of Some a \<Rightarrow> retP a | None \<Rightarrow> persist_action E scan_id user_id item result)) (\<lambda>action.
         seqL (doL (if executed then update_scan scan_id (\<lambda>s. s\<lparr>sn_executed_count := sn_executed_count s + 1\<rparr>) else retP ()))
        (seqL (doL (commit E))
          (if provider = ''IBKR'' \<and> executed \<and> ibkr_native_protection_enabled (en_settings E)
           then bindL (doL (protect_saved_entry E (Some action))) (\<lambda>protection. modL (attach_protection protection))
           else retL ())))))"

definition scan_item :: "env \<Rightarrow> nat \<Rightarrow> nat \<Rightarrow> pydict \<Rightarrow> (pydict list, unit) act" where
  "scan_item E scan_id user_id item =
     (let provider = upper_or_empty (dget item ''provider'')
      in if \<not> py_eq (dget item ''preflight'') (PStr ''PASS'')
         then let result = scan_outcome item provider (py_or (dget item ''reason'') (PStr ''READINESS_BLOCKED''))
              in seqL (modL (\<lambda>rs. rs @ [result])) (bindL (doL (persist_action E scan_id user_id item result)) (\<lambda>_. retL ()))
         else seqL (doL (update_scan scan_id (\<lambda>s. s\<lparr>sn_signals_count := sn_signals_count s + 1, sn_approved_count := sn_approved_count s + 1\<rparr>)))
             (bindL (liftL (sub_dict item ''request'')) (\<lambda>_.
              bindL (doL (execute_item E scan_id user_id provider item)) (\<lambda>(result, saved).
                settle_item E scan_id user_id provider item result saved))))"

definition scan_owner :: "env \<Rightarrow> nat \<Rightarrow> nat \<Rightarrow> (pydict list, unit) act" where
  "scan_owner E scan_id user_id =
     bindL (doL (active_owner user_id)) (\<lambda>active.
       if \<not> active then retL ()
       else bindL (doL (bindP (autotrade_preflight E user_id [] []) (\<lambda>d.
                     liftP (bindE (as_list (dget_or d ''items'' (PList []))) (mapE as_dict)))))
              (eachL (scan_item E scan_id user_id)))"

section \<open>The scan\<close>

definition auto_trade :: "symbol_strategy \<Rightarrow> bool" where
  "auto_trade s \<longleftrightarrow> ss_enabled s \<and> ss_mode s = ''AUTO_TRADE''"

definition load_auto_configs :: "symbol_strategy list prog" where
  "load_auto_configs =
     bindP (getP (\<lambda>w. filter auto_trade (db_strategies (w_db w))))
       (foldP (\<lambda>cs row. bindP (load_strategy row) (\<lambda>c. retP (cs @ [c]))) [])"

definition schedule_next :: "nat \<Rightarrow> int \<Rightarrow> int \<Rightarrow> unit prog" where
  "schedule_next state_id now interval =
     modify_db (\<lambda>d. d\<lparr>db_states := update_key au_id state_id
       (\<lambda>s. s\<lparr>au_last_scan_at := Some now, au_next_scan_at := Some (now + 10 ^ 6 * interval)\<rparr>) (db_states d)\<rparr>)"

definition finish_scan :: "env \<Rightarrow> nat \<Rightarrow> automation_state \<Rightarrow> unit prog" where
  \<comment> \<open>the interval is that of the state object, which the authorization of an entry has refreshed\<close>
  "finish_scan E scan_id state =
     bindP (scan_now E) (\<lambda>finished.
     bindP (getP (\<lambda>w. au_interval_seconds (cached au_id (w_states w) state))) (\<lambda>interval.
     seqP (update_scan scan_id (\<lambda>s. s\<lparr>sn_status := ''COMPLETED'', sn_finished_at := Some finished\<rparr>))
    (seqP (schedule_next (au_id state) finished interval) (commit E))))"

definition CERTIFIED_ROUTE_ROWS :: "env \<Rightarrow> pyval" where
  "CERTIFIED_ROUTE_ROWS E = PList
     [PDict [(''provider'', PStr ''BYBIT''), (''environment'', PStr ''TESTNET/DEMO''), (''product'', PStr ''SPOT''),
             (''sell_policy'', PStr ''ATLAS_MANAGED_INVENTORY_ONLY'')],
      PDict [(''provider'', PStr ''MT5''), (''environment'', PStr ''DEMO'')],
      PDict (dmerge [(''provider'', PStr ''IBKR''), (''environment'', PStr ''PAPER'')]
               (ibkr_fractional_policy_payload (ibkr_fractional_api_enabled (en_settings E))))]"

definition scan_report :: "env \<Rightarrow> automation_scan \<Rightarrow> pydict list \<Rightarrow> pydict" where
  "scan_report E s results =
     [(''status'', PStr ''COMPLETED''), (''purpose'', PStr ''CERTIFIED_AUTOMATIC_SIMULATION_EXECUTION''), (''execution_enabled'', PBool True),
      (''certified_routes'', CERTIFIED_ROUTE_ROWS E), (''blocked_routes'', PDict [(''BYBIT_LIVE'', PStr ''LIVE_MONEY_NOT_ARMED'')]),
      (''signals'', PInt (sn_signals_count s)), (''approved'', PInt (sn_approved_count s)), (''executed'', PInt (sn_executed_count s)),
      (''results'', PList (map PDict results))]"

definition run_safe_scan :: "env \<Rightarrow> pydict prog" where
  "run_safe_scan E = bindP (scan_now E) (\<lambda>now. with_session
     (bindP (get_or_create_state E) (\<lambda>state. case engine_blocker state of Some reason \<Rightarrow> retP (skipped reason) | None \<Rightarrow>
      bindP load_auto_configs (\<lambda>configs.
        let user_ids = sort (remdups (map ss_user_id configs))
        in if user_ids = []
           then seqP (schedule_next (au_id state) now (au_interval_seconds state))
               (seqP (commit E) (retP (skipped ''NO_AUTO_TRADE_SYMBOLS'')))
           else bindP (start_scan E (int (length configs)) (int (length (remdups (map ss_profile_id configs))))) (\<lambda>i.
                guarded_worker E i
                  (seqL (eachL (scan_owner E i) user_ids) (doL (finish_scan E i state)))
                  (\<lambda>results. bindP (scan_of i) (\<lambda>s. case s of None \<Rightarrow> liftP (Inl SQLAlchemyError)
                     | Some row \<Rightarrow> retP (scan_report E row results))))))))"

section \<open>The loop\<close>

definition scan_due :: "automation_state \<Rightarrow> int \<Rightarrow> bool" where
  "scan_due s now \<longleftrightarrow> (case au_next_scan_at s of None \<Rightarrow> True | Some t \<Rightarrow> t \<le> now)"

definition safe_automation_iteration :: "env \<Rightarrow> int prog" where
  \<comment> \<open>one iteration: the seconds it waits afterwards\<close>
  "safe_automation_iteration E =
     tryP (bindP (with_session (bindP (get_or_create_state E) (\<lambda>s. bindP (scan_now E) (\<lambda>now. retP (s, now))))) (\<lambda>(s, now).
             seqP (if engine_on s \<and> scan_due s now then bindP (run_safe_scan E) (\<lambda>_. retP ()) else retP ())
               (retP (min (max 30 (au_interval_seconds s)) 30))))
       is_exception (\<lambda>_. retP 15)"

end
