(* ===== verification/Mt5_Positions.thy ===== *)
theory Mt5_Positions
  imports Safe_Scan
begin

text \<open>
  \<open>app/services/position_lifecycle.py\<close> and \<open>app/services/mt5_position_manager.py\<close>: the read-only inspection
  of open positions, the exit signals of MT5 Demo positions, and the run that closes the positions with a
  strong opposite signal.
\<close>

section \<open>Strategies by symbol\<close>

definition strategy_key :: "symbol_strategy \<Rightarrow> string \<times> string" where
  "strategy_key s = (canonical_symbol (PStr (ss_symbol s)), str_upper (ss_market s))"

definition strategy_map :: "symbol_strategy list \<Rightarrow> ((string \<times> string) \<times> symbol_strategy) list" where
  \<comment> \<open>the dictionary comprehension: the last row of a key, at the place of its first one\<close>
  "strategy_map rows = map (\<lambda>k. (k, last (filter (\<lambda>s. strategy_key s = k) rows))) (first_keys (map strategy_key rows))"

definition strategy_for_symbol :: "((string \<times> string) \<times> symbol_strategy) list \<Rightarrow> string \<Rightarrow> (string \<times> symbol_strategy) option" where
  "strategy_for_symbol strategies symbol =
     map_option (\<lambda>((_, market), cfg). (market, cfg)) (find (\<lambda>((s, _), _). s = symbol) strategies)"

definition load_strategy_map :: "nat \<Rightarrow> ((string \<times> string) \<times> symbol_strategy) list prog" where
  "load_strategy_map user_id =
     bindP (getP (\<lambda>w. filter (\<lambda>s. ss_user_id s = user_id) (db_strategies (w_db w)))) (\<lambda>rows.
     bindP (foldP (\<lambda>cs row. bindP (load_strategy row) (\<lambda>c. retP (cs @ [c]))) [] rows) (\<lambda>cs. retP (strategy_map cs)))"

definition ibkr_owned_symbols :: "nat \<Rightarrow> nat \<Rightarrow> db \<Rightarrow> string list" where
  "ibkr_owned_symbols user_id profile_id d =
     map (\<lambda>a. canonical_symbol (PStr (ac_symbol a)))
       (filter (\<lambda>a. ac_user_id a = user_id \<and> ac_broker_profile_id a = Some profile_id \<and> ac_provider a = ''IBKR''
          \<and> ac_status a = ''EXECUTED'' \<and> ac_symbol a \<noteq> []) (db_actions d))"

definition opposite_signal :: "string \<Rightarrow> string \<Rightarrow> bool" where
  "opposite_signal position_side decision \<longleftrightarrow>
     (let side = str_upper position_side; d = str_upper decision
      in (side = ''BUY'' \<and> d = ''SELL'') \<or> (side = ''SELL'' \<and> d = ''BUY''))"

definition int_or0 :: "pyval \<Rightarrow> int res" where
  \<comment> \<open>\<open>int(v or 0)\<close>\<close>
  "int_or0 v = py_int (py_or v (PInt 0))"

definition atlas_comment :: "pydict \<Rightarrow> bool" where
  \<comment> \<open>\<open>str(p.get('comment') or '').upper().startswith('ATLAS')\<close>\<close>
  "atlas_comment p = starts_with ''ATLAS'' (upper_or_empty (dget p ''comment''))"

section \<open>Inspection\<close>

definition position_age :: "int \<Rightarrow> pyval \<Rightarrow> pyval res" where
  "position_age now_s opened =
     (if \<not> truth opened then Inr PNone
      else tryE (bindE (py_int opened) (\<lambda>t. Inr (PInt (max 0 (now_s - t))))) is_type_or_value (\<lambda>_. Inr PNone))"

definition nonzero_or_none :: "pyfloat \<Rightarrow> pyval" where
  "nonzero_or_none x = (if feq x 0 then PNone else PFloat x)"

definition missing :: "bool \<Rightarrow> string \<Rightarrow> string list" where
  "missing b reason = (if b then [reason] else [])"

definition mt5_lifecycle_item ::
    "int \<Rightarrow> string \<Rightarrow> nat \<Rightarrow> ((string \<times> string) \<times> symbol_strategy) list \<Rightarrow> pyval \<Rightarrow> pydict res" where
  "mt5_lifecycle_item now_s environment profile_id strategies row =
     bindE (as_dict row) (\<lambda>p.
     let symbol = canonical_symbol (dget p ''symbol''); owned = atlas_comment p; route = strategy_for_symbol strategies symbol
     in bindE (float_or0 (dget p ''sl'')) (\<lambda>sl. bindE (float_or0 (dget p ''tp'')) (\<lambda>tp.
        bindE (position_age now_s (dget p ''time'')) (\<lambda>age.
        bindE (int_or0 (dget p ''type'')) (\<lambda>type.
        bindE (float_or0 (dget p ''volume'')) (\<lambda>volume. bindE (float_or0 (dget p ''price_open'')) (\<lambda>opened.
        bindE (float_or0 (dget p ''price_current'')) (\<lambda>current. bindE (float_or0 (dget p ''profit'')) (\<lambda>profit.
          let reasons = missing (\<not> owned) ''OWNERSHIP_NOT_VERIFIED'' @ missing (route = None) ''STRATEGY_NOT_CONFIGURED''
                @ missing (sl \<le> 0) ''STOP_LOSS_MISSING'' @ missing (tp \<le> 0) ''TAKE_PROFIT_MISSING''
          in Inr [(''provider'', PStr ''MT5''), (''environment'', PStr environment), (''profile_id'', PStr (id_text profile_id)),
               (''market'', opt_val (PStr \<circ> fst) route), (''symbol'', PStr symbol), (''position_id'', PStr (str_or_empty (dget p ''ticket''))),
               (''side'', PStr (if type = 0 then ''BUY'' else ''SELL'')), (''quantity'', PFloat volume), (''entry_price'', PFloat opened),
               (''mark_price'', PFloat current), (''unrealized_pnl'', PFloat profit), (''stop_loss'', nonzero_or_none sl),
               (''take_profit'', nonzero_or_none tp), (''age_seconds'', age), (''atlas_owned'', PBool owned),
               (''strategy_mode'', opt_val (PStr \<circ> ss_mode \<circ> snd) route),
               (''lifecycle_status'', PStr (if owned \<and> route \<noteq> None \<and> 0 < sl \<and> 0 < tp then ''MANAGED'' else ''REVIEW'')),
               (''reasons'', PList (map PStr reasons)), (''action'', PStr ''HOLD''), (''execution_enabled'', PBool False)])))))))))"

definition ibkr_lifecycle_item ::
    "string \<Rightarrow> nat \<Rightarrow> string list \<Rightarrow> ((string \<times> string) \<times> symbol_strategy) list \<Rightarrow> pyval \<Rightarrow> pydict option res" where
  "ibkr_lifecycle_item environment profile_id owned_symbols strategies row =
     bindE (as_dict row) (\<lambda>p. bindE (float_or0 (dget p ''quantity'')) (\<lambda>qty.
       if feq qty 0 then Inr None
       else let symbol = canonical_symbol (dget p ''symbol''); owned = (symbol \<in> set owned_symbols); route = strategy_for_symbol strategies symbol
            in bindE (float_or0 (dget p ''avg_cost'')) (\<lambda>cost. Inr (Some
              [(''provider'', PStr ''IBKR''), (''environment'', PStr environment), (''profile_id'', PStr (id_text profile_id)),
               (''market'', opt_val (PStr \<circ> fst) route), (''symbol'', PStr symbol), (''position_id'', PNone),
               (''side'', PStr (if 0 < qty then ''LONG'' else ''SHORT'')), (''quantity'', PFloat (fabs qty)), (''entry_price'', PFloat cost),
               (''mark_price'', PNone), (''unrealized_pnl'', PNone), (''stop_loss'', PNone), (''take_profit'', PNone), (''age_seconds'', PNone),
               (''atlas_owned'', PBool owned), (''strategy_mode'', opt_val (PStr \<circ> ss_mode \<circ> snd) route), (''lifecycle_status'', PStr ''REVIEW''),
               (''reasons'', PList (map PStr (missing (\<not> owned) ''OWNERSHIP_NOT_VERIFIED'' @ missing (route = None) ''STRATEGY_NOT_CONFIGURED''
                  @ [''BROKER_NATIVE_PROTECTION_NOT_VERIFIED'']))), (''action'', PStr ''HOLD''), (''execution_enabled'', PBool False)]))))"

type_synonym gathered = "pydict list \<times> pydict list" \<comment> \<open>items and errors\<close>

definition add_item :: "pydict \<Rightarrow> (gathered, unit) act" where
  "add_item item = modL (\<lambda>(items, errors). (items @ [item], errors))"

definition profile_errors :: "env \<Rightarrow> string \<Rightarrow> nat \<Rightarrow> (gathered, unit) act \<Rightarrow> (gathered, unit) act" where
  \<comment> \<open>the items found before a failure stay\<close>
  "profile_errors E provider profile_id body =
     tryL body is_exception (\<lambda>e. modL (\<lambda>(items, errors).
       (items, errors @ [[(''provider'', PStr provider), (''profile_id'', PStr (id_text profile_id)), (''error'', PStr (error_text E e))]])))"

definition mt5_base_of :: "env \<Rightarrow> broker_profile \<Rightarrow> string res" where
  "mt5_base_of E p = bindE (secret_of E p) (\<lambda>creds. bridge_base creds ''http://host.docker.internal:8765'')"

definition inspect_profile :: "env \<Rightarrow> nat \<Rightarrow> ((string \<times> string) \<times> symbol_strategy) list \<Rightarrow> broker_profile \<Rightarrow> (gathered, unit) act" where
  "inspect_profile E user_id strategies p =
     (let provider = str_upper (bp_provider p); environment = str_upper (bp_environment p)
      in if provider \<notin> set [''MT5'', ''IBKR''] \<or> \<not> route_ready p then retL ()
         else profile_errors E provider (bp_id p)
          (if provider = ''MT5''
           then bindL (liftL (mt5_base_of E p)) (\<lambda>base.
                bindL (doL (bindP (mt_request E base (Get ''/positions'' [])) (\<lambda>d. liftP (strict_rows d))))
                  (eachL (\<lambda>row. bindL (doL (now_ms E)) (\<lambda>now.
                     bindL (liftL (mt5_lifecycle_item (now div 1000) environment (bp_id p) strategies row)) add_item))))
           else bindL (liftL (bindE (secret_of E p) ibkr_client_of)) (\<lambda>c.
                bindL (doL (bindP (ib_get E c ''/positions'' []) (\<lambda>d. liftP (strict_rows d)))) (\<lambda>rows.
                bindL (doL (getP (\<lambda>w. ibkr_owned_symbols user_id (bp_id p) (w_db w)))) (\<lambda>owned.
                  eachL (\<lambda>row. bindL (liftL (ibkr_lifecycle_item environment (bp_id p) owned strategies row)) (\<lambda>item. case item of
                     None \<Rightarrow> retL () | Some i \<Rightarrow> add_item i)) rows)))))"

definition count_where :: "(pydict \<Rightarrow> bool) \<Rightarrow> pydict list \<Rightarrow> pyval" where
  "count_where f items = PInt (int (length (filter f items)))"

definition run_gathered :: "(gathered, unit) act \<Rightarrow> (gathered \<Rightarrow> pydict) \<Rightarrow> pydict prog" where
  "run_gathered body report = bindP (body ([], [])) (\<lambda>(r, l). case r of Inl e \<Rightarrow> liftP (Inl e) | Inr _ \<Rightarrow> retP (report l))"

definition lifecycle_summary :: "gathered \<Rightarrow> pydict" where
  "lifecycle_summary = (\<lambda>(items, errors).
     [(''status'', PStr ''COMPLETED''), (''purpose'', PStr ''POSITION_LIFECYCLE_MONITOR_NO_EXECUTION''), (''execution_enabled'', PBool False),
      (''position_count'', PInt (int (length items))), (''atlas_owned_count'', count_where (\<lambda>x. truth (dget x ''atlas_owned'')) items),
      (''managed_count'', count_where (\<lambda>x. dget x ''lifecycle_status'' = PStr ''MANAGED'') items),
      (''review_count'', count_where (\<lambda>x. dget x ''lifecycle_status'' = PStr ''REVIEW'') items),
      (''items'', PList (map PDict items)), (''errors'', PList (map PDict errors))])"

definition inspect_position_lifecycle :: "env \<Rightarrow> nat \<Rightarrow> pydict prog" where
  "inspect_position_lifecycle E user_id =
     bindP (load_profiles_where (\<lambda>p. bp_user_id p = user_id)) (\<lambda>profiles.
     bindP (load_strategy_map user_id) (\<lambda>strategies.
       run_gathered (eachL (inspect_profile E user_id strategies) profiles) lifecycle_summary))"

section \<open>Exit signals\<close>

definition exit_blockers :: "pydict \<Rightarrow> (string \<times> symbol_strategy) option \<Rightarrow> pyfloat \<Rightarrow> pyfloat \<Rightarrow> int \<Rightarrow> string list" where
  "exit_blockers p route sl tp ticket =
     missing (\<not> atlas_comment p) ''OWNERSHIP_NOT_VERIFIED''
     @ (case route of None \<Rightarrow> [''STRATEGY_NOT_CONFIGURED''] | Some (_, cfg) \<Rightarrow> missing (\<not> auto_trade cfg) ''AUTO_TRADE_NOT_ENABLED'')
     @ missing (sl \<le> 0 \<or> tp \<le> 0) ''BROKER_PROTECTION_REQUIRED'' @ missing (ticket \<le> 0) ''POSITION_ID_MISSING''"

record mt5_position =
  mp_symbol :: string
  mp_side :: string
  mp_ticket :: int
  mp_route :: "(string \<times> symbol_strategy) option"
  mp_blockers :: "string list"

definition read_mt5_position :: "((string \<times> string) \<times> symbol_strategy) list \<Rightarrow> pyval \<Rightarrow> mt5_position res" where
  "read_mt5_position strategies row =
     bindE (as_dict row) (\<lambda>p.
     bindE (int_or0 (dget p ''type'')) (\<lambda>type. bindE (int_or0 (dget p ''ticket'')) (\<lambda>ticket.
     let symbol = canonical_symbol (dget p ''symbol''); route = strategy_for_symbol strategies symbol
     in bindE (float_or0 (dget p ''sl'')) (\<lambda>sl. bindE (float_or0 (dget p ''tp'')) (\<lambda>tp.
        Inr \<lparr>mp_symbol = symbol, mp_side = (if type = 0 then ''BUY'' else ''SELL''), mp_ticket = ticket, mp_route = route,
             mp_blockers = exit_blockers p route sl tp ticket\<rparr>)))))"

definition exit_item_base :: "nat \<Rightarrow> mt5_position \<Rightarrow> pyval \<Rightarrow> pydict" where
  "exit_item_base profile_id p position_id =
     [(''provider'', PStr ''MT5''), (''environment'', PStr ''DEMO''), (''profile_id'', PStr (id_text profile_id)),
      (''market'', opt_val (PStr \<circ> fst) (mp_route p)), (''symbol'', PStr (mp_symbol p)), (''position_id'', position_id),
      (''position_side'', PStr (mp_side p))]"

definition evaluate_mt5_position ::
    "env \<Rightarrow> string \<Rightarrow> nat \<Rightarrow> strategy_profile \<Rightarrow> ((string \<times> string) \<times> symbol_strategy) list \<Rightarrow> pyval \<Rightarrow> (gathered, unit) act" where
  "evaluate_mt5_position E base profile_id def strategies row =
     bindL (liftL (read_mt5_position strategies row)) (\<lambda>p.
       case (mp_blockers p, mp_route p) of
         ([], Some (market, cfg)) \<Rightarrow>
           let timeframe = strategy_timeframe cfg def; minimum = minimum_strength cfg def
           in bindL (doL (bindP (mt_candles E base (mp_symbol p) timeframe 200) (\<lambda>d. liftP (object_rows d)))) (\<lambda>candles.
              bindL (liftL (generate_signal candles timeframe (if market = [] then ''FX'' else market))) (\<lambda>signal.
                let should_exit = (opposite_signal (mp_side p) (gs_decision signal) \<and> minimum \<le> gs_strength signal)
                in add_item (exit_item_base profile_id p (PStr (show_int (mp_ticket p))) @
                     [(''signal_decision'', PStr (gs_decision signal)), (''signal_strength'', PFloat (gs_strength signal)),
                      (''minimum_signal_strength'', PFloat minimum), (''classification'', PStr (gs_classification signal)),
                      (''status'', PStr ''PASS''), (''action'', PStr (if should_exit then ''EXIT_SIGNAL'' else ''HOLD'')),
                      (''reason'', PStr (if should_exit then ''STRONG_OPPOSITE_SIGNAL'' else ''NO_EXIT_SIGNAL'')), (''execution_enabled'', PBool False)])))
       | _ \<Rightarrow> add_item (exit_item_base profile_id p (PStr (if mp_ticket p = 0 then [] else show_int (mp_ticket p))) @
               [(''status'', PStr ''BLOCK''), (''action'', PStr ''HOLD''), (''reason'', PStr (join ''|'' (mp_blockers p))), (''execution_enabled'', PBool False)]))"

definition evaluate_mt5_profile ::
    "env \<Rightarrow> strategy_profile \<Rightarrow> ((string \<times> string) \<times> symbol_strategy) list \<Rightarrow> broker_profile \<Rightarrow> (gathered, unit) act" where
  "evaluate_mt5_profile E def strategies p =
     (if \<not> route_ready p then retL ()
      else profile_errors E ''MT5'' (bp_id p)
        (bindL (liftL (mt5_base_of E p)) (\<lambda>base.
         bindL (doL (bindP (mt_request E base (Get ''/positions'' [])) (\<lambda>d. liftP (strict_rows d))))
           (eachL (evaluate_mt5_position E base (bp_id p) def strategies)))))"

definition exit_signal_summary :: "gathered \<Rightarrow> pydict" where
  "exit_signal_summary = (\<lambda>(items, errors).
     [(''status'', PStr ''COMPLETED''), (''purpose'', PStr ''MT5_EXIT_SIGNAL_EVALUATION_NO_EXECUTION''), (''execution_enabled'', PBool False),
      (''evaluated_count'', PInt (int (length items))), (''exit_signal_count'', count_where (\<lambda>x. dget x ''action'' = PStr ''EXIT_SIGNAL'') items),
      (''hold_count'', count_where (\<lambda>x. dget x ''action'' = PStr ''HOLD'') items), (''items'', PList (map PDict items)),
      (''errors'', PList (map PDict errors))])"

definition evaluate_mt5_exit_signals :: "env \<Rightarrow> nat \<Rightarrow> pydict prog" where
  "evaluate_mt5_exit_signals E user_id =
     bindP (load_profiles_where (\<lambda>p. bp_user_id p = user_id \<and> bp_provider p = ''MT5'' \<and> bp_environment p = ''DEMO'')) (\<lambda>profiles.
     bindP (load_strategy_map user_id) (\<lambda>strategies.
     bindP (getP (\<lambda>w. default_strategy (w_db w))) (\<lambda>def.
       run_gathered (eachL (evaluate_mt5_profile E def strategies) profiles) exit_signal_summary)))"

section \<open>Closing the signalled positions\<close>

definition mt5_exit_row :: "nat \<Rightarrow> nat \<Rightarrow> nat \<Rightarrow> nat \<Rightarrow> pydict \<Rightarrow> pydict \<Rightarrow> int \<Rightarrow> automation_action res" where
  "mt5_exit_row i scan_id user_id profile_id item result now_us =
     bindE (bindE (vget (py_or (dget result ''broker_result'') (PDict [])) ''result'') (\<lambda>r. Inr (py_or r (PDict [])))) (\<lambda>raw.
     bindE (vget raw ''order'') (\<lambda>a. bindE (if truth a then Inr a else vget raw ''deal'') (\<lambda>order_id.
       let text = (\<lambda>v limit. or_else (short v limit) [])
       in Inr \<lparr>ac_id = i, ac_scan_id = scan_id, ac_user_id = user_id, ac_broker_profile_id = Some profile_id, ac_provider = ''MT5'',
              ac_environment = Some ''DEMO'', ac_market = text (py_or (dget item ''market'') (PStr [])) 24,
              ac_symbol = text (py_or (dget item ''symbol'') (PStr [])) 32, ac_side = short (dget item ''position_side'') 8,
              ac_status = text (py_or (dget result ''status'') (PStr ''UNKNOWN'')) 24, ac_reason = short (dget result ''reason'') 128,
              ac_quantity = None, ac_sizing_policy = Some ''POSITION_LIFECYCLE_EXIT'', ac_broker_order_id = short order_id 128,
              ac_broker_position_id = short (dget item ''position_id'') 128,
              ac_raw_json = Some (Json (PDict [(''position'', PDict item), (''result'', PDict result)])), ac_created_at = now_us\<rparr>)))"

definition profile_named :: "pyval \<Rightarrow> db \<Rightarrow> broker_profile option" where
  \<comment> \<open>the row whose identifier has this text\<close>
  "profile_named v d = find (\<lambda>p. PStr (id_text (bp_id p)) = v) (db_profiles d)"

definition persist_mt5_exit :: "env \<Rightarrow> nat \<Rightarrow> nat \<Rightarrow> pydict \<Rightarrow> pydict \<Rightarrow> unit prog" where
  \<comment> \<open>a row that refers to a missing profile violates the foreign key\<close>
  "persist_mt5_exit E scan_id user_id item result =
     bindP (getP (\<lambda>w. (db_next_id (w_db w), 1000 * en_now E (w_tick w), profile_named (dget item ''profile_id'') (w_db w)))) (\<lambda>(i, now_us, owner).
       case owner of None \<Rightarrow> liftP (Inl SQLAlchemyError)
       | Some p \<Rightarrow> bindP (liftP (mt5_exit_row i scan_id user_id (bp_id p) item result now_us)) (\<lambda>row.
           modify_db (\<lambda>d. d\<lparr>db_actions := db_actions d @ [row], db_next_id := i + 1\<rparr>)))"

fun find_ticket :: "int \<Rightarrow> pyval list \<Rightarrow> pydict option res" where
  "find_ticket ticket [] = Inr None"
| "find_ticket ticket (row # rows) =
     bindE (as_dict row) (\<lambda>p. bindE (int_or0 (dget p ''ticket'')) (\<lambda>t. if t = ticket then Inr (Some p) else find_ticket ticket rows))"

definition close_signalled :: "env \<Rightarrow> string \<Rightarrow> pydict \<Rightarrow> (bool \<times> pydict) prog" where
  \<comment> \<open>whether the position was closed, and the result; ownership is read again from the broker\<close>
  "close_signalled E base item =
     bindP (bindP (mt_health E base) (\<lambda>h. liftP (bindE (as_dict h) mt5_terminal_blocker))) (\<lambda>b. case b of
       Some reason \<Rightarrow> retP (False, exit_blocked reason)
     | None \<Rightarrow>
         bindP (bindP (mt_request E base (Get ''/positions'' [])) (\<lambda>d. liftP (strict_rows d))) (\<lambda>positions.
         bindP (liftP (int_or0 (dget item ''position_id''))) (\<lambda>ticket.
         bindP (liftP (find_ticket ticket positions)) (\<lambda>current. case current of
           None \<Rightarrow> retP (False, exit_blocked ''POSITION_NOT_FOUND'')
         | Some p \<Rightarrow>
             if \<not> atlas_comment p then retP (False, exit_blocked ''OWNERSHIP_NOT_VERIFIED'')
             else bindP (mt_close_demo_position E base ticket) (\<lambda>closed.
                  retP (True, [(''status'', PStr ''EXIT_EXECUTED''), (''reason'', PStr ''STRONG_OPPOSITE_SIGNAL''), (''broker_result'', closed)]))))))"

definition exit_mt5_item :: "env \<Rightarrow> nat \<Rightarrow> nat \<Rightarrow> pydict \<Rightarrow> (pydict list, unit) act" where
  "exit_mt5_item E scan_id user_id item =
     (let settle = (\<lambda>result. seqL (keep_result item result) (doL (persist_mt5_exit E scan_id user_id item result)))
      in if dget item ''action'' \<noteq> PStr ''EXIT_SIGNAL'' then retL ()
         else seqL (doL (update_scan scan_id (\<lambda>s. s\<lparr>sn_signals_count := sn_signals_count s + 1, sn_approved_count := sn_approved_count s + 1\<rparr>)))
             (bindL (doL (bindP (getP (\<lambda>w. profile_named (dget item ''profile_id'') (w_db w))) (\<lambda>row. case row of
                            None \<Rightarrow> retP None | Some p \<Rightarrow> bindP (load_profile p) (\<lambda>q. retP (Some q))))) (\<lambda>profile. case profile of
                None \<Rightarrow> settle (exit_blocked ''PROFILE_NOT_FOUND'')
              | Some p \<Rightarrow>
                  if str_upper (bp_provider p) \<noteq> ''MT5'' \<or> str_upper (bp_environment p) \<noteq> ''DEMO'' then settle (exit_blocked ''MT5_DEMO_ONLY'')
                  else bindL (liftL (mt5_base_of E p)) (\<lambda>base.
                       bindL (doL (close_signalled E base item)) (\<lambda>(closed, result).
                         seqL (doL (if closed then update_scan scan_id (\<lambda>s. s\<lparr>sn_executed_count := sn_executed_count s + 1\<rparr>) else retP ()))
                           (settle result))))))"

definition exit_mt5_owner :: "env \<Rightarrow> nat \<Rightarrow> nat \<Rightarrow> (pydict list, unit) act" where
  "exit_mt5_owner E scan_id user_id =
     bindL (doL (evaluate_mt5_exit_signals E user_id)) (\<lambda>evaluation.
     bindL (liftL (int_or0 (dget evaluation ''evaluated_count''))) (\<lambda>n.
     seqL (doL (update_scan scan_id (\<lambda>s. s\<lparr>sn_symbols_count := sn_symbols_count s + n\<rparr>)))
       (bindL (liftL (bindE (as_list (dget_or evaluation ''items'' (PList []))) (mapE as_dict))) (eachL (exit_mt5_item E scan_id user_id)))))"

definition mt5_demo_profile :: "broker_profile \<Rightarrow> bool" where
  "mt5_demo_profile p \<longleftrightarrow> bp_provider p = ''MT5'' \<and> bp_environment p = ''DEMO'' \<and> bp_is_enabled p \<and> bp_is_active p"

definition run_mt5_position_manager :: "env \<Rightarrow> pydict prog" where
  "run_mt5_position_manager E = with_session
     (bindP (get_or_create_state E) (\<lambda>state. case engine_blocker state of Some reason \<Rightarrow> retP (skipped reason) | None \<Rightarrow>
      bindP (load_profiles_where mt5_demo_profile) (\<lambda>profiles.
        let user_ids = sort (remdups (map bp_user_id profiles))
        in if user_ids = [] then retP (skipped ''NO_MT5_DEMO_PROFILES'')
           else bindP (start_scan E 0 (int (length profiles))) (\<lambda>i.
                guarded_worker E i
                  (seqL (eachL (exit_mt5_owner E i) user_ids) (bindL (doL (complete_scan E i)) (\<lambda>_. retL ())))
                  (\<lambda>results. bindP (scan_of i) (\<lambda>s. case s of None \<Rightarrow> liftP (Inl SQLAlchemyError)
                     | Some row \<Rightarrow> retP (lifecycle_report ''MT5_DEMO_POSITION_LIFECYCLE_EXECUTION'' row results)))))))"

definition mt5_manager_iteration :: "env \<Rightarrow> int prog" where
  \<comment> \<open>one iteration of the loop: the seconds it waits afterwards\<close>
  "mt5_manager_iteration E =
     tryP (bindP (with_session (get_or_create_state E)) (\<lambda>s.
             seqP (if engine_on s then bindP (run_mt5_position_manager E) (\<lambda>_. retP ()) else retP ()) (retP (manager_interval s))))
       is_exception (\<lambda>_. retP 30)"

end
