(* ===== verification/Protection.thy ===== *)
theory Protection
  imports Position_Manager
begin

text \<open>
  What the protective pair of an IBKR entry rests on: the order of intent and submission, what a refusal
  before the submission leaves behind, and what the reconciliation of entries accepts as proof.
\<close>

section \<open>Intent before submission\<close>

definition intent_saved :: "automation_action \<Rightarrow> db \<Rightarrow> bool" where
  \<comment> \<open>the entry's audit document says that its group is being submitted\<close>
  "intent_saved entry d \<longleftrightarrow> (\<exists>a raw now. by_key ac_id (ac_id entry) (db_actions d) = Some a
     \<and> ac_raw_json a = Some (Json (PDict raw)) \<and> dget raw ''native_protection'' = submitting entry now)"

definition submission_open :: "automation_action \<Rightarrow> bool" where
  \<comment> \<open>the entry's document allows a submission: none was attempted, or the last was refused before it was sent\<close>
  "submission_open entry \<longleftrightarrow> (\<exists>d. json_loads (ac_raw_json entry) = Inr (PDict d) \<and> allow_submit (dget d ''native_protection''))"

definition protective_submission :: "string \<Rightarrow> automation_action \<Rightarrow> event list \<Rightarrow> event \<Rightarrow> bool" where
  "protective_submission base entry pre ev \<longleftrightarrow>
     (\<exists>payload d b. ev = Sent base (Post ''/protection'' payload) d \<and> dget payload ''entry_key'' = PStr (id_text (ac_id entry))
        \<and> dget payload ''allow_submit'' = PBool b
        \<and> (b \<longrightarrow> submission_open entry \<and> (\<exists>d0. Committed d0 \<in> set pre \<and> intent_saved entry d0)))"

interpretation protective: guarded_order "one_order (protective_submission base entry)" for base entry
  by (rule guarded_one_order) (fastforce simp: protective_submission_def)

context guarded_order
begin

lemma after_lifted: "(\<And>x. r = Inr x \<Longrightarrow> emits G (f x)) \<Longrightarrow> emits G (bindP (liftP r) f)"
  by (cases r) (use guarded_liftP in \<open>auto simp: bindP_def liftP_def\<close>)

end

definition sends_to :: "string \<Rightarrow> string \<Rightarrow> pydict \<Rightarrow> event list \<Rightarrow> event \<Rightarrow> bool" where
  "sends_to base path payload pre ev \<longleftrightarrow> (\<exists>d. ev = Sent base (Post path payload) d)"

interpretation sends: guarded_order "one_order (sends_to base path payload)" for base path payload
  by (rule guarded_one_order) (simp add: sends_to_def)

lemma ib_post_sends:
  "order_path path \<Longrightarrow> emits (one_order (sends_to (ib_base c) path payload)) (ib_post E c path payload)"
  unfolding ib_post_def
  by (intro sends.guarded_if sends.after_quiet http_one_order quiet_ib_account sends.guarded_liftP) (auto simp: sends_to_def)

lemma ensure_protection_sends:
  "emits (one_order (sends_to (ib_base c) ''/protection'' payload)) (ib_ensure_protection E c payload)"
  unfolding ib_ensure_protection_def reserved_def
  by (intro sends.rules ib_post_sends quiet.emits_liftP quiet.emits_getP quiet_ib_reads)
     (auto intro!: sends.of_quiet)

lemma quiet_save_protection [intro!]: "emits no_orders (save_protection E entry f)"
  unfolding save_protection_def by auto

lemma quiet_release_intent [intro!]: "emits no_orders (release_intent E entry detail)"
  unfolding release_intent_def by auto

lemma quiet_record_protection [intro!]: "emits no_orders (record_protection E entry answer)"
  unfolding record_protection_def Let_def by auto

lemma submit_pair_sends:
  "emits (one_order (sends_to (ib_base c) ''/protection'' request)) (submit_pair E c entry allow request)"
  unfolding submit_pair_def
  by (intro sends.before_quiet sends.handled_quietly ensure_protection_sends) (auto split: sum.split)

lemma one_order_ConsI:
  assumes "one_order R es" and "\<not> is_order e" and "\<And>pre ev. R pre ev \<Longrightarrow> S (e # pre) ev"
  shows "one_order S (e # es)"
  using assms(1) unfolding one_order_def
proof
  assume "no_orders es"
  then show "no_orders (e # es) \<or> (\<exists>pre ev suf. e # es = pre @ ev # suf \<and> is_order ev \<and> no_orders pre \<and> no_orders suf \<and> S pre ev)"
    using assms(2) by (simp add: no_orders_def)
next
  assume "\<exists>pre ev suf. es = pre @ ev # suf \<and> is_order ev \<and> no_orders pre \<and> no_orders suf \<and> R pre ev"
  then obtain pre ev suf where "es = pre @ ev # suf" "is_order ev" "no_orders pre" "no_orders suf" "R pre ev" by blast
  with assms(2,3) show "no_orders (e # es) \<or> (\<exists>pre ev suf. e # es = pre @ ev # suf \<and> is_order ev \<and> no_orders pre \<and> no_orders suf \<and> S pre ev)"
    by (intro disjI2 exI [of _ "e # pre"] exI [of _ ev] exI [of _ suf]) (simp add: no_orders_def)
qed

lemma commit_then_sends:
  assumes "emits (one_order R) m" and "\<And>pre ev. R pre ev \<Longrightarrow> S (Committed (w_db w) # pre) ev"
  shows "\<exists>es. w_log (snd (seqP (commit E) m w)) = w_log w @ es \<and> one_order S es"
proof (cases "en_commit E (w_tick w)")
  case False
  then show ?thesis by (intro exI [of _ "[]"]) (simp add: seqP_def bindP_def commit_def one_order_def no_orders_def)
next
  case True
  let ?w1 = "w\<lparr>w_log := w_log w @ [Committed (w_db w)], w_saved := w_db w\<rparr>"
  from assms(1) obtain es where es: "w_log (snd (m ?w1)) = w_log ?w1 @ es" "one_order R es" unfolding emits_def by blast
  from one_order_ConsI [where R = R and S = S and e = "Committed (w_db w)", OF es(2) _ assms(2)] have "one_order S (Committed (w_db w) # es)" by simp
  with True es show ?thesis by (intro exI [of _ "Committed (w_db w) # es"]) (simp add: seqP_def bindP_def commit_def)
qed

lemma write_audit_saved:
  assumes "write_audit a w = (Inr (), w')"
  shows "by_key ac_id (ac_id a) (db_actions (w_db w')) = map_option (\<lambda>r. r\<lparr>ac_raw_json := ac_raw_json a\<rparr>) (by_key ac_id (ac_id a) (db_actions (w_db w)))
     \<and> by_key ac_id (ac_id a) (db_actions (w_db w)) \<noteq> None \<and> w_log w' = w_log w"
proof -
  have "by_key ac_id (ac_id a) (update_key ac_id (ac_id a) (\<lambda>r. r\<lparr>ac_raw_json := ac_raw_json a\<rparr>) rows)
      = map_option (\<lambda>r. r\<lparr>ac_raw_json := ac_raw_json a\<rparr>) (by_key ac_id (ac_id a) rows)" for rows :: "automation_action list"
    by (simp add: find_update_key)
  with assms show ?thesis by (auto simp: write_audit_def bindP_def modify_db_def split: option.splits)
qed

lemma quiet_submitting [intro!]: "emits no_orders (seqP (write_audit a) (commit E))"
  by auto

lemma submit_after_intent:
  assumes "submission_open entry" and "dget request ''entry_key'' = PStr (id_text (ac_id entry))" and "dget request ''allow_submit'' = PBool True"
  shows "emits (one_order (protective_submission (ib_base c) entry))
     (seqP (seqP (write_audit (with_json (PDict (dset ''native_protection'' (submitting entry now) raw)) entry)) (commit E))
        (submit_pair E c entry True request))" (is "emits ?G (seqP (seqP (write_audit ?a) _) ?m)")
  unfolding emits_def
proof
  fix w
  show "\<exists>es. w_log (snd (seqP (seqP (write_audit ?a) (commit E)) ?m w)) = w_log w @ es \<and> ?G es"
  proof (cases "write_audit ?a w")
    case (Pair r w1)
    have q: "emits no_orders (write_audit ?a)" by auto
    from emitsD [OF q Pair] obtain es0 where es0: "w_log w1 = w_log w @ es0" "no_orders es0" by blast
    show ?thesis
    proof (cases r)
      case (Inl e)
      with Pair es0 protective.G_quiet show ?thesis by (auto simp: seqP_def bindP_def)
    next
      case (Inr u)
      with write_audit_saved Pair have sv: "intent_saved entry (w_db w1)"
        by (fastforce simp: intent_saved_def with_json_def)
      have "sends_to (ib_base c) ''/protection'' request pre ev \<Longrightarrow> protective_submission (ib_base c) entry (Committed (w_db w1) # pre) ev"
        for pre ev using assms sv by (auto simp: sends_to_def protective_submission_def)
      from commit_then_sends [where S = "protective_submission (ib_base c) entry", OF submit_pair_sends this] obtain es where
        es: "w_log (snd (seqP (commit E) ?m w1)) = w_log w1 @ es" "?G es" by blast
      have "seqP (seqP (write_audit ?a) (commit E)) ?m w = seqP (commit E) ?m w1"
        using Pair Inr by (simp add: seqP_def bindP_def split: prod.splits sum.splits)
      with es es0 protective.G_prefix show ?thesis by auto
    qed
  qed
qed

lemma verify_only:
  assumes "dget request ''entry_key'' = PStr (id_text (ac_id entry))" and "dget request ''allow_submit'' = PBool False"
  shows "emits (one_order (protective_submission (ib_base c) entry)) (submit_pair E c entry False request)"
  by (rule emits_mono [OF submit_pair_sends], erule one_order_mono)
     (use assms in \<open>auto simp: sends_to_def protective_submission_def\<close>)

lemma protection_plan_prior:
  assumes "protection_plan E now entry side quantity = Inr (Some (raw, prior, stop, target))"
  shows "\<exists>d. json_loads (ac_raw_json entry) = Inr (PDict d) \<and> prior = dget d ''native_protection''"
proof -
  have d: "as_dict v = Inr d \<Longrightarrow> v = PDict d" for v d by (cases v) auto
  show ?thesis
    using assms unfolding protection_plan_def Let_def
    by (auto simp: bindE_Inr_iff guardE_def dest!: d split: if_splits prod.splits)
qed

lemma ensure_protection_guarded:
  "emits (one_order (protective_submission (ib_base c) entry)) (ensure_native_protection E c entry symbol side quantity account_id)"
proof -
  have step: "emits (one_order (protective_submission (ib_base c) entry))
      (case plan of None \<Rightarrow> retP (blocked_protection ''PROTECTION_OWNERSHIP_QUANTITY_MISMATCH'')
       | Some (raw, prior, stop, target) \<Rightarrow>
           let request = protection_request entry symbol account_id side quantity stop target prior
           in seqP (if allow_submit prior
                    then seqP (write_audit (with_json (PDict (dset ''native_protection'' (submitting entry now) raw)) entry)) (commit E)
                    else retP ())
             (submit_pair E c entry (allow_submit prior) request))"
    if p: "protection_plan E now entry side quantity = Inr plan" for plan now
  proof (cases plan)
    case None
    then show ?thesis by (auto intro: protective.of_quiet)
  next
    case (Some x)
    obtain raw prior stop target where x: "x = (raw, prior, stop, target)" by (cases x) auto
    let ?request = "protection_request entry symbol account_id side quantity stop target prior"
    have k: "dget ?request ''entry_key'' = PStr (id_text (ac_id entry))" "dget ?request ''allow_submit'' = PBool (allow_submit prior)"
      by (simp_all add: protection_request_def dget_def)
    have o: "submission_open entry" if "allow_submit prior"
      using protection_plan_prior p Some x that unfolding submission_open_def by blast
    show ?thesis
    proof (cases "allow_submit prior")
      case True
      with submit_after_intent [OF o k(1)] k(2) Some x show ?thesis by (simp add: Let_def)
    next
      case False
      have "seqP (retP ()) m = m" for m :: "pydict prog" by (simp add: seqP_def bindP_def retP_def)
      with verify_only [OF k(1)] k(2) False Some x show ?thesis by (simp add: Let_def)
    qed
  qed
  show ?thesis
    unfolding ensure_native_protection_def
    by (rule protective.handled_quietly protective.after_quiet quiet_now_ms protective.after_lifted | erule step | rule quiet.emits_retP)+
qed

text \<open>
  C2. Ensuring the protective pair of an entry (\<open>_ensure_native_protection\<close>) sends at most one request that
  can place orders: one \<open>/protection\<close> request for this entry at the profile's bridge. It permits a submission only
  if the entry's document allowed one (nothing attempted yet, or the last attempt refused before it was
  sent) and a commit has already succeeded whose database records the intent of this group; every other
  request may only verify the pair. This holds whatever the bridge answers, whichever commits fail and
  whatever other tasks commit.
\<close>

theorem protection_intent_first:
  "\<exists>es. w_log (snd (ensure_native_protection E c entry symbol side quantity account_id w)) = w_log w @ es
     \<and> one_order (protective_submission (ib_base c) entry) es"
  using ensure_protection_guarded unfolding emits_def by blast

section \<open>What a refusal leaves behind\<close>

lemma refresh_actionD: "refresh_action i w = (Inr a, w') \<Longrightarrow> by_key ac_id i (db_actions (w_db w)) = Some a \<and> w' = w"
  by (auto simp: refresh_action_def bindP_def split: option.splits)

lemma commitD: "commit E w = (Inr u, w') \<Longrightarrow> w_db w' = w_db w \<and> w_saved w' = w_db w"
  by (auto simp: commit_def split: if_splits)

lemma save_protectionD:
  assumes "save_protection E entry f w = (Inr u, w')"
  shows "\<exists>fresh d0 d a. by_key ac_id (ac_id entry) (db_actions (w_db w)) = Some fresh \<and> json_loads (ac_raw_json fresh) = Inr (PDict d0)
    \<and> f d0 = Inr d \<and> by_key ac_id (ac_id entry) (db_actions (w_saved w')) = Some a \<and> ac_raw_json a = Some (Json (PDict d))"
proof -
  from assms obtain fresh w1 where 1: "refresh_action (ac_id entry) w = (Inr fresh, w1)"
      and k: "bindP (liftP (bindE (bindE (json_loads (ac_raw_json fresh)) as_dict) f)) (\<lambda>raw.
        seqP (write_audit (with_json (PDict raw) fresh)) (commit E)) w1 = (Inr u, w')"
    unfolding save_protection_def by (blast elim: bindP_InrE)
  from k obtain d w2 where d: "bindE (bindE (json_loads (ac_raw_json fresh)) as_dict) f = Inr d" and w2: "w2 = w1"
      and r: "seqP (write_audit (with_json (PDict d) fresh)) (commit E) w2 = (Inr u, w')"
    by (auto elim!: bindP_InrE)
  from r obtain w3 where w3: "write_audit (with_json (PDict d) fresh) w2 = (Inr (), w3)" and c: "commit E w3 = (Inr u, w')"
    by (blast elim: seqP_InrE)
  from refresh_actionD [OF 1] have f: "by_key ac_id (ac_id entry) (db_actions (w_db w)) = Some fresh" and w1: "w1 = w" by auto
  then have i: "ac_id fresh = ac_id entry" using by_key_SomeD by metis
  from d obtain v where "json_loads (ac_raw_json fresh) = Inr v" and fd: "bindE (as_dict v) f = Inr d" by (auto simp: bindE_Inr_iff)
  moreover from fd obtain d0 where "v = PDict d0" "f d0 = Inr d" by (cases v) (auto simp: bindE_Inr_iff)
  ultimately have j: "json_loads (ac_raw_json fresh) = Inr (PDict d0)" "f d0 = Inr d" by auto
  have "by_key ac_id (ac_id entry) (db_actions (w_db w3)) = Some (fresh\<lparr>ac_raw_json := Some (Json (PDict d))\<rparr>)"
    using write_audit_saved [OF w3] f w1 w2 i by (simp add: with_json_def)
  with f j commitD [OF c] show ?thesis by auto
qed

lemma released_open:
  assumes "release_intent E entry detail w = (Inr r, w')"
  shows "r = blocked_protection detail
    \<and> (\<exists>a. by_key ac_id (ac_id entry) (db_actions (w_saved w')) = Some a \<and> submission_open a)"
proof -
  let ?f = "\<lambda>raw. bindE (bindE (dsub raw ''native_protection'') as_mapping) (\<lambda>np.
             Inr (dset ''native_protection'' (PDict (dmerge np [(''status'', PStr ''PRE_SUBMISSION_BLOCKED''), (''reason'', PStr detail)])) raw))"
  from assms obtain w1 where s: "save_protection E entry ?f w = (Inr (), w1)" and w': "r = blocked_protection detail" "w' = w1"
    unfolding release_intent_def by (auto elim!: seqP_InrE)
  obtain d0 d a where d: "?f d0 = Inr d"
    and a: "by_key ac_id (ac_id entry) (db_actions (w_saved w1)) = Some a" "ac_raw_json a = Some (Json (PDict d))"
    using save_protectionD [OF s] by (elim exE conjE) (rule that)
  from d obtain np where "dget d ''native_protection'' = PDict (dmerge np [(''status'', PStr ''PRE_SUBMISSION_BLOCKED''), (''reason'', PStr detail)])"
    by (auto simp: bindE_Inr_iff)
  moreover have "dget (dmerge np [(''status'', PStr ''PRE_SUBMISSION_BLOCKED''), (''reason'', PStr detail)]) ''status'' = PStr ''PRE_SUBMISSION_BLOCKED''"
    by (simp add: dmerge_def)
  ultimately have "allow_submit (dget d ''native_protection'')" by (simp add: allow_submit_def py_eq_def)
  with a w' show ?thesis by (auto simp: submission_open_def json_loads_def)
qed

lemma recorded_not_retryable:
  assumes "record_protection E entry answer w = (Inr (blocked_protection detail), w')"
  shows False
proof -
  have "confirmed_result entry answer \<noteq> blocked_protection detail"
  proof
    assume a: "confirmed_result entry answer = blocked_protection detail"
    then have "answer = blocked_protection detail" by (auto simp: confirmed_result_def blocked_protection_def split: if_splits)
    then have "dget answer ''simulation'' = PNone" by (simp add: blocked_protection_def dget_def)
    with a show False by (simp add: confirmed_result_def blocked_protection_def)
  qed
  with assms show False unfolding record_protection_def Let_def by (auto elim!: bindP_InrE seqP_InrE)
qed

lemma invalid_levels_not_retryable: "blocked_protection (invalid_levels_reason e) = blocked_protection d \<Longrightarrow> d \<notin> set RETRYABLE_DETAILS"
  by (auto simp: blocked_protection_def invalid_levels_reason_def RETRYABLE_DETAILS_def starts_with_def split: exn.splits if_splits)

lemma retryable_pair:
  assumes "submit_pair E c entry allow request w = (Inr (blocked_protection detail), w')"
  shows "\<exists>a. by_key ac_id (ac_id entry) (db_actions (w_saved w')) = Some a \<and> submission_open a"
proof -
  from assms obtain r w1 where r: "tryP (bindP (ib_ensure_protection E c request) (\<lambda>r. retP (Inr r))) (retryable allow)
        (\<lambda>e. bindP (release_intent E entry (case e of HTTPStatusError _ (Some d) \<Rightarrow> d | _ \<Rightarrow> [])) (\<lambda>p. retP (Inl p))) w = (Inr r, w1)"
      and k: "(case r of Inl p \<Rightarrow> retP p | Inr answer \<Rightarrow> bindP (liftP (as_dict answer)) (record_protection E entry)) w1
        = (Inr (blocked_protection detail), w')"
    unfolding submit_pair_def by (blast elim: bindP_InrE)
  show ?thesis
  proof (cases r)
    case (Inr answer)
    with k show ?thesis by (auto elim!: bindP_InrE dest: recorded_not_retryable)
  next
    case (Inl p)
    with k have p: "p = blocked_protection detail" "w' = w1" by auto
    obtain o0 w0 where m: "bindP (ib_ensure_protection E c request) (\<lambda>r. retP (Inr r :: pydict + pyval)) w = (o0, w0)"
      by (cases "bindP (ib_ensure_protection E c request) (\<lambda>r. retP (Inr r :: pydict + pyval)) w")
    show ?thesis
    proof (cases o0)
      case (Inr x)
      with m have "\<exists>y. x = Inr y" by (auto elim!: bindP_InrE)
      with r m Inr Inl show ?thesis by (auto simp: tryP_def)
    next
      case e: (Inl e)
      with r m Inl obtain q w2 where "release_intent E entry (case e of HTTPStatusError _ (Some d) \<Rightarrow> d | _ \<Rightarrow> []) w0 = (Inr q, w2)"
          and "p = q" "w1 = w2"
        by (auto simp: tryP_def split: if_splits elim!: bindP_InrE)
      with released_open p show ?thesis by blast
    qed
  qed
qed

text \<open>
  C9. A refusal before the submission can be retried: whenever ensuring the protective pair reports one of
  the five details with which the bridge refuses before it sends either order, the committed audit
  document of the entry allows a submission again, so the next run of the manager may submit the pair.
\<close>

theorem retryable_refusal_reopens:
  assumes "ensure_native_protection E c entry symbol side quantity account_id w = (Inr (blocked_protection detail), w')"
    and "detail \<in> set RETRYABLE_DETAILS"
  shows "\<exists>a. by_key ac_id (ac_id entry) (db_actions (w_saved w')) = Some a \<and> submission_open a"
proof -
  define body where "body = bindP (now_ms E) (\<lambda>now.
       bindP (liftP (protection_plan E now entry side quantity)) (\<lambda>plan. case plan of
         None \<Rightarrow> retP (blocked_protection ''PROTECTION_OWNERSHIP_QUANTITY_MISMATCH'')
       | Some (raw, prior, stop, target) \<Rightarrow>
           let request = protection_request entry symbol account_id side quantity stop target prior
           in seqP (if allow_submit prior
                    then seqP (write_audit (with_json (PDict (dset ''native_protection'' (submitting entry now) raw)) entry)) (commit E)
                    else retP ())
             (submit_pair E c entry (allow_submit prior) request)))"
  obtain r w1 where b: "body w = (r, w1)" by (cases "body w")
  have e: "ensure_native_protection E c entry symbol side quantity account_id
      = tryP body (\<lambda>e. e = KeyError \<or> is_type_or_value e) (\<lambda>e. retP (blocked_protection (invalid_levels_reason e)))"
    unfolding ensure_native_protection_def body_def ..
  show ?thesis
  proof (cases r)
    case (Inl x)
    with assms b e have "blocked_protection (invalid_levels_reason x) = blocked_protection detail"
      by (auto simp: tryP_def split: if_splits)
    with invalid_levels_not_retryable assms(2) show ?thesis by blast
  next
    case (Inr p)
    with assms(1) b e have body: "body w = (Inr (blocked_protection detail), w')" by (auto simp: tryP_def)
    have "blocked_protection ''PROTECTION_OWNERSHIP_QUANTITY_MISMATCH'' \<noteq> blocked_protection detail"
      using assms(2) by (auto simp: blocked_protection_def RETRYABLE_DETAILS_def)
    with body obtain allow request w2 where "submit_pair E c entry allow request w2 = (Inr (blocked_protection detail), w')"
      unfolding body_def by (auto simp: Let_def split: option.splits prod.splits elim!: bindP_InrE seqP_InrE)
    then show ?thesis by (rule retryable_pair)
  qed
qed

text \<open>
  C10. A reservation held by another task strands the pair: when a submission is allowed and its intent is
  committed, but the local reservation of the account and symbol is taken, the code raises before it
  sends anything, and the committed document keeps the attempt: it does not allow a submission any more,
  although none was made.
\<close>

theorem held_reservation_strands_pair:
  assumes "protection_plan E (en_now E (w_tick w)) entry side quantity = Inr (Some (raw, prior, stop, target))" and "allow_submit prior"
    and "by_key ac_id (ac_id entry) (db_actions (w_db w)) = Some row" and "en_commit E (w_tick w)"
    and "en_locked E (w_tick w) (reservation_key (''IBKR:'' @ py_str account_id) (PStr symbol))"
  shows "\<exists>w' a. ensure_native_protection E c entry symbol side quantity account_id w = (Inl (RuntimeError ''EXECUTION_ALREADY_IN_PROGRESS''), w')
    \<and> w_log w' = w_log w @ [Committed (w_db w')]
    \<and> by_key ac_id (ac_id entry) (db_actions (w_saved w')) = Some a \<and> \<not> submission_open a"
proof -
  let ?raw = "dset ''native_protection'' (submitting entry (en_now E (w_tick w))) raw"
  let ?a = "with_json (PDict ?raw) entry"
  let ?d = "(w_db w)\<lparr>db_actions := update_key ac_id (ac_id entry) (\<lambda>r. r\<lparr>ac_raw_json := ac_raw_json ?a\<rparr>) (db_actions (w_db w))\<rparr>"
  let ?w1 = "w\<lparr>w_db := ?d\<rparr>"
  let ?w2 = "?w1\<lparr>w_log := w_log w @ [Committed ?d], w_saved := ?d\<rparr>"
  let ?request = "protection_request entry symbol account_id side quantity stop target prior"
  have 1: "write_audit ?a w = (Inr (), ?w1)" using assms(3) by (simp add: write_audit_def with_json_def bindP_def modify_db_def)
  have 2: "commit E ?w1 = (Inr (), ?w2)" using assms(4) by (simp add: commit_def)
  have "dsub ?request ''account_id'' = Inr account_id" "dsub ?request ''symbol'' = Inr (PStr symbol)"
    by (simp_all add: protection_request_def dsub_def)
  then have 3: "ib_ensure_protection E c ?request ?w2 = (Inl (RuntimeError ''EXECUTION_ALREADY_IN_PROGRESS''), ?w2)"
    using assms(5) by (simp add: ib_ensure_protection_def bindP_def reserved_def fails_def)
  then have 4: "submit_pair E c entry True ?request ?w2 = (Inl (RuntimeError ''EXECUTION_ALREADY_IN_PROGRESS''), ?w2)"
    by (simp add: submit_pair_def bindP_def tryP_def retryable_def)
  have run: "ensure_native_protection E c entry symbol side quantity account_id w = (Inl (RuntimeError ''EXECUTION_ALREADY_IN_PROGRESS''), ?w2)"
    using assms(1,2) 1 2 4 unfolding ensure_native_protection_def
    by (simp add: tryP_def bindP_def seqP_def now_ms_def Let_def)
  let ?b = "row\<lparr>ac_raw_json := ac_raw_json ?a\<rparr>"
  have b: "by_key ac_id (ac_id entry) (db_actions ?d) = Some ?b" using assms(3) by (simp add: find_update_key)
  have "\<not> submission_open ?b"
    by (auto simp: submission_open_def with_json_def json_loads_def allow_submit_def submitting_def dget_def [of "(''status'', _) # _"] py_eq_def)
  with run b show ?thesis by (intro exI [of _ ?w2] exI [of _ ?b]) simp
qed

section \<open>An example entry\<close>

definition filled_entry :: automation_action where
  "filled_entry = \<lparr>ac_id = 6, ac_scan_id = 5, ac_user_id = 1, ac_broker_profile_id = Some 2, ac_provider = ''IBKR'',
     ac_environment = Some ''PAPER'', ac_market = ''STOCK'', ac_symbol = ''AAPL'', ac_side = Some ''BUY'', ac_status = ''EXECUTED'',
     ac_reason = None, ac_quantity = Some (Fin 2), ac_sizing_policy = None, ac_broker_order_id = Some ''7'', ac_broker_position_id = None,
     ac_raw_json = Some (Json (PDict [(''preflight'', PDict [(''request'', PDict [])]),
        (''native_protection_levels'', PDict [(''stop_loss'', PInt 90), (''take_profit'', PInt 120)])])), ac_created_at = 0\<rparr>"

definition entry_world :: world where
  "entry_world = example_world\<lparr>w_db := example_db\<lparr>db_actions := [filled_entry]\<rparr>\<rparr>"

definition busy_bridge :: env where
  \<comment> \<open>a bridge that is connected, and refuses every request that changes something\<close>
  "busy_bridge = example_env\<lparr>en_http := (\<lambda>_ _ req. case req of
       Get _ _ \<Rightarrow> Inr (PDict [(''connected'', PBool True), (''simulation'', PBool True)])
     | Post _ _ \<Rightarrow> Inl (HTTPStatusError 503 (Some ''IBKR_SERVER_UNAVAILABLE'')))\<rparr>"

definition plain_client :: ibkr_client where "plain_client = \<lparr>ib_base = ''http://b'', ib_expected = PNone\<rparr>"

lemma example_plan: "protection_plan E t filled_entry ''LONG'' (Fin 2)
    = Inr (Some ([(''preflight'', PDict [(''request'', PDict [])]),
        (''native_protection_levels'', PDict [(''stop_loss'', PInt 90), (''take_profit'', PInt 120)])], PNone, fl 90, fl 120))"
  by code_simp

theorem held_reservation_strands_pair_witness:
  "\<exists>w' a. ensure_native_protection (example_env\<lparr>en_locked := \<lambda>_ _. True\<rparr>) plain_client filled_entry ''AAPL'' ''LONG'' (Fin 2) (PStr ''DU1'') entry_world
      = (Inl (RuntimeError ''EXECUTION_ALREADY_IN_PROGRESS''), w')
    \<and> w_log w' = w_log entry_world @ [Committed (w_db w')]
    \<and> by_key ac_id (ac_id filled_entry) (db_actions (w_saved w')) = Some a \<and> \<not> submission_open a"
  by (rule held_reservation_strands_pair [OF example_plan])
     (simp_all add: allow_submit_def entry_world_def by_key_def example_env_def)

theorem retryable_refusal_reopens_witness:
  "\<exists>w' a. ensure_native_protection busy_bridge plain_client filled_entry ''AAPL'' ''LONG'' (Fin 2) PNone entry_world
      = (Inr (blocked_protection ''IBKR_SERVER_UNAVAILABLE''), w')
    \<and> by_key ac_id (ac_id filled_entry) (db_actions (w_saved w')) = Some a \<and> submission_open a"
proof -
  have "fst (ensure_native_protection busy_bridge plain_client filled_entry ''AAPL'' ''LONG'' (Fin 2) PNone entry_world)
      = Inr (blocked_protection ''IBKR_SERVER_UNAVAILABLE'')"
    by code_simp
  then obtain w' where run: "ensure_native_protection busy_bridge plain_client filled_entry ''AAPL'' ''LONG'' (Fin 2) PNone entry_world
      = (Inr (blocked_protection ''IBKR_SERVER_UNAVAILABLE''), w')" by (metis surjective_pairing)
  have "''IBKR_SERVER_UNAVAILABLE'' \<in> set RETRYABLE_DETAILS" by (simp add: RETRYABLE_DETAILS_def)
  from run retryable_refusal_reopens [OF run this] show ?thesis by blast
qed

section \<open>What proves a delayed entry\<close>

definition own_execution :: "automation_action \<Rightarrow> pyval \<Rightarrow> pydict \<Rightarrow> bool" where
  \<comment> \<open>the specification: the execution belongs to the order, the symbol, the direction and the account of the action\<close>
  "own_execution action account_id x \<longleftrightarrow>
     (\<exists>i. py_int (dget x ''order_id'') = Inr i \<and> py_int (opt_val PStr (ac_broker_order_id action)) = Inr i)
     \<and> canonical_symbol (dget x ''symbol'') = canonical_symbol (PStr (ac_symbol action))
     \<and> ((side_of action = ''BUY'' \<and> upper_or_empty (dget x ''side'') = ''BOT'') \<or> (side_of action = ''SELL'' \<and> upper_or_empty (dget x ''side'') = ''SLD''))
     \<and> (truth account_id \<longrightarrow> str_or_empty (dget x ''account'') = py_str account_id)"

definition positive_quantity :: "pydict \<Rightarrow> bool" where
  "positive_quantity x \<longleftrightarrow> (\<exists>q. float_or0 (dget x ''quantity'') = Inr q \<and> isfinite q \<and> \<not> q \<le> 0)"

definition executions_prove :: "automation_action \<Rightarrow> pyval \<Rightarrow> pydict list \<Rightarrow> bool" where
  \<comment> \<open>the specification: some of these executions, with different identities, fill exactly the quantity of the action\<close>
  "executions_prove action account_id executions \<longleftrightarrow>
     (\<exists>rows qs. set rows \<subseteq> set executions \<and> list_all (own_execution action account_id) rows \<and> list_all positive_quantity rows
        \<and> sorted_wrt (\<lambda>x y. \<not> py_eq (dget x ''execution_id'') (dget y ''execution_id'')) rows
        \<and> mapE (\<lambda>x. bindE (dsub x ''quantity'') py_float) rows = Inr qs
        \<and> quantities_match (pysum qs) (quantity_of action) \<and> \<not> quantity_of action \<le> 0)"

lemma execution_matches_own: "execution_matches_action action x account_id = Inr True \<longleftrightarrow> own_execution action account_id x"
proof -
  have m: "map_of [(''BUY'', ''BOT''), (''SELL'', ''SLD'')] s = (if s = ''BUY'' then Some ''BOT'' else if s = ''SELL'' then Some ''SLD'' else None)" for s :: string
    by simp
  show ?thesis
    unfolding execution_matches_action_def own_execution_def m
    by (auto simp: bindE_def tryE_def split: sum.splits if_splits)
qed

lemma unique_executions_sound:
  assumes "unique_executions acc rows = Inr (Some u)"
    and "sorted_wrt (\<lambda>x y. \<not> py_eq (fst x) (fst y)) acc"
  shows "sorted_wrt (\<lambda>x y. \<not> py_eq (fst x) (fst y)) u
    \<and> (\<exists>new. u = acc @ map (\<lambda>x. (dget x ''execution_id'', x)) new \<and> set new \<subseteq> set rows \<and> list_all positive_quantity new)"
  using assms
proof (induction acc rows rule: unique_executions.induct)
  case (1 acc)
  then show ?case by (auto intro: exI [of _ "[]"])
next
  case (2 acc row rows)
  let ?i = "dget row ''execution_id''"
  from 2 obtain q where q: "float_or0 (dget row ''quantity'') = Inr q" by (auto simp: bindE_Inr_iff)
  with 2 have ok: "truth ?i" "isfinite q" "\<not> q \<le> 0" "\<not> unhashable ?i"
    by (auto simp: Let_def split: if_splits)
  show ?case
  proof (cases "find (\<lambda>(i, _). py_eq i ?i) acc")
    case None
    then have n: "sorted_wrt (\<lambda>x y. \<not> py_eq (fst x) (fst y)) (acc @ [(?i, row)])"
      using 2 by (auto simp: sorted_wrt_append find_None_iff)
    have "unique_executions (acc @ [(?i, row)]) rows = Inr (Some u)" using 2(3) q ok None by (simp add: Let_def)
    with 2(1) [OF refl] ok None n have "sorted_wrt (\<lambda>x y. \<not> py_eq (fst x) (fst y)) u
        \<and> (\<exists>new. u = (acc @ [(?i, row)]) @ map (\<lambda>x. (dget x ''execution_id'', x)) new \<and> set new \<subseteq> set rows \<and> list_all positive_quantity new)"
      by blast
    then obtain new where "sorted_wrt (\<lambda>x y. \<not> py_eq (fst x) (fst y)) u"
        "u = (acc @ [(?i, row)]) @ map (\<lambda>x. (dget x ''execution_id'', x)) new" "set new \<subseteq> set rows" "list_all positive_quantity new"
      by blast
    moreover have "positive_quantity row" using q ok by (simp add: positive_quantity_def)
    ultimately show ?thesis by (intro conjI exI [of _ "row # new"]) auto
  next
    case (Some ir)
    obtain i known where ir: "ir = (i, known)" by (cases ir)
    with 2(3) q ok Some have k: "same_row known row" "unique_executions acc rows = Inr (Some u)"
      by (auto simp: Let_def split: if_splits)
    have "sorted_wrt (\<lambda>x y. \<not> py_eq (fst x) (fst y)) u
        \<and> (\<exists>new. u = acc @ map (\<lambda>x. (dget x ''execution_id'', x)) new \<and> set new \<subseteq> set rows \<and> list_all positive_quantity new)"
      using 2(2) [OF refl] 2(4) ok Some ir k by blast
    then show ?thesis by auto
  qed
qed

lemma filterE_sound: "filterE p xs = Inr ys \<Longrightarrow> set ys \<subseteq> set xs \<and> list_all (\<lambda>x. p x = Inr True) ys"
  by (induction xs arbitrary: ys) (auto simp: bindE_Inr_iff split: if_splits)

lemma mapE_snd: "mapE (\<lambda>(_, x). f x) ps = mapE f (map snd ps)"
  by (induction ps) auto

lemma reconciliation_evidence_proves:
  assumes "reconciliation_evidence action executions account_id = Inr (Some ev)"
  shows "executions_prove action account_id executions"
proof -
  from assms obtain matches where m: "filterE (\<lambda>x. execution_matches_action action x account_id) executions = Inr matches"
      and t: "tryE (bindE (unique_executions [] matches) (\<lambda>u. case u of
               None \<Rightarrow> Inr None
             | Some unique \<Rightarrow>
                 bindE (mapE (\<lambda>(_, x). bindE (dsub x ''quantity'') py_float) unique) (\<lambda>qs.
                   let expected = quantity_of action
                   in if expected \<le> 0 \<or> \<not> quantities_match (pysum qs) expected then Inr None
                      else Inr (Some [(''order_id'', PStr (order_id_text action)), (''symbol'', PStr (canonical_symbol (PStr (ac_symbol action)))),
                             (''side'', PStr (side_of action)), (''quantity'', PFloat expected),
                             (''execution_ids'', PList (map (\<lambda>(i, _). PStr (str_or_empty i)) unique))]))))
         is_type_or_value (\<lambda>_. Inr None) = Inr (Some ev)"
    unfolding reconciliation_evidence_def by (auto simp: bindE_Inr_iff)
  from t obtain unique qs where u: "unique_executions [] matches = Inr (Some unique)"
      and qs: "mapE (\<lambda>(_, x). bindE (dsub x ''quantity'') py_float) unique = Inr qs"
      and c: "quantities_match (pysum qs) (quantity_of action)" "\<not> quantity_of action \<le> 0"
    by (auto simp: tryE_def bindE_Inr_iff Let_def split: sum.splits if_splits option.splits)
  from unique_executions_sound [OF u] obtain new where new: "unique = map (\<lambda>x. (dget x ''execution_id'', x)) new" "set new \<subseteq> set matches"
      "list_all positive_quantity new" and srt: "sorted_wrt (\<lambda>x y. \<not> py_eq (fst x) (fst y)) unique" by auto
  have "mapE (\<lambda>x. bindE (dsub x ''quantity'') py_float) new = Inr qs"
    using qs unfolding mapE_snd new(1) by (simp add: comp_def)
  moreover have "sorted_wrt (\<lambda>x y. \<not> py_eq (dget x ''execution_id'') (dget y ''execution_id'')) new"
    using srt unfolding new(1) by (simp add: sorted_wrt_map)
  moreover have "set new \<subseteq> set executions" "list_all (own_execution action account_id) new"
    using filterE_sound [OF m] new(2) unfolding execution_matches_own by (auto simp: list_all_iff)
  ultimately show ?thesis using new(3) c unfolding executions_prove_def by blast
qed

text \<open>
  C12. A delayed entry is promoted to EXECUTED by its executions only when they prove it: among the
  broker's executions there are some of the same order, symbol, direction and account, with different
  identities and positive quantities, whose sum is the quantity of the entry within the tolerance. The
  promoted action has the broker-reconciled reason and keeps identity, owner, profile, symbol and quantity.
\<close>

theorem reconciled_entry_proven:
  assumes "reconciled_by_executions E now executions account_id action = Inr (Some b)"
  shows "executions_prove action account_id executions
    \<and> ac_status b = ''EXECUTED'' \<and> ac_reason b = Some ''BROKER_EXECUTION_RECONCILED''
    \<and> (ac_id b, ac_user_id b, ac_broker_profile_id b, ac_symbol b, ac_side b, ac_quantity b, ac_broker_order_id b)
      = (ac_id action, ac_user_id action, ac_broker_profile_id action, ac_symbol action, ac_side action, ac_quantity action, ac_broker_order_id action)"
proof -
  from assms obtain ev a where ev: "reconciliation_evidence action executions account_id = Inr (Some ev)"
      and a: "save_entry_execution_evidence E now action executions account_id = Inr (Some a)"
      and b: "mark_reconciled now a ''IBKR_EXECUTIONS'' ev = Inr b"
    unfolding reconciled_by_executions_def by (auto simp: bindE_Inr_iff split: option.splits)
  from a obtain raw where "a = with_json raw action"
    unfolding save_entry_execution_evidence_def by (auto simp: bindE_Inr_iff Let_def split: if_splits option.splits)
  with b reconciliation_evidence_proves [OF ev] show ?thesis by (auto simp: mark_reconciled_def bindE_Inr_iff with_json_def)
qed

definition delayed_executions :: "pydict list" where
  "delayed_executions = map (\<lambda>(i, q). [(''order_id'', PInt 41), (''account'', PStr ''DU1''), (''execution_id'', PStr i), (''symbol'', PStr ''AAPL''),
     (''side'', PStr ''BOT''), (''sec_type'', PStr ''STK''), (''quantity'', PFloat (Fin q)), (''price'', PFloat (Fin 100)), (''time'', PInt 1000)])
     [(''e1'', 4), (''e2'', 6)]"

theorem reconciled_entry_proven_witness:
  "executions_prove (example_entry\<lparr>ac_status := ''SUBMITTED''\<rparr>) (PStr ''DU1'') delayed_executions"
proof -
  let ?r = "reconciled_by_executions example_env 2000000 delayed_executions (PStr ''DU1'') (example_entry\<lparr>ac_status := ''SUBMITTED''\<rparr>)"
  have "case ?r of Inr (Some b) \<Rightarrow> True | _ \<Rightarrow> False" by code_simp
  then obtain b where "?r = Inr (Some b)" by (auto split: sum.splits option.splits)
  from reconciled_entry_proven [OF this] show ?thesis by blast
qed

end
