(* ===== verification/Worker_Orders.thy ===== *)
theory Worker_Orders
  imports Mt5_Positions Protection
begin

text \<open>
  Which requests the three workers send: the properties of their logs, composed from the guards of the
  single operations. A run of the IBKR manager is either protecting or closing, a run of the MT5 manager
  closes only positions that the bridge has just shown as ATLAS's own, and an item of the scan is worth at
  most one entry and one protective request.
\<close>

section \<open>The orders a program may send\<close>

definition only_orders :: "(event \<Rightarrow> bool) \<Rightarrow> event list \<Rightarrow> bool" where
  "only_orders A es = list_all (\<lambda>e. is_order e \<longrightarrow> A e) es"

interpretation only: trace_property "only_orders A" for A
  by unfold_locales (simp_all add: only_orders_def)

lemma only_of_quiet: "emits no_orders m \<Longrightarrow> emits (only_orders A) m"
  by (erule emits_mono) (auto simp: no_orders_def only_orders_def list_all_iff)

lemma only_of_one: "emits (one_order R) m \<Longrightarrow> (\<And>pre ev. R pre ev \<Longrightarrow> A ev) \<Longrightarrow> emits (only_orders A) m"
  by (erule emits_mono) (fastforce simp: one_order_def no_orders_def only_orders_def list_all_iff)

lemma only_order_requests: "(\<And>d. A (Sent base (Post path payload) d)) \<Longrightarrow> emits (only_orders A) (http E base (Post path payload))"
  by (rule only.emits_http) (simp add: only_orders_def)

lemma emits_with_session [intro!]: "emits Q m \<Longrightarrow> emits Q (with_session m)"
  unfolding emits_def with_session_def
proof
  fix w :: world
  assume m: "\<forall>w. \<exists>es. w_log (snd (m w)) = w_log w @ es \<and> Q es"
  let ?w = "w\<lparr>w_db := w_saved w, w_profiles := [], w_strategies := [], w_states := []\<rparr>"
  from m obtain es where "w_log (snd (m ?w)) = w_log ?w @ es" "Q es" by blast
  then show "\<exists>es. w_log (snd (case m ?w of (r, w') \<Rightarrow> (r, w'\<lparr>w_db := w_saved w', w_profiles := [], w_strategies := [], w_states := []\<rparr>))) = w_log w @ es \<and> Q es"
    by (auto split: prod.splits)
qed

lemma quiet_now_ms' [intro!]: "emits no_orders (scan_now E)"
  by auto

lemma quiet_rows [intro!]:
  "emits no_orders (load_profiles_where f)" "emits no_orders (load_auto_configs)" "emits no_orders (load_strategy_map user_id)"
  "emits no_orders (persist_exit E i p item result own)" "emits no_orders (complete_scan E i)" "emits no_orders (schedule_next j t k)"
  "emits no_orders (finish_scan E i st)" "emits no_orders (trading_config p symbol)" "emits no_orders (persist_mt5_exit E i u item result)"
  unfolding load_profiles_where_def load_auto_configs_def load_strategy_map_def persist_exit_def complete_scan_def schedule_next_def
    finish_scan_def trading_config_def persist_mt5_exit_def
  by auto

context trace_property
begin

lemma emits_guarded_worker:
  assumes "\<And>l. emits Q (body l)" and "\<And>rs. emits Q (report rs)" and "\<And>m :: unit prog. emits no_orders m \<Longrightarrow> emits Q m"
  shows "emits Q (guarded_worker E i body report)"
  unfolding guarded_worker_def Let_def
  by (intro emits_bindP assms(1) emits_prod emits_sum emits_if emits_seqP assms(2) assms(3) emits_liftP emits_retP) auto

end

section \<open>The IBKR manager\<close>

definition manager_path :: "env \<Rightarrow> string" where
  "manager_path E = (if ibkr_native_protection_enabled (en_settings E) then ''/protection'' else ''/orders'')"

definition sent_to_path :: "string \<Rightarrow> event \<Rightarrow> bool" where
  "sent_to_path path e \<longleftrightarrow> (\<exists>base payload d. e = Sent base (Post path payload) d)"

lemma quiet_reconciliation [intro!]:
  "emits no_orders (reconcile_submitted_entries E p xs a)" "emits no_orders (reconcile_submitted_entries_from_positions E p xs a)"
  "emits no_orders (reconcile_native_exit E i p xs ys a rs entry)" "emits no_orders (reconcile_native_exits E i p xs ys a)"
  "emits no_orders (exit_signal E m cfg market symbol side)"
  unfolding reconcile_submitted_entries_def reconcile_submitted_entries_from_positions_def reconcile_native_exits_def
    reconcile_native_exit_def exit_signal_def Let_def
  by auto

lemma close_position_orders: "emits (only_orders (sent_to_path ''/orders'')) (ib_close_position E c symbol quantity side account_id)"
proof -
  have o: "emits (only_orders (sent_to_path ''/orders'')) (ib_post E c ''/orders'' payload)" for payload
    by (rule only_of_one [OF ib_post_sends]) (auto simp: sends_to_def sent_to_path_def)
  have q: "emits no_orders m \<Longrightarrow> emits (only_orders (sent_to_path ''/orders'')) m" for m :: "pyval prog" by (rule only_of_quiet)
  show ?thesis
    unfolding ib_close_position_def Let_def reserved_def
    by (intro only.emits_bindP only.emits_if only.emits_option o only_of_quiet quiet_ib_reads quiet_fails quiet.emits_liftP quiet.emits_getP)
qed

lemma quiet_verify_close [intro!]: "emits no_orders (verify_close_fill E c order_id quantity first latest n)"
  by (induction n arbitrary: first latest) (auto split: sum.split)

lemma close_and_verify_orders: "emits (only_orders (sent_to_path ''/orders'')) (close_and_verify E a symbol side quantity)"
  unfolding close_and_verify_def Let_def
  by (intro only.emits_bindP only.emits_if only.emits_prod close_position_orders only_of_quiet quiet_verify_close) auto

lemma ensure_orders: "emits (only_orders (sent_to_path ''/protection'')) (ensure_native_protection E c entry symbol side quantity account_id)"
proof (rule only_of_one)
  show "emits (one_order (protective_submission (ib_base c) entry)) (ensure_native_protection E c entry symbol side quantity account_id)"
    by (rule ensure_protection_guarded)
qed (auto simp: protective_submission_def sent_to_path_def)

lemma protect_position_orders: "emits (only_orders (sent_to_path ''/protection'')) (protect_position E a entry symbol side quantity item l)"
  unfolding protect_position_def record_result_def keep_result_def
  by (intro only.emits_bindL only.emits_seqL only.emits_ifL only.emits_doL only.emits_liftL only.emits_tryP ensure_orders)
     (auto intro!: only_of_quiet)

lemma exit_by_signal_orders: "emits (only_orders (sent_to_path ''/orders'')) (exit_by_signal E a cfg market symbol side quantity item l)"
  unfolding exit_by_signal_def record_result_def keep_result_def Let_def
  by (intro only.emits_bindL only.emits_seqL only.emits_ifL only.emits_doL only.emits_liftL only.emits_prodL close_and_verify_orders)
     (auto intro!: only_of_quiet)

lemma manage_open_position_orders: "emits (only_orders (sent_to_path (manager_path E))) (manage_open_position E a pos qty l)"
proof -
  have p: "emits (only_orders (sent_to_path (manager_path E)))
      ((if ibkr_native_protection_enabled (en_settings E) then protect_position E a e symbol side q item
        else exit_by_signal E a s market symbol side q item) l)" for e s symbol side q market item l
    using protect_position_orders exit_by_signal_orders by (simp add: manager_path_def)
  have r: "emits (only_orders (sent_to_path (manager_path E))) (record_result E a item result l)" for item result l
    unfolding record_result_def keep_result_def by (intro only.emits_seqL only.emits_liftL only.emits_doL) (auto intro!: only_of_quiet)
  show ?thesis
    unfolding manage_open_position_def Let_def
    by ((rule p | rule r | rule only.emits_bindL only.emits_seqL only.emits_prodL only.emits_optionL only.emits_ifL
          | (rule only.emits_doL, rule only_of_quiet, (auto)[1]))+)
qed

lemma manage_profile_orders: "emits (only_orders (sent_to_path (manager_path E))) (manage_profile E i def p l)"
proof -
  have m: "emits (only_orders (sent_to_path (manager_path E))) (manage_position E a pos l)" for a pos l
    unfolding manage_position_def
    by (intro only.emits_ifL only.emits_bindL only.emits_liftL manage_open_position_orders)
  show ?thesis
    unfolding manage_profile_def Let_def
    by (intro only.emits_ifL only.emits_bindL only.emits_seqL only.emits_doL only.emits_liftL only.emits_eachL m) (auto intro!: only_of_quiet)
qed

text \<open>
  C6. One run of the IBKR position manager never mixes its two ways out of a position: with broker-held
  protection enabled every request that can place orders is a \<open>/protection\<close> request, so no closing order races
  a protective pair; with it disabled every such request is an order of \<open>close_position\<close>. This holds for
  any number of profiles and positions, whatever the brokers answer and whatever other tasks commit.
\<close>

theorem manager_never_races_protection:
  "\<exists>es. w_log (snd (run_ibkr_position_manager E w)) = w_log w @ es
     \<and> list_all (sent_to_path (if ibkr_native_protection_enabled (en_settings E) then ''/protection'' else ''/orders'')) (filter is_order es)"
proof -
  have g: "emits (only_orders (sent_to_path (manager_path E)))
      (guarded_worker E i (seqL (eachL (manage_profile E i def) profiles) (bindL (doL (complete_scan E i)) (\<lambda>_. retL ()))) report)"
    if "\<And>rs. emits no_orders (report rs)" for i def profiles report
    by (intro only.emits_guarded_worker only.emits_seqL only.emits_eachL manage_profile_orders only.emits_bindL only.emits_doL only.emits_liftL)
       (auto intro!: only_of_quiet that)
  have "emits (only_orders (sent_to_path (manager_path E))) (run_ibkr_position_manager E)"
    unfolding run_ibkr_position_manager_def
    by (intro emits_with_session only.emits_bindP only.emits_option only.emits_if only.emits_retP g)
       (auto intro!: only_of_quiet)
  then have "emits (\<lambda>es. list_all (sent_to_path (manager_path E)) (filter is_order es)) (run_ibkr_position_manager E)"
    by (rule emits_mono) (auto simp: only_orders_def list_all_iff)
  then show ?thesis unfolding emits_def manager_path_def by blast
qed

section \<open>The MT5 manager\<close>

definition close_path :: "int \<Rightarrow> string" where
  "close_path ticket = ''/positions/'' @ show_int ticket @ ''/close''"

lemma close_path_is_order: "is_order (Sent base (Post (close_path ticket) []) d)"
  by (simp add: close_path_def order_path_def starts_with_def ends_with_def)

definition broker_shows_owned :: "env \<Rightarrow> string \<Rightarrow> int \<Rightarrow> bool" where
  \<comment> \<open>an answer of the bridge lists the ticket with a comment of ATLAS\<close>
  "broker_shows_owned E base ticket \<longleftrightarrow> (\<exists>t data rows p. en_http E t base (Get ''/positions'' []) = Inr data \<and> strict_rows data = Inr rows
     \<and> PDict p \<in> set rows \<and> int_or0 (dget p ''ticket'') = Inr ticket \<and> atlas_comment p)"

definition owned_close :: "env \<Rightarrow> event list \<Rightarrow> event \<Rightarrow> bool" where
  \<comment> \<open>the event closes a position, right after the positions were read again and showed it as ATLAS's own\<close>
  "owned_close E pre ev \<longleftrightarrow> (\<exists>base ticket d before d0. ev = Sent base (Post (close_path ticket) []) d
     \<and> pre = before @ [Sent base (Get ''/positions'' []) d0] \<and> broker_shows_owned E base ticket)"

definition owned_closes :: "env \<Rightarrow> event list \<Rightarrow> bool" where
  "owned_closes E es \<longleftrightarrow> (\<forall>pre ev suf. es = pre @ ev # suf \<longrightarrow> is_order ev \<longrightarrow> owned_close E pre ev)"

lemma owned_close_prefix: "owned_close E pre ev \<Longrightarrow> owned_close E (xs @ pre) ev"
  unfolding owned_close_def by (metis append.assoc)

interpretation closes: trace_property "owned_closes E" for E
proof
  show "owned_closes E []" by (simp add: owned_closes_def)
  fix xs ys
  assume x: "owned_closes E xs" and y: "owned_closes E ys"
  show "owned_closes E (xs @ ys)"
    unfolding owned_closes_def
  proof (intro allI impI)
    fix pre ev suf
    assume e: "xs @ ys = pre @ ev # suf" and o: "is_order ev"
    from e consider us where "xs = pre @ ev # us" | us where "pre = xs @ us" "ys = us @ ev # suf"
      by (auto simp: append_eq_append_conv2 append_eq_Cons_conv)
    then show "owned_close E pre ev"
      using x y o owned_close_prefix by cases (auto simp: owned_closes_def)
  qed
qed

lemma closes_of_quiet: "emits no_orders m \<Longrightarrow> emits (owned_closes E) m"
  by (erule emits_mono) (auto simp: no_orders_def owned_closes_def)

lemma find_ticket_sound: "find_ticket t rows = Inr (Some p) \<Longrightarrow> PDict p \<in> set rows \<and> int_or0 (dget p ''ticket'') = Inr t"
proof (induction rows)
  case (Cons row rows)
  then show ?case by (cases row) (auto simp: bindE_Inr_iff split: if_splits)
qed simp

lemma mt_request_log: "w_log (snd (mt_request E base req w)) = w_log w @ [Sent base req (w_db w)]"
  by (auto simp: mt_request_def tryP_def http_def mt_fails_def split: sum.split)

lemma mt_request_answer: "mt_request E base req w = (Inr data, w1) \<Longrightarrow> en_http E (w_tick w) base req = Inr data"
  by (auto simp: mt_request_def tryP_def http_def mt_fails_def split: sum.splits if_splits)

lemma owned_closes_single: "\<not> is_order e \<Longrightarrow> owned_closes E [e]"
  by (auto simp: owned_closes_def Cons_eq_append_conv)

lemma closed_after_reading:
  assumes "broker_shows_owned E base ticket"
  shows "owned_closes E [Sent base (Get ''/positions'' []) d0, Sent base (Post (close_path ticket) []) d]"
  using assms by (auto simp: owned_closes_def owned_close_def Cons_eq_append_conv)

lemma close_block_owned:
  "emits (owned_closes E) (bindP (bindP (mt_request E base (Get ''/positions'' [])) (\<lambda>d. liftP (strict_rows d))) (\<lambda>positions.
     bindP (liftP (int_or0 v)) (\<lambda>ticket.
     bindP (liftP (find_ticket ticket positions)) (\<lambda>current. case current of
       None \<Rightarrow> retP (False, exit_blocked ''POSITION_NOT_FOUND'')
     | Some p \<Rightarrow>
         if \<not> atlas_comment p then retP (False, exit_blocked ''OWNERSHIP_NOT_VERIFIED'')
         else bindP (mt_close_demo_position E base ticket) (\<lambda>closed.
              retP (True, [(''status'', PStr ''EXIT_EXECUTED''), (''reason'', PStr ''STRONG_OPPOSITE_SIGNAL''), (''broker_result'', closed)]))))))"
    (is "emits _ ?m")
  unfolding emits_def
proof
  fix w :: world
  let ?read = "Sent base (Get ''/positions'' []) (w_db w)"
  obtain r w1 where m: "mt_request E base (Get ''/positions'' []) w = (r, w1)" by (cases "mt_request E base (Get ''/positions'' []) w")
  have l1: "w_log w1 = w_log w @ [?read]" using mt_request_log [of E base "Get ''/positions'' []" w] m by simp
  have one: "owned_closes E [?read]" by (rule owned_closes_single) simp
  show "\<exists>es. w_log (snd (?m w)) = w_log w @ es \<and> owned_closes E es"
  proof (cases "\<exists>data rows ticket p. r = Inr data \<and> strict_rows data = Inr rows \<and> int_or0 v = Inr ticket
      \<and> find_ticket ticket rows = Inr (Some p) \<and> atlas_comment p")
    case False
    then have "w_log (snd (?m w)) = w_log w1"
      using m by (auto simp: bindP_apply split: sum.split option.split)
    with l1 one show ?thesis by auto
  next
    case True
    then obtain data rows ticket p where r: "r = Inr data" "strict_rows data = Inr rows" "int_or0 v = Inr ticket"
        "find_ticket ticket rows = Inr (Some p)" "atlas_comment p" by blast
    then have "broker_shows_owned E base ticket"
      using mt_request_answer m find_ticket_sound unfolding broker_shows_owned_def by blast
    from closed_after_reading [OF this] have
      o: "owned_closes E [?read, Sent base (Post (close_path ticket) []) (w_db w1)]" .
    have "w_log (snd (?m w)) = w_log (snd (mt_close_demo_position E base ticket w1))"
      using m r by (simp add: bindP_apply split: prod.split sum.split)
    also have "\<dots> = w_log w1 @ [Sent base (Post (close_path ticket) []) (w_db w1)]"
      unfolding mt_close_demo_position_def mt_request_log by (simp add: close_path_def)
    finally show ?thesis using l1 o by auto
  qed
qed

lemma close_signalled_owned: "emits (owned_closes E) (close_signalled E base item)"
  unfolding close_signalled_def
  by (intro closes.emits_bindP closes.emits_option close_block_owned closes_of_quiet) auto

lemma quiet_gathered [intro!]:
  "emits no_orders (add_item x g)" "(\<And>g. emits no_orders (body g)) \<Longrightarrow> emits no_orders (profile_errors E s i body g)"
  "(\<And>g. emits no_orders (body g)) \<Longrightarrow> emits no_orders (run_gathered body report)"
  unfolding add_item_def profile_errors_def run_gathered_def by auto

lemma quiet_evaluate_position [intro!]: "emits no_orders (evaluate_mt5_position E base i def strategies row g)"
proof -
  have c: "emits no_orders (case (xs, v) of ([], Some (market, cfg)) \<Rightarrow> f market cfg g | _ \<Rightarrow> h g)"
    if "\<And>a b. emits no_orders (f a b g)" "emits no_orders (h g)" for xs :: "string list" and v f h
    using that by (cases xs; cases v) auto
  show ?thesis
    unfolding evaluate_mt5_position_def Let_def
    by (intro quiet.emits_bindL quiet.emits_liftL) (auto split: list.split option.split)
qed

lemma quiet_exit_signals [intro!]: "emits no_orders (evaluate_mt5_exit_signals E user_id)"
proof -
  have "emits no_orders (evaluate_mt5_profile E def strategies p g)" for def strategies p g
    unfolding evaluate_mt5_profile_def by (intro quiet.emits_ifL quiet.emits_liftL quiet_gathered quiet.emits_bindL quiet.emits_doL quiet.emits_eachL) auto
  then show ?thesis unfolding evaluate_mt5_exit_signals_def by auto
qed

lemma exit_item_owned: "emits (owned_closes E) (exit_mt5_item E i user_id item l)"
proof -
  have s: "emits (owned_closes E) (seqL (keep_result item result) (doL (persist_mt5_exit E i user_id item result)) l)" for result l
    unfolding keep_result_def by (intro closes.emits_seqL closes.emits_liftL closes.emits_doL closes_of_quiet) auto
  show ?thesis
    unfolding exit_mt5_item_def Let_def
    by ((rule s | rule closes.emits_bindL closes.emits_seqL closes.emits_prodL closes.emits_optionL closes.emits_ifL closes.emits_liftL
          | rule closes.emits_doL [OF close_signalled_owned] | (rule closes.emits_doL, rule closes_of_quiet, (auto)[1]))+)
qed


section \<open>The scan\<close>

context guarded_order
begin

lemma after_quietL: "(\<And>l. emits no_orders (m l)) \<Longrightarrow> (\<And>x l. emits G (f x l)) \<Longrightarrow> emits G (bindL m f l)"
  unfolding bindL_def by (intro after_quiet guarded_prod guarded_sum guarded_retP)

lemma after_quiet_seqL: "(\<And>l. emits no_orders (m l)) \<Longrightarrow> (\<And>l. emits G (k l)) \<Longrightarrow> emits G (seqL m k l)"
  unfolding seqL_def by (rule after_quietL)

lemma before_quietL: "(\<And>l. emits G (m l)) \<Longrightarrow> (\<And>x l. emits no_orders (f x l)) \<Longrightarrow> emits G (bindL m f l)"
  unfolding bindL_def by (rule before_quiet) (auto split: prod.split sum.split)

lemma guarded_cond: "(b \<Longrightarrow> emits G m) \<Longrightarrow> (\<not> b \<Longrightarrow> emits G k) \<Longrightarrow> emits G (if b then m else k)"
  by simp

lemma guarded_ifL: "emits G (m l) \<Longrightarrow> emits G (k l) \<Longrightarrow> emits G ((if b then m else k) l)"
  by simp

lemma guarded_doL: "emits G m \<Longrightarrow> emits G (doL m l)"
  unfolding emits_def doL_def by (simp add: split_beta)

end

lemma emits_bindL_split:
  assumes "emits P (m l)" and "\<And>x l. emits S (f x l)" and "S []"
  shows "emits (\<lambda>es. \<exists>xs ys. es = xs @ ys \<and> P xs \<and> S ys) (bindL m f l)"
  unfolding emits_def
proof
  fix w
  obtain o1 w1 where m: "m l w = (o1, w1)" by (cases "m l w")
  from emitsD [OF assms(1) m] obtain xs where xs: "w_log w1 = w_log w @ xs" "P xs" by blast
  show "\<exists>es. w_log (snd (bindL m f l w)) = w_log w @ es \<and> (\<exists>xs ys. es = xs @ ys \<and> P xs \<and> S ys)"
  proof (cases "\<exists>x l'. o1 = Inr (Inr x, l')")
    case False
    then have "w_log (snd (bindL m f l w)) = w_log w1" using m by (cases o1) (auto simp: bindL_def bindP_def split: sum.split prod.split)
    with xs assms(3) show ?thesis by (intro exI [of _ xs]) auto
  next
    case True
    then obtain x l' where "o1 = Inr (Inr x, l')" by blast
    then have e: "bindL m f l w = f x l' w1" using m by (simp add: bindL_def bindP_def)
    from assms(2) obtain ys where "w_log (snd (f x l' w1)) = w_log w1 @ ys" "S ys" unfolding emits_def by blast
    with xs e show ?thesis by (intro exI [of _ "xs @ ys"]) auto
  qed
qed

definition routed_entry :: "nat \<Rightarrow> nat \<Rightarrow> pydict \<Rightarrow> event list \<Rightarrow> event \<Rightarrow> bool" where
  \<comment> \<open>the entry order of the item's own provider, under that route's guard\<close>
  "routed_entry scan_id user_id item pre ev \<longleftrightarrow>
     (let provider = upper_or_empty (dget item ''provider''); symbol = canonical_symbol (PStr (item_symbol item))
      in (provider = ''IBKR'' \<and> audited_entry scan_id user_id item pre ev)
       \<or> (provider = ''MT5'' \<and> mt5_submission symbol pre ev)
       \<or> (provider = ''BYBIT'' \<and> bybit_submission (canonical_symbol (PStr symbol)) pre ev))"

interpretation routed: guarded_order "one_order (routed_entry scan_id user_id item)" for scan_id user_id item
proof (rule guarded_one_order)
  fix xs ys :: "event list" and ev
  have a: "audited_entry scan_id user_id item ys ev \<Longrightarrow> audited_entry scan_id user_id item (xs @ ys) ev"
    unfolding audited_entry_def by (metis append.assoc)
  assume "routed_entry scan_id user_id item ys ev"
  with a show "routed_entry scan_id user_id item (xs @ ys) ev"
    by (auto simp: routed_entry_def Let_def mt5_submission_def bybit_submission_def spot_submission_def spot_guard_def)
qed

definition some_protection :: "event list \<Rightarrow> event \<Rightarrow> bool" where
  "some_protection pre ev \<longleftrightarrow> (\<exists>base entry. protective_submission base entry pre ev)"

interpretation follow: guarded_order "one_order some_protection"
  by (rule guarded_one_order) (fastforce simp: some_protection_def protective_submission_def)

definition item_log :: "env \<Rightarrow> nat \<Rightarrow> nat \<Rightarrow> pydict \<Rightarrow> event list \<Rightarrow> bool" where
  \<comment> \<open>the specification: at most one entry of the item's provider, then at most one protective request, the
     latter only with broker-held protection; nothing for an item the preflight did not pass\<close>
  "item_log E scan_id user_id item es \<longleftrightarrow>
     (\<exists>xs ys. es = xs @ ys \<and> one_order (routed_entry scan_id user_id item) xs \<and> one_order some_protection ys
        \<and> (ibkr_native_protection_enabled (en_settings E) \<or> no_orders ys))
     \<and> (dget item ''preflight'' = PStr ''PASS'' \<or> no_orders es)"

definition entry_then_pair :: "env \<Rightarrow> nat \<Rightarrow> nat \<Rightarrow> pydict \<Rightarrow> event list \<Rightarrow> bool" where
  "entry_then_pair E scan_id user_id item es \<longleftrightarrow>
     (\<exists>xs ys. es = xs @ ys \<and> one_order (routed_entry scan_id user_id item) xs \<and> one_order some_protection ys
        \<and> (ibkr_native_protection_enabled (en_settings E) \<or> no_orders ys))"

lemma item_log_alt: "item_log E scan_id user_id item es \<longleftrightarrow>
    entry_then_pair E scan_id user_id item es \<and> (dget item ''preflight'' = PStr ''PASS'' \<or> no_orders es)"
  by (simp add: item_log_def entry_then_pair_def)

interpretation two_part: guarded_order "entry_then_pair E scan_id user_id item" for E scan_id user_id item
proof
  fix xs ys :: "event list"
  have n: "no_orders []" by (simp add: no_orders_def)
  show "no_orders xs \<Longrightarrow> entry_then_pair E scan_id user_id item xs"
    unfolding entry_then_pair_def using routed.G_quiet follow.G_quiet [OF n] n by (intro exI [of _ xs] exI [of _ "[]"]) simp
  show "no_orders xs \<Longrightarrow> entry_then_pair E scan_id user_id item ys \<Longrightarrow> entry_then_pair E scan_id user_id item (xs @ ys)"
    unfolding entry_then_pair_def using routed.G_prefix by (metis append.assoc)
  have a: "no_orders as \<Longrightarrow> no_orders bs \<Longrightarrow> no_orders (as @ bs)" for as bs by (simp add: no_orders_def)
  show "entry_then_pair E scan_id user_id item xs \<Longrightarrow> no_orders ys \<Longrightarrow> entry_then_pair E scan_id user_id item (xs @ ys)"
    unfolding entry_then_pair_def using follow.G_suffix a by (metis append.assoc)
qed

lemma execute_item_routed:
  "emits (one_order (routed_entry scan_id user_id item)) (execute_item E scan_id user_id (upper_or_empty (dget item ''provider'')) item)"
proof -
  let ?p = "upper_or_empty (dget item ''provider'')"
  let ?R = "one_order (routed_entry scan_id user_id item)"
  have b: "emits ?R (execute_bybit E user_id item)" if "?p = ''BYBIT''"
    by (rule emits_mono [OF execute_bybit_guarded], erule one_order_mono) (auto simp: routed_entry_def Let_def that)
  have m: "emits ?R (execute_mt5 E user_id item)" if "?p = ''MT5''"
    by (rule emits_mono [OF execute_mt5_guarded], erule one_order_mono) (auto simp: routed_entry_def Let_def that)
  have i: "emits ?R (execute_ibkr_audited E scan_id user_id item)" if "?p = ''IBKR''"
  proof (rule emits_mono)
    show "emits (one_order (audited_entry scan_id user_id item)) (execute_ibkr_audited E scan_id user_id item)"
      by (rule execute_audited_guarded)
  qed (erule one_order_mono, auto simp: routed_entry_def Let_def that)
  show ?thesis
    unfolding execute_item_def
    by (intro routed.handled_quietly routed.guarded_cond routed.before_quiet [OF b] routed.before_quiet [OF m] i routed.guarded_retP) auto
qed

lemma protect_saved_guarded: "emits (one_order some_protection) (protect_saved_entry E saved)"
proof -
  have e: "emits (one_order some_protection) (ensure_native_protection E c entry symbol side quantity account_id)" for c entry symbol side quantity account_id
    by (rule emits_mono [OF ensure_protection_guarded], erule one_order_mono) (auto simp: some_protection_def)
  show ?thesis
    unfolding protect_saved_entry_def
    by ((rule follow.guarded_option follow.guarded_if follow.guarded_retP follow.handled_quietly [OF e] | (rule follow.after_quiet, (force)[1]) | (force)[1])+)
qed

lemma settle_item_guarded:
  "emits (\<lambda>es. one_order some_protection es \<and> (ibkr_native_protection_enabled (en_settings E) \<or> no_orders es))
     (settle_item E scan_id user_id provider item result saved l)"
proof -
  have p: "emits no_orders (persist_action E scan_id user_id item result)" by auto
  show ?thesis
  proof (cases "ibkr_native_protection_enabled (en_settings E)")
    case True
    have "emits (one_order some_protection) (settle_item E scan_id user_id provider item result saved l)"
      unfolding settle_item_def Let_def
      by (intro follow.after_quiet_seqL follow.after_quietL follow.guarded_ifL follow.before_quietL [OF follow.guarded_doL [OF protect_saved_guarded]]
             follow.of_quiet) auto
    with True show ?thesis by simp
  next
    case False
    then have "emits no_orders (settle_item E scan_id user_id provider item result saved l)"
      unfolding settle_item_def Let_def by auto
    then show ?thesis by (rule emits_mono) (auto intro: follow.G_quiet)
  qed
qed

lemma quiet_unpassed: "\<not> py_eq (dget item ''preflight'') (PStr ''PASS'') \<Longrightarrow> emits no_orders (scan_item E scan_id user_id item l)"
  by (auto simp: scan_item_def Let_def)


end
