(* ===== verification/Worker_Rows.thy ===== *)
theory Worker_Rows
  imports Worker_Orders
begin

text \<open>
  What the three workers leave in the database: how a worker ends, what the engine's switches prevent, the
  widths of the audit rows, the exits recorded once, and the equivalence of two routines that verify a fill.
\<close>

section \<open>How a worker ends\<close>

definition end_scan :: "nat \<Rightarrow> string \<Rightarrow> string \<Rightarrow> int \<Rightarrow> db \<Rightarrow> db" where
  \<comment> \<open>the specification: only the scan's own row changes\<close>
  "end_scan i status message now d =
     d\<lparr>db_scans := update_key sn_id i (\<lambda>s. s\<lparr>sn_status := status, sn_error_message := Some message, sn_finished_at := Some now\<rparr>) (db_scans d)\<rparr>"

text \<open>
  C8. A worker that fails or is cancelled leaves exactly what it had committed, and its scan row says how it
  ended: an exception ends the scan as FAILED with the shortened text and the results so far are returned;
  a cancellation ends a running scan as INTERRUPTED and is raised again. Rows that were added after the last
  commit are lost in both cases, whatever the brokers have executed meanwhile.
\<close>

theorem worker_keeps_only_commits:
  assumes "body [] w = (Inr (Inl e, results), w1)" and "by_key sn_id i (db_scans (w_saved w1)) = Some s" and "sn_status s = ''RUNNING''"
    and "en_commit E (w_tick w1)"
  shows "\<exists>w'. guarded_worker E i body report w =
      (if is_exception e
       then Inr [(''status'', PStr ''FAILED''), (''error'', PStr (short_text (exn_message E e) 500)), (''results'', PList (map PDict results))]
       else Inl e, w')
    \<and> w_saved w' = (if is_exception e then end_scan i ''FAILED'' (short_text (exn_message E e) 500) (1000 * en_now E (w_tick w1)) (w_saved w1)
                    else end_scan i ''INTERRUPTED'' ''WORKER_CANCELLED_BROKER_RECONCILIATION_REQUIRED'' (1000 * en_now E (w_tick w1)) (w_saved w1))"
proof (cases "is_exception e")
  case True
  with assms show ?thesis
    by (simp add: guarded_worker_def bindP_def seqP_def fail_scan_def rollback_def scan_of_def scan_now_def update_scan_def modify_db_def
        commit_def end_scan_def Let_def)
next
  case False
  with assms show ?thesis
    by (simp add: guarded_worker_def bindP_def seqP_def interrupt_scan_def rollback_def scan_of_def scan_now_def update_scan_def modify_db_def
        commit_def end_scan_def Let_def)
qed

section \<open>The engine's switches\<close>

lemma loaded_state:
  assumes "find (\<lambda>s. au_name s = ''default'') (db_states (w_saved w)) = Some s"
  shows "get_or_create_state E (w\<lparr>w_db := w_saved w, w_profiles := [], w_strategies := [], w_states := []\<rparr>)
    = (Inr s, w\<lparr>w_db := w_saved w, w_profiles := [], w_strategies := [], w_states := [s]\<rparr>)"
  using assms by (simp add: get_or_create_state_def bindP_def load_state_def cached_def by_key_def)

text \<open>
  The switches of the engine stop all three workers: when the default state is disabled, killed or has
  automatic execution off, the scan and both position managers return SKIPPED with the reason of the first
  switch that is off, send no request at all, log nothing and leave the database as it is.
\<close>

theorem engine_off_does_nothing:
  assumes "find (\<lambda>s. au_name s = ''default'') (db_states (w_saved w)) = Some s" and "engine_blocker s = Some reason"
  shows "list_all (\<lambda>run. \<exists>w'. run E w = (Inr (skipped reason), w') \<and> w_log w' = w_log w \<and> w_tick w' = w_tick w \<and> w_saved w' = w_saved w)
    [run_safe_scan, run_ibkr_position_manager, run_mt5_position_manager]"
  using loaded_state [OF assms(1), of E] assms(2)
  by (simp add: run_safe_scan_def run_ibkr_position_manager_def run_mt5_position_manager_def with_session_def bindP_def scan_now_def)

theorem engine_off_does_nothing_witness:
  "list_all (\<lambda>run. \<exists>w'. run example_env (example_world\<lparr>w_saved := example_db\<lparr>db_states := [(default_state 4)\<lparr>au_killed := True\<rparr>]\<rparr>\<rparr>)
        = (Inr (skipped ''KILL_SWITCH''), w') \<and> w_log w' = [] \<and> w_tick w' = 0
        \<and> w_saved w' = example_db\<lparr>db_states := [(default_state 4)\<lparr>au_killed := True\<rparr>]\<rparr>)
    [run_safe_scan, run_ibkr_position_manager, run_mt5_position_manager]"
  using engine_off_does_nothing [where w = "example_world\<lparr>w_saved := example_db\<lparr>db_states := [(default_state 4)\<lparr>au_killed := True\<rparr>]\<rparr>\<rparr>"
      and s = "(default_state 4)\<lparr>au_killed := True\<rparr>" and reason = "''KILL_SWITCH''" and E = example_env]
  by (simp add: default_state_def engine_blocker_def example_world_def)

theorem worker_keeps_only_commits_witness:
  "\<exists>w'. guarded_worker example_env 20 (liftL (Inl (RuntimeError ''x''))) (\<lambda>_. retP [])
      (example_world\<lparr>w_saved := example_db\<lparr>db_scans := [new_scan 20 1 1 0]\<rparr>\<rparr>)
      = (Inr [(''status'', PStr ''FAILED''), (''error'', PStr ''x''), (''results'', PList [])], w')
    \<and> w_saved w' = end_scan 20 ''FAILED'' ''x'' 0 (example_db\<lparr>db_scans := [new_scan 20 1 1 0]\<rparr>)"
proof -
  let ?w = "example_world\<lparr>w_saved := example_db\<lparr>db_scans := [new_scan 20 1 1 0]\<rparr>\<rparr>"
  have b: "liftL (Inl (RuntimeError ''x'')) [] ?w = (Inr (Inl (RuntimeError ''x'') :: unit res, []), ?w)" by (simp add: liftL_def)
  have m: "exn_message example_env (RuntimeError ''x'') = ''x''" by (simp add: exn_message_def)
  have t: "short_text ''x'' 500 = ''x''" by (simp add: short_text_def or_else_def)
  have s: "by_key sn_id 20 (db_scans (w_saved ?w)) = Some (new_scan 20 1 1 0)" by (simp add: by_key_def new_scan_def)
  show ?thesis
    using worker_keeps_only_commits [where body = "liftL (Inl (RuntimeError ''x''))" and E = example_env and report = "\<lambda>_. retP []", OF b s] m t
    by (simp add: new_scan_def example_env_def example_world_def)
qed

section \<open>Two routines that verify a fill\<close>

lemma fill_verdict_complete:
  "fill_verdict status shares = Inr v \<Longrightarrow> \<exists>b. ibkr_fill_is_complete (PDict status) (PFloat shares) = Inr b
    \<and> (b \<longleftrightarrow> v = Some ''FILLED'') \<and> (\<not> b \<longrightarrow> (v = None \<longleftrightarrow> upper_or_empty (dget status ''status'') \<notin> set TERMINAL_CLOSE_STATUSES))"
  by (auto simp: fill_verdict_def bindE_Inr_iff TERMINAL_CLOSE_STATUSES_def IBKR_TERMINAL_ORDER_STATUSES_def split: if_splits)

text \<open>
  C13. The manager's check of a closing fill is the scan's check of an entry fill: on every run on which
  \<open>_verify_ibkr_fill\<close> of the scan returns a verdict and an answer, \<open>_verify_fill\<close> of the manager sends the
  same requests, returns the same answer, and reports a fill exactly for the verdict FILLED.
\<close>

theorem close_fill_check_equivalent:
  assumes "verify_ibkr_fill E c order_id quantity first latest n w = (Inr (verdict, answer), w')"
  shows "verify_close_fill E c order_id quantity first latest n w = (Inr (verdict = ''FILLED'', answer), w')"
  using assms
proof (induction n arbitrary: first latest w)
  case (Suc n)
  let ?read = "tryP (bindP (bindP (liftP (py_int order_id)) (ib_order_status E c)) (\<lambda>d. retP (Inr d))) is_exception (\<lambda>e. retP (Inl e))"
  from Suc.prems obtain w0 where w0: "(if first then retP () else suspend E) w = (Inr (), w0)"
    and r0: "bindP ?read (\<lambda>r. case r of
          Inl e \<Rightarrow> retP (''SUBMITTED'', PDict [(''verification_error'', PStr (exn_name e))])
        | Inr answer \<Rightarrow>
            bindP (liftP (bindE (as_dict answer) (\<lambda>d. sub_dict d ''status''))) (\<lambda>status.
            bindP (liftP (fill_verdict status quantity)) (\<lambda>v. case v of
              Some verdict \<Rightarrow> retP (verdict, answer)
            | None \<Rightarrow> verify_ibkr_fill E c order_id quantity False answer n))) w0 = (Inr (verdict, answer), w')"
    by (auto elim!: seqP_InrE simp del: prog_simps)
  from r0 obtain r w1 where r: "?read w0 = (Inr r, w1)" by (auto elim!: bindP_InrE)
  show ?case
  proof (cases r)
    case (Inl e)
    with r r0 w0 show ?thesis by (auto simp: seqP_def bindP_def)
  next
    case (Inr a)
    with r r0 obtain status v where st: "bindE (as_dict a) (\<lambda>d. sub_dict d ''status'') = Inr status"
        and v: "fill_verdict status quantity = Inr v"
        and k: "(case v of Some verdict \<Rightarrow> retP (verdict, a) | None \<Rightarrow> verify_ibkr_fill E c order_id quantity False a n) w1 = (Inr (verdict, answer), w')"
      by (auto simp: bindP_def split: sum.splits)
    obtain b where b: "ibkr_fill_is_complete (PDict status) (PFloat quantity) = Inr b" "b \<longleftrightarrow> v = Some ''FILLED''"
        "\<not> b \<Longrightarrow> v = None \<longleftrightarrow> upper_or_empty (dget status ''status'') \<notin> set TERMINAL_CLOSE_STATUSES"
      using fill_verdict_complete [OF v] by blast
    have step: "verify_close_fill E c order_id quantity first latest (Suc n) w
        = (if b then retP (True, a) else if upper_or_empty (dget status ''status'') \<in> set TERMINAL_CLOSE_STATUSES then retP (False, a)
           else verify_close_fill E c order_id quantity False a n) w1"
      using w0 r Inr st b(1) by (simp add: seqP_def bindP_def)
    show ?thesis
    proof (cases v)
      case None
      with k have "verify_ibkr_fill E c order_id quantity False a n w1 = (Inr (verdict, answer), w')" by simp
      from Suc.IH [OF this] None b step show ?thesis by auto
    next
      case (Some x)
      with k b step show ?thesis by auto
    qed
  qed
qed auto

theorem close_fill_check_equivalent_witness:
  "fst (verify_close_fill (example_env\<lparr>en_http := \<lambda>_ _ _. Inr (PDict [(''status'', PDict [(''status'', PStr ''Cancelled''), (''filled'', PInt 0)])])\<rparr>)
      plain_client (PInt 7) (Fin 2) True PNone 6 example_world) = Inr (False, PDict [(''status'', PDict [(''status'', PStr ''Cancelled''), (''filled'', PInt 0)])])"
proof -
  let ?E = "example_env\<lparr>en_http := \<lambda>_ _ _. Inr (PDict [(''status'', PDict [(''status'', PStr ''Cancelled''), (''filled'', PInt 0)])])\<rparr>"
  have "fst (verify_ibkr_fill ?E plain_client (PInt 7) (Fin 2) True PNone 6 example_world)
      = Inr (''CANCELLED'', PDict [(''status'', PDict [(''status'', PStr ''Cancelled''), (''filled'', PInt 0)])])" by code_simp
  then obtain w' where "verify_ibkr_fill ?E plain_client (PInt 7) (Fin 2) True PNone 6 example_world
      = (Inr (''CANCELLED'', PDict [(''status'', PDict [(''status'', PStr ''Cancelled''), (''filled'', PInt 0)])]), w')" by (metis surjective_pairing)
  from close_fill_check_equivalent [OF this] show ?thesis by simp
qed

section \<open>The rows of the audit\<close>

definition opt_within :: "nat \<Rightarrow> string option \<Rightarrow> bool" where
  "opt_within n t \<longleftrightarrow> (case t of None \<Rightarrow> True | Some s \<Rightarrow> length s \<le> n)"

definition action_fits :: "automation_action \<Rightarrow> bool" where
  \<comment> \<open>the widths of the columns of \<open>automation_actions\<close>\<close>
  "action_fits a \<longleftrightarrow> length (ac_provider a) \<le> 32 \<and> opt_within 24 (ac_environment a) \<and> length (ac_market a) \<le> 24
     \<and> length (ac_symbol a) \<le> 32 \<and> opt_within 8 (ac_side a) \<and> length (ac_status a) \<le> 24 \<and> opt_within 128 (ac_reason a)
     \<and> opt_within 64 (ac_sizing_policy a) \<and> opt_within 128 (ac_broker_order_id a) \<and> opt_within 128 (ac_broker_position_id a)"

lemma short_within: "3 \<le> n \<Longrightarrow> opt_within n (short v n)"
  by (auto simp: short_def opt_within_def Let_def)

lemma short_text_within: "3 \<le> n \<Longrightarrow> length (or_else (short v n) []) \<le> n"
  by (auto simp: short_def or_else_def Let_def split: option.split)

lemma rows_fit:
  "action_row i s u p item result now = Inr a \<Longrightarrow> action_fits a"
  "exit_row i s u q item result now = Inr a \<Longrightarrow> action_fits a"
  "mt5_exit_row i s u k item result now = Inr a \<Longrightarrow> action_fits a"
  by (auto simp: action_row_def exit_row_def mt5_exit_row_def bindE_Inr_iff Let_def action_fits_def short_within short_text_within
      split: if_splits prod.splits)
     (simp_all add: opt_within_def)

definition actions_fit :: "db \<Rightarrow> bool" where "actions_fit d \<longleftrightarrow> list_all action_fits (db_actions d)"

text \<open>
  C15. Every audit row fits its table: whatever a broker answers and whatever an item says, a row that the
  scan, the IBKR manager or the MT5 manager adds respects the widths of all columns of \<open>automation_actions\<close>,
  so no long text of a broker can make the insert fail; the other rows stay as they are.
\<close>

theorem audit_rows_fit:
  assumes "actions_fit (w_db w)"
  shows "list_all (\<lambda>m. case m w of (_, w') \<Rightarrow> actions_fit (w_db w') \<and> take (length (db_actions (w_db w))) (db_actions (w_db w')) = db_actions (w_db w))
    [bindP (persist_action E scan_id user_id item result) (\<lambda>_. retP ()), persist_exit E scan_id p item result own_id,
     persist_mt5_exit E scan_id user_id item result]"
proof -
  have l: "w_db (snd (profile_for_item user_id item w)) = w_db w"
    unfolding profile_for_item_def find_strategy_def
    by (auto simp: bindP_apply load_strategy_def get_profile_def split: option.split sum.split prod.split)
  have 1: "case bindP (persist_action E scan_id user_id item result) (\<lambda>_. retP ()) w of
      (_, w') \<Rightarrow> actions_fit (w_db w') \<and> take (length (db_actions (w_db w))) (db_actions (w_db w')) = db_actions (w_db w)"
    using assms l by (auto simp: persist_action_def bindP_apply seqP_def modify_db_def actions_fit_def split: sum.splits prod.splits dest: rows_fit)
  have 2: "case persist_exit E scan_id p item result own_id w of
      (_, w') \<Rightarrow> actions_fit (w_db w') \<and> take (length (db_actions (w_db w))) (db_actions (w_db w')) = db_actions (w_db w)"
    using assms by (auto simp: persist_exit_def bindP_apply modify_db_def actions_fit_def split: sum.splits prod.splits dest: rows_fit)
  have 3: "case persist_mt5_exit E scan_id user_id item result w of
      (_, w') \<Rightarrow> actions_fit (w_db w') \<and> take (length (db_actions (w_db w))) (db_actions (w_db w')) = db_actions (w_db w)"
    using assms by (auto simp: persist_mt5_exit_def bindP_apply modify_db_def actions_fit_def split: sum.splits prod.splits option.splits dest: rows_fit)
  from 1 2 3 show ?thesis by simp
qed

theorem audit_rows_fit_witness: "actions_fit (w_db (snd (persist_exit example_env 5 example_profile [(''market'', PStr ''STOCK'')] (exit_blocked ''x'') None example_world)))"
proof -
  have "actions_fit (w_db example_world)" by (simp add: actions_fit_def example_world_def example_db_def)
  from audit_rows_fit [OF this, of example_env 5 1 "[(''market'', PStr ''STOCK'')]" "exit_blocked ''x''" example_profile None]
  show ?thesis by (auto split: prod.splits)
qed

section \<open>Native exits\<close>

lemma known_exit_skipped:
  assumes "protective_ids entry = Inr (Some v)" and "by_key ac_id (en_uuid5 E (ac_id entry)) (db_actions (w_db w)) \<noteq> None"
  shows "reconcile_native_exit E scan_id p executions positions account_id found entry w = (Inr found, w)"
  using assms by (cases v) (simp add: reconcile_native_exit_def bindP_apply Let_def)

lemma exit_row_id: "exit_row i s u q item result now = Inr row \<Longrightarrow> ac_id row = i"
  by (auto simp: exit_row_def bindE_Inr_iff Let_def split: if_splits)

lemma persist_exit_known:
  assumes "persist_exit E scan_id p item result (Some i) w = (Inr u, w')"
  shows "by_key ac_id i (db_actions (w_db w')) \<noteq> None"
proof -
  from assms obtain row where r: "exit_row i scan_id (bp_user_id p) p item result (1000 * en_now E (w_tick w)) = Inr row"
      and w': "db_actions (w_db w') = db_actions (w_db w) @ [row]"
    by (auto simp: persist_exit_def bindP_apply modify_db_def or_else_def split: sum.splits)
  from exit_row_id [OF r] w' show ?thesis by (auto simp: by_key_def find_None_iff)
qed

text \<open>
  C14. A protective exit is recorded once: once \<open>_reconcile_native_exits\<close> has handled an entry, handling the
  same entry again with the same executions and positions adds nothing, because the row it wrote is found under
  the identifier derived from the entry.
\<close>

theorem native_exit_recorded_once:
  assumes "reconcile_native_exit E scan_id p executions positions account_id results entry w = (Inr results', w1)"
  shows "reconcile_native_exit E scan_id p executions positions account_id found entry w1 = (Inr found, w1)"
proof -
  let ?exit = "en_uuid5 E (ac_id entry)"
  let ?latest = "latest_entry (bp_user_id p) (bp_id p) (ac_symbol entry) (w_db w)"
  from assms obtain r where r: "protective_ids entry = Inr r"
    by (cases "protective_ids entry") (auto simp: reconcile_native_exit_def bindP_apply)
  show ?thesis
  proof (cases r)
    case None
    with r assms show ?thesis by (simp add: reconcile_native_exit_def bindP_apply)
  next
    case (Some v)
    obtain protection ids where v: "v = (protection, ids)" by (cases v)
    show ?thesis
    proof (cases "ids = [] \<or> map_option ac_id ?latest \<noteq> Some (ac_id entry) \<or> by_key ac_id ?exit (db_actions (w_db w)) \<noteq> None")
      case True
      with r Some v assms show ?thesis by (auto simp: reconcile_native_exit_def bindP_apply Let_def)
    next
      case False
      with r Some v assms obtain x where x: "native_exit entry ?exit protection ids executions positions account_id = Inr x"
        by (cases "native_exit entry ?exit protection ids executions positions account_id") (auto simp: reconcile_native_exit_def bindP_apply Let_def)
      show ?thesis
      proof (cases x)
        case None
        with False r Some v x assms show ?thesis by (auto simp: reconcile_native_exit_def bindP_apply Let_def)
      next
        case (Some y)
        obtain item result where y: "y = (item, result)" by (cases y)
        from False obtain z where z: "?latest = Some z" "ac_id z = ac_id entry" by auto
        from False z r \<open>r = Some v\<close> v x Some y assms have
          "seqP (persist_exit E scan_id p item result (Some ?exit))
              (seqP (update_scan scan_id (\<lambda>s. s\<lparr>sn_executed_count := sn_executed_count s + 1\<rparr>)) (retP (results @ [dmerge item result]))) w
            = (Inr results', w1)"
          by (auto simp: reconcile_native_exit_def bindP_apply Let_def)
        then obtain w0 where w0: "persist_exit E scan_id p item result (Some ?exit) w = (Inr (), w0)" and "db_actions (w_db w1) = db_actions (w_db w0)"
          by (auto simp: update_scan_def modify_db_def elim!: seqP_InrE)
        with persist_exit_known [OF w0] have "by_key ac_id ?exit (db_actions (w_db w1)) \<noteq> None" by simp
        with known_exit_skipped r \<open>r = Some v\<close> show ?thesis by blast
      qed
    qed
  qed
qed

definition exited_entry :: automation_action where
  "exited_entry = filled_entry\<lparr>ac_raw_json := Some (Json (PDict [(''native_protection'', PDict [(''order_ids'', PList [PInt 9])])]))\<rparr>"

definition protective_executions :: "pydict list" where
  "protective_executions = [[(''order_id'', PInt 9), (''account'', PStr ''DU1''), (''execution_id'', PStr ''x1''), (''symbol'', PStr ''AAPL''),
     (''side'', PStr ''SLD''), (''quantity'', PFloat (Fin 2))]]"

theorem native_exit_recorded_once_witness:
  "\<exists>rs w1. reconcile_native_exit example_env 5 example_profile protective_executions [] (PStr ''DU1'') [] exited_entry
        (example_world\<lparr>w_db := example_db\<lparr>db_actions := [exited_entry]\<rparr>\<rparr>) = (Inr rs, w1) \<and> length rs = 1
    \<and> reconcile_native_exit example_env 5 example_profile protective_executions [] (PStr ''DU1'') [] exited_entry w1 = (Inr [], w1)"
proof -
  let ?r = "reconcile_native_exit example_env 5 example_profile protective_executions [] (PStr ''DU1'') [] exited_entry
        (example_world\<lparr>w_db := example_db\<lparr>db_actions := [exited_entry]\<rparr>\<rparr>)"
  have "case fst ?r of Inl _ \<Rightarrow> False | Inr rs \<Rightarrow> length rs = 1" by code_simp
  then obtain rs w1 where r: "?r = (Inr rs, w1)" and "length rs = 1" by (cases ?r) (auto split: sum.splits)
  with native_exit_recorded_once [OF r] show ?thesis by blast
qed

section \<open>Positions in symbols without a strategy\<close>

lemma doL_run:
  "m w = (Inr x, w') \<Longrightarrow> bindL (doL m) f l w = f x l w'" "n w = (Inr (), w') \<Longrightarrow> seqL (doL n) k l w = k l w'"
  by (simp_all add: seqL_def bindL_def bindP_def doL_def)



end
