(* ===== verification/Programs.thy ===== *)
theory Programs
  imports World
begin

text \<open>
  Programs over any state: cleaning up, refusing a request, and how to reason about them. A triple has one
  postcondition for a result and one for an exception; a program keeps a relation of states when every run
  stays within it, whatever its outcome.
\<close>

section \<open>Cleaning up and refusing\<close>

definition finallyP :: "('s, 'a) sprog \<Rightarrow> ('s, unit) sprog \<Rightarrow> ('s, 'a) sprog" where
  \<comment> \<open>\<open>try: m / finally: k\<close>: an exception of \<open>k\<close> replaces the outcome of \<open>m\<close>\<close>
  "finallyP m k = (\<lambda>s. case m s of (r, s1) \<Rightarrow> (case k s1 of (Inl e, s2) \<Rightarrow> (Inl e, s2) | (Inr _, s2) \<Rightarrow> (r, s2)))"

definition http_error :: "int \<Rightarrow> string \<Rightarrow> 'a res" where
  "http_error code detail = Inl (HTTPException code detail)"

definition refuse :: "int \<Rightarrow> string \<Rightarrow> ('s, 'a) sprog" where
  "refuse code detail = liftP (http_error code detail)"

definition require :: "bool \<Rightarrow> int \<Rightarrow> string \<Rightarrow> ('s, unit) sprog" where
  \<comment> \<open>\<open>if not b: raise HTTPException(code, detail)\<close>\<close>
  "require b code detail = (if b then retP () else refuse code detail)"

section \<open>Hoare triples for programs that may raise\<close>

text \<open>
  A program that may raise has two postconditions. The rules compute backwards; the collection
  \<open>triple_rules\<close> drives them.
\<close>

definition triple :: "('s \<Rightarrow> bool) \<Rightarrow> ('s, 'a) sprog \<Rightarrow> ('a \<Rightarrow> 's \<Rightarrow> bool) \<Rightarrow> (exn \<Rightarrow> 's \<Rightarrow> bool) \<Rightarrow> bool" where
  "triple P m Q R \<longleftrightarrow> (\<forall>s. P s \<longrightarrow> (case m s of (Inr x, t) \<Rightarrow> Q x t | (Inl e, t) \<Rightarrow> R e t))"

named_theorems triple_rules \<open>backward rules for triples\<close>

lemma tripleI: "(\<And>s x t. P s \<Longrightarrow> m s = (Inr x, t) \<Longrightarrow> Q x t) \<Longrightarrow> (\<And>s e t. P s \<Longrightarrow> m s = (Inl e, t) \<Longrightarrow> R e t) \<Longrightarrow> triple P m Q R"
  unfolding triple_def by (auto split: prod.split sum.split)

lemma triple_returns: "triple P m Q R \<Longrightarrow> P s \<Longrightarrow> m s = (Inr x, t) \<Longrightarrow> Q x t"
  unfolding triple_def by (auto split: prod.splits sum.splits)

lemma triple_raises: "triple P m Q R \<Longrightarrow> P s \<Longrightarrow> m s = (Inl e, t) \<Longrightarrow> R e t"
  unfolding triple_def by (auto split: prod.splits sum.splits)

lemma triple_weaken:
  assumes "triple P m Q R" and "\<And>s. P' s \<Longrightarrow> P s" and "\<And>x s. Q x s \<Longrightarrow> Q' x s" and "\<And>e s. R e s \<Longrightarrow> R' e s"
  shows "triple P' m Q' R'"
  using assms unfolding triple_def by (fastforce split: prod.split sum.split)

lemma triple_pre: "triple P m Q R \<Longrightarrow> (\<And>s. P' s \<Longrightarrow> P s) \<Longrightarrow> triple P' m Q R"
  by (rule triple_weaken)

lemma triple_retP [triple_rules]: "triple (Q x) (retP x) Q R"
  by (simp add: triple_def)

lemma triple_getP [triple_rules]: "triple (\<lambda>s. Q (g s) s) (getP g) Q R"
  by (simp add: triple_def)

lemma triple_modP [triple_rules]: "triple (\<lambda>s. Q () (g s)) (modP g) Q R"
  by (simp add: triple_def)

lemma triple_liftP [triple_rules]: "triple (\<lambda>s. case r of Inl e \<Rightarrow> R e s | Inr x \<Rightarrow> Q x s) (liftP r) Q R"
  by (cases r) (simp_all add: triple_def)

lemma triple_bindP [triple_rules]:
  assumes "\<And>x. triple (M x) (f x) Q R" and "triple P m M R" shows "triple P (bindP m f) Q R"
  unfolding triple_def
proof (intro allI impI)
  fix s assume s: "P s"
  obtain r t where m: "m s = (r, t)" by (cases "m s")
  show "case bindP m f s of (Inr x, t) \<Rightarrow> Q x t | (Inl e, t) \<Rightarrow> R e t"
  proof (cases r)
    case (Inl e)
    with triple_raises [OF assms(2) s] m show ?thesis by (simp add: bindP_def)
  next
    case (Inr x)
    with triple_returns [OF assms(2) s] m have "M x t" by simp
    with assms(1) m Inr show ?thesis by (auto simp: bindP_def triple_def)
  qed
qed

lemma triple_seqP [triple_rules]: "triple M k Q R \<Longrightarrow> triple P m (\<lambda>_. M) R \<Longrightarrow> triple P (seqP m k) Q R"
  unfolding seqP_def by (rule triple_bindP)

lemma triple_tryP [triple_rules]:
  assumes "\<And>e. triple (M e) (h e) Q R" and "triple P m Q (\<lambda>e s. if p e then M e s else R e s)"
  shows "triple P (tryP m p h) Q R"
  unfolding triple_def
proof (intro allI impI)
  fix s assume s: "P s"
  obtain r t where m: "m s = (r, t)" by (cases "m s")
  show "case tryP m p h s of (Inr x, t) \<Rightarrow> Q x t | (Inl e, t) \<Rightarrow> R e t"
  proof (cases r)
    case (Inr x)
    with triple_returns [OF assms(2) s] m show ?thesis by (simp add: tryP_def)
  next
    case (Inl e)
    with triple_raises [OF assms(2) s] m have "if p e then M e t else R e t" by simp
    with assms(1) m Inl show ?thesis by (auto simp: tryP_def triple_def)
  qed
qed

lemma triple_finallyP [triple_rules]:
  assumes "\<And>x. triple (M x) k (\<lambda>_. Q x) R" and "\<And>e. triple (N e) k (\<lambda>_. R e) R" and "triple P m M N"
  shows "triple P (finallyP m k) Q R"
  unfolding triple_def
proof (intro allI impI)
  fix s assume s: "P s"
  obtain r t where m: "m s = (r, t)" by (cases "m s")
  obtain r2 u where k: "k t = (r2, u)" by (cases "k t")
  show "case finallyP m k s of (Inr x, t) \<Rightarrow> Q x t | (Inl e, t) \<Rightarrow> R e t"
  proof (cases r)
    case (Inl e)
    with triple_raises [OF assms(3) s] m have n: "N e t" by simp
    show ?thesis
      using m k Inl triple_returns [OF assms(2) n] triple_raises [OF assms(2) n] by (cases r2) (auto simp: finallyP_def)
  next
    case (Inr x)
    with triple_returns [OF assms(3) s] m have n: "M x t" by simp
    show ?thesis
      using m k Inr triple_returns [OF assms(1) n] triple_raises [OF assms(1) n] by (cases r2) (auto simp: finallyP_def)
  qed
qed

lemma triple_if [triple_rules]:
  "triple P m Q R \<Longrightarrow> triple P' k Q R \<Longrightarrow> triple (\<lambda>s. if b then P s else P' s) (if b then m else k) Q R"
  by simp

lemma triple_option [triple_rules]:
  "triple P n Q R \<Longrightarrow> (\<And>x. triple (P' x) (f x) Q R) \<Longrightarrow>
   triple (\<lambda>s. case v of None \<Rightarrow> P s | Some x \<Rightarrow> P' x s) (case v of None \<Rightarrow> n | Some x \<Rightarrow> f x) Q R"
  by (cases v) auto

lemma triple_prod [triple_rules]:
  "(\<And>x y. triple (P x y) (f x y) Q R) \<Longrightarrow> triple (\<lambda>s. case v of (x, y) \<Rightarrow> P x y s) (case v of (x, y) \<Rightarrow> f x y) Q R"
  by (cases v) auto

lemma triple_require:
  assumes "c \<Longrightarrow> triple P k Q R" and "\<And>s. P s \<Longrightarrow> R (HTTPException code detail) s"
  shows "triple P (seqP (require c code detail) k) Q R"
  by (cases c) (use assms in \<open>auto simp: triple_def seqP_def bindP_def require_def refuse_def http_error_def\<close>)

lemma triple_retP_if: "(\<And>s. P s \<Longrightarrow> Q x s) \<Longrightarrow> triple P (retP x) Q R"
  by (simp add: triple_def)

lemma triple_read:
  assumes "\<And>x. triple (\<lambda>s. P s \<and> g s = x) (f x) Q R" shows "triple P (bindP (getP g) f) Q R"
  using assms by (fastforce simp: triple_def bindP_def getP_def)

section \<open>Invariants of programs\<close>

definition keeps :: "('s \<Rightarrow> 's \<Rightarrow> bool) \<Rightarrow> (exn \<Rightarrow> bool) \<Rightarrow> ('s, 'a) sprog \<Rightarrow> bool" where
  \<comment> \<open>the states before and after are related, whatever the outcome, and only exceptions of a kind are raised\<close>
  "keeps rel ok m \<longleftrightarrow> (\<forall>s. rel s (snd (m s)) \<and> (\<forall>e. fst (m s) = Inl e \<longrightarrow> ok e))"

lemma keepsI: "(\<And>s. rel s (snd (m s))) \<Longrightarrow> (\<And>s e. fst (m s) = Inl e \<Longrightarrow> ok e) \<Longrightarrow> keeps rel ok m"
  by (simp add: keeps_def)

lemma keepsD: "keeps rel ok m \<Longrightarrow> m s = (r, t) \<Longrightarrow> rel s t \<and> (\<forall>e. r = Inl e \<longrightarrow> ok e)"
  unfolding keeps_def by (metis fst_conv snd_conv)

locale state_relation =
  \<comment> \<open>a relation of states that composes along a program, and the exceptions it may end in\<close>
  fixes rel :: "'s \<Rightarrow> 's \<Rightarrow> bool" and ok :: "exn \<Rightarrow> bool"
  assumes rel_refl: "rel s s" and rel_trans: "rel s t \<Longrightarrow> rel t u \<Longrightarrow> rel s u"
begin

lemma keeps_pure [intro!]: "keeps rel ok (retP x)" "keeps rel ok (getP g)"
  by (simp_all add: keeps_def rel_refl)

lemma keeps_liftP: "(\<And>e. r = Inl e \<Longrightarrow> ok e) \<Longrightarrow> keeps rel ok (liftP r)"
  by (simp add: keeps_def rel_refl)

lemma keeps_modP: "(\<And>s. rel s (g s)) \<Longrightarrow> keeps rel ok (modP g)"
  by (simp add: keeps_def)

lemma keeps_bindP [intro!]:
  assumes "keeps rel ok m" and "\<And>x. keeps rel ok (f x)" shows "keeps rel ok (bindP m f)"
  unfolding keeps_def
proof
  fix s
  obtain r t where m: "m s = (r, t)" by (cases "m s")
  note st = keepsD [OF assms(1) m]
  show "rel s (snd (bindP m f s)) \<and> (\<forall>e. fst (bindP m f s) = Inl e \<longrightarrow> ok e)"
  proof (cases r)
    case (Inl e)
    with m st show ?thesis by (simp add: bindP_def)
  next
    case (Inr x)
    obtain r2 u where f: "f x t = (r2, u)" by (cases "f x t")
    from keepsD [OF assms(2) f] st rel_trans m Inr f show ?thesis by (auto simp: bindP_def)
  qed
qed

lemma keeps_seqP [intro!]: "keeps rel ok m \<Longrightarrow> keeps rel ok k \<Longrightarrow> keeps rel ok (seqP m k)"
  unfolding seqP_def by (rule keeps_bindP)

lemma keeps_tryP [intro!]:
  assumes "keeps rel ok m" and "\<And>e. keeps rel ok (h e)" shows "keeps rel ok (tryP m p h)"
  unfolding keeps_def
proof
  fix s
  obtain r t where m: "m s = (r, t)" by (cases "m s")
  note st = keepsD [OF assms(1) m]
  show "rel s (snd (tryP m p h s)) \<and> (\<forall>e. fst (tryP m p h s) = Inl e \<longrightarrow> ok e)"
  proof (cases r)
    case (Inr x)
    with m st show ?thesis by (simp add: tryP_def)
  next
    case (Inl e)
    obtain r2 u where h: "h e t = (r2, u)" by (cases "h e t")
    from keepsD [OF assms(2) h] st rel_trans m Inl h show ?thesis by (auto simp: tryP_def)
  qed
qed

lemma keeps_finallyP [intro!]:
  assumes "keeps rel ok m" and "keeps rel ok k" shows "keeps rel ok (finallyP m k)"
  unfolding keeps_def
proof
  fix s
  obtain r t where m: "m s = (r, t)" by (cases "m s")
  obtain r2 u where k: "k t = (r2, u)" by (cases "k t")
  from keepsD [OF assms(1) m] keepsD [OF assms(2) k] rel_trans m k
  show "rel s (snd (finallyP m k s)) \<and> (\<forall>e. fst (finallyP m k s) = Inl e \<longrightarrow> ok e)"
    by (cases r2) (auto simp: finallyP_def)
qed

lemma rel_if [intro!]: "keeps rel ok m \<Longrightarrow> keeps rel ok k \<Longrightarrow> keeps rel ok (if c then m else k)"
  by simp

lemma rel_option [intro!]: "keeps rel ok n \<Longrightarrow> (\<And>x. keeps rel ok (f x)) \<Longrightarrow> keeps rel ok (case v of None \<Rightarrow> n | Some x \<Rightarrow> f x)"
  by (cases v) auto

lemma keeps_list [intro!]: "keeps rel ok n \<Longrightarrow> (\<And>x xs. keeps rel ok (f x xs)) \<Longrightarrow> keeps rel ok (case v of [] \<Rightarrow> n | x # xs \<Rightarrow> f x xs)"
  by (cases v) auto

lemma rel_prod [intro!]: "(\<And>x y. keeps rel ok (f x y)) \<Longrightarrow> keeps rel ok (case v of (x, y) \<Rightarrow> f x y)"
  by (cases v) auto

end

end
