(* ===== verification/Tws_State.thy ===== *)
theory Tws_State
  imports Programs
begin

text \<open>
  The state of the local IBKR bridge (\<open>tools/ibkr_bridge.py\<close>): the process between TWS or IB Gateway and
  the application. It is a second program with a state of its own; the client of it is \<open>Ibkr_Bridge\<close>.

  The class \<open>State\<close> is the record \<open>bridge\<close>, its callback methods are \<open>handle\<close>. The callbacks run on the
  reader thread of the broker's library: the environment delivers them in batches, one at every broker
  request and one during every wait. What the library does on the wire is outside; a request is logged,
  and it may raise. The locks another thread can hold, the clock and the dates of the standard library
  belong to the environment. A dictionary with a fixed set of keys is a record; \<open>print\<close> is left out.
\<close>

section \<open>What the broker's library passes\<close>

record tws_contract =
  tc_symbol :: string
  tc_sec_type :: string
  tc_exchange :: string
  tc_currency :: string

record tws_order =
  to_action :: string
  to_quantity :: pyfloat
  to_type :: string
  to_limit :: pyfloat
  to_aux :: pyfloat
  to_account :: string
  to_tif :: string
  to_outside_rth :: bool
  to_oca_group :: string
  to_oca_type :: int
  to_ref :: string
  to_transmit :: bool
  to_what_if :: bool
  to_client :: int
  to_perm :: int
  to_etrade_only :: "bool option"      \<comment> \<open>None: this version of the library has no such attribute\<close>
  to_firm_quote_only :: "bool option"

record whatif_row = \<comment> \<open>an order state: its status, and its amounts as \<open>f\<close> reads them (None when blank or not a number)\<close>
  wf_status :: string
  wf_amounts :: "(string \<times> pyfloat option) list"
  wf_currency :: string
  wf_warning :: string

record position_row =
  po_account :: string
  po_symbol :: string
  po_sec_type :: string
  po_exchange :: string
  po_currency :: string
  po_quantity :: pyfloat
  po_avg_cost :: pyfloat

record order_row =
  or_order_id :: int
  or_symbol :: string
  or_sec_type :: string
  or_side :: string
  or_type :: string
  or_quantity :: pyfloat
  or_limit_price :: pyfloat
  or_aux_price :: pyfloat
  or_status :: string
  or_account :: string
  or_client_id :: int
  or_order_ref :: string
  or_oca_group :: string
  or_oca_type :: int
  or_tif :: string
  or_outside_rth :: bool
  or_transmit :: bool
  or_perm_id :: int

record status_row =
  sr_status :: string
  sr_filled :: pyfloat
  sr_remaining :: pyfloat
  sr_avg_fill :: pyfloat
  sr_last_fill :: pyfloat
  sr_perm_id :: int
  sr_client_id :: int
  sr_why_held :: string

record exec_row =
  ex_execution_id :: string
  ex_order_id :: int
  ex_account :: string
  ex_symbol :: string
  ex_sec_type :: string
  ex_side :: string
  ex_quantity :: pyfloat
  ex_price :: pyfloat
  ex_time :: string

record commission_row =
  cm_commission :: pyfloat
  cm_currency :: string
  cm_realized :: "pyfloat option"

record bar_row =
  ba_time :: string
  ba_open :: pyfloat
  ba_high :: pyfloat
  ba_low :: pyfloat
  ba_close :: pyfloat
  ba_volume :: pyfloat

record contract_row =
  cr_con_id :: int
  cr_symbol :: string
  cr_local_symbol :: string
  cr_sec_type :: string
  cr_exchange :: string
  cr_primary_exchange :: string
  cr_currency :: string
  cr_long_name :: string
  cr_min_tick :: pyfloat

record error_row =
  er_id :: int
  er_code :: "int option"  \<comment> \<open>None: \<open>CONNECT_EXCEPTION\<close>\<close>
  er_message :: string
  er_reject :: string

datatype callback =
    NextValidId int
  | ManagedAccounts "string list"        \<comment> \<open>the pieces of \<open>accountsList.split(',')\<close>\<close>
  | AccountSummary int string string string string
  | AccountSummaryEnd int
  | PositionCb position_row
  | PositionEnd
  | OpenOrder int tws_contract tws_order whatif_row
  | OpenOrderEnd
  | OrderStatus int status_row
  | ExecDetails exec_row
  | ExecDetailsEnd int
  | CommissionReport string commission_row pyfloat  \<comment> \<open>with the realized profit as reported\<close>
  | MarketDataType int int
  | TickString int int "int option"      \<comment> \<open>the value as \<open>int\<close> reads it\<close>
  | TickPrice int int pyfloat
  | TickSnapshotEnd int
  | HistoricalData int bar_row
  | HistoricalDataEnd int
  | ContractDetails int contract_row
  | ContractDetailsEnd int
  | ErrorCb int int string string

datatype tws_request =
    PlaceOrder int tws_contract tws_order
  | CancelOrder int
  | ReqAccountSummary int
  | CancelAccountSummary int
  | ReqPositions
  | CancelPositions
  | ReqAllOpenOrders
  | ReqOpenOrders
  | ReqExecutions int string
  | ReqContractDetails int tws_contract
  | ReqMktData int tws_contract
  | ReqHistoricalData int tws_contract string string int
  | CancelHistoricalData int
  | ReqMarketDataType int
  | Connect string int int
  | Disconnect

section \<open>The state\<close>

record account_answer =
  aa_account_id :: string
  aa_simulation :: bool
  aa_observed_at :: int
  aa_equity :: pyfloat
  aa_cash :: pyfloat
  aa_available :: pyfloat
  aa_buying_power :: pyfloat

record bridge =
  br_next_id :: "int option"
  br_accounts :: "string list"
  br_positions :: "position_row list"
  br_open_orders :: "order_row list"
  br_order_objects :: "((int \<times> int) \<times> tws_contract \<times> tws_order) list"
  br_statuses :: "(int \<times> status_row) list"
  br_whatif :: "(int \<times> whatif_row) list"
  br_executions :: "exec_row list"
  br_commissions :: "(string \<times> commission_row) list"
  br_errors :: "error_row list"
  br_quotes :: "(int \<times> pydict) list"
  br_bars :: "(int \<times> bar_row list) list"
  br_contracts :: "(int \<times> contract_row list) list"
  br_account_requests :: "(int \<times> ((string \<times> string) \<times> string) list) list"
  br_events :: "(string \<times> bool) list"
  br_epoch :: nat
  br_request_epochs :: "(string \<times> nat) list"
  br_server :: "bool option"
  br_read_failures :: "(string \<times> int) list"
  br_retry_at :: "(string \<times> pyfloat) list"
  br_attempts :: "string list"
  br_account_cache :: "account_answer option"
  br_account_cache_at :: pyfloat
  br_tick :: nat
  br_sent :: "tws_request list"

record bridge_cfg =
  cf_host :: string
  cf_port :: int
  cf_client_id :: int
  cf_account_id :: string
  cf_token :: "string option"
  cf_simulation :: bool

record tws_env =
  te_callbacks :: "nat \<Rightarrow> callback list"
  te_fails :: "nat \<Rightarrow> string option"       \<comment> \<open>the library raises instead of sending, or after it\<close>
  te_socket :: "nat \<Rightarrow> bool"               \<comment> \<open>\<open>isConnected()\<close>\<close>
  te_locked :: "nat \<Rightarrow> string \<Rightarrow> bool"      \<comment> \<open>locks another thread holds\<close>
  te_monotonic :: "nat \<Rightarrow> pyfloat"
  te_micros :: "nat \<Rightarrow> int"                \<comment> \<open>\<open>time.time()\<close> in microseconds\<close>
  te_days_ago :: "nat \<Rightarrow> int \<Rightarrow> string"     \<comment> \<open>the start of a day that many days ago\<close>
  te_utc_text :: "int \<Rightarrow> string res"       \<comment> \<open>\<open>datetime.fromtimestamp\<close> of milliseconds, formatted\<close>
  te_new_york_day :: "string \<Rightarrow> (int \<times> int) option" \<comment> \<open>start and end of the day written as year, month, day\<close>
  te_blank_order :: tws_order             \<comment> \<open>\<open>Order()\<close>\<close>
  te_blank_contract :: tws_contract       \<comment> \<open>\<open>Contract()\<close>\<close>
  te_cfg :: bridge_cfg

type_synonym 'a bprog = "(bridge, 'a) sprog"

section \<open>Events, dictionaries\<close>

definition aget :: "'k \<Rightarrow> ('k \<times> 'v) list \<Rightarrow> 'v option" where "aget k d = map_of d k"

definition adrop :: "'k \<Rightarrow> ('k \<times> 'v) list \<Rightarrow> ('k \<times> 'v) list" where
  \<comment> \<open>\<open>d.pop(k, None)\<close>\<close>
  "adrop k d = filter (\<lambda>e. fst e \<noteq> k) d"

fun aset :: "'k \<Rightarrow> 'v \<Rightarrow> ('k \<times> 'v) list \<Rightarrow> ('k \<times> 'v) list" where
  "aset k v [] = [(k, v)]"
| "aset k v (e # d) = (if fst e = k then (k, v) # d else e # aset k v d)"

definition set_event :: "string \<Rightarrow> bridge \<Rightarrow> bridge" where
  "set_event k b = b\<lparr>br_events := aset k True (br_events b)\<rparr>"

definition keyed :: "string \<Rightarrow> int \<Rightarrow> string" where
  \<comment> \<open>the event key of an operation and a request id\<close>
  "keyed operation r = operation @ '':'' @ show_int r"

definition raise_next :: "int \<Rightarrow> bridge \<Rightarrow> bridge" where
  \<comment> \<open>\<open>self.next_id=max(self.next_id or 0,int(orderId)+1)\<close>\<close>
  "raise_next oid b = b\<lparr>br_next_id := Some (max (or_else (br_next_id b) 0) (oid + 1))\<rparr>"

section \<open>The callbacks of the class State\<close>

definition order_row_of :: "int \<Rightarrow> tws_contract \<Rightarrow> tws_order \<Rightarrow> string \<Rightarrow> order_row" where
  "order_row_of oid c o' status =
     \<lparr>or_order_id = oid, or_symbol = tc_symbol c, or_sec_type = tc_sec_type c, or_side = to_action o', or_type = to_type o',
      or_quantity = to_quantity o', or_limit_price = to_limit o', or_aux_price = to_aux o', or_status = status,
      or_account = to_account o', or_client_id = to_client o', or_order_ref = to_ref o', or_oca_group = to_oca_group o',
      or_oca_type = to_oca_type o', or_tif = to_tif o', or_outside_rth = to_outside_rth o', or_transmit = to_transmit o',
      or_perm_id = to_perm o'\<rparr>"

definition on_open_order :: "int \<Rightarrow> tws_contract \<Rightarrow> tws_order \<Rightarrow> whatif_row \<Rightarrow> bridge \<Rightarrow> bridge" where
  "on_open_order oid c o' st b =
     (if to_what_if o' then set_event (keyed ''whatif'' oid) (b\<lparr>br_whatif := aset oid st (br_whatif b)\<rparr>)
      else raise_next oid (b\<lparr>br_open_orders := br_open_orders b @ [order_row_of oid c o' (wf_status st)],
             br_order_objects := aset (to_client o', oid) (c, o') (br_order_objects b)\<rparr>))"

definition on_quote :: "int \<Rightarrow> (pydict \<Rightarrow> pydict) \<Rightarrow> bridge \<Rightarrow> bridge" where
  "on_quote r f b = b\<lparr>br_quotes := aset r (f (or_else (aget r (br_quotes b)) [])) (br_quotes b)\<rparr>"

definition quote_usable :: "pydict \<Rightarrow> bool" where
  "quote_usable q \<longleftrightarrow> truth (dget q ''last'') \<or> (truth (dget q ''bid'') \<and> truth (dget q ''ask''))"

definition on_tick_price :: "int \<Rightarrow> int \<Rightarrow> int \<Rightarrow> pyfloat \<Rightarrow> bridge \<Rightarrow> bridge" where
  "on_tick_price ms r kind price b =
     (if kind \<notin> set [1, 2, 4, 66, 67, 68] \<or> \<not> isfinite price \<or> price \<le> 0 then b
      else let name = (if kind \<in> set [1, 66] then ''bid'' else if kind \<in> set [2, 67] then ''ask'' else ''last'');
               b' = on_quote r (\<lambda>q.
                 let q1 = dset (name @ ''_received_at_ms'') (PInt ms) (dset ''received_at_ms'' (PInt ms) (dset name (PFloat price) q))
                 in if kind \<in> set [66, 67, 68] then dset ''delayed_ticks'' (PBool True) q1 else q1) b
           in if quote_usable (or_else (aget r (br_quotes b')) []) then set_event (keyed ''quote'' r) b' else b')"

definition on_tick_string :: "int \<Rightarrow> int \<Rightarrow> int option \<Rightarrow> bridge \<Rightarrow> bridge" where
  "on_tick_string r kind v b =
     (if kind \<notin> set [45, 88] then b
      else case v of None \<Rightarrow> b
        | Some s \<Rightarrow> on_quote r (\<lambda>q. let q1 = (if 0 < s * 1000 then dset ''last_trade_at_ms'' (PInt (s * 1000)) q else q)
                                    in if kind = 88 then dset ''delayed_ticks'' (PBool True) q1 else q1) b)"

definition on_connectivity :: "int \<Rightarrow> bridge \<Rightarrow> bridge" where
  \<comment> \<open>the codes 1100 and 2110 report a lost server connection, 1101 and 1102 a restored one\<close>
  "on_connectivity code b =
     (if code \<in> set [1101, 1102] then b\<lparr>br_server := Some True, br_account_cache_at := 0, br_read_failures := [], br_retry_at := []\<rparr>
      else if code \<in> set [1100, 2110]
      then b\<lparr>br_server := Some False, br_account_cache_at := 0, br_epoch := br_epoch b + 1,
             br_events := map (\<lambda>(k, _). (k, True)) (br_events b)\<rparr>
      else b)"

definition on_error :: "int \<Rightarrow> int \<Rightarrow> string \<Rightarrow> string \<Rightarrow> bridge \<Rightarrow> bridge" where
  "on_error r code message reject b =
     (let row = \<lparr>er_id = r, er_code = Some code, er_message = message, er_reject = reject\<rparr>;
          b1 = on_connectivity code (b\<lparr>br_errors := last_n 200 (br_errors b @ [row])\<rparr>);
          b2 = (if aget r (br_account_requests b1) \<noteq> None then set_event (keyed ''acct'' r) b1 else b1)
      in if 0 \<le> r
         then let b3 = set_event (keyed ''order-status'' r) b2
              in if code \<in> set [2104, 2106, 2158, 2186] then b3
                 else set_event (keyed ''contract'' r) (set_event (keyed ''bars'' r) (set_event (keyed ''quote'' r) b3))
         else b2)"

definition on_commission :: "string \<Rightarrow> commission_row \<Rightarrow> pyfloat \<Rightarrow> bridge \<Rightarrow> bridge" where
  "on_commission eid row realized b =
     b\<lparr>br_commissions := aset eid (row\<lparr>cm_realized := if \<not> isfinite realized \<or> fl (10 ^ 100) < fabs realized then None else Some realized\<rparr>)
         (br_commissions b)\<rparr>"

definition on_next_valid_id :: "int \<Rightarrow> bridge \<Rightarrow> bridge" where
  \<comment> \<open>\<open>max(orderId, self.next_id or orderId)\<close>\<close>
  "on_next_valid_id oid b = set_event ''connected''
     (b\<lparr>br_next_id := Some (case br_next_id b of None \<Rightarrow> oid | Some n \<Rightarrow> if n = 0 then oid else max oid n),
        br_server := (if br_server b = None then Some True else br_server b)\<rparr>)"

fun handle :: "tws_env \<Rightarrow> callback \<Rightarrow> bridge \<Rightarrow> bridge" where
  "handle T (NextValidId oid) b = on_next_valid_id oid b"
| "handle T (ManagedAccounts xs) b = b\<lparr>br_accounts := filter (\<lambda>x. x \<noteq> []) xs\<rparr>"
| "handle T (AccountSummary r account tag v cur) b =
     (case aget r (br_account_requests b) of None \<Rightarrow> b
      | Some vs \<Rightarrow> b\<lparr>br_account_requests := aset r (aset (account, tag) v vs) (br_account_requests b)\<rparr>)"
| "handle T (AccountSummaryEnd r) b = (if aget r (br_account_requests b) \<noteq> None then set_event (keyed ''acct'' r) b else b)"
| "handle T (PositionCb row) b = b\<lparr>br_positions := br_positions b @ [row]\<rparr>"
| "handle T PositionEnd b = set_event ''positions'' b"
| "handle T (OpenOrder oid c o' st) b = on_open_order oid c o' st b"
| "handle T OpenOrderEnd b = set_event ''orders'' b"
| "handle T (OrderStatus oid row) b = set_event (keyed ''order-status'' oid) (b\<lparr>br_statuses := aset oid row (br_statuses b)\<rparr>)"
| "handle T (ExecDetails row) b = b\<lparr>br_executions := br_executions b @ [row]\<rparr>"
| "handle T (ExecDetailsEnd r) b = set_event (keyed ''exec'' r) b"
| "handle T (CommissionReport eid row realized) b = on_commission eid row realized b"
| "handle T (MarketDataType r kind) b = on_quote r (dset ''market_data_type'' (PInt kind)) b"
| "handle T (TickString r kind v) b = on_tick_string r kind v b"
| "handle T (TickPrice r kind price) b = on_tick_price (te_micros T (br_tick b) div 1000) r kind price b"
| "handle T (TickSnapshotEnd r) b = set_event (keyed ''quote'' r) b"
| "handle T (HistoricalData r row) b = b\<lparr>br_bars := aset r (or_else (aget r (br_bars b)) [] @ [row]) (br_bars b)\<rparr>"
| "handle T (HistoricalDataEnd r) b = set_event (keyed ''bars'' r) b"
| "handle T (ContractDetails r row) b = b\<lparr>br_contracts := aset r (or_else (aget r (br_contracts b)) [] @ [row]) (br_contracts b)\<rparr>"
| "handle T (ContractDetailsEnd r) b = set_event (keyed ''contract'' r) b"
| "handle T (ErrorCb r code message reject) b = on_error r code message reject b"

section \<open>Requests, waits, locks\<close>

definition deliver :: "tws_env \<Rightarrow> unit bprog" where
  \<comment> \<open>the reader thread runs the callbacks that have arrived\<close>
  "deliver T = modP (\<lambda>b. (fold (handle T) (te_callbacks T (br_tick b)) b)\<lparr>br_tick := br_tick b + 1\<rparr>)"

definition ask :: "tws_env \<Rightarrow> tws_request \<Rightarrow> unit bprog" where
  \<comment> \<open>a call of the broker's library; whether it raises or not, the request may have been sent\<close>
  "ask T r = bindP (getP (\<lambda>b. te_fails T (br_tick b))) (\<lambda>refused.
     seqP (modP (\<lambda>b. b\<lparr>br_sent := br_sent b @ [r]\<rparr>))
    (seqP (deliver T) (liftP (case refused of None \<Rightarrow> Inr () | Some m \<Rightarrow> Inl (RuntimeError m)))))"

definition under_lock :: "tws_env \<Rightarrow> string \<Rightarrow> string \<Rightarrow> 'a bprog \<Rightarrow> 'a bprog" where
  \<comment> \<open>\<open>acquire(blocking=False)\<close>, else 503; the lock is released at the end of the body\<close>
  "under_lock T lock detail m = bindP (getP (\<lambda>b. te_locked T (br_tick b) lock)) (\<lambda>busy.
     if busy then refuse 503 detail else m)"

definition serial_mutation :: "tws_env \<Rightarrow> 'a bprog \<Rightarrow> 'a bprog" where
  "serial_mutation T m = under_lock T ''mutation'' ''IBKR_MUTATION_ALREADY_IN_PROGRESS'' m"

definition auth :: "tws_env \<Rightarrow> string option \<Rightarrow> unit bprog" where
  "auth T token = require (case cf_token (te_cfg T) of None \<Rightarrow> True | Some t \<Rightarrow> t = [] \<or> token = Some t) 401 ''invalid bridge token''"

definition socket_up :: "tws_env \<Rightarrow> bridge \<Rightarrow> bool" where "socket_up T b = te_socket T (br_tick b)"

definition server_ready :: "tws_env \<Rightarrow> bridge \<Rightarrow> bool" where
  "server_ready T b \<longleftrightarrow> socket_up T b \<and> br_server b \<noteq> Some False"

definition require_server :: "tws_env \<Rightarrow> unit bprog" where
  "require_server T = bindP (getP (\<lambda>b. (server_ready T b, socket_up T b))) (\<lambda>(ready, up).
     require ready 503 (if up then ''IBKR_SERVER_UNAVAILABLE'' else ''IBKR_SOCKET_DISCONNECTED''))"

section \<open>The recovery of failed reads\<close>

definition read_ready :: "tws_env \<Rightarrow> string \<Rightarrow> unit bprog" where
  "read_ready T operation = seqP (require_server T)
     (bindP (getP (\<lambda>b. pymax 0 (or_else (aget operation (br_retry_at b)) 0 - te_monotonic T (br_tick b)))) (\<lambda>remaining.
        require (remaining = 0) 503 ''IBKR_READ_RECOVERY_COOLDOWN''))"

definition cooldown :: "int \<Rightarrow> int" where
  \<comment> \<open>\<open>min(120,10*2**(attempts-1))\<close>\<close>
  "cooldown attempts = min 120 (10 * 2 ^ nat (attempts - 1))"

definition read_failed :: "tws_env \<Rightarrow> string \<Rightarrow> unit bprog" where
  "read_failed T operation = modP (\<lambda>b.
     let attempts = min 5 (or_else (aget operation (br_read_failures b)) 0 + 1)
     in b\<lparr>br_read_failures := aset operation attempts (br_read_failures b),
          br_retry_at := aset operation (te_monotonic T (br_tick b) + fl (of_int (cooldown attempts))) (br_retry_at b)\<rparr>)"

definition read_succeeded :: "string \<Rightarrow> unit bprog" where
  "read_succeeded operation = modP (\<lambda>b. b\<lparr>br_read_failures := adrop operation (br_read_failures b),
     br_retry_at := adrop operation (br_retry_at b)\<rparr>)"

definition serial_read :: "tws_env \<Rightarrow> string \<Rightarrow> string option \<Rightarrow> 'a bprog \<Rightarrow> 'a bprog" where
  "serial_read T operation token m = seqP (auth T token) (seqP (read_ready T operation)
     (under_lock T operation ''IBKR_READ_ALREADY_IN_PROGRESS'' m))"

definition prepare :: "string \<Rightarrow> unit bprog" where
  "prepare key = modP (\<lambda>b. b\<lparr>br_request_epochs := aset key (br_epoch b) (br_request_epochs b), br_events := aset key False (br_events b)\<rparr>)"

definition base_key :: "string \<Rightarrow> string" where
  \<comment> \<open>\<open>key.split(':')[0]\<close>\<close>
  "base_key key = takeWhile (\<lambda>c. c \<noteq> CHR '':'') key"

definition same_epoch :: "string \<Rightarrow> bridge \<Rightarrow> bool" where
  "same_epoch key b \<longleftrightarrow> or_else (aget key (br_request_epochs b)) (br_epoch b) = br_epoch b"

definition await_event :: "tws_env \<Rightarrow> string \<Rightarrow> bool bprog" where
  \<comment> \<open>\<open>ib._event(key).wait(seconds)\<close>: what arrives until the event is set or the time is over\<close>
  "await_event T key = seqP (deliver T) (getP (\<lambda>b. aget key (br_events b) = Some True))"

definition forget_epoch :: "string \<Rightarrow> unit bprog" where
  "forget_epoch key = modP (\<lambda>b. b\<lparr>br_request_epochs := adrop key (br_request_epochs b)\<rparr>)"

definition forget_event :: "string \<Rightarrow> unit bprog" where
  "forget_event key = modP (\<lambda>b. b\<lparr>br_events := adrop key (br_events b)\<rparr>)"

definition wait :: "tws_env \<Rightarrow> string \<Rightarrow> unit bprog" where
  "wait T key = finallyP
     (bindP (await_event T key) (\<lambda>happened.
      seqP (if happened then retP () else seqP (read_failed T (base_key key)) (refuse 504 (''IBKR timeout waiting for '' @ key)))
     (seqP (require_server T)
     (seqP (bindP (getP (same_epoch key)) (\<lambda>same. require same 503 ''IBKR_READ_INTERRUPTED_BY_DISCONNECT''))
           (read_succeeded (base_key key))))))
     (forget_epoch key)"

definition rid :: "tws_env \<Rightarrow> int bprog" where
  \<comment> \<open>\<open>int(time.time()*1000000)%2000000000\<close>\<close>
  "rid T = getP (\<lambda>b. te_micros T (br_tick b) mod 2000000000)"

definition contract :: "tws_env \<Rightarrow> string \<Rightarrow> string \<Rightarrow> string \<Rightarrow> string \<Rightarrow> tws_contract" where
  "contract T symbol sec_type exchange currency = (te_blank_contract T)\<lparr>tc_symbol := str_upper symbol, tc_sec_type := sec_type,
     tc_exchange := exchange, tc_currency := currency\<rparr>"

section \<open>What the callbacks leave alone\<close>

lemma set_event_keeps [simp]:
  "br_sent (set_event k b) = br_sent b" "br_attempts (set_event k b) = br_attempts b" "br_epoch (set_event k b) = br_epoch b"
  "br_request_epochs (set_event k b) = br_request_epochs b" "br_tick (set_event k b) = br_tick b"
  "br_server (set_event k b) = br_server b"
  by (simp_all add: set_event_def)

lemma on_quote_keeps [simp]:
  "br_sent (on_quote r f b) = br_sent b" "br_attempts (on_quote r f b) = br_attempts b" "br_epoch (on_quote r f b) = br_epoch b"
  "br_request_epochs (on_quote r f b) = br_request_epochs b" "br_tick (on_quote r f b) = br_tick b"
  by (simp_all add: on_quote_def)

lemma handle_keeps:
  "br_sent (handle T c b) = br_sent b \<and> br_attempts (handle T c b) = br_attempts b
   \<and> br_request_epochs (handle T c b) = br_request_epochs b \<and> br_tick (handle T c b) = br_tick b"
  by (cases c)
     (simp_all add: on_next_valid_id_def on_open_order_def raise_next_def on_commission_def on_tick_string_def
        on_tick_price_def on_error_def on_connectivity_def Let_def split: option.split)

lemma handle_epoch: "br_epoch b \<le> br_epoch (handle T c b)"
  by (cases c)
     (simp_all add: on_next_valid_id_def on_open_order_def raise_next_def on_commission_def on_tick_string_def
        on_tick_price_def on_error_def on_connectivity_def Let_def split: option.split)

lemma fold_handle_keeps:
  "br_sent (fold (handle T) cs b) = br_sent b \<and> br_attempts (fold (handle T) cs b) = br_attempts b
   \<and> br_request_epochs (fold (handle T) cs b) = br_request_epochs b \<and> br_epoch b \<le> br_epoch (fold (handle T) cs b)"
proof (induction cs arbitrary: b)
  case (Cons c cs)
  from Cons.IH [of "handle T c b"] handle_keeps [of T c b] handle_epoch [of b T c] show ?case by simp
qed simp

end
