(* ===== verification/Tws_Reads.thy ===== *)
theory Tws_Reads
  imports Tws_State
begin

text \<open>
  The reading endpoints of the IBKR bridge (\<open>tools/ibkr_bridge.py\<close>): connection and health, the account
  summary with its two-second cache, positions, orders, executions, contracts, quotes and candles.
\<close>

section \<open>Connecting\<close>

definition fresh_connection :: "bridge \<Rightarrow> bridge" where
  "fresh_connection b = b\<lparr>br_account_cache := None, br_account_cache_at := 0, br_events := aset ''connected'' False (br_events b),
     br_next_id := None, br_errors := [], br_server := None, br_read_failures := [], br_retry_at := []\<rparr>"

definition exn_repr :: "exn \<Rightarrow> string" where
  \<comment> \<open>\<open>repr(exc)\<close> of what the library raises\<close>
  "exn_repr e = exn_name e @ ''('' @ (case e of RuntimeError m \<Rightarrow> str_repr m | _ \<Rightarrow> []) @ '')''"

definition connect_error :: "exn \<Rightarrow> error_row" where
  "connect_error e = \<lparr>er_id = - 1, er_code = None, er_message = exn_repr e, er_reject = []\<rparr>"

definition connect_once :: "tws_env \<Rightarrow> bool bprog" where
  "connect_once T = seqP (modP fresh_connection)
     (tryP (bindP (getP (socket_up T)) (\<lambda>up.
            seqP (if up then ask T Disconnect else retP ())
           (seqP (ask T (Connect (cf_host (te_cfg T)) (cf_port (te_cfg T)) (cf_client_id (te_cfg T))))
                 (await_event T ''connected''))))
       is_exception (\<lambda>e. seqP (modP (\<lambda>b. b\<lparr>br_errors := br_errors b @ [connect_error e]\<rparr>)) (retP False)))"

definition error_text :: "error_row \<Rightarrow> string" where
  "error_text e = (case er_code e of None \<Rightarrow> ''CONNECT_EXCEPTION'' | Some c \<Rightarrow> show_int c) @ '': '' @ er_message e"

definition no_callback_text :: string where
  "no_callback_text = ''No IBKR error callback was received. Check that TWS/IB Gateway is running, Enable ActiveX and Socket Clients is ON, socket port matches, and restart TWS after changing API settings.''"

definition connection_detail :: "bridge \<Rightarrow> string" where
  "connection_detail b = (let d = join ''; '' (map error_text (last_n 6 (br_errors b))) in if d = [] then no_callback_text else d)"

fun startup_attempts :: "tws_env \<Rightarrow> nat \<Rightarrow> string \<Rightarrow> unit bprog" where
  "startup_attempts T 0 detail = liftP (Inl (RuntimeError (''IBKR TWS/IB Gateway connection failed at '' @ cf_host (te_cfg T) @ '':''
      @ show_int (cf_port (te_cfg T)) @ '' client_id='' @ show_int (cf_client_id (te_cfg T)) @ ''. '' @ detail)))"
| "startup_attempts T (Suc n) detail =
     bindP (connect_once T) (\<lambda>up. if up then ask T (ReqMarketDataType 3) else
     bindP (getP connection_detail) (\<lambda>detail'.
       seqP (tryP (ask T Disconnect) is_exception (\<lambda>_. retP ())) (startup_attempts T n detail')))"

definition startup :: "tws_env \<Rightarrow> unit bprog" where "startup T = startup_attempts T 3 []"

definition shutdown :: "tws_env \<Rightarrow> unit bprog" where "shutdown T = ask T Disconnect"

definition error_dict :: "error_row \<Rightarrow> pydict" where
  "error_dict e = [(''id'', PInt (er_id e)), (''code'', case er_code e of None \<Rightarrow> PStr ''CONNECT_EXCEPTION'' | Some c \<Rightarrow> PInt c),
      (''message'', PStr (er_message e))] @ (if er_reject e = [] then [] else [(''advanced_reject'', PStr (er_reject e))])"

definition health_answer :: "tws_env \<Rightarrow> bridge \<Rightarrow> pydict" where
  "health_answer T b = [(''status'', PStr (if server_ready T b then ''ok'' else ''degraded'')), (''connected'', PBool (server_ready T b)),
     (''socket_connected'', PBool (socket_up T b)), (''server_connected'', opt_val PBool (br_server b)),
     (''accounts'', PList (map PStr (br_accounts b))), (''host'', PStr (cf_host (te_cfg T))), (''port'', PInt (cf_port (te_cfg T))),
     (''client_id'', PInt (cf_client_id (te_cfg T))), (''simulation'', PBool (cf_simulation (te_cfg T))),
     (''native_protection_available'', PBool True), (''errors'', PList (map (PDict \<circ> error_dict) (last_n 12 (br_errors b))))]"

definition health :: "tws_env \<Rightarrow> string option \<Rightarrow> pydict bprog" where
  "health T token = seqP (auth T token) (getP (health_answer T))"

section \<open>The account summary\<close>

definition account_tags :: "string list" where
  "account_tags = [''NetLiquidation'', ''TotalCashValue'', ''AvailableFunds'', ''BuyingPower'']"

definition summary_account :: "bridge_cfg \<Rightarrow> bridge \<Rightarrow> string" where
  "summary_account cfg b = (if cf_account_id cfg \<noteq> [] then cf_account_id cfg else case br_accounts b of [] \<Rightarrow> [] | a # _ \<Rightarrow> a)"

definition summary_floats :: "string list \<Rightarrow> pyfloat list res" where
  "summary_floats texts = mapE (\<lambda>s. py_float (PStr s)) texts"

definition account_summary :: "tws_env \<Rightarrow> int \<Rightarrow> bridge \<Rightarrow> account_answer res" where
  \<comment> \<open>what the collected rows say, once the summary is complete\<close>
  "account_summary T r b =
     (if list_ex (\<lambda>e. er_id e = r) (br_errors b) then http_error 502 ''IBKR account summary rejected''
      else let acct = summary_account (te_cfg T) b; rows = or_else (aget r (br_account_requests b)) [];
               found = map (\<lambda>tag. aget (acct, tag) rows) account_tags
           in if None \<in> set found then http_error 502 ''IBKR account summary incomplete''
              else bindE (summary_floats (map (\<lambda>v. or_else v []) found)) (\<lambda>vs.
                Inr \<lparr>aa_account_id = acct, aa_simulation = cf_simulation (te_cfg T), aa_observed_at = te_micros T (br_tick b),
                     aa_equity = vs ! 0, aa_cash = vs ! 1, aa_available = vs ! 2, aa_buying_power = vs ! 3\<rparr>))"

definition cached_account :: "tws_env \<Rightarrow> bridge \<Rightarrow> account_answer option" where
  "cached_account T b = (if te_monotonic T (br_tick b) - br_account_cache_at b < fl 2 then br_account_cache b else None)"

definition drop_summary :: "tws_env \<Rightarrow> int \<Rightarrow> unit bprog" where
  "drop_summary T r = finallyP (ask T (CancelAccountSummary r))
     (seqP (modP (\<lambda>b. b\<lparr>br_account_requests := adrop r (br_account_requests b)\<rparr>))
     (seqP (forget_event (keyed ''acct'' r)) (forget_epoch (keyed ''acct'' r))))"

definition account :: "tws_env \<Rightarrow> string option \<Rightarrow> account_answer bprog" where
  "account T token = seqP (auth T token) (seqP (read_ready T ''acct'')
     (bindP (getP (cached_account T)) (\<lambda>hit. case hit of Some a \<Rightarrow> retP a | None \<Rightarrow>
      under_lock T ''account'' ''IBKR account summary already in progress; retry shortly''
        (bindP (rid T) (\<lambda>r.
         seqP (modP (\<lambda>b. b\<lparr>br_account_requests := aset r [] (br_account_requests b)\<rparr>))
        (seqP (prepare (keyed ''acct'' r))
        (finallyP
          (seqP (ask T (ReqAccountSummary r)) (seqP (wait T (keyed ''acct'' r))
          (bindP (bindP (getP (account_summary T r)) liftP) (\<lambda>a.
             seqP (modP (\<lambda>b. b\<lparr>br_account_cache := Some a, br_account_cache_at := te_monotonic T (br_tick b)\<rparr>)) (retP a)))))
          (drop_summary T r))))))))"

section \<open>Positions, orders, executions, contracts\<close>

definition positions :: "tws_env \<Rightarrow> string option \<Rightarrow> position_row list bprog" where
  "positions T token = serial_read T ''positions'' token
     (seqP (auth T token) (seqP (read_ready T ''positions'')
     (seqP (modP (\<lambda>b. b\<lparr>br_positions := []\<rparr>)) (seqP (prepare ''positions'') (seqP (ask T ReqPositions)
     (finallyP (seqP (wait T ''positions'') (getP br_positions)) (ask T CancelPositions)))))))"

record filled_row = order_row +
  of_filled :: pyfloat

definition order_key :: "order_row \<Rightarrow> string \<times> int \<times> int" where
  "order_key r = (or_account r, or_client_id r, or_order_id r)"

definition latest_rows :: "order_row list \<Rightarrow> order_row list" where
  \<comment> \<open>a later row of the same account, client and order replaces an earlier one in its place\<close>
  "latest_rows rows = map snd (foldl (\<lambda>d r. aset (order_key r) r d) [] rows)"

definition with_filled :: "bridge \<Rightarrow> order_row \<Rightarrow> filled_row" where
  "with_filled b r = order_row.extend r
     (filled_row.fields (case aget (or_order_id r) (br_statuses b) of None \<Rightarrow> 0 | Some s \<Rightarrow> sr_filled s))"

definition orders :: "tws_env \<Rightarrow> string option \<Rightarrow> filled_row list bprog" where
  "orders T token = serial_read T ''orders'' token
     (seqP (auth T token) (seqP (read_ready T ''orders'')
     (seqP (modP (\<lambda>b. b\<lparr>br_open_orders := [], br_order_objects := []\<rparr>)) (seqP (prepare ''orders'') (seqP (ask T ReqAllOpenOrders)
     (seqP (wait T ''orders'') (seqP (prepare ''orders'') (seqP (ask T ReqOpenOrders) (seqP (wait T ''orders'')
       (getP (\<lambda>b. map (with_filled b) (latest_rows (br_open_orders b)))))))))))))"

definition error_for :: "int \<Rightarrow> error_row \<Rightarrow> bool" where
  \<comment> \<open>\<open>int(e.get('id') or -1)==order_id\<close>\<close>
  "error_for oid e \<longleftrightarrow> (if er_id e = 0 then - 1 else er_id e) = oid"

definition order_status :: "tws_env \<Rightarrow> string option \<Rightarrow> int \<Rightarrow> (status_row option \<times> error_row list) bprog" where
  "order_status T token oid = seqP (auth T token)
     (getP (\<lambda>b. (aget oid (br_statuses b), last_n 8 (filter (error_for oid) (br_errors b)))))"

definition executions :: "tws_env \<Rightarrow> string option \<Rightarrow> int \<Rightarrow> (exec_row \<times> commission_row option \<times> bool) list bprog" where
  \<comment> \<open>every execution with its commission report, if one has come, and whether its profit is known\<close>
  "executions T token days = seqP (auth T token) (seqP (read_ready T ''exec'')
     (bindP (rid T) (\<lambda>r.
      seqP (modP (\<lambda>b. b\<lparr>br_executions := [], br_commissions := []\<rparr>))
     (bindP (getP (\<lambda>b. te_days_ago T (br_tick b) (max 1 (min days 30)))) (\<lambda>start.
      seqP (prepare (keyed ''exec'' r)) (seqP (ask T (ReqExecutions r start)) (seqP (wait T (keyed ''exec'' r)) (seqP (deliver T)
        (getP (\<lambda>b. map (\<lambda>x. let c = aget (ex_execution_id x) (br_commissions b)
                             in (x, c, (case c of None \<Rightarrow> False | Some row \<Rightarrow> cm_realized row \<noteq> None))) (br_executions b)))))))))))"

definition contract_info :: "tws_env \<Rightarrow> string option \<Rightarrow> string \<Rightarrow> string \<Rightarrow> string \<Rightarrow> string \<Rightarrow> contract_row bprog" where
  "contract_info T token symbol sec_type exchange currency = seqP (auth T token) (seqP (read_ready T ''contract'')
     (bindP (rid T) (\<lambda>r.
      seqP (modP (\<lambda>b. b\<lparr>br_contracts := aset r [] (br_contracts b)\<rparr>))
     (seqP (prepare (keyed ''contract'' r))
     (seqP (ask T (ReqContractDetails r (contract T symbol sec_type exchange currency)))
     (seqP (wait T (keyed ''contract'' r))
     (bindP (getP (\<lambda>b. or_else (aget r (br_contracts b)) [])) (\<lambda>rows.
      seqP (modP (\<lambda>b. b\<lparr>br_contracts := adrop r (br_contracts b)\<rparr>))
       (case rows of [] \<Rightarrow> refuse 404 (''No IBKR contract found for '' @ symbol)
        | first # _ \<Rightarrow> retP (or_else (find (\<lambda>x. str_upper (cr_symbol x) = str_upper symbol \<and> cr_sec_type x = sec_type) rows) first))))))))))"

section \<open>Quotes\<close>

fun is_http :: "exn \<Rightarrow> bool" where
  "is_http (HTTPException _ _) = True"
| "is_http _ = False"

definition qfloat :: "pydict \<Rightarrow> string \<Rightarrow> pyfloat" where
  \<comment> \<open>the prices of a quote are floats\<close>
  "qfloat q k = (case dget q k of PFloat f \<Rightarrow> f | _ \<Rightarrow> 0)"

definition with_mid :: "pydict \<Rightarrow> pydict" where
  "with_mid q = (if \<not> truth (dget q ''last'') \<and> truth (dget q ''bid'') \<and> truth (dget q ''ask'')
     then dset ''last'' (PFloat (fquot (qfloat q ''bid'' + qfloat q ''ask'') (fl 2))) q else q)"

definition data_status :: "pyval \<Rightarrow> string" where
  "data_status kind = (if kind = PInt 1 then ''LIVE'' else if kind = PInt 2 then ''FROZEN'' else if kind = PInt 3 then ''DELAYED''
     else if kind = PInt 4 then ''DELAYED_FROZEN'' else ''UNKNOWN'')"

definition snapshot_answer :: "string \<Rightarrow> string \<Rightarrow> string \<Rightarrow> pydict \<Rightarrow> pydict" where
  "snapshot_answer symbol sec_type currency q = dmerge [(''symbol'', PStr (str_upper symbol)), (''sec_type'', PStr sec_type),
     (''currency'', PStr currency), (''source'', PStr ''SNAPSHOT''), (''data_status'', PStr (data_status (dget q ''market_data_type'')))] q"

definition fallback_answer :: "string \<Rightarrow> string \<Rightarrow> string \<Rightarrow> bar_row \<Rightarrow> pydict" where
  "fallback_answer symbol sec_type currency bar = [(''symbol'', PStr (str_upper symbol)), (''sec_type'', PStr sec_type),
     (''currency'', PStr currency), (''last'', PFloat (ba_close bar)), (''source'', PStr ''HISTORICAL_FALLBACK''),
     (''data_status'', PStr ''HISTORICAL''), (''bar_time'', PStr (ba_time bar))]"

definition take_bars :: "int \<Rightarrow> bar_row list bprog" where
  \<comment> \<open>\<open>ib.bars.pop(r,[])\<close>\<close>
  "take_bars r = bindP (getP (\<lambda>b. or_else (aget r (br_bars b)) [])) (\<lambda>rows.
     seqP (modP (\<lambda>b. b\<lparr>br_bars := adrop r (br_bars b)\<rparr>)) (retP rows))"

definition quote :: "tws_env \<Rightarrow> string option \<Rightarrow> string \<Rightarrow> string \<Rightarrow> string \<Rightarrow> string \<Rightarrow> pydict bprog" where
  "quote T token symbol sec_type exchange currency =
     (let c = contract T symbol sec_type exchange currency
      in seqP (auth T token) (seqP (read_ready T ''quote'') (seqP (read_ready T ''bars'')
        (bindP (rid T) (\<lambda>r.
         seqP (modP (\<lambda>b. b\<lparr>br_quotes := aset r [] (br_quotes b)\<rparr>))
        (seqP (prepare (keyed ''quote'' r))
        (seqP (ask T (ReqMktData r c))
        (seqP (tryP (wait T (keyed ''quote'' r)) is_http (\<lambda>_. require_server T))
        (bindP (getP (\<lambda>b. with_mid (or_else (aget r (br_quotes b)) []))) (\<lambda>q.
         seqP (modP (\<lambda>b. b\<lparr>br_quotes := adrop r (br_quotes b)\<rparr>))
          (if truth (dget q ''last'') \<or> truth (dget q ''bid'') \<or> truth (dget q ''ask'')
           then retP (snapshot_answer symbol sec_type currency q) else
         bindP (rid T) (\<lambda>hr.
         seqP (modP (\<lambda>b. b\<lparr>br_bars := aset hr [] (br_bars b)\<rparr>))
        (seqP (prepare (keyed ''bars'' hr))
        (seqP (ask T (ReqHistoricalData hr c ''2 D'' ''5 mins'' 1))
        (seqP (finallyP (wait T (keyed ''bars'' hr)) (tryP (ask T (CancelHistoricalData hr)) is_exception (\<lambda>_. retP ())))
        (bindP (take_bars hr) (\<lambda>rows.
          if rows = [] then refuse 502 (''No IBKR quote or historical fallback returned for '' @ symbol)
          else retP (fallback_answer symbol sec_type currency (last rows)))))))))))))))))))"

section \<open>Candles\<close>

definition bar_sizes :: "(string \<times> string) list" where
  "bar_sizes = [(''1m'', ''1 min''), (''3m'', ''3 mins''), (''5m'', ''5 mins''), (''15m'', ''15 mins''), (''30m'', ''30 mins''),
     (''1h'', ''1 hour''), (''4h'', ''4 hours''), (''1d'', ''1 day'')]"

definition bar_size :: "string \<Rightarrow> string res" where
  "bar_size tf = (case map_of bar_sizes tf of None \<Rightarrow> http_error 400 ''IBKR_CANDLE_INTERVAL_UNSUPPORTED'' | Some s \<Rightarrow> Inr s)"

definition bar_minutes :: "(string \<times> int) list" where
  "bar_minutes = [(''1m'', 1), (''3m'', 3), (''5m'', 5), (''15m'', 15), (''30m'', 30), (''1h'', 60), (''4h'', 240)]"

definition ceil_ratio :: "int \<Rightarrow> int \<Rightarrow> int" where
  \<comment> \<open>\<open>math.ceil(a/b)\<close>, for quotients in the range of a float\<close>
  "ceil_ratio a b = (case fin (of_int a / of_int b) of Fin x \<Rightarrow> \<lceil>x\<rceil> | _ \<Rightarrow> 0)"

definition duration_cap :: "string \<Rightarrow> int" where
  "duration_cap tf = (if tf = ''1m'' then 1 else if tf \<in> set [''3m'', ''5m'', ''15m''] then 7 else if tf = ''30m'' then 31 else 365)"

definition duration_days :: "string \<Rightarrow> int \<Rightarrow> int res" where
  "duration_days tf limit = bindE (bar_size tf) (\<lambda>_.
     if tf = ''1d'' then Inr (max 1 (min 365 (ceil_ratio (limit * 7) 5 + 7)))
     else case map_of bar_minutes tf of None \<Rightarrow> Inl KeyError
       | Some m \<Rightarrow> Inr (max 1 (min (duration_cap tf) (ceil_ratio (ceil_ratio (m * max limit 10) 390 * 7) 5 + 3))))"

definition duration :: "string \<Rightarrow> int \<Rightarrow> string res" where
  "duration tf limit = bindE (duration_days tf limit) (\<lambda>days. Inr (show_int days @ '' D''))"

record stamped_bar = bar_row +
  sb_source_time :: string
  sb_interval :: string
  sb_timestamp_ms :: int
  sb_bar_end_ms :: int

definition bar_interval :: "tws_env \<Rightarrow> string \<Rightarrow> string \<Rightarrow> (int \<times> int) option" where
  \<comment> \<open>start and end of the bar in milliseconds; None for a ValueError, KeyError or OverflowError\<close>
  "bar_interval T raw tf =
     (if tf = ''1d'' then te_new_york_day T raw
      else case parse_int raw of None \<Rightarrow> None
        | Some s \<Rightarrow> if s * 1000 \<le> 0 then None
            else map_option (\<lambda>m. (s * 1000, s * 1000 + m * 60000)) (map_of bar_minutes tf))"

definition timestamped_candle :: "tws_env \<Rightarrow> bar_row \<Rightarrow> string \<Rightarrow> stamped_bar res" where
  "timestamped_candle T row tf = (let raw = ba_time row in
     case bar_interval T raw tf of
       None \<Rightarrow> http_error 502 ''IBKR_CANDLE_TIMESTAMP_INVALID''
     | Some (stamp, ending) \<Rightarrow> bindE (if tf = ''1d'' then Inr raw else te_utc_text T stamp) (\<lambda>chart.
         Inr (bar_row.extend (row\<lparr>ba_time := chart\<rparr>) (stamped_bar.fields raw tf stamp ending))))"

definition candles :: "tws_env \<Rightarrow> string option \<Rightarrow> string \<Rightarrow> string \<Rightarrow> int \<Rightarrow> string \<Rightarrow> string \<Rightarrow> string \<Rightarrow> (string \<times> stamped_bar list) bprog" where
  \<comment> \<open>the bar size asked for, and the rows\<close>
  "candles T token symbol timeframe limit0 sec_type exchange currency = seqP (auth T token)
     (bindP (liftP (bar_size timeframe)) (\<lambda>size.
      seqP (require (\<not> (timeframe = ''1d'' \<and> (sec_type \<noteq> ''STK'' \<or> currency \<noteq> ''USD''))) 400 ''IBKR_DAILY_CALENDAR_UNSUPPORTED'')
     (seqP (read_ready T ''bars'')
     (let limit = max 10 (min limit0 1000)
      in bindP (rid T) (\<lambda>r.
         seqP (modP (\<lambda>b. b\<lparr>br_bars := aset r [] (br_bars b)\<rparr>))
        (seqP (prepare (keyed ''bars'' r))
        (bindP (liftP (duration timeframe limit)) (\<lambda>span.
         seqP (ask T (ReqHistoricalData r (contract T symbol sec_type exchange currency) span size 2))
        (bindP (finallyP (seqP (wait T (keyed ''bars'' r)) (take_bars r))
           (seqP (ask T (CancelHistoricalData r)) (seqP (modP (\<lambda>b. b\<lparr>br_bars := adrop r (br_bars b)\<rparr>))
              (seqP (forget_event (keyed ''bars'' r)) (forget_epoch (keyed ''bars'' r)))))) (\<lambda>rows.
         seqP (require (rows \<noteq> []) 502 (''No IBKR candles returned for '' @ symbol))
           (bindP (liftP (mapE (\<lambda>row. timestamped_candle T row timeframe) (last_n (nat limit) rows))) (\<lambda>list.
              retP (size, list)))))))))))))"

end
