(* ===== verification/Tws_Orders.thy ===== *)
theory Tws_Orders
  imports Tws_Reads
begin

text \<open>
  The endpoints of the IBKR bridge that reach the broker's order book (\<open>tools/ibkr_bridge.py\<close>): the
  margin check, a simulated order, a cancellation, and the protective pair of an open position.
\<close>

section \<open>Margin checks, orders, cancellations\<close>

record order_payload =
  pl_symbol :: string
  pl_side :: string
  pl_quantity :: pyfloat
  pl_order_type :: string
  pl_limit_price :: "pyfloat option"
  pl_sec_type :: string
  pl_exchange :: string
  pl_currency :: string
  pl_account_id :: "string option"

definition market_payload :: "string \<Rightarrow> string \<Rightarrow> pyfloat \<Rightarrow> string \<Rightarrow> order_payload" where
  \<comment> \<open>\<open>OrderPayload(symbol=..., side=..., quantity=..., account_id=...)\<close> with the defaults of the class\<close>
  "market_payload symbol side quantity account_id = \<lparr>pl_symbol = symbol, pl_side = side, pl_quantity = quantity, pl_order_type = ''MKT'',
     pl_limit_price = None, pl_sec_type = ''STK'', pl_exchange = ''SMART'', pl_currency = ''USD'', pl_account_id = Some account_id\<rparr>"

definition payload_account :: "tws_env \<Rightarrow> order_payload \<Rightarrow> string" where
  \<comment> \<open>\<open>p.account_id or cfg.get('account_id') or ''\<close>\<close>
  "payload_account T p = (case pl_account_id p of None \<Rightarrow> cf_account_id (te_cfg T)
     | Some a \<Rightarrow> if a = [] then cf_account_id (te_cfg T) else a)"

definition simulation_only :: "tws_env \<Rightarrow> unit bprog" where
  "simulation_only T = require (cf_simulation (te_cfg T)) 403 ''ATLAS IBKR bridge refuses Live Money execution''"

definition order_payload_ok :: "order_payload \<Rightarrow> unit bprog" where
  "order_payload_ok p =
     seqP (require (\<not> pl_quantity p \<le> 0) 400 ''quantity must be positive'')
    (seqP (require (str_upper (pl_side p) \<in> set [''BUY'', ''SELL'']) 400 ''side must be BUY or SELL'')
          (require (str_upper (pl_order_type p) \<in> set [''MKT'', ''LMT'']) 400 ''order_type must be MKT or LMT''))"

definition next_order_id :: "int bprog" where
  "next_order_id = bindP (getP br_next_id) (\<lambda>n. case n of None \<Rightarrow> refuse 503 ''IBKR next order id unavailable'' | Some i \<Rightarrow> retP i)"

definition payload_order :: "tws_env \<Rightarrow> order_payload \<Rightarrow> bool \<Rightarrow> tws_order" where
  "payload_order T p what_if =
     (let o1 = (te_blank_order T)\<lparr>to_action := str_upper (pl_side p), to_quantity := pl_quantity p, to_type := str_upper (pl_order_type p),
            to_transmit := True, to_account := payload_account T p, to_tif := ''DAY''\<rparr>;
          o2 = (if what_if then o1\<lparr>to_what_if := True\<rparr> else o1);
          o3 = o2\<lparr>to_etrade_only := map_option (\<lambda>_. False) (to_etrade_only o2), to_firm_quote_only := map_option (\<lambda>_. False) (to_firm_quote_only o2)\<rparr>
      in if to_type o3 = ''LMT'' then o3\<lparr>to_limit := or_else (pl_limit_price p) 0\<rparr> else o3)"

definition submit_order :: "tws_env \<Rightarrow> int \<Rightarrow> order_payload \<Rightarrow> bool \<Rightarrow> unit bprog" where
  \<comment> \<open>\<open>ib.placeOrder(...); ib.next_id+=1\<close>\<close>
  "submit_order T oid p what_if =
     seqP (ask T (PlaceOrder oid (contract T (pl_symbol p) (pl_sec_type p) (pl_exchange p) (pl_currency p)) (payload_order T p what_if)))
          (bindP (getP br_next_id) (\<lambda>n. case n of None \<Rightarrow> liftP (Inl TypeError) | Some i \<Rightarrow> modP (\<lambda>b. b\<lparr>br_next_id := Some (i + 1)\<rparr>)))"

record check_answer =
  ck_ok :: bool
  ck_what_if :: bool
  ck_simulation :: bool
  ck_account_id :: string
  ck_symbol :: string
  ck_side :: string
  ck_quantity :: pyfloat
  ck_order_type :: string
  ck_result :: "whatif_row option" \<comment> \<open>None: \<open>NO_WHAT_IF_RESPONSE\<close>\<close>
  ck_errors :: "error_row list"

definition check_result :: "tws_env \<Rightarrow> int \<Rightarrow> order_payload \<Rightarrow> bridge \<Rightarrow> check_answer" where
  "check_result T oid p b =
     (let result = aget oid (br_whatif b); errs = filter (error_for oid) (br_errors b)
      in \<lparr>ck_ok = result \<noteq> None \<and> errs = [], ck_what_if = True, ck_simulation = True, ck_account_id = payload_account T p,
          ck_symbol = str_upper (pl_symbol p), ck_side = str_upper (pl_side p), ck_quantity = pl_quantity p,
          ck_order_type = str_upper (pl_order_type p), ck_result = result, ck_errors = last_n 8 errs\<rparr>)"

definition order_check_held :: "tws_env \<Rightarrow> string option \<Rightarrow> order_payload \<Rightarrow> check_answer bprog" where
  \<comment> \<open>the body of \<open>order_check\<close>, for a thread that holds the mutation lock (the lock is reentrant)\<close>
  "order_check_held T token p =
     seqP (auth T token) (seqP (require_server T) (seqP (simulation_only T) (seqP (order_payload_ok p)
     (bindP next_order_id (\<lambda>oid. let key = keyed ''whatif'' oid in
      seqP (modP (\<lambda>b. b\<lparr>br_whatif := adrop oid (br_whatif b), br_errors := filter (\<lambda>e. \<not> error_for oid e) (br_errors b)\<rparr>))
     (seqP (prepare key)
     (seqP (submit_order T oid p True)
     (bindP (await_event T key) (\<lambda>_.
      seqP (require_server T)
     (seqP (bindP (getP (same_epoch key)) (\<lambda>same. require same 503 ''IBKR_READ_INTERRUPTED_BY_DISCONNECT''))
     (bindP (getP (check_result T oid p)) (\<lambda>answer.
      seqP (modP (\<lambda>b. b\<lparr>br_whatif := adrop oid (br_whatif b)\<rparr>)) (retP answer)))))))))))))"

definition order_check :: "tws_env \<Rightarrow> string option \<Rightarrow> order_payload \<Rightarrow> check_answer bprog" where
  "order_check T token p = serial_mutation T (order_check_held T token p)"

definition place :: "tws_env \<Rightarrow> string option \<Rightarrow> order_payload \<Rightarrow> int bprog" where
  \<comment> \<open>the id of the accepted order; the other fields of the answer repeat the payload\<close>
  "place T token p = serial_mutation T
     (seqP (auth T token) (seqP (require_server T) (seqP (simulation_only T) (seqP (order_payload_ok p)
     (bindP next_order_id (\<lambda>oid. seqP (submit_order T oid p False) (retP oid)))))))"

definition cancel :: "tws_env \<Rightarrow> string option \<Rightarrow> int \<Rightarrow> unit bprog" where
  "cancel T token oid = serial_mutation T
     (seqP (auth T token) (seqP (require_server T) (seqP (simulation_only T) (ask T (CancelOrder oid)))))"

section \<open>The protective pair\<close>

record protection_payload =
  pp_symbol :: string
  pp_account_id :: string
  pp_position_side :: string
  pp_quantity :: pyfloat
  pp_stop_loss :: pyfloat
  pp_take_profit :: pyfloat
  pp_entry_key :: string
  pp_allow_submit :: bool
  pp_existing_order_ids :: "int list"

definition hex_digit :: "char \<Rightarrow> bool" where
  "hex_digit c \<longleftrightarrow> is_digit c \<or> c \<in> set ''abcdef''"

definition protection_payload_ok :: "protection_payload \<Rightarrow> bool" where
  \<comment> \<open>the constraints the class declares on its fields; others are refused before the endpoint runs\<close>
  "protection_payload_ok p \<longleftrightarrow> length (pp_entry_key p) = 32 \<and> list_all hex_digit (pp_entry_key p) \<and> length (pp_existing_order_ids p) \<le> 2"

definition round_to_tick :: "(rat \<Rightarrow> int) \<Rightarrow> rat \<Rightarrow> rat \<Rightarrow> pyfloat" where
  \<comment> \<open>\<open>float((price/tick).to_integral_value(rounding=...)*tick)\<close>\<close>
  "round_to_tick rounding price tick = float_of_dec (Dec (dec_round (of_int (rounding (dec_round (price / tick))) * tick)))"

fun positive_decimal :: "pyfloat \<Rightarrow> rat option" where
  "positive_decimal (Fin x) = (if repr_rat x \<le> 0 then None else Some (repr_rat x))"
| "positive_decimal _ = None"

definition protection_prices :: "string \<Rightarrow> pyfloat \<Rightarrow> pyfloat \<Rightarrow> pyfloat \<Rightarrow> (pyfloat \<times> pyfloat) res" where
  "protection_prices side stop target tick =
     (case (positive_decimal stop, positive_decimal target, positive_decimal tick) of
        (Some s, Some t, Some k) \<Rightarrow>
          Inr (round_to_tick (if side = ''LONG'' then ceiling else floor) s k, round_to_tick (if side = ''LONG'' then floor else ceiling) t k)
      | _ \<Rightarrow> http_error 400 ''INVALID_PROTECTION_PRICES'')"

definition exit_side :: "protection_payload \<Rightarrow> string" where
  "exit_side p = (if pp_position_side p = ''LONG'' then ''SELL'' else ''BUY'')"

definition close_to :: "pyfloat \<Rightarrow> pyfloat \<Rightarrow> bool" where
  "close_to a b = fisclose a b 0 (fl (1 / 10 ^ 8))"

definition leg_matches :: "tws_env \<Rightarrow> protection_payload \<Rightarrow> string \<Rightarrow> pyfloat \<Rightarrow> pyfloat \<Rightarrow> filled_row \<Rightarrow> bool" where
  "leg_matches T p grp stop target row \<longleftrightarrow>
     (let price = (if or_type row = ''STP'' then or_aux_price row else or_limit_price row);
          expected = (if or_type row = ''STP'' then stop else target)
      in or_account row = pp_account_id p \<and> or_symbol row = pp_symbol p \<and> or_sec_type row = ''STK'' \<and> or_side row = exit_side p
       \<and> or_oca_group row = grp \<and> or_order_ref row = grp \<and> or_oca_type row = 2 \<and> or_client_id row = cf_client_id (te_cfg T)
       \<and> or_tif row = ''GTC'' \<and> \<not> or_outside_rth row \<and> str_upper (or_status row) \<in> set [''PRESUBMITTED'', ''SUBMITTED'']
       \<and> close_to (or_quantity row - of_filled row) (pp_quantity p) \<and> close_to price expected)"

definition protection_pair_matches :: "tws_env \<Rightarrow> filled_row list \<Rightarrow> protection_payload \<Rightarrow> string \<Rightarrow> pyfloat \<Rightarrow> pyfloat \<Rightarrow> bool" where
  "protection_pair_matches T rows p grp stop target \<longleftrightarrow>
     length rows = 2 \<and> set (map or_type rows) = set [''STP'', ''LMT''] \<and> list_all (leg_matches T p grp stop target) rows"

datatype protection_answer =
    Protected string "filled_row list" pyfloat pyfloat bool  \<comment> \<open>group, orders, levels; whether a staged stop was transmitted\<close>
  | Protection_Pending string "int list" pyfloat pyfloat

definition open_rows :: "protection_payload \<Rightarrow> position_row list \<Rightarrow> position_row list" where
  "open_rows p rows = filter (\<lambda>r. po_account r = pp_account_id p \<and> po_symbol r = pp_symbol p \<and> \<not> feq (po_quantity r) 0) rows"

definition expected_quantity :: "protection_payload \<Rightarrow> pyfloat" where
  "expected_quantity p = (if pp_position_side p = ''LONG'' then pp_quantity p else - pp_quantity p)"

definition sole_position :: "tws_env \<Rightarrow> string option \<Rightarrow> protection_payload \<Rightarrow> (position_row \<Rightarrow> bool) \<Rightarrow> position_row bprog" where
  \<comment> \<open>one fresh position of the payload's account, symbol and quantity, or 409\<close>
  "sole_position T token p ok = bindP (positions T token) (\<lambda>rows. case open_rows p rows of
       [row] \<Rightarrow> if ok row \<and> close_to (po_quantity row) (expected_quantity p) then retP row else refuse 409 ''PROTECTION_POSITION_CHANGED''
     | _ \<Rightarrow> refuse 409 ''PROTECTION_POSITION_CHANGED'')"

definition stock_row :: "position_row \<Rightarrow> bool" where
  "stock_row r \<longleftrightarrow> po_sec_type r = ''STK'' \<and> po_currency r = ''USD''"

definition bracketed :: "protection_payload \<Rightarrow> pyfloat \<Rightarrow> pyfloat \<Rightarrow> pyfloat \<Rightarrow> bool" where
  "bracketed p stop entry target \<longleftrightarrow> isfinite entry \<and>
     (if pp_position_side p = ''LONG'' then 0 < stop \<and> stop < entry \<and> entry < target else 0 < target \<and> target < entry \<and> entry < stop)"

definition finished_statuses :: "string list" where
  "finished_statuses = [''FILLED'', ''CANCELLED'', ''CANCELED'', ''INACTIVE'', ''APICANCELLED'']"

definition symbol_rows :: "protection_payload \<Rightarrow> filled_row list \<Rightarrow> filled_row list" where
  "symbol_rows p rows = filter (\<lambda>r. or_symbol r = pp_symbol p) rows"

definition working_rows :: "protection_payload \<Rightarrow> filled_row list \<Rightarrow> filled_row list" where
  "working_rows p rows = filter (\<lambda>r. str_upper (or_status r) \<notin> set finished_statuses) (symbol_rows p rows)"

definition group_of :: "protection_payload \<Rightarrow> string" where
  "group_of p = ''atlas-protect-'' @ pp_entry_key p"

definition is_staged :: "filled_row \<Rightarrow> bool" where
  "is_staged r \<longleftrightarrow> or_type r = ''STP'' \<and> or_status r = ''ApiPending'' \<and> \<not> or_transmit r \<and> or_perm_id r = 0"

definition sole_row :: "'a list \<Rightarrow> 'a option" where
  "sole_row xs = (case xs of [x] \<Rightarrow> Some x | _ \<Rightarrow> None)"

definition staged_stop :: "tws_env \<Rightarrow> protection_payload \<Rightarrow> pyfloat \<Rightarrow> pyfloat \<Rightarrow> filled_row list \<Rightarrow> filled_row list \<Rightarrow> filled_row option" where
  \<comment> \<open>the one staged stop of the two orders the caller saved, when transmitting it would complete the pair\<close>
  "staged_stop T p stop target symbol_orders existing =
     (if \<not> pp_allow_submit p \<and> length (pp_existing_order_ids p) = 2 \<and> distinct (pp_existing_order_ids p) \<and> length symbol_orders = 2
      then case sole_row (filter is_staged existing) of None \<Rightarrow> None
        | Some r \<Rightarrow> if set (map or_order_id existing) = set (pp_existing_order_ids p)
                     \<and> protection_pair_matches T (map (\<lambda>x. if is_staged x then x\<lparr>or_status := ''Submitted''\<rparr> else x) existing) p (group_of p) stop target
                    then Some r else None
      else None)"

definition confirmed :: "tws_env \<Rightarrow> string option \<Rightarrow> protection_payload \<Rightarrow> pyfloat \<Rightarrow> pyfloat \<Rightarrow> bool \<Rightarrow> protection_answer option bprog" where
  \<comment> \<open>the pair as the broker reports it now\<close>
  "confirmed T token p stop target recovered = bindP (orders T token) (\<lambda>rows.
     let same = symbol_rows p rows
     in retP (if protection_pair_matches T same p (group_of p) stop target then Some (Protected (group_of p) same stop target recovered) else None))"

definition recover_staged :: "tws_env \<Rightarrow> string option \<Rightarrow> protection_payload \<Rightarrow> pyfloat \<Rightarrow> pyfloat \<Rightarrow> filled_row \<Rightarrow> protection_answer bprog" where
  "recover_staged T token p stop target r =
     bindP (sole_position T token p (\<lambda>_. True)) (\<lambda>_.
     bindP (getP (\<lambda>b. aget (cf_client_id (te_cfg T), or_order_id r) (br_order_objects b))) (\<lambda>saved. case saved of
         None \<Rightarrow> refuse 409 ''PROTECTION_STAGED_ORDER_NOT_VERIFIED''
       | Some (c, o') \<Rightarrow>
           seqP (require (\<not> to_transmit o' \<and> to_perm o' = 0) 409 ''PROTECTION_STAGED_ORDER_NOT_VERIFIED'')
           (bindP (tryP (seqP (ask T (PlaceOrder (or_order_id r) c (o'\<lparr>to_transmit := True\<rparr>))) (confirmed T token p stop target True))
                     is_exception (\<lambda>_. retP None)) (\<lambda>done.
              retP (or_else done (Protection_Pending (group_of p) (pp_existing_order_ids p) stop target))))))"

definition leg_order :: "tws_env \<Rightarrow> protection_payload \<Rightarrow> string \<Rightarrow> pyfloat \<Rightarrow> tws_order" where
  "leg_order T p kind price =
     (let o1 = (te_blank_order T)\<lparr>to_action := exit_side p, to_quantity := pp_quantity p, to_type := kind, to_account := pp_account_id p,
            to_tif := ''GTC'', to_outside_rth := False, to_oca_group := group_of p, to_oca_type := 2, to_ref := group_of p,
            to_transmit := True, to_etrade_only := Some False, to_firm_quote_only := Some False\<rparr>
      in if kind = ''STP'' then o1\<lparr>to_aux := price\<rparr> else o1\<lparr>to_limit := price\<rparr>)"

definition place_leg :: "tws_env \<Rightarrow> protection_payload \<Rightarrow> int \<Rightarrow> string \<Rightarrow> pyfloat \<Rightarrow> unit bprog" where
  "place_leg T p oid kind price = ask T (PlaceOrder oid (contract T (pp_symbol p) ''STK'' ''SMART'' ''USD'') (leg_order T p kind price))"

definition succeeds :: "unit bprog \<Rightarrow> bool bprog" where
  \<comment> \<open>whether the step ran through, under \<open>except Exception: pass\<close>\<close>
  "succeeds m = tryP (seqP m (retP True)) is_exception (\<lambda>_. retP False)"

definition submit_legs :: "tws_env \<Rightarrow> string option \<Rightarrow> protection_payload \<Rightarrow> pyfloat \<Rightarrow> pyfloat \<Rightarrow> int \<Rightarrow> protection_answer bprog" where
  \<comment> \<open>the stop first, then the target if the position is still the same; an exception anywhere leaves the legs sent so far\<close>
  "submit_legs T token p stop target oid =
     (let pending = (\<lambda>ids. retP (Protection_Pending (group_of p) ids stop target))
      in bindP (succeeds (place_leg T p oid ''STP'' stop)) (\<lambda>first. if \<not> first then pending [oid] else
         bindP (succeeds (bindP (sole_position T token p (\<lambda>_. True)) (\<lambda>_. retP ()))) (\<lambda>same. if \<not> same then pending [oid] else
         bindP (tryP (seqP (place_leg T p (oid + 1) ''LMT'' target) (confirmed T token p stop target False)) is_exception (\<lambda>_. retP None)) (\<lambda>done.
           case done of None \<Rightarrow> pending [oid, oid + 1] | Some answer \<Rightarrow> retP answer))))"

definition new_pair :: "tws_env \<Rightarrow> string option \<Rightarrow> protection_payload \<Rightarrow> pyfloat \<Rightarrow> pyfloat \<Rightarrow> protection_answer bprog" where
  \<comment> \<open>the first submission of a group: margin check, position and orders read again, ids reserved, legs sent\<close>
  "new_pair T token p stop target =
     bindP (order_check_held T token (market_payload (pp_symbol p) (exit_side p) (pp_quantity p) (pp_account_id p))) (\<lambda>check.
      seqP (require (ck_ok check \<and> ck_what_if check \<and> ck_simulation check) 409 ''PROTECTION_WHATIF_REJECTED'')
     (bindP (sole_position T token p (\<lambda>_. True)) (\<lambda>_.
      bindP (orders T token) (\<lambda>rows.
      seqP (require (symbol_rows p rows = []) 409 ''PROTECTION_EXISTING_ORDERS_REQUIRE_RECONCILIATION'')
     (bindP next_order_id (\<lambda>oid.
      seqP (modP (\<lambda>b. b\<lparr>br_next_id := Some (oid + 2), br_attempts := group_of p # br_attempts b\<rparr>))
           (submit_legs T token p stop target oid)))))))"

definition checked_payload :: "tws_env \<Rightarrow> protection_payload \<Rightarrow> bridge \<Rightarrow> bool" where
  "checked_payload T p b \<longleftrightarrow> pp_account_id p \<noteq> [] \<and> pp_account_id p = cf_account_id (te_cfg T) \<and> pp_account_id p \<in> set (br_accounts b)
     \<and> pp_position_side p \<in> set [''LONG'', ''SHORT''] \<and> isfinite (pp_quantity p) \<and> \<not> pp_quantity p \<le> 0"

definition canonical_payload :: "protection_payload \<Rightarrow> protection_payload" where
  "canonical_payload p = p\<lparr>pp_symbol := str_upper (str_strip (pp_symbol p)), pp_position_side := str_upper (pp_position_side p)\<rparr>"

definition protect :: "tws_env \<Rightarrow> string option \<Rightarrow> protection_payload \<Rightarrow> pyfloat \<Rightarrow> pyfloat \<Rightarrow> protection_answer bprog" where
  \<comment> \<open>what follows once the levels are known: the pair is there, a staged stop completes it, or it is submitted\<close>
  "protect T token p stop target = bindP (orders T token) (\<lambda>rows.
     let symbol_orders = working_rows p rows; existing = filter (\<lambda>r. or_oca_group r = group_of p) symbol_orders
     in if protection_pair_matches T existing p (group_of p) stop target \<and> length symbol_orders = 2
        then retP (Protected (group_of p) existing stop target False)
        else case staged_stop T p stop target symbol_orders existing of
            Some r \<Rightarrow> recover_staged T token p stop target r
          | None \<Rightarrow>
              seqP (require (symbol_orders = []) 409 ''PROTECTION_EXISTING_ORDERS_REQUIRE_RECONCILIATION'')
             (bindP (getP br_attempts) (\<lambda>attempts.
              seqP (require (pp_allow_submit p \<and> group_of p \<notin> set attempts) 409 ''PROTECTION_SUBMISSION_OUTCOME_UNRESOLVED'')
                   (new_pair T token p stop target))))"

definition protection_held :: "tws_env \<Rightarrow> string option \<Rightarrow> protection_payload \<Rightarrow> protection_answer bprog" where
  "protection_held T token p0 =
     seqP (auth T token) (seqP (require_server T) (seqP (simulation_only T)
     (let p = canonical_payload p0
      in bindP (getP (checked_payload T p)) (\<lambda>ok.
         seqP (require ok 400 ''INVALID_PROTECTION_ACCOUNT_OR_POSITION'')
        (bindP (sole_position T token p stock_row) (\<lambda>live.
         bindP (contract_info T token (pp_symbol p) ''STK'' ''SMART'' ''USD'') (\<lambda>info.
         seqP (require (cr_symbol info = pp_symbol p \<and> cr_sec_type info = ''STK'' \<and> cr_currency info = ''USD'') 409 ''PROTECTION_CONTRACT_MISMATCH'')
        (bindP (liftP (protection_prices (pp_position_side p) (pp_stop_loss p) (pp_take_profit p) (cr_min_tick info))) (\<lambda>(stop, target).
         seqP (require (bracketed p stop (po_avg_cost live) target) 400 ''PROTECTION_LEVELS_DO_NOT_BRACKET_ENTRY'')
              (protect T token p stop target))))))))))"

definition protection :: "tws_env \<Rightarrow> string option \<Rightarrow> protection_payload \<Rightarrow> protection_answer bprog" where
  "protection T token p = (if protection_payload_ok p then serial_mutation T (protection_held T token p) else refuse 422 [])"

section \<open>Configuration\<close>

definition bridge_config :: "string \<Rightarrow> int \<Rightarrow> int \<Rightarrow> string \<Rightarrow> string option \<Rightarrow> bridge_cfg" where
  \<comment> \<open>the command line; only the two paper ports are a simulation\<close>
  "bridge_config host port client account_id token = \<lparr>cf_host = host, cf_port = port, cf_client_id = client, cf_account_id = account_id,
     cf_token = token, cf_simulation = port \<in> set [7497, 4002]\<rparr>"

end
