(* ===== verification/Tws_Answers.thy ===== *)
theory Tws_Answers
  imports Tws_Orders Ibkr_Bridge
begin

text \<open>
  What an answer of the reading endpoints rests on: the callbacks that arrived between the request and the
  answer, the end marker of the request among them, and no loss of the server connection.
\<close>

section \<open>Callbacks and events\<close>

fun lost :: "callback \<Rightarrow> bool" where
  "lost (ErrorCb r code message reject) = (code \<in> set [1100, 2110])"
| "lost _ = False"

fun end_key :: "callback \<Rightarrow> string option" where
  \<comment> \<open>the request without an id that the callback completes\<close>
  "end_key PositionEnd = Some ''positions''"
| "end_key OpenOrderEnd = Some ''orders''"
| "end_key (NextValidId oid) = Some ''connected''"
| "end_key _ = None"

fun position_of :: "callback \<Rightarrow> position_row list" where
  "position_of (PositionCb row) = [row]"
| "position_of _ = []"

fun order_of :: "callback \<Rightarrow> order_row list" where
  "order_of (OpenOrder oid c o' st) = (if to_what_if o' then [] else [order_row_of oid c o' (wf_status st)])"
| "order_of _ = []"

lemma aget_aset [simp]: "aget k (aset j v d) = (if j = k then Some v else aget k d)"
  by (induction j v d rule: aset.induct) (auto simp: aget_def)

lemma aget_all [simp]: "aget k (map (\<lambda>(k, _). (k, v)) d) = map_option (\<lambda>_. v) (aget k d)"
  by (induction d) (auto simp: aget_def)

lemma keyed_neq: "CHR '':'' \<notin> set k \<Longrightarrow> keyed operation r \<noteq> k"
  by (auto simp: keyed_def)

lemma event_set [simp]: "aget k (br_events (set_event j b)) = (if j = k then Some True else aget k (br_events b))"
  by (simp add: set_event_def)

lemma event_on_quote [simp]: "br_events (on_quote r f b) = br_events b"
  by (simp add: on_quote_def)

lemma event_connectivity:
  "aget k (br_events (on_connectivity code b)) =
     (if code \<in> set [1100, 2110] then map_option (\<lambda>_. True) (aget k (br_events b)) else aget k (br_events b))"
  by (auto simp: on_connectivity_def)

lemma event_on_error:
  assumes "CHR '':'' \<notin> set k"
  shows "aget k (br_events (on_error r code message reject b)) =
     (if code \<in> set [1100, 2110] then map_option (\<lambda>_. True) (aget k (br_events b)) else aget k (br_events b))"
  using keyed_neq [OF assms] by (simp add: on_error_def Let_def event_connectivity)

lemma handle_event:
  assumes "CHR '':'' \<notin> set k" and "aget k (br_events b) = Some v"
  shows "aget k (br_events (handle T c b)) = Some (v \<or> end_key c = Some k \<or> lost c)"
proof (cases c)
  case (ErrorCb r code message reject)
  with assms show ?thesis by (simp add: event_on_error)
qed (use keyed_neq [OF assms(1)] assms(2) in
      \<open>auto simp: on_next_valid_id_def on_open_order_def raise_next_def on_commission_def on_tick_string_def on_tick_price_def
        Let_def split: option.split\<close>)

lemma fold_event:
  "CHR '':'' \<notin> set k \<Longrightarrow> aget k (br_events b) = Some v \<Longrightarrow>
   aget k (br_events (fold (handle T) cs b)) = Some (v \<or> list_ex (\<lambda>c. end_key c = Some k) cs \<or> list_ex lost cs)"
proof (induction cs arbitrary: b v)
  case (Cons c cs)
  from Cons.IH [OF Cons.prems(1) handle_event [OF Cons.prems]] show ?case by auto
qed simp

lemma epoch_on_error: "br_epoch (on_error r code message reject b) = br_epoch b + (if code \<in> set [1100, 2110] then 1 else 0)"
  by (auto simp: on_error_def on_connectivity_def Let_def)

lemma handle_epoch_eq: "br_epoch (handle T c b) = br_epoch b + (if lost c then 1 else 0)"
proof (cases c)
  case (ErrorCb r code message reject)
  then show ?thesis by (simp add: epoch_on_error)
qed (auto simp: on_next_valid_id_def on_open_order_def raise_next_def on_commission_def on_tick_string_def on_tick_price_def
        Let_def split: option.split)

lemma fold_epoch: "br_epoch (fold (handle T) cs b) = br_epoch b + length (filter lost cs)"
  by (induction cs arbitrary: b) (auto simp: handle_epoch_eq)

section \<open>A read that collects rows\<close>

definition arrived :: "tws_env \<Rightarrow> nat \<Rightarrow> bridge \<Rightarrow> callback list" where
  \<comment> \<open>what the reader thread has handled since a moment\<close>
  "arrived T n b = concat (map (te_callbacks T) [n..<br_tick b])"

locale broker_read =
  \<comment> \<open>a list in the state that the callbacks of one kind extend, and the event that ends its request\<close>
  fixes content :: "bridge \<Rightarrow> 'r list" and rows_of_callback :: "callback \<Rightarrow> 'r list" and k :: string
  assumes content_handle: "content (handle T c b) = content b @ rows_of_callback c"
    and content_tick: "content (b\<lparr>br_tick := t\<rparr>) = content b"
    and content_sent: "content (b\<lparr>br_sent := rs\<rparr>) = content b"
    and content_prepare: "content (b\<lparr>br_request_epochs := re, br_events := ev\<rparr>) = content b"
    and content_epochs: "content (b\<lparr>br_request_epochs := re\<rparr>) = content b"
    and content_reads: "content (b\<lparr>br_read_failures := rf, br_retry_at := ra\<rparr>) = content b"
    and k_plain: "CHR '':'' \<notin> set k"
begin

lemmas updates [simp] = content_tick content_sent content_prepare content_epochs content_reads

definition collecting :: "tws_env \<Rightarrow> nat \<Rightarrow> nat \<Rightarrow> nat \<Rightarrow> bridge \<Rightarrow> bool" where
  \<comment> \<open>at tick \<open>m\<close>, the list holds the rows that have arrived since \<open>n\<close>, where the epoch was \<open>e\<close>\<close>
  "collecting T n e m s \<longleftrightarrow> n \<le> m \<and> br_tick s = m \<and> content s = concat (map rows_of_callback (arrived T n s))
     \<and> br_epoch s = e + length (filter lost (arrived T n s))"

definition requested :: "tws_env \<Rightarrow> nat \<Rightarrow> nat \<Rightarrow> nat \<Rightarrow> nat \<Rightarrow> bridge \<Rightarrow> bool" where
  \<comment> \<open>moreover a request was prepared at \<open>q\<close>\<close>
  "requested T n e q m s \<longleftrightarrow> collecting T n e m s \<and> n \<le> q \<and> q \<le> m
     \<and> aget k (br_request_epochs s) = Some (e + length (filter lost (concat (map (te_callbacks T) [n..<q]))))
     \<and> aget k (br_events s) = Some (list_ex (\<lambda>c. end_key c = Some k) (arrived T q s) \<or> list_ex lost (arrived T q s))"

lemma fold_content: "content (fold (handle T) cs b) = content b @ concat (map rows_of_callback cs)"
  by (induction cs arbitrary: b) (simp_all add: content_handle)

lemma arrived_next: "n \<le> br_tick b \<Longrightarrow> br_tick s = Suc (br_tick b) \<Longrightarrow> arrived T n s = arrived T n b @ te_callbacks T (br_tick b)"
  by (simp add: arrived_def)

lemma fold_tick: "br_tick (fold (handle T) cs b) = br_tick b"
  by (induction cs arbitrary: b) (simp_all add: handle_keeps)

lemma requested_deliver:
  assumes "requested T n e q m s"
  shows "requested T n e q (m + 1) ((fold (handle T) (te_callbacks T (br_tick s)) s)\<lparr>br_tick := br_tick s + 1\<rparr>)" (is "requested T n e q _ ?s")
proof -
  let ?cs = "te_callbacks T (br_tick s)"
  from assms have m: "br_tick s = m" "n \<le> q" "q \<le> m" "n \<le> m" by (auto simp: requested_def collecting_def)
  then have n: "arrived T n ?s = arrived T n s @ ?cs" and q: "arrived T q ?s = arrived T q s @ ?cs"
    by (auto intro!: arrived_next)
  from assms have c: "content s = concat (map rows_of_callback (arrived T n s))" and ep: "br_epoch s = e + length (filter lost (arrived T n s))"
    and re: "aget k (br_request_epochs s) = Some (e + length (filter lost (concat (map (te_callbacks T) [n..<q]))))"
    and ev: "aget k (br_events s) = Some (list_ex (\<lambda>c. end_key c = Some k) (arrived T q s) \<or> list_ex lost (arrived T q s))"
    by (simp_all add: requested_def collecting_def)
  have "collecting T n e (m + 1) ?s"
    unfolding collecting_def n using m by (simp add: c ep fold_content fold_epoch)
  moreover have "aget k (br_request_epochs ?s) = Some (e + length (filter lost (concat (map (te_callbacks T) [n..<q]))))"
    by (simp add: fold_handle_keeps re)
  moreover have "aget k (br_events ?s) = Some (list_ex (\<lambda>c. end_key c = Some k) (arrived T q ?s) \<or> list_ex lost (arrived T q ?s))"
    unfolding q using fold_event [OF k_plain ev, of T ?cs] by (simp add: list_ex_append) blast
  ultimately show ?thesis using m by (simp add: requested_def)
qed

lemma deliver_requested: "triple (requested T n e q m) (deliver T) (\<lambda>_. requested T n e q (m + 1)) R"
  unfolding deliver_def by (rule triple_pre [OF triple_modP]) (rule requested_deliver)

lemma prepare_collecting: "triple (collecting T n e m) (prepare k) (\<lambda>_. requested T n e m m) R"
  unfolding prepare_def
  by (rule triple_pre [OF triple_modP]) (auto simp: requested_def collecting_def arrived_def)

lemma requested_sent: "requested T n e q m (s\<lparr>br_sent := rs\<rparr>) = requested T n e q m s"
  by (simp add: requested_def collecting_def arrived_def)

lemma ask_requested: "triple (requested T n e q m) (ask T r) (\<lambda>_. requested T n e q (m + 1)) (\<lambda>_ _. True)"
proof -
  have "triple (requested T n e q m) (seqP (modP (\<lambda>b. b\<lparr>br_sent := br_sent b @ [r]\<rparr>)) (seqP (deliver T) (liftP v)))
      (\<lambda>_. requested T n e q (m + 1)) (\<lambda>_ _. True)" for v :: "unit res"
    by (rule triple_seqP [OF triple_seqP], rule triple_liftP, rule triple_weaken [OF deliver_requested])
       (auto simp: requested_sent intro: triple_pre [OF triple_modP] split: sum.split)
  note sent = this
  show ?thesis unfolding ask_def by (rule triple_read, rule triple_pre [OF sent]) simp
qed

definition answered_by :: "tws_env \<Rightarrow> nat \<Rightarrow> nat \<Rightarrow> nat \<Rightarrow> nat \<Rightarrow> bridge \<Rightarrow> bool" where
  \<comment> \<open>the request prepared at \<open>q\<close> has ended, and the connection was not lost meanwhile\<close>
  "answered_by T n e q m s \<longleftrightarrow> collecting T n e m s \<and> n \<le> q \<and> q \<le> m
     \<and> list_ex (\<lambda>c. end_key c = Some k) (arrived T q s) \<and> \<not> list_ex lost (arrived T q s)"

lemma answered_keeps:
  "answered_by T n e q m (s\<lparr>br_request_epochs := re\<rparr>) = answered_by T n e q m s"
  "answered_by T n e q m (s\<lparr>br_read_failures := rf, br_retry_at := ra\<rparr>) = answered_by T n e q m s"
  by (simp_all add: answered_by_def collecting_def arrived_def)

lemma requested_answered:
  assumes "requested T n e q m s" and "aget k (br_events s) = Some True" and "same_epoch k s"
  shows "answered_by T n e q m s"
proof -
  have split: "arrived T n s = concat (map (te_callbacks T) [n..<q]) @ arrived T q s"
    if "n \<le> q" "q \<le> br_tick s"
  proof -
    from that(2) obtain d where "br_tick s = q + d" using le_Suc_ex by blast
    with upt_add_eq_append [OF that(1), of d] show ?thesis by (simp add: arrived_def)
  qed
  from assms(1) have "n \<le> q" "q \<le> br_tick s" by (auto simp: requested_def collecting_def)
  from split [OF this] assms have "filter lost (arrived T q s) = []"
    by (auto simp: requested_def collecting_def same_epoch_def)
  then have "\<not> list_ex lost (arrived T q s)" by (auto simp: list_ex_iff filter_empty_conv)
  with assms(1,2) show ?thesis by (auto simp: requested_def answered_by_def)
qed

lemma await_requested:
  "triple (requested T n e q m) (await_event T k) (\<lambda>h s. requested T n e q (m + 1) s \<and> (h \<longrightarrow> aget k (br_events s) = Some True)) R"
  unfolding await_event_def
  by (rule triple_seqP, rule triple_getP, rule triple_weaken [OF deliver_requested]) auto

lemma wait_requested: "triple (requested T n e q m) (wait T k) (\<lambda>_. answered_by T n e q (m + 1)) (\<lambda>_ _. True)"
proof -
  have server: "triple P (require_server T) (\<lambda>_. P) (\<lambda>_ _. True)" for P
    unfolding require_server_def by (rule triple_read) (auto simp: triple_def require_def refuse_def http_error_def split: if_splits)
  have good: "triple (\<lambda>s. requested T n e q (m + 1) s \<and> aget k (br_events s) = Some True)
      (seqP (require_server T) (seqP (bindP (getP (same_epoch k)) (\<lambda>same. require same 503 ''IBKR_READ_INTERRUPTED_BY_DISCONNECT'')) (read_succeeded (base_key k))))
      (\<lambda>_. answered_by T n e q (m + 1)) (\<lambda>_ _. True)"
    unfolding read_succeeded_def
    by (rule triple_seqP [OF triple_seqP server], rule triple_modP, rule triple_read)
       (auto simp: triple_def require_def refuse_def http_error_def answered_keeps intro: requested_answered)
  have body: "triple (\<lambda>s. requested T n e q (m + 1) s \<and> (h \<longrightarrow> aget k (br_events s) = Some True))
      (seqP (if h then retP () else seqP (read_failed T (base_key k)) (refuse 504 (''IBKR timeout waiting for '' @ k)))
        (seqP (require_server T) (seqP (bindP (getP (same_epoch k)) (\<lambda>same. require same 503 ''IBKR_READ_INTERRUPTED_BY_DISCONNECT'')) (read_succeeded (base_key k)))))
      (\<lambda>_. answered_by T n e q (m + 1)) (\<lambda>_ _. True)" for h
  proof (cases h)
    case True
    show ?thesis by (rule triple_seqP [OF good], simp only: True if_True, rule triple_retP_if) simp
  next
    case False
    then show ?thesis by (simp add: triple_def seqP_def bindP_def refuse_def http_error_def read_failed_def)
  qed
  show ?thesis
    unfolding wait_def
    by (rule triple_finallyP [OF _ _ triple_bindP [OF body await_requested]])
       (auto simp: forget_epoch_def answered_keeps intro: triple_pre [OF triple_modP])
qed

end

interpretation position_read: broker_read br_positions position_of "''positions''"
proof
  show "br_positions (handle T c b) = br_positions b @ position_of c" for T c b
    by (cases c) (simp_all add: on_next_valid_id_def on_open_order_def raise_next_def on_commission_def on_tick_string_def on_tick_price_def
        on_quote_def set_event_def on_error_def on_connectivity_def Let_def split: option.split)
qed simp_all

interpretation order_read: broker_read br_open_orders order_of "''orders''"
proof
  show "br_open_orders (handle T c b) = br_open_orders b @ order_of c" for T c b
    by (cases c) (simp_all add: on_next_valid_id_def on_open_order_def raise_next_def on_commission_def on_tick_string_def on_tick_price_def
        on_quote_def set_event_def on_error_def on_connectivity_def Let_def split: option.split)
qed simp_all

section \<open>Answers\<close>

definition unchanged :: "bridge \<Rightarrow> bridge \<Rightarrow> bool" where "unchanged s t \<longleftrightarrow> t = s"

interpretation still: state_relation unchanged "\<lambda>_. True"
  by unfold_locales (simp_all add: unchanged_def)

lemma still_guards [intro!]:
  "keeps unchanged (\<lambda>_. True) (refuse code detail)" "keeps unchanged (\<lambda>_. True) (require c code detail)"
  "keeps unchanged (\<lambda>_. True) (auth T token)" "keeps unchanged (\<lambda>_. True) (require_server T)"
  "keeps unchanged (\<lambda>_. True) (read_ready T operation)"
  unfolding refuse_def require_def auth_def require_server_def read_ready_def
  by (auto intro: still.keeps_liftP)

lemma guard_then:
  assumes "keeps unchanged (\<lambda>_. True) m" and "triple (\<lambda>s. s = b) k Q (\<lambda>_ _. True)"
  shows "triple (\<lambda>s. s = b) (seqP m k) Q (\<lambda>_ _. True)"
  by (rule triple_seqP [OF assms(2)], rule tripleI) (auto dest!: keepsD [OF assms(1)] simp: unchanged_def)

lemma serial_read_then:
  assumes "triple (\<lambda>s. s = b) m Q (\<lambda>_ _. True)" shows "triple (\<lambda>s. s = b) (serial_read T operation token m) Q (\<lambda>_ _. True)"
proof -
  have "triple (\<lambda>s. s = b) (under_lock T lock detail m) Q (\<lambda>_ _. True)" for lock detail
    using assms by (auto simp: under_lock_def triple_def bindP_def refuse_def http_error_def)
  then show ?thesis unfolding serial_read_def by (intro guard_then) auto
qed

definition window :: "tws_env \<Rightarrow> nat \<Rightarrow> nat \<Rightarrow> callback list" where
  \<comment> \<open>the callbacks that arrive from one tick up to another\<close>
  "window T n m = concat (map (te_callbacks T) [n..<m])"

lemma arrived_window: "br_tick s = m \<Longrightarrow> arrived T n s = window T n m"
  by (simp add: arrived_def window_def)

definition complete_read :: "string \<Rightarrow> callback list \<Rightarrow> bool" where
  "complete_read k cs \<longleftrightarrow> list_ex (\<lambda>c. end_key c = Some k) cs \<and> \<not> list_ex lost cs"

lemma positions_triple:
  "triple (\<lambda>s. s = b) (positions T token)
     (\<lambda>rows s. rows = concat (map position_of (window T (br_tick b) (br_tick b + 2))) \<and> complete_read ''positions'' (window T (br_tick b) (br_tick b + 2)))
     (\<lambda>_ _. True)"
proof -
  let ?n = "br_tick b" and ?e = "br_epoch b"
  have start: "triple (\<lambda>s. s = b) (modP (\<lambda>b. b\<lparr>br_positions := []\<rparr>)) (\<lambda>_. position_read.collecting T ?n ?e ?n) R" for R
    by (rule triple_pre [OF triple_modP]) (simp add: position_read.collecting_def arrived_def)
  have result: "position_read.answered_by T ?n ?e ?n (?n + 2) s \<Longrightarrow>
      br_positions s = concat (map position_of (window T ?n (?n + 2))) \<and> complete_read ''positions'' (window T ?n (?n + 2))" for s
    by (auto simp: position_read.answered_by_def position_read.collecting_def complete_read_def arrived_window)
  have finish: "triple (\<lambda>_. P) (ask T r) (\<lambda>_ _. P) (\<lambda>_ _. True)" for P r by (simp add: triple_def split: prod.split sum.split)
  show ?thesis
    unfolding positions_def
    by (rule serial_read_then guard_then [OF still_guards(3)] guard_then [OF still_guards(5)]
          triple_seqP [OF _ start] triple_seqP [OF _ position_read.prepare_collecting] triple_seqP [OF _ position_read.ask_requested]
          triple_finallyP [OF finish finish] triple_seqP [OF triple_getP] triple_weaken [OF position_read.wait_requested])+
       (use result in auto)
qed

lemma triple_assume: "(c \<Longrightarrow> triple P m Q R) \<Longrightarrow> triple (\<lambda>s. c \<and> P s) m Q R"
  by (cases c) (simp_all add: triple_def)

lemma truncate_with_filled [simp]: "order_row.truncate (with_filled b r) = r"
  by (simp add: with_filled_def order_row.defs filled_row.defs)

lemma orders_triple:
  "triple (\<lambda>s. s = b) (orders T token)
     (\<lambda>rows s. map order_row.truncate rows = latest_rows (concat (map order_of (window T (br_tick b) (br_tick b + 4))))
        \<and> complete_read ''orders'' (window T (br_tick b) (br_tick b + 2)) \<and> complete_read ''orders'' (window T (br_tick b + 2) (br_tick b + 4)))
     (\<lambda>_ _. True)"
proof -
  let ?n = "br_tick b" and ?e = "br_epoch b"
  let ?c = "complete_read ''orders'' (window T ?n (?n + 2))"
  have start: "triple (\<lambda>s. s = b) (modP (\<lambda>b. b\<lparr>br_open_orders := [], br_order_objects := []\<rparr>)) (\<lambda>_. order_read.collecting T ?n ?e ?n) R" for R
    by (rule triple_pre [OF triple_modP]) (simp add: order_read.collecting_def arrived_def)
  have first: "triple (order_read.requested T ?n ?e ?n (?n + 1)) (wait T ''orders'') (\<lambda>_ s. ?c \<and> order_read.collecting T ?n ?e (?n + 2) s) (\<lambda>_ _. True)"
    by (rule triple_weaken [OF order_read.wait_requested])
       (auto simp: order_read.answered_by_def order_read.collecting_def complete_read_def arrived_window)
  have result: "order_read.answered_by T ?n ?e (?n + 2) (?n + 4) s \<Longrightarrow>
      br_open_orders s = concat (map order_of (window T ?n (?n + 4))) \<and> complete_read ''orders'' (window T (?n + 2) (?n + 4))" for s
    by (auto simp: order_read.answered_by_def order_read.collecting_def complete_read_def arrived_window)
  have second: "triple (order_read.collecting T ?n ?e (?n + 2)) (seqP (prepare ''orders'') (seqP (ask T ReqOpenOrders) (wait T ''orders'')))
      (\<lambda>_. order_read.answered_by T ?n ?e (?n + 2) (?n + 4)) (\<lambda>_ _. True)"
    using order_read.wait_requested [of T ?n ?e "?n + 2" "?n + 3"] order_read.ask_requested [of T ?n ?e "?n + 2" "?n + 2" ReqOpenOrders]
    by (intro triple_seqP [OF triple_seqP order_read.prepare_collecting]) (simp_all add: numeral_eq_Suc)
  have assoc: "seqP (seqP m k) l = seqP m (seqP k l)" for m k :: "unit bprog" and l :: "'x bprog"
    by (auto simp: seqP_def bindP_def fun_eq_iff split: prod.split sum.split)
  have final: "triple (\<lambda>s. ?c \<and> order_read.collecting T ?n ?e (?n + 2) s)
      (seqP (prepare ''orders'') (seqP (ask T ReqOpenOrders) (seqP (wait T ''orders'') (getP (\<lambda>b. map (with_filled b) (latest_rows (br_open_orders b)))))))
      (\<lambda>rows s. map order_row.truncate rows = latest_rows (concat (map order_of (window T ?n (?n + 4)))) \<and> ?c \<and> complete_read ''orders'' (window T (?n + 2) (?n + 4)))
      (\<lambda>_ _. True)"
    by (rule triple_assume, subst assoc [symmetric], subst assoc [symmetric], rule triple_seqP [OF triple_getP], subst assoc,
        rule triple_weaken [OF second]) (use result in \<open>auto simp: comp_def\<close>)
  show ?thesis
    unfolding orders_def
    by (rule serial_read_then guard_then [OF still_guards(3)] guard_then [OF still_guards(5)]
          triple_seqP [OF _ start] triple_seqP [OF _ order_read.prepare_collecting] triple_seqP [OF _ order_read.ask_requested]
          triple_seqP [OF final] first)+
qed

text \<open>
  C4. An answer of the bridge is complete. When \<open>/positions\<close> answers, its list is exactly the rows the broker sent
  between the request and the answer, the end marker of positions came in that time, and the server connection was not
  lost. When \<open>/orders\<close> answers, its rows are the last state of every order the broker reported for the two requests (all
  clients, then this client), each request was ended by its marker, and the connection held. So neither an empty nor a
  short list can come from a disconnection: it would be an error.
\<close>

theorem bridge_reads_complete:
  assumes "positions T token b = (Inr held, b1)" and "orders T token' c = (Inr listed, c1)"
  shows "held = concat (map position_of (window T (br_tick b) (br_tick b + 2))) \<and> complete_read ''positions'' (window T (br_tick b) (br_tick b + 2))
    \<and> map order_row.truncate listed = latest_rows (concat (map order_of (window T (br_tick c) (br_tick c + 4))))
    \<and> complete_read ''orders'' (window T (br_tick c) (br_tick c + 2)) \<and> complete_read ''orders'' (window T (br_tick c + 2) (br_tick c + 4))"
  using triple_returns [OF positions_triple refl assms(1)] triple_returns [OF orders_triple refl assms(2)] by blast

section \<open>An example broker\<close>

definition sample_order :: tws_order where
  "sample_order = \<lparr>to_action = ''SELL'', to_quantity = Fin 10, to_type = ''STP'', to_limit = 0, to_aux = Fin 95, to_account = ''DU1'',
     to_tif = ''GTC'', to_outside_rth = False, to_oca_group = ''g'', to_oca_type = 2, to_ref = ''g'', to_transmit = True, to_what_if = False,
     to_client = 27, to_perm = 9, to_etrade_only = Some True, to_firm_quote_only = None\<rparr>"

definition sample_contract :: tws_contract where
  "sample_contract = \<lparr>tc_symbol = ''AAPL'', tc_sec_type = ''STK'', tc_exchange = ''SMART'', tc_currency = ''USD''\<rparr>"

definition sample_state :: whatif_row where
  "sample_state = \<lparr>wf_status = ''Submitted'', wf_amounts = [], wf_currency = [], wf_warning = []\<rparr>"

definition sample_position :: position_row where
  "sample_position = \<lparr>po_account = ''DU1'', po_symbol = ''AAPL'', po_sec_type = ''STK'', po_exchange = ''SMART'', po_currency = ''USD'',
     po_quantity = Fin 10, po_avg_cost = Fin 100\<rparr>"

definition sample_cfg :: bridge_cfg where
  "sample_cfg = \<lparr>cf_host = ''127.0.0.1'', cf_port = 7497, cf_client_id = 27, cf_account_id = ''DU1'', cf_token = None, cf_simulation = True\<rparr>"

definition sample_broker :: "(nat \<Rightarrow> callback list) \<Rightarrow> tws_env" where
  \<comment> \<open>the callbacks of every tick, a steady clock, nothing locked\<close>
  "sample_broker arrivals = \<lparr>te_callbacks = arrivals, te_fails = (\<lambda>_. None), te_socket = (\<lambda>_. True), te_locked = (\<lambda>_ _. False),
     te_monotonic = (\<lambda>_. Fin 50), te_micros = (\<lambda>_. 1000000), te_days_ago = (\<lambda>_ _. []), te_utc_text = (\<lambda>_. Inr []),
     te_new_york_day = (\<lambda>_. None), te_blank_order = sample_order, te_blank_contract = sample_contract, te_cfg = sample_cfg\<rparr>"

definition fresh_bridge :: bridge where
  "fresh_bridge = \<lparr>br_next_id = Some 5, br_accounts = [''DU1''], br_positions = [], br_open_orders = [], br_order_objects = [],
     br_statuses = [], br_whatif = [], br_executions = [], br_commissions = [], br_errors = [], br_quotes = [], br_bars = [],
     br_contracts = [], br_account_requests = [], br_events = [], br_epoch = 0, br_request_epochs = [], br_server = Some True,
     br_read_failures = [], br_retry_at = [], br_attempts = [], br_account_cache = None, br_account_cache_at = 0, br_tick = 0, br_sent = []\<rparr>"

definition sample_callbacks :: "nat \<Rightarrow> callback list" where
  "sample_callbacks t = (if t = 1 then [PositionCb sample_position, PositionEnd] else if t = 4 then [OpenOrder 4 sample_contract sample_order sample_state]
     else if t = 5 \<or> t = 7 then [OpenOrderEnd] else [])"

theorem bridge_reads_complete_witness:
  "\<exists>listed. fst (positions (sample_broker sample_callbacks) None fresh_bridge) = Inr [sample_position]
     \<and> complete_read ''positions'' (window (sample_broker sample_callbacks) 0 2)
     \<and> fst (orders (sample_broker sample_callbacks) None (fresh_bridge\<lparr>br_tick := 4\<rparr>)) = Inr listed
     \<and> map or_order_id listed = [4]
     \<and> complete_read ''orders'' (window (sample_broker sample_callbacks) 6 8)
     \<and> map order_row.truncate listed = latest_rows (concat (map order_of (window (sample_broker sample_callbacks) 4 8)))"
proof -
  let ?T = "sample_broker sample_callbacks"
  let ?b = "fresh_bridge\<lparr>br_tick := 4\<rparr>"
  have p: "fst (positions ?T None fresh_bridge) = Inr [sample_position]" by code_simp
  have "(case fst (orders ?T None ?b) of Inl e \<Rightarrow> [] | Inr xs \<Rightarrow> map or_order_id xs) = [4]" by code_simp
  then obtain xs where xs: "fst (orders ?T None ?b) = Inr xs" "map or_order_id xs = [4]" by (auto split: sum.splits)
  obtain b1 where b1: "positions ?T None fresh_bridge = (Inr [sample_position], b1)" using p by (metis prod.collapse)
  obtain c1 where c1: "orders ?T None ?b = (Inr xs, c1)" using xs(1) by (metis prod.collapse)
  have t: "br_tick fresh_bridge = 0" "br_tick ?b = 4" by (simp_all add: fresh_bridge_def)
  have n: "(0::nat) + 2 = 2" "(4::nat) + 2 = 6" "(4::nat) + 4 = 8" by simp_all
  note c = bridge_reads_complete [OF b1 c1, unfolded t n]
  show ?thesis
    by (intro exI [of _ xs] conjI p xs c [THEN conjunct2, THEN conjunct1] c [THEN conjunct2, THEN conjunct2, THEN conjunct1]
          c [THEN conjunct2, THEN conjunct2, THEN conjunct2, THEN conjunct2])
qed

section \<open>Candles: what the bridge stamps, the client accepts\<close>

definition candle_dict :: "stamped_bar \<Rightarrow> pydict" where
  \<comment> \<open>the row of the answer as the client receives it\<close>
  "candle_dict c = [(''time'', PStr (ba_time c)), (''open'', PFloat (ba_open c)), (''high'', PFloat (ba_high c)), (''low'', PFloat (ba_low c)),
     (''close'', PFloat (ba_close c)), (''volume'', PFloat (ba_volume c)), (''source_time'', PStr (sb_source_time c)),
     (''interval'', PStr (sb_interval c)), (''timestamp_ms'', PInt (sb_timestamp_ms c)), (''bar_end_ms'', PInt (sb_bar_end_ms c))]"

definition candle_verdict :: "int option \<Rightarrow> stamped_bar \<Rightarrow> (int \<times> int) res" where
  \<comment> \<open>only the order of the bars and their prices are left to check\<close>
  "candle_verdict previous c =
     (if (case previous of None \<Rightarrow> False | Some p \<Rightarrow> sb_timestamp_ms c \<le> p) then Inl (ValueError ''TRADING_CANDLE_ORDER_INVALID'')
      else if ohlc_valid (ba_open c, ba_high c, ba_low c, ba_close c) then Inr (sb_timestamp_ms c, sb_bar_end_ms c)
      else Inl (ValueError ''TRADING_CANDLE_OHLC_INVALID''))"

lemma intraday_minutes: "map_of bar_minutes tf = Some m \<Longrightarrow> tf \<noteq> ''1d'' \<and> 0 < m \<and> map_of INTERVAL_MS tf = Some (m * 60000)"
  by (auto simp: bar_minutes_def INTERVAL_MS_def split: if_splits)

lemma timestamped_candle_intraday:
  assumes "timestamped_candle T row tf = Inr c" and "tf \<noteq> ''1d''"
  shows "\<exists>s m. parse_int (ba_time row) = Some s \<and> map_of bar_minutes tf = Some m \<and> 0 < s \<and> sb_timestamp_ms c = s * 1000
     \<and> sb_bar_end_ms c = s * 1000 + m * 60000 \<and> sb_interval c = tf \<and> sb_source_time c = ba_time row
     \<and> ba_open c = ba_open row \<and> ba_high c = ba_high row \<and> ba_low c = ba_low row \<and> ba_close c = ba_close row"
  using assms
  by (auto simp: timestamped_candle_def bar_interval_def Let_def http_error_def bindE_Inr_iff bar_row.defs stamped_bar.defs
        split: option.splits if_splits)

lemma ohlc_candle_dict: "ohlc (candle_dict c) = Inr (ba_open c, ba_high c, ba_low c, ba_close c)"
  by (simp add: ohlc_def candle_dict_def dsub_def)

text \<open>
  The candle rows of the bridge and the checks of the client agree. For an intraday timeframe, a row that the bridge
  stamps (\<open>timestamped_candle\<close>) always passes the client's checks of stamp, interval and end (\<open>check_candle\<close> of the
  decision boundary): the verdict depends on the order of the bars and on their prices alone, the stamp is the broker's
  epoch time in milliseconds, and the client reads back exactly the stamp and the end the bridge wrote.
\<close>

theorem bridge_candles_agree:
  assumes "timestamped_candle T row tf = Inr c" and "tf \<noteq> ''1d''"
  shows "\<exists>d s. map_of INTERVAL_MS tf = Some d \<and> parse_int (ba_time row) = Some s \<and> sb_timestamp_ms c = s * 1000
     \<and> check_candle tf d previous (candle_dict c) = candle_verdict previous c"
proof -
  from timestamped_candle_intraday [OF assms] obtain s m where
    s: "parse_int (ba_time row) = Some s" "map_of bar_minutes tf = Some m" "0 < s" "sb_timestamp_ms c = s * 1000"
      "sb_bar_end_ms c = s * 1000 + m * 60000" "sb_interval c = tf" by blast
  from intraday_minutes [OF s(2)] have m: "0 < m" "map_of INTERVAL_MS tf = Some (m * 60000)" by auto
  have k: "dget (candle_dict c) ''timestamp_ms'' = PInt (s * 1000)" "dget_or (candle_dict c) ''interval'' v = PStr tf"
    "candle_end (candle_dict c) i j = PInt (s * 1000 + m * 60000)" for v i j
    by (simp_all add: candle_dict_def dget_or_def candle_end_def s)
  have eq: "py_eq (PStr tf) (PStr tf)" by (simp add: py_eq_def)
  have "check_candle tf (m * 60000) previous (candle_dict c) = candle_verdict previous c"
    using s(3) m(1) assms(2) by (cases previous) (auto simp: check_candle_def candle_verdict_def k eq ohlc_candle_dict s(4-6) guardE_def)
  with s m show ?thesis by blast
qed

theorem bridge_candles_agree_witness:
  "\<exists>c. timestamped_candle (sample_broker sample_callbacks) \<lparr>ba_time = ''60'', ba_open = Fin 10, ba_high = Fin 12, ba_low = Fin 9,
       ba_close = Fin 11, ba_volume = Fin 5\<rparr> ''5m'' = Inr c
     \<and> check_candle ''5m'' 300000 None (candle_dict c) = Inr (60000, 360000)"
proof -
  let ?row = "\<lparr>ba_time = ''60'', ba_open = Fin 10, ba_high = Fin 12, ba_low = Fin 9, ba_close = Fin 11, ba_volume = Fin 5\<rparr>"
  have "(case timestamped_candle (sample_broker sample_callbacks) ?row ''5m'' of Inl e \<Rightarrow> None | Inr c \<Rightarrow> Some (candle_verdict None c))
      = Some (Inr (60000, 360000))" by code_simp
  then obtain c where c: "timestamped_candle (sample_broker sample_callbacks) ?row ''5m'' = Inr c"
    "candle_verdict None c = Inr (60000, 360000)" by (auto split: sum.splits)
  have "map_of INTERVAL_MS ''5m'' = Some 300000" by (simp add: INTERVAL_MS_def)
  with bridge_candles_agree [OF c(1), where previous = None] c show ?thesis by auto
qed

section \<open>Health and recovery\<close>

text \<open>The client's reading of the health answer is the state of the server and the kind of the port.\<close>

lemma client_reads_health: "simulation_health (PDict (health_answer T b)) = Inr (server_ready T b \<and> cf_simulation (te_cfg T))"
  by (simp add: simulation_health_def health_answer_def)

lemma cooldown_bounds: "1 \<le> attempts \<Longrightarrow> 10 \<le> cooldown attempts \<and> cooldown attempts \<le> 120"
proof -
  assume "1 \<le> attempts"
  have "(1::int) \<le> 2 ^ nat (attempts - 1)" by simp
  then show ?thesis by (simp add: cooldown_def)
qed

definition recovering :: "tws_env \<Rightarrow> string \<Rightarrow> bridge \<Rightarrow> bool" where
  \<comment> \<open>the time of the next read of the operation has not come\<close>
  "recovering T operation b \<longleftrightarrow> (case aget operation (br_retry_at b) of None \<Rightarrow> False
     | Some t \<Rightarrow> 0 < t - te_monotonic T (br_tick b))"

lemma recovering_read_refused: "recovering T operation b \<Longrightarrow> \<exists>e. read_ready T operation b = (Inl e, b)"
proof -
  assume r: "recovering T operation b"
  then obtain t where t: "aget operation (br_retry_at b) = Some t" "0 < t - te_monotonic T (br_tick b)"
    by (auto simp: recovering_def split: option.splits)
  then have "pymax 0 (t - te_monotonic T (br_tick b)) \<noteq> 0" by (simp add: pymax_def float_pos_not_zero)
  with t show ?thesis
    by (simp add: read_ready_def require_server_def require_def refuse_def http_error_def seqP_def bindP_def)
qed

end
