(* ===== verification/Tws_Book.thy ===== *)
theory Tws_Book
  imports Tws_Answers
begin

text \<open>
  What the bridge does to the broker's order book: an abstract specification of \<open>/protection\<close> over the
  orders sent and the groups attempted, and the proof that the endpoint refines it.
\<close>

section \<open>The order book\<close>

record order_book =
  ob_sent :: "tws_request list"   \<comment> \<open>orders and cancellations sent, margin checks left out\<close>
  ob_attempts :: "string list"

fun changes_book :: "tws_request \<Rightarrow> bool" where
  "changes_book (PlaceOrder oid c o') = (\<not> to_what_if o')"
| "changes_book (CancelOrder oid) = True"
| "changes_book _ = False"

definition book :: "bridge \<Rightarrow> order_book" where
  "book b = \<lparr>ob_sent = filter changes_book (br_sent b), ob_attempts = br_attempts b\<rparr>"

definition same_book :: "bridge \<Rightarrow> bridge \<Rightarrow> bool" where "same_book s t \<longleftrightarrow> book t = book s"

interpretation calm: state_relation same_book is_exception
  by unfold_locales (simp_all add: same_book_def)

lemma calm_modP [intro]: "(\<And>s. br_sent (g s) = br_sent s) \<Longrightarrow> (\<And>s. br_attempts (g s) = br_attempts s) \<Longrightarrow> keeps same_book is_exception (modP g)"
  by (rule calm.keeps_modP) (simp add: same_book_def book_def)

lemma calm_deliver [intro!]: "keeps same_book is_exception (deliver T)"
  unfolding deliver_def by (rule calm.keeps_modP) (simp add: same_book_def book_def fold_handle_keeps)

lemma calm_ask [intro]: "\<not> changes_book r \<Longrightarrow> keeps same_book is_exception (ask T r)"
  unfolding ask_def
  by (intro calm.keeps_bindP calm.keeps_seqP calm.keeps_pure calm_deliver calm.keeps_liftP calm.keeps_modP)
     (auto simp: same_book_def book_def split: option.splits)

lemma calm_require [intro!]: "keeps same_book is_exception (refuse code detail)" "keeps same_book is_exception (require c code detail)"
  unfolding require_def refuse_def http_error_def by (auto intro!: calm.keeps_liftP)

lemma calm_guards [intro!]:
  "keeps same_book is_exception (auth T token)" "keeps same_book is_exception (require_server T)"
  "keeps same_book is_exception (read_ready T operation)" "keeps same_book is_exception (simulation_only T)"
  "keeps same_book is_exception (order_payload_ok p)" "keeps same_book is_exception next_order_id"
  "keeps same_book is_exception (rid T)"
  unfolding auth_def require_server_def read_ready_def simulation_only_def order_payload_ok_def next_order_id_def rid_def
  by auto

lemma calm_locks [intro]:
  "keeps same_book is_exception m \<Longrightarrow> keeps same_book is_exception (under_lock T lock detail m)"
  "keeps same_book is_exception m \<Longrightarrow> keeps same_book is_exception (serial_mutation T m)"
  "keeps same_book is_exception m \<Longrightarrow> keeps same_book is_exception (serial_read T operation token m)"
  unfolding serial_mutation_def serial_read_def under_lock_def by auto

lemma calm_waits [intro!]:
  "keeps same_book is_exception (read_failed T operation)" "keeps same_book is_exception (read_succeeded operation)"
  "keeps same_book is_exception (prepare key)" "keeps same_book is_exception (forget_epoch key)"
  "keeps same_book is_exception (forget_event key)" "keeps same_book is_exception (await_event T key)"
  unfolding read_failed_def read_succeeded_def prepare_def forget_epoch_def forget_event_def await_event_def
  by (auto simp: Let_def)

lemma calm_wait [intro!]: "keeps same_book is_exception (wait T key)"
  unfolding wait_def by auto

lemma calm_reads [intro!]:
  "keeps same_book is_exception (positions T token)" "keeps same_book is_exception (orders T token)"
  unfolding positions_def orders_def by (auto intro!: calm_locks)

lemma calm_contract_info [intro!]: "keeps same_book is_exception (contract_info T token symbol sec_type exchange currency)"
  unfolding contract_info_def by auto

lemma calm_submit_check: "keeps same_book is_exception (submit_order T oid p True)"
  unfolding submit_order_def
  by (auto simp: payload_order_def Let_def intro!: calm.keeps_liftP)

lemma calm_order_check_held [intro!]: "keeps same_book is_exception (order_check_held T token p)"
  unfolding order_check_held_def Let_def by (auto intro!: calm_submit_check)

lemma calm_sole_position [intro!]: "keeps same_book is_exception (sole_position T token p ok)"
  unfolding sole_position_def by (auto split: list.split)

lemma calm_confirmed [intro!]: "keeps same_book is_exception (confirmed T token p stop target recovered)"
  unfolding confirmed_def by (auto simp: Let_def)

section \<open>What \<open>/protection\<close> promises\<close>

definition sound_levels :: "protection_payload \<Rightarrow> pyfloat \<Rightarrow> pyfloat \<Rightarrow> bool" where
  \<comment> \<open>the saved levels on a tick of the contract, on the two sides of the price the position was entered at\<close>
  "sound_levels p stop target \<longleftrightarrow> (\<exists>tick entry. protection_prices (pp_position_side p) (pp_stop_loss p) (pp_take_profit p) tick = Inr (stop, target)
     \<and> bracketed p stop entry target)"

definition leg_request :: "tws_env \<Rightarrow> protection_payload \<Rightarrow> int \<Rightarrow> string \<Rightarrow> pyfloat \<Rightarrow> tws_request" where
  "leg_request T p oid kind price = PlaceOrder oid (contract T (pp_symbol p) ''STK'' ''SMART'' ''USD'') (leg_order T p kind price)"

fun answered :: "tws_env \<Rightarrow> protection_payload \<Rightarrow> int list \<Rightarrow> pyfloat \<Rightarrow> pyfloat \<Rightarrow> protection_answer \<Rightarrow> bool" where
  \<comment> \<open>PROTECTED only with the matching pair in hand; pending with the ids of the orders in question\<close>
  "answered T p ids stop target (Protected g rows s t recovered) =
     (g = group_of p \<and> s = stop \<and> t = target \<and> protection_pair_matches T rows p g stop target)"
| "answered T p ids stop target (Protection_Pending g pending s t) = (g = group_of p \<and> s = stop \<and> t = target \<and> pending = ids)"

inductive protect_step :: "tws_env \<Rightarrow> protection_payload \<Rightarrow> order_book \<Rightarrow> protection_answer res \<Rightarrow> order_book \<Rightarrow> bool"
  for T :: tws_env and p :: protection_payload and B :: order_book where
  refused: "protect_step T p B (Inl e) B"
| present: "protection_pair_matches T rows p (group_of p) stop target \<Longrightarrow> sound_levels p stop target \<Longrightarrow> cf_simulation (te_cfg T) \<Longrightarrow>
    protect_step T p B (Inr (Protected (group_of p) rows stop target False)) B"
| staged: "\<not> pp_allow_submit p \<Longrightarrow> oid \<in> set (pp_existing_order_ids p) \<Longrightarrow> \<not> to_transmit o' \<Longrightarrow> to_perm o' = 0 \<Longrightarrow>
    answered T p (pp_existing_order_ids p) stop target a \<Longrightarrow> sound_levels p stop target \<Longrightarrow> cf_simulation (te_cfg T) \<Longrightarrow>
    protect_step T p B (Inr a) (B\<lparr>ob_sent := ob_sent B @ filter changes_book [PlaceOrder oid c (o'\<lparr>to_transmit := True\<rparr>)]\<rparr>)"
| submitted: "pp_allow_submit p \<Longrightarrow> group_of p \<notin> set (ob_attempts B) \<Longrightarrow> legs = [(oid, ''STP'', stop)] \<or> legs = [(oid, ''STP'', stop), (oid + 1, ''LMT'', target)] \<Longrightarrow>
    answered T p (map fst legs) stop target a \<Longrightarrow> sound_levels p stop target \<Longrightarrow> cf_simulation (te_cfg T) \<Longrightarrow>
    protect_step T p B (Inr a) \<lparr>ob_sent = ob_sent B @ filter changes_book (map (\<lambda>(i, kind, price). leg_request T p i kind price) legs),
      ob_attempts = group_of p # ob_attempts B\<rparr>"

section \<open>The endpoint refines it\<close>

lemma calm_triple:
  "keeps same_book is_exception m \<Longrightarrow> triple (\<lambda>s. book s = B) m (\<lambda>_ s. book s = B) (\<lambda>e s. is_exception e \<and> book s = B)"
  by (rule tripleI) (auto dest!: keepsD simp: same_book_def)

definition book_with :: "order_book \<Rightarrow> tws_request list \<Rightarrow> order_book" where
  "book_with B rs = B\<lparr>ob_sent := ob_sent B @ filter changes_book rs\<rparr>"

lemma book_with_simps [simp]: "book_with B [] = B" "book_with (book_with B rs) qs = book_with B (rs @ qs)"
  "ob_attempts (book_with B rs) = ob_attempts B"
  by (simp_all add: book_with_def)

lemma ask_triple:
  "triple (\<lambda>s. book s = B) (ask T r) (\<lambda>_ s. book s = book_with B [r]) (\<lambda>e s. is_exception e \<and> book s = book_with B [r])"
  unfolding ask_def
  by (rule tripleI)
     (auto simp: seqP_def bindP_def deliver_def book_def book_with_def fold_handle_keeps split: option.splits)

lemma triple_calm:
  assumes "keeps same_book is_exception m" and "\<And>x. triple (\<lambda>s. book s = B) (f x) Q R" and "\<And>e s. is_exception e \<Longrightarrow> book s = B \<Longrightarrow> R e s"
  shows "triple (\<lambda>s. book s = B) (bindP m f) Q R"
  by (rule triple_bindP [where M = "\<lambda>_ s. book s = B", OF assms(2)], rule triple_weaken [OF calm_triple [OF assms(1)]]) (use assms(3) in auto)

lemma triple_calm_seq:
  assumes "keeps same_book is_exception m" and "triple (\<lambda>s. book s = B) k Q R" and "\<And>e s. is_exception e \<Longrightarrow> book s = B \<Longrightarrow> R e s"
  shows "triple (\<lambda>s. book s = B) (seqP m k) Q R"
  unfolding seqP_def using assms by (intro triple_calm)

lemma triple_succeeds:
  "triple P m (\<lambda>_. Q) (\<lambda>e s. is_exception e \<and> Q' s) \<Longrightarrow> triple P (succeeds m) (\<lambda>x s. if x then Q s else Q' s) (\<lambda>_ _. False)"
  unfolding succeeds_def
  by (rule triple_tryP [where M = "\<lambda>_. Q'"], rule triple_pre [OF triple_retP], simp)
     (rule triple_seqP [where M = Q], rule triple_pre [OF triple_retP], auto elim: triple_weaken)

lemma triple_swallow:
  "triple P m Q (\<lambda>e s. is_exception e \<and> Q None s) \<Longrightarrow> triple P (tryP m is_exception (\<lambda>_. retP None)) Q (\<lambda>_ _. False)"
  by (rule triple_tryP [where M = "\<lambda>_. Q None"], rule triple_pre [OF triple_retP]) (auto elim: triple_weaken)

lemma confirmed_triple:
  "triple (\<lambda>s. book s = B) (confirmed T token p stop target recovered)
     (\<lambda>a s. book s = B \<and> (case a of None \<Rightarrow> True | Some x \<Rightarrow> answered T p ids stop target x)) (\<lambda>e s. is_exception e \<and> book s = B)"
  unfolding confirmed_def by (rule triple_calm) (auto simp: Let_def intro!: triple_retP_if)

lemma ask_then:
  assumes "triple (\<lambda>s. book s = book_with B [r]) k Q R" and "\<And>e s. is_exception e \<Longrightarrow> book s = book_with B [r] \<Longrightarrow> R e s"
  shows "triple (\<lambda>s. book s = B) (seqP (ask T r) k) Q R"
  by (rule triple_seqP [OF assms(1)], rule triple_weaken [OF ask_triple]) (use assms(2) in auto)

definition legs_sent :: "tws_env \<Rightarrow> protection_payload \<Rightarrow> order_book \<Rightarrow> int \<Rightarrow> pyfloat \<Rightarrow> pyfloat \<Rightarrow> protection_answer \<Rightarrow> bridge \<Rightarrow> bool" where
  "legs_sent T p B oid stop target a s \<longleftrightarrow>
     (\<exists>legs. (legs = [(oid, ''STP'', stop)] \<or> legs = [(oid, ''STP'', stop), (oid + 1, ''LMT'', target)]) \<and> answered T p (map fst legs) stop target a
        \<and> book s = book_with B (map (\<lambda>(i, kind, price). leg_request T p i kind price) legs))"

lemma submit_legs_triple:
  "triple (\<lambda>s. book s = B) (submit_legs T token p stop target oid) (legs_sent T p B oid stop target) (\<lambda>_ _. False)"
proof -
  let ?stop = "leg_request T p oid ''STP'' stop" and ?target = "leg_request T p (oid + 1) ''LMT'' target"
  let ?B1 = "book_with B [?stop]" and ?B2 = "book_with B [?stop, ?target]"
  have p1: "triple (\<lambda>s. book s = ?B1) (retP (Protection_Pending (group_of p) [oid] stop target)) (legs_sent T p B oid stop target) (\<lambda>_ _. False)"
    by (rule triple_retP_if) (auto simp: legs_sent_def intro!: exI [of _ "[(oid, ''STP'', stop)]"])
  have p2: "triple (\<lambda>s. book s = ?B2 \<and> (case a of None \<Rightarrow> True | Some x \<Rightarrow> answered T p [oid, oid + 1] stop target x))
      (case a of None \<Rightarrow> retP (Protection_Pending (group_of p) [oid, oid + 1] stop target) | Some x \<Rightarrow> retP x)
      (legs_sent T p B oid stop target) (\<lambda>_ _. False)" for a
    by (cases a) (auto simp: legs_sent_def intro!: triple_retP_if exI [of _ "[(oid, ''STP'', stop), (oid + 1, ''LMT'', target)]"])
  have last: "triple (\<lambda>s. book s = ?B1) (tryP (seqP (place_leg T p (oid + 1) ''LMT'' target) (confirmed T token p stop target False)) is_exception (\<lambda>_. retP None))
      (\<lambda>a s. book s = ?B2 \<and> (case a of None \<Rightarrow> True | Some x \<Rightarrow> answered T p [oid, oid + 1] stop target x)) (\<lambda>_ _. False)"
    unfolding place_leg_def leg_request_def [symmetric]
    by (rule triple_swallow, rule ask_then, simp, rule triple_weaken [OF confirmed_triple]) auto
  have first: "triple (\<lambda>s. book s = B) (succeeds (place_leg T p oid ''STP'' stop)) (\<lambda>x s. book s = ?B1) (\<lambda>_ _. False)"
    unfolding place_leg_def leg_request_def [symmetric]
    by (rule triple_weaken [OF triple_succeeds [OF ask_triple]]) auto
  have same: "triple (\<lambda>s. book s = ?B1) (succeeds (bindP (sole_position T token p (\<lambda>_. True)) (\<lambda>_. retP ()))) (\<lambda>x s. book s = ?B1) (\<lambda>_ _. False)"
    by (rule triple_weaken [OF triple_succeeds [OF calm_triple]]) auto
  show ?thesis
    unfolding submit_legs_def Let_def
    by (rule triple_bindP [OF _ first], rule triple_weaken [OF triple_if [OF p1 triple_bindP [OF triple_weaken [OF triple_if [OF p1 triple_bindP [OF p2 last]]] same]]])
       auto
qed

abbreviation refines :: "tws_env \<Rightarrow> protection_payload \<Rightarrow> order_book \<Rightarrow> protection_answer bprog \<Rightarrow> bool" where
  "refines T p B m \<equiv> triple (\<lambda>s. book s = B) m (\<lambda>a s. protect_step T p B (Inr a) (book s)) (\<lambda>e s. book s = B)"

lemma protection_held_simulation:
  "refines T p B m \<Longrightarrow> triple (\<lambda>s. book s = B) m (\<lambda>a s. protect_step T p B (Inr a) (book s)) (\<lambda>e s. protect_step T p B (Inl e) (book s))"
  by (erule triple_weaken) (auto intro: protect_step.refused)

lemma legs_refine:
  assumes "pp_allow_submit p" and "group_of p \<notin> set (ob_attempts B)" and "sound_levels p stop target" and "cf_simulation (te_cfg T)"
    and "legs_sent T p (B\<lparr>ob_attempts := group_of p # ob_attempts B\<rparr>) oid stop target a s"
  shows "protect_step T p B (Inr a) (book s)"
proof -
  from assms(5) obtain legs where
    l: "legs = [(oid, ''STP'', stop)] \<or> legs = [(oid, ''STP'', stop), (oid + 1, ''LMT'', target)]" and a: "answered T p (map fst legs) stop target a"
    and s: "book s = book_with (B\<lparr>ob_attempts := group_of p # ob_attempts B\<rparr>) (map (\<lambda>(i, kind, price). leg_request T p i kind price) legs)"
    by (auto simp: legs_sent_def)
  from protect_step.submitted [OF assms(1,2) l a assms(3,4)] show ?thesis by (cases B) (simp add: s book_with_def)
qed

lemma new_pair_refines:
  assumes "pp_allow_submit p" and "group_of p \<notin> set (ob_attempts B)" and "sound_levels p stop target" and "cf_simulation (te_cfg T)"
  shows "refines T p B (new_pair T token p stop target)"
proof -
  have legs: "triple (\<lambda>s. book s = B)
      (seqP (modP (\<lambda>b. b\<lparr>br_next_id := Some (oid + 2), br_attempts := group_of p # br_attempts b\<rparr>)) (submit_legs T token p stop target oid))
      (\<lambda>a s. protect_step T p B (Inr a) (book s)) (\<lambda>e s. book s = B)" for oid
    by (rule triple_seqP, rule triple_weaken [OF submit_legs_triple], assumption, erule legs_refine [OF assms], simp)
       (rule triple_pre [OF triple_modP], clarsimp simp: book_def)
  show ?thesis
    unfolding new_pair_def
    by (rule triple_calm calm_order_check_held calm_sole_position calm_reads calm_guards triple_require legs | simp)+
qed

lemma recover_staged_refines:
  assumes "\<not> pp_allow_submit p" and "or_order_id r \<in> set (pp_existing_order_ids p)" and "sound_levels p stop target" and "cf_simulation (te_cfg T)"
  shows "refines T p B (recover_staged T token p stop target r)"
proof -
  have sent: "refines T p B (bindP (tryP (seqP (ask T (PlaceOrder (or_order_id r) c (o'\<lparr>to_transmit := True\<rparr>))) (confirmed T token p stop target True))
                     is_exception (\<lambda>_. retP None)) (\<lambda>done. retP (or_else done (Protection_Pending (group_of p) (pp_existing_order_ids p) stop target))))"
    (is "refines T p B (bindP (tryP (seqP (ask T ?r) _) _ _) _)") if o: "\<not> to_transmit o'" "to_perm o' = 0" for c o'
  proof -
    have "triple (\<lambda>s. book s = B) (tryP (seqP (ask T ?r) (confirmed T token p stop target True)) is_exception (\<lambda>_. retP None))
        (\<lambda>a s. book s = book_with B [?r] \<and> (case a of None \<Rightarrow> True | Some x \<Rightarrow> answered T p (pp_existing_order_ids p) stop target x)) (\<lambda>_ _. False)"
      by (rule triple_swallow, rule ask_then, rule triple_weaken [OF confirmed_triple]) auto
    then have t: "triple (\<lambda>s. book s = B) (tryP (seqP (ask T ?r) (confirmed T token p stop target True)) is_exception (\<lambda>_. retP None))
        (\<lambda>a s. book s = book_with B [?r] \<and> (case a of None \<Rightarrow> True | Some x \<Rightarrow> answered T p (pp_existing_order_ids p) stop target x)) (\<lambda>e s. book s = B)"
      by (rule triple_weaken) auto
    show ?thesis
    proof (rule triple_bindP [OF _ t], rule triple_retP_if)
      fix a s
      assume a: "book s = book_with B [?r] \<and> (case a of None \<Rightarrow> True | Some x \<Rightarrow> answered T p (pp_existing_order_ids p) stop target x)"
      then have "answered T p (pp_existing_order_ids p) stop target (or_else a (Protection_Pending (group_of p) (pp_existing_order_ids p) stop target))"
        by (cases a) auto
      from protect_step.staged [OF assms(1,2) o this assms(3,4)] a
      show "protect_step T p B (Inr (or_else a (Protection_Pending (group_of p) (pp_existing_order_ids p) stop target))) (book s)"
        by (simp add: book_with_def)
    qed
  qed
  have saved: "refines T p B (case saved of None \<Rightarrow> refuse 409 ''PROTECTION_STAGED_ORDER_NOT_VERIFIED''
       | Some (c, o') \<Rightarrow>
           seqP (require (\<not> to_transmit o' \<and> to_perm o' = 0) 409 ''PROTECTION_STAGED_ORDER_NOT_VERIFIED'')
           (bindP (tryP (seqP (ask T (PlaceOrder (or_order_id r) c (o'\<lparr>to_transmit := True\<rparr>))) (confirmed T token p stop target True))
                     is_exception (\<lambda>_. retP None)) (\<lambda>done.
              retP (or_else done (Protection_Pending (group_of p) (pp_existing_order_ids p) stop target)))))" for saved
  proof (cases saved)
    case None
    then show ?thesis by (simp add: triple_def refuse_def http_error_def)
  next
    case (Some x)
    then show ?thesis by (cases x) (auto intro!: triple_require sent)
  qed
  show ?thesis
    unfolding recover_staged_def by (rule triple_calm calm_sole_position calm.keeps_pure saved | simp)+
qed

lemma staged_stopD:
  assumes "staged_stop T p stop target rows existing = Some r"
  shows "\<not> pp_allow_submit p \<and> or_order_id r \<in> set (pp_existing_order_ids p)"
proof -
  from assms have a: "\<not> pp_allow_submit p" and r: "sole_row (filter is_staged existing) = Some r"
    and i: "set (map or_order_id existing) = set (pp_existing_order_ids p)"
    by (auto simp: staged_stop_def split: if_splits option.splits)
  from r have "filter is_staged existing = [r]" by (auto simp: sole_row_def split: list.splits)
  then have "r \<in> set (filter is_staged existing)" by (simp only: list.set_intros)
  then have "or_order_id r \<in> set (map or_order_id existing)" by simp
  with a i show ?thesis by simp
qed

lemma protect_refines:
  assumes "sound_levels p stop target" and "cf_simulation (te_cfg T)"
  shows "refines T p B (protect T token p stop target)"
proof -
  have submit: "refines T p B (bindP (getP br_attempts) (\<lambda>attempts.
      seqP (require (pp_allow_submit p \<and> group_of p \<notin> set attempts) 409 ''PROTECTION_SUBMISSION_OUTCOME_UNRESOLVED'') (new_pair T token p stop target)))"
  proof (rule triple_read)
    fix attempts
    show "triple (\<lambda>s. book s = B \<and> br_attempts s = attempts)
        (seqP (require (pp_allow_submit p \<and> group_of p \<notin> set attempts) 409 ''PROTECTION_SUBMISSION_OUTCOME_UNRESOLVED'') (new_pair T token p stop target))
        (\<lambda>a s. protect_step T p B (Inr a) (book s)) (\<lambda>e s. book s = B)"
    proof (cases "attempts = ob_attempts B")
      case True
      show ?thesis by (rule triple_require, rule triple_pre [OF new_pair_refines]) (auto simp: True assms)
    next
      case False
      then have "\<not> (book s = B \<and> br_attempts s = attempts)" for s by (auto simp: book_def)
      then show ?thesis unfolding triple_def by blast
    qed
  qed
  show ?thesis
    unfolding protect_def Let_def
    by (rule triple_calm [OF calm_reads(2)])
       (auto intro!: triple_retP_if protect_step.present [OF _ assms] recover_staged_refines [OF _ _ assms] triple_require submit
          dest!: staged_stopD split: option.split)
qed

lemma protection_held_refines: "refines T (canonical_payload p) B (protection_held T token p)"
proof -
  have levels: "refines T q B (bindP (liftP (protection_prices (pp_position_side q) (pp_stop_loss q) (pp_take_profit q) tick)) (\<lambda>(stop, target).
         seqP (require (bracketed q stop entry target) 400 ''PROTECTION_LEVELS_DO_NOT_BRACKET_ENTRY'') (protect T token q stop target)))"
    if "cf_simulation (te_cfg T)" for q tick entry
  proof (cases "protection_prices (pp_position_side q) (pp_stop_loss q) (pp_take_profit q) tick")
    case (Inl e)
    then show ?thesis by (simp add: triple_def bindP_def)
  next
    case (Inr x)
    obtain stop target where x: "x = (stop, target)" by (cases x)
    have "sound_levels q stop target" if "bracketed q stop entry target"
      using Inr x that by (auto simp: sound_levels_def)
    with protect_refines that have "refines T q B (seqP (require (bracketed q stop entry target) 400 ''PROTECTION_LEVELS_DO_NOT_BRACKET_ENTRY'') (protect T token q stop target))"
      by (intro triple_require) auto
    then show ?thesis by (simp add: Inr x bindP_def [abs_def])
  qed
  have step: "refines T q B (seqP (simulation_only T) k)" if "cf_simulation (te_cfg T) \<Longrightarrow> refines T q B k" for q k
    unfolding simulation_only_def using that by (intro triple_require) auto
  show ?thesis
    unfolding protection_held_def Let_def
    by (rule triple_calm triple_calm_seq calm_guards step triple_require calm_sole_position calm_contract_info calm.keeps_pure levels | assumption | simp)+
qed

lemma protection_refines_triple: "refines T (canonical_payload p) B (protection T token p)"
proof -
  have r: "refines T q B (refuse code detail)" for q code detail by (simp add: triple_def refuse_def http_error_def)
  have "refines T (canonical_payload p) B (serial_mutation T (protection_held T token p))"
    unfolding serial_mutation_def under_lock_def
    by (rule triple_calm) (auto intro!: r protection_held_refines)
  with r show ?thesis by (simp add: protection_def)
qed


section \<open>A live gateway\<close>

definition refuses :: "bridge \<Rightarrow> 'a bprog \<Rightarrow> bool" where
  \<comment> \<open>the program raises and changes nothing\<close>
  "refuses b m \<longleftrightarrow> (\<exists>e. m b = (Inl e, b))"

lemma refuses_refuse [intro!]: "refuses b (refuse code detail)"
  by (simp add: refuses_def refuse_def http_error_def)

lemma refuses_require [intro]: "refuses b k \<Longrightarrow> refuses b (seqP (require c code detail) k)"
  by (cases c) (simp_all add: refuses_def require_def refuse_def http_error_def seqP_def bindP_def)

lemma refuses_read: "(\<And>x. refuses b (f x)) \<Longrightarrow> refuses b (bindP (getP g) f)"
  by (simp add: refuses_def bindP_def)

lemma refuses_guards [intro]:
  "refuses b k \<Longrightarrow> refuses b (seqP (auth T token) k)"
  "refuses b k \<Longrightarrow> refuses b (seqP (require_server T) k)"
proof -
  have r: "refuses b k \<Longrightarrow> refuses b (bindP (require c code detail) (\<lambda>_. k))" for c code detail
    using refuses_require by (simp add: seqP_def)
  have assoc: "bindP (bindP m f) g = bindP m (\<lambda>x. bindP (f x) g)" for m :: "'x bprog" and f :: "'x \<Rightarrow> unit bprog" and g :: "unit \<Rightarrow> 'a bprog"
    by (auto simp: bindP_def fun_eq_iff split: prod.split sum.split)
  show "refuses b k \<Longrightarrow> refuses b (seqP (auth T token) k)" unfolding auth_def by (rule refuses_require)
  show "refuses b k \<Longrightarrow> refuses b (seqP (require_server T) k)"
    unfolding require_server_def seqP_def assoc by (rule refuses_read) (auto intro: r)
qed

lemma refuses_live: "\<not> cf_simulation (te_cfg T) \<Longrightarrow> refuses b (seqP (simulation_only T) k)"
  by (simp add: refuses_def simulation_only_def require_def refuse_def http_error_def seqP_def bindP_def)

lemma refuses_mutation: "refuses b m \<Longrightarrow> refuses b (serial_mutation T m)"
  unfolding serial_mutation_def under_lock_def by (rule refuses_read) auto

text \<open>
  C5. Against a live gateway the bridge does nothing. Started on any port but the two paper ports 7497 and 4002, every
  endpoint that could reach the order book (a margin check, an order, a cancellation, a protective pair) raises, whatever
  the request and the state, and leaves the whole state as it was: nothing is sent, no id is used, no group is marked as
  attempted.
\<close>

theorem live_gateway_refused:
  assumes "te_cfg T = bridge_config host port client account_id secret" and "port \<notin> {7497, 4002}"
  shows "refuses b (order_check T token p) \<and> refuses b (place T token p) \<and> refuses b (cancel T token oid) \<and> refuses b (protection T token q)"
proof -
  have live: "\<not> cf_simulation (te_cfg T)" using assms by (simp add: bridge_config_def)
  note r = refuses_mutation refuses_guards refuses_live [OF live]
  have "refuses b (order_check T token p)" unfolding order_check_def order_check_held_def by (intro r)
  moreover have "refuses b (place T token p)" unfolding place_def by (intro r)
  moreover have "refuses b (cancel T token oid)" unfolding cancel_def by (intro r)
  moreover have "refuses b (protection T token q)" unfolding protection_def protection_held_def by (auto intro!: r)
  ultimately show ?thesis by blast
qed

theorem live_gateway_refused_witness:
  "refuses fresh_bridge (protection ((sample_broker sample_callbacks)\<lparr>te_cfg := bridge_config ''127.0.0.1'' 7496 27 ''DU1'' None\<rparr>) None
     \<lparr>pp_symbol = ''AAPL'', pp_account_id = ''DU1'', pp_position_side = ''LONG'', pp_quantity = Fin 10, pp_stop_loss = Fin 95,
      pp_take_profit = Fin 110, pp_entry_key = replicate 32 (CHR ''a''), pp_allow_submit = True, pp_existing_order_ids = []\<rparr>)"
  using live_gateway_refused [of "(sample_broker sample_callbacks)\<lparr>te_cfg := bridge_config ''127.0.0.1'' 7496 27 ''DU1'' None\<rparr>"
    "''127.0.0.1''" 7496 27 "''DU1''" None] by simp

end
