(* ===== verification/Mt5_Node.thy ===== *)
theory Mt5_Node
  imports Programs
begin

text \<open>
  The execution node on the Windows host (\<open>bridges/mt5_windows/main.py\<close>): the process between the MetaTrader
  terminal and the application; its client is in \<open>Brokers\<close>. The MetaTrader5 package is outside: its answers
  come from the environment, one per call, its constants are parameters, and a call is logged. The rows it
  returns are records with the attributes the code reads and the dictionary of \<open>_asdict()\<close>. The structured
  detail of an HTTPException is its message.
\<close>

section \<open>What the package answers\<close>

record mt5_account =
  ma_login :: int
  ma_server :: string
  ma_trade_allowed :: bool
  ma_trade_expert :: bool
  ma_dict :: pydict

record mt5_terminal =
  mt_connected :: bool
  mt_trade_allowed :: bool

record mt5_symbol =
  my_name :: string
  my_visible :: bool
  my_volume_min :: pyfloat
  my_volume_max :: pyfloat
  my_volume_step :: pyfloat
  my_filling_mode :: int
  my_dict :: pydict

record mt5_tick =
  tk_ask :: pyfloat
  tk_bid :: pyfloat
  tk_dict :: pydict

record mt5_position =
  mp_ticket :: int
  mp_symbol :: string
  mp_volume :: pyfloat
  mp_type :: int
  mp_dict :: pydict

record mt5_result =
  mr_retcode :: int
  mr_dict :: pydict

record mt5_rate =
  rt_time :: int
  rt_open :: pyfloat
  rt_high :: pyfloat
  rt_low :: pyfloat
  rt_close :: pyfloat
  rt_tick_volume :: int
  rt_spread :: int
  rt_real_volume :: int

record trade_request =
  tr_action :: int
  tr_position :: "int option"
  tr_symbol :: string
  tr_volume :: pyfloat
  tr_type :: int
  tr_price :: pyfloat
  tr_deviation :: int
  tr_magic :: int
  tr_comment :: string
  tr_type_time :: int
  tr_type_filling :: int
  tr_sl :: "pyfloat option"
  tr_tp :: "pyfloat option"

record mt5_constants =
  mc_deal :: int
  mc_buy :: int
  mc_sell :: int
  mc_gtc :: int
  mc_position_buy :: int
  mc_timeframes :: "int list" \<comment> \<open>\<open>TIMEFRAME_M1\<close> to \<open>TIMEFRAME_D1\<close>, seven of them\<close>
  mc_success :: "int list"    \<comment> \<open>\<open>TRADE_RETCODE_DONE\<close>, \<open>DONE_PARTIAL\<close>, \<open>PLACED\<close>\<close>

record mt5_config =
  mf_token :: string
  mf_allow_trading :: bool
  mf_login :: string
  mf_server :: string
  mf_magic :: int
  mf_deviation :: int

datatype mt5_call = Initialize | Shutdown | Read_Call | Order_Check trade_request | Order_Send trade_request

record node =
  nd_tick :: nat
  nd_calls :: "mt5_call list"

record mt5_env =
  me_initialize :: "nat \<Rightarrow> bool"
  me_account :: "nat \<Rightarrow> mt5_account option"
  me_terminal :: "nat \<Rightarrow> mt5_terminal option"
  me_symbol :: "nat \<Rightarrow> string \<Rightarrow> mt5_symbol option"
  me_select :: "nat \<Rightarrow> string \<Rightarrow> bool"
  me_tick :: "nat \<Rightarrow> string \<Rightarrow> mt5_tick option"
  me_positions :: "nat \<Rightarrow> mt5_position list option"
  me_position :: "nat \<Rightarrow> int \<Rightarrow> mt5_position list option"
  me_orders :: "nat \<Rightarrow> pydict list option"
  me_deals :: "nat \<Rightarrow> int \<Rightarrow> pydict list option"  \<comment> \<open>of the last so many days\<close>
  me_rates :: "nat \<Rightarrow> string \<Rightarrow> int \<Rightarrow> int \<Rightarrow> mt5_rate list option"
  me_symbols :: "nat \<Rightarrow> mt5_symbol list option"
  me_check :: "nat \<Rightarrow> trade_request \<Rightarrow> mt5_result option"
  me_send :: "nat \<Rightarrow> trade_request \<Rightarrow> mt5_result option"
  me_constants :: mt5_constants
  me_config :: mt5_config

type_synonym 'a nprog = "(node, 'a) sprog"

definition mt5 :: "mt5_call \<Rightarrow> (nat \<Rightarrow> 'a) \<Rightarrow> 'a nprog" where
  \<comment> \<open>one call of the package\<close>
  "mt5 c answer = bindP (getP (\<lambda>s. answer (nd_tick s))) (\<lambda>v.
     seqP (modP (\<lambda>s. s\<lparr>nd_tick := nd_tick s + 1, nd_calls := nd_calls s @ [c]\<rparr>)) (retP v))"

definition available :: "'a option \<Rightarrow> int \<Rightarrow> string \<Rightarrow> 'a nprog" where
  \<comment> \<open>\<open>if x is None: raise HTTPException(...)\<close>\<close>
  "available x code detail = (case x of None \<Rightarrow> refuse code detail | Some v \<Rightarrow> retP v)"

section \<open>Authorization and sessions\<close>

definition node_auth :: "mt5_env \<Rightarrow> string option \<Rightarrow> unit nprog" where
  "node_auth M token =
     seqP (require (mf_token (me_config M) \<noteq> []) 503 ''Bridge token is not configured'')
          (require (token \<noteq> None \<and> token \<noteq> Some [] \<and> token = Some (mf_token (me_config M))) 401 ''Unauthorized'')"

definition expected_login :: "mt5_env \<Rightarrow> int res" where
  "expected_login M =
     (if mf_login (me_config M) = [] then http_error 503 ''MT5_EXPECTED_LOGIN is not configured''
      else case parse_int (mf_login (me_config M)) of None \<Rightarrow> http_error 503 ''MT5_EXPECTED_LOGIN is invalid'' | Some i \<Rightarrow> Inr i)"

definition expected_account :: "mt5_env \<Rightarrow> mt5_account \<Rightarrow> int \<Rightarrow> bool" where
  "expected_account M a login \<longleftrightarrow> ma_login a = login \<and> str_lower (str_strip (ma_server a)) = str_lower (mf_server (me_config M))"

definition session :: "mt5_env \<Rightarrow> (mt5_account \<Rightarrow> 'a nprog) \<Rightarrow> 'a nprog" where
  \<comment> \<open>\<open>with _session() as account\<close>; the lock is waited for\<close>
  "session M body =
     seqP (require (mf_server (me_config M) \<noteq> []) 503 ''MT5_EXPECTED_SERVER is not configured'')
    (bindP (mt5 Initialize (me_initialize M)) (\<lambda>up.
     seqP (require up 503 ''MT5 initialize failed'')
    (finallyP
      (bindP (mt5 Read_Call (me_account M)) (\<lambda>found.
       bindP (available found 503 ''MT5 account unavailable'') (\<lambda>a.
       bindP (liftP (expected_login M)) (\<lambda>login.
       seqP (require (ma_login a = login) 403 (''Unexpected MT5 login: '' @ show_int (ma_login a)))
      (seqP (require (expected_account M a login) 403 (''Unexpected MT5 server: '' @ ma_server a))
       (body a))))))
      (mt5 Shutdown (\<lambda>_. ())))))"

section \<open>Symbols, volumes, trade requests\<close>

definition symbol_name :: "pyval \<Rightarrow> string" where
  "symbol_name v = remove_char (CHR '' '') (remove_char (CHR ''/'') (str_upper (str_strip (str_or_empty v))))"

definition ensure_symbol :: "mt5_env \<Rightarrow> string \<Rightarrow> mt5_symbol nprog" where
  "ensure_symbol M symbol =
     bindP (mt5 Read_Call (\<lambda>t. me_symbol M t symbol)) (\<lambda>found.
     bindP (available found 404 (''Symbol '' @ symbol @ '' not found'')) (\<lambda>info.
     seqP (if my_visible info then retP ()
           else bindP (mt5 Read_Call (\<lambda>t. me_select M t symbol)) (\<lambda>selected. require selected 503 (''Unable to select symbol '' @ symbol)))
          (bindP (mt5 Read_Call (\<lambda>t. me_symbol M t symbol)) (\<lambda>again. retP (or_else again info)))))"

definition timeframe_names :: "string list" where
  "timeframe_names = [''1m'', ''5m'', ''15m'', ''30m'', ''1h'', ''4h'', ''1d'']"

definition timeframe_of :: "mt5_env \<Rightarrow> string \<Rightarrow> int res" where
  "timeframe_of M v = (case map_of (zip timeframe_names (mc_timeframes (me_constants M))) (str_lower (str_strip v)) of
       None \<Rightarrow> http_error 400 (''Unsupported timeframe: '' @ v) | Some c \<Rightarrow> Inr c)"

definition validate_volume :: "mt5_symbol \<Rightarrow> pyfloat \<Rightarrow> unit res" where
  "validate_volume info volume =
     (if volume < my_volume_min info \<or> my_volume_max info < volume then http_error 400 ''Volume outside broker limits''
      else let step = my_volume_step info
        in if 0 < step
           then bindE (fround_int (fquot (volume - my_volume_min info) step)) (\<lambda>steps.
                bindE (of_int_float steps) (\<lambda>n.
                  let normalized = my_volume_min info + n * step
                  in if pymax (fl (1 / 10 ^ 9)) (fquot step (fl 1000)) < fabs (normalized - volume)
                     then http_error 400 ''Volume does not match broker step'' else Inr ()))
           else Inr ())"

definition optional_float :: "pydict \<Rightarrow> string \<Rightarrow> pyfloat option res" where
  \<comment> \<open>\<open>if payload.get(k) is not None: request[...] = float(payload[k])\<close>\<close>
  "optional_float d k = (if dget d k = PNone then Inr None else bindE (py_float (dget d k)) (\<lambda>f. Inr (Some f)))"

definition order_request :: "mt5_env \<Rightarrow> pydict \<Rightarrow> trade_request nprog" where
  "order_request M payload =
     (let symbol = symbol_name (dget payload ''symbol''); side = str_upper (str_strip (py_str (dget_or payload ''side'' (PStr []))));
          k = me_constants M
      in seqP (require (side \<in> set [''BUY'', ''SELL'']) 400 ''Side must be BUY or SELL'')
        (bindP (liftP (tryE (py_float (dget_or payload ''volume'' (PInt 0))) is_type_or_value (\<lambda>_. http_error 400 ''Invalid volume''))) (\<lambda>volume.
         bindP (ensure_symbol M symbol) (\<lambda>info.
         bindP (liftP (validate_volume info volume)) (\<lambda>_.
         bindP (mt5 Read_Call (\<lambda>t. me_tick M t symbol)) (\<lambda>found.
         bindP (available found 503 ''Unable to read market price'') (\<lambda>tick.
         let price = (if side = ''BUY'' then tk_ask tick else tk_bid tick)
         in seqP (require (\<not> price \<le> 0) 503 ''Invalid market price'')
           (bindP (liftP (optional_float payload ''stop_loss'')) (\<lambda>sl.
            bindP (liftP (optional_float payload ''take_profit'')) (\<lambda>tp.
              retP \<lparr>tr_action = mc_deal k, tr_position = None, tr_symbol = symbol, tr_volume = volume,
                tr_type = (if side = ''BUY'' then mc_buy k else mc_sell k), tr_price = price, tr_deviation = mf_deviation (me_config M),
                tr_magic = mf_magic (me_config M), tr_comment = take 31 (py_str (py_or (dget payload ''comment'') (PStr ''ATLAS SIMULATION''))),
                tr_type_time = mc_gtc k, tr_type_filling = my_filling_mode info, tr_sl = sl, tr_tp = tp\<rparr>))))))))))"

section \<open>Reading endpoints\<close>

definition node_health :: "mt5_env \<Rightarrow> string option \<Rightarrow> pydict nprog" where
  "node_health M token = seqP (node_auth M token) (session M (\<lambda>a.
     bindP (mt5 Read_Call (me_terminal M)) (\<lambda>found.
     bindP (available found 503 ''Terminal info unavailable'') (\<lambda>t.
       retP [(''status'', PStr ''ok''), (''node_type'', PStr ''native_windows_mt5''), (''connected'', PBool (mt_connected t)),
         (''mt5_connected'', PBool (mt_connected t)), (''login'', PInt (ma_login a)), (''server'', PStr (ma_server a)),
         (''trading_enabled'', PBool (mf_allow_trading (me_config M))),
         (''terminal'', PDict [(''connected'', PBool (mt_connected t)), (''trade_allowed'', PBool (mt_trade_allowed t))]),
         (''account'', PDict [(''trade_allowed'', PBool (ma_trade_allowed a)), (''trade_expert'', PBool (ma_trade_expert a))])]))))"

definition node_account :: "mt5_env \<Rightarrow> string option \<Rightarrow> pydict nprog" where
  "node_account M token = seqP (node_auth M token) (session M (\<lambda>a. retP (ma_dict a)))"

definition node_positions :: "mt5_env \<Rightarrow> string option \<Rightarrow> pydict list nprog" where
  "node_positions M token = seqP (node_auth M token) (session M (\<lambda>a.
     bindP (mt5 Read_Call (me_positions M)) (\<lambda>found.
     bindP (available found 503 ''Unable to read positions'') (\<lambda>rows. retP (map mp_dict rows)))))"

definition node_orders :: "mt5_env \<Rightarrow> string option \<Rightarrow> pydict list nprog" where
  "node_orders M token = seqP (node_auth M token) (session M (\<lambda>a.
     bindP (mt5 Read_Call (me_orders M)) (\<lambda>found. available found 503 ''Unable to read orders'')))"

definition node_deals :: "mt5_env \<Rightarrow> string option \<Rightarrow> int \<Rightarrow> pydict list nprog" where
  "node_deals M token days = seqP (node_auth M token) (session M (\<lambda>a.
     bindP (mt5 Read_Call (\<lambda>t. me_deals M t (max 1 (min days 366)))) (\<lambda>found. available found 503 ''Unable to read deal history'')))"

definition node_candles :: "mt5_env \<Rightarrow> string option \<Rightarrow> string \<Rightarrow> string \<Rightarrow> int \<Rightarrow> (string \<times> mt5_rate list) nprog" where
  "node_candles M token symbol0 timeframe limit = seqP (node_auth M token) (session M (\<lambda>a.
     let symbol = symbol_name (PStr symbol0)
     in bindP (ensure_symbol M symbol) (\<lambda>_.
        bindP (liftP (timeframe_of M timeframe)) (\<lambda>tf.
        bindP (mt5 Read_Call (\<lambda>t. me_rates M t symbol tf (max 2 (min limit 500)))) (\<lambda>found.
        bindP (available found 503 (''Unable to read candles for '' @ symbol)) (\<lambda>rows. retP (symbol, rows)))))))"

fun substring :: "string \<Rightarrow> string \<Rightarrow> bool" where
  "substring p [] = (p = [])"
| "substring p (c # s) = (starts_with p (c # s) \<or> substring p s)"

fun collect_symbols :: "string \<Rightarrow> int \<Rightarrow> mt5_symbol list \<Rightarrow> pydict list \<Rightarrow> pydict list" where
  "collect_symbols query limit [] out = out"
| "collect_symbols query limit (item # items) out =
     (let out' = (if query = [] \<or> substring query (str_upper (my_name item)) then out @ [my_dict item] else out)
      in if max 1 (min limit 200) \<le> int (length out') then out' else collect_symbols query limit items out')"

definition node_search :: "mt5_env \<Rightarrow> string option \<Rightarrow> string \<Rightarrow> int \<Rightarrow> pydict list nprog" where
  "node_search M token q limit = seqP (node_auth M token) (session M (\<lambda>a.
     bindP (mt5 Read_Call (me_symbols M)) (\<lambda>found.
     bindP (available found 503 ''Unable to read symbols'') (\<lambda>items.
       retP (collect_symbols (str_upper (str_strip q)) limit items [])))))"

definition node_symbol :: "mt5_env \<Rightarrow> string option \<Rightarrow> string \<Rightarrow> (string \<times> pydict \<times> pydict option) nprog" where
  "node_symbol M token symbol0 = seqP (node_auth M token) (session M (\<lambda>a.
     let symbol = symbol_name (PStr symbol0)
     in bindP (ensure_symbol M symbol) (\<lambda>info.
        bindP (mt5 Read_Call (\<lambda>t. me_tick M t symbol)) (\<lambda>tick. retP (symbol, my_dict info, map_option tk_dict tick)))))"

section \<open>Orders\<close>

definition node_order_check :: "mt5_env \<Rightarrow> string option \<Rightarrow> pydict \<Rightarrow> (bool \<times> pydict) nprog" where
  "node_order_check M token payload = seqP (node_auth M token) (session M (\<lambda>a.
     bindP (order_request M payload) (\<lambda>r.
     bindP (mt5 (Order_Check r) (\<lambda>t. me_check M t r)) (\<lambda>found.
     bindP (available found 503 ''MT5 order_check failed'') (\<lambda>result.
       retP (mr_retcode result = 0, mr_dict result))))))"

definition trading_allowed :: "mt5_env \<Rightarrow> mt5_account \<Rightarrow> unit nprog" where
  "trading_allowed M a = bindP (mt5 Read_Call (me_terminal M)) (\<lambda>terminal.
     require (case terminal of None \<Rightarrow> False | Some t \<Rightarrow> mt_trade_allowed t \<and> ma_trade_allowed a \<and> ma_trade_expert a)
       403 ''MT5 terminal/account trading is not allowed'')"

definition checked_send :: "mt5_env \<Rightarrow> trade_request \<Rightarrow> string \<Rightarrow> string \<Rightarrow> string \<Rightarrow> pydict nprog" where
  \<comment> \<open>the broker's check of the request, then the request itself\<close>
  "checked_send M r not_checked failed rejected =
     bindP (mt5 (Order_Check r) (\<lambda>t. me_check M t r)) (\<lambda>check.
     seqP (require (case check of None \<Rightarrow> False | Some c \<Rightarrow> mr_retcode c = 0) 400 not_checked)
    (bindP (mt5 (Order_Send r) (\<lambda>t. me_send M t r)) (\<lambda>found.
     bindP (available found 503 failed) (\<lambda>result.
     seqP (require (mr_retcode result \<in> set (mc_success (me_constants M))) 400 rejected) (retP (mr_dict result))))))"

definition node_order :: "mt5_env \<Rightarrow> string option \<Rightarrow> pydict \<Rightarrow> pydict nprog" where
  "node_order M token payload = seqP (node_auth M token)
     (seqP (require (mf_allow_trading (me_config M)) 403 ''Trading is disabled on the MT5 execution node'')
     (session M (\<lambda>a. seqP (trading_allowed M a)
       (bindP (order_request M payload) (\<lambda>r.
          checked_send M r ''MT5 order_check rejected order'' ''MT5 order_send failed'' ''MT5 rejected order'')))))"

definition close_request :: "mt5_env \<Rightarrow> mt5_position \<Rightarrow> trade_request nprog" where
  "close_request M p = bindP (ensure_symbol M (mp_symbol p)) (\<lambda>info.
     bindP (mt5 Read_Call (\<lambda>t. me_tick M t (mp_symbol p))) (\<lambda>found.
     bindP (available found 503 ''Unable to read market price'') (\<lambda>tick.
     let k = me_constants M; is_buy = (mp_type p = mc_position_buy k)
     in retP \<lparr>tr_action = mc_deal k, tr_position = Some (mp_ticket p), tr_symbol = mp_symbol p, tr_volume = mp_volume p,
          tr_type = (if is_buy then mc_sell k else mc_buy k), tr_price = (if is_buy then tk_bid tick else tk_ask tick),
          tr_deviation = mf_deviation (me_config M), tr_magic = mf_magic (me_config M), tr_comment = ''ATLAS CLOSE'',
          tr_type_time = mc_gtc k, tr_type_filling = my_filling_mode info, tr_sl = None, tr_tp = None\<rparr>)))"

definition node_close :: "mt5_env \<Rightarrow> string option \<Rightarrow> int \<Rightarrow> pydict nprog" where
  "node_close M token ticket = seqP (node_auth M token)
     (seqP (require (mf_allow_trading (me_config M)) 403 ''Trading is disabled on the MT5 execution node'')
     (session M (\<lambda>a. seqP (trading_allowed M a)
       (bindP (mt5 Read_Call (\<lambda>t. me_position M t ticket)) (\<lambda>found.
          case or_else found [] of [] \<Rightarrow> refuse 404 (''Position '' @ show_int ticket @ '' not found'')
          | p # _ \<Rightarrow> bindP (close_request M p) (\<lambda>r.
              checked_send M r ''MT5 close check rejected'' ''MT5 close failed'' ''MT5 rejected close''))))))"

section \<open>The calls of one request\<close>

fun reading :: "mt5_call \<Rightarrow> bool" where
  "reading Read_Call = True"
| "reading (Order_Check r) = True"
| "reading _ = False"

inductive call_shape :: "(trade_request \<Rightarrow> bool) \<Rightarrow> mt5_call list \<Rightarrow> bool" for good :: "trade_request \<Rightarrow> bool" where
  \<comment> \<open>what one request of the application may do at the terminal\<close>
  refused: "call_shape good []"
| not_initialized: "call_shape good [Initialize]"
| read: "list_all reading mid \<Longrightarrow> call_shape good (Initialize # mid @ [Shutdown])"
| traded: "list_all reading mid \<Longrightarrow> good r \<Longrightarrow> call_shape good (Initialize # mid @ [Order_Check r, Order_Send r, Shutdown])"

definition shaped :: "(trade_request \<Rightarrow> bool) \<Rightarrow> 'a nprog \<Rightarrow> bool" where
  "shaped good m \<longleftrightarrow> (\<forall>s. \<exists>es. nd_calls (snd (m s)) = nd_calls s @ es \<and> call_shape good es)"

definition reads_more :: "node \<Rightarrow> node \<Rightarrow> bool" where
  "reads_more s t \<longleftrightarrow> (\<exists>es. nd_calls t = nd_calls s @ es \<and> list_all reading es)"

interpretation reads: state_relation reads_more "\<lambda>_. True"
proof
  show "reads_more s s" for s by (auto simp: reads_more_def)
  show "reads_more s t \<Longrightarrow> reads_more t u \<Longrightarrow> reads_more s u" for s t u unfolding reads_more_def by fastforce
qed

lemma reads_mt5 [intro]: "reading c \<Longrightarrow> keeps reads_more (\<lambda>_. True) (mt5 c answer)"
  unfolding mt5_def by (auto intro!: reads.keeps_modP simp: reads_more_def)

lemma reads_basic [intro!]:
  "keeps reads_more (\<lambda>_. True) (refuse code detail)" "keeps reads_more (\<lambda>_. True) (require c code detail)"
  "keeps reads_more (\<lambda>_. True) (available x code detail)" "keeps reads_more (\<lambda>_. True) (liftP r)"
  unfolding refuse_def require_def available_def by (auto intro: reads.keeps_liftP)

lemma reads_ensure_symbol [intro!]: "keeps reads_more (\<lambda>_. True) (ensure_symbol M symbol)"
  unfolding ensure_symbol_def by auto

lemma reads_trading_allowed [intro!]: "keeps reads_more (\<lambda>_. True) (trading_allowed M a)"
  unfolding trading_allowed_def by auto

section \<open>Inside a session\<close>

definition in_session :: "mt5_call list \<Rightarrow> node \<Rightarrow> bool" where
  \<comment> \<open>the calls since the log was \<open>cs\<close> are the initialization and reads\<close>
  "in_session cs s \<longleftrightarrow> (\<exists>mid. nd_calls s = cs @ Initialize # mid \<and> list_all reading mid)"

definition has_traded :: "(trade_request \<Rightarrow> bool) \<Rightarrow> mt5_call list \<Rightarrow> node \<Rightarrow> bool" where
  "has_traded good cs s \<longleftrightarrow> (\<exists>mid r. nd_calls s = cs @ Initialize # mid @ [Order_Check r, Order_Send r] \<and> list_all reading mid \<and> good r)"

definition session_body :: "(trade_request \<Rightarrow> bool) \<Rightarrow> 'a nprog \<Rightarrow> bool" where
  \<comment> \<open>a body of a session: reads, and at most one good order, checked just before and sent last\<close>
  "session_body good m \<longleftrightarrow> (\<forall>cs. triple (in_session cs) m (\<lambda>_ s. in_session cs s \<or> has_traded good cs s) (\<lambda>_ s. in_session cs s \<or> has_traded good cs s))"

lemma in_session_reads: "keeps reads_more (\<lambda>_. True) m \<Longrightarrow> triple (in_session cs) m (\<lambda>_. in_session cs) (\<lambda>_. in_session cs)"
  unfolding in_session_def by (rule tripleI) (fastforce dest!: keepsD simp: reads_more_def)+

lemma body_reads: "keeps reads_more (\<lambda>_. True) m \<Longrightarrow> session_body good m"
  unfolding session_body_def by (blast intro: triple_weaken [OF in_session_reads])

lemma body_bind:
  assumes "keeps reads_more (\<lambda>_. True) m" and "\<And>x. session_body good (f x)" shows "session_body good (bindP m f)"
  unfolding session_body_def
proof
  fix cs
  show "triple (in_session cs) (bindP m f) (\<lambda>_ s. in_session cs s \<or> has_traded good cs s) (\<lambda>_ s. in_session cs s \<or> has_traded good cs s)"
    by (rule triple_bindP [OF assms(2) [unfolded session_body_def, rule_format]], rule triple_weaken [OF in_session_reads [OF assms(1)]]) auto
qed

lemma body_seq: "keeps reads_more (\<lambda>_. True) m \<Longrightarrow> session_body good k \<Longrightarrow> session_body good (seqP m k)"
  unfolding seqP_def by (rule body_bind)

lemma body_require: "(c \<Longrightarrow> session_body good k) \<Longrightarrow> session_body good (seqP (require c code detail) k)"
  by (cases c) (auto intro!: body_seq body_reads simp: session_body_def triple_def require_def refuse_def http_error_def seqP_def bindP_def)

lemma body_lift: "(\<And>x. r = Inr x \<Longrightarrow> session_body good (f x)) \<Longrightarrow> session_body good (bindP (liftP r) f)"
  by (cases r) (auto simp: session_body_def triple_def bindP_def)

lemma mt5_apply: "mt5 c answer s = (Inr (answer (nd_tick s)), s\<lparr>nd_tick := nd_tick s + 1, nd_calls := nd_calls s @ [c]\<rparr>)"
  by (simp add: mt5_def bindP_def seqP_def)

lemma body_answer: "(\<And>t. session_body good (f (answer t))) \<Longrightarrow> reading c \<Longrightarrow> session_body good (bindP (mt5 c answer) f)"
proof -
  assume f: "\<And>t. session_body good (f (answer t))" and c: "reading c"
  have "in_session cs s \<Longrightarrow> in_session cs (s\<lparr>nd_tick := nd_tick s + 1, nd_calls := nd_calls s @ [c]\<rparr>)" for cs s
    using c by (auto simp: in_session_def)
  with f show ?thesis unfolding session_body_def triple_def by (simp add: bindP_def mt5_apply)
qed

lemma in_session_check: "in_session cs s \<Longrightarrow> in_session cs (s\<lparr>nd_tick := t, nd_calls := nd_calls s @ [Order_Check r]\<rparr>)"
  by (auto simp: in_session_def)

lemma in_session_send: "in_session cs s \<Longrightarrow> good r \<Longrightarrow> has_traded good cs (s\<lparr>nd_tick := t, nd_calls := nd_calls s @ [Order_Check r, Order_Send r]\<rparr>)"
  by (auto simp: in_session_def has_traded_def)

lemma body_send:
  assumes "\<And>t c. me_check M t r = Some c \<Longrightarrow> mr_retcode c = 0 \<Longrightarrow> good r" shows "session_body good (checked_send M r a b c)"
  unfolding session_body_def triple_def checked_send_def
  using assms
  by (auto simp: bindP_def seqP_def mt5_apply require_def refuse_def http_error_def available_def
        intro: in_session_check in_session_send split: option.splits)

lemma session_closed:
  assumes "session_body good m" and "nd_calls s = cs @ [Initialize]"
  shows "\<exists>es. nd_calls (snd (finallyP m (mt5 Shutdown (\<lambda>_. ())) s)) = cs @ es \<and> call_shape good es"
proof -
  obtain r u where u: "m s = (r, u)" by (cases "m s")
  from assms(2) have "in_session cs s" by (auto simp: in_session_def)
  with assms(1) u have "in_session cs u \<or> has_traded good cs u"
    unfolding session_body_def triple_def by (fastforce split: sum.splits)
  then show ?thesis
    unfolding in_session_def has_traded_def
    by (auto simp: finallyP_def u mt5_apply intro: call_shape.read call_shape.traded)
qed

lemma shaped_require: "shaped good k \<Longrightarrow> shaped good (seqP (require c code detail) k)"
  by (cases c) (auto simp: shaped_def require_def refuse_def http_error_def seqP_def bindP_def intro: call_shape.refused)

lemma shaped_guard: "(c \<Longrightarrow> shaped good k) \<Longrightarrow> shaped good (seqP (require c code detail) k)"
  by (cases c) (auto simp: shaped_def require_def refuse_def http_error_def seqP_def bindP_def intro: call_shape.refused)

lemma initialized_shaped:
  assumes "session_body good m"
  shows "shaped good (bindP (mt5 Initialize answer) (\<lambda>up. seqP (require up code detail) (finallyP m (mt5 Shutdown (\<lambda>_. ())))))"
  unfolding shaped_def
proof
  fix s :: node
  let ?s = "s\<lparr>nd_tick := nd_tick s + 1, nd_calls := nd_calls s @ [Initialize]\<rparr>"
  show "\<exists>es. nd_calls (snd (bindP (mt5 Initialize answer) (\<lambda>up. seqP (require up code detail) (finallyP m (mt5 Shutdown (\<lambda>_. ())))) s)) = nd_calls s @ es \<and> call_shape good es"
  proof (cases "answer (nd_tick s)")
    case True
    with session_closed [OF assms, of ?s "nd_calls s"] show ?thesis by (simp add: bindP_def mt5_apply seqP_def require_def)
  next
    case False
    then show ?thesis by (auto simp: bindP_def mt5_apply seqP_def require_def refuse_def http_error_def intro: call_shape.not_initialized)
  qed
qed

lemma session_shaped:
  assumes "\<And>a t. me_account M t = Some a \<Longrightarrow> expected_login M = Inr (ma_login a) \<Longrightarrow> expected_account M a (ma_login a) \<Longrightarrow> session_body good (body a)"
  shows "shaped good (session M body)"
proof -
  have avail: "session_body good (bindP (available x code detail) f)" if "\<And>v. x = Some v \<Longrightarrow> session_body good (f v)"
    for x :: "mt5_account option" and code detail and f :: "mt5_account \<Rightarrow> 'a nprog"
    using that by (cases x) (auto simp: available_def session_body_def triple_def refuse_def http_error_def bindP_def)
  show ?thesis
    unfolding session_def
    by (intro shaped_require initialized_shaped body_answer avail body_lift body_require) (auto intro: assms)
qed

lemma auth_shaped:
  "(token = Some (mf_token (me_config M)) \<Longrightarrow> mf_token (me_config M) \<noteq> [] \<Longrightarrow> shaped good k) \<Longrightarrow> shaped good (seqP (node_auth M token) k)"
proof -
  assume k: "token = Some (mf_token (me_config M)) \<Longrightarrow> mf_token (me_config M) \<noteq> [] \<Longrightarrow> shaped good k"
  have assoc: "seqP (seqP m l) k = seqP m (seqP l k)" for m l :: "unit nprog"
    by (auto simp: seqP_def bindP_def fun_eq_iff split: prod.split sum.split)
  show ?thesis unfolding node_auth_def assoc by (intro shaped_guard k) auto
qed

section \<open>Orders and closings\<close>

definition accepted :: "mt5_env \<Rightarrow> string option \<Rightarrow> trade_request \<Rightarrow> bool" where
  \<comment> \<open>the caller is authorized, the node may trade, the session is with the expected account, the terminal and the account
      permit trading, and the terminal's own check of this request succeeded\<close>
  "accepted M token r \<longleftrightarrow> token = Some (mf_token (me_config M)) \<and> mf_token (me_config M) \<noteq> [] \<and> mf_allow_trading (me_config M)
     \<and> (\<exists>t a. me_account M t = Some a \<and> expected_login M = Inr (ma_login a) \<and> expected_account M a (ma_login a) \<and> ma_trade_allowed a \<and> ma_trade_expert a)
     \<and> (\<exists>t term. me_terminal M t = Some term \<and> mt_trade_allowed term)
     \<and> (\<exists>t c. me_check M t r = Some c \<and> mr_retcode c = 0)"

definition entry_order :: "mt5_env \<Rightarrow> pydict \<Rightarrow> trade_request \<Rightarrow> bool" where
  \<comment> \<open>a new position of the payload's symbol, volume and levels, within the limits the terminal reports for the symbol\<close>
  "entry_order M payload r \<longleftrightarrow> tr_position r = None \<and> tr_symbol r = symbol_name (dget payload ''symbol'')
     \<and> py_float (dget_or payload ''volume'' (PInt 0)) = Inr (tr_volume r)
     \<and> (\<exists>side. str_upper (str_strip (py_str (dget_or payload ''side'' (PStr [])))) = side \<and> side \<in> set [''BUY'', ''SELL'']
          \<and> tr_type r = (if side = ''BUY'' then mc_buy (me_constants M) else mc_sell (me_constants M)))
     \<and> \<not> tr_price r \<le> 0 \<and> optional_float payload ''stop_loss'' = Inr (tr_sl r) \<and> optional_float payload ''take_profit'' = Inr (tr_tp r)
     \<and> (\<exists>t info. me_symbol M t (tr_symbol r) = Some info \<and> validate_volume info (tr_volume r) = Inr ())"

definition closing_order :: "mt5_env \<Rightarrow> int \<Rightarrow> trade_request \<Rightarrow> bool" where
  \<comment> \<open>the whole volume of the first position the terminal reported for the ticket, on the other side\<close>
  "closing_order M ticket r \<longleftrightarrow>
     (\<exists>t p ps. me_position M t ticket = Some (p # ps) \<and> tr_position r = Some (mp_ticket p) \<and> tr_symbol r = mp_symbol p \<and> tr_volume r = mp_volume p
        \<and> tr_type r = (if mp_type p = mc_position_buy (me_constants M) then mc_sell (me_constants M) else mc_buy (me_constants M)))"

lemma body_available: "(\<And>v. x = Some v \<Longrightarrow> session_body good (f v)) \<Longrightarrow> session_body good (bindP (available x code detail) f)"
  by (cases x) (auto simp: available_def session_body_def triple_def refuse_def http_error_def bindP_def)

lemma body_lift_seq: "(\<And>x. r = Inr x \<Longrightarrow> session_body good k) \<Longrightarrow> session_body good (seqP (liftP r) k)"
  unfolding seqP_def by (rule body_lift)

lemma body_symbol:
  assumes "\<And>t info. me_symbol M t symbol = Some info \<Longrightarrow> session_body good (f info)"
  shows "session_body good (bindP (ensure_symbol M symbol) f)"
  unfolding ensure_symbol_def bindP_assoc seqP_bindP bindP_retP
proof (intro body_answer body_available body_seq)
  fix t1 info t2
  assume "me_symbol M t1 symbol = Some info"
  with assms show "session_body good (f (or_else (me_symbol M t2 symbol) info))"
    by (cases "me_symbol M t2 symbol") auto
qed auto

lemma body_allowed:
  assumes "\<And>t term. me_terminal M t = Some term \<Longrightarrow> mt_trade_allowed term \<Longrightarrow> ma_trade_allowed a \<Longrightarrow> ma_trade_expert a \<Longrightarrow> session_body good k"
  shows "session_body good (seqP (trading_allowed M a) k)"
  unfolding trading_allowed_def seqP_def bindP_assoc
  unfolding seqP_def [symmetric]
  by (intro body_answer body_require) (auto intro: assms split: option.splits)

lemma order_request_body:
  assumes "\<And>r. entry_order M payload r \<Longrightarrow> session_body good (f r)"
  shows "session_body good (bindP (order_request M payload) f)"
proof -
  have volume: "tryE v is_type_or_value (\<lambda>_. http_error 400 ''Invalid volume'') = Inr x \<Longrightarrow> v = Inr x" for v :: "pyfloat res" and x
    by (cases v) (auto simp: http_error_def split: if_splits)
  show ?thesis
    unfolding order_request_def Let_def seqP_bindP bindP_assoc bindP_retP
    by (intro body_require body_lift body_symbol body_answer body_available assms)
       (auto simp: entry_order_def dest: volume)
qed

lemma close_request_body:
  assumes "me_position M t ticket = Some (p # ps)" and "\<And>r. closing_order M ticket r \<Longrightarrow> session_body good (f r)"
  shows "session_body good (bindP (close_request M p) f)"
  unfolding close_request_def Let_def bindP_assoc bindP_retP
  by (intro body_symbol body_answer body_available assms(2)) (use assms(1) in \<open>auto simp: closing_order_def\<close>)

text \<open>
  C36. What the MT5 node does at the terminal for one request of the application. Every endpoint leaves the terminal
  with a log of one shape: nothing; a failed initialization; or one session, opened and always closed again, of reads and
  checks, with at most one order, sent last. Only an order endpoint with the bridge token sends one, and only when the
  node may trade, the session is with the expected login and server, the terminal and the account permit trading, and the
  terminal's check of the very same request, made just before, succeeded. An order opens the payload's symbol, side and
  volume with its levels, within the limits and the step the terminal reports for the symbol; a closing is for the whole
  volume of the position of the ticket, on the other side.
\<close>

theorem mt5_node_single_checked_order:
  "shaped (\<lambda>r. accepted M token r \<and> entry_order M payload r) (node_order M token payload)
   \<and> shaped (\<lambda>r. accepted M token r \<and> closing_order M ticket r) (node_close M token ticket)
   \<and> shaped (\<lambda>_. False) (node_order_check M token payload)
   \<and> shaped (\<lambda>_. False) (node_health M token) \<and> shaped (\<lambda>_. False) (node_account M token) \<and> shaped (\<lambda>_. False) (node_positions M token)
   \<and> shaped (\<lambda>_. False) (node_orders M token) \<and> shaped (\<lambda>_. False) (node_deals M token days) \<and> shaped (\<lambda>_. False) (node_candles M token symbol tf limit)
   \<and> shaped (\<lambda>_. False) (node_search M token symbol limit) \<and> shaped (\<lambda>_. False) (node_symbol M token symbol)"
proof -
  have order: "shaped (\<lambda>r. accepted M token r \<and> entry_order M payload r) (node_order M token payload)"
    unfolding node_order_def
    by (intro auth_shaped shaped_guard session_shaped body_allowed order_request_body body_send) (auto simp: accepted_def)
  have pick: "session_body good (case or_else found [] of [] \<Rightarrow> refuse code detail | p # ps \<Rightarrow> f p)"
    if "\<And>p ps. found = Some (p # ps) \<Longrightarrow> session_body good (f p)" for good found code detail and f :: "mt5_position \<Rightarrow> pydict nprog"
    using that by (cases found) (auto intro: body_reads split: list.split)
  have close: "shaped (\<lambda>r. accepted M token r \<and> closing_order M ticket r) (node_close M token ticket)"
    unfolding node_close_def
    by (intro auth_shaped shaped_guard session_shaped body_allowed body_answer pick, rule close_request_body, assumption, rule body_send)
       (auto simp: accepted_def)
  have reads_order_request: "keeps reads_more (\<lambda>_. True) (order_request M payload)"
    unfolding order_request_def by (auto simp: Let_def)
  have check: "shaped (\<lambda>_. False) (node_order_check M token payload)"
    unfolding node_order_check_def
    by (intro auth_shaped session_shaped body_reads) (auto intro!: reads_order_request)
  have "shaped (\<lambda>_. False) (node_health M token)" "shaped (\<lambda>_. False) (node_account M token)" "shaped (\<lambda>_. False) (node_positions M token)"
    "shaped (\<lambda>_. False) (node_orders M token)" "shaped (\<lambda>_. False) (node_deals M token days)" "shaped (\<lambda>_. False) (node_candles M token symbol tf limit)"
    "shaped (\<lambda>_. False) (node_search M token symbol limit)" "shaped (\<lambda>_. False) (node_symbol M token symbol)"
    unfolding node_health_def node_account_def node_positions_def node_orders_def node_deals_def node_candles_def node_search_def node_symbol_def Let_def
    by (intro auth_shaped session_shaped body_reads; auto)+
  with order close check show ?thesis by blast
qed

end
