(* ===== verification/Protection_Recovery.thy ===== *)
theory Protection_Recovery
  imports Protection
begin

text \<open>
  \<open>app/services/ibkr_protection_recovery.py\<close>: the explicit recovery of an entry whose protective pair was
  refused because its levels did not bracket the fill, while its audit document still says that the pair is
  being submitted. The workflow proves from the broker that no pair can exist, asks the bridge to verify
  the old levels again without permission to submit, and only then lets the ordinary protection run.
\<close>

section \<open>Written execution times\<close>

fun split_words :: "string \<Rightarrow> string \<Rightarrow> string list" where
  \<comment> \<open>\<open>text.split()\<close>, with the word read so far\<close>
  "split_words word [] = (if word = [] then [] else [word])"
| "split_words word (c # s) =
     (if is_space c then (if word = [] then split_words [] s else word # split_words [] s) else split_words (word @ [c]) s)"

definition digits_in :: "int \<Rightarrow> int \<Rightarrow> string \<Rightarrow> (int \<times> string) list" where
  \<comment> \<open>the alternatives of a two-digit field of \<open>strptime\<close>: two digits within the bounds, or one digit\<close>
  "digits_in lo hi s =
     (case s of a # b # r \<Rightarrow> (let v = int (nat_of_digits [a, b]) in if is_digit a \<and> is_digit b \<and> lo \<le> v \<and> v \<le> hi then [(v, r)] else []) | _ \<Rightarrow> [])
     @ (case s of a # r \<Rightarrow> (let v = int (nat_of_digits [a]) in if is_digit a \<and> lo \<le> v then [(v, r)] else []) | _ \<Rightarrow> [])"

definition day_in :: "string \<Rightarrow> (int \<times> string) list" where
  "day_in s = digits_in 1 31 s @ (case s of c # a # r \<Rightarrow> if c = CHR '' '' \<and> is_digit a \<and> a \<noteq> CHR ''0'' then [(int (nat_of_digits [a]), r)] else [] | _ \<Rightarrow> [])"

definition year_in :: "string \<Rightarrow> (int \<times> string) list" where
  "year_in s = (if 4 \<le> length s \<and> list_all is_digit (take 4 s) then [(int (nat_of_digits (take 4 s)), drop 4 s)] else [])"

definition blanks_in :: "string \<Rightarrow> string list" where
  \<comment> \<open>a blank of the format; the words are joined by one blank\<close>
  "blanks_in s = (case s of c # r \<Rightarrow> if is_space c then [r] else [] | _ \<Rightarrow> [])"

definition char_in :: "char \<Rightarrow> string \<Rightarrow> string list" where
  "char_in x s = (case s of c # r \<Rightarrow> if c = x then [r] else [] | _ \<Rightarrow> [])"

definition leap :: "int \<Rightarrow> bool" where
  "leap y \<longleftrightarrow> y mod 4 = 0 \<and> (y mod 100 \<noteq> 0 \<or> y mod 400 = 0)"

definition month_days :: "int \<Rightarrow> int list" where
  "month_days y = [31, if leap y then 29 else 28, 31, 30, 31, 30, 31, 31, 30, 31, 30, 31]"

definition utc_us :: "int \<Rightarrow> int \<Rightarrow> int \<Rightarrow> int \<Rightarrow> int \<Rightarrow> int \<Rightarrow> int option" where
  \<comment> \<open>a date and a time in UTC as microseconds of the epoch; None where \<open>datetime\<close> raises\<close>
  "utc_us y mo d h mi s =
     (if y < 1 \<or> month_days y ! nat (mo - 1) < d \<or> 59 < s then None
      else let before = 365 * (y - 1) + (y - 1) div 4 - (y - 1) div 100 + (y - 1) div 400;
               ordinal = before + sum_list (take (nat (mo - 1)) (month_days y)) + d
           in Some ((((ordinal - 719163) * 24 + h) * 60 + mi) * 60 * 1000000 + s * 1000000))"

definition parse_stamp :: "string \<Rightarrow> int option" where
  \<comment> \<open>\<open>datetime.strptime(text, '%Y%m%d %H:%M:%S').replace(tzinfo=timezone.utc)\<close>: the first match, which must end with the text\<close>
  "parse_stamp s =
     (case [(y, mo, d, h, mi, sec, r8). (y, r1) \<leftarrow> year_in s, (mo, r2) \<leftarrow> digits_in 1 12 r1, (d, r3) \<leftarrow> day_in r2, r4 \<leftarrow> blanks_in r3,
              (h, r5) \<leftarrow> digits_in 0 23 r4, r6 \<leftarrow> char_in CHR '':'' r5, (mi, r7) \<leftarrow> digits_in 0 59 r6, r7' \<leftarrow> char_in CHR '':'' r7,
              (sec, r8) \<leftarrow> digits_in 0 61 r7'] of
        [] \<Rightarrow> None
      | (y, mo, d, h, mi, sec, rest) # _ \<Rightarrow> if rest \<noteq> [] then None else utc_us y mo d h mi sec)"

section \<open>What the recovery requires\<close>

definition brackets :: "string option \<Rightarrow> pyfloat \<Rightarrow> pyfloat \<Rightarrow> pyfloat \<Rightarrow> bool" where
  "brackets side stop price target \<longleftrightarrow> (if side = Some ''BUY'' then stop < price \<and> price < target else target < price \<and> price < stop)"

definition rejected_levels :: "env \<Rightarrow> int \<Rightarrow> automation_action \<Rightarrow> (anchored_levels \<times> pydict \<times> pydict) res" where
  \<comment> \<open>the levels anchored at the fill, the audit document and the attempt it records\<close>
  "rejected_levels E now entry =
     bindE (fill_anchored_levels (en_parse_time E) entry now) (\<lambda>levels.
     bindE (bindE (json_loads (ac_raw_json entry)) as_dict) (\<lambda>raw.
     bindE (as_dict (py_or (dget raw ''native_protection'') (PDict []))) (\<lambda>prior.
       guardE (\<not> py_eq (dget prior ''status'') (PStr ''SUBMITTING'') \<or> \<not> py_eq (dget prior ''oca_group'') (PStr (protection_group entry))
               \<or> truth (dget prior ''order_ids'') \<or> truth (dget prior ''orders'') \<or> dget raw ''native_protection_levels'' \<noteq> PNone)
         (ValueError ''RECOVERY_UNRESOLVED_OR_EXISTING_PAIR_NOT_ELIGIBLE'')
      (guardE (brackets (ac_side entry) (an_original_stop levels) (an_fill_price levels) (an_original_target levels))
         (ValueError ''RECOVERY_ORIGINAL_LEVELS_COULD_HAVE_SUBMITTED'')
         (Inr (levels, raw, prior))))))"

definition raiseP :: "string \<Rightarrow> 'a prog" where
  "raiseP m = liftP (Inl (ValueError m))"

definition recovery_profile :: "automation_action \<Rightarrow> broker_profile prog" where
  \<comment> \<open>the locked profile, when this entry is its current one and nothing is pending\<close>
  "recovery_profile entry =
     bindP (case ac_broker_profile_id entry of None \<Rightarrow> retP None
            | Some i \<Rightarrow> bindP (getP (\<lambda>w. by_key bp_id i (db_profiles (w_db w)))) (\<lambda>row. case row of
                None \<Rightarrow> retP None | Some p \<Rightarrow> bindP (load_profile p) (\<lambda>p. retP (Some p)))) (\<lambda>found. case found of
       None \<Rightarrow> raiseP ''RECOVERY_PAPER_PROFILE_REQUIRED''
     | Some p \<Rightarrow>
         if \<not> protection_profile_ready entry p then raiseP ''RECOVERY_PAPER_PROFILE_REQUIRED''
         else bindP (getP (\<lambda>w. has_pending_exit p (ac_symbol entry) (w_db w))) (\<lambda>pending.
           if pending then raiseP ''RECOVERY_PENDING_EXIT_REQUIRES_RECONCILIATION''
           else bindP (getP (\<lambda>w. latest_entry (ac_user_id entry) (bp_id p) (ac_symbol entry) (w_db w))) (\<lambda>latest. case latest of
                None \<Rightarrow> raiseP ''RECOVERY_ENTRY_IS_NOT_CURRENT''
              | Some a \<Rightarrow> if ac_id a \<noteq> ac_id entry then raiseP ''RECOVERY_ENTRY_IS_NOT_CURRENT'' else retP p)))"

definition held_row :: "pyval \<Rightarrow> string \<Rightarrow> pydict \<Rightarrow> bool res" where
  "held_row account_id symbol p =
     (if \<not> py_eq (dget p ''account'') account_id \<or> \<not> py_eq (dget p ''symbol'') (PStr symbol) then Inr False
      else bindE (float_or0 (dget p ''quantity'')) (\<lambda>q. Inr (\<not> feq q 0)))"

definition position_cost :: "automation_action \<Rightarrow> anchored_levels \<Rightarrow> pyval \<Rightarrow> pydict list \<Rightarrow> pyfloat res" where
  \<comment> \<open>the average cost of the entry's position, which must be the fill up to a commission and outside the old levels\<close>
  "position_cost entry levels account_id positions =
     bindE (filterE (held_row account_id (ac_symbol entry)) positions) (\<lambda>matches. case matches of
       [m] \<Rightarrow>
         if \<not> py_eq (dget m ''sec_type'') (PStr ''STK'') \<or> \<not> py_eq (dget m ''currency'') (PStr ''USD'')
         then Inl (ValueError ''RECOVERY_POSITION_CHANGED'')
         else bindE (bindE (dsub m ''quantity'') py_float) (\<lambda>held.
              bindE (ibkr_quantities_match (PFloat held) (PFloat (signed (if ac_side entry = Some ''BUY'' then 1 else - 1) (an_quantity levels)))) (\<lambda>same.
                guardE (\<not> same) (ValueError ''RECOVERY_POSITION_CHANGED'')
               (bindE (float_or0 (dget m ''avg_cost'')) (\<lambda>cost.
                  guardE (\<not> isfinite cost \<or> pymax (fl (1 / 100)) (an_fill_price levels * fl (1 / 10000)) < fabs (cost - an_fill_price levels))
                    (ValueError ''RECOVERY_POSITION_COST_DOES_NOT_MATCH_FILL'')
                 (guardE (brackets (ac_side entry) (an_original_stop levels) cost (an_original_target levels))
                    (ValueError ''RECOVERY_ORIGINAL_LEVELS_COULD_HAVE_SUBMITTED'') (Inr cost))))))
     | _ \<Rightarrow> Inl (ValueError ''RECOVERY_POSITION_CHANGED''))"

fun later_executions :: "automation_action \<Rightarrow> pyval \<Rightarrow> pydict list \<Rightarrow> unit res" where
  \<comment> \<open>every other execution of the account in the symbol is older than the entry\<close>
  "later_executions entry account_id [] = Inr ()"
| "later_executions entry account_id (x # xs) =
     (if \<not> py_eq (dget x ''symbol'') (PStr (ac_symbol entry)) \<or> \<not> py_eq (dget x ''account'') account_id
         \<or> py_str (dget x ''order_id'') = py_str (opt_val PStr (ac_broker_order_id entry))
      then later_executions entry account_id xs
      else case parse_stamp (join '' '' (split_words [] (str_or_empty (dget x ''time'')))) of
          None \<Rightarrow> Inl (ValueError ''RECOVERY_EXECUTION_TIME_UNVERIFIED'')
        | Some observed \<Rightarrow> if ac_created_at entry \<le> observed then Inl (ValueError ''RECOVERY_OTHER_EXECUTIONS_REQUIRE_RECONCILIATION'')
                           else later_executions entry account_id xs)"

section \<open>The recovery\<close>

definition broker_proof :: "env \<Rightarrow> ibkr_client \<Rightarrow> automation_action \<Rightarrow> anchored_levels \<Rightarrow> pyval \<Rightarrow> pyfloat prog" where
  \<comment> \<open>what the bridge must show: a simulation, the position at the fill's cost, no order, no later execution\<close>
  "broker_proof E c entry levels account_id =
     bindP (bindP (ib_health E c) (\<lambda>h. liftP (as_dict h))) (\<lambda>health.
     if \<not> truth (dget health ''connected'') \<or> dget health ''simulation'' \<noteq> PBool True then raiseP ''RECOVERY_CONNECTED_PAPER_BRIDGE_REQUIRED''
     else bindP (bindP (ib_get E c ''/positions'' []) (\<lambda>d. liftP (object_rows d))) (\<lambda>positions.
     bindP (liftP (position_cost entry levels account_id positions)) (\<lambda>cost.
     bindP (bindP (ib_get E c ''/orders'' []) (\<lambda>d. liftP (object_rows d))) (\<lambda>orders.
     if list_ex (\<lambda>row. py_eq (dget row ''symbol'') (PStr (ac_symbol entry))) orders then raiseP ''RECOVERY_EXISTING_ORDERS_REQUIRE_RECONCILIATION''
     else bindP (bindP (ib_get E c ''/executions'' [(''days'', PInt 30)]) (\<lambda>d. liftP (object_rows d))) (\<lambda>fills.
     if ibkr_execution_timezone (en_settings E) \<notin> {''UTC'', ''Etc/UTC''} then raiseP ''RECOVERY_EXECUTION_TIMEZONE_UNVERIFIED''
     else bindP (liftP (later_executions entry account_id fills)) (\<lambda>_. retP cost))))))"

definition recovery_request :: "automation_action \<Rightarrow> anchored_levels \<Rightarrow> pyval \<Rightarrow> pydict" where
  "recovery_request entry levels account_id =
     [(''symbol'', PStr (ac_symbol entry)), (''account_id'', account_id),
      (''position_side'', PStr (if ac_side entry = Some ''BUY'' then ''LONG'' else ''SHORT'')), (''quantity'', PFloat (an_quantity levels)),
      (''stop_loss'', PFloat (an_original_stop levels)), (''take_profit'', PFloat (an_original_target levels)),
      (''entry_key'', PStr (id_text (ac_id entry))), (''existing_order_ids'', PList []), (''allow_submit'', PBool False)]"

definition bracket_refusal :: exn where
  "bracket_refusal = HTTPStatusError 400 (Some ''PROTECTION_LEVELS_DO_NOT_BRACKET_ENTRY'')"

definition confirm_rejection :: "env \<Rightarrow> ibkr_client \<Rightarrow> pydict \<Rightarrow> unit prog" where
  "confirm_rejection E c payload =
     bindP (tryP (bindP (ib_ensure_protection E c payload) (\<lambda>_. retP False)) (\<lambda>e. e = bracket_refusal) (\<lambda>_. retP True)) (\<lambda>rejected.
       if rejected then retP () else raiseP ''RECOVERY_PRE_SUBMISSION_REJECTION_NOT_CONFIRMED'')"

definition recovery_preview :: "automation_action \<Rightarrow> anchored_levels \<Rightarrow> pyfloat \<Rightarrow> pydict" where
  "recovery_preview entry levels cost =
     [(''mode'', PStr ''PREVIEW''), (''entry_id'', PStr (id_text (ac_id entry))), (''symbol'', PStr (ac_symbol entry)),
      (''levels'', PDict (levels_payload levels)), (''broker_average_cost'', PFloat cost),
      (''proof'', PStr ''INVALID_AT_VERIFIED_FILL_AND_MATCHING_POSITION_NO_ORDERS_EXACT_PRECHECK_400'')]"

definition recovered_document :: "pydict \<Rightarrow> pydict \<Rightarrow> anchored_levels \<Rightarrow> pydict \<Rightarrow> int \<Rightarrow> pydict" where
  \<comment> \<open>the audit document after the recovery: the new levels, what was recovered, and an attempt that never reached the broker\<close>
  "recovered_document raw prior levels preview now =
     dset ''native_protection''
       (PDict (dmerge prior [(''status'', PStr ''PRE_SUBMISSION_BLOCKED''), (''reason'', PStr ''VERIFIED_ORIGINAL_LEVELS_REJECTED_BEFORE_SUBMISSION'')]))
      (dset ''native_protection_recovery''
         (PDict (dmerge preview [(''mode'', PStr ''AUTHORIZED_PAPER_RECOVERY''), (''original_intent'', PDict prior), (''at'', PInt now)]))
        (dset ''native_protection_levels'' (PDict (levels_payload levels)) raw))"

definition apply_recovery :: "env \<Rightarrow> automation_action \<Rightarrow> pydict \<Rightarrow> pydict \<Rightarrow> anchored_levels \<Rightarrow> pydict \<Rightarrow> pydict prog" where
  \<comment> \<open>the decision is committed before the ordinary protection of the entry runs\<close>
  "apply_recovery E entry raw prior levels preview =
     bindP (now_ms E) (\<lambda>now.
       let entry = with_json (PDict (recovered_document raw prior levels preview now)) entry
       in seqP (seqP (write_audit entry) (commit E))
            (bindP (protect_saved_entry E (Some entry)) (\<lambda>result.
               retP (dmerge preview [(''mode'', PStr ''APPLIED''), (''result'', PDict result)]))))"

definition recover_rejected_levels :: "env \<Rightarrow> nat \<Rightarrow> bool \<Rightarrow> pydict prog" where
  "recover_rejected_levels E entry_id apply =
     (if \<not> ibkr_native_protection_enabled (en_settings E) then raiseP ''RECOVERY_NATIVE_PROTECTION_NOT_ENABLED''
      else bindP (refresh_action entry_id) (\<lambda>entry.
           bindP (now_ms E) (\<lambda>now.
           bindP (liftP (rejected_levels E now entry)) (\<lambda>(levels, raw, prior).
           bindP (recovery_profile entry) (\<lambda>p.
           bindP (liftP (secret_of E p)) (\<lambda>creds.
           bindP (liftP (ibkr_client_of creds)) (\<lambda>c.
           bindP (broker_proof E c entry levels (dget creds ''account_id'')) (\<lambda>cost.
           bindP (liftP (dsub creds ''account_id'')) (\<lambda>account_id.
           seqP (confirm_rejection E c (recovery_request entry levels account_id))
            (let preview = recovery_preview entry levels cost
             in if apply then apply_recovery E entry raw prior levels preview else retP preview))))))))))"

lemma stamp_examples: "parse_stamp ''20260731 14:05:09'' = Some 1785506709000000" "parse_stamp ''20260230 14:05:09'' = None"
  "parse_stamp ''20260731 14:05'' = None" "parse_stamp (join '' '' (split_words [] '' 20260731   14:05:09 '')) = Some 1785506709000000"
  by code_simp+

section \<open>What the recovery does\<close>

definition uncommitted :: "event list \<Rightarrow> bool" where
  "uncommitted es = list_all (\<lambda>e. case e of Committed _ \<Rightarrow> False | _ \<Rightarrow> True) es"

interpretation unsaved: trace_property uncommitted
  by unfold_locales (simp_all add: uncommitted_def)

lemma unsaved_http [intro!]: "emits uncommitted (http E base req)"
  by (rule unsaved.emits_http) (simp add: uncommitted_def)

lemma unsaved_ib_get [intro!]: "emits uncommitted (ib_get E c path params)"
  unfolding ib_get_def by auto

lemma unsaved_account_loop [intro!]: "emits uncommitted (account_loop E c n)"
  by (induction n) auto

lemma unsaved_ib_post [intro!]: "emits uncommitted (ib_post E c path payload)"
  unfolding ib_post_def ib_account_def by auto

lemma unsaved_ensure [intro!]: "emits uncommitted (ib_ensure_protection E c payload)"
  unfolding ib_ensure_protection_def reserved_def fails_def ib_health_def by auto

lemma unsaved_reads [intro!]: "emits uncommitted (refresh_action i)" "emits uncommitted (now_ms E)" "emits uncommitted (raiseP m)"
    "emits uncommitted (recovery_profile entry)" "emits uncommitted (broker_proof E c entry levels account_id)"
  unfolding refresh_action_def now_ms_def raiseP_def recovery_profile_def broker_proof_def ib_health_def by auto

lemma quiet_raiseP [intro!]: "emits no_orders (raiseP m)"
  unfolding raiseP_def by auto

lemma quiet_proof [intro!]: "emits no_orders (recovery_profile entry)" "emits no_orders (broker_proof E c entry levels account_id)"
  unfolding recovery_profile_def broker_proof_def by auto

definition verification :: "nat \<Rightarrow> event list \<Rightarrow> event \<Rightarrow> bool" where
  \<comment> \<open>a request about the entry's pair that may not place an order\<close>
  "verification entry_id pre ev \<longleftrightarrow> (\<exists>base payload d. ev = Sent base (Post ''/protection'' payload) d
     \<and> dget payload ''entry_key'' = PStr (id_text entry_id) \<and> dget payload ''allow_submit'' = PBool False)"

interpretation verified: guarded_order "one_order (verification entry_id)" for entry_id
  by (rule guarded_one_order) (simp add: verification_def)

definition verifying :: "nat \<Rightarrow> event list \<Rightarrow> bool" where
  "verifying entry_id es \<longleftrightarrow> one_order (verification entry_id) es \<and> uncommitted es"

lemma verifying_quiet: "no_orders es \<Longrightarrow> uncommitted es \<Longrightarrow> verifying entry_id es"
  by (simp add: verifying_def one_order_def)

lemma emits_both: "emits Q m \<Longrightarrow> emits R m \<Longrightarrow> emits (\<lambda>es. Q es \<and> R es) m"
  unfolding emits_def by (metis same_append_eq)

lemma request_verifies: "sends_to base ''/protection'' (recovery_request entry levels account_id) pre ev \<Longrightarrow> verification (ac_id entry) pre ev"
  by (auto simp: sends_to_def verification_def recovery_request_def dget_def)

lemma confirm_verifies: "emits (verifying (ac_id entry)) (confirm_rejection E c (recovery_request entry levels account_id))"
proof -
  have e: "emits (one_order (verification (ac_id entry))) (ib_ensure_protection E c (recovery_request entry levels account_id))"
    by (rule emits_mono [OF ensure_protection_sends], erule one_order_mono) (rule request_verifies)
  have o: "emits (one_order (verification (ac_id entry))) (confirm_rejection E c (recovery_request entry levels account_id))"
    unfolding confirm_rejection_def
    by (intro verified.before_quiet [OF verified.handled_quietly [OF verified.before_quiet [OF e]]]) auto
  have u: "emits uncommitted (confirm_rejection E c (recovery_request entry levels account_id))"
    unfolding confirm_rejection_def by auto
  from emits_both [OF o u] show ?thesis unfolding verifying_def by simp
qed

definition refused_by_bridge :: "env \<Rightarrow> bool" where
  \<comment> \<open>the bridge answered with the refusal that comes before anything is sent to the broker\<close>
  "refused_by_bridge E \<longleftrightarrow> (\<exists>t base req. en_http E t base req = Inl bracket_refusal)"

definition local_error :: "'a res \<Rightarrow> bool" where
  "local_error r \<longleftrightarrow> (\<forall>code detail. r \<noteq> Inl (HTTPStatusError code detail))"

lemma local_views: "local_error (as_dict v)" "local_error (as_list v)"
  by (cases v; simp add: local_error_def)+

lemma local_bindE: "local_error r \<Longrightarrow> (\<And>x. local_error (f x)) \<Longrightarrow> local_error (bindE r f)"
  by (cases r) (auto simp: local_error_def)

lemma local_Inr: "local_error (Inr x)" and local_dsub: "local_error (dsub d k)"
  by (simp_all add: local_error_def dsub_def split: option.split)

lemma local_vget: "local_error (vget v k)"
  unfolding vget_def by (intro local_bindE local_views local_Inr)

lemma local_if: "local_error r \<Longrightarrow> local_error q \<Longrightarrow> local_error (if b then r else q)"
  by simp

lemma local_mismatch: "local_error (Inl account_mismatch)" and local_runtime: "local_error (Inl (RuntimeError m))"
  by (simp_all add: local_error_def account_mismatch_def)

lemma local_mapE: "(\<And>x. local_error (f x)) \<Longrightarrow> local_error (mapE f xs)"
  by (induction xs) (simp_all add: local_Inr local_bindE)

lemmas local_rules = local_if local_bindE local_mapE local_views local_Inr local_dsub local_vget local_mismatch local_runtime

lemma local_checked_data: "local_error (checked_data c path data)"
  unfolding checked_data_def own_rows_def guardE_def by (intro local_rules)

definition bridge_refusal :: "env \<Rightarrow> exn \<Rightarrow> bool" where
  "bridge_refusal E e \<longleftrightarrow> (e = bracket_refusal \<longrightarrow> refused_by_bridge E)"

lemma raises_local: "local_error r \<Longrightarrow> raises (bridge_refusal E) (liftP r)"
  by (rule raises_liftP) (auto simp: local_error_def bridge_refusal_def bracket_refusal_def)

lemma raises_fails: "raises (bridge_refusal E) (fails m)"
  unfolding fails_def by (intro raises_local local_rules)

lemma raises_http: "raises (bridge_refusal E) (http E base req)"
  by (auto simp: raises_def http_def bridge_refusal_def refused_by_bridge_def)

lemma raises_ib_get: "raises (bridge_refusal E) (ib_get E c path params)"
  unfolding ib_get_def by (intro raises_bindP raises_http raises_local local_checked_data)

lemma raises_handled: "raises P m \<Longrightarrow> (\<And>e. raises P (h e)) \<Longrightarrow> raises P (tryP m p h)"
  unfolding raises_def by (auto simp: tryP_def split: prod.splits sum.splits if_splits)

lemma raises_account_loop: "raises (bridge_refusal E) (account_loop E c n)"
proof (induction n)
  case 0
  show ?case unfolding account_loop.simps by (intro raises_local local_rules)
next
  case (Suc n)
  show ?case unfolding account_loop.simps suspend_def
    by (intro raises_handled raises_ib_get raises_if raises_seqP raises_modP Suc raises_local local_rules)
qed

lemma raises_ensure: "raises (bridge_refusal E) (ib_ensure_protection E c payload)"
  unfolding ib_ensure_protection_def reserved_def ib_health_def ib_post_def ib_account_def simulation_health_def
  by (intro raises_rules raises_http raises_ib_get raises_account_loop raises_fails raises_local local_rules)

lemma confirmD: "confirm_rejection E c payload w = (Inr u, w') \<Longrightarrow> refused_by_bridge E"
  using raises_ensure [of E c payload]
  by (auto simp: confirm_rejection_def bindP_def tryP_def raises_def bridge_refusal_def raiseP_def split: prod.splits sum.splits if_splits)

definition own_protection :: "nat \<Rightarrow> event list \<Rightarrow> event \<Rightarrow> bool" where
  "own_protection entry_id pre ev \<longleftrightarrow> (\<exists>base entry. ac_id entry = entry_id \<and> protective_submission base entry pre ev)"

interpretation own: guarded_order "one_order (own_protection entry_id)" for entry_id
  by (rule guarded_one_order) (fastforce simp: own_protection_def protective_submission_def)

lemma protect_saved_own: "emits (one_order (own_protection (ac_id entry))) (protect_saved_entry E (Some entry))"
proof -
  have e: "emits (one_order (own_protection (ac_id entry))) (ensure_native_protection E c entry symbol side quantity account_id)"
    for c symbol side quantity account_id
    by (rule emits_mono [OF ensure_protection_guarded], erule one_order_mono) (auto simp: own_protection_def)
  show ?thesis
    unfolding protect_saved_entry_def option.case
    by ((rule own.guarded_option own.guarded_if own.guarded_retP own.handled_quietly [OF e] | (rule own.after_quiet, (force)[1]) | (force)[1])+)
qed

definition recovered :: "env \<Rightarrow> nat \<Rightarrow> db \<Rightarrow> bool" where
  \<comment> \<open>the entry's document holds levels anchored at the fill, and an attempt marked as refused before its submission; the
      levels it replaces did not bracket the fill\<close>
  "recovered E entry_id d \<longleftrightarrow> (\<exists>a raw np old now l. by_key ac_id entry_id (db_actions d) = Some a \<and> ac_raw_json a = Some (Json (PDict raw))
     \<and> dget raw ''native_protection'' = PDict np \<and> dget np ''status'' = PStr ''PRE_SUBMISSION_BLOCKED''
     \<and> ac_id old = entry_id \<and> fill_anchored_levels (en_parse_time E) old now = Inr l \<and> dget raw ''native_protection_levels'' = PDict (levels_payload l)
     \<and> \<not> brackets (ac_side old) (an_original_stop l) (an_fill_price l) (an_original_target l))"

definition recovery_trace :: "env \<Rightarrow> nat \<Rightarrow> bool \<Rightarrow> event list \<Rightarrow> bool" where
  "recovery_trace E entry_id apply es \<longleftrightarrow> verifying entry_id es
     \<or> apply \<and> refused_by_bridge E \<and> (\<exists>pre d post. es = pre @ Committed d # post \<and> verifying entry_id pre \<and> recovered E entry_id d
          \<and> one_order (own_protection entry_id) post)"

definition silent :: "event list \<Rightarrow> bool" where
  "silent es \<longleftrightarrow> no_orders es \<and> uncommitted es"

lemma silent_verifying: "silent xs \<Longrightarrow> verifying entry_id ys \<Longrightarrow> verifying entry_id (xs @ ys)"
  unfolding silent_def verifying_def using verified.G_prefix unsaved.Q_append by blast

lemma silent_trace: "silent xs \<Longrightarrow> recovery_trace E entry_id apply ys \<Longrightarrow> recovery_trace E entry_id apply (xs @ ys)"
proof -
  assume s: "silent xs" and "recovery_trace E entry_id apply ys"
  then consider "verifying entry_id ys"
    | pre d post where "apply" "refused_by_bridge E" "ys = pre @ Committed d # post" "verifying entry_id pre" "recovered E entry_id d"
        "one_order (own_protection entry_id) post"
    unfolding recovery_trace_def by blast
  then show ?thesis
  proof cases
    case 1
    with silent_verifying [OF s] show ?thesis by (simp add: recovery_trace_def)
  next
    case 2
    with silent_verifying [OF s] have "xs @ ys = (xs @ pre) @ Committed d # post" "verifying entry_id (xs @ pre)" by simp_all
    with 2 show ?thesis unfolding recovery_trace_def by blast
  qed
qed

lemma trace_of_silent: "silent es \<Longrightarrow> recovery_trace E entry_id apply es"
  by (simp add: recovery_trace_def silent_def verifying_quiet)

lemma after_silent:
  assumes m: "emits silent m" and f: "\<And>x w w'. m w = (Inr x, w') \<Longrightarrow> emits (recovery_trace E entry_id apply) (f x)"
  shows "emits (recovery_trace E entry_id apply) (bindP m f)"
  unfolding emits_def
proof
  fix w
  obtain r w1 where w1: "m w = (r, w1)" by (cases "m w")
  from emitsD [OF m w1] obtain es where es: "w_log w1 = w_log w @ es" "silent es" by blast
  show "\<exists>es. w_log (snd (bindP m f w)) = w_log w @ es \<and> recovery_trace E entry_id apply es"
  proof (cases r)
    case (Inl e)
    with w1 es trace_of_silent show ?thesis by (auto simp: bindP_def)
  next
    case (Inr x)
    obtain r2 w2 where w2: "f x w1 = (r2, w2)" by (cases "f x w1")
    from emitsD [OF f w2] w1 Inr obtain es' where "w_log w2 = w_log w1 @ es'" "recovery_trace E entry_id apply es'" by blast
    with w1 w2 es Inr silent_trace show ?thesis by (fastforce simp: bindP_def)
  qed
qed

lemma silentI: "emits no_orders m \<Longrightarrow> emits uncommitted m \<Longrightarrow> emits silent m"
  unfolding silent_def by (rule emits_both)

lemma trace_lift: "(\<And>x. r = Inr x \<Longrightarrow> emits (recovery_trace E entry_id apply) (f x)) \<Longrightarrow> emits (recovery_trace E entry_id apply) (bindP (liftP r) f)"
  by (rule after_silent) (auto intro!: silentI)

lemma recovered_written:
  assumes "write_audit (with_json (PDict (recovered_document raw prior levels preview now)) old) w = (Inr u, w')"
    and "fill_anchored_levels (en_parse_time E) old t = Inr levels"
    and "\<not> brackets (ac_side old) (an_original_stop levels) (an_fill_price levels) (an_original_target levels)"
  shows "recovered E (ac_id old) (w_db w') \<and> w_log w' = w_log w"
proof -
  let ?raw = "recovered_document raw prior levels preview now"
  from write_audit_saved [of "with_json (PDict ?raw) old" w w'] assms(1)
  obtain a where a: "by_key ac_id (ac_id old) (db_actions (w_db w')) = Some a" "ac_raw_json a = Some (Json (PDict ?raw))" and log: "w_log w' = w_log w"
    by (auto simp: with_json_def)
  have d: "dget ?raw ''native_protection'' = PDict (dmerge prior [(''status'', PStr ''PRE_SUBMISSION_BLOCKED''), (''reason'', PStr ''VERIFIED_ORIGINAL_LEVELS_REJECTED_BEFORE_SUBMISSION'')])"
      "dget ?raw ''native_protection_levels'' = PDict (levels_payload levels)"
    by (simp_all add: recovered_document_def)
  have s: "dget (dmerge prior [(''status'', PStr ''PRE_SUBMISSION_BLOCKED''), (''reason'', PStr r)]) ''status'' = PStr ''PRE_SUBMISSION_BLOCKED''" for r
    by (simp add: dmerge_def)
  show ?thesis
    unfolding recovered_def using a d s assms(2,3) log by blast
qed

definition applied :: "env \<Rightarrow> nat \<Rightarrow> event list \<Rightarrow> bool" where
  "applied E entry_id es \<longleftrightarrow> es = [] \<or> (\<exists>d post. es = Committed d # post \<and> recovered E entry_id d \<and> one_order (own_protection entry_id) post)"

lemma apply_applied:
  assumes "fill_anchored_levels (en_parse_time E) entry t = Inr levels"
    and "\<not> brackets (ac_side entry) (an_original_stop levels) (an_fill_price levels) (an_original_target levels)"
  shows "emits (applied E (ac_id entry)) (apply_recovery E entry raw prior levels preview)"
  unfolding emits_def
proof
  fix w :: world
  let ?now = "en_now E (w_tick w)"
  let ?a = "with_json (PDict (recovered_document raw prior levels preview ?now)) entry"
  let ?k = "bindP (protect_saved_entry E (Some ?a)) (\<lambda>result. retP (dmerge preview [(''mode'', PStr ''APPLIED''), (''result'', PDict result)]))"
  have run: "apply_recovery E entry raw prior levels preview w = seqP (write_audit ?a) (seqP (commit E) ?k) w"
    by (simp add: apply_recovery_def now_ms_def bindP_def seqP_def Let_def split: prod.split sum.split)
  obtain r w1 where w1: "write_audit ?a w = (r, w1)" by (cases "write_audit ?a w")
  show "\<exists>es. w_log (snd (apply_recovery E entry raw prior levels preview w)) = w_log w @ es \<and> applied E (ac_id entry) es"
  proof (cases r)
    case (Inl e)
    with w1 have "w_log w1 = w_log w" by (auto simp: write_audit_def bindP_def modify_db_def split: option.splits)
    with run w1 Inl show ?thesis by (auto simp: applied_def seqP_def bindP_def)
  next
    case (Inr u)
    with recovered_written [OF _ assms] w1 have rc: "recovered E (ac_id entry) (w_db w1)" "w_log w1 = w_log w" by blast+
    have own: "emits (one_order (own_protection (ac_id ?a))) ?k"
      by (intro own.before_quiet protect_saved_own) auto
    show ?thesis
    proof (cases "en_commit E (w_tick w1)")
      case False
      with run w1 Inr rc show ?thesis by (auto simp: applied_def seqP_def bindP_def commit_def)
    next
      case True
      let ?w2 = "w1\<lparr>w_log := w_log w1 @ [Committed (w_db w1)], w_saved := w_db w1\<rparr>"
      obtain r3 w3 where w3: "?k ?w2 = (r3, w3)" by (cases "?k ?w2")
      from emitsD [OF own w3] obtain post where post: "w_log w3 = w_log ?w2 @ post" "one_order (own_protection (ac_id ?a)) post" by blast
      have "apply_recovery E entry raw prior levels preview w = (r3, w3)"
        using run w1 Inr True w3 by (simp add: seqP_def bindP_def commit_def)
      with post rc show ?thesis
        by (intro exI [of _ "Committed (w_db w1) # post"]) (auto simp: applied_def with_json_def)
    qed
  qed
qed

lemma applied_trace:
  assumes "verifying entry_id xs" "applied E entry_id ys" "refused_by_bridge E"
  shows "recovery_trace E entry_id True (xs @ ys)"
  using assms unfolding applied_def recovery_trace_def by auto

lemma confirmed_then:
  assumes l: "fill_anchored_levels (en_parse_time E) entry t = Inr levels"
    and b: "\<not> brackets (ac_side entry) (an_original_stop levels) (an_fill_price levels) (an_original_target levels)"
  shows "emits (recovery_trace E (ac_id entry) apply)
     (seqP (confirm_rejection E c (recovery_request entry levels account_id))
        (if apply then apply_recovery E entry raw prior levels preview else retP preview))"
  unfolding emits_def
proof
  fix w
  let ?m = "confirm_rejection E c (recovery_request entry levels account_id)"
  let ?k = "if apply then apply_recovery E entry raw prior levels preview else retP preview"
  obtain r w1 where w1: "?m w = (r, w1)" by (cases "?m w")
  from emitsD [OF confirm_verifies w1] obtain xs where xs: "w_log w1 = w_log w @ xs" "verifying (ac_id entry) xs" by blast
  show "\<exists>es. w_log (snd (seqP ?m ?k w)) = w_log w @ es \<and> recovery_trace E (ac_id entry) apply es"
  proof (cases "\<exists>e. r = Inl e \<or> \<not> apply")
    case True
    with w1 xs show ?thesis by (cases r) (auto simp: seqP_def bindP_def recovery_trace_def)
  next
    case False
    then obtain u where u: "r = Inr u" "apply" by (cases r) auto
    with confirmD w1 have ref: "refused_by_bridge E" by blast
    obtain r2 w2 where w2: "apply_recovery E entry raw prior levels preview w1 = (r2, w2)" by (cases "apply_recovery E entry raw prior levels preview w1")
    from emitsD [OF apply_applied [OF l b] w2] obtain ys where "w_log w2 = w_log w1 @ ys" "applied E (ac_id entry) ys" by blast
    with w1 w2 u xs applied_trace [OF xs(2) _ ref] show ?thesis by (intro exI [of _ "xs @ ys"]) (auto simp: seqP_def bindP_def)
  qed
qed

lemma rejected_levelsD:
  assumes "rejected_levels E now entry = Inr (levels, raw, prior)"
  shows "fill_anchored_levels (en_parse_time E) entry now = Inr levels"
    and "\<not> brackets (ac_side entry) (an_original_stop levels) (an_fill_price levels) (an_original_target levels)"
  using assms unfolding rejected_levels_def by (auto simp: guardE_Inr_iff bindE_Inr_iff)

lemma trace_liftP: "emits (recovery_trace E entry_id apply) (liftP r)"
  by (simp add: emits_def recovery_trace_def verifying_quiet no_orders_def uncommitted_def)

text \<open>
  C34. The recovery of a refused protective pair never risks a second pair. A preview sends at most one
  request that could reach the order book, and that one asks to verify this entry's pair without
  permission to submit; it commits nothing. Applying the recovery sends more only after the bridge has answered with
  its exact refusal \<open>PROTECTION_LEVELS_DO_NOT_BRACKET_ENTRY\<close>, which comes before anything is sent to the broker, and
  after a commit whose database holds the new levels, anchored at the proven fill, for an entry whose old levels did
  not bracket that fill; from then on it is one ordinary protection of the same entry, with its own intent
  committed first. This holds whatever the bridge answers, whichever commits fail and whatever other tasks commit.
\<close>

theorem recovery_never_doubles:
  "\<exists>es. w_log (snd (recover_rejected_levels E entry_id apply w)) = w_log w @ es \<and> recovery_trace E entry_id apply es"
proof -
  have tail: "emits (recovery_trace E entry_id apply)
      (case plan of (levels, raw, prior) \<Rightarrow> bindP (recovery_profile entry) (\<lambda>p. bindP (liftP (secret_of E p)) (\<lambda>creds.
         bindP (liftP (ibkr_client_of creds)) (\<lambda>c. bindP (broker_proof E c entry levels (dget creds ''account_id'')) (\<lambda>cost.
         bindP (liftP (dsub creds ''account_id'')) (\<lambda>account_id. seqP (confirm_rejection E c (recovery_request entry levels account_id))
           (if apply then apply_recovery E entry raw prior levels (recovery_preview entry levels cost)
            else retP (recovery_preview entry levels cost))))))))"
    if "ac_id entry = entry_id" "rejected_levels E now entry = Inr plan" for entry now plan
  proof (cases plan)
    case (fields levels raw prior)
    with rejected_levelsD that(2) have l: "fill_anchored_levels (en_parse_time E) entry now = Inr levels"
        "\<not> brackets (ac_side entry) (an_original_stop levels) (an_fill_price levels) (an_original_target levels)" by blast+
    show ?thesis
      unfolding fields split that(1) [symmetric]
      by (intro after_silent silentI confirmed_then [OF l]) auto
  qed
  have "ac_id entry = entry_id" if "refresh_action entry_id w = (Inr entry, w')" for entry w w'
    using refresh_actionD [OF that] by_key_SomeD by metis
  then have "emits (recovery_trace E entry_id apply) (recover_rejected_levels E entry_id apply)"
    unfolding recover_rejected_levels_def raiseP_def Let_def
    by (cases "ibkr_native_protection_enabled (en_settings E)")
       (simp_all, (rule trace_liftP after_silent silentI tail trace_lift | (auto)[1])+)
  then show ?thesis unfolding emits_def by blast
qed

end
