(* ===== verification/Passwords.thy ===== *)
theory Passwords
  imports Py_Value "HOL-Library.Word"
begin

text \<open>
  \<open>app/core/security.py\<close>: password hashes and session tokens. PBKDF2 and HMAC of the standard library are
  arguments, and so are the random bytes; base64, the text format of a hash and its reading are the model's.
\<close>

section \<open>Base64\<close>

type_synonym byte = "8 word"

definition STANDARD_ALPHABET :: string where
  "STANDARD_ALPHABET = ''ABCDEFGHIJKLMNOPQRSTUVWXYZabcdefghijklmnopqrstuvwxyz0123456789+/''"

definition sextet_char :: "nat \<Rightarrow> char" where
  "sextet_char n = STANDARD_ALPHABET ! n"

fun b64encode :: "byte list \<Rightarrow> string" where
  "b64encode [] = []"
| "b64encode [a] = (let x = unat a in [sextet_char (x div 4), sextet_char (x mod 4 * 16), CHR ''='', CHR ''=''])"
| "b64encode [a, b] = (let x = unat a; y = unat b
     in [sextet_char (x div 4), sextet_char (x mod 4 * 16 + y div 16), sextet_char (y mod 16 * 4), CHR ''=''])"
| "b64encode (a # b # c # bs) = (let x = unat a; y = unat b; z = unat c
     in sextet_char (x div 4) # sextet_char (x mod 4 * 16 + y div 16) # sextet_char (y mod 16 * 4 + z div 64) # sextet_char (z mod 64) # b64encode bs)"

definition urlsafe_b64encode :: "byte list \<Rightarrow> string" where
  "urlsafe_b64encode bs = map (\<lambda>c. if c = CHR ''+'' then CHR ''-'' else if c = CHR ''/'' then CHR ''_'' else c) (b64encode bs)"

definition index_of :: "char \<Rightarrow> string \<Rightarrow> nat option" where
  "index_of c s = (let i = length (takeWhile (\<lambda>d. d \<noteq> c) s) in if i < length s then Some i else None)"

fun a2b :: "nat \<Rightarrow> nat \<Rightarrow> nat \<Rightarrow> string \<Rightarrow> byte list res" where
  \<comment> \<open>\<open>binascii.a2b_base64\<close>, not strict: the place within a group of four, the bits left over, the pads seen;
      characters outside the alphabet are skipped, a complete padding ends the text\<close>
  "a2b quad left pads [] = (if quad = 0 then Inr [] else Inl (ValueError ''binascii.Error''))"
| "a2b quad left pads (c # s) =
     (if c = CHR ''='' then (if 2 \<le> quad then (if 4 \<le> quad + pads + 1 then Inr [] else a2b quad left (pads + 1) s) else a2b quad left pads s)
      else case index_of c STANDARD_ALPHABET of
          None \<Rightarrow> a2b quad left pads s
        | Some v \<Rightarrow>
            if quad = 0 then a2b 1 v 0 s
            else if quad = 1 then bindE (a2b 2 (v mod 16) 0 s) (\<lambda>bs. Inr (of_nat (left * 4 + v div 16) # bs))
            else if quad = 2 then bindE (a2b 3 (v mod 4) 0 s) (\<lambda>bs. Inr (of_nat (left * 16 + v div 4) # bs))
            else bindE (a2b 0 0 0 s) (\<lambda>bs. Inr (of_nat (left * 64 + v) # bs)))"

definition urlsafe_b64decode :: "string \<Rightarrow> byte list res" where
  "urlsafe_b64decode s = a2b 0 0 0 (map (\<lambda>c. if c = CHR ''-'' then CHR ''+'' else if c = CHR ''_'' then CHR ''/'' else c) s)"

section \<open>Passwords and tokens\<close>

record secrets_env =
  sc_pbkdf2 :: "string \<Rightarrow> byte list \<Rightarrow> int \<Rightarrow> byte list"  \<comment> \<open>\<open>hashlib.pbkdf2_hmac('sha256', password, salt, iterations)\<close>\<close>
  sc_salt :: "nat \<Rightarrow> byte list"                        \<comment> \<open>\<open>secrets.token_bytes(16)\<close>\<close>
  sc_token :: "nat \<Rightarrow> string"                          \<comment> \<open>\<open>secrets.token_urlsafe(48)\<close>\<close>
  sc_hmac :: "string \<Rightarrow> string \<Rightarrow> string"              \<comment> \<open>\<open>hmac.new(secret, token, sha256).hexdigest()\<close>\<close>

definition PBKDF2_ITERATIONS :: int where "PBKDF2_ITERATIONS = 600000"
definition PASSWORD_SCHEME :: string where "PASSWORD_SCHEME = ''pbkdf2_sha256''"

definition hash_password :: "secrets_env \<Rightarrow> string \<Rightarrow> byte list \<Rightarrow> string res" where
  "hash_password S password salt =
     (if password = [] then Inl (ValueError ''password must not be empty'')
      else Inr (join ''$'' [PASSWORD_SCHEME, show_int PBKDF2_ITERATIONS, urlsafe_b64encode salt,
                  urlsafe_b64encode (sc_pbkdf2 S password salt PBKDF2_ITERATIONS)]))"

fun split_at :: "char \<Rightarrow> nat \<Rightarrow> string \<Rightarrow> string list" where
  \<comment> \<open>\<open>text.split(sep, limit)\<close>\<close>
  "split_at sep n [] = [[]]"
| "split_at sep n (c # s) =
     (if c = sep \<and> n > 0 then [] # split_at sep (n - 1) s
      else case split_at sep n s of [] \<Rightarrow> [[c]] | w # ws \<Rightarrow> (c # w) # ws)"

definition is_ascii :: "string \<Rightarrow> bool" where
  "is_ascii s = list_all (\<lambda>c. ord_of c < 128) s"

definition read_hash :: "string \<Rightarrow> (int \<times> byte list \<times> byte list) option" where
  \<comment> \<open>the \<open>try\<close> of \<open>verify_password\<close>: None where it returns False\<close>
  "read_hash encoded =
     (case split_at (CHR ''$'') 3 encoded of
        [scheme, iteration_text, salt_text, digest_text] \<Rightarrow>
          if scheme \<noteq> PASSWORD_SCHEME then None
          else (case parse_int iteration_text of None \<Rightarrow> None | Some iterations \<Rightarrow>
                 if \<not> is_ascii salt_text then None else
                 (case urlsafe_b64decode salt_text of Inl _ \<Rightarrow> None | Inr salt \<Rightarrow>
                   if \<not> is_ascii digest_text then None else
                   (case urlsafe_b64decode digest_text of Inl _ \<Rightarrow> None | Inr digest \<Rightarrow> Some (iterations, salt, digest))))
      | _ \<Rightarrow> None)"

definition verify_password :: "secrets_env \<Rightarrow> string \<Rightarrow> string \<Rightarrow> bool res" where
  \<comment> \<open>PBKDF2 refuses a count below one, outside the \<open>try\<close>\<close>
  "verify_password S password encoded =
     (case read_hash encoded of None \<Rightarrow> Inr False
      | Some (iterations, salt, expected) \<Rightarrow>
          if iterations < 1 then Inl (ValueError ''iteration value must be greater than 0.'')
          else Inr (sc_pbkdf2 S password salt iterations = expected))"

lemma b64_examples: "urlsafe_b64encode [251, 255, 1, 2] = ''-_8BAg==''" "urlsafe_b64decode ''-_8BAg=='' = Inr [251, 255, 1, 2]"
  "urlsafe_b64decode ''-_8B?Ag=='' = Inr [251, 255, 1, 2]" "urlsafe_b64decode ''-_8BA'' = Inl (ValueError ''binascii.Error'')"
  by code_simp+

section \<open>Round trips\<close>

lemma alphabet_all: "list_all (\<lambda>n. index_of (sextet_char n) STANDARD_ALPHABET = Some n \<and> sextet_char n \<noteq> CHR ''='' \<and> sextet_char n \<noteq> CHR ''-''
    \<and> sextet_char n \<noteq> CHR ''_'' \<and> sextet_char n \<noteq> CHR ''$'' \<and> ord_of (sextet_char n) < 128) [0..<64]"
  by code_simp

lemma alphabet: "n < 64 \<Longrightarrow> index_of (sextet_char n) STANDARD_ALPHABET = Some n" "n < 64 \<Longrightarrow> sextet_char n \<noteq> CHR ''=''"
    "n < 64 \<Longrightarrow> sextet_char n \<noteq> CHR ''-''" "n < 64 \<Longrightarrow> sextet_char n \<noteq> CHR ''_''" "n < 64 \<Longrightarrow> sextet_char n \<noteq> CHR ''$''"
    "n < 64 \<Longrightarrow> ord_of (sextet_char n) < 128"
  using alphabet_all by (auto simp: list_all_iff)

lemma byte_bound: "unat (a :: byte) < 256"
  using unsigned_less [of a] by simp

lemma div_lt16: "y < 256 \<Longrightarrow> y div 16 < (16 :: nat)" and div_lt64: "y < 256 \<Longrightarrow> y div 64 < (4 :: nat)" 
  by auto

lemma small_mod4: "x mod 4 \<le> (3 :: nat)" and small_mod16: "x mod 16 \<le> (15 :: nat)"
  using mod_less_divisor [of 4 x] mod_less_divisor [of 16 x] by linarith+

lemma sextet1: "x < 256 \<Longrightarrow> x div 4 < (64 :: nat)" 
  by auto

lemma sextet2: "y < 256 \<Longrightarrow> x mod 4 * 16 + y div 16 < (64 :: nat)" 
  using small_mod4 [of x] div_lt16 [of y] by linarith

lemma sextet3: "z < 256 \<Longrightarrow> y mod 16 * 4 + z div 64 < (64 :: nat)"
  using small_mod16 [of y] div_lt64 [of z] by linarith

lemma sextet4: "x mod 4 * 16 < (64 :: nat)" "y mod 16 * 4 < (64 :: nat)" "z mod 64 < (64 :: nat)"
  using small_mod4 [of x] small_mod16 [of y] by simp_all

lemma sextet_parts: "y < 256 \<Longrightarrow> (x mod 4 * 16 + y div 16) div 16 = x mod (4 :: nat)" 
    "y < 256 \<Longrightarrow> (x mod 4 * 16 + y div 16) mod 16 = (y div 16 :: nat)"
    "z < 256 \<Longrightarrow> (y mod 16 * 4 + z div 64) div 4 = (y mod 16 :: nat)"
    "z < 256 \<Longrightarrow> (y mod 16 * 4 + z div 64) mod 4 = (z div 64 :: nat)"
  using div_lt16 [of y] div_lt64 [of z] by (simp_all add: less_mult_imp_div_less)

lemmas sextets = sextet1 sextet2 sextet3 sextet4

lemma b64encode_chars: "list_all (\<lambda>c. c = CHR ''='' \<or> c \<in> sextet_char ` {..<64}) (b64encode bs)"
proof (induction bs rule: b64encode.induct)
  case (2 a)
  show ?case by (auto simp: Let_def intro!: imageI sextets byte_bound)
next
  case (3 a b)
  show ?case by (auto simp: Let_def intro!: imageI sextets byte_bound)
next
  case (4 a b c bs)
  then show ?case by (auto simp: Let_def intro!: imageI sextets byte_bound)
qed simp

lemma a2b_sextet: "v < 64 \<Longrightarrow> a2b quad left pads (sextet_char v # s) =
     (if quad = 0 then a2b 1 v 0 s
      else if quad = 1 then bindE (a2b 2 (v mod 16) 0 s) (\<lambda>bs. Inr (of_nat (left * 4 + v div 16) # bs))
      else if quad = 2 then bindE (a2b 3 (v mod 4) 0 s) (\<lambda>bs. Inr (of_nat (left * 16 + v div 4) # bs))
      else bindE (a2b 0 0 0 s) (\<lambda>bs. Inr (of_nat (left * 64 + v) # bs)))"
  unfolding a2b.simps by (simp add: alphabet)

lemma a2b_encode: "a2b 0 0 0 (b64encode bs) = Inr bs"
proof (induction bs rule: b64encode.induct)
  case (2 a)
  show ?case using byte_bound [of a] by (simp add: Let_def a2b_sextet sextets del: a2b.simps) simp
next
  case (3 a b)
  show ?case using byte_bound [of a] byte_bound [of b] by (simp add: Let_def a2b_sextet sextets sextet_parts del: a2b.simps) simp
next
  case (4 a b c bs)
  then show ?case using byte_bound [of a] byte_bound [of b] byte_bound [of c] by (simp add: Let_def a2b_sextet sextets sextet_parts del: a2b.simps)
qed simp

lemma urlsafe_round_trip: "urlsafe_b64decode (urlsafe_b64encode bs) = Inr bs"
proof -
  have "map ((\<lambda>c. if c = CHR ''-'' then CHR ''+'' else if c = CHR ''_'' then CHR ''/'' else c) \<circ>
      (\<lambda>c. if c = CHR ''+'' then CHR ''-'' else if c = CHR ''/'' then CHR ''_'' else c)) (b64encode bs) = b64encode bs"
  proof (rule map_idI)
    fix c assume "c \<in> set (b64encode bs)"
    then have "c = CHR ''='' \<or> (\<exists>n < 64. c = sextet_char n)" using b64encode_chars [of bs] by (auto simp: list_all_iff)
    with alphabet(3,4) have "c \<noteq> CHR ''-'' \<and> c \<noteq> CHR ''_''" by auto
    then show "((\<lambda>c. if c = CHR ''-'' then CHR ''+'' else if c = CHR ''_'' then CHR ''/'' else c) \<circ>
      (\<lambda>c. if c = CHR ''+'' then CHR ''-'' else if c = CHR ''/'' then CHR ''_'' else c)) c = c" by auto
  qed
  then show ?thesis by (simp add: urlsafe_b64decode_def urlsafe_b64encode_def a2b_encode)
qed

lemma urlsafe_chars: "c \<in> set (urlsafe_b64encode bs) \<Longrightarrow> c \<noteq> CHR ''$'' \<and> ord_of c < 128"
proof -
  assume "c \<in> set (urlsafe_b64encode bs)"
  then obtain d where d: "d \<in> set (b64encode bs)" and c: "c = (if d = CHR ''+'' then CHR ''-'' else if d = CHR ''/'' then CHR ''_'' else d)"
    unfolding urlsafe_b64encode_def set_map by (rule imageE)
  from d have "d = CHR ''='' \<or> (\<exists>n < 64. d = sextet_char n)" using b64encode_chars [of bs] by (auto simp: list_all_iff)
  with alphabet(5,6) have "d \<noteq> CHR ''$'' \<and> ord_of d < 128" by (auto simp: ord_of_def)
  with c show ?thesis by (auto simp: ord_of_def)
qed

lemma split_at_word: "CHR ''$'' \<notin> set a \<Longrightarrow> split_at (CHR ''$'') n a = [a]"
  by (induction a) auto

lemma split_at_first: "CHR ''$'' \<notin> set a \<Longrightarrow> split_at (CHR ''$'') (Suc n) (a @ CHR ''$'' # s) = a # split_at (CHR ''$'') n s"
  by (induction a) auto

lemma shown_iterations: "show_int PBKDF2_ITERATIONS = ''600000''"
  by code_simp

lemma read_iterations: "parse_int ''600000'' = Some PBKDF2_ITERATIONS"
proof -
  have "take_sign (str_strip ''600000'') = (1, ''600000'')" "drop_underscores False ''600000'' = Some ''600000''" "list_all is_digit ''600000''"
    by code_simp+
  moreover have "nat_of_digits ''600000'' = 600000"
    by (simp add: nat_of_digits_def digit_val_def ord_of_def)
  ultimately show ?thesis by (simp add: parse_int_def PBKDF2_ITERATIONS_def)
qed

lemma hash_read:
  assumes "hash_password S password salt = Inr encoded"
  shows "read_hash encoded = Some (PBKDF2_ITERATIONS, salt, sc_pbkdf2 S password salt PBKDF2_ITERATIONS)"
proof -
  let ?d = "sc_pbkdf2 S password salt PBKDF2_ITERATIONS"
  have i: "CHR ''$'' \<notin> set PASSWORD_SCHEME" "CHR ''$'' \<notin> set ''600000''"
    by (simp_all add: PASSWORD_SCHEME_def)
  have c: "CHR ''$'' \<notin> set (urlsafe_b64encode bs)" "is_ascii (urlsafe_b64encode bs)" for bs
    using urlsafe_chars by (auto simp: is_ascii_def list_all_iff)
  have "encoded = PASSWORD_SCHEME @ CHR ''$'' # ''600000'' @ CHR ''$'' # urlsafe_b64encode salt @ CHR ''$'' # urlsafe_b64encode ?d"
    using assms by (auto simp: hash_password_def join_def shown_iterations split: if_splits)
  then have "split_at (CHR ''$'') 3 encoded = [PASSWORD_SCHEME, ''600000'', urlsafe_b64encode salt, urlsafe_b64encode ?d]"
    using split_at_first [OF i(1)] split_at_first [OF i(2)] split_at_first [OF c(1)] split_at_word [OF c(1)] by (simp add: numeral_3_eq_3)
  then show ?thesis by (simp add: read_hash_def read_iterations c(2) urlsafe_round_trip)
qed

text \<open>
  C35. A stored password hash verifies exactly the passwords with the same PBKDF2 digest: for every salt and every
  non-empty password, \<open>hash_password\<close> gives a text that \<open>verify_password\<close> reads back to the very salt, count and
  digest (base64 and the \<open>$\<close> format lose nothing), so the password itself verifies, another one verifies only when its
  digest under that salt is equal, and reading never raises. An empty password has no hash.
\<close>

theorem password_hash_round_trip:
  "case hash_password S password salt of
     Inl e \<Rightarrow> password = [] \<and> e = ValueError ''password must not be empty''
   | Inr encoded \<Rightarrow> password \<noteq> [] \<and> starts_with ''pbkdf2_sha256$600000$'' encoded
       \<and> (\<forall>other. verify_password S other encoded
            = Inr (sc_pbkdf2 S other salt PBKDF2_ITERATIONS = sc_pbkdf2 S password salt PBKDF2_ITERATIONS))"
proof (cases "hash_password S password salt")
  case (Inl e)
  then show ?thesis by (auto simp: hash_password_def split: if_splits)
next
  case (Inr encoded)
  have "\<not> PBKDF2_ITERATIONS < 1" by (simp add: PBKDF2_ITERATIONS_def)
  with hash_read [OF Inr] have "verify_password S other encoded
      = Inr (sc_pbkdf2 S other salt PBKDF2_ITERATIONS = sc_pbkdf2 S password salt PBKDF2_ITERATIONS)" for other
    by (simp add: verify_password_def)
  moreover have "password \<noteq> []" "starts_with ''pbkdf2_sha256$600000$'' encoded"
    using Inr by (auto simp: hash_password_def join_def shown_iterations PASSWORD_SCHEME_def starts_with_def split: if_splits)
  ultimately show ?thesis using Inr by simp
qed

end
