(* ===== verification/Sessions.thy ===== *)
theory Sessions
  imports Programs Controls Passwords
begin

text \<open>
  Users and their sessions: \<open>app/services/auth.py\<close>, \<open>app/api/dependencies.py\<close>, \<open>app/api/routes_auth.py\<close> and
  \<open>app/api/routes_admin.py\<close>. A request of the API is a program over its database session: the rows as the
  session sees them and as they are committed. Requests run one after another; the validation of their
  bodies by the framework is left out unless a rule of it matters.
\<close>

section \<open>The database of the control plane\<close>

datatype user_role = ADMIN | USER

fun role_text :: "user_role \<Rightarrow> string" where
  "role_text ADMIN = ''ADMIN''"
| "role_text USER = ''USER''"

record client =
  cl_ip :: "string option"
  cl_agent :: "string option"

record user_session =
  se_id :: nat
  se_user_id :: nat
  se_token_hash :: string
  se_expires_at :: int
  se_revoked_at :: "int option"
  se_client :: client

record auth_audit =
  al_user_id :: "nat option"
  al_action :: string
  al_success :: bool
  al_detail :: "string option"
  al_client :: client

record live_event =
  le_profile_id :: nat
  le_owner_user_id :: nat
  le_actor_user_id :: nat
  le_action :: string
  le_reason :: "string option"
  le_armed_until :: "int option"

record strategy_revision =
  rv_id :: nat
  rv_strategy_id :: nat
  rv_number :: nat
  rv_user_id :: nat
  rv_actor_user_id :: nat
  rv_profile_id :: nat
  rv_event :: string
  rv_reason :: "string option"
  rv_snapshot :: symbol_strategy
  rv_restored_from :: "int option"

record plane =
  pl_db :: db
  pl_sessions :: "user_session list"
  pl_audit :: "auth_audit list"
  pl_live :: "live_event list"
  pl_revisions :: "strategy_revision list"

record server =
  sv_now :: plane    \<comment> \<open>as the session of the running request sees the database\<close>
  sv_saved :: plane  \<comment> \<open>as it is committed\<close>
  sv_tick :: nat

record plane_env =
  pe_secrets :: secrets_env
  pe_now :: "nat \<Rightarrow> int" \<comment> \<open>microseconds\<close>
  pe_commit :: "nat \<Rightarrow> bool"
  pe_session_secret :: string
  pe_session_ttl_hours :: int
  pe_allow_live_trading :: bool

type_synonym 'a request_prog = "(server, 'a) sprog"

definition nobody :: client where "nobody = \<lparr>cl_ip = None, cl_agent = None\<rparr>"

definition tick :: "unit request_prog" where
  "tick = modP (\<lambda>s. s\<lparr>sv_tick := sv_tick s + 1\<rparr>)"

definition clock :: "plane_env \<Rightarrow> int request_prog" where
  "clock P = bindP (getP (\<lambda>s. pe_now P (sv_tick s))) (\<lambda>t. seqP tick (retP t))"

definition look :: "(plane \<Rightarrow> 'a) \<Rightarrow> 'a request_prog" where
  "look g = getP (\<lambda>s. g (sv_now s))"

definition put :: "(plane \<Rightarrow> plane) \<Rightarrow> unit request_prog" where
  \<comment> \<open>changes the session flushes, at the latest with its commit\<close>
  "put f = modP (\<lambda>s. s\<lparr>sv_now := f (sv_now s)\<rparr>)"

definition save :: "plane_env \<Rightarrow> unit request_prog" where
  "save P = (\<lambda>s. if pe_commit P (sv_tick s) then (Inr (), s\<lparr>sv_saved := sv_now s, sv_tick := sv_tick s + 1\<rparr>)
                else (Inl SQLAlchemyError, s\<lparr>sv_tick := sv_tick s + 1\<rparr>))"

definition users_of :: "plane \<Rightarrow> user list" where "users_of p = db_users (pl_db p)"

definition on_db :: "(db \<Rightarrow> db) \<Rightarrow> plane \<Rightarrow> plane" where "on_db f p = p\<lparr>pl_db := f (pl_db p)\<rparr>"

section \<open>Audit, users, sessions\<close>

definition audited :: "string \<Rightarrow> bool \<Rightarrow> nat option \<Rightarrow> string option \<Rightarrow> client \<Rightarrow> plane \<Rightarrow> plane" where
  \<comment> \<open>\<open>write_auth_audit\<close>\<close>
  "audited action success user_id detail c p =
     p\<lparr>pl_audit := pl_audit p @ [\<lparr>al_user_id = user_id, al_action = action, al_success = success, al_detail = detail, al_client = c\<rparr>]\<rparr>"

definition normal_name :: "string \<Rightarrow> string" where "normal_name s = str_lower (str_strip s)"

definition normal_email :: "string option \<Rightarrow> string option" where
  "normal_email e = (case e of None \<Rightarrow> None | Some s \<Rightarrow> if s = [] then None else Some (normal_name s))"

definition refuse_value :: "bool \<Rightarrow> string \<Rightarrow> unit request_prog" where
  \<comment> \<open>\<open>if b: raise ValueError(...)\<close>\<close>
  "refuse_value b m = (if b then liftP (Inl (ValueError m)) else retP ())"

definition added_user :: "user \<Rightarrow> plane \<Rightarrow> plane" where
  "added_user u = on_db (\<lambda>d. d\<lparr>db_users := db_users d @ [u], db_next_id := db_next_id d + 1\<rparr>)"

definition create_user :: "plane_env \<Rightarrow> string \<Rightarrow> string \<Rightarrow> string \<Rightarrow> string option \<Rightarrow> nat option \<Rightarrow> user request_prog" where
  "create_user P username password role email actor =
     (let name = normal_name username
      in seqP (refuse_value (length name < 3) ''username must contain at least 3 characters'')
        (seqP (refuse_value (length password < 12) ''password must contain at least 12 characters'')
        (bindP (look users_of) (\<lambda>users.
         seqP (refuse_value (\<exists>u \<in> set users. us_username u = name) ''username already exists'')
        (seqP (refuse_value (normal_email email \<noteq> None \<and> (\<exists>u \<in> set users. us_email u = normal_email email)) ''email already exists'')
        (seqP (refuse_value (role \<notin> {''ADMIN'', ''USER''}) ''invalid role'')
        (bindP (getP sv_tick) (\<lambda>t. seqP tick
        (bindP (liftP (hash_password (pe_secrets P) password (sc_salt (pe_secrets P) t))) (\<lambda>hash.
         bindP (look (\<lambda>p. db_next_id (pl_db p))) (\<lambda>i.
         let u = \<lparr>us_id = i, us_username = name, us_email = normal_email email, us_password_hash = hash, us_role = role, us_is_active = True\<rparr>
         in seqP (put (added_user u))
           (seqP (put (audited ''user_created'' True actor (Some (''created_user='' @ show_int (int i) @ '';role='' @ role)) nobody))
           (seqP (save P) (retP u))))))))))))))"

definition authenticate_user :: "plane_env \<Rightarrow> string \<Rightarrow> string \<Rightarrow> client \<Rightarrow> user option request_prog" where
  "authenticate_user P username password c =
     (let name = normal_name username
      in bindP (look (\<lambda>p. find (\<lambda>u. us_username u = name) (users_of p))) (\<lambda>found.
         bindP (liftP (case found of None \<Rightarrow> Inr False
                | Some u \<Rightarrow> if \<not> us_is_active u then Inr False else verify_password (pe_secrets P) password (us_password_hash u))) (\<lambda>valid.
         seqP (put (audited ''login_attempt'' valid (map_option us_id found) (if valid then None else Some (''username='' @ name)) c))
        (seqP (save P) (retP (if valid then found else None))))))"

definition token_hash :: "plane_env \<Rightarrow> string \<Rightarrow> string" where
  "token_hash P token = sc_hmac (pe_secrets P) (pe_session_secret P) token"

definition added_session :: "user_session \<Rightarrow> plane \<Rightarrow> plane" where
  "added_session s p = on_db (\<lambda>d. d\<lparr>db_next_id := db_next_id d + 1\<rparr>) (p\<lparr>pl_sessions := pl_sessions p @ [s]\<rparr>)"

definition hours :: "int \<Rightarrow> int" where "hours h = h * 3600 * 1000000"

definition create_session :: "plane_env \<Rightarrow> user \<Rightarrow> client \<Rightarrow> (string \<times> user_session) request_prog" where
  \<comment> \<open>the token's hash is unique in the table\<close>
  "create_session P u c =
     bindP (getP sv_tick) (\<lambda>t. seqP tick
    (bindP (clock P) (\<lambda>now.
     let token = sc_token (pe_secrets P) t; hash = token_hash P token
     in bindP (look (\<lambda>p. (db_next_id (pl_db p), \<exists>s \<in> set (pl_sessions p). se_token_hash s = hash))) (\<lambda>(i, taken).
        if taken then liftP (Inl SQLAlchemyError)
        else let row = \<lparr>se_id = i, se_user_id = us_id u, se_token_hash = hash, se_expires_at = now + hours (pe_session_ttl_hours P),
                        se_revoked_at = None, se_client = c\<rparr>
             in seqP (put (added_session row))
               (seqP (put (audited ''login_success'' True (Some (us_id u)) None c))
               (seqP (save P) (retP (token, row)))))))) "

definition session_of :: "string \<Rightarrow> plane \<Rightarrow> user_session option" where
  "session_of hash p = find (\<lambda>s. se_token_hash s = hash) (pl_sessions p)"

definition get_user_for_token :: "plane_env \<Rightarrow> string \<Rightarrow> user option request_prog" where
  "get_user_for_token P token =
     bindP (look (session_of (token_hash P token))) (\<lambda>found. case found of
       None \<Rightarrow> retP None
     | Some s \<Rightarrow>
         if se_revoked_at s \<noteq> None then retP None
         else bindP (clock P) (\<lambda>now.
              if se_expires_at s \<le> now then retP None
              else bindP (look (\<lambda>p. by_key us_id (se_user_id s) (users_of p))) (\<lambda>u.
                   retP (case u of Some v \<Rightarrow> if us_is_active v then Some v else None | None \<Rightarrow> None))))"

definition revoked :: "(user_session \<Rightarrow> bool) \<Rightarrow> int \<Rightarrow> plane \<Rightarrow> plane" where
  "revoked which now p = p\<lparr>pl_sessions := map (\<lambda>s. if which s \<and> se_revoked_at s = None then s\<lparr>se_revoked_at := Some now\<rparr> else s) (pl_sessions p)\<rparr>"

definition revoke_session :: "plane_env \<Rightarrow> string \<Rightarrow> user option \<Rightarrow> client \<Rightarrow> bool request_prog" where
  "revoke_session P token u c =
     bindP (look (session_of (token_hash P token))) (\<lambda>found. case found of
       None \<Rightarrow> retP False
     | Some s \<Rightarrow>
         if se_revoked_at s \<noteq> None then retP False
         else bindP (clock P) (\<lambda>now.
              seqP (put (revoked (\<lambda>r. se_token_hash r = token_hash P token) now))
             (seqP (put (audited ''logout'' True (Some (case u of Some v \<Rightarrow> us_id v | None \<Rightarrow> se_user_id s)) None c))
             (seqP (save P) (retP True)))))"

section \<open>Who sends a request\<close>

type_synonym credentials = "(string \<times> string) option" \<comment> \<open>the scheme and the token of the Authorization header\<close>

definition get_current_user :: "plane_env \<Rightarrow> credentials \<Rightarrow> user request_prog" where
  "get_current_user P cr = (case cr of
       None \<Rightarrow> refuse 401 ''authentication required''
     | Some (scheme, token) \<Rightarrow>
         if str_lower scheme \<noteq> ''bearer'' then refuse 401 ''authentication required''
         else bindP (get_user_for_token P token) (\<lambda>u. case u of None \<Rightarrow> refuse 401 ''invalid or expired session'' | Some v \<Rightarrow> retP v))"

definition require_admin :: "plane_env \<Rightarrow> credentials \<Rightarrow> user request_prog" where
  "require_admin P cr = bindP (get_current_user P cr) (\<lambda>u. seqP (require (us_role u = ''ADMIN'') 403 ''admin access required'') (retP u))"

definition login :: "plane_env \<Rightarrow> string \<Rightarrow> string \<Rightarrow> client \<Rightarrow> (string \<times> int \<times> user) request_prog" where
  "login P username password c =
     bindP (authenticate_user P username password c) (\<lambda>found. case found of
       None \<Rightarrow> refuse 401 ''invalid username or password''
     | Some u \<Rightarrow> bindP (create_session P u c) (\<lambda>(token, s). retP (token, se_expires_at s, u)))"

definition logout :: "plane_env \<Rightarrow> credentials \<Rightarrow> client \<Rightarrow> unit request_prog" where
  "logout P cr c = bindP (get_current_user P cr) (\<lambda>u.
     bindP (revoke_session P (case cr of None \<Rightarrow> [] | Some (_, token) \<Rightarrow> token) (Some u) c) (\<lambda>_. retP ()))"

section \<open>The administration of users\<close>

definition active_admins :: "plane \<Rightarrow> user list" where
  "active_admins p = filter (\<lambda>u. us_role u = ''ADMIN'' \<and> us_is_active u) (users_of p)"

definition list_users :: "plane_env \<Rightarrow> credentials \<Rightarrow> user list request_prog" where
  "list_users P cr = bindP (require_admin P cr) (\<lambda>_. look users_of)"

definition add_user :: "plane_env \<Rightarrow> credentials \<Rightarrow> string \<Rightarrow> string option \<Rightarrow> string \<Rightarrow> user_role \<Rightarrow> user request_prog" where
  "add_user P cr username email password role =
     bindP (require_admin P cr) (\<lambda>admin.
       tryP (create_user P username password (role_text role) email (Some (us_id admin)))
         (\<lambda>e. case e of ValueError _ \<Rightarrow> True | _ \<Rightarrow> False)
         (\<lambda>e. refuse 409 (case e of ValueError m \<Rightarrow> m | _ \<Rightarrow> [])))"

definition edited_user :: "nat \<Rightarrow> (user \<Rightarrow> user) \<Rightarrow> plane \<Rightarrow> plane" where
  "edited_user i f = on_db (\<lambda>d. d\<lparr>db_users := update_key us_id i f (db_users d)\<rparr>)"

definition patched :: "user_role option \<Rightarrow> bool option \<Rightarrow> user \<Rightarrow> user" where
  "patched role is_active u =
     u\<lparr>us_role := (case role of None \<Rightarrow> us_role u | Some r \<Rightarrow> role_text r), us_is_active := or_else is_active (us_is_active u)\<rparr>"

definition bool_text :: "bool \<Rightarrow> string" where "bool_text b = (if b then ''True'' else ''False'')"

definition update_user :: "plane_env \<Rightarrow> credentials \<Rightarrow> nat \<Rightarrow> user_role option \<Rightarrow> bool option \<Rightarrow> user request_prog" where
  "update_user P cr user_id role is_active =
     bindP (require_admin P cr) (\<lambda>admin.
     bindP (look (\<lambda>p. (by_key us_id user_id (users_of p), length (active_admins p)))) (\<lambda>(found, admins). case found of
       None \<Rightarrow> refuse 404 ''user not found''
     | Some target \<Rightarrow>
         let demoting = (us_role target = ''ADMIN'' \<and> role = Some USER \<and> admins \<le> 1);
             disabling = (us_role target = ''ADMIN'' \<and> us_is_active target \<and> is_active = Some False \<and> admins \<le> 1);
             u = patched role is_active target
         in seqP (require (\<not> (demoting \<or> disabling)) 409 ''ATLAS must retain at least one active ADMIN user'')
           (seqP (require (\<not> (us_id target = us_id admin \<and> is_active = Some False)) 409 ''you cannot disable your own active administrator account'')
           (seqP (put (edited_user user_id (patched role is_active)))
           (seqP (if is_active = Some False then bindP (clock P) (\<lambda>now. put (revoked (\<lambda>s. se_user_id s = user_id) now)) else retP ())
           (seqP (put (audited ''user_updated'' True (Some (us_id admin))
                    (Some (''target_user='' @ show_int (int user_id) @ '';role='' @ us_role u @ '';active='' @ bool_text (us_is_active u))) nobody))
           (seqP (save P) (retP u))))))))"

definition reset_user_password :: "plane_env \<Rightarrow> credentials \<Rightarrow> nat \<Rightarrow> string \<Rightarrow> nat request_prog" where
  "reset_user_password P cr user_id password =
     bindP (require_admin P cr) (\<lambda>admin.
     bindP (look (\<lambda>p. by_key us_id user_id (users_of p))) (\<lambda>found. case found of
       None \<Rightarrow> refuse 404 ''user not found''
     | Some target \<Rightarrow>
         bindP (getP sv_tick) (\<lambda>t. seqP tick
        (bindP (liftP (hash_password (pe_secrets P) password (sc_salt (pe_secrets P) t))) (\<lambda>hash.
         seqP (put (edited_user user_id (\<lambda>u. u\<lparr>us_password_hash := hash\<rparr>)))
        (bindP (clock P) (\<lambda>now.
         seqP (put (revoked (\<lambda>s. se_user_id s = user_id) now))
        (seqP (put (audited ''user_password_reset'' True (Some (us_id admin)) (Some (''target_user='' @ show_int (int user_id))) nobody))
        (seqP (save P) (retP user_id)))))))))) "

end
