(* ===== verification/Accounts.thy ===== *)
theory Accounts
  imports Sessions
begin

text \<open>
  What the API may change of the engine's controls and of the broker accounts: \<open>app/api/routes_automation.py\<close>
  (state, kill switch, restart), \<open>app/services/live_execution.py\<close>, \<open>app/services/access_scope.py\<close>, and the
  handlers of \<open>app/api/routes_accounts.py\<close> and \<open>routes_account_lifecycle.py\<close> that change an account without asking a
  broker. A table of accounts is in the order of creation.
\<close>

section \<open>The engine's controls\<close>

definition states_of :: "plane \<Rightarrow> automation_state list" where "states_of p = db_states (pl_db p)"

definition edited_state :: "nat \<Rightarrow> (automation_state \<Rightarrow> automation_state) \<Rightarrow> plane \<Rightarrow> plane" where
  "edited_state i f = on_db (\<lambda>d. d\<lparr>db_states := update_key au_id i f (db_states d)\<rparr>)"

definition created_state :: "plane \<Rightarrow> plane" where
  "created_state = on_db (\<lambda>d. d\<lparr>db_states := db_states d @ [default_state (db_next_id d)], db_next_id := db_next_id d + 1\<rparr>)"

definition default_row :: "plane \<Rightarrow> automation_state option" where
  "default_row p = find (\<lambda>s. au_name s = ''default'') (states_of p)"

definition current_state :: "plane_env \<Rightarrow> automation_state request_prog" where
  \<comment> \<open>\<open>get_or_create_state\<close> in a request\<close>
  "current_state P = bindP (look default_row) (\<lambda>r. case r of
       Some s \<Rightarrow> retP s
     | None \<Rightarrow> bindP (look (\<lambda>p. db_next_id (pl_db p))) (\<lambda>i. seqP (put created_state) (seqP (save P) (retP (default_state i)))))"

definition read_state :: "plane_env \<Rightarrow> credentials \<Rightarrow> automation_state request_prog" where
  "read_state P cr = bindP (get_current_user P cr) (\<lambda>_. current_state P)"

record automation_update =
  uq_enabled :: bool
  uq_simulation_execution :: "bool option"
  uq_auto_execute_paper :: "bool option"
  uq_interval_seconds :: int
  uq_symbols :: "string list"

definition symbols_text :: "string list \<Rightarrow> string" where
  "symbols_text xs = join '','' (rev (remdups (rev (map (\<lambda>x. str_upper (str_strip x)) (filter (\<lambda>x. str_strip x \<noteq> []) xs)))))"

definition updated_state :: "automation_update \<Rightarrow> automation_state \<Rightarrow> automation_state" where
  "updated_state u s =
     s\<lparr>au_enabled := uq_enabled u,
       au_auto_execute_paper := or_else (or_else (map_option Some (uq_simulation_execution u)) (uq_auto_execute_paper u)) (au_auto_execute_paper s),
       au_interval_seconds := uq_interval_seconds u, au_symbols_csv := symbols_text (uq_symbols u)\<rparr>"

definition change_state :: "plane_env \<Rightarrow> credentials \<Rightarrow> (automation_state \<Rightarrow> automation_state) \<Rightarrow> automation_state request_prog" where
  "change_state P cr f =
     bindP (require_admin P cr) (\<lambda>_. bindP (current_state P) (\<lambda>s.
       seqP (put (edited_state (au_id s) f)) (seqP (save P) (retP (f s)))))"

definition update_state :: "plane_env \<Rightarrow> credentials \<Rightarrow> automation_update \<Rightarrow> automation_state request_prog" where
  "update_state P cr u = change_state P cr (updated_state u)"

definition killed_state :: "automation_state \<Rightarrow> automation_state" where
  "killed_state s = s\<lparr>au_killed := True, au_enabled := False\<rparr>"

definition restarted_state :: "automation_state \<Rightarrow> automation_state" where
  "restarted_state s = s\<lparr>au_killed := False, au_enabled := True, au_next_scan_at := None\<rparr>"

definition kill :: "plane_env \<Rightarrow> credentials \<Rightarrow> automation_state request_prog" where
  "kill P cr = change_state P cr killed_state"

definition restart :: "plane_env \<Rightarrow> credentials \<Rightarrow> automation_state request_prog" where
  "restart P cr = change_state P cr restarted_state"

section \<open>Who may see an account\<close>

definition is_admin :: "user \<Rightarrow> bool" where "is_admin u \<longleftrightarrow> us_role u = ''ADMIN''"

definition effective_owner_id :: "user \<Rightarrow> nat option \<Rightarrow> nat option res" where
  "effective_owner_id u requested =
     (if is_admin u then Inr requested
      else if requested \<noteq> None \<and> requested \<noteq> Some (us_id u) then Inl (HTTPException 403 ''owner access denied'')
      else Inr (Some (us_id u)))"

definition scope_broker_profiles :: "broker_profile list \<Rightarrow> user \<Rightarrow> nat option \<Rightarrow> broker_profile list res" where
  "scope_broker_profiles rows u requested =
     bindE (effective_owner_id u requested) (\<lambda>owner. Inr (case owner of None \<Rightarrow> rows | Some i \<Rightarrow> filter (\<lambda>p. bp_user_id p = i) rows))"

definition profiles_of :: "plane \<Rightarrow> broker_profile list" where "profiles_of p = db_profiles (pl_db p)"

definition authorized_broker_profile :: "user \<Rightarrow> nat \<Rightarrow> broker_profile request_prog" where
  "authorized_broker_profile u i = bindP (look (\<lambda>p. by_key bp_id i (profiles_of p))) (\<lambda>found. case found of
       None \<Rightarrow> refuse 404 ''account not found''
     | Some p \<Rightarrow> if \<not> is_admin u \<and> bp_user_id p \<noteq> us_id u then refuse 403 ''account access denied'' else retP p)"

definition authorized_profile :: "user \<Rightarrow> nat \<Rightarrow> broker_profile request_prog" where
  \<comment> \<open>the same of the routes, which do not show the retired built-in account\<close>
  "authorized_profile u i = bindP (look (\<lambda>p. by_key bp_id i (profiles_of p))) (\<lambda>found. case found of
       None \<Rightarrow> refuse 404 ''account not found''
     | Some p \<Rightarrow> if bp_provider p = ''ATLAS_PAPER'' then refuse 404 ''account not found''
                 else if \<not> is_admin u \<and> bp_user_id p \<noteq> us_id u then refuse 403 ''account access denied'' else retP p)"

definition list_accounts :: "plane_env \<Rightarrow> credentials \<Rightarrow> broker_profile list request_prog" where
  \<comment> \<open>up to the order of the rows\<close>
  "list_accounts P cr = bindP (get_current_user P cr) (\<lambda>u.
     look (\<lambda>p. filter (\<lambda>r. bp_provider r \<noteq> ''ATLAS_PAPER'' \<and> (is_admin u \<or> bp_user_id r = us_id u)) (profiles_of p)))"

section \<open>Live execution\<close>

definition live_execution_blockers :: "broker_profile \<Rightarrow> int \<Rightarrow> string list" where
  "live_execution_blockers p moment =
     (if str_upper (bp_environment p) \<noteq> ''LIVE'' then [''LIVE_ENVIRONMENT_REQUIRED''] else [])
     @ (if \<not> bp_is_enabled p then [''ACCOUNT_DISABLED''] else [])
     @ (if \<not> bp_is_active p then [''ACCOUNT_NOT_ACTIVE''] else [])
     @ (if \<not> bp_credentials_configured p then [''CREDENTIALS_NOT_CONFIGURED''] else [])
     @ (if bp_last_connection_status p \<noteq> ''CONNECTED'' then [''PROVIDER_NOT_CONNECTED''] else [])
     @ (if \<not> bp_execution_certified p then [''LIVE_EXECUTION_NOT_CERTIFIED''] else [])
     @ (if \<not> bp_execution_certification_buy_passed p then [''BUY_CERTIFICATION_REQUIRED''] else [])
     @ (if \<not> bp_execution_certification_sell_passed p then [''SELL_CERTIFICATION_REQUIRED''] else [])
     @ (case bp_live_execution_expires_at p of Some e \<Rightarrow> if e \<le> moment then [''ARMING_EXPIRED''] else [] | None \<Rightarrow> [])"

definition live_execution_is_armed :: "broker_profile \<Rightarrow> int \<Rightarrow> bool" where
  "live_execution_is_armed p now \<longleftrightarrow> bp_live_execution_enabled p \<and> bp_live_execution_expires_at p \<noteq> None \<and> live_execution_blockers p now = []"

definition disarmed :: "string \<Rightarrow> broker_profile \<Rightarrow> broker_profile" where
  "disarmed reason p = p\<lparr>bp_live_execution_enabled := False, bp_live_execution_armed_at := None, bp_live_execution_expires_at := None,
     bp_live_execution_last_disarm_reason := Some (take 500 reason)\<rparr>"

definition armed :: "int \<Rightarrow> int \<Rightarrow> broker_profile \<Rightarrow> broker_profile" where
  "armed now minutes p = p\<lparr>bp_live_execution_enabled := True, bp_live_execution_armed_at := Some now,
     bp_live_execution_expires_at := Some (now + minutes * 60 * 1000000), bp_live_execution_last_disarm_reason := None\<rparr>"

definition edited_profile :: "nat \<Rightarrow> (broker_profile \<Rightarrow> broker_profile) \<Rightarrow> plane \<Rightarrow> plane" where
  "edited_profile i f = on_db (\<lambda>d. d\<lparr>db_profiles := update_key bp_id i f (db_profiles d)\<rparr>)"

definition logged_live :: "broker_profile \<Rightarrow> user \<Rightarrow> string \<Rightarrow> string option \<Rightarrow> int option \<Rightarrow> plane \<Rightarrow> plane" where
  "logged_live p u action reason until pl =
     pl\<lparr>pl_live := pl_live pl @ [\<lparr>le_profile_id = bp_id p, le_owner_user_id = bp_user_id p, le_actor_user_id = us_id u, le_action = action,
       le_reason = reason, le_armed_until = until\<rparr>]\<rparr>"

record live_update =
  lu_enabled :: bool
  lu_confirmation :: "string option"
  lu_duration_minutes :: int
  lu_reason :: "string option"

definition live_update_ok :: "live_update \<Rightarrow> bool" where
  \<comment> \<open>the bounds of the request body\<close>
  "live_update_ok u \<longleftrightarrow> 5 \<le> lu_duration_minutes u \<and> lu_duration_minutes u \<le> 240"

definition stated_reason :: "live_update \<Rightarrow> string \<Rightarrow> string" where
  "stated_reason u fallback = (let r = str_strip (or_else (lu_reason u) []) in if r = [] then fallback else r)"

definition confirmation_phrase :: "broker_profile \<Rightarrow> string" where
  "confirmation_phrase p = ''ENABLE LIVE '' @ bp_provider p @ '' '' @ bp_account_label p"

definition arm_live :: "plane_env \<Rightarrow> user \<Rightarrow> broker_profile \<Rightarrow> live_update \<Rightarrow> int \<Rightarrow> unit request_prog" where
  "arm_live P u p q now =
     seqP (require (pe_allow_live_trading P) 409 ''server policy blocks live trading'')
    (seqP (require (live_execution_blockers p now = []) 409 ''live execution safety requirements are not satisfied'')
    (seqP (require (lu_confirmation q \<noteq> None \<and> lu_confirmation q \<noteq> Some [] \<and> str_strip (or_else (lu_confirmation q) []) = confirmation_phrase p)
            400 (''exact confirmation required: '' @ confirmation_phrase p))
    (seqP (put (edited_profile (bp_id p) (armed now (lu_duration_minutes q))))
     (put (logged_live p u ''ARMED'' (Some (stated_reason q ''Explicit administrator arming'')) (Some (now + lu_duration_minutes q * 60 * 1000000)))))))"

definition live_execution :: "plane_env \<Rightarrow> credentials \<Rightarrow> nat \<Rightarrow> live_update \<Rightarrow> unit request_prog" where
  "live_execution P cr i q =
     bindP (get_current_user P cr) (\<lambda>u.
     seqP (require (live_update_ok q) 422 ''duration_minutes'')
    (seqP (require (is_admin u) 403 ''admin role required'')
    (bindP (authorized_profile u i) (\<lambda>p.
     seqP (require (bp_provider p \<in> {''BYBIT'', ''MT5'', ''IBKR''}) 400 ''market-data-only providers do not support execution mode'')
    (bindP (clock P) (\<lambda>now.
     seqP (if lu_enabled q then arm_live P u p q now
           else let reason = stated_reason q ''Explicit administrator disarm''
                in seqP (put (edited_profile (bp_id p) (disarmed reason))) (put (logged_live p u ''DISARMED'' (Some reason) None)))
       (save P)))))))"

definition live_execution_status :: "plane_env \<Rightarrow> credentials \<Rightarrow> nat \<Rightarrow> (bool \<times> string list) request_prog" where
  "live_execution_status P cr i =
     bindP (get_current_user P cr) (\<lambda>u.
     bindP (authorized_profile u i) (\<lambda>p.
     bindP (clock P) (\<lambda>now.
       let expired = (bp_live_execution_enabled p \<and> (case bp_live_execution_expires_at p of None \<Rightarrow> False | Some e \<Rightarrow> e \<noteq> 0 \<and> e \<le> now));
           reason = ''Automatic disarm: arming window expired'';
           q = (if expired then disarmed reason p else p)
       in seqP (if expired then seqP (put (edited_profile i (disarmed reason)))
                                (seqP (put (logged_live p u ''AUTO_DISARMED'' (Some reason) None)) (save P))
                else retP ())
            (retP (live_execution_is_armed q now, live_execution_blockers q now)))))"

section \<open>The life of an account\<close>

definition replacement :: "broker_profile \<Rightarrow> plane \<Rightarrow> broker_profile option" where
  \<comment> \<open>the newest other account of the owner at the provider that could take over\<close>
  "replacement p pl = find (\<lambda>r. bp_user_id r = bp_user_id p \<and> bp_provider r = bp_provider p \<and> bp_provider r \<noteq> ''ATLAS_PAPER'' \<and> bp_id r \<noteq> bp_id p
      \<and> bp_is_enabled r \<and> bp_last_connection_status r = ''CONNECTED'') (rev (profiles_of pl))"

definition set_active :: "bool \<Rightarrow> broker_profile \<Rightarrow> broker_profile" where
  "set_active b p = p\<lparr>bp_is_active := b\<rparr>"

definition activate_replacement :: "broker_profile \<Rightarrow> plane \<Rightarrow> plane" where
  "activate_replacement p pl = (case replacement p pl of None \<Rightarrow> pl | Some r \<Rightarrow> edited_profile (bp_id r) (set_active True) pl)"

definition disconnected :: "broker_profile \<Rightarrow> broker_profile" where
  "disconnected p0 = (disarmed ''Account disconnected'' p0)\<lparr>bp_is_enabled := False, bp_is_active := False, bp_api_key_encrypted := None,
     bp_api_secret_encrypted := None, bp_credential_blob_encrypted := None, bp_credentials_configured := False,
     bp_last_connection_status := ''DISCONNECTED'', bp_last_connection_test_at := None, bp_last_sync_at := None, bp_equity_usd := None,
     bp_wallet_balance_usd := None, bp_available_balance_usd := None, bp_open_positions_count := 0, bp_open_orders_count := 0\<rparr>"

definition bridge_admin :: "user \<Rightarrow> broker_profile \<Rightarrow> unit request_prog" where
  "bridge_admin u p = liftP (admin_bridge_required u (bp_provider p))"

definition disconnect_account :: "plane_env \<Rightarrow> credentials \<Rightarrow> nat \<Rightarrow> unit request_prog" where
  "disconnect_account P cr i =
     bindP (get_current_user P cr) (\<lambda>u.
     bindP (authorized_profile u i) (\<lambda>p.
     seqP (bridge_admin u p)
    (seqP (put (edited_profile i disconnected))
    (seqP (put (logged_live p u ''AUTO_DISARMED'' (Some ''Account disconnected'') None))
    (seqP (put (activate_replacement p)) (save P))))))"

definition switched :: "bool \<Rightarrow> broker_profile \<Rightarrow> broker_profile" where
  "switched on p = (if on then p\<lparr>bp_is_enabled := True\<rparr> else (disarmed ''Account disabled'' (p\<lparr>bp_is_enabled := False, bp_is_active := False\<rparr>)))"

definition toggle_account :: "plane_env \<Rightarrow> credentials \<Rightarrow> nat \<Rightarrow> unit request_prog" where
  "toggle_account P cr i =
     bindP (get_current_user P cr) (\<lambda>u.
     bindP (authorized_profile u i) (\<lambda>p.
     seqP (require (bp_is_enabled p \<or> is_admin u) 403 ''Administrator must re-enable this account'')
    (seqP (put (edited_profile i (switched (\<not> bp_is_enabled p))))
    (seqP (if bp_is_enabled p
           then seqP (put (logged_live p u ''AUTO_DISARMED'' (Some ''Account disabled'') None)) (put (activate_replacement p))
           else retP ())
      (save P)))))"

definition deleted_profile :: "nat \<Rightarrow> plane \<Rightarrow> plane" where
  \<comment> \<open>with what the foreign keys delete or clear\<close>
  "deleted_profile i pl =
     (on_db (\<lambda>d. d\<lparr>db_profiles := filter (\<lambda>p. bp_id p \<noteq> i) (db_profiles d), db_strategies := filter (\<lambda>s. ss_profile_id s \<noteq> i) (db_strategies d),
          db_inventories := filter (\<lambda>v. iv_broker_profile_id v \<noteq> i) (db_inventories d),
          db_actions := map (\<lambda>a. if ac_broker_profile_id a = Some i then a\<lparr>ac_broker_profile_id := None\<rparr> else a) (db_actions d)\<rparr>) pl)
       \<lparr>pl_live := filter (\<lambda>e. le_profile_id e \<noteq> i) (pl_live pl), pl_revisions := filter (\<lambda>v. rv_profile_id v \<noteq> i) (pl_revisions pl)\<rparr>"

definition delete_account :: "plane_env \<Rightarrow> credentials \<Rightarrow> nat \<Rightarrow> unit request_prog" where
  "delete_account P cr i =
     bindP (get_current_user P cr) (\<lambda>u.
     bindP (authorized_profile u i) (\<lambda>p.
     seqP (bridge_admin u p)
    (seqP (require (bp_open_positions_count p = 0 \<and> bp_open_orders_count p = 0) 409 ''close open positions and orders before removing this connection'')
    (seqP (put (\<lambda>pl. if bp_is_active p then activate_replacement p (deleted_profile i pl) else deleted_profile i pl)) (save P)))))"

definition activate :: "plane_env \<Rightarrow> credentials \<Rightarrow> nat \<Rightarrow> unit request_prog" where
  "activate P cr i =
     bindP (get_current_user P cr) (\<lambda>u.
     bindP (authorized_profile u i) (\<lambda>p.
     seqP (require (bp_is_enabled p) 409 ''Administrator must enable this account first'')
    (seqP (require (bp_last_connection_status p = ''CONNECTED'') 409 ''only a successfully connected account can be made active'')
    (seqP (put (on_db (\<lambda>d. d\<lparr>db_profiles := map (\<lambda>r. if bp_user_id r = bp_user_id p \<and> bp_provider r = bp_provider p then set_active (bp_id r = bp_id p) r else r)
                               (db_profiles d)\<rparr>)))
       (save P)))))"

definition SIMULATION_ACCOUNTS :: "string list" where "SIMULATION_ACCOUNTS = [''DEMO'', ''TESTNET'', ''PAPER'']"

definition simulation_capital :: "plane_env \<Rightarrow> credentials \<Rightarrow> nat \<Rightarrow> pyfloat option \<Rightarrow> unit request_prog" where
  "simulation_capital P cr i v =
     bindP (get_current_user P cr) (\<lambda>u.
     seqP (require (is_admin u) 403 ''admin role required'')
    (bindP (authorized_profile u i) (\<lambda>p.
     seqP (require (bp_environment p \<in> set SIMULATION_ACCOUNTS) 409 ''simulation capital override is only available for Paper, Demo or Testnet accounts'')
    (seqP (put (edited_profile i (\<lambda>r. r\<lparr>bp_simulation_capital_override_usd := v\<rparr>))) (save P)))))"

end
