(* ===== verification/Provider_Routing.thy ===== *)
theory Provider_Routing
  imports Readiness_Rules "HOL-Library.Product_Lexorder" "HOL-Library.List_Lexorder" "HOL-Library.Char_ord"
begin

text \<open>
  \<open>app/services/provider_routing.py\<close> and \<open>app/services/instrument_universe.py\<close>: which account of an owner trades a
  market, and the list of instruments with their strategies. A profile has all its attributes; None counts as the empty text.
\<close>

section \<open>Markets and symbols\<close>

definition MARKETS :: "string list" where
  "MARKETS = [''CRYPTO'', ''FX'', ''STOCK'', ''ETF'', ''METAL'', ''COMMODITY'']"

definition PROVIDER_MARKETS :: "(string \<times> string list) list" where
  "PROVIDER_MARKETS = [(''BYBIT'', [''CRYPTO'']), (''MT5'', [''FX'', ''METAL'', ''COMMODITY'']), (''IBKR'', [''STOCK'', ''ETF'']), (''TWELVE_DATA'', [])]"

definition normalize_market :: "string \<Rightarrow> string res" where
  "normalize_market value =
     (let market = str_upper (str_strip value)
      in if market \<notin> set MARKETS then Inl (ValueError (''unsupported market: '' @ (if market = [] then str_repr value else market)))
         else Inr market)"

definition normalize_symbol :: "string \<Rightarrow> string \<Rightarrow> string res" where
  "normalize_symbol market symbol =
     bindE (normalize_market market) (\<lambda>m.
       let value = remove_char (CHR '' '') (str_upper symbol)
       in guardE (value = []) (ValueError ''symbol is required'')
            (Inr (if m \<in> set [''FX'', ''CRYPTO'', ''METAL'', ''COMMODITY''] then remove_char (CHR ''/'') value else value)))"

definition providers_for_market :: "string \<Rightarrow> string list res" where
  "providers_for_market market =
     bindE (normalize_market market) (\<lambda>m. Inr (map fst (filter (\<lambda>(p, ms). m \<in> set ms) PROVIDER_MARKETS)))"

definition provider_supports_market :: "string \<Rightarrow> string \<Rightarrow> bool res" where
  "provider_supports_market provider market =
     bindE (normalize_market market) (\<lambda>m. Inr (case map_of PROVIDER_MARKETS (str_upper provider) of None \<Rightarrow> False | Some ms \<Rightarrow> m \<in> set ms))"

section \<open>Routes\<close>

record route_candidate =
  rc_profile_id :: string
  rc_provider :: string
  rc_label :: string
  rc_environment :: string
  rc_connected :: bool
  rc_enabled :: bool
  rc_active :: bool
  rc_credentials_configured :: bool

definition executable_route :: "route_candidate \<Rightarrow> bool" where
  "executable_route c \<longleftrightarrow> rc_connected c \<and> rc_enabled c \<and> rc_active c \<and> rc_credentials_configured c"

definition candidate_of :: "broker_profile \<Rightarrow> route_candidate" where
  "candidate_of p = (let provider = str_upper (bp_provider p) in
     \<lparr>rc_profile_id = id_text (bp_id p), rc_provider = provider, rc_label = (if bp_account_label p = [] then provider else bp_account_label p),
      rc_environment = bp_environment p, rc_connected = (str_upper (bp_last_connection_status p) = ''CONNECTED''),
      rc_enabled = bp_is_enabled p, rc_active = bp_is_active p, rc_credentials_configured = bp_credentials_configured p\<rparr>)"

definition route_order :: "route_candidate \<Rightarrow> bool \<times> string \<times> string \<times> string" where
  "route_order c = (\<not> executable_route c, rc_provider c, rc_label c, rc_profile_id c)"

definition route_candidates :: "string \<Rightarrow> broker_profile list \<Rightarrow> route_candidate list res" where
  "route_candidates market profiles =
     bindE (normalize_market market) (\<lambda>m.
     bindE (filterE (\<lambda>p. provider_supports_market (str_upper (bp_provider p)) m) profiles) (\<lambda>ps.
       Inr (sort_key route_order (map candidate_of ps))))"

definition select_execution_route :: "string \<Rightarrow> broker_profile list \<Rightarrow> route_candidate option res" where
  "select_execution_route market profiles = bindE (route_candidates market profiles) (\<lambda>cs. Inr (find executable_route cs))"

section \<open>The universe of instruments\<close>

definition STARTER_UNIVERSE :: "(string \<times> string list) list" where
  "STARTER_UNIVERSE =
     [(''STOCK'', [''AAPL'', ''MSFT'', ''NVDA'', ''AMZN'', ''META'', ''TSLA'']), (''ETF'', [''SPY'', ''QQQ'', ''IWM'']),
      (''FX'', [''EURUSD'', ''GBPUSD'', ''USDJPY'', ''AUDUSD'', ''USDCAD'', ''USDCHF'']), (''METAL'', [''XAUUSD'', ''XAGUSD'']),
      (''COMMODITY'', [''XTIUSD'']), (''CRYPTO'', [''BTCUSDT'', ''ETHUSDT'', ''SOLUSDT'', ''XRPUSDT'', ''BNBUSDT''])]"

definition wanted_markets :: "string list \<Rightarrow> string list res" where
  "wanted_markets markets = (if markets = [] then Inr (map fst STARTER_UNIVERSE) else mapE normalize_market markets)"

definition starter_symbols :: "string list \<Rightarrow> (string \<times> string) list res" where
  "starter_symbols markets =
     bindE (wanted_markets markets) (\<lambda>wanted.
       mapE (\<lambda>(m, s). bindE (normalize_symbol m s) (\<lambda>t. Inr (m, t)))
         (concat (map (\<lambda>m. map (Pair m) (or_else (map_of STARTER_UNIVERSE m) [])) wanted)))"

record universe_item =
  ui_market :: string
  ui_symbol :: string
  ui_configured :: bool
  ui_strategy_mode :: "string option"
  ui_strategy_enabled :: "bool option"
  ui_profile_id :: "string option"
  ui_provider :: "string option"
  ui_environment :: "string option"
  ui_executable_route :: bool
  ui_route_candidates :: nat

definition configured_rows :: "string list \<Rightarrow> symbol_strategy list \<Rightarrow> ((string \<times> string) \<times> symbol_strategy) list res" where
  \<comment> \<open>the dict by market and symbol as an association list; a later row replaces an earlier one\<close>
  "configured_rows wanted rows =
     foldE (\<lambda>d r. bindE (normalize_market (ss_market r)) (\<lambda>m.
         if m \<notin> set wanted then Inr d
         else bindE (normalize_symbol m (ss_symbol r)) (\<lambda>s. Inr (((m, s), r) # filter (\<lambda>(k, _). k \<noteq> (m, s)) d)))) [] rows"

definition universe_item_of :: "broker_profile list \<Rightarrow> ((string \<times> string) \<times> symbol_strategy) list \<Rightarrow> string \<times> string \<Rightarrow> universe_item res" where
  "universe_item_of profiles configured key = (case key of (market, symbol) \<Rightarrow>
     let strategy = map_of configured key
     in bindE (route_candidates market profiles) (\<lambda>candidates.
        bindE (select_execution_route market profiles) (\<lambda>selected.
          let profile_id = (case strategy of Some r \<Rightarrow> Some (id_text (ss_profile_id r)) | None \<Rightarrow> map_option rc_profile_id selected);
              matched = (case strategy of None \<Rightarrow> None | Some _ \<Rightarrow> find (\<lambda>c. Some (rc_profile_id c) = profile_id) candidates);
              shown = (case matched of Some c \<Rightarrow> Some c | None \<Rightarrow> selected);
              route = (case strategy of Some _ \<Rightarrow> matched | None \<Rightarrow> selected)
          in Inr \<lparr>ui_market = market, ui_symbol = symbol, ui_configured = (strategy \<noteq> None),
                  ui_strategy_mode = (case strategy of None \<Rightarrow> None | Some r \<Rightarrow> if ss_mode r = [] then None else Some (ss_mode r)),
                  ui_strategy_enabled = map_option ss_enabled strategy, ui_profile_id = profile_id,
                  ui_provider = map_option rc_provider shown, ui_environment = map_option rc_environment shown,
                  ui_executable_route = (case route of None \<Rightarrow> False | Some c \<Rightarrow> executable_route c), ui_route_candidates = length candidates\<rparr>)))"

definition build_universe :: "broker_profile list \<Rightarrow> symbol_strategy list \<Rightarrow> string list \<Rightarrow> universe_item list res" where
  "build_universe profiles strategies markets =
     bindE (wanted_markets markets) (\<lambda>wanted.
     bindE (configured_rows wanted strategies) (\<lambda>configured.
     bindE (starter_symbols wanted) (\<lambda>starters.
       mapE (universe_item_of profiles configured) (sort (remdups (starters @ map fst configured))))))"


section \<open>What the selection finds\<close>

definition tradable :: "string \<Rightarrow> broker_profile \<Rightarrow> bool" where
  \<comment> \<open>the account is ready and its provider has the market\<close>
  "tradable market p \<longleftrightarrow> provider_supports_market (str_upper (bp_provider p)) market = Inr True \<and> executable_route (candidate_of p)"

lemma filterE_members: "filterE p xs = Inr ys \<Longrightarrow> set ys = {x \<in> set xs. p x = Inr True}"
  by (induction xs arbitrary: ys) (auto split: if_splits)

lemma find_sorted: "sorted (map k xs) \<Longrightarrow> find Q xs = Some x \<Longrightarrow> y \<in> set xs \<Longrightarrow> Q y \<Longrightarrow> k x \<le> k y"
  by (induction xs) (auto split: if_splits simp: find_Some_iff)

lemma selected_route_first:
  assumes "select_execution_route market profiles = Inr v" and m: "normalize_market market = Inr m"
  shows "case v of None \<Rightarrow> \<forall>p \<in> set profiles. \<not> tradable m p
    | Some c \<Rightarrow> \<exists>p \<in> set profiles. tradable m p \<and> c = candidate_of p \<and> (\<forall>q \<in> set profiles. tradable m q \<longrightarrow> route_order c \<le> route_order (candidate_of q))"
proof -
  from assms obtain ps where ps: "filterE (\<lambda>p. provider_supports_market (str_upper (bp_provider p)) m) profiles = Inr ps"
    and v: "v = find executable_route (sort_key route_order (map candidate_of ps))"
    unfolding select_execution_route_def route_candidates_def by auto
  from filterE_members [OF ps] have s: "set ps = {p \<in> set profiles. provider_supports_market (str_upper (bp_provider p)) m = Inr True}" .
  show ?thesis
  proof (cases v)
    case None
    with v have "\<not> (\<exists>x. x \<in> set (sort_key route_order (map candidate_of ps)) \<and> executable_route x)" by (metis find_None_iff)
    with s None show ?thesis by (auto simp: tradable_def)
  next
    case (Some c)
    with v have f: "find executable_route (sort_key route_order (map candidate_of ps)) = Some c" by simp
    then have "c \<in> set (sort_key route_order (map candidate_of ps)) \<and> executable_route c" by (auto simp: find_Some_iff simp del: set_sort)
    then obtain p where p: "p \<in> set profiles" "tradable m p" "c = candidate_of p" using s by (auto simp: tradable_def)
    have "route_order c \<le> route_order (candidate_of q)" if "q \<in> set profiles" "tradable m q" for q
      by (rule find_sorted [OF sorted_sort_key f]) (use that s in \<open>auto simp: tradable_def\<close>)
    with p Some show ?thesis by auto
  qed
qed

end
