(* ===== verification/Strategy_Api.thy ===== *)
theory Strategy_Api
  imports Accounts Provider_Routing
begin

text \<open>
  \<open>app/api/routes_symbol_strategies.py\<close>: the strategies of an account, who may change them, their revisions, the rollback
  to one, and the bulk operations over the starter universe. A revision's snapshot is the row it was taken of.
\<close>

section \<open>Requests\<close>

definition MODES :: "string list" where "MODES = [''WATCH'', ''SIGNALS'', ''AUTO_TRADE'']"

record strategy_in =
  si_profile_id :: nat
  si_market :: string
  si_symbol :: string
  si_mode :: string
  si_enabled :: bool
  si_timeframe :: "string option"
  si_minimum_signal_strength :: "pyfloat option"
  si_risk_per_trade_pct :: "pyfloat option"
  si_stop_atr_multiplier :: "pyfloat option"
  si_take_profit_rr :: "pyfloat option"
  si_max_position_notional_pct :: "pyfloat option"

record strategy_patch =
  \<comment> \<open>the fields the body sets, each of which may be null\<close>
  pt_mode :: "string option option"
  pt_enabled :: "bool option option"
  pt_timeframe :: "string option option"
  pt_minimum_signal_strength :: "pyfloat option option"
  pt_risk_per_trade_pct :: "pyfloat option option"
  pt_stop_atr_multiplier :: "pyfloat option option"
  pt_take_profit_rr :: "pyfloat option option"
  pt_max_position_notional_pct :: "pyfloat option option"

definition strategies_of :: "plane \<Rightarrow> symbol_strategy list" where "strategies_of p = db_strategies (pl_db p)"

definition or_400 :: "'a res \<Rightarrow> 'a request_prog" where
  \<comment> \<open>\<open>except ValueError as exc: raise HTTPException(400, str(exc))\<close>\<close>
  "or_400 r = (case r of Inl (ValueError m) \<Rightarrow> refuse 400 m | _ \<Rightarrow> liftP r)"

definition trading_profile :: "user \<Rightarrow> nat \<Rightarrow> broker_profile request_prog" where
  \<comment> \<open>\<open>_profile\<close>\<close>
  "trading_profile u i = bindP (look (\<lambda>p. by_key bp_id i (profiles_of p))) (\<lambda>found. case found of
       None \<Rightarrow> refuse 404 ''external trading account not found''
     | Some p \<Rightarrow> if bp_provider p = ''ATLAS_PAPER'' then refuse 404 ''external trading account not found''
                 else if \<not> is_admin u \<and> bp_user_id p \<noteq> us_id u then refuse 403 ''account access denied'' else retP p)"

definition own_strategy :: "user \<Rightarrow> nat \<Rightarrow> symbol_strategy request_prog" where
  \<comment> \<open>\<open>_strategy\<close>\<close>
  "own_strategy u i = bindP (look (\<lambda>p. by_key ss_id i (strategies_of p))) (\<lambda>found. case found of
       None \<Rightarrow> refuse 404 ''symbol strategy not found''
     | Some r \<Rightarrow> if \<not> is_admin u \<and> ss_user_id r \<noteq> us_id u then refuse 403 ''strategy access denied'' else retP r)"

definition supported_text :: "string \<Rightarrow> string" where
  "supported_text provider = (case map_of PROVIDER_MARKETS provider of None \<Rightarrow> ''none'' | Some ms \<Rightarrow> if ms = [] then ''none'' else join '', '' (sort ms))"

definition validate_provider_market :: "broker_profile \<Rightarrow> string \<Rightarrow> unit request_prog" where
  "validate_provider_market p market =
     bindP (or_400 (provider_supports_market (bp_provider p) market)) (\<lambda>supported.
       seqP (require supported 409 (bp_provider p @ '' cannot be assigned to '' @ market @ ''. Supported markets for this trading account: ''
                @ supported_text (bp_provider p)))
         (require (bp_is_enabled p) 409 ''account is disabled''))"

definition risk_row :: "plane \<Rightarrow> risk_profile option" where
  "risk_row p = find (\<lambda>r. rp_name r = ''Default'') (db_risks (pl_db p))"

definition exceeds_limit :: "pyfloat option \<Rightarrow> risk_profile option \<Rightarrow> (pyfloat \<times> bool) res" where
  \<comment> \<open>the limit and whether the value is above it; without a row or a value there is none\<close>
  "exceeds_limit v risk = (case (v, risk) of
       (Some x, Some r) \<Rightarrow> (case rp_risk_per_trade_pct r of None \<Rightarrow> Inl TypeError | Some l \<Rightarrow> Inr (l, l < x))
     | _ \<Rightarrow> Inr (0, False))"

definition within_limit :: "pyfloat option \<Rightarrow> string \<Rightarrow> unit request_prog" where
  "within_limit v what =
     bindP (look risk_row) (\<lambda>risk. bindP (liftP (exceeds_limit v risk)) (\<lambda>(l, above).
       require (\<not> above) 409 (what @ float_str l @ ''%'')))"

definition RISK_TEXT :: string where "RISK_TEXT = ''risk per trade exceeds Admin safety limit of ''"

definition validate_strategy :: "broker_profile \<Rightarrow> strategy_in \<Rightarrow> (string \<times> string \<times> string) request_prog" where
  \<comment> \<open>\<open>_validate\<close>\<close>
  "validate_strategy p q =
     (let market = str_upper (si_market q); mode = str_upper (si_mode q)
      in bindP (or_400 (normalize_symbol market (si_symbol q))) (\<lambda>symbol.
         seqP (require (market \<in> set MARKETS) 400 ''unsupported market'')
        (seqP (require (mode \<in> set MODES) 400 ''mode must be WATCH, SIGNALS or AUTO_TRADE'')
        (seqP (validate_provider_market p market)
        (seqP (within_limit (si_risk_per_trade_pct q) RISK_TEXT)
         (retP (market, mode, symbol)))))))"

section \<open>Revisions\<close>

definition revisions_of :: "nat \<Rightarrow> plane \<Rightarrow> strategy_revision list" where
  "revisions_of i p = filter (\<lambda>v. rv_strategy_id v = i) (pl_revisions p)"

definition next_number :: "nat \<Rightarrow> plane \<Rightarrow> nat" where
  "next_number i p = foldr max (map rv_number (revisions_of i p)) 0 + 1"

definition recorded :: "user \<Rightarrow> string \<Rightarrow> string option \<Rightarrow> int option \<Rightarrow> symbol_strategy \<Rightarrow> plane \<Rightarrow> plane" where
  \<comment> \<open>\<open>_record_revision\<close>: a snapshot of the row under the next number\<close>
  "recorded actor event reason from row p =
     on_db (\<lambda>d. d\<lparr>db_next_id := db_next_id d + 1\<rparr>)
       (p\<lparr>pl_revisions := pl_revisions p @ [\<lparr>rv_id = db_next_id (pl_db p), rv_strategy_id = ss_id row, rv_number = next_number (ss_id row) p,
          rv_user_id = ss_user_id row, rv_actor_user_id = us_id actor, rv_profile_id = ss_profile_id row, rv_event = event,
          rv_reason = (let t = str_strip (or_else reason []) in if t = [] then None else Some t), rv_snapshot = row, rv_restored_from = from\<rparr>]\<rparr>)"

definition added_strategy :: "symbol_strategy \<Rightarrow> plane \<Rightarrow> plane" where
  "added_strategy r = on_db (\<lambda>d. d\<lparr>db_strategies := db_strategies d @ [r], db_next_id := db_next_id d + 1\<rparr>)"

definition edited_strategy :: "nat \<Rightarrow> (symbol_strategy \<Rightarrow> symbol_strategy) \<Rightarrow> plane \<Rightarrow> plane" where
  "edited_strategy i f = on_db (\<lambda>d. d\<lparr>db_strategies := update_key ss_id i f (db_strategies d)\<rparr>)"

definition deleted_strategy :: "nat \<Rightarrow> plane \<Rightarrow> plane" where
  "deleted_strategy i = on_db (\<lambda>d. d\<lparr>db_strategies := filter (\<lambda>r. ss_id r \<noteq> i) (db_strategies d)\<rparr>)"

section \<open>Handlers\<close>

definition strategy_row :: "nat \<Rightarrow> broker_profile \<Rightarrow> string \<Rightarrow> string \<Rightarrow> string \<Rightarrow> strategy_in \<Rightarrow> symbol_strategy" where
  "strategy_row i p market mode symbol q =
     \<lparr>ss_id = i, ss_user_id = bp_user_id p, ss_profile_id = bp_id p, ss_market = market, ss_symbol = symbol, ss_mode = mode, ss_enabled = si_enabled q,
      ss_timeframe = si_timeframe q, ss_minimum_signal_strength = si_minimum_signal_strength q, ss_risk_per_trade_pct = si_risk_per_trade_pct q,
      ss_stop_atr_multiplier = si_stop_atr_multiplier q, ss_take_profit_rr = si_take_profit_rr q,
      ss_max_position_notional_pct = si_max_position_notional_pct q\<rparr>"

definition create_symbol_strategy :: "plane_env \<Rightarrow> credentials \<Rightarrow> strategy_in \<Rightarrow> unit request_prog" where
  "create_symbol_strategy P cr q =
     bindP (get_current_user P cr) (\<lambda>u.
     bindP (trading_profile u (si_profile_id q)) (\<lambda>p.
     bindP (validate_strategy p q) (\<lambda>(market, mode, symbol).
     bindP (look (\<lambda>pl. (db_next_id (pl_db pl), \<exists>r \<in> set (strategies_of pl). ss_user_id r = bp_user_id p \<and> ss_profile_id r = bp_id p
              \<and> ss_market r = market \<and> ss_symbol r = symbol))) (\<lambda>(i, taken).
     seqP (require (\<not> taken) 409 ''symbol already exists for this account'')
       (let row = strategy_row i p market mode symbol q
        in seqP (put (added_strategy row)) (seqP (put (recorded u ''CREATE'' None None row)) (save P)))))))"

definition patched_mode :: "strategy_patch \<Rightarrow> string option request_prog" where
  \<comment> \<open>None where the body does not set a mode\<close>
  "patched_mode q = (case pt_mode q of
       None \<Rightarrow> retP None
     | Some None \<Rightarrow> liftP (Inl AttributeError)
     | Some (Some m) \<Rightarrow> seqP (require (str_upper m \<in> set MODES) 400 ''invalid mode'') (retP (Some (str_upper m))))"

definition edit_strategy :: "strategy_patch \<Rightarrow> string option \<Rightarrow> string \<Rightarrow> symbol_strategy \<Rightarrow> symbol_strategy" where
  "edit_strategy q mode symbol r =
     r\<lparr>ss_mode := or_else mode (ss_mode r), ss_enabled := (case pt_enabled q of Some (Some b) \<Rightarrow> b | _ \<Rightarrow> ss_enabled r),
       ss_timeframe := or_else (pt_timeframe q) (ss_timeframe r),
       ss_minimum_signal_strength := or_else (pt_minimum_signal_strength q) (ss_minimum_signal_strength r),
       ss_risk_per_trade_pct := or_else (pt_risk_per_trade_pct q) (ss_risk_per_trade_pct r),
       ss_stop_atr_multiplier := or_else (pt_stop_atr_multiplier q) (ss_stop_atr_multiplier r),
       ss_take_profit_rr := or_else (pt_take_profit_rr q) (ss_take_profit_rr r),
       ss_max_position_notional_pct := or_else (pt_max_position_notional_pct q) (ss_max_position_notional_pct r), ss_symbol := symbol\<rparr>"

definition update_symbol_strategy :: "plane_env \<Rightarrow> credentials \<Rightarrow> nat \<Rightarrow> strategy_patch \<Rightarrow> unit request_prog" where
  \<comment> \<open>a null in the column \<open>enabled\<close> fails when the row is written\<close>
  "update_symbol_strategy P cr i q =
     bindP (get_current_user P cr) (\<lambda>u.
     bindP (own_strategy u i) (\<lambda>row.
     bindP (trading_profile u (ss_profile_id row)) (\<lambda>p.
     seqP (validate_provider_market p (ss_market row))
    (bindP (patched_mode q) (\<lambda>mode.
     seqP (within_limit (or_else (pt_risk_per_trade_pct q) None) RISK_TEXT)
    (bindP (or_400 (normalize_symbol (ss_market row) (ss_symbol row))) (\<lambda>symbol.
     if pt_enabled q = Some None then liftP (Inl SQLAlchemyError)
     else seqP (put (edited_strategy i (edit_strategy q mode symbol)))
         (seqP (put (recorded u ''UPDATE'' None None (edit_strategy q mode symbol row))) (save P)))))))))"

definition delete_symbol_strategy :: "plane_env \<Rightarrow> credentials \<Rightarrow> nat \<Rightarrow> unit request_prog" where
  "delete_symbol_strategy P cr i =
     bindP (get_current_user P cr) (\<lambda>u.
     bindP (own_strategy u i) (\<lambda>row.
     seqP (put (recorded u ''DELETE'' None None row)) (seqP (put (deleted_strategy i)) (save P))))"

definition restored :: "symbol_strategy \<Rightarrow> symbol_strategy \<Rightarrow> symbol_strategy" where
  \<comment> \<open>the editable fields of the snapshot, its mode in upper case\<close>
  "restored snapshot r =
     r\<lparr>ss_mode := str_upper (ss_mode snapshot), ss_enabled := ss_enabled snapshot, ss_timeframe := ss_timeframe snapshot,
       ss_minimum_signal_strength := ss_minimum_signal_strength snapshot, ss_risk_per_trade_pct := ss_risk_per_trade_pct snapshot,
       ss_stop_atr_multiplier := ss_stop_atr_multiplier snapshot, ss_take_profit_rr := ss_take_profit_rr snapshot,
       ss_max_position_notional_pct := ss_max_position_notional_pct snapshot\<rparr>"

definition rollback_symbol_strategy :: "plane_env \<Rightarrow> credentials \<Rightarrow> nat \<Rightarrow> nat \<Rightarrow> string option \<Rightarrow> unit request_prog" where
  "rollback_symbol_strategy P cr i number reason =
     bindP (get_current_user P cr) (\<lambda>u.
     bindP (own_strategy u i) (\<lambda>row.
     bindP (look (\<lambda>p. find (\<lambda>v. rv_number v = number) (revisions_of i p))) (\<lambda>found. case found of
       None \<Rightarrow> refuse 404 ''strategy revision not found''
     | Some revision \<Rightarrow>
         let snapshot = rv_snapshot revision
         in seqP (require (str_upper (ss_mode snapshot) \<in> set MODES) 409 ''stored revision has an invalid strategy mode'')
           (bindP (trading_profile u (ss_profile_id row)) (\<lambda>p.
            seqP (validate_provider_market p (ss_market row))
           (seqP (within_limit (ss_risk_per_trade_pct snapshot) ''stored revision exceeds current Admin safety limit of '')
           (seqP (put (edited_strategy i (restored snapshot)))
           (seqP (put (recorded u ''ROLLBACK'' reason (Some (int number)) (restored snapshot row))) (save P)))))))))"

definition list_symbol_strategies :: "plane_env \<Rightarrow> credentials \<Rightarrow> symbol_strategy list request_prog" where
  \<comment> \<open>up to the order of the rows\<close>
  "list_symbol_strategies P cr = bindP (get_current_user P cr) (\<lambda>u.
     look (\<lambda>p. filter (\<lambda>r. is_admin u \<or> ss_user_id r = us_id u) (strategies_of p)))"

definition list_strategy_revisions :: "plane_env \<Rightarrow> credentials \<Rightarrow> nat \<Rightarrow> strategy_revision list request_prog" where
  "list_strategy_revisions P cr i = bindP (get_current_user P cr) (\<lambda>u. bindP (own_strategy u i) (\<lambda>_.
     look (\<lambda>p. sort_key (\<lambda>v. - int (rv_number v)) (revisions_of i p))))"

definition list_effective_symbol_strategies :: "plane_env \<Rightarrow> credentials \<Rightarrow> (symbol_strategy \<times> entry_params) list request_prog" where
  \<comment> \<open>the rows with the parameters in force, without the labels of their sources\<close>
  "list_effective_symbol_strategies P cr = bindP (get_current_user P cr) (\<lambda>u.
     bindP (look (\<lambda>p. mapE (\<lambda>r. bindE (resolve_params r (default_strategy (pl_db p)) (default_risk (pl_db p))) (\<lambda>e. Inr (r, e)))
       (filter (\<lambda>r. is_admin u \<or> ss_user_id r = us_id u) (strategies_of p)))) liftP)"

section \<open>Bulk operations\<close>

definition own_profiles :: "user \<Rightarrow> plane \<Rightarrow> broker_profile list" where
  "own_profiles u p = filter (\<lambda>r. bp_user_id r = us_id u \<and> bp_provider r \<noteq> ''ATLAS_PAPER'') (profiles_of p)"

definition own_rows :: "user \<Rightarrow> plane \<Rightarrow> symbol_strategy list" where
  "own_rows u p = filter (\<lambda>r. ss_user_id r = us_id u) (strategies_of p)"

definition scope_of :: "symbol_strategy \<Rightarrow> string \<times> string" where "scope_of r = (ss_market r, ss_symbol r)"

definition route_profile :: "broker_profile list \<Rightarrow> string \<Rightarrow> broker_profile option res" where
  "route_profile profiles market =
     bindE (select_execution_route market profiles) (\<lambda>selected.
       Inr (case selected of None \<Rightarrow> None | Some c \<Rightarrow> find (\<lambda>x. id_text (bp_id x) = rc_profile_id c) profiles))"

fun seeded :: "(broker_profile \<Rightarrow> bool) \<Rightarrow> broker_profile list \<Rightarrow> (string \<times> string) list \<Rightarrow> (string \<times> string) list \<Rightarrow> ((string \<times> string) \<times> broker_profile) list res" where
  \<comment> \<open>the symbols without a strategy that an acceptable account of the owner can trade\<close>
  "seeded ok profiles existing [] = Inr []"
| "seeded ok profiles existing (k # ks) =
     (if k \<in> set existing then seeded ok profiles existing ks
      else bindE (route_profile profiles (fst k)) (\<lambda>p. case p of
        None \<Rightarrow> seeded ok profiles existing ks
      | Some x \<Rightarrow> if ok x then bindE (seeded ok profiles (k # existing) ks) (\<lambda>rs. Inr ((k, x) # rs)) else seeded ok profiles existing ks))"

definition seed_row :: "user \<Rightarrow> string \<Rightarrow> (string \<times> string) \<times> broker_profile \<Rightarrow> nat \<Rightarrow> symbol_strategy" where
  "seed_row u mode kp i = (case kp of ((market, symbol), p) \<Rightarrow>
     \<lparr>ss_id = i, ss_user_id = us_id u, ss_profile_id = bp_id p, ss_market = market, ss_symbol = symbol, ss_mode = mode, ss_enabled = True,
      ss_timeframe = None, ss_minimum_signal_strength = None, ss_risk_per_trade_pct = None, ss_stop_atr_multiplier = None,
      ss_take_profit_rr = None, ss_max_position_notional_pct = None\<rparr>)"

definition added_seeds :: "user \<Rightarrow> string \<Rightarrow> ((string \<times> string) \<times> broker_profile) list \<Rightarrow> plane \<Rightarrow> plane" where
  "added_seeds u mode seeds p = fold (\<lambda>kp pl. added_strategy (seed_row u mode kp (db_next_id (pl_db pl))) pl) seeds p"

definition seed_instrument_universe :: "plane_env \<Rightarrow> credentials \<Rightarrow> string list \<Rightarrow> string \<Rightarrow> unit request_prog" where
  "seed_instrument_universe P cr markets mode =
     bindP (get_current_user P cr) (\<lambda>u.
     seqP (require (str_upper mode \<in> set [''WATCH'', ''SIGNALS'']) 400
             ''bulk universe seed only allows WATCH or SIGNALS; promote symbols to AUTO_TRADE individually after validation'')
    (bindP (or_400 (wanted_markets markets)) (\<lambda>wanted.
     bindP (look (\<lambda>p. bindE (starter_symbols wanted) (seeded (\<lambda>_. True) (own_profiles u p) (map scope_of (own_rows u p))))) (\<lambda>r.
     bindP (liftP r) (\<lambda>seeds. seqP (put (added_seeds u (str_upper mode) seeds)) (save P))))))"

definition route_certified :: "broker_profile \<Rightarrow> bool" where
  "route_certified p \<longleftrightarrow> (str_upper (bp_provider p), str_upper (bp_environment p)) \<in> set CERTIFIED_AUTOMATION_ROUTES"

fun last_by_scope :: "symbol_strategy list \<Rightarrow> symbol_strategy list" where
  \<comment> \<open>the rows of a dict by market and symbol: a later row replaces an earlier one\<close>
  "last_by_scope [] = []"
| "last_by_scope (r # rs) = (if \<exists>x \<in> set rs. scope_of x = scope_of r then last_by_scope rs else r # last_by_scope rs)"

definition promotable :: "string list \<Rightarrow> user \<Rightarrow> plane \<Rightarrow> nat list" where
  "promotable wanted u p = map ss_id (filter (\<lambda>r. ss_market r \<in> set wanted \<and> (case by_key bp_id (ss_profile_id r) (profiles_of p) of
       None \<Rightarrow> False | Some x \<Rightarrow> route_certified x \<and> route_ready x)) (last_by_scope (own_rows u p)))"

definition promoted :: "nat list \<Rightarrow> plane \<Rightarrow> plane" where
  "promoted ids = on_db (\<lambda>d. d\<lparr>db_strategies := map (\<lambda>r. if ss_id r \<in> set ids then r\<lparr>ss_mode := ''AUTO_TRADE'', ss_enabled := True\<rparr> else r) (db_strategies d)\<rparr>)"

definition promote_all_eligible_auto_trade :: "plane_env \<Rightarrow> credentials \<Rightarrow> string list \<Rightarrow> bool \<Rightarrow> unit request_prog" where
  "promote_all_eligible_auto_trade P cr markets seed_missing =
     bindP (get_current_user P cr) (\<lambda>u.
     seqP (require (is_admin u) 403 ''ADMIN access required for bulk AUTO_TRADE promotion'')
    (bindP (or_400 (wanted_markets markets)) (\<lambda>wanted.
     bindP (look (\<lambda>p. if seed_missing then bindE (starter_symbols wanted) (seeded (\<lambda>x. route_certified x \<and> route_ready x) (own_profiles u p) (map scope_of (own_rows u p)))
                     else Inr [])) (\<lambda>r.
     bindP (liftP r) (\<lambda>seeds.
     bindP (look (promotable wanted u)) (\<lambda>ids.
       seqP (put (promoted ids)) (seqP (put (added_seeds u ''AUTO_TRADE'' seeds)) (save P))))))))"

end
