(* ===== verification/Control_Plane.thy ===== *)
theory Control_Plane
  imports Strategy_Api
begin

text \<open>
  What a sequence of API requests can do to users, sessions, controls and accounts. The committed effect of
  every request is a path of an abstract step relation whose rules state who may make which change; the
  properties are invariants of that relation.
\<close>

section \<open>Requests\<close>

datatype api_call =
    Login string string client
  | Logout credentials client
  | List_Users credentials
  | Add_User credentials string "string option" string user_role
  | Update_User credentials nat "user_role option" "bool option"
  | Reset_Password credentials nat string
  | Read_State credentials
  | Update_State credentials automation_update
  | Kill credentials
  | Restart credentials
  | List_Accounts credentials
  | Live_Execution credentials nat live_update
  | Live_Status credentials nat
  | Disconnect credentials nat
  | Toggle credentials nat
  | Delete_Account credentials nat
  | Activate credentials nat
  | Simulation_Capital credentials nat "pyfloat option"
  | Create_Strategy credentials strategy_in
  | Update_Strategy credentials nat strategy_patch
  | Delete_Strategy credentials nat
  | Rollback_Strategy credentials nat nat "string option"
  | List_Strategies credentials
  | List_Revisions credentials nat
  | List_Effective credentials
  | Seed_Universe credentials "string list" string
  | Promote_All credentials "string list" bool

definition answered :: "'a request_prog \<Rightarrow> unit request_prog" where
  "answered m = bindP m (\<lambda>_. retP ())"

fun respond :: "plane_env \<Rightarrow> api_call \<Rightarrow> unit request_prog" where
  "respond P (Login username password c) = answered (login P username password c)"
| "respond P (Logout cr c) = logout P cr c"
| "respond P (List_Users cr) = answered (list_users P cr)"
| "respond P (Add_User cr username email password role) = answered (add_user P cr username email password role)"
| "respond P (Update_User cr i role is_active) = answered (update_user P cr i role is_active)"
| "respond P (Reset_Password cr i password) = answered (reset_user_password P cr i password)"
| "respond P (Read_State cr) = answered (read_state P cr)"
| "respond P (Update_State cr u) = answered (update_state P cr u)"
| "respond P (Kill cr) = answered (kill P cr)"
| "respond P (Restart cr) = answered (restart P cr)"
| "respond P (List_Accounts cr) = answered (list_accounts P cr)"
| "respond P (Live_Execution cr i q) = live_execution P cr i q"
| "respond P (Live_Status cr i) = answered (live_execution_status P cr i)"
| "respond P (Disconnect cr i) = disconnect_account P cr i"
| "respond P (Toggle cr i) = toggle_account P cr i"
| "respond P (Delete_Account cr i) = delete_account P cr i"
| "respond P (Activate cr i) = activate P cr i"
| "respond P (Simulation_Capital cr i v) = simulation_capital P cr i v"
| "respond P (Create_Strategy cr q) = create_symbol_strategy P cr q"
| "respond P (Update_Strategy cr i q) = update_symbol_strategy P cr i q"
| "respond P (Delete_Strategy cr i) = delete_symbol_strategy P cr i"
| "respond P (Rollback_Strategy cr i number reason) = rollback_symbol_strategy P cr i number reason"
| "respond P (List_Strategies cr) = answered (list_symbol_strategies P cr)"
| "respond P (List_Revisions cr i) = answered (list_strategy_revisions P cr i)"
| "respond P (List_Effective cr) = answered (list_effective_symbol_strategies P cr)"
| "respond P (Seed_Universe cr markets mode) = seed_instrument_universe P cr markets mode"
| "respond P (Promote_All cr markets seed_missing) = promote_all_eligible_auto_trade P cr markets seed_missing"

definition serve :: "plane_env \<Rightarrow> api_call \<Rightarrow> server \<Rightarrow> unit res \<times> server" where
  \<comment> \<open>one request in a session of its own; what it has not committed is lost when the session is closed\<close>
  "serve P call s = (case respond P call (s\<lparr>sv_now := sv_saved s\<rparr>) of (r, t) \<Rightarrow> (r, t\<lparr>sv_now := sv_saved t\<rparr>))"

fun serves :: "plane_env \<Rightarrow> api_call list \<Rightarrow> server \<Rightarrow> server" where
  "serves P [] s = s"
| "serves P (call # calls) s = serves P calls (snd (serve P call s))"

section \<open>What a request commits\<close>

definition commits :: "('a res \<Rightarrow> plane \<Rightarrow> bool) \<Rightarrow> 'a request_prog \<Rightarrow> plane \<Rightarrow> plane \<Rightarrow> bool" where
  \<comment> \<open>from these rows in the session and in the database, the outcome and the committed rows satisfy the property\<close>
  "commits G m p q \<longleftrightarrow> (\<forall>s. sv_now s = p \<longrightarrow> sv_saved s = q \<longrightarrow> (case m s of (r, t) \<Rightarrow> G r (sv_saved t)))"

named_theorems commit_rules \<open>backward rules for what a request commits\<close>

lemma commits_retP [commit_rules]: "G (Inr x) q \<Longrightarrow> commits G (retP x) p q"
  by (simp add: commits_def)

lemma commits_refuse [commit_rules]: "G (Inl (HTTPException code detail)) q \<Longrightarrow> commits G (refuse code detail) p q"
  by (simp add: commits_def refuse_def http_error_def)

lemma commits_liftP [commit_rules]: "G r q \<Longrightarrow> commits G (liftP r) p q"
  by (simp add: commits_def)

lemma commits_refuse_bind [commit_rules]: "(\<And>e. G (Inl e) q) \<Longrightarrow> commits G (bindP (refuse code detail) f) p q"
  by (simp add: commits_def refuse_def http_error_def bindP_def)

lemma commits_look_last [commit_rules]: "G (Inr (g p)) q \<Longrightarrow> commits G (look g) p q"
  by (simp add: commits_def look_def)

lemma commits_look [commit_rules]: "commits G (f (g p)) p q \<Longrightarrow> commits G (bindP (look g) f) p q"
  by (simp add: commits_def look_def bindP_def)

lemma commits_tick [commit_rules]: "commits G k p q \<Longrightarrow> commits G (seqP tick k) p q"
  by (simp add: commits_def tick_def seqP_def bindP_def)

lemma commits_ticks [commit_rules]: "(\<And>t. commits G (f t) p q) \<Longrightarrow> commits G (bindP (getP sv_tick) f) p q"
  by (simp add: commits_def bindP_def)

lemma commits_clock [commit_rules]: "(\<And>now. commits G (f now) p q) \<Longrightarrow> commits G (bindP (clock P) f) p q"
  by (simp add: commits_def clock_def tick_def seqP_def bindP_def)

lemma commits_put_last [commit_rules]: "G (Inr ()) q \<Longrightarrow> commits G (put f) p q"
  by (simp add: commits_def put_def)

lemma commits_put [commit_rules]: "commits G k (f p) q \<Longrightarrow> commits G (seqP (put f) k) p q"
  by (simp add: commits_def put_def seqP_def bindP_def)

lemma commits_save_last [commit_rules]: "G (Inl SQLAlchemyError) q \<Longrightarrow> G (Inr ()) p \<Longrightarrow> commits G (save P) p q"
  by (simp add: commits_def save_def)

lemma commits_save [commit_rules]: "G (Inl SQLAlchemyError) q \<Longrightarrow> commits G k p p \<Longrightarrow> commits G (seqP (save P) k) p q"
  by (simp add: commits_def save_def seqP_def bindP_def)

lemma commits_require [commit_rules]:
  "G (Inl (HTTPException code detail)) q \<Longrightarrow> (c \<Longrightarrow> commits G k p q) \<Longrightarrow> commits G (seqP (require c code detail) k) p q"
  by (cases c) (simp_all add: commits_def require_def refuse_def http_error_def seqP_def bindP_def)

lemma commits_refuse_value [commit_rules]:
  "G (Inl (ValueError m)) q \<Longrightarrow> (\<not> c \<Longrightarrow> commits G k p q) \<Longrightarrow> commits G (seqP (refuse_value c m) k) p q"
  by (cases c) (simp_all add: commits_def refuse_value_def seqP_def bindP_def)

lemma commits_lift [commit_rules]:
  "(\<And>e. r = Inl e \<Longrightarrow> G (Inl e) q) \<Longrightarrow> (\<And>x. r = Inr x \<Longrightarrow> commits G (f x) p q) \<Longrightarrow> commits G (bindP (liftP r) f) p q"
  by (cases r) (simp_all add: commits_def bindP_def)

lemma commits_lift_seq [commit_rules]:
  "(\<And>e. r = Inl e \<Longrightarrow> G (Inl e) q) \<Longrightarrow> commits G k p q \<Longrightarrow> commits G (seqP (liftP r) k) p q"
  unfolding seqP_def by (rule commits_lift)

lemma commits_if: "(c \<Longrightarrow> commits G m p q) \<Longrightarrow> (\<not> c \<Longrightarrow> commits G k p q) \<Longrightarrow> commits G (if c then m else k) p q"
  by simp

lemma commits_option: "(v = None \<Longrightarrow> commits G n p q) \<Longrightarrow> (\<And>x. v = Some x \<Longrightarrow> commits G (f x) p q) \<Longrightarrow>
    commits G (case v of None \<Rightarrow> n | Some x \<Rightarrow> f x) p q"
  by (cases v) auto

lemma commits_prod: "(\<And>x y. v = (x, y) \<Longrightarrow> commits G (f x y) p q) \<Longrightarrow> commits G (case v of (x, y) \<Rightarrow> f x y) p q"
  by (cases v) auto

lemmas commit_splits = commits_if commits_option commits_prod

lemma commits_bind_if: "(c \<Longrightarrow> commits G (bindP m f) p q) \<Longrightarrow> (\<not> c \<Longrightarrow> commits G (bindP k f) p q) \<Longrightarrow> commits G (bindP (if c then m else k) f) p q"
  by simp

lemma commits_bind_option: "(v = None \<Longrightarrow> commits G (bindP n k) p q) \<Longrightarrow> (\<And>x. v = Some x \<Longrightarrow> commits G (bindP (f x) k) p q) \<Longrightarrow>
    commits G (bindP (case v of None \<Rightarrow> n | Some x \<Rightarrow> f x) k) p q"
  by (cases v) auto

lemma commits_seq_if: "(c \<Longrightarrow> commits G (seqP m k) p q) \<Longrightarrow> (\<not> c \<Longrightarrow> commits G (seqP n k) p q) \<Longrightarrow> commits G (seqP (if c then m else n) k) p q"
  by simp

lemma seqP_assoc: "seqP (seqP m k) n = seqP m (seqP k n)" and seqP_bind: "seqP (bindP l f) n = bindP l (\<lambda>x. seqP (f x) n)"
    and seqP_retP: "seqP (retP ()) n = n"
  by (simp_all add: seqP_def bindP_assoc bindP_retP)

lemma serve_commits:
  assumes "commits G (respond P call) (sv_saved s) (sv_saved s)"
  shows "G (fst (serve P call s)) (sv_saved (snd (serve P call s)))"
  using assms [unfolded commits_def, rule_format, of "s\<lparr>sv_now := sv_saved s\<rparr>"]
  by (auto simp: serve_def split: prod.splits)

definition acting :: "plane_env \<Rightarrow> credentials \<Rightarrow> plane \<Rightarrow> user \<Rightarrow> bool" where
  \<comment> \<open>the credentials name this user now: an open session of an active user\<close>
  "acting P cr p u \<longleftrightarrow> (\<exists>scheme token s. cr = Some (scheme, token) \<and> session_of (token_hash P token) p = Some s \<and> se_revoked_at s = None
     \<and> by_key us_id (se_user_id s) (users_of p) = Some u \<and> us_is_active u)"

lemma commits_current_user [commit_rules]:
  assumes "\<And>code detail. G (Inl (HTTPException code detail)) q" and "\<And>u. acting P cr p u \<Longrightarrow> commits G (f u) p q"
  shows "commits G (bindP (get_current_user P cr) f) p q"
proof -
  have none: "commits G (bindP (refuse 401 detail) f) p q" for detail
    using assms(1) by (simp add: commits_def refuse_def http_error_def bindP_def)
  show ?thesis
    unfolding get_current_user_def get_user_for_token_def
    by (auto simp: bindP_assoc bindP_retP acting_def split: option.splits prod.splits intro!: none commit_rules commit_splits assms(2))
qed

lemma commits_authorized [commit_rules]:
  assumes "\<And>code detail. G (Inl (HTTPException code detail)) q"
    and "\<And>r. by_key bp_id i (profiles_of p) = Some r \<Longrightarrow> is_admin u \<or> bp_user_id r = us_id u \<Longrightarrow> commits G (f r) p q"
  shows "commits G (bindP (authorized_profile u i) f) p q"
proof -
  have none: "commits G (bindP (refuse code detail) f) p q" for code detail
    using assms(1) by (simp add: commits_def refuse_def http_error_def bindP_def)
  show ?thesis
    unfolding authorized_profile_def
    by (auto simp: bindP_assoc bindP_retP split: option.splits intro!: none commit_rules commit_splits assms(2))
qed

section \<open>The changes the API permits\<close>

definition harmless :: "(broker_profile \<Rightarrow> broker_profile) \<Rightarrow> bool" where
  \<comment> \<open>who owns an account and what it may trade stay, and it is not armed\<close>
  "harmless f \<longleftrightarrow> (\<forall>r. bp_id (f r) = bp_id r \<and> bp_user_id (f r) = bp_user_id r \<and> bp_provider (f r) = bp_provider r
     \<and> bp_environment (f r) = bp_environment r \<and> bp_execution_certified (f r) = bp_execution_certified r
     \<and> bp_execution_certification_buy_passed (f r) = bp_execution_certification_buy_passed r
     \<and> bp_execution_certification_sell_passed (f r) = bp_execution_certification_sell_passed r
     \<and> (bp_live_execution_enabled (f r) \<longrightarrow> bp_live_execution_enabled r \<and> bp_live_execution_armed_at (f r) = bp_live_execution_armed_at r
          \<and> bp_live_execution_expires_at (f r) = bp_live_execution_expires_at r))"

definition present :: "plane \<Rightarrow> user \<Rightarrow> bool" where
  "present p u \<longleftrightarrow> u \<in> set (users_of p) \<and> us_is_active u"

definition same_place :: "(symbol_strategy \<Rightarrow> symbol_strategy) \<Rightarrow> symbol_strategy \<Rightarrow> bool" where
  \<comment> \<open>the edit leaves what a strategy belongs to, and normalizes its symbol at most\<close>
  "same_place f r \<longleftrightarrow> ss_id (f r) = ss_id r \<and> ss_user_id (f r) = ss_user_id r \<and> ss_profile_id (f r) = ss_profile_id r \<and> ss_market (f r) = ss_market r
     \<and> (ss_symbol (f r) = ss_symbol r \<or> normalize_symbol (ss_market r) (ss_symbol r) = Inr (ss_symbol (f r)))"

definition promotable_row :: "plane \<Rightarrow> nat \<Rightarrow> symbol_strategy \<Rightarrow> bool" where
  "promotable_row p owner r \<longleftrightarrow> ss_user_id r = owner
     \<and> (\<exists>x. by_key bp_id (ss_profile_id r) (profiles_of p) = Some x \<and> route_certified x \<and> route_ready x)"

inductive plane_change :: "plane_env \<Rightarrow> user \<Rightarrow> bool \<Rightarrow> plane \<Rightarrow> plane \<Rightarrow> bool" for P u restarting where
  \<comment> \<open>what the user may change in one step, with or without the right to restart the engine\<close>
  noted: "plane_change P u restarting p (audited action success who detail c p)"
| opened: "present p u \<Longrightarrow> se_user_id s = us_id u \<Longrightarrow> se_revoked_at s = None
    \<Longrightarrow> \<forall>r \<in> set (pl_sessions p). se_token_hash r \<noteq> se_token_hash s
    \<Longrightarrow> plane_change P u restarting p (added_session s p)"
| closed: "plane_change P u restarting p (revoked which now p)"
| joined: "present p u \<Longrightarrow> is_admin u \<Longrightarrow> us_id new = db_next_id (pl_db p) \<Longrightarrow> us_is_active new
    \<Longrightarrow> us_role new \<in> {''ADMIN'', ''USER''} \<Longrightarrow> \<forall>v \<in> set (users_of p). us_username v \<noteq> us_username new
    \<Longrightarrow> plane_change P u restarting p (added_user new p)"
| edited: "present p u \<Longrightarrow> is_admin u \<Longrightarrow> by_key us_id i (users_of p) = Some target
    \<Longrightarrow> \<not> (us_role target = ''ADMIN'' \<and> role = Some USER \<and> length (active_admins p) \<le> 1)
    \<Longrightarrow> \<not> (us_role target = ''ADMIN'' \<and> us_is_active target \<and> is_active = Some False \<and> length (active_admins p) \<le> 1)
    \<Longrightarrow> plane_change P u restarting p
          ((if is_active = Some False then revoked (\<lambda>s. se_user_id s = i) now else id) (edited_user i (patched role is_active) p))"
| reset: "present p u \<Longrightarrow> is_admin u
    \<Longrightarrow> plane_change P u restarting p (revoked (\<lambda>s. se_user_id s = i) now (edited_user i (\<lambda>v. v\<lparr>us_password_hash := hash\<rparr>) p))"
| created: "present p u \<Longrightarrow> default_row p = None \<Longrightarrow> plane_change P u restarting p (created_state p)"
| controlled: "present p u \<Longrightarrow> is_admin u \<Longrightarrow> default_row p = Some s
    \<Longrightarrow> f = updated_state q \<or> f = killed_state \<or> (restarting \<and> f = restarted_state)
    \<Longrightarrow> plane_change P u restarting p (edited_state (au_id s) f p)"
| account: "present p u \<Longrightarrow> by_key bp_id i (profiles_of p) = Some r \<Longrightarrow> is_admin u \<or> bp_user_id r = us_id u
    \<Longrightarrow> harmless f \<Longrightarrow> plane_change P u restarting p (edited_profile i f p)"
| armed: "present p u \<Longrightarrow> is_admin u \<Longrightarrow> by_key bp_id i (profiles_of p) = Some r \<Longrightarrow> pe_allow_live_trading P
    \<Longrightarrow> live_execution_blockers r now = [] \<Longrightarrow> 5 \<le> minutes \<Longrightarrow> minutes \<le> 240
    \<Longrightarrow> plane_change P u restarting p
          (logged_live r u ''ARMED'' reason (Some (now + minutes * 60 * 1000000)) (edited_profile i (armed now minutes) p))"
| logged: "action \<noteq> ''ARMED'' \<Longrightarrow> plane_change P u restarting p (logged_live r u action reason until p)"
| replaced: "present p u \<Longrightarrow> is_admin u \<or> bp_user_id r = us_id u \<Longrightarrow> plane_change P u restarting p (activate_replacement r p)"
| activated: "present p u \<Longrightarrow> is_admin u \<or> owner = us_id u \<Longrightarrow> plane_change P u restarting p
    (on_db (\<lambda>d. d\<lparr>db_profiles := map (\<lambda>r. if bp_user_id r = owner \<and> bp_provider r = provider then set_active (bp_id r = i) r else r) (db_profiles d)\<rparr>) p)"
| deleted: "present p u \<Longrightarrow> by_key bp_id i (profiles_of p) = Some r \<Longrightarrow> is_admin u \<or> bp_user_id r = us_id u
    \<Longrightarrow> plane_change P u restarting p (deleted_profile i p)"
| strategy_added: "present p u \<Longrightarrow> \<exists>x \<in> set (profiles_of p). bp_id x = ss_profile_id r \<and> bp_user_id x = ss_user_id r
    \<Longrightarrow> is_admin u \<or> ss_user_id r = us_id u \<Longrightarrow> ss_id r = db_next_id (pl_db p) \<Longrightarrow> ss_mode r \<in> set MODES
    \<Longrightarrow> plane_change P u restarting p (added_strategy r p)"
| strategy_edited: "present p u \<Longrightarrow> by_key ss_id i (strategies_of p) = Some r \<Longrightarrow> is_admin u \<or> ss_user_id r = us_id u
    \<Longrightarrow> same_place f r \<Longrightarrow> plane_change P u restarting p (edited_strategy i f p)"
| strategy_recorded: "row \<in> set (strategies_of p) \<Longrightarrow> plane_change P u restarting p (recorded u event reason number row p)"
| strategy_deleted: "present p u \<Longrightarrow> by_key ss_id i (strategies_of p) = Some r \<Longrightarrow> is_admin u \<or> ss_user_id r = us_id u
    \<Longrightarrow> plane_change P u restarting p (deleted_strategy i p)"
| strategies_promoted: "present p u \<Longrightarrow> is_admin u
    \<Longrightarrow> \<forall>i \<in> set ids. \<exists>r \<in> set (strategies_of p). ss_id r = i \<and> promotable_row p (us_id u) r
    \<Longrightarrow> plane_change P u restarting p (promoted ids p)"

definition changes :: "plane_env \<Rightarrow> user \<Rightarrow> bool \<Rightarrow> plane \<Rightarrow> plane \<Rightarrow> bool" where
  "changes P u restarting = (plane_change P u restarting)\<^sup>*\<^sup>*"

fun sender :: "plane_env \<Rightarrow> api_call \<Rightarrow> plane \<Rightarrow> user \<Rightarrow> bool" where
  \<comment> \<open>the user on whose behalf a request acts: who logs in, or whose session it carries\<close>
  "sender P (Login username password c) p u =
     (find (\<lambda>v. us_username v = normal_name username) (users_of p) = Some u \<and> us_is_active u
        \<and> verify_password (pe_secrets P) password (us_password_hash u) = Inr True)"
| "sender P (Logout cr c) p u = acting P cr p u"
| "sender P (List_Users cr) p u = acting P cr p u"
| "sender P (Add_User cr username email password role) p u = acting P cr p u"
| "sender P (Update_User cr i role is_active) p u = acting P cr p u"
| "sender P (Reset_Password cr i password) p u = acting P cr p u"
| "sender P (Read_State cr) p u = acting P cr p u"
| "sender P (Update_State cr q) p u = acting P cr p u"
| "sender P (Kill cr) p u = acting P cr p u"
| "sender P (Restart cr) p u = acting P cr p u"
| "sender P (List_Accounts cr) p u = acting P cr p u"
| "sender P (Live_Execution cr i q) p u = acting P cr p u"
| "sender P (Live_Status cr i) p u = acting P cr p u"
| "sender P (Disconnect cr i) p u = acting P cr p u"
| "sender P (Toggle cr i) p u = acting P cr p u"
| "sender P (Delete_Account cr i) p u = acting P cr p u"
| "sender P (Activate cr i) p u = acting P cr p u"
| "sender P (Simulation_Capital cr i v) p u = acting P cr p u"
| "sender P (Create_Strategy cr q) p u = acting P cr p u"
| "sender P (Update_Strategy cr i q) p u = acting P cr p u"
| "sender P (Delete_Strategy cr i) p u = acting P cr p u"
| "sender P (Rollback_Strategy cr i number reason) p u = acting P cr p u"
| "sender P (List_Strategies cr) p u = acting P cr p u"
| "sender P (List_Revisions cr i) p u = acting P cr p u"
| "sender P (List_Effective cr) p u = acting P cr p u"
| "sender P (Seed_Universe cr markets mode) p u = acting P cr p u"
| "sender P (Promote_All cr markets seed_missing) p u = acting P cr p u"

fun is_restart :: "api_call \<Rightarrow> bool" where
  "is_restart (Restart cr) = True"
| "is_restart _ = False"

definition permitted :: "plane_env \<Rightarrow> api_call \<Rightarrow> plane \<Rightarrow> plane \<Rightarrow> bool" where
  \<comment> \<open>the specification of a request: it commits nothing but a note of a failed login, or changes its sender may make\<close>
  "permitted P call p q \<longleftrightarrow> q = p \<or> (\<exists>u. sender P call p u \<and> changes P u (is_restart call) p q)
     \<or> (\<exists>username password c who detail. call = Login username password c \<and> q = audited ''login_attempt'' False who detail c p)"

end
