(* ===== verification/Control_Refinement.thy ===== *)
theory Control_Refinement
  imports Control_Plane
begin

text \<open>
  The refinement of the API: every handler commits nothing but changes its sender may make.
\<close>

section \<open>Every request makes permitted changes only\<close>

lemma users_simps [simp]:
  "users_of (audited a b c d e p) = users_of p" "users_of (added_session s p) = users_of p" "users_of (revoked w now p) = users_of p"
  "users_of (added_user v p) = users_of p @ [v]" "users_of (edited_user i g p) = update_key us_id i g (users_of p)"
  "users_of (created_state p) = users_of p" "users_of (edited_state i h p) = users_of p" "users_of (edited_profile i f p) = users_of p"
  "users_of (logged_live r u act reason until p) = users_of p" "users_of (activate_replacement r p) = users_of p"
  "users_of (deleted_profile i p) = users_of p"
  by (simp_all add: users_of_def on_db_def audited_def added_session_def revoked_def added_user_def edited_user_def created_state_def
      edited_state_def edited_profile_def logged_live_def activate_replacement_def deleted_profile_def split: option.split)

lemma profiles_simps [simp]:
  "profiles_of (audited a b c d e p) = profiles_of p" "profiles_of (added_session s p) = profiles_of p" "profiles_of (revoked w now p) = profiles_of p"
  "profiles_of (added_user v p) = profiles_of p" "profiles_of (edited_user i g p) = profiles_of p"
  "profiles_of (created_state p) = profiles_of p" "profiles_of (edited_state i h p) = profiles_of p"
  "profiles_of (edited_profile i f p) = update_key bp_id i f (profiles_of p)"
  "profiles_of (logged_live r u act reason until p) = profiles_of p"
  "profiles_of (deleted_profile i p) = filter (\<lambda>r. bp_id r \<noteq> i) (profiles_of p)"
  by (simp_all add: profiles_of_def on_db_def audited_def added_session_def revoked_def added_user_def edited_user_def created_state_def
      edited_state_def edited_profile_def logged_live_def deleted_profile_def)

lemma sessions_simps [simp]:
  "pl_sessions (audited a b c d e p) = pl_sessions p" "pl_sessions (added_session s p) = pl_sessions p @ [s]"
  "pl_sessions (added_user v p) = pl_sessions p" "pl_sessions (edited_user i g p) = pl_sessions p"
  "pl_sessions (created_state p) = pl_sessions p" "pl_sessions (edited_state i h p) = pl_sessions p"
  "pl_sessions (edited_profile i f p) = pl_sessions p" "pl_sessions (logged_live r u act reason until p) = pl_sessions p"
  "pl_sessions (activate_replacement r p) = pl_sessions p" "pl_sessions (deleted_profile i p) = pl_sessions p"
  "pl_sessions (on_db h2 p) = pl_sessions p"
  by (simp_all add: on_db_def audited_def added_session_def added_user_def edited_user_def created_state_def
      edited_state_def edited_profile_def logged_live_def activate_replacement_def deleted_profile_def split: option.split)

lemma states_simps [simp]:
  "states_of (audited a b c d e p) = states_of p" "states_of (added_session s p) = states_of p" "states_of (revoked w now p) = states_of p"
  "states_of (added_user v p) = states_of p" "states_of (edited_user i g p) = states_of p"
  "states_of (edited_state i h p) = update_key au_id i h (states_of p)" "states_of (edited_profile i f p) = states_of p"
  "states_of (created_state p) = states_of p @ [default_state (db_next_id (pl_db p))]"
  "states_of (logged_live r u act reason until p) = states_of p" "states_of (activate_replacement r p) = states_of p"
  "states_of (deleted_profile i p) = states_of p"
  by (simp_all add: states_of_def on_db_def audited_def added_session_def revoked_def added_user_def edited_user_def created_state_def
      edited_state_def edited_profile_def logged_live_def activate_replacement_def deleted_profile_def split: option.split)

lemma strategy_simps [simp]:
  "users_of (added_strategy row p) = users_of p" "users_of (edited_strategy i k p) = users_of p" "users_of (deleted_strategy i p) = users_of p"
  "users_of (promoted ids p) = users_of p" "users_of (recorded v event reason number row p) = users_of p"
  "profiles_of (added_strategy row p) = profiles_of p" "profiles_of (edited_strategy i k p) = profiles_of p"
  "profiles_of (deleted_strategy i p) = profiles_of p" "profiles_of (promoted ids p) = profiles_of p"
  "profiles_of (recorded v event reason number row p) = profiles_of p"
  "pl_sessions (added_strategy row p) = pl_sessions p" "pl_sessions (edited_strategy i k p) = pl_sessions p"
  "pl_sessions (deleted_strategy i p) = pl_sessions p" "pl_sessions (promoted ids p) = pl_sessions p"
  "pl_sessions (recorded v event reason number row p) = pl_sessions p"
  "states_of (added_strategy row p) = states_of p" "states_of (edited_strategy i k p) = states_of p"
  "states_of (deleted_strategy i p) = states_of p" "states_of (promoted ids p) = states_of p"
  "states_of (recorded v event reason number row p) = states_of p"
  "strategies_of (added_strategy row p) = strategies_of p @ [row]" "strategies_of (edited_strategy i k p) = update_key ss_id i k (strategies_of p)"
  "strategies_of (deleted_strategy i p) = filter (\<lambda>r. ss_id r \<noteq> i) (strategies_of p)"
  "strategies_of (promoted ids p) = map (\<lambda>r. if ss_id r \<in> set ids then r\<lparr>ss_mode := ''AUTO_TRADE'', ss_enabled := True\<rparr> else r) (strategies_of p)"
  "strategies_of (recorded v event reason number row p) = strategies_of p"
  by (simp_all add: users_of_def profiles_of_def states_of_def strategies_of_def on_db_def added_strategy_def edited_strategy_def deleted_strategy_def
      promoted_def recorded_def)

lemma acting_present: "acting P cr p u \<Longrightarrow> present p u"
  by (auto simp: acting_def present_def dest: by_key_SomeD)

lemma changes_refl: "changes P u b p p"
  by (simp add: changes_def)

lemma changes_step: "changes P u b p q \<Longrightarrow> plane_change P u b q r \<Longrightarrow> changes P u b p r"
  unfolding changes_def by (rule rtranclp.rtrancl_into_rtrancl)

lemmas change_rules = changes_refl changes_step [OF _ noted] changes_step [OF _ closed]
  changes_step [OF _ joined] changes_step [OF _ logged] changes_step [OF _ replaced] changes_step [OF _ activated]
  changes_step [OF _ deleted] changes_step [OF _ controlled] changes_step [OF _ created] changes_step [OF _ account]

lemma harmless_rules: "harmless (disarmed reason)" "harmless disconnected" "harmless (switched on)" "harmless (set_active b)"
    "harmless (\<lambda>r. r\<lparr>bp_simulation_capital_override_usd := v\<rparr>)"
  by (simp_all add: harmless_def disarmed_def disconnected_def switched_def set_active_def)

lemma permitted_refl: "permitted P call p p"
  by (simp add: permitted_def)

lemma permittedI: "sender P call p u \<Longrightarrow> changes P u (is_restart call) p q \<Longrightarrow> permitted P call p q"
  unfolding permitted_def by blast

abbreviation permits :: "plane_env \<Rightarrow> api_call \<Rightarrow> plane \<Rightarrow> 'a res \<Rightarrow> plane \<Rightarrow> bool" where
  "permits P call p \<equiv> (\<lambda>_. permitted P call p)"

lemma permits_acting:
  "acting P cr p u \<Longrightarrow> sender P call p u = acting P cr p u \<Longrightarrow> (present p u \<Longrightarrow> changes P u (is_restart call) p q) \<Longrightarrow> permitted P call p q"
  by (blast intro: permittedI acting_present)

lemma present_simps [simp]:
  "present (audited a b c d e p) u = present p u" "present (added_session s p) u = present p u" "present (revoked w now p) u = present p u"
  "present (created_state p) u = present p u" "present (edited_state i h p) u = present p u" "present (edited_profile i f p) u = present p u"
  "present (logged_live r u act reason until p) v = present p v" "present (activate_replacement r p) u = present p u"
  "present (deleted_profile i p) u = present p u" "present (added_strategy row p) u = present p u" "present (edited_strategy i k p) u = present p u"
  "present (deleted_strategy i p) u = present p u" "present (promoted ids p) u = present p u" "present (recorded v event reason number row p) u = present p u"
  by (simp_all add: present_def)

lemma refines_disconnect: "commits (permits P (Disconnect cr i) p) (disconnect_account P cr i) p p"
  unfolding disconnect_account_def bridge_admin_def
  by (intro commit_rules permitted_refl; erule permits_acting, simp; intro change_rules harmless_rules; simp)

lemma refines_toggle: "commits (permits P (Toggle cr i) p) (toggle_account P cr i) p p"
  unfolding toggle_account_def
  by (intro commit_rules commits_seq_if permitted_refl; simp only: seqP_assoc seqP_retP; intro commit_rules permitted_refl; 
      erule permits_acting, simp; intro change_rules harmless_rules; simp)

lemma refines_delete: "commits (permits P (Delete_Account cr i) p) (delete_account P cr i) p p"
  unfolding delete_account_def bridge_admin_def
  by (intro commit_rules permitted_refl; erule permits_acting, simp; simp; intro conjI impI change_rules; simp)

lemma refines_activate: "commits (permits P (Activate cr i) p) (activate P cr i) p p"
  unfolding activate_def
  by (intro commit_rules permitted_refl; erule permits_acting, simp; intro change_rules; simp)

lemma refines_capital: "commits (permits P (Simulation_Capital cr i v) p) (simulation_capital P cr i v) p p"
  unfolding simulation_capital_def
  by (intro commit_rules permitted_refl; erule permits_acting, simp; intro change_rules harmless_rules; simp)

lemma refines_live_status: "commits (permits P (Live_Status cr i) p) (answered (live_execution_status P cr i)) p p"
  unfolding live_execution_status_def answered_def Let_def bindP_assoc seqP_bindP bindP_retP
  by (intro commit_rules commits_seq_if permitted_refl; simp only: seqP_assoc seqP_retP; intro commit_rules permitted_refl;
      erule permits_acting, simp; intro change_rules harmless_rules; simp)

lemma refines_live: "commits (permits P (Live_Execution cr i q) p) (live_execution P cr i q) p p"
  unfolding live_execution_def arm_live_def Let_def
  by (intro commit_rules commits_seq_if permitted_refl; simp only: seqP_assoc seqP_retP; intro commit_rules permitted_refl;
      erule permits_acting, simp; intro change_rules harmless_rules changes_step [OF _ armed]; auto simp: live_update_ok_def is_admin_def dest: by_key_SomeD)

lemma refines_reads: "commits (permits P (List_Users cr) p) (answered (list_users P cr)) p p"
  "commits (permits P (List_Accounts cr) p) (answered (list_accounts P cr)) p p"
  unfolding list_users_def list_accounts_def require_admin_def answered_def bindP_assoc seqP_bindP bindP_retP
  by (intro commit_rules permitted_refl)+

lemma commits_current_state [commit_rules]:
  assumes "G (Inl SQLAlchemyError) q" and "\<And>s. default_row p = Some s \<Longrightarrow> commits G (f s) p q"
    and "default_row p = None \<Longrightarrow> commits G (f (default_state (db_next_id (pl_db p)))) (created_state p) (created_state p)"
  shows "commits G (bindP (current_state P) f) p q"
  unfolding current_state_def
  by (cases "default_row p") (auto simp: bindP_assoc seqP_bindP bindP_retP intro!: commit_rules assms)

lemma find_last: "find Q xs = None \<Longrightarrow> find Q (xs @ ys) = find Q ys"
  by (induction xs) (auto split: if_splits)

lemma created_default: "default_row p = None \<Longrightarrow> default_row (created_state p) = Some (default_state (db_next_id (pl_db p)))"
  by (simp add: default_row_def find_last) (simp add: default_state_def)

lemma refines_state: "commits (permits P (Read_State cr) p) (answered (read_state P cr)) p p"
  unfolding read_state_def answered_def bindP_assoc
  by (intro commit_rules permitted_refl; erule permits_acting, simp; intro change_rules; simp)

lemma refines_change:
  assumes "sender P call p = acting P cr p" and "f = updated_state u \<or> f = killed_state \<or> (is_restart call \<and> f = restarted_state)"
  shows "commits (permits P call p) (answered (change_state P cr f)) p p"
  unfolding change_state_def require_admin_def answered_def bindP_assoc seqP_bindP bindP_retP
  by (intro commit_rules permitted_refl; erule permits_acting, simp add: assms(1); intro change_rules;
      use assms(2) in \<open>simp add: created_default is_admin_def\<close>)

lemma refines_controls: "commits (permits P (Update_State cr u) p) (answered (update_state P cr u)) p p"
  "commits (permits P (Kill cr) p) (answered (kill P cr)) p p" "commits (permits P (Restart cr) p) (answered (restart P cr)) p p"
  unfolding update_state_def kill_def restart_def by (rule refines_change [where cr = cr], auto)+

lemma refines_logout: "commits (permits P (Logout cr c) p) (logout P cr c) p p"
  unfolding logout_def revoke_session_def bindP_assoc seqP_bindP bindP_retP
  by (intro commit_rules permitted_refl commits_bind_option commits_bind_if; simp only: bindP_assoc seqP_bindP bindP_retP; intro commit_rules permitted_refl;
      erule permits_acting, simp; intro change_rules)

lemma commits_answered: "commits (permits P call p0) m p q \<Longrightarrow> commits (permits P call p0) (answered m) p q"
  by (auto simp: commits_def answered_def bindP_def split: prod.splits sum.splits)

lemma commits_translated: "commits (permits P call p0) m p q \<Longrightarrow> commits (permits P call p0) (tryP m h (\<lambda>e. refuse code (k e))) p q"
  by (auto simp: commits_def tryP_def refuse_def http_error_def split: prod.splits sum.splits)

lemma refines_reset: "commits (permits P (Reset_Password cr i password) p) (answered (reset_user_password P cr i password)) p p"
  unfolding reset_user_password_def require_admin_def bindP_assoc seqP_bindP bindP_retP
  by (intro commits_answered commit_rules permitted_refl commits_option;
      erule permits_acting, simp; intro change_rules changes_step [OF _ reset]; simp add: is_admin_def)

lemma change_edited:
  assumes "changes P u b p0 p" "present p u" "is_admin u" "by_key us_id i (users_of p) = Some target"
    and "\<not> (us_role target = ''ADMIN'' \<and> role = Some USER \<and> length (active_admins p) \<le> 1
      \<or> us_role target = ''ADMIN'' \<and> us_is_active target \<and> is_active = Some False \<and> length (active_admins p) \<le> 1)"
  shows "is_active \<noteq> Some False \<Longrightarrow> changes P u b p0 (edited_user i (patched role is_active) p)"
    and "is_active = Some False \<Longrightarrow> changes P u b p0 (revoked (\<lambda>s. se_user_id s = i) now (edited_user i (patched role is_active) p))"
proof -
  from assms(5) have a: "\<not> (us_role target = ''ADMIN'' \<and> role = Some USER \<and> length (active_admins p) \<le> 1)"
      "\<not> (us_role target = ''ADMIN'' \<and> us_is_active target \<and> is_active = Some False \<and> length (active_admins p) \<le> 1)" by simp_all
  have c: "changes P u b p0 ((if is_active = Some False then revoked (\<lambda>s. se_user_id s = i) now else id) (edited_user i (patched role is_active) p))" for now
    using assms(1) edited [OF assms(2-4) a, where now = now] by (rule changes_step)
  from c show "is_active \<noteq> Some False \<Longrightarrow> changes P u b p0 (edited_user i (patched role is_active) p)" by simp
  from c [of now] show "is_active = Some False \<Longrightarrow> changes P u b p0 (revoked (\<lambda>s. se_user_id s = i) now (edited_user i (patched role is_active) p))" by simp
qed

lemma commits_seq_bind: "commits G (bindP m (\<lambda>x. seqP (f x) n)) p q \<Longrightarrow> commits G (seqP (bindP m f) n) p q"
  by (simp add: seqP_bind)

lemma commits_seq_retP: "commits G n p q \<Longrightarrow> commits G (seqP (retP ()) n) p q"
  by (simp add: seqP_retP)

lemma refines_update: "commits (permits P (Update_User cr i role is_active) p) (answered (update_user P cr i role is_active)) p p"
  unfolding update_user_def require_admin_def Let_def bindP_assoc seqP_bindP bindP_retP
  apply (intro commits_answered commit_rules permitted_refl)
  apply (simp only: split)
  apply (intro commit_rules commits_option commits_seq_if commits_seq_bind commits_seq_retP permitted_refl;
      erule permits_acting, simp; intro changes_step [OF _ noted] change_edited changes_refl; (assumption | simp add: is_admin_def))
  done

lemma refines_create:
  assumes "changes P u b p0 p" and "present p u" and "is_admin u"
  shows "commits (\<lambda>_ q. q = p0 \<or> changes P u b p0 q) (create_user P username password role email actor) p p0"
  unfolding create_user_def Let_def
  apply (intro commit_rules)
  apply simp_all
  apply (rule disjI2)
  apply (intro changes_step [OF _ noted] changes_step [OF _ joined] assms)
  apply simp_all
  done

lemma commits_weaken: "commits G m p q \<Longrightarrow> (\<And>r q'. G r q' \<Longrightarrow> H r q') \<Longrightarrow> commits H m p q"
  by (auto simp: commits_def split: prod.splits)

lemma refines_add_user: "commits (permits P (Add_User cr username email password role) p) (answered (add_user P cr username email password role)) p p"
  unfolding add_user_def require_admin_def bindP_assoc seqP_bindP bindP_retP
  apply (intro commits_answered commit_rules permitted_refl commits_translated)
  apply (rule commits_weaken [OF refines_create [where b = False and P = P and u = u for u]])
  apply (rule changes_refl)
  apply (erule acting_present)
  apply (simp add: is_admin_def)
  apply (auto simp: permitted_refl intro: permits_acting)
  done

lemma permitted_attempt: "permitted P (Login username password c) p (audited ''login_attempt'' False who detail c p)"
  by (auto simp: permitted_def)

lemma refines_opened:
  assumes "changes P u b p0 p" and "present p u" and "G p" and "\<And>q. changes P u b p0 q \<Longrightarrow> G q"
  shows "commits (\<lambda>_. G) (create_session P u c) p p"
  unfolding create_session_def Let_def
  apply (intro commit_rules assms(3))
  apply (simp only: split)
  apply (intro commits_if commit_rules assms(3))
  apply (rule assms(4))
  apply (intro changes_step [OF _ noted] changes_step [OF _ opened] assms(1,2))
  apply auto
  done

lemma commits_case_bind: "commits (\<lambda>_. G) m p q \<Longrightarrow> commits (\<lambda>_. G) (bindP m (\<lambda>(x, y). retP (f x y))) p q"
  by (auto simp: commits_def bindP_def split: prod.splits sum.splits)

lemma refines_login: "commits (permits P (Login username password c) p) (answered (login P username password c)) p p"
proof -
  let ?name = "normal_name username"
  let ?found = "find (\<lambda>u. us_username u = ?name) (users_of p)"
  have failed: "commits (permits P (Login username password c) p) (refuse code phrase)
      (audited ''login_attempt'' False who remark c p) (audited ''login_attempt'' False who remark c p)" for code phrase who remark
    by (intro commits_refuse permitted_attempt)
  have opened: "commits (permits P (Login username password c) p) (bindP (create_session P u c) (\<lambda>(token, s). retP (k token s)))
      (audited ''login_attempt'' True (Some (us_id u)) None c p) (audited ''login_attempt'' True (Some (us_id u)) None c p)"
    if u: "?found = Some u" "us_is_active u" "verify_password (pe_secrets P) password (us_password_hash u) = Inr True" for u k
  proof (rule commits_case_bind, rule refines_opened)
    have s: "sender P (Login username password c) p u" using u by simp
    show c: "changes P u False p (audited ''login_attempt'' True (Some (us_id u)) None c p)" by (intro changes_step [OF _ noted] changes_refl)
    show "present (audited ''login_attempt'' True (Some (us_id u)) None c p) u" using u by (auto simp: present_def find_Some_iff)
    show "permitted P (Login username password c) p q" if "changes P u False p q" for q
      using s that by (auto intro: permittedI)
    then show "permitted P (Login username password c) p (audited ''login_attempt'' True (Some (us_id u)) None c p)" using c .
  qed
  show ?thesis
    unfolding login_def authenticate_user_def Let_def bindP_assoc seqP_bindP bindP_retP
    by (intro commits_answered commit_rules permitted_refl; cases ?found; simp split: if_splits)
      (auto intro!: failed opened split: if_splits)
qed

subsection \<open>Strategies\<close>

lemma commits_or_400 [commit_rules]:
  "(\<And>e. G (Inl e) q) \<Longrightarrow> (\<And>x. r = Inr x \<Longrightarrow> commits G (f x) p q) \<Longrightarrow> commits G (bindP (or_400 r) f) p q"
  by (cases r) (auto simp: or_400_def commits_def bindP_def refuse_def http_error_def split: exn.split)

lemma commits_require_last [commit_rules]: "G (Inl (HTTPException code detail)) q \<Longrightarrow> G (Inr ()) q \<Longrightarrow> commits G (require c code detail) p q"
  by (simp add: commits_def require_def refuse_def http_error_def)

lemma commits_market [commit_rules]:
  assumes "\<And>e. G (Inl e) q" and "commits G k p q"
  shows "commits G (seqP (validate_provider_market x m) k) p q"
  unfolding validate_provider_market_def seqP_bind seqP_assoc by (intro commit_rules assms)

lemma commits_limit [commit_rules]:
  assumes "\<And>e. G (Inl e) q" and "commits G k p q"
  shows "commits G (seqP (within_limit v what) k) p q"
  unfolding within_limit_def seqP_bind
  by (intro commit_rules assms; simp only: split_beta; intro commit_rules assms)

lemma commits_trading_profile [commit_rules]:
  assumes "\<And>e. G (Inl e) q" and "\<And>r. r \<in> set (profiles_of p) \<Longrightarrow> bp_id r = i \<Longrightarrow> is_admin u \<or> bp_user_id r = us_id u \<Longrightarrow> commits G (f r) p q"
  shows "commits G (bindP (trading_profile u i) f) p q"
proof -
  have none: "commits G (bindP (refuse code detail) f) p q" for code detail
    using assms(1) by (simp add: commits_def refuse_def http_error_def bindP_def)
  show ?thesis
    unfolding trading_profile_def
    by (auto simp: bindP_assoc bindP_retP split: option.splits dest: by_key_SomeD intro!: none commit_rules commit_splits assms(2))
qed

lemma commits_own_strategy [commit_rules]:
  assumes "\<And>e. G (Inl e) q" and "\<And>r. by_key ss_id i (strategies_of p) = Some r \<Longrightarrow> is_admin u \<or> ss_user_id r = us_id u \<Longrightarrow> commits G (f r) p q"
  shows "commits G (bindP (own_strategy u i) f) p q"
proof -
  have none: "commits G (bindP (refuse code detail) f) p q" for code detail
    using assms(1) by (simp add: commits_def refuse_def http_error_def bindP_def)
  show ?thesis
    unfolding own_strategy_def
    by (auto simp: bindP_assoc bindP_retP split: option.splits intro!: none commit_rules commit_splits assms(2))
qed

lemma commits_mode [commit_rules]:
  assumes "\<And>e. G (Inl e) q" and "\<And>mode. mode = None \<or> (\<exists>m. mode = Some m \<and> m \<in> set MODES) \<Longrightarrow> commits G (f mode) p q"
  shows "commits G (bindP (patched_mode b) f) p q"
proof (cases "pt_mode b")
  case None
  then show ?thesis using assms(2) [of None] by (simp add: patched_mode_def bindP_retP)
next
  case (Some v)
  then show ?thesis
    using assms by (cases v) (auto simp: patched_mode_def seqP_bindP bindP_retP intro!: commit_rules)
qed

lemma commits_validate [commit_rules]:
  assumes "\<And>e. G (Inl e) q"
    and "\<And>market mode symbol. mode \<in> set MODES \<Longrightarrow> normalize_symbol market (si_symbol b) = Inr symbol \<Longrightarrow> commits G (f (market, mode, symbol)) p q"
  shows "commits G (bindP (validate_strategy x b) f) p q"
  unfolding validate_strategy_def Let_def bindP_assoc seqP_bindP bindP_retP
  by (intro commit_rules assms)

lemma refines_create_strategy: "commits (permits P (Create_Strategy cr b) p) (create_symbol_strategy P cr b) p p"
  unfolding create_symbol_strategy_def Let_def
  apply (intro commit_rules permitted_refl)
  apply (simp only: split)
  apply (intro commit_rules permitted_refl)
  apply (simp only: split)
  apply (intro commit_rules permitted_refl)
  apply (erule permits_acting, simp)
  apply (intro changes_step [OF _ strategy_recorded] changes_step [OF _ strategy_added] changes_refl)
  apply (auto simp: strategy_row_def)
  done

lemma edit_same_place:
  "normalize_symbol (ss_market r) (ss_symbol r) = Inr symbol \<Longrightarrow> same_place (edit_strategy b mode symbol) r" "same_place (restored snapshot) r"
  by (simp_all add: same_place_def edit_strategy_def restored_def)

lemma edited_row: "by_key ss_id i rows = Some r \<Longrightarrow> f r \<in> set (update_key ss_id i f rows)"
  by (force simp: update_key_def dest: by_key_SomeD)

lemma change_edited_recorded:
  assumes "changes P u b p0 p" "present p u" "by_key ss_id i (strategies_of p) = Some r" "is_admin u \<or> ss_user_id r = us_id u" "same_place f r"
  shows "changes P u b p0 (recorded u event reason number (f r) (edited_strategy i f p))"
proof (rule changes_step [OF changes_step [OF assms(1) strategy_edited [OF assms(2-5)]] strategy_recorded])
  show "f r \<in> set (strategies_of (edited_strategy i f p))" using edited_row [OF assms(3)] by simp
qed

lemma refines_update_strategy: "commits (permits P (Update_Strategy cr i b) p) (update_symbol_strategy P cr i b) p p"
  unfolding update_symbol_strategy_def
  by (intro commit_rules permitted_refl commits_if;
      erule permits_acting, simp; intro change_edited_recorded edit_same_place changes_refl; assumption)

lemma refines_rollback: "commits (permits P (Rollback_Strategy cr i number reason) p) (rollback_symbol_strategy P cr i number reason) p p"
  unfolding rollback_symbol_strategy_def Let_def
  by (intro commit_rules permitted_refl commits_option;
      erule permits_acting, simp; intro change_edited_recorded edit_same_place changes_refl; assumption)

lemma refines_delete_strategy: "commits (permits P (Delete_Strategy cr i) p) (delete_symbol_strategy P cr i) p p"
  unfolding delete_symbol_strategy_def
  by (intro commit_rules permitted_refl; erule permits_acting, simp;
      intro changes_step [OF _ strategy_deleted] changes_step [OF _ strategy_recorded] changes_refl; auto dest: by_key_SomeD)

lemma refines_strategy_reads: "commits (permits P (List_Strategies cr) p) (answered (list_symbol_strategies P cr)) p p"
  "commits (permits P (List_Revisions cr i) p) (answered (list_strategy_revisions P cr i)) p p"
  "commits (permits P (List_Effective cr) p) (answered (list_effective_symbol_strategies P cr)) p p"
  unfolding list_symbol_strategies_def list_strategy_revisions_def list_effective_symbol_strategies_def
  by (intro commits_answered commit_rules permitted_refl)+

lemma route_profile_in: "route_profile profiles market = Inr (Some x) \<Longrightarrow> x \<in> set profiles"
  by (auto simp: route_profile_def find_Some_iff split: option.splits)

lemma seeded_in: "seeded ok profiles existing ks = Inr seeds \<Longrightarrow> kx \<in> set seeds \<Longrightarrow> snd kx \<in> set profiles \<and> ok (snd kx)"
proof (induction ok profiles existing ks arbitrary: seeds rule: seeded.induct)
  case (2 ok profiles existing k ks)
  show ?case
  proof (cases "k \<in> set existing")
    case False
    with 2(5) obtain v where v: "route_profile profiles (fst k) = Inr v" by auto
    show ?thesis
    proof (cases v)
      case None
      with 2 False v show ?thesis by auto
    next
      case (Some x)
      show ?thesis
      proof (cases "ok x")
        case True
        with 2(5) False v Some obtain rs where rs: "seeded ok profiles (k # existing) ks = Inr rs" "seeds = (k, x) # rs" by auto
        with 2(3) [OF False True rs(1)] 2(6) True v Some show ?thesis by (cases "kx = (k, x)") (simp_all add: route_profile_in)
      qed (use 2 False v Some in auto)
    qed
  qed (use 2 in auto)
qed simp

lemma change_seeds:
  assumes "\<forall>kx \<in> set seeds. snd kx \<in> set (profiles_of p) \<and> bp_user_id (snd kx) = us_id u" and "mode \<in> set MODES"
    and "present p u" and "changes P u b p0 p"
  shows "changes P u b p0 (added_seeds u mode seeds p)"
  using assms(1,3,4) unfolding added_seeds_def
proof (induction seeds arbitrary: p)
  case (Cons kx seeds)
  let ?r = "seed_row u mode kx (db_next_id (pl_db p))"
  have "ss_profile_id ?r = bp_id (snd kx)" "ss_user_id ?r = us_id u" "ss_id ?r = db_next_id (pl_db p)" "ss_mode ?r = mode"
    by (simp_all add: seed_row_def split: prod.split)
  then have "changes P u b p0 (added_strategy ?r p)"
    using Cons.prems assms(2) by (intro changes_step [OF _ strategy_added]) (auto intro!: bexI [of _ "snd kx"] simp del: split_paired_All)
  moreover have "\<forall>kx \<in> set seeds. snd kx \<in> set (profiles_of (added_strategy ?r p)) \<and> bp_user_id (snd kx) = us_id u" using Cons.prems(1) by simp
  ultimately show ?case using Cons.prems(2) Cons.IH [of "added_strategy ?r p"] by simp
qed simp

lemma own_profiles_in: "x \<in> set (own_profiles u p) \<Longrightarrow> x \<in> set (profiles_of p) \<and> bp_user_id x = us_id u"
  by (simp add: own_profiles_def)

lemma last_by_scope_in: "r \<in> set (last_by_scope rows) \<Longrightarrow> r \<in> set rows"
  by (induction rows) (auto split: if_splits)

lemma promotable_in: "\<forall>i \<in> set (promotable wanted u p). \<exists>r \<in> set (strategies_of p). ss_id r = i \<and> promotable_row p (us_id u) r"
  by (auto simp: promotable_def promotable_row_def own_rows_def split: option.splits dest!: last_by_scope_in)

lemma commits_seeded:
  assumes "\<And>e. G (Inl e) q" and "\<And>seeds. \<forall>kx \<in> set seeds. snd kx \<in> set (profiles_of p) \<and> bp_user_id (snd kx) = us_id u \<Longrightarrow> commits G (f seeds) p q"
  shows "commits G (bindP (liftP (bindE r (seeded ok (own_profiles u p) existing))) f) p q"
    and "commits G (bindP (liftP (if c then bindE r (seeded ok (own_profiles u p) existing) else Inr [])) f) p q"
proof -
  have s: "snd kx \<in> set (profiles_of p) \<and> bp_user_id (snd kx) = us_id u"
    if "bindE r (seeded ok (own_profiles u p) existing) = Inr seeds" "kx \<in> set seeds" for seeds kx
    using that by (auto dest!: seeded_in own_profiles_in)
  show "commits G (bindP (liftP (bindE r (seeded ok (own_profiles u p) existing))) f) p q"
    by (intro commits_lift assms ballI s)
  show "commits G (bindP (liftP (if c then bindE r (seeded ok (own_profiles u p) existing) else Inr [])) f) p q"
    by (intro commits_lift assms ballI; cases c; simp add: s)
qed

lemma refines_seed: "commits (permits P (Seed_Universe cr markets mode) p) (seed_instrument_universe P cr markets mode) p p"
  unfolding seed_instrument_universe_def
  by (intro commits_current_user commits_require commits_or_400 commits_look commits_seeded permitted_refl;
      intro commit_rules permitted_refl; erule permits_acting, simp; rule change_seeds; auto simp: MODES_def changes_refl)

lemma refines_promote: "commits (permits P (Promote_All cr markets seed_missing) p) (promote_all_eligible_auto_trade P cr markets seed_missing) p p"
  unfolding promote_all_eligible_auto_trade_def
  by (intro commits_current_user commits_require commits_or_400 commits_look commits_seeded permitted_refl;
      intro commit_rules permitted_refl; erule permits_acting, simp; intro change_seeds changes_step [OF _ strategies_promoted];
      simp add: MODES_def changes_refl promotable_in)

lemma request_permitted:
  "permitted P call (sv_saved s) (sv_saved (snd (serve P call s)))"
proof (rule serve_commits [where G = "permits P call (sv_saved s)"], cases call)
qed (simp_all add: refines_login refines_logout refines_reads refines_add_user refines_update refines_reset refines_state refines_controls
    refines_live refines_live_status refines_disconnect refines_toggle refines_delete refines_activate refines_capital refines_create_strategy refines_update_strategy
    refines_delete_strategy refines_rollback refines_strategy_reads refines_seed refines_promote)


end
