(* ===== verification/Control_Properties.thy ===== *)
theory Control_Properties
  imports Control_Refinement
begin

text \<open>
  Invariants of \<open>plane_change\<close>, the permitted changes of a request, each with what it says of every sequence of API requests: the kill
  switch, ended sessions, administrators, live arming, and the accounts of other owners.
\<close>

section \<open>What no sequence of requests can do\<close>

locale kept_by_requests =
  fixes P :: plane_env and may_restart :: bool and I :: "plane \<Rightarrow> bool"
  assumes change_keeps: "plane_change P u b p q \<Longrightarrow> I p \<Longrightarrow> b \<longrightarrow> may_restart \<Longrightarrow> I q"
begin

lemma changes_keep: "changes P u b p q \<Longrightarrow> b \<longrightarrow> may_restart \<Longrightarrow> I p \<Longrightarrow> I q"
  unfolding changes_def by (induction rule: rtranclp_induct) (auto intro: change_keeps)

lemma permitted_keeps: "permitted P call p q \<Longrightarrow> is_restart call \<longrightarrow> may_restart \<Longrightarrow> I p \<Longrightarrow> I q"
  unfolding permitted_def using changes_keep change_keeps [OF noted [where restarting = False]] by auto

lemma serves_keep: "I (sv_saved s) \<Longrightarrow> (\<forall>call \<in> set calls. is_restart call \<longrightarrow> may_restart) \<Longrightarrow> I (sv_saved (serves P calls s))"
proof (induction calls arbitrary: s)
  case (Cons call calls)
  have "permitted P call (sv_saved s) (sv_saved (snd (serve P call s)))" by (rule request_permitted)
  with Cons.prems have "I (sv_saved (snd (serve P call s)))" using permitted_keeps by simp
  with Cons show ?case by simp
qed simp

end

interpretation user_table: keyed_table "by_key us_id" "update_key us_id" us_id
  by (rule keyed_table_rows)

interpretation state_table: keyed_table "by_key au_id" "update_key au_id" au_id
  by (rule keyed_table_rows)

subsection \<open>The kill switch\<close>

definition halted :: "plane \<Rightarrow> bool" where
  "halted p \<longleftrightarrow> (\<exists>s. states_of p = [s] \<and> au_name s = ''default'' \<and> au_killed s)"

lemma states_on_db [simp]: "states_of (on_db f p) = db_states (f (pl_db p))"
  by (simp add: states_of_def on_db_def)

lemma halted_change: "plane_change P u b p q \<Longrightarrow> halted p \<Longrightarrow> b \<longrightarrow> False \<Longrightarrow> halted q"
  by (induction rule: plane_change.induct)
    (auto simp: halted_def default_row_def update_key_def updated_state_def killed_state_def states_of_def [symmetric] split: if_splits)

interpretation halted: kept_by_requests P False halted for P
  by unfold_locales (rule halted_change)

lemma halted_blocks: "halted p \<Longrightarrow> \<not> entry_allowed (pl_db p) i j"
  by (auto simp: halted_def entry_allowed_def states_of_def)

definition one_state :: "plane \<Rightarrow> bool" where
  "one_state p \<longleftrightarrow> length (states_of p) \<le> 1 \<and> list_all (\<lambda>s. au_name s = ''default'') (states_of p)"

lemma default_rowD: "one_state p \<Longrightarrow> default_row p = Some s \<Longrightarrow> states_of p = [s] \<and> au_name s = ''default''"
  by (cases "states_of p") (auto simp: one_state_def default_row_def split: if_splits)

lemma default_row_none: "one_state p \<Longrightarrow> default_row p = None \<Longrightarrow> states_of p = []"
  by (cases "states_of p") (auto simp: one_state_def default_row_def split: if_splits)

lemma kill_halts: "one_state p \<Longrightarrow> commits (\<lambda>r q. isl r \<or> halted q) (respond P (Kill cr)) p p"
  unfolding respond.simps kill_def change_state_def require_admin_def answered_def bindP_assoc seqP_bindP bindP_retP
  by (intro commit_rules; simp)
    (auto dest: default_rowD default_row_none simp: halted_def update_key_def killed_state_def default_state_def)

subsection \<open>Ended sessions\<close>

definition dead :: "string \<Rightarrow> plane \<Rightarrow> bool" where
  \<comment> \<open>the hash belongs to sessions, all of them revoked\<close>
  "dead h p \<longleftrightarrow> (\<exists>r \<in> set (pl_sessions p). se_token_hash r = h) \<and> (\<forall>r \<in> set (pl_sessions p). se_token_hash r = h \<longrightarrow> se_revoked_at r \<noteq> None)"

definition closing :: "(user_session \<Rightarrow> bool) \<Rightarrow> int \<Rightarrow> user_session \<Rightarrow> user_session" where
  "closing w now r = (if w r \<and> se_revoked_at r = None then r\<lparr>se_revoked_at := Some now\<rparr> else r)"

lemma revoked_sessions: "pl_sessions (revoked w now p) = map (closing w now) (pl_sessions p)"
  by (simp add: revoked_def closing_def)

lemma closing_simps [simp]: "se_token_hash (closing w now r) = se_token_hash r" "se_user_id (closing w now r) = se_user_id r"
    "se_revoked_at (closing w now r) = None \<longleftrightarrow> se_revoked_at r = None \<and> \<not> w r"
  by (auto simp: closing_def)

lemma deadI: "\<exists>r \<in> set (pl_sessions p). se_token_hash r = h \<Longrightarrow> (\<And>r. r \<in> set (pl_sessions p) \<Longrightarrow> se_token_hash r = h \<Longrightarrow> w r \<or> se_revoked_at r \<noteq> None)
    \<Longrightarrow> dead h (revoked w now p)"
  by (auto simp: dead_def revoked_sessions simp del: not_None_eq)

lemma dead_revoked: "dead h p \<Longrightarrow> dead h (revoked w now p)"
  by (rule deadI) (auto simp: dead_def)

lemma dead_change: "plane_change P u b p q \<Longrightarrow> dead h p \<Longrightarrow> b \<longrightarrow> True \<Longrightarrow> dead h q"
proof (induction rule: plane_change.induct)
  case (edited p i target role is_active now)
  then have "dead h (edited_user i g p)" for g by (simp add: dead_def)
  then show ?case by (simp add: dead_revoked)
next
  case (reset p i now hash)
  then have "dead h (edited_user i (\<lambda>v. v\<lparr>us_password_hash := hash\<rparr>) p)" by (simp add: dead_def)
  then show ?case by (rule dead_revoked)
qed (auto simp: dead_revoked, auto simp: dead_def)

interpretation ended: kept_by_requests P True "dead h" for P h
  by unfold_locales (rule dead_change)

lemma dead_refused: "dead (token_hash P token) (sv_now s) \<Longrightarrow>
    \<exists>text. fst (get_current_user P (Some (scheme, token)) s) = Inl (HTTPException 401 text)"
  by (auto simp: get_current_user_def get_user_for_token_def look_def session_of_def dead_def bindP_def refuse_def http_error_def
      find_Some_iff split: option.splits)

fun ends :: "plane_env \<Rightarrow> api_call \<Rightarrow> string \<Rightarrow> plane \<Rightarrow> bool" where
  \<comment> \<open>the request ends the session of the token\<close>
  "ends P (Logout cr c) token p = (\<exists>scheme. cr = Some (scheme, token))"
| "ends P (Update_User cr i role is_active) token p =
     (is_active = Some False \<and> (\<exists>r. session_of (token_hash P token) p = Some r \<and> se_user_id r = i))"
| "ends P (Reset_Password cr i password) token p = (\<exists>r. session_of (token_hash P token) p = Some r \<and> se_user_id r = i)"
| "ends P _ token p = False"

lemma session_member: "session_of h p = Some r \<Longrightarrow> r \<in> set (pl_sessions p) \<and> se_token_hash r = h"
  by (auto simp: session_of_def find_Some_iff)

lemma dead_by_hash: "session_of h p = Some r \<Longrightarrow> dead h (revoked (\<lambda>s. se_token_hash s = h) now p)"
  by (rule deadI) (auto dest: session_member)

lemma dead_by_user:
  assumes "distinct (map se_token_hash (pl_sessions p))" and "session_of h p = Some r"
  shows "dead h (revoked (\<lambda>s. se_user_id s = se_user_id r) now p)"
proof (rule deadI)
  show "\<exists>s \<in> set (pl_sessions p). se_token_hash s = h" using session_member [OF assms(2)] by blast
  fix s assume "s \<in> set (pl_sessions p)" "se_token_hash s = h"
  then have "s = r" using assms(1) session_member [OF assms(2)] by (auto simp: distinct_map dest: inj_onD)
  then show "se_user_id s = se_user_id r \<or> se_revoked_at s \<noteq> None" by simp
qed

lemma dead_audited [simp]: "dead h (audited a b c d e p) = dead h p"
  by (simp add: dead_def)


lemma commits_then: "commits (\<lambda>r q. isl r \<or> H q) m p q \<Longrightarrow> commits (\<lambda>r q. isl r \<or> H q) (bindP m (\<lambda>_. retP ())) p q"
  by (auto simp: commits_def bindP_def split: prod.splits sum.splits)

lemma end_kills:
  assumes "distinct (map se_token_hash (pl_sessions p))" and "ends P call token p"
  shows "commits (\<lambda>r q. isl r \<or> dead (token_hash P token) q) (respond P call) p p"
proof (cases call)
  case (Logout cr c)
  then obtain scheme where cr: "cr = Some (scheme, token)" using assms(2) by auto
  have "commits (\<lambda>r q. isl r \<or> dead (token_hash P token) q) (revoke_session P token (Some u) c) p p"
    if "acting P (Some (scheme, token)) p u" for u
    unfolding revoke_session_def
    by (intro commit_rules commits_option commits_if) (use that in \<open>auto simp: acting_def dead_by_hash\<close>)
  then show ?thesis
    unfolding Logout respond.simps logout_def cr
    by (intro commit_rules) (auto intro: commits_then)
next
  case (Update_User cr i role is_active)
  with assms(2) obtain r where r: "is_active = Some False" "session_of (token_hash P token) p = Some r" "i = se_user_id r" by auto
  have "dead (token_hash P token) (revoked (\<lambda>s. se_user_id s = se_user_id r) now (edited_user i g p))" for now g
    by (rule dead_by_user) (use assms(1) r in \<open>simp_all add: session_of_def\<close>)
  then show ?thesis
    unfolding Update_User respond.simps update_user_def require_admin_def Let_def bindP_assoc seqP_bindP bindP_retP
    apply (intro commits_then [folded answered_def] commit_rules; (simp; fail)?)
    apply (simp only: split)
    apply (intro commit_rules commits_option commits_seq_if commits_seq_bind commits_seq_retP; simp add: r)
    done
next
  case (Reset_Password cr i password)
  with assms(2) obtain r where r: "session_of (token_hash P token) p = Some r" "i = se_user_id r" by auto
  have d: "dead (token_hash P token) (revoked (\<lambda>s. se_user_id s = i) now (edited_user i g p))" for now g
    unfolding r(2) by (rule dead_by_user) (use assms(1) r in \<open>simp_all add: session_of_def\<close>)
  show ?thesis
    unfolding Reset_Password respond.simps reset_user_password_def require_admin_def bindP_assoc seqP_bindP bindP_retP
    by (intro commits_then [folded answered_def] commit_rules commits_option; simp add: d)
qed (use assms(2) in simp_all)

subsection \<open>An active administrator\<close>

definition administered :: "plane \<Rightarrow> bool" where
  \<comment> \<open>the users' identifiers are distinct and already given; some active user is an administrator\<close>
  "administered p \<longleftrightarrow> distinct (map us_id (users_of p)) \<and> (\<forall>u \<in> set (users_of p). us_id u < db_next_id (pl_db p)) \<and> active_admins p \<noteq> []"

lemma next_id_simps [simp]:
  "db_next_id (pl_db (audited a b c d e p)) = db_next_id (pl_db p)" "db_next_id (pl_db (revoked w now p)) = db_next_id (pl_db p)"
  "db_next_id (pl_db (added_session s p)) = db_next_id (pl_db p) + 1" "db_next_id (pl_db (added_user v p)) = db_next_id (pl_db p) + 1"
  "db_next_id (pl_db (edited_user i g p)) = db_next_id (pl_db p)" "db_next_id (pl_db (edited_state i h p)) = db_next_id (pl_db p)"
  "db_next_id (pl_db (edited_profile i f p)) = db_next_id (pl_db p)" "db_next_id (pl_db (created_state p)) = db_next_id (pl_db p) + 1"
  "db_next_id (pl_db (logged_live r u act reason until p)) = db_next_id (pl_db p)"
  "db_next_id (pl_db (activate_replacement r p)) = db_next_id (pl_db p)" "db_next_id (pl_db (deleted_profile i p)) = db_next_id (pl_db p)"
  "db_next_id (pl_db (added_strategy row p)) = db_next_id (pl_db p) + 1" "db_next_id (pl_db (edited_strategy i k p)) = db_next_id (pl_db p)"
  "db_next_id (pl_db (deleted_strategy i p)) = db_next_id (pl_db p)" "db_next_id (pl_db (promoted ids p)) = db_next_id (pl_db p)"
  "db_next_id (pl_db (recorded v event reason number row p)) = db_next_id (pl_db p) + 1"
  by (simp_all add: added_strategy_def edited_strategy_def deleted_strategy_def promoted_def recorded_def on_db_def audited_def added_session_def revoked_def added_user_def edited_user_def created_state_def
      edited_state_def edited_profile_def logged_live_def activate_replacement_def deleted_profile_def split: option.split)

lemma on_profiles [simp]:
  "users_of (on_db (\<lambda>d. d\<lparr>db_profiles := f d\<rparr>) p) = users_of p" "db_next_id (pl_db (on_db (\<lambda>d. d\<lparr>db_profiles := f d\<rparr>) p)) = db_next_id (pl_db p)"
  "profiles_of (on_db (\<lambda>d. d\<lparr>db_profiles := map h (db_profiles d)\<rparr>) p) = map h (profiles_of p)" "pl_live (on_db g p) = pl_live p"
  by (simp_all add: users_of_def profiles_of_def on_db_def)

lemma administered_same: "users_of q = users_of p \<Longrightarrow> db_next_id (pl_db p) \<le> db_next_id (pl_db q) \<Longrightarrow> administered p \<Longrightarrow> administered q"
  by (fastforce simp: administered_def active_admins_def)

lemma administered_edited:
  assumes "administered p" and "\<And>v. us_id (f v) = us_id v"
    and "filter (\<lambda>u. us_role u = ''ADMIN'' \<and> us_is_active u) (update_key us_id i f (users_of p)) \<noteq> []"
  shows "administered (edited_user i f p)"
  using assms by (auto simp: administered_def active_admins_def user_table.upd_distinct dest: user_table.upd_mem)

lemma patched_admin: "role \<noteq> Some USER \<Longrightarrow> us_role v = ''ADMIN'' \<Longrightarrow> us_role (patched role is_active v) = ''ADMIN''"
    "is_active \<noteq> Some False \<Longrightarrow> us_is_active v \<Longrightarrow> us_is_active (patched role is_active v)"
proof -
  assume a: "role \<noteq> Some USER" "us_role v = ''ADMIN''"
  show "us_role (patched role is_active v) = ''ADMIN''"
  proof (cases role)
    case (Some r)
    with a show ?thesis by (cases r) (simp_all add: patched_def)
  qed (use a in \<open>simp add: patched_def\<close>)
qed (cases is_active; simp add: patched_def)

lemma patch_keeps_admin:
  assumes a: "administered p" and t: "by_key us_id i (users_of p) = Some target"
    and demote: "\<not> (us_role target = ''ADMIN'' \<and> role = Some USER \<and> length (active_admins p) \<le> 1)"
    and disable: "\<not> (us_role target = ''ADMIN'' \<and> us_is_active target \<and> is_active = Some False \<and> length (active_admins p) \<le> 1)"
  shows "\<exists>u \<in> set (update_key us_id i (patched role is_active) (users_of p)). us_role u = ''ADMIN'' \<and> us_is_active u"
proof (cases "\<exists>v \<in> set (active_admins p). us_id v \<noteq> i")
  case True
  then obtain v where "v \<in> set (users_of p)" "us_role v = ''ADMIN''" "us_is_active v" "us_id v \<noteq> i" by (auto simp: active_admins_def)
  then show ?thesis by (auto simp: update_key_def)
next
  case False
  have d: "distinct (map us_id (users_of p))" and ne: "active_admins p \<noteq> []" using a by (auto simp: administered_def)
  from t have m: "target \<in> set (users_of p)" "us_id target = i" by (auto dest: by_key_SomeD)
  have only: "v = target" if "v \<in> set (active_admins p)" for v
    using False that m d by (auto simp: active_admins_def distinct_map dest: inj_onD)
  from ne have "hd (active_admins p) \<in> set (active_admins p)" by simp
  with only [OF this] have "target \<in> set (active_admins p)" by simp
  then have ta: "us_role target = ''ADMIN''" "us_is_active target" by (auto simp: active_admins_def)
  have "distinct (active_admins p)" using d by (auto simp: active_admins_def distinct_map)
  then have "length (active_admins p) = card (set (active_admins p))" by (rule distinct_card [symmetric])
  also have "\<dots> \<le> card {target}" by (rule card_mono) (use only in auto)
  finally have "length (active_admins p) \<le> 1" by simp
  with demote disable ta have "role \<noteq> Some USER" "is_active \<noteq> Some False" by auto
  then have "us_role (patched role is_active target) = ''ADMIN''" "us_is_active (patched role is_active target)"
    using ta by (auto intro: patched_admin)
  moreover have "patched role is_active target \<in> set (update_key us_id i (patched role is_active) (users_of p))"
    using m by (force simp: update_key_def)
  ultimately show ?thesis by blast
qed

lemma reset_keeps_admin:
  assumes "administered p"
  shows "\<exists>u \<in> set (update_key us_id i (\<lambda>v. v\<lparr>us_password_hash := hash\<rparr>) (users_of p)). us_role u = ''ADMIN'' \<and> us_is_active u"
proof -
  from assms obtain v where v: "v \<in> set (users_of p)" "us_role v = ''ADMIN''" "us_is_active v"
    by (auto simp: administered_def active_admins_def filter_empty_conv)
  then have "(if us_id v = i then v\<lparr>us_password_hash := hash\<rparr> else v) \<in> set (update_key us_id i (\<lambda>v. v\<lparr>us_password_hash := hash\<rparr>) (users_of p))"
    unfolding update_key_def by (auto simp del: image_cong)
  then show ?thesis by (rule bexI [rotated]) (use v in auto)
qed

lemma administered_change: "plane_change P u b p q \<Longrightarrow> administered p \<Longrightarrow> b \<longrightarrow> True \<Longrightarrow> administered q"
proof (induction rule: plane_change.induct)
  case (joined p new)
  then show ?case by (auto simp: administered_def active_admins_def)
next
  case (edited p i target role is_active now)
  then have "administered (edited_user i (patched role is_active) p)"
    using patch_keeps_admin by (intro administered_edited) (auto simp: patched_def filter_empty_conv)
  then show ?case by (cases "is_active = Some False") (erule administered_same [rotated 2]; simp)+
next
  case (reset p i now hash)
  then have "administered (edited_user i (\<lambda>v. v\<lparr>us_password_hash := hash\<rparr>) p)"
    using reset_keeps_admin by (intro administered_edited) (auto simp: filter_empty_conv)
  then show ?case by (rule administered_same [rotated 2]) simp_all
qed (erule administered_same [rotated 2]; simp)+

interpretation administered: kept_by_requests P True administered for P
  by unfold_locales (rule administered_change)

subsection \<open>Live arming\<close>

definition armed_fairly :: "plane_env \<Rightarrow> live_event list \<Rightarrow> broker_profile \<Rightarrow> bool" where
  \<comment> \<open>a certified LIVE account under a policy that allows it, armed for 5 to 240 minutes by a logged event\<close>
  "armed_fairly P events r \<longleftrightarrow> pe_allow_live_trading P \<and> str_upper (bp_environment r) = ''LIVE'' \<and> bp_execution_certified r
     \<and> bp_execution_certification_buy_passed r \<and> bp_execution_certification_sell_passed r
     \<and> (\<exists>since minutes. 5 \<le> minutes \<and> minutes \<le> 240 \<and> bp_live_execution_armed_at r = Some since
          \<and> bp_live_execution_expires_at r = Some (since + minutes * 60 * 1000000))
     \<and> (\<exists>e \<in> set events. le_profile_id e = bp_id r \<and> le_action e = ''ARMED'' \<and> le_armed_until e = bp_live_execution_expires_at r)"

definition arming_sound :: "plane_env \<Rightarrow> plane \<Rightarrow> bool" where
  "arming_sound P p \<longleftrightarrow> distinct (map bp_id (profiles_of p))
     \<and> (\<forall>r \<in> set (profiles_of p). bp_live_execution_enabled r \<longrightarrow> armed_fairly P (pl_live p) r)"

lemma live_simps [simp]:
  "pl_live (audited a b c d e p) = pl_live p" "pl_live (added_session s p) = pl_live p" "pl_live (revoked w now p) = pl_live p"
  "pl_live (added_user v p) = pl_live p" "pl_live (edited_user i g p) = pl_live p" "pl_live (created_state p) = pl_live p"
  "pl_live (edited_state i h p) = pl_live p" "pl_live (edited_profile i f p) = pl_live p" "pl_live (activate_replacement r p) = pl_live p"
  "pl_live (deleted_profile i p) = filter (\<lambda>e. le_profile_id e \<noteq> i) (pl_live p)"
  "pl_live (logged_live r u act reason until p) = pl_live p @ [\<lparr>le_profile_id = bp_id r, le_owner_user_id = bp_user_id r,
     le_actor_user_id = us_id u, le_action = act, le_reason = reason, le_armed_until = until\<rparr>]"
  "pl_live (added_strategy row p) = pl_live p" "pl_live (edited_strategy i k p) = pl_live p" "pl_live (deleted_strategy i p) = pl_live p"
  "pl_live (promoted ids p) = pl_live p" "pl_live (recorded v event reason number row p) = pl_live p"
  by (simp_all add: added_strategy_def edited_strategy_def deleted_strategy_def promoted_def recorded_def on_db_def audited_def added_session_def revoked_def added_user_def edited_user_def created_state_def
      edited_state_def edited_profile_def logged_live_def activate_replacement_def deleted_profile_def split: option.split)

lemma harmless_id: "harmless f \<Longrightarrow> bp_id (f r) = bp_id r" and harmless_owner: "harmless f \<Longrightarrow> bp_user_id (f r) = bp_user_id r"
  by (simp_all add: harmless_def)

lemma harmless_armed: "harmless f \<Longrightarrow> bp_live_execution_enabled (f r) \<Longrightarrow> bp_live_execution_enabled r \<and> (armed_fairly P events r \<longrightarrow> armed_fairly P events (f r))"
  by (simp add: harmless_def armed_fairly_def)

lemma armed_fairly_more: "armed_fairly P events r \<Longrightarrow> set events \<subseteq> set events' \<Longrightarrow> armed_fairly P events' r"
  unfolding armed_fairly_def by blast

lemma armed_fairly_filter: "armed_fairly P events r \<Longrightarrow> bp_id r \<noteq> i \<Longrightarrow> armed_fairly P (filter (\<lambda>e. le_profile_id e \<noteq> i) events) r"
  unfolding armed_fairly_def by auto

lemma arming_sound_same:
  assumes "map bp_id (profiles_of q) = map bp_id (profiles_of p)" and "set (pl_live p) \<subseteq> set (pl_live q)"
    and "\<And>r. r \<in> set (profiles_of q) \<Longrightarrow> r \<in> set (profiles_of p) \<or> (\<exists>f r'. r' \<in> set (profiles_of p) \<and> harmless f \<and> r = f r')"
    and "arming_sound P p"
  shows "arming_sound P q"
proof -
  have "armed_fairly P (pl_live q) r" if r: "r \<in> set (profiles_of q)" "bp_live_execution_enabled r" for r
  proof -
    from assms(3) [OF r(1)] obtain f r' where "r' \<in> set (profiles_of p)" "r = r' \<or> harmless f \<and> r = f r'" by blast
    with r(2) assms(4) have "armed_fairly P (pl_live p) r" by (auto simp: arming_sound_def dest: harmless_armed)
    then show ?thesis using assms(2) by (rule armed_fairly_more)
  qed
  then show ?thesis using assms(1,4) by (simp add: arming_sound_def)
qed

lemma arming_sound_edited: "harmless f \<Longrightarrow> arming_sound P p \<Longrightarrow> arming_sound P (edited_profile i f p)"
  by (erule arming_sound_same [rotated 3]) (auto simp: update_key_def harmless_id)

lemma harmless_active: "harmless (set_active b)"
  by (rule harmless_rules)

lemma arming_sound_change: "plane_change P u b p q \<Longrightarrow> arming_sound P p \<Longrightarrow> b \<longrightarrow> True \<Longrightarrow> arming_sound P q"
proof (induction rule: plane_change.induct)
  case (account p i r f)
  then show ?case by (blast intro: arming_sound_edited)
next
  case (armed p i r now minutes reason)
  let ?f = "armed now minutes"
  let ?q = "logged_live r u ''ARMED'' reason (Some (now + minutes * 60 * 1000000)) (edited_profile i ?f p)"
  from armed have d: "distinct (map bp_id (profiles_of p))" by (simp add: arming_sound_def)
  have k: "bp_id (?f v) = bp_id v" for v by (simp add: armed_def)
  from armed have r: "r \<in> set (profiles_of p)" "bp_id r = i" by (auto dest: by_key_SomeD)
  have new: "armed_fairly P (pl_live ?q) (?f v)" if "v \<in> set (profiles_of p)" "bp_id v = i" for v
  proof -
    have "v = r" using that r d by (auto simp: distinct_map dest: inj_onD)
    then show ?thesis using armed r by (auto simp: armed_fairly_def live_execution_blockers_def armed_def split: if_splits)
  qed
  have old: "armed_fairly P (pl_live ?q) v" if "v \<in> set (profiles_of p)" "bp_live_execution_enabled v" for v
    using armed that by (auto simp: arming_sound_def intro: armed_fairly_more)
  have "armed_fairly P (pl_live ?q) v" if "v \<in> set (profiles_of ?q)" "bp_live_execution_enabled v" for v
    using that new old by (auto simp: update_key_def)
  then show ?case using d by (simp add: arming_sound_def profile_table.upd_keys k)
next
  case (replaced p r)
  then show ?case
    by (simp add: activate_replacement_def arming_sound_edited harmless_active split: option.split)
next
  case (activated p owner provider i)
  then show ?case
    by (erule_tac arming_sound_same [rotated 3]) (auto simp: set_active_def intro: harmless_active [unfolded set_active_def])
next
  case (deleted p i r)
  then show ?case by (simp add: arming_sound_def armed_fairly_filter distinct_map_filter)
next
  case (edited p i target role is_active now)
  then show ?case by (cases "is_active = Some False") (simp_all add: arming_sound_def)
qed (erule arming_sound_same [rotated 3]; simp add: subset_insertI)+

interpretation arming: kept_by_requests P True "arming_sound P" for P
  by unfold_locales (rule arming_sound_change)

lemma sender_unique: "sender P call p u \<Longrightarrow> sender P call p v \<Longrightarrow> u = v"
  by (cases call) (auto simp: acting_def)

section \<open>Properties of the API\<close>

text \<open>
  C26. Every request keeps to what its sender may do: whatever one request commits, its outcome included, is
  either nothing, or the note of a failed login, or a sequence of the permitted changes made for the user it acts
  for, the one who logs in or whose open session it carries. So only a present administrator adds, edits or resets users, changes
  the engine's controls or arms an account, and an account is changed by its owner or an administrator only.
\<close>

theorem requests_refine_permissions:
  "permitted P call (sv_saved s) (sv_saved (snd (serve P call s)))"
  by (rule request_permitted)

text \<open>
  C27. The kill switch holds: after a kill that was answered, no sequence of requests without a restart, by
  whomever and however many, gives a committed database in which the entry of any strategy on any account is authorized.
\<close>

theorem kill_switch_holds:
  assumes "one_state (sv_saved s)" and "serve P (Kill cr) s = (Inr (), t)" and "\<forall>call \<in> set calls. \<not> is_restart call"
  shows "\<not> entry_allowed (pl_db (sv_saved (serves P calls t))) profile_id cfg_id"
proof -
  have "halted (sv_saved t)" using serve_commits [OF kill_halts [OF assms(1)], of P cr] assms(2) by simp
  then show ?thesis using halted.serves_keep [of t calls] assms(3) by (simp add: halted_blocks)
qed

text \<open>
  C28. An ended session stays ended: once a logout with the token, or an administrator's disabling of its user or
  reset of the password, has been answered, every later request that carries the token is refused with 401, whatever other
  requests came in between (the user enabled again, a new password, new logins).
\<close>

theorem ended_session_stays_ended:
  assumes "distinct (map se_token_hash (pl_sessions (sv_saved s)))" and "ends P call token (sv_saved s)"
    and "serve P call s = (Inr (), t)"
  shows "\<exists>text. fst (get_current_user P (Some (scheme, token)) (serves P calls t)) = Inl (HTTPException 401 text)"
proof -
  have "dead (token_hash P token) (sv_saved t)" using serve_commits [OF end_kills [OF assms(1,2)]] assms(3) by simp
  then have "dead (token_hash P token) (sv_saved (serves P calls t))" by (rule ended.serves_keep) simp
  moreover have "sv_now t = sv_saved t" using assms(3) by (auto simp: serve_def split: prod.splits)
  then have "sv_now (serves P calls t) = sv_saved (serves P calls t)"
    by (induction calls arbitrary: t) (auto simp: serve_def split: prod.splits)
  ultimately show ?thesis by (simp add: dead_refused)
qed

text \<open>
  C30. An active administrator is always left: no sequence of requests, demotions and disablings of
  administrators included, takes the last active administrator away, provided identifiers are given in order.
\<close>

theorem active_admin_retained:
  assumes "administered (sv_saved s)"
  shows "active_admins (sv_saved (serves P calls s)) \<noteq> []"
  using administered.serves_keep [OF assms, of calls P] by (simp add: administered_def)

text \<open>
  C29. Live execution is armed for a bounded time and under every safety rule: starting from rows armed that
  way (or not at all), after any sequence of requests an account that counts as armed is a LIVE account, certified in both
  directions, active, enabled and connected, under a server policy that allows live trading, with the logged event of its arming,
  and its window closes no later than 240 minutes after it was opened.
\<close>

theorem live_arming_bounded:
  assumes "arming_sound P (sv_saved s)" and "r \<in> set (profiles_of (sv_saved (serves P calls s)))" and "live_execution_is_armed r now"
  shows "armed_fairly P (pl_live (sv_saved (serves P calls s))) r \<and> bp_is_enabled r \<and> bp_is_active r \<and> bp_last_connection_status r = ''CONNECTED''
    \<and> (\<exists>since until. bp_live_execution_armed_at r = Some since \<and> bp_live_execution_expires_at r = Some until
         \<and> now < until \<and> until \<le> since + 240 * 60 * 1000000)"
proof -
  have "arming_sound P (sv_saved (serves P calls s))" using assms(1) by (rule arming.serves_keep) simp
  with assms have f: "armed_fairly P (pl_live (sv_saved (serves P calls s))) r" by (simp add: arming_sound_def live_execution_is_armed_def)
  then obtain since minutes where "minutes \<le> 240" "bp_live_execution_armed_at r = Some since"
      "bp_live_execution_expires_at r = Some (since + minutes * 60 * 1000000)"
    unfolding armed_fairly_def by blast
  with f assms(3) show ?thesis by (auto simp: live_execution_is_armed_def live_execution_blockers_def split: if_splits)
qed

section \<open>Examples\<close>

definition example_plane_env :: plane_env where
  "example_plane_env = \<lparr>pe_secrets = \<lparr>sc_pbkdf2 = (\<lambda>_ _ _. []), sc_salt = (\<lambda>_. []), sc_token = (\<lambda>t. show_int (int t)), sc_hmac = (\<lambda>_ t. t)\<rparr>,
     pe_now = (\<lambda>_. 1000), pe_commit = (\<lambda>_. True), pe_session_secret = [], pe_session_ttl_hours = 24, pe_allow_live_trading = True\<rparr>"

definition example_admin :: user where
  "example_admin = example_user\<lparr>us_id := 7, us_username := ''root'', us_role := ''ADMIN''\<rparr>"

definition example_session :: "nat \<Rightarrow> nat \<Rightarrow> string \<Rightarrow> user_session" where
  "example_session i user_id hash = \<lparr>se_id = i, se_user_id = user_id, se_token_hash = hash, se_expires_at = 5000, se_revoked_at = None, se_client = nobody\<rparr>"

definition example_live :: broker_profile where
  "example_live = example_profile\<lparr>bp_provider := ''MT5'', bp_environment := ''LIVE'', bp_live_execution_enabled := True, bp_live_execution_armed_at := Some 0,
     bp_live_execution_expires_at := Some (5 * 60 * 1000000), bp_execution_certified := True, bp_execution_certification_buy_passed := True,
     bp_execution_certification_sell_passed := True\<rparr>"

definition example_plane :: plane where
  "example_plane = \<lparr>pl_db = example_db\<lparr>db_users := [example_user, example_admin], db_profiles := [example_live]\<rparr>,
     pl_sessions = [example_session 8 1 ''user'', example_session 9 7 ''admin''], pl_audit = [],
     pl_live = [\<lparr>le_profile_id = 2, le_owner_user_id = 1, le_actor_user_id = 7, le_action = ''ARMED'', le_reason = None, le_armed_until = Some (5 * 60 * 1000000)\<rparr>],
     pl_revisions = []\<rparr>"

definition example_server :: server where
  "example_server = \<lparr>sv_now = example_plane, sv_saved = example_plane, sv_tick = 0\<rparr>"

abbreviation example_user_cr :: credentials where "example_user_cr \<equiv> Some (''Bearer'', ''user'')"
abbreviation example_admin_cr :: credentials where "example_admin_cr \<equiv> Some (''Bearer'', ''admin'')"

lemmas example_plane_defs = example_plane_env_def example_admin_def example_session_def example_live_def example_plane_def example_server_def example_defs

lemma example_kill: "fst (serve example_plane_env (Kill example_admin_cr) example_server) = Inr ()"
  by code_simp

lemma example_logout: "fst (serve example_plane_env (Logout example_user_cr nobody) example_server) = Inr ()"
  by code_simp

theorem kill_switch_holds_witness:
  "\<not> entry_allowed (pl_db (sv_saved (serves example_plane_env [Activate example_user_cr 2, Read_State example_admin_cr]
      (snd (serve example_plane_env (Kill example_admin_cr) example_server))))) 2 3"
proof (rule kill_switch_holds)
  show "one_state (sv_saved example_server)" by (simp add: one_state_def states_of_def example_plane_defs)
  show "serve example_plane_env (Kill example_admin_cr) example_server = (Inr (), snd (serve example_plane_env (Kill example_admin_cr) example_server))"
    using example_kill by (metis prod.collapse)
qed simp

theorem ended_session_stays_ended_witness:
  "\<exists>text. fst (get_current_user example_plane_env example_user_cr
      (serves example_plane_env [Update_User example_admin_cr 1 None (Some True), Login ''u'' ''password'' nobody]
        (snd (serve example_plane_env (Logout example_user_cr nobody) example_server)))) = Inl (HTTPException 401 text)"
proof (rule ended_session_stays_ended)
  show "distinct (map se_token_hash (pl_sessions (sv_saved example_server)))" by (simp add: example_plane_defs)
  show "ends example_plane_env (Logout example_user_cr nobody) ''user'' (sv_saved example_server)" by simp
  show "serve example_plane_env (Logout example_user_cr nobody) example_server
      = (Inr (), snd (serve example_plane_env (Logout example_user_cr nobody) example_server))"
    using example_logout by (metis prod.collapse)
qed

theorem active_admin_retained_witness:
  "active_admins (sv_saved (serves example_plane_env [Update_User example_admin_cr 7 (Some USER) None, Update_User example_admin_cr 7 None (Some False)] example_server)) \<noteq> []"
  by (rule active_admin_retained) (simp add: administered_def active_admins_def users_of_def example_plane_defs)

theorem live_arming_bounded_witness:
  "armed_fairly example_plane_env (pl_live (sv_saved (serves example_plane_env [] example_server))) example_live"
proof -
  have u: "str_upper ''LIVE'' = ''LIVE''" by code_simp
  have "arming_sound example_plane_env (sv_saved example_server)"
    by (simp add: arming_sound_def armed_fairly_def profiles_of_def example_plane_defs u)
  moreover have "example_live \<in> set (profiles_of (sv_saved (serves example_plane_env [] example_server)))"
    by (simp add: example_server_def example_plane_def profiles_of_def)
  moreover have "live_execution_is_armed example_live 1000"
    by (simp add: live_execution_is_armed_def live_execution_blockers_def example_plane_defs u)
  ultimately show ?thesis by (rule live_arming_bounded [THEN conjunct1])
qed

section \<open>Two active accounts\<close>

definition active_of :: "nat \<Rightarrow> string \<Rightarrow> plane \<Rightarrow> broker_profile list" where
  "active_of owner provider p = filter (\<lambda>r. bp_user_id r = owner \<and> bp_provider r = provider \<and> bp_is_active r) (profiles_of p)"

definition three_accounts :: plane where
  \<comment> \<open>the owner trades on the first of three connected accounts\<close>
  "three_accounts = on_db (\<lambda>d. d\<lparr>db_profiles := [example_profile, example_profile\<lparr>bp_id := 5, bp_is_active := False\<rparr>,
     example_profile\<lparr>bp_id := 6, bp_is_active := False\<rparr>]\<rparr>) example_plane"

text \<open>
  Switching off an account that is not the active one activates a second account: \<open>toggle_account\<close> promotes a
  replacement without asking whether the account it disables was the active one (as \<open>delete_account\<close> does). Here an owner with three
  connected IBKR accounts and one active ends with two active ones at the same provider, while \<open>activate\<close> always leaves
  exactly the chosen one.
\<close>

theorem toggle_activates_second_account:
  "let s = \<lparr>sv_now = three_accounts, sv_saved = three_accounts, sv_tick = 0\<rparr>;
       toggled = serve example_plane_env (Toggle example_user_cr 6) s; activated = serve example_plane_env (Activate example_user_cr 5) s
   in map bp_id (active_of 1 ''IBKR'' three_accounts) = [2] \<and> fst toggled = Inr () \<and> fst activated = Inr ()
     \<and> map bp_id (active_of 1 ''IBKR'' (sv_saved (snd toggled))) = [2, 5] \<and> map bp_id (active_of 1 ''IBKR'' (sv_saved (snd activated))) = [5]"
  by code_simp

end
