(* ===== verification/Strategy_Properties.thy ===== *)
theory Strategy_Properties
  imports Control_Properties
begin

text \<open>
  Strategies under the API: they belong to an account of their user (\<open>coherent\<close>), a user who is no administrator reaches only
  his own accounts and strategies, a rollback restores a revision exactly, and bulk promotion arms simulation accounts only.
\<close>

section \<open>Where strategies belong\<close>

definition coherent :: "plane \<Rightarrow> bool" where
  \<comment> \<open>identifiers are distinct and given in order; every strategy belongs to an account of its own user\<close>
  "coherent p \<longleftrightarrow> distinct (map bp_id (profiles_of p)) \<and> distinct (map ss_id (strategies_of p)) \<and> (\<forall>r \<in> set (strategies_of p). ss_id r < db_next_id (pl_db p))
     \<and> (\<forall>r \<in> set (strategies_of p). \<exists>x \<in> set (profiles_of p). bp_id x = ss_profile_id r \<and> bp_user_id x = ss_user_id r)"

lemma strategies_simps [simp]:
  "strategies_of (audited a b c d e p) = strategies_of p" "strategies_of (added_session s p) = strategies_of p" "strategies_of (revoked w now p) = strategies_of p"
  "strategies_of (added_user v p) = strategies_of p" "strategies_of (edited_user i g p) = strategies_of p"
  "strategies_of (created_state p) = strategies_of p" "strategies_of (edited_state i h p) = strategies_of p"
  "strategies_of (edited_profile i f p) = strategies_of p" "strategies_of (logged_live r u act reason until p) = strategies_of p"
  "strategies_of (activate_replacement r p) = strategies_of p"
  "strategies_of (deleted_profile i p) = filter (\<lambda>r. ss_profile_id r \<noteq> i) (strategies_of p)"
  "strategies_of (on_db (\<lambda>d. d\<lparr>db_profiles := k d\<rparr>) p) = strategies_of p"
  by (simp_all add: strategies_of_def on_db_def audited_def added_session_def revoked_def added_user_def edited_user_def created_state_def
      edited_state_def edited_profile_def logged_live_def activate_replacement_def deleted_profile_def split: option.split)

lemma coherent_same:
  assumes "coherent p" and "strategies_of q = strategies_of p" and "db_next_id (pl_db p) \<le> db_next_id (pl_db q)"
    and "map (\<lambda>x. (bp_id x, bp_user_id x)) (profiles_of q) = map (\<lambda>x. (bp_id x, bp_user_id x)) (profiles_of p)"
  shows "coherent q"
proof -
  have "map fst (map (\<lambda>x. (bp_id x, bp_user_id x)) (profiles_of q)) = map fst (map (\<lambda>x. (bp_id x, bp_user_id x)) (profiles_of p))"
    using assms(4) by simp
  then have i: "map bp_id (profiles_of q) = map bp_id (profiles_of p)" by (simp add: comp_def)
  have m: "(\<exists>x \<in> set (profiles_of q). bp_id x = i \<and> bp_user_id x = j) \<longleftrightarrow> (i, j) \<in> set (map (\<lambda>x. (bp_id x, bp_user_id x)) (profiles_of q))" for i j q
    by auto
  show ?thesis using assms(1-3) unfolding coherent_def m by (auto simp: i assms(4) simp del: set_map)
qed

lemma owners_kept: "harmless f \<Longrightarrow> map (\<lambda>x. (bp_id x, bp_user_id x)) (update_key bp_id i f rows) = map (\<lambda>x. (bp_id x, bp_user_id x)) rows"
  by (simp add: update_key_def harmless_id harmless_owner)

lemma harmless_armed_edit: "map (\<lambda>x. (bp_id x, bp_user_id x)) (update_key bp_id i (armed now minutes) rows) = map (\<lambda>x. (bp_id x, bp_user_id x)) rows"
  by (simp add: update_key_def armed_def)

lemma edited_strategies:
  assumes "coherent p" and "by_key ss_id i (strategies_of p) = Some r" and "same_place f r"
  shows "map (\<lambda>x. (ss_id x, ss_user_id x, ss_profile_id x)) (update_key ss_id i f (strategies_of p)) = map (\<lambda>x. (ss_id x, ss_user_id x, ss_profile_id x)) (strategies_of p)"
proof -
  from assms(2) have r: "r \<in> set (strategies_of p)" "ss_id r = i" by (auto dest: by_key_SomeD)
  have "x = r" if "x \<in> set (strategies_of p)" "ss_id x = i" for x
    using that r assms(1) by (auto simp: coherent_def distinct_map dest: inj_onD)
  then show ?thesis using assms(3) by (auto simp: update_key_def same_place_def)
qed

lemma coherent_strategies:
  assumes "coherent p" and "profiles_of q = profiles_of p" and "db_next_id (pl_db q) = db_next_id (pl_db p)"
    and "map (\<lambda>x. (ss_id x, ss_user_id x, ss_profile_id x)) (strategies_of q) = map (\<lambda>x. (ss_id x, ss_user_id x, ss_profile_id x)) (strategies_of p)"
  shows "coherent q"
proof -
  have i: "map ss_id rs = map fst (map (\<lambda>x. (ss_id x, ss_user_id x, ss_profile_id x)) rs)" for rs by simp
  have a: "(\<forall>r \<in> set rs. ss_id r < n) \<longleftrightarrow> (\<forall>t \<in> set (map (\<lambda>x. (ss_id x, ss_user_id x, ss_profile_id x)) rs). fst t < n)" for rs n by auto
  have o: "(\<forall>r \<in> set rs. \<exists>x \<in> set ps. bp_id x = ss_profile_id r \<and> bp_user_id x = ss_user_id r)
      \<longleftrightarrow> (\<forall>t \<in> set (map (\<lambda>x. (ss_id x, ss_user_id x, ss_profile_id x)) rs). \<exists>x \<in> set ps. bp_id x = snd (snd t) \<and> bp_user_id x = fst (snd t))" for rs ps by auto
  show ?thesis using assms(1) unfolding coherent_def a o assms(2,3,4) i by simp
qed

lemma coherent_change: "plane_change P u b p q \<Longrightarrow> coherent p \<Longrightarrow> b \<longrightarrow> True \<Longrightarrow> coherent q"
proof (induction rule: plane_change.induct)
  case (edited p i target role is_active now)
  then show ?case by (cases "is_active = Some False") (auto elim!: coherent_same)
next
  case (account p i r f)
  then show ?case by (auto elim!: coherent_same simp: owners_kept)
next
  case (armed p i r now minutes reason)
  then show ?case by (elim coherent_same) (simp_all add: harmless_armed_edit)
next
  case (replaced p r)
  then show ?case
    by (cases "replacement r p") (auto elim!: coherent_same simp: activate_replacement_def owners_kept harmless_active)
next
  case (activated p owner provider i)
  then show ?case by (elim coherent_same) (auto simp: set_active_def)
next
  case (deleted p i r)
  have "\<forall>s \<in> set (strategies_of (deleted_profile i p)). \<exists>x \<in> set (profiles_of (deleted_profile i p)). bp_id x = ss_profile_id s \<and> bp_user_id x = ss_user_id s"
  proof
    fix s assume "s \<in> set (strategies_of (deleted_profile i p))"
    then have s: "s \<in> set (strategies_of p)" "ss_profile_id s \<noteq> i" by simp_all
    with deleted obtain x where "x \<in> set (profiles_of p)" "bp_id x = ss_profile_id s" "bp_user_id x = ss_user_id s" by (auto simp: coherent_def)
    with s show "\<exists>x \<in> set (profiles_of (deleted_profile i p)). bp_id x = ss_profile_id s \<and> bp_user_id x = ss_user_id s" by auto
  qed
  moreover from deleted have "distinct (map bp_id (profiles_of (deleted_profile i p)))" "distinct (map ss_id (strategies_of (deleted_profile i p)))"
      "\<forall>s \<in> set (strategies_of (deleted_profile i p)). ss_id s < db_next_id (pl_db (deleted_profile i p))"
    by (simp_all add: coherent_def distinct_map_filter)
  ultimately show ?case unfolding coherent_def by blast
next
  case (strategy_added p r)
  then show ?case by (fastforce simp: coherent_def)
next
  case (strategy_edited p i r f)
  show ?case by (rule coherent_strategies [OF strategy_edited(5)]) (simp_all add: edited_strategies [OF strategy_edited(5,2,4)])
next
  case (strategy_deleted p i r)
  then show ?case by (auto simp: coherent_def distinct_map_filter)
next
  case (strategies_promoted p ids)
  show ?case by (rule coherent_strategies [OF strategies_promoted(4)]) simp_all
qed (elim coherent_same; simp)+

interpretation coherent: kept_by_requests P True coherent for P
  by unfold_locales (rule coherent_change)

section \<open>Users who are not administrators\<close>

definition accounts_of :: "nat \<Rightarrow> plane \<Rightarrow> broker_profile list" where
  "accounts_of owner p = filter (\<lambda>r. bp_user_id r = owner) (profiles_of p)"

definition strategies_owned :: "nat \<Rightarrow> plane \<Rightarrow> symbol_strategy list" where
  "strategies_owned owner p = filter (\<lambda>r. ss_user_id r = owner) (strategies_of p)"

definition confined :: "nat \<Rightarrow> plane \<Rightarrow> plane \<Rightarrow> bool" where
  \<comment> \<open>users, existing controls and other owners' accounts and strategies are as before\<close>
  "confined i p q \<longleftrightarrow> users_of q = users_of p \<and> (\<exists>new. states_of q = states_of p @ new)
     \<and> (\<forall>owner. owner \<noteq> i \<longrightarrow> accounts_of owner q = accounts_of owner p \<and> strategies_owned owner q = strategies_owned owner p)"

lemma confined_trans: "confined i p q \<Longrightarrow> confined i q r \<Longrightarrow> confined i p r"
  by (auto simp: confined_def)

lemma confined_same: "users_of q = users_of p \<Longrightarrow> \<exists>new. states_of q = states_of p @ new \<Longrightarrow> profiles_of q = profiles_of p
    \<Longrightarrow> strategies_of q = strategies_of p \<Longrightarrow> confined i p q"
  by (simp add: confined_def accounts_of_def strategies_owned_def)

lemma filter_update:
  assumes "\<And>r. r \<in> set rows \<Longrightarrow> key r = i \<Longrightarrow> \<not> Q r \<and> \<not> Q (f r)"
  shows "filter Q (update_key key i f rows) = filter Q rows"
  using assms unfolding update_key_def by (induction rows) auto

lemma same_profile: "coherent p \<Longrightarrow> r \<in> set (profiles_of p) \<Longrightarrow> v \<in> set (profiles_of p) \<Longrightarrow> bp_id r = bp_id v \<Longrightarrow> r = v"
  by (auto simp: coherent_def distinct_map dest: inj_onD)

lemma profile_owner:
  assumes "coherent p" and "r \<in> set (profiles_of p)" and "bp_id r = i" and "v \<in> set (profiles_of p)" and "bp_id v = i"
  shows "bp_user_id v = bp_user_id r"
  using same_profile [OF assms(1,2,4)] assms(3,5) by simp

lemma confined_edit:
  assumes d: "coherent p" and r: "r \<in> set (profiles_of p)" "bp_id r = i" "bp_user_id r = me" and f: "harmless f"
  shows "confined me p (edited_profile i f p)"
proof -
  have "accounts_of owner (edited_profile i f p) = accounts_of owner p" if "owner \<noteq> me" for owner
    unfolding accounts_of_def profiles_simps using that f profile_owner [OF d r(1,2)] r(3)
    by (intro filter_update) (auto simp: harmless_owner)
  then show ?thesis by (simp add: confined_def strategies_owned_def)
qed

lemma confined_strategies:
  assumes "users_of q = users_of p" and "states_of q = states_of p" and "profiles_of q = profiles_of p"
    and "\<And>owner. owner \<noteq> me \<Longrightarrow> strategies_owned owner q = strategies_owned owner p"
  shows "confined me p q"
  using assms by (simp add: confined_def accounts_of_def)

lemma find_member: "find Q xs = Some v \<Longrightarrow> v \<in> set xs \<and> Q v"
  by (induction xs) (auto split: if_splits)

lemma replacementD: "replacement r p = Some v \<Longrightarrow> v \<in> set (profiles_of p) \<and> bp_user_id v = bp_user_id r"
  unfolding replacement_def by (drule find_member) simp

lemma change_confined:
  assumes "plane_change P u b p q" and "\<not> is_admin u" and "coherent p"
  shows "confined (us_id u) p q"
  using assms
proof (induction rule: plane_change.induct)
  case (account p i r f)
  then show ?case by (intro confined_edit) (auto dest: by_key_SomeD)
next
  case (replaced p r)
  show ?case
  proof (cases "replacement r p")
    case None
    with replaced show ?thesis by (simp add: activate_replacement_def confined_same)
  next
    case (Some v)
    with replaced replacementD [OF Some] show ?thesis by (auto simp: activate_replacement_def intro!: confined_edit [of p v] harmless_active)
  qed
next
  case (activated p owner provider i)
  let ?g = "\<lambda>r. if bp_user_id r = us_id u \<and> bp_provider r = provider then set_active (bp_id r = i) r else r"
  have "filter (\<lambda>r. bp_user_id r = j) (map ?g rows) = filter (\<lambda>r. bp_user_id r = j) rows" if "j \<noteq> us_id u" for j rows
    using that by (induction rows) (auto simp: set_active_def)
  moreover have "owner = us_id u" using activated by simp
  ultimately show ?case by (simp add: confined_def accounts_of_def strategies_owned_def states_of_def [of p])
next
  case (deleted p i r)
  then have r: "r \<in> set (profiles_of p)" "bp_id r = i" "bp_user_id r = us_id u" by (auto dest: by_key_SomeD)
  have "ss_user_id s = us_id u" if "s \<in> set (strategies_of p)" "ss_profile_id s = i" for s
    using that deleted(5) profile_owner [OF deleted(5) r(1,2)] r(3) by (auto simp: coherent_def)
  then have "strategies_owned owner (deleted_profile i p) = strategies_owned owner p" if "owner \<noteq> us_id u" for owner
    using that by (auto simp: strategies_owned_def intro!: filter_cong)
  moreover have "accounts_of owner (deleted_profile i p) = accounts_of owner p" if "owner \<noteq> us_id u" for owner
    using that profile_owner [OF deleted(5) r(1,2)] r(3) by (auto simp: accounts_of_def intro!: filter_cong)
  ultimately show ?case by (simp add: confined_def)
next
  case (strategy_added p r)
  then show ?case by (intro confined_strategies) (auto simp: strategies_owned_def)
next
  case (strategy_edited p i r f)
  then have r: "r \<in> set (strategies_of p)" "ss_id r = i" "ss_user_id r = us_id u" by (auto dest: by_key_SomeD)
  have "v = r" if "v \<in> set (strategies_of p)" "ss_id v = i" for v
    using that r strategy_edited by (auto simp: coherent_def distinct_map dest: inj_onD)
  then have "strategies_owned owner (edited_strategy i f p) = strategies_owned owner p" if "owner \<noteq> us_id u" for owner
    unfolding strategies_owned_def strategy_simps using that r(3) strategy_edited(4) by (intro filter_update) (auto simp: same_place_def)
  then show ?case by (intro confined_strategies) simp_all
next
  case (strategy_deleted p i r)
  then have r: "r \<in> set (strategies_of p)" "ss_id r = i" "ss_user_id r = us_id u" by (auto dest: by_key_SomeD)
  have "v = r" if "v \<in> set (strategies_of p)" "ss_id v = i" for v
    using that r strategy_deleted by (auto simp: coherent_def distinct_map dest: inj_onD)
  then show ?case using r(3) by (intro confined_strategies) (auto simp: strategies_owned_def intro!: filter_cong)
qed (auto intro: confined_same)

lemma changes_confined:
  assumes "changes P u b p q" and "\<not> is_admin u" and "coherent p"
  shows "confined (us_id u) p q"
  using assms(1)
proof -
  have "confined (us_id u) p q \<and> coherent q"
    using assms(1) unfolding changes_def
  proof (induction rule: rtranclp_induct)
    case base
    show ?case using assms(3) by (simp add: confined_same)
  next
    case (step q r)
    then show ?case using change_confined [OF step(2) assms(2)] coherent_change [OF step(2)] by (blast intro: confined_trans)
  qed
  then show ?thesis by simp
qed

text \<open>
  C31. A request of a user who is no administrator is confined to that user's accounts and strategies: it leaves every
  user, the controls that exist, and every account and strategy of another owner exactly as they were.
\<close>

theorem user_requests_confined:
  assumes "coherent (sv_saved s)" and "sender P call (sv_saved s) u" and "\<not> is_admin u" and "serve P call s = (r, t)"
  shows "users_of (sv_saved t) = users_of (sv_saved s) \<and> (\<exists>new. states_of (sv_saved t) = states_of (sv_saved s) @ new)
    \<and> (\<forall>owner. owner \<noteq> us_id u \<longrightarrow> accounts_of owner (sv_saved t) = accounts_of owner (sv_saved s)
         \<and> strategies_owned owner (sv_saved t) = strategies_owned owner (sv_saved s))"
proof -
  have "permitted P call (sv_saved s) (sv_saved t)" using request_permitted [of P call s] assms(4) by simp
  then have "confined (us_id u) (sv_saved s) (sv_saved t)"
    using assms(1-3) unfolding permitted_def by (auto intro: changes_confined confined_same dest: sender_unique)
  then show ?thesis by (simp add: confined_def)
qed

theorem user_requests_confined_witness:
  "accounts_of 9 (sv_saved (snd (serve example_plane_env (Toggle example_user_cr 2) example_server))) = accounts_of 9 (sv_saved example_server)"
proof -
  have "acting example_plane_env example_user_cr (sv_saved example_server) example_user"
    by (simp add: acting_def session_of_def token_hash_def by_key_def users_of_def example_plane_defs)
  then have "users_of (sv_saved t) = users_of (sv_saved example_server) \<and> (\<exists>new. states_of (sv_saved t) = states_of (sv_saved example_server) @ new)
      \<and> (\<forall>owner. owner \<noteq> us_id example_user \<longrightarrow> accounts_of owner (sv_saved t) = accounts_of owner (sv_saved example_server)
          \<and> strategies_owned owner (sv_saved t) = strategies_owned owner (sv_saved example_server))"
    if "serve example_plane_env (Toggle example_user_cr 2) example_server = (r, t)" for r t
    using that by (intro user_requests_confined [where call = "Toggle example_user_cr 2"])
      (simp_all add: is_admin_def coherent_def strategies_of_def profiles_of_def example_plane_defs)
  then show ?thesis
    by (cases "serve example_plane_env (Toggle example_user_cr 2) example_server") (simp add: example_user_def)
qed

section \<open>Rollback\<close>

lemma revisions_simps [simp]:
  "pl_revisions (audited a b c d e p) = pl_revisions p" "pl_revisions (added_session s p) = pl_revisions p" "pl_revisions (revoked w now p) = pl_revisions p"
  "pl_revisions (added_user v p) = pl_revisions p" "pl_revisions (edited_user i g p) = pl_revisions p" "pl_revisions (on_db k p) = pl_revisions p"
  "pl_revisions (created_state p) = pl_revisions p" "pl_revisions (edited_state i h p) = pl_revisions p"
  "pl_revisions (edited_profile i f p) = pl_revisions p" "pl_revisions (logged_live r u act reason until p) = pl_revisions p"
  "pl_revisions (activate_replacement r p) = pl_revisions p"
  "pl_revisions (deleted_profile i p) = filter (\<lambda>v. rv_profile_id v \<noteq> i) (pl_revisions p)"
  "pl_revisions (added_strategy row p) = pl_revisions p" "pl_revisions (edited_strategy i l p) = pl_revisions p"
  "pl_revisions (deleted_strategy i p) = pl_revisions p" "pl_revisions (promoted ids p) = pl_revisions p"
  by (simp_all add: on_db_def audited_def added_session_def revoked_def added_user_def edited_user_def created_state_def added_strategy_def edited_strategy_def
      edited_state_def edited_profile_def logged_live_def activate_replacement_def deleted_profile_def deleted_strategy_def promoted_def split: option.split)

lemma recorded_revisions: "\<exists>v. pl_revisions (recorded u event reason number row p) = pl_revisions p @ [v] \<and> rv_strategy_id v = ss_id row
    \<and> rv_number v = next_number (ss_id row) p \<and> rv_profile_id v = ss_profile_id row \<and> rv_snapshot v = row"
  by (simp add: recorded_def on_db_def)

lemma le_max_of: "x \<in> set xs \<Longrightarrow> x \<le> foldr max xs (0 :: nat)"
  by (induction xs) auto

lemma number_fresh: "v \<in> set (pl_revisions p) \<Longrightarrow> rv_strategy_id v = i \<Longrightarrow> rv_number v < next_number i p"
  using le_max_of [of "rv_number v" "map rv_number (revisions_of i p)"] by (auto simp: next_number_def revisions_of_def)

definition documented :: "symbol_strategy \<Rightarrow> nat \<Rightarrow> plane \<Rightarrow> bool" where
  \<comment> \<open>revision \<open>n\<close> of the strategy holds this row; a row with its identifier is still at the same place\<close>
  "documented r n p \<longleftrightarrow> coherent p \<and> ss_id r < db_next_id (pl_db p) \<and> normalize_symbol (ss_market r) (ss_symbol r) = Inr (ss_symbol r)
     \<and> (\<forall>x \<in> set (strategies_of p). ss_id x = ss_id r \<longrightarrow> ss_user_id x = ss_user_id r \<and> ss_profile_id x = ss_profile_id r \<and> ss_market x = ss_market r
          \<and> ss_symbol x = ss_symbol r
          \<and> (\<exists>v \<in> set (pl_revisions p). rv_strategy_id v = ss_id r \<and> rv_number v = n \<and> rv_profile_id v = ss_profile_id r))
     \<and> (\<forall>v \<in> set (pl_revisions p). rv_strategy_id v = ss_id r \<longrightarrow> rv_number v = n \<longrightarrow> rv_snapshot v = r)"

lemma documentedI:
  assumes "documented r n p" and "coherent q" and "db_next_id (pl_db p) \<le> db_next_id (pl_db q)"
    and "\<And>x. x \<in> set (strategies_of q) \<Longrightarrow> ss_id x = ss_id r \<Longrightarrow> \<exists>y \<in> set (strategies_of p). ss_id y = ss_id r \<and> ss_user_id x = ss_user_id y
      \<and> ss_profile_id x = ss_profile_id y \<and> ss_market x = ss_market y \<and> ss_symbol x = ss_symbol y"
    and "set (pl_revisions p) \<subseteq> set (pl_revisions q)"
    and "\<And>v. v \<in> set (pl_revisions q) \<Longrightarrow> rv_strategy_id v = ss_id r \<Longrightarrow> rv_number v = n \<Longrightarrow> v \<in> set (pl_revisions p)"
  shows "documented r n q"
  unfolding documented_def
proof (intro conjI ballI impI)
  show "coherent q" "ss_id r < db_next_id (pl_db q)" "normalize_symbol (ss_market r) (ss_symbol r) = Inr (ss_symbol r)"
    using assms(1-3) by (simp_all add: documented_def)
next
  fix x assume "x \<in> set (strategies_of q)" "ss_id x = ss_id r"
  from assms(4) [OF this] obtain y where y: "y \<in> set (strategies_of p)" "ss_id y = ss_id r" "ss_user_id x = ss_user_id y" "ss_profile_id x = ss_profile_id y"
      "ss_market x = ss_market y" "ss_symbol x = ss_symbol y" by blast
  with assms(1) have z: "ss_user_id y = ss_user_id r" "ss_profile_id y = ss_profile_id r" "ss_market y = ss_market r" "ss_symbol y = ss_symbol r"
      "\<exists>v \<in> set (pl_revisions p). rv_strategy_id v = ss_id r \<and> rv_number v = n \<and> rv_profile_id v = ss_profile_id r"
    by (simp_all add: documented_def)
  show "ss_user_id x = ss_user_id r" "ss_profile_id x = ss_profile_id r" "ss_market x = ss_market r" "ss_symbol x = ss_symbol r" using y z by simp_all
  show "\<exists>v \<in> set (pl_revisions q). rv_strategy_id v = ss_id r \<and> rv_number v = n \<and> rv_profile_id v = ss_profile_id r" using z(5) assms(5) by blast
next
  fix v assume "v \<in> set (pl_revisions q)" "rv_strategy_id v = ss_id r" "rv_number v = n"
  then show "rv_snapshot v = r" using assms(1,6) by (auto simp: documented_def)
qed

lemma documented_coherent: "documented r n p \<Longrightarrow> coherent p"
  by (simp add: documented_def)

lemma documented_change: "plane_change P u b p q \<Longrightarrow> documented r n p \<Longrightarrow> b \<longrightarrow> True \<Longrightarrow> documented r n q"
proof -
  assume c: "plane_change P u b p q" and d: "documented r n p"
  have k: "coherent q" using coherent_change [OF c documented_coherent [OF d]] by simp
  from c d k show "documented r n q"
  proof (induction rule: plane_change.induct)
    case (edited p i target role is_active now)
    then show ?case by (cases "is_active = Some False") (auto elim!: documentedI)
  next
    case (deleted p i x)
    have "\<exists>v \<in> set (pl_revisions (deleted_profile i p)). rv_strategy_id v = ss_id r \<and> rv_number v = n \<and> rv_profile_id v = ss_profile_id r"
      if y: "y \<in> set (strategies_of (deleted_profile i p))" "ss_id y = ss_id r" for y
    proof -
      from deleted(4) y obtain v where "v \<in> set (pl_revisions p)" "rv_strategy_id v = ss_id r" "rv_number v = n" "rv_profile_id v = ss_profile_id r"
          "ss_profile_id y = ss_profile_id r" by (auto simp: documented_def)
      with y show ?thesis by (intro bexI [of _ v]) auto
    qed
    with deleted show ?case unfolding documented_def by simp
  next
    case (strategy_added p x)
    then have "ss_id x \<noteq> ss_id r" by (simp add: documented_def)
    with strategy_added show ?case by (elim documentedI) auto
  next
    case (strategy_edited p i x f)
    then have x: "x \<in> set (strategies_of p)" "ss_id x = i" by (auto dest: by_key_SomeD)
    have e: "y = x" if "y \<in> set (strategies_of p)" "ss_id y = i" for y
      using that x documented_coherent [OF strategy_edited(5)] by (auto simp: coherent_def distinct_map dest: inj_onD)
    have s: "ss_symbol (f x) = ss_symbol x" if "i = ss_id r"
      using strategy_edited(4,5) x that by (auto simp: same_place_def documented_def)
    show ?case
    proof (rule documentedI [OF strategy_edited(5,6)])
      fix y assume "y \<in> set (strategies_of (edited_strategy i f p))" "ss_id y = ss_id r"
      then obtain z where z: "z \<in> set (strategies_of p)" "y = (if ss_id z = i then f z else z)" by (auto simp: update_key_def)
      show "\<exists>w \<in> set (strategies_of p). ss_id w = ss_id r \<and> ss_user_id y = ss_user_id w
          \<and> ss_profile_id y = ss_profile_id w \<and> ss_market y = ss_market w \<and> ss_symbol y = ss_symbol w"
      proof (cases "ss_id z = i")
        case True
        with z e have "y = f x" "z = x" by simp_all
        moreover from this \<open>ss_id y = ss_id r\<close> strategy_edited(4) x have "i = ss_id r" by (simp add: same_place_def)
        ultimately show ?thesis using x s strategy_edited(4) by (intro bexI [of _ x]) (simp_all add: same_place_def)
      qed (use z \<open>ss_id y = ss_id r\<close> in auto)
    qed simp_all
  next
    case (strategy_recorded x p event reason number)
    obtain v where v: "pl_revisions (recorded u event reason number x p) = pl_revisions p @ [v]" "rv_strategy_id v = ss_id x" "rv_number v = next_number (ss_id x) p"
      using recorded_revisions by blast
    have "rv_number v \<noteq> n" if "ss_id x = ss_id r"
    proof -
      from strategy_recorded that obtain w where "w \<in> set (pl_revisions p)" "rv_strategy_id w = ss_id x" "rv_number w = n" by (auto simp: documented_def)
      with number_fresh [OF this(1,2)] v show ?thesis by simp
    qed
    with v show ?case using strategy_recorded(2,3) by (intro documentedI [OF strategy_recorded(2,3)]) auto
  next
    case (strategies_promoted p ids)
    then show ?case by (elim documentedI) (auto split: if_splits)
  qed (elim documentedI; auto)+
qed

interpretation documented: kept_by_requests P True "documented r n" for P r n
  by unfold_locales (rule documented_change)

lemma upper_again: "str_upper (str_upper s) = str_upper s"
  by (simp add: str_upper_def upper_char_idem)

lemma removed_upper: "str_upper s = s \<Longrightarrow> str_upper (remove_char c s) = remove_char c s"
  by (induction s) (auto simp: str_upper_def remove_char_def)

lemma removed_again: "remove_char c (remove_char c s) = remove_char c s" "remove_char c (remove_char d (remove_char c s)) = remove_char d (remove_char c s)"
  by (simp_all add: remove_char_def conj_comms)

lemma removed_nonempty: "remove_char c s \<noteq> [] \<Longrightarrow> s \<noteq> []"
  by (auto simp: remove_char_def)

lemma normalize_again:
  assumes "normalize_symbol market s = Inr t" and "t \<noteq> []"
  shows "normalize_symbol market t = Inr t"
proof -
  let ?v = "remove_char (CHR '' '') (str_upper s)"
  have u: "str_upper ?v = ?v" "str_upper (remove_char (CHR ''/'') ?v) = remove_char (CHR ''/'') ?v"
    using removed_upper [OF upper_again] removed_upper by metis+
  show ?thesis using assms u by (auto simp: normalize_symbol_def Let_def removed_again guardE_def split: if_splits)
qed

lemma next_number_edited [simp]: "next_number j (edited_strategy i f p) = next_number j p"
  by (simp add: next_number_def revisions_of_def)

lemma edited_documented:
  assumes c: "coherent p" and q: "coherent (recorded u event reason number (f r) (edited_strategy i f p))"
    and r: "by_key ss_id i (strategies_of p) = Some r" and s: "same_place f r"
    and n: "normalize_symbol (ss_market (f r)) (ss_symbol (f r)) = Inr (ss_symbol (f r))"
  shows "documented (f r) (next_number i p) (recorded u event reason number (f r) (edited_strategy i f p))"
proof -
  let ?q = "recorded u event reason number (f r) (edited_strategy i f p)"
  from r have m: "r \<in> set (strategies_of p)" "ss_id r = i" by (auto dest: by_key_SomeD)
  with s have i: "ss_id (f r) = i" by (simp add: same_place_def)
  have e: "x = r" if "x \<in> set (strategies_of p)" "ss_id x = i" for x
    using that m c by (auto simp: coherent_def distinct_map dest: inj_onD)
  obtain v where v: "pl_revisions ?q = pl_revisions p @ [v]" "rv_strategy_id v = i" "rv_number v = next_number i p" "rv_profile_id v = ss_profile_id (f r)" "rv_snapshot v = f r"
    using recorded_revisions [of u event reason number "f r" "edited_strategy i f p"] i by auto
  have x: "x = f r" if "x \<in> set (strategies_of ?q)" "ss_id x = i" for x
    using that e by (auto simp: update_key_def split: if_splits)
  have "ss_id (f r) < db_next_id (pl_db ?q)" using c m i by (auto simp: coherent_def)
  moreover have "rv_snapshot w = f r" if "w \<in> set (pl_revisions ?q)" "rv_strategy_id w = ss_id (f r)" "rv_number w = next_number i p" for w
    using that v number_fresh [of w p i] i by auto
  moreover have "\<exists>w \<in> set (pl_revisions ?q). rv_strategy_id w = ss_id (f r) \<and> rv_number w = next_number i p \<and> rv_profile_id w = ss_profile_id (f r)"
    using v i by simp
  ultimately show ?thesis using q n x i unfolding documented_def by metis
qed

lemma update_documents:
  assumes "coherent p"
  shows "commits (\<lambda>res q. isl res \<or> (\<forall>r. by_key ss_id i (strategies_of q) = Some r \<longrightarrow> ss_symbol r \<noteq> [] \<longrightarrow> documented r (next_number i p) q))
    (respond P (Update_Strategy cr i b)) p p"
  unfolding respond.simps update_symbol_strategy_def
proof (intro commit_rules commits_if; (simp; fail)?)
  fix u row x mode symbol
  assume a: "acting P cr p u" and row: "by_key ss_id i (strategies_of p) = Some row" and own: "is_admin u \<or> ss_user_id row = us_id u"
    and sym: "normalize_symbol (ss_market row) (ss_symbol row) = Inr symbol"
  let ?f = "edit_strategy b mode symbol"
  let ?q = "recorded u ''UPDATE'' None None (?f row) (edited_strategy i ?f p)"
  note s = edit_same_place(1) [OF sym, of b mode]
  have "changes P u False p ?q" by (rule change_edited_recorded [OF changes_refl acting_present [OF a] row own s])
  then have q: "coherent ?q" by (rule coherent.changes_keep) (use assms in simp_all)
  have "by_key ss_id i (strategies_of ?q) = Some (?f row)"
    using row by (simp add: strategy_table.get_upd edit_strategy_def)
  moreover have "documented (?f row) (next_number i p) ?q" if "ss_symbol (?f row) \<noteq> []"
    by (rule edited_documented [OF assms q row s]) (use that normalize_again [OF sym] in \<open>simp add: edit_strategy_def\<close>)
  ultimately show "isl (Inr ()) \<or> (\<forall>r. by_key ss_id i (strategies_of ?q) = Some r \<longrightarrow> ss_symbol r \<noteq> [] \<longrightarrow> documented r (next_number i p) ?q)" by simp
qed

lemma rollback_restores:
  assumes "documented r n p"
  shows "commits (\<lambda>res q. isl res \<or> by_key ss_id (ss_id r) (strategies_of q) = Some (r\<lparr>ss_mode := str_upper (ss_mode r)\<rparr>))
    (respond P (Rollback_Strategy cr (ss_id r) n reason)) p p"
  unfolding respond.simps rollback_symbol_strategy_def Let_def
proof (intro commit_rules commits_option; (simp; fail)?)
  fix u row revision x
  assume row: "by_key ss_id (ss_id r) (strategies_of p) = Some row" and v: "find (\<lambda>v. rv_number v = n) (revisions_of (ss_id r) p) = Some revision"
  from v have "revision \<in> set (pl_revisions p)" "rv_strategy_id revision = ss_id r" "rv_number revision = n"
    by (auto dest!: find_member simp: revisions_of_def)
  then have snap: "rv_snapshot revision = r" using assms by (simp add: documented_def)
  from row have "row \<in> set (strategies_of p)" "ss_id row = ss_id r" by (auto dest: by_key_SomeD)
  then have "ss_user_id row = ss_user_id r" "ss_profile_id row = ss_profile_id r" "ss_market row = ss_market r" "ss_symbol row = ss_symbol r"
    using assms by (simp_all add: documented_def)
  with \<open>ss_id row = ss_id r\<close> have "restored r row = r\<lparr>ss_mode := str_upper (ss_mode r)\<rparr>" by (simp add: restored_def)
  moreover have "by_key ss_id (ss_id r) (update_key ss_id (ss_id r) (restored r) (strategies_of p)) = Some (restored r row)"
    using row by (simp add: strategy_table.get_upd restored_def)
  ultimately show "isl (Inr ()) \<or> by_key ss_id (ss_id r) (strategies_of (recorded u ''ROLLBACK'' reason (Some (int n)) (restored (rv_snapshot revision) row)
      (edited_strategy (ss_id r) (restored (rv_snapshot revision)) p))) = Some (r\<lparr>ss_mode := str_upper (ss_mode r)\<rparr>)"
    by (simp add: snap)
qed

text \<open>
  C32. A rollback restores a strategy exactly: take the row an answered update left, with the number of its revision. Whatever requests follow,
  other updates, rollbacks, promotions, deletions of the strategy or its account, a rollback to that number that is answered leaves
  the very same row again, every parameter, mode and symbol, the mode in upper case.
\<close>

theorem rollback_restores_update:
  assumes "coherent (sv_saved s)" and "serve P (Update_Strategy cr i b) s = (Inr (), t)"
    and "by_key ss_id i (strategies_of (sv_saved t)) = Some r" and "ss_symbol r \<noteq> []"
    and "serve P (Rollback_Strategy cr' i (next_number i (sv_saved s)) reason) (serves P calls t) = (Inr (), t')"
  shows "by_key ss_id i (strategies_of (sv_saved t')) = Some (r\<lparr>ss_mode := str_upper (ss_mode r)\<rparr>)"
proof -
  have i: "ss_id r = i" using assms(3) by (auto dest: by_key_SomeD)
  have "documented r (next_number i (sv_saved s)) (sv_saved t)"
    using serve_commits [OF update_documents [OF assms(1)], of P cr i b] assms(2-4) by simp
  then have d: "documented r (next_number i (sv_saved s)) (sv_saved (serves P calls t))" by (rule documented.serves_keep) simp
  show ?thesis using serve_commits [OF rollback_restores [OF d], of P cr' reason] assms(5) i by simp
qed

section \<open>Bulk promotion\<close>

definition promoted_fairly :: "plane \<Rightarrow> symbol_strategy \<Rightarrow> bool" where
  \<comment> \<open>the strategy trades on a connected simulation account\<close>
  "promoted_fairly p r \<longleftrightarrow> (\<exists>x \<in> set (profiles_of p). bp_id x = ss_profile_id r \<and> bp_user_id x = ss_user_id r \<and> route_ready x
     \<and> (str_upper (bp_provider x), str_upper (bp_environment x)) \<in> {(''MT5'', ''DEMO''), (''IBKR'', ''PAPER''), (''BYBIT'', ''TESTNET''), (''BYBIT'', ''DEMO'')})"

lemma certified_routes: "route_certified x \<longleftrightarrow>
    (str_upper (bp_provider x), str_upper (bp_environment x)) \<in> {(''MT5'', ''DEMO''), (''IBKR'', ''PAPER''), (''BYBIT'', ''TESTNET''), (''BYBIT'', ''DEMO'')}"
  by (simp add: route_certified_def CERTIFIED_AUTOMATION_ROUTES_def)

lemma added_seeds_strategies: "r \<in> set (strategies_of (added_seeds u mode seeds p)) \<Longrightarrow> r \<in> set (strategies_of p)
    \<or> (\<exists>kx \<in> set seeds. ss_profile_id r = bp_id (snd kx) \<and> ss_user_id r = us_id u)"
  unfolding added_seeds_def
proof (induction seeds arbitrary: p)
  case (Cons kx seeds)
  have "ss_profile_id (seed_row u mode kx i) = bp_id (snd kx) \<and> ss_user_id (seed_row u mode kx i) = us_id u" for i
    by (simp add: seed_row_def split: prod.split)
  with Cons show ?case by fastforce
qed simp

lemma promotion_fair:
  assumes "coherent p"
  shows "commits (\<lambda>res q. \<forall>r \<in> set (strategies_of q). r \<in> set (strategies_of p) \<or> promoted_fairly p r) (respond P (Promote_All cr markets seed_missing)) p p"
  unfolding respond.simps promote_all_eligible_auto_trade_def
proof (intro commit_rules; (simp; fail)?)
  fix u x seeds
  assume seeds: "(if seed_missing then bindE (starter_symbols x) (seeded (\<lambda>x. route_certified x \<and> route_ready x) (own_profiles u p) (map scope_of (Strategy_Api.own_rows u p)))
      else Inr []) = Inr seeds"
  have "promoted_fairly p r" if "kx \<in> set seeds" "ss_profile_id r = bp_id (snd kx)" "ss_user_id r = us_id u" for kx r
  proof -
    have "snd kx \<in> set (own_profiles u p) \<and> route_certified (snd kx) \<and> route_ready (snd kx)"
      using seeds that(1) by (auto split: if_splits dest!: seeded_in)
    then show ?thesis using that unfolding promoted_fairly_def certified_routes [symmetric] by (auto dest: own_profiles_in intro!: bexI [of _ "snd kx"])
  qed
  moreover have "r \<in> set (strategies_of p) \<or> promoted_fairly p r" if r: "r \<in> set (strategies_of (promoted (promotable x u p) p))" for r
  proof -
    from r obtain y where y: "y \<in> set (strategies_of p)"
        "r = (if ss_id y \<in> set (promotable x u p) then y\<lparr>ss_mode := ''AUTO_TRADE'', ss_enabled := True\<rparr> else y)" by auto
    show ?thesis
    proof (cases "ss_id y \<in> set (promotable x u p)")
      case True
      with promotable_in obtain z where z: "z \<in> set (strategies_of p)" "ss_id z = ss_id y" "promotable_row p (us_id u) z" by fast
      with y(1) assms have "z = y" by (auto simp: coherent_def distinct_map dest: inj_onD)
      with z(3) obtain a where a: "by_key bp_id (ss_profile_id y) (profiles_of p) = Some a" "route_certified a" "route_ready a" "ss_user_id y = us_id u"
        by (auto simp: promotable_row_def)
      from assms y(1) obtain a' where "a' \<in> set (profiles_of p)" "bp_id a' = ss_profile_id y" "bp_user_id a' = ss_user_id y" by (auto simp: coherent_def)
      moreover from this a(1) have "a' = a" by (auto intro: same_profile [OF assms] dest!: by_key_SomeD)
      ultimately show ?thesis using a(2,3) y(2) True unfolding promoted_fairly_def certified_routes [symmetric] by auto
    qed (use y in auto)
  qed
  ultimately show "\<forall>r \<in> set (strategies_of (added_seeds u ''AUTO_TRADE'' seeds (promoted (promotable x u p) p))). r \<in> set (strategies_of p) \<or> promoted_fairly p r"
    by (blast dest!: added_seeds_strategies)
qed

text \<open>
  C33. Bulk promotion never touches live money: every strategy that a promotion of all eligible strategies creates or changes, answered or not, belongs to
  a ready account of its own user on one of the certified simulation routes (MT5 Demo, IBKR Paper, Bybit Testnet or Demo), and the others
  stay exactly as they were.
\<close>

theorem promotion_only_simulation:
  assumes "coherent (sv_saved s)" and "r \<in> set (strategies_of (sv_saved (snd (serve P (Promote_All cr markets seed_missing) s))))"
  shows "r \<in> set (strategies_of (sv_saved s)) \<or> promoted_fairly (sv_saved s) r"
  using serve_commits [OF promotion_fair [OF assms(1)], of P cr markets seed_missing] assms(2) by blast

section \<open>Examples\<close>

definition strategy_server :: server where
  "strategy_server = \<lparr>sv_now = three_accounts, sv_saved = three_accounts, sv_tick = 0\<rparr>"

definition disabling :: strategy_patch where
  "disabling = \<lparr>pt_mode = Some (Some ''signals''), pt_enabled = Some (Some False), pt_timeframe = Some None, pt_minimum_signal_strength = None,
     pt_risk_per_trade_pct = None, pt_stop_atr_multiplier = None, pt_take_profit_rr = None, pt_max_position_notional_pct = None\<rparr>"

definition edited_example :: symbol_strategy where
  "edited_example = example_strategy\<lparr>ss_mode := ''SIGNALS'', ss_enabled := False, ss_timeframe := None\<rparr>"

lemma strategy_server_coherent: "coherent (sv_saved strategy_server)"
  by (simp add: coherent_def strategy_server_def three_accounts_def profiles_of_def strategies_of_def on_db_def example_plane_defs)

lemma example_update: "let (res, t) = serve example_plane_env (Update_Strategy example_user_cr 3 disabling) strategy_server
    in res = Inr () \<and> by_key ss_id 3 (strategies_of (sv_saved t)) = Some edited_example
      \<and> (let (res', t') = serve example_plane_env (Rollback_Strategy example_user_cr 3 1 None)
             (serves example_plane_env [Update_Strategy example_user_cr 3 (disabling\<lparr>pt_enabled := Some (Some True)\<rparr>)] t) in res' = Inr ())"
  by code_simp

theorem rollback_restores_update_witness:
  "\<exists>t :: server. by_key ss_id 3 (strategies_of (sv_saved t)) = Some edited_example"
proof -
  define u where "u = serve example_plane_env (Update_Strategy example_user_cr 3 disabling) strategy_server"
  define v where "v = serve example_plane_env (Rollback_Strategy example_user_cr 3 1 None)
    (serves example_plane_env [Update_Strategy example_user_cr 3 (disabling\<lparr>pt_enabled := Some (Some True)\<rparr>)] (snd u))"
  have e: "u = (Inr (), snd u)" "by_key ss_id 3 (strategies_of (sv_saved (snd u))) = Some edited_example" "v = (Inr (), snd v)"
    using example_update unfolding u_def [symmetric] by (cases u; cases v; simp add: v_def)+
  have n: "next_number 3 (sv_saved strategy_server) = 1"
    by (simp add: next_number_def revisions_of_def strategy_server_def three_accounts_def example_plane_defs)
  have m: "str_upper (ss_mode edited_example) = ss_mode edited_example" by code_simp
  have "by_key ss_id 3 (strategies_of (sv_saved (snd v))) = Some (edited_example\<lparr>ss_mode := str_upper (ss_mode edited_example)\<rparr>)"
  proof (rule rollback_restores_update)
    show "coherent (sv_saved strategy_server)" by (rule strategy_server_coherent)
    show "serve example_plane_env (Update_Strategy example_user_cr 3 disabling) strategy_server = (Inr (), snd u)" using e(1) by (simp add: u_def)
    show "by_key ss_id 3 (strategies_of (sv_saved (snd u))) = Some edited_example" by (rule e(2))
    show "ss_symbol edited_example \<noteq> []" by (simp add: edited_example_def example_strategy_def)
    show "serve example_plane_env (Rollback_Strategy example_user_cr 3 (next_number 3 (sv_saved strategy_server)) None)
        (serves example_plane_env [Update_Strategy example_user_cr 3 (disabling\<lparr>pt_enabled := Some (Some True)\<rparr>)] (snd u)) = (Inr (), snd v)"
      using e(3) by (simp add: n v_def)
  qed
  then show ?thesis unfolding m by (intro exI [of _ "snd v"]) (simp add: edited_example_def)
qed

theorem promotion_only_simulation_witness:
  "list_all (\<lambda>r. r \<in> set (strategies_of (sv_saved strategy_server)) \<or> promoted_fairly (sv_saved strategy_server) r)
     (strategies_of (sv_saved (snd (serve example_plane_env (Promote_All example_admin_cr [] True) strategy_server))))"
  using promotion_only_simulation [OF strategy_server_coherent] by (simp add: list_all_iff)

lemma promotion_unrecorded:
  \<comment> \<open>the promotion of a strategy changes its row without a revision\<close>
  "let s = \<lparr>sv_now = p, sv_saved = p, sv_tick = 0\<rparr>; t = snd (serve example_plane_env (Promote_All (Some (''bearer'', ''admin'')) [''STOCK''] False) s)
   in map ss_mode (strategies_of (sv_saved s)) = [''WATCH''] \<and> map ss_mode (strategies_of (sv_saved t)) = [''AUTO_TRADE''] \<and> pl_revisions (sv_saved t) = []"
  if "p = on_db (\<lambda>d. d\<lparr>db_users := [example_admin], db_profiles := [example_profile\<lparr>bp_user_id := 7\<rparr>],
        db_strategies := [example_strategy\<lparr>ss_user_id := 7, ss_mode := ''WATCH''\<rparr>]\<rparr>) example_plane"
  unfolding that by code_simp

end
