(* ===== verification/Spec2Isabelle.thy ===== *)
theory Spec2Isabelle
  imports Preflight Readiness_Report Worker_Rows Tws_Book Mt5_Node Protection_Recovery Strategy_Properties
begin

text \<open>
  ATLAS Markets is a service that watches markets, derives signals for the strategies of its users and, where a user allows it,
  trades on simulation accounts: Bybit Testnet or Demo Spot, MetaTrader 5 Demo, Interactive Brokers Paper. This development models the
  Python code that decides and executes, from the arithmetic of a signal to the order book of the broker's gateway, and the
  control plane that says who may trade what. Paths are relative to the repository.

  The parts and their theories, in the order of the imports:

  \<^item> Language. \<open>Prelude\<close>: exceptions (\<open>exn\<close>), results (\<open>exn + 'a\<close>), options, slices. \<open>Py_Float\<close>: binary64, a finite float is the rational it
    denotes and every operation rounds once to even. \<open>Py_Value\<close>: what a JSON document decodes to, with the built-ins the code applies to it.
    \<open>Db_Models\<close>: the tables of \<open>app/db/models\<close>, one record per table, and the locale \<open>keyed_table\<close> of a table under lookup and update.
  \<^item> Pure decisions. \<open>Technical\<close> (\<open>app/analysis/technical.py\<close>), \<open>Trading_Candles\<close> (completed candles, freshness), \<open>Quantities\<close> (share, lot and capital
    sizing; the locale \<open>rounding_down\<close>), \<open>Strategy\<close> (scenario, signal, risk gate), \<open>Router\<close> (strategy router, ranking, asset universe),
    \<open>Ibkr_Evidence\<close> (what proves a fill and a protective pair), \<open>Readiness_Rules\<close> (parameters, limits, execution plan).
  \<^item> Programs. \<open>World\<close>: an asynchronous service over one database session and its suspensions; \<open>Programs\<close>: programs over any state with triples.
    \<open>Execution_Guard\<close> (\<open>execution_guard.py\<close>) is the reservation of a symbol as a state machine over the tasks of the process.
  \<^item> Clients of the brokers. \<open>Ibkr_Bridge\<close>, \<open>Brokers\<close> (MT5 and Bybit), \<open>Market_Data\<close>, each a group of requests over \<open>World\<close>.
  \<^item> Execution. \<open>Bybit_Spot\<close> (managed inventory), \<open>Safe_Automation\<close> (an approved proposal), \<open>Readiness\<close> and \<open>Readiness_Report\<close> (which strategies
    could trade now), \<open>Preflight\<close>, \<open>Ibkr_Positions\<close> and \<open>Position_Manager\<close> (the IBKR position worker), \<open>Protection\<close> and \<open>Protection_Recovery\<close> (the
    broker-held pair of an entry), \<open>Mt5_Positions\<close> (the MT5 worker), \<open>Safe_Scan\<close> (the scan), \<open>Scan_Lifecycle\<close> (how a worker ends),
    \<open>Worker_Orders\<close> and \<open>Worker_Rows\<close> (what the three workers send and leave in the database).
  \<^item> Processes next to the brokers. \<open>Tws_State\<close>, \<open>Tws_Reads\<close>, \<open>Tws_Orders\<close>, \<open>Tws_Answers\<close>, \<open>Tws_Book\<close>: the bridge to TWS or IB Gateway
    (\<open>tools/ibkr_bridge.py\<close>), its callbacks, endpoints, and the refinement of its order book. \<open>Mt5_Node\<close>: the node on the
    Windows host (\<open>bridges/mt5_windows/main.py\<close>).
  \<^item> Control plane. \<open>Controls\<close> (what an entry is checked against), \<open>Passwords\<close> (\<open>app/core/security.py\<close>), \<open>Sessions\<close> (users, tokens, administration),
    \<open>Accounts\<close> (engine controls, live arming, the life of an account), \<open>Provider_Routing\<close>, \<open>Strategy_Api\<close> (strategies and their revisions),
    \<open>Control_Plane\<close> (requests, and the permitted changes as a step relation), \<open>Control_Refinement\<close> (every handler keeps to them),
    \<open>Control_Properties\<close> and \<open>Strategy_Properties\<close> (what no sequence of requests can do).

  How the parts interact. A scan (\<open>Safe_Scan.scan_item\<close>) takes the rows of the preflight, which takes those of the readiness check, which
  reads candles and accounts through the clients and signals from the pure theories. A ready item is executed by \<open>Safe_Automation\<close>; an IBKR entry
  passes \<open>Controls.entry_authorization_blocker\<close> at the moment of its submission, and its fill is protected by \<open>Position_Manager.protect_saved_entry\<close>. The
  workers meet in the database and in the broker only. The client \<open>Ibkr_Bridge\<close> and the bridge \<open>Tws_*\<close> are two programs joined by HTTP: the client's
  theorems hold for any answer, the bridge's say what its answers mean. The control plane shares the tables with the engine: \<open>plane\<close> contains
  the same \<open>db\<close>, so that a kill switch set by a request is the one \<open>entry_allowed\<close> reads.
\<close>

text \<open>
  Conventions of the model.

  \<^item> A definition has the name and the shape of its function; a function that may raise returns \<open>exn + 'a\<close>, with every raise and early
    return a branch in the order of the code. A dictionary that is JSON is a \<open>pydict\<close>; one with a fixed set of keys is a record.
  \<^item> Identifiers (UUIDs) are naturals given in order, times are integers (microseconds or milliseconds), encrypted columns opaque texts.
    Strings are lists of ASCII characters.
  \<^item> A program threads its state explicitly. In \<open>World\<close> that is the database as the session sees it, the identity map (a loaded row keeps its
    attributes until it is refreshed), the committed database, and a log. Each HTTP request, sleep and commit is a tick; at a suspension the
    environment applies what the other tasks have committed (\<open>en_step\<close>), answers the request (\<open>en_http\<close>), and says whether a commit succeeds
    (\<open>en_commit\<close>). All theorems hold for every environment, so for every interleaving and every answer of a broker. Rows of actions are read
    from the database directly; a violated constraint is raised when the row is added; log lines are left out; a list from a broker is
    read as objects when it is received; owners and rows without an order of their own are visited by identifier.
  \<^item> The IBKR bridge receives its callbacks in batches, one at every broker request and during every wait; a call of the broker's library may raise
    after it has sent; locks other threads hold come from the environment. The MetaTrader package answers once per call, and the structured
    detail of an error is its message.
  \<^item> A request of the control plane runs in a session of its own, one after the other; what it has not committed is lost. The validation of bodies
    by the framework is left out but for the bounds that matter (the arming window). Tables are in the order of creation.

  Bounds and fuel. \<open>Bybit_Spot.verify_spot_fill\<close> polls six times and the bridge starts with three attempts, as the code does, by structural
  recursion. The account loop of the IBKR client retries \<open>en_account_retries\<close> times, the code's timeout over its pause; all theorems
  hold for every such number. No other loop of the model is bounded: the loops of the workers are one iteration each, with no state kept between
  iterations but the database, and every list is traversed once.

  What the groups of lemmas show.

  \<^item> Logs. \<open>emits Q m\<close> says that whatever program \<open>m\<close> logs satisfies \<open>Q\<close>; the locale \<open>trace_property\<close> gives the rules, each interpreted on the
    properties the components need (no orders, one order, intent before submission, nothing committed).
  \<^item> Triples and kept relations (\<open>Programs\<close>) for the bridge and the node; \<open>commits\<close> (\<open>Control_Plane\<close>) for requests: backward rules that compute what
    reaches the database, whatever the outcome.
  \<^item> Refinements: \<open>/protection\<close> against its specification \<open>protect_step\<close> (\<open>Tws_Book\<close>), the API against \<open>plane_change\<close> (\<open>Control_Refinement\<close>), from
    which the locale \<open>kept_by_requests\<close> lifts an invariant of one permitted change to all sequences of requests.
  \<^item> Invariants (reservations, inventory, administrators, arming, places of strategies), round trips (password hashes, rollbacks, recorded
    exits), bounds (levels around a fill, arming windows), equivalence (two routines that verify a fill) and error behaviour,
    including where the code goes wrong: a position without a strategy, a held reservation, an unflushed default profile.
\<close>

text \<open>
  What is not modelled, and why. The onboarding of accounts (OAuth, guided forms, certification runs), \<open>routes_accounts.py\<close> as far as it asks a broker, and the
  encryption of credentials call services and packages outside the repository; the engine reads their result, a row, whatever
  wrote it. Reports, logs, performance, news and historical statistics, the views of markets and of the universe only read and print. Shadow
  strategies, backtests and imports of past executions never reach a broker and are run beside the engine. Operator scripts, migrations, the
  assembly of the application, the earlier \<open>tools/mt5_bridge.py\<close> and the web client are glue or superseded. In modelled files: the decorator that
  observes calls, log lines, the order of rows in a list for display, the clock synchronisation and signature of the Bybit
  transport (one request), \<open>assert_ibkr_assignment\<close>, and the two operations of the IBKR client that nothing calls.
\<close>

end
